(* ===== verification/Prelude.thy ===== *)
theory Prelude
  imports Complex_Main
begin

text \<open>
  Shared ground of the development: association-list tables (the model of one
  relational table with an auto-increment primary key), the interface every table offers as
  the locale \<open>table_store\<close>, decimal rendering of natural numbers, and the theorem
  collections that the component theories fill and use.
\<close>

named_theorems grows_intro \<open>monadic actions only extend the durable intents\<close>
named_theorems keeps_intro \<open>monadic actions keep a database invariant\<close>
named_theorems body_intro \<open>transaction bodies keep a database invariant\<close>
named_theorems enum_defs \<open>the finite sets of enum members the code names\<close>

section \<open>Tables\<close>

type_synonym 'r table = "(nat \<times> 'r) list"

fun t_get :: "'r table \<Rightarrow> nat \<Rightarrow> 'r option" where
  "t_get [] i = None"
| "t_get ((j, r) # t) i = (if j = i then Some r else t_get t i)"

fun t_put :: "'r table \<Rightarrow> nat \<Rightarrow> 'r \<Rightarrow> 'r table" where
  "t_put [] i r = []"
| "t_put ((j, q) # t) i r = (if j = i then (j, r) # t else (j, q) # t_put t i r)"

definition t_next :: "'r table \<Rightarrow> nat" where
  "t_next t = Suc (Max (insert 0 (set (map fst t))))"

lemma t_next_code [code]: "t_next t = Suc (fold max (map fst t) 0)"
  by (simp add: t_next_def Max.set_eq_fold del: set_map flip: list.set(2))

definition t_add :: "'r table \<Rightarrow> 'r \<Rightarrow> 'r table" where
  "t_add t r = t @ [(t_next t, r)]"

fun t_find :: "('r \<Rightarrow> bool) \<Rightarrow> 'r table \<Rightarrow> (nat \<times> 'r) option" where
  "t_find P [] = None"
| "t_find P ((i, r) # t) = (if P r then Some (i, r) else t_find P t)"

definition t_select :: "('r \<Rightarrow> bool) \<Rightarrow> 'r table \<Rightarrow> (nat \<times> 'r) list" where
  "t_select P t = filter (\<lambda>(i, r). P r) t"

definition t_wf :: "'r table \<Rightarrow> bool" where
  "t_wf t \<longleftrightarrow> distinct (map fst t)"

lemma t_get_iff_map_of: "t_get t i = map_of t i"
  by (induction t i rule: t_get.induct) auto

lemma t_get_put: "t_get (t_put t i r) j = (if i = j \<and> t_get t i \<noteq> None then Some r else t_get t j)"
  by (induction t i r rule: t_put.induct) auto

lemma t_get_put_same [simp]: "t_get t i = Some q \<Longrightarrow> t_get (t_put t i r) i = Some r"
  by (simp add: t_get_put)

lemma t_get_put_other [simp]: "i \<noteq> j \<Longrightarrow> t_get (t_put t i r) j = t_get t j"
  by (simp add: t_get_put)

lemma fst_t_put [simp]: "map fst (t_put t i r) = map fst t"
  by (induction t i r rule: t_put.induct) auto

lemma t_next_greater: "i \<in> set (map fst t) \<Longrightarrow> i < t_next t"
  unfolding t_next_def by (rule le_imp_less_Suc) (rule Max_ge, simp_all)

lemma t_next_fresh: "t_next t \<notin> set (map fst t)"
  using t_next_greater [of "t_next t" t] by blast

lemma t_get_fresh [simp]: "t_get t (t_next t) = None"
  using t_next_fresh [of t] by (simp add: t_get_iff_map_of map_of_eq_None_iff image_image)

lemma t_get_append: "t_get (t @ u) i = (case t_get t i of None \<Rightarrow> t_get u i | Some r \<Rightarrow> Some r)"
  by (induction t i rule: t_get.induct) auto

lemma t_get_add: "t_get (t_add t r) i = (if i = t_next t then Some r else t_get t i)"
  by (simp add: t_add_def t_get_append split: option.split)

lemma t_get_add_new [simp]: "t_get (t_add t r) (t_next t) = Some r"
  by (simp add: t_get_add)

lemma t_get_add_old: "t_get t i = Some q \<Longrightarrow> t_get (t_add t r) i = Some q"
  by (auto simp: t_get_add)

lemma t_wf_put [simp]: "t_wf (t_put t i r) = t_wf t"
  by (simp add: t_wf_def)

lemma t_wf_add [simp]: "t_wf t \<Longrightarrow> t_wf (t_add t r)"
  using t_next_fresh [of t] by (auto simp: t_wf_def t_add_def)

lemma t_get_Some_mem: "t_get t i = Some r \<Longrightarrow> (i, r) \<in> set t"
  by (simp add: t_get_iff_map_of map_of_SomeD)

lemma t_get_mem: "t_wf t \<Longrightarrow> (i, r) \<in> set t \<Longrightarrow> t_get t i = Some r"
  by (simp add: t_get_iff_map_of t_wf_def)

lemma t_find_Some: "t_find P t = Some (i, r) \<Longrightarrow> (i, r) \<in> set t \<and> P r"
  by (induction P t rule: t_find.induct) (auto split: if_splits)

lemma t_find_None: "t_find P t = None \<longleftrightarrow> (\<forall>(i, r) \<in> set t. \<not> P r)"
  by (induction P t rule: t_find.induct) auto

lemma t_find_get: "t_wf t \<Longrightarrow> t_find P t = Some (i, r) \<Longrightarrow> t_get t i = Some r"
  by (auto dest: t_find_Some intro: t_get_mem)

lemma t_select_mem: "(i, r) \<in> set (t_select P t) \<longleftrightarrow> (i, r) \<in> set t \<and> P r"
  by (auto simp: t_select_def)

lemma set_t_add: "set (t_add t r) = insert (t_next t, r) (set t)"
  by (auto simp: t_add_def)

lemma set_t_put: "set (t_put t i r) \<subseteq> insert (i, r) (set t)"
  by (induction t i r rule: t_put.induct) auto

lemma t_put_mem: "(j, q) \<in> set (t_put t i r) \<Longrightarrow> (j = i \<and> q = r) \<or> (j, q) \<in> set t"
  using set_t_put [of t i r] by auto

section \<open>The interface of a table\<close>

text \<open>
  What the repositories rely on: a row is read back after it was written, other rows are left
  alone, and the primary key handed out for an insert is fresh.
\<close>

locale table_store =
  fixes lookup :: "'t \<Rightarrow> nat \<Rightarrow> 'r option"
    and insert_row :: "'t \<Rightarrow> 'r \<Rightarrow> 't"
    and next_id :: "'t \<Rightarrow> nat"
    and update_row :: "'t \<Rightarrow> nat \<Rightarrow> 'r \<Rightarrow> 't"
  assumes lookup_insert: "lookup (insert_row t r) i = (if i = next_id t then Some r else lookup t i)"
    and fresh: "lookup t (next_id t) = None"
    and lookup_update:
      "lookup (update_row t i r) j = (if i = j \<and> lookup t i \<noteq> None then Some r else lookup t j)"
begin

lemma insert_keeps: "lookup t i = Some q \<Longrightarrow> lookup (insert_row t r) i = Some q"
  using fresh [of t] by (auto simp: lookup_insert)

lemma update_defined: "lookup (update_row t i r) j = None \<longleftrightarrow> lookup t j = None"
  by (auto simp: lookup_update)

lemma update_then_insert:
  "lookup (insert_row (update_row t i r) s) i = Some r"
  if "lookup t i = Some q" for t i r s q
  using that by (intro insert_keeps) (simp add: lookup_update)

text \<open>A property of every row survives an insert and an update of rows that have it.\<close>

lemma all_rows_insert:
  "(\<forall>i r. lookup t i = Some r \<longrightarrow> P r) \<Longrightarrow> P s \<Longrightarrow>
   \<forall>i r. lookup (insert_row t s) i = Some r \<longrightarrow> P r"
  by (auto simp: lookup_insert)

lemma all_rows_update:
  "(\<forall>i r. lookup t i = Some r \<longrightarrow> P r) \<Longrightarrow> P s \<Longrightarrow>
   \<forall>i r. lookup (update_row t k s) i = Some r \<longrightarrow> P r"
  by (auto simp: lookup_update)

end

interpretation tab: table_store t_get t_add t_next t_put
  by unfold_locales (simp_all add: t_get_add t_get_put)

section \<open>Decimal rendering of natural numbers\<close>

fun nat_digits :: "nat \<Rightarrow> string" where
  "nat_digits n =
     (if n < 10 then [char_of (48 + n)] else nat_digits (n div 10) @ [char_of (48 + n mod 10)])"

declare nat_digits.simps [simp del]

lemma nat_digits_less: "n < 10 \<Longrightarrow> nat_digits n = [char_of (48 + n)]"
  by (subst nat_digits.simps) simp

lemma nat_digits_ge: "\<not> n < 10 \<Longrightarrow> nat_digits n = nat_digits (n div 10) @ [char_of (48 + n mod 10)]"
  by (subst nat_digits.simps) simp

lemma nat_digits_nonempty: "nat_digits n \<noteq> []"
  by (subst nat_digits.simps) simp

lemma digit_char_inj: "a < 10 \<Longrightarrow> b < 10 \<Longrightarrow> (char_of (48 + a) :: char) = char_of (48 + b) \<Longrightarrow> a = b"
  for a b :: nat
  by (simp add: char_of_eq_iff take_bit_nat_eq_self)

lemma length_nat_digits_le: "n < 10 ^ k \<Longrightarrow> 0 < k \<Longrightarrow> length (nat_digits n) \<le> k"
proof (induction k arbitrary: n)
  case 0
  then show ?case by simp
next
  case (Suc k)
  show ?case
  proof (cases "n < 10")
    case True
    then show ?thesis by (simp add: nat_digits_less)
  next
    case False
    then have k: "0 < k" using Suc.prems by (cases k) auto
    have "n div 10 < 10 ^ k" using Suc.prems(1) by (simp add: less_mult_imp_div_less mult.commute)
    with k have "length (nat_digits (n div 10)) \<le> k" by (intro Suc.IH)
    with False show ?thesis by (simp add: nat_digits_ge)
  qed
qed

lemma length_nat_digits_gt: "10 ^ k \<le> n \<Longrightarrow> k < length (nat_digits n)"
proof (induction k arbitrary: n)
  case 0
  then show ?case using nat_digits_nonempty by simp
next
  case (Suc k)
  then have "10 ^ k \<le> n div 10" by (simp add: less_eq_div_iff_mult_less_eq mult.commute)
  then have "k < length (nat_digits (n div 10))" by (rule Suc.IH)
  moreover have "\<not> n < 10"
  proof -
    have "(1 :: nat) \<le> 10 ^ k" by simp
    then show ?thesis using Suc.prems unfolding power_Suc by linarith
  qed
  ultimately show ?case by (simp add: nat_digits_ge)
qed

lemma nat_digits_inj: "nat_digits m = nat_digits n \<Longrightarrow> m = n"
proof (induction m arbitrary: n rule: nat_digits.induct)
  case (1 m)
  show ?case
  proof (cases "m < 10"; cases "n < 10")
    assume "m < 10" and "n < 10"
    then show ?thesis using "1.prems" by (auto simp: nat_digits_less dest: digit_char_inj)
  next
    assume "m < 10" and "\<not> n < 10"
    then show ?thesis using "1.prems" nat_digits_nonempty [of "n div 10"]
      by (simp add: nat_digits_less nat_digits_ge Cons_eq_append_conv)
  next
    assume "\<not> m < 10" and "n < 10"
    then show ?thesis using "1.prems" nat_digits_nonempty [of "m div 10"]
      by (simp add: nat_digits_less nat_digits_ge append_eq_Cons_conv)
  next
    assume m: "\<not> m < 10" and n: "\<not> n < 10"
    then have "nat_digits (m div 10) = nat_digits (n div 10)"
      and "(char_of (48 + m mod 10) :: char) = char_of (48 + n mod 10)"
      using "1.prems" by (simp_all add: nat_digits_ge)
    then have "m div 10 = n div 10" and "m mod 10 = n mod 10"
      using "1.IH" [OF m] by (auto dest: digit_char_inj [rotated 2])
    then show ?thesis by (metis div_mult_mod_eq)
  qed
qed

lemma nat_digits_chars: "c \<in> set (nat_digits n) \<Longrightarrow> \<exists>d < 10. c = char_of (48 + d :: nat)"
proof (induction n rule: nat_digits.induct)
  case (1 n)
  show ?case
  proof (cases "n < 10")
    case True
    then show ?thesis using "1.prems" by (auto simp: nat_digits_less)
  next
    case False
    then have "c \<in> set (nat_digits (n div 10)) \<or> c = char_of (48 + n mod 10)"
      using "1.prems" by (auto simp: nat_digits_ge)
    moreover have "n mod 10 < 10" by simp
    ultimately show ?thesis using "1.IH" [OF False] by blast
  qed
qed

lemma nat_digits_no_colon: "CHR '':'' \<notin> set (nat_digits n)"
proof
  assume "CHR '':'' \<in> set (nat_digits n)"
  then obtain d :: nat where "d < 10" and "CHR '':'' = char_of (48 + d)"
    by (auto dest: nat_digits_chars)
  then show False by (simp add: eq_commute [of _ "char_of _"] char_of_eq_iff take_bit_nat_eq_self)
qed

end
