(* ===== verification/Enums.thy ===== *)
theory Enums
  imports Prelude
begin

text \<open>
  The fixed vocabulary of the platform: the enums of \<open>common/enums.py\<close>, the exception
  classes of \<open>brokers/exceptions.py\<close>, \<open>database/repositories/exceptions.py\<close> and the
  standard-library exceptions the modelled code raises, and the data transfer objects of
  \<open>brokers/broker_base.py\<close>. Every enum member's database value is its own name; the value
  functions are given for the enums whose value the code renders into a string.
\<close>

section \<open>Enums (common/enums.py)\<close>

datatype broker_name = KITE | SIMULATION

datatype exchange = NFO | BFO | NSE | BSE

datatype option_type = CE | PE

datatype instance_status = IS_ACTIVE | IS_FROZEN | IS_DISABLED

datatype position_state = IDLE | ENTRY_PENDING | OPEN | EXIT_PENDING | CLOSED | PS_ERROR

datatype exit_reason = TARGET | STOPLOSS | TIMEOUT | ER_KILL_SWITCH | ER_MANUAL | ER_ERROR

datatype trade_leg_status = TL_PENDING | TL_OPEN | TL_CLOSED | TL_UNWOUND | TL_ERROR

datatype order_purpose = ENTRY | EXIT

datatype transaction_type = BUY | SELL

datatype order_type = MARKET | LIMIT

datatype product_type = INTRADAY | NORMAL

datatype order_status = OS_PENDING | OS_OPEN | COMPLETE | REJECTED | OS_CANCELLED | OS_ERROR

datatype intent_status =
  IN_PENDING | SUBMITTED_UNCONFIRMED | PLACED | CONFIRMED | IN_FAILED | IN_CANCELLED

datatype actor = STRATEGY | RISK_MANAGER | AC_KILL_SWITCH | RECOVERY | AC_MANUAL

datatype flag_type = RF_KILL_SWITCH | EMERGENCY_EXIT | FREEZE

datatype flag_scope = GLOBAL | ACCOUNT | STRATEGY_INSTANCE

datatype break_type =
  ORPHAN_FILL | BROKER_FLAT_DB_OPEN | AMBIGUOUS_ACK | PARTIAL_ENTRY | QUANTITY_MISMATCH | BT_OTHER

datatype resolution = RS_PENDING | AUTO_REPAIRED | RS_MANUAL

fun exchange_value :: "exchange \<Rightarrow> string" where
  "exchange_value NSE = ''NSE''"
| "exchange_value BSE = ''BSE''"
| "exchange_value NFO = ''NFO''"
| "exchange_value BFO = ''BFO''"

fun option_type_value :: "option_type \<Rightarrow> string" where
  "option_type_value CE = ''CE''"
| "option_type_value PE = ''PE''"

fun order_purpose_value :: "order_purpose \<Rightarrow> string" where
  "order_purpose_value ENTRY = ''ENTRY''"
| "order_purpose_value EXIT = ''EXIT''"

fun exit_reason_value :: "exit_reason \<Rightarrow> string" where
  "exit_reason_value TARGET = ''TARGET''"
| "exit_reason_value STOPLOSS = ''STOPLOSS''"
| "exit_reason_value TIMEOUT = ''TIMEOUT''"
| "exit_reason_value ER_KILL_SWITCH = ''KILL_SWITCH''"
| "exit_reason_value ER_MANUAL = ''MANUAL''"
| "exit_reason_value ER_ERROR = ''ERROR''"

definition all_exit_reasons :: "exit_reason list" where
  "all_exit_reasons = [TARGET, STOPLOSS, TIMEOUT, ER_KILL_SWITCH, ER_MANUAL, ER_ERROR]"

lemma all_exit_reasons_set: "set all_exit_reasons = UNIV"
proof -
  have "r \<in> set all_exit_reasons" for r by (cases r) (simp_all add: all_exit_reasons_def)
  then show ?thesis by auto
qed

lemma exit_reason_value_inj: "exit_reason_value r = exit_reason_value s \<longleftrightarrow> r = s"
  by (cases r; cases s) simp_all

lemma option_type_value_inj: "option_type_value a = option_type_value b \<longleftrightarrow> a = b"
  by (cases a; cases b) simp_all

lemma order_purpose_value_inj: "order_purpose_value a = order_purpose_value b \<longleftrightarrow> a = b"
  by (cases a; cases b) simp_all

lemma option_type_value_length [simp]: "length (option_type_value t) = 2"
  by (cases t) simp_all

section \<open>Exceptions\<close>

text \<open>
  One constructor per exception class the modelled code raises or catches. The broker family
  carries the message, because the code stores it (\<open>str(exc)\<close>). \<open>ProcessCrash\<close> is the death of
  the process: it is not an \<open>Exception\<close>, so no \<open>except\<close> clause of the program sees it.
\<close>

datatype exn =
    BrokerConnectionError string
  | BrokerTimeoutError string
  | BrokerRateLimitExceededError string
  | BrokerAuthenticationError string
  | OrderRejectedError string
  | OrderNotFoundError string
  | OrderNotModifiableError string
  | OrderNotCancellableError string
  | InstrumentNotFoundError string
  | InvalidOrderRequestError string
  | ConcurrentModificationError
  | NotFoundError
  | IntegrityError
  | DatabaseError
  | IllegalStateTransitionError position_state position_state actor
  | MissingFillPriceError
  | StrikeSelectionError
  | ValueError
  | KeyError
  | LookupError
  | RuntimeError
  | AssertionError
  | TypeError
  | AttributeError
  | BrokerErrorBase string
  | KiteMappingError string
  | MarketDataUnavailableError string
  | FileNotFoundError
  | ProcessCrash

fun is_retryable_broker_error :: "exn \<Rightarrow> bool" where
  "is_retryable_broker_error (BrokerConnectionError _) = True"
| "is_retryable_broker_error (BrokerTimeoutError _) = True"
| "is_retryable_broker_error (BrokerRateLimitExceededError _) = True"
| "is_retryable_broker_error _ = False"

fun is_nonretryable_broker_error :: "exn \<Rightarrow> bool" where
  "is_nonretryable_broker_error (BrokerAuthenticationError _) = True"
| "is_nonretryable_broker_error (OrderRejectedError _) = True"
| "is_nonretryable_broker_error (OrderNotFoundError _) = True"
| "is_nonretryable_broker_error (OrderNotModifiableError _) = True"
| "is_nonretryable_broker_error (OrderNotCancellableError _) = True"
| "is_nonretryable_broker_error (InstrumentNotFoundError _) = True"
| "is_nonretryable_broker_error (InvalidOrderRequestError _) = True"
| "is_nonretryable_broker_error _ = False"

text \<open>
  \<open>BrokerErrorBase\<close> is an instance of the base class itself, \<open>KiteMappingError\<close> and
  \<open>MarketDataUnavailableError\<close> derive directly from it: all three are broker errors, none is retryable
  nor non-retryable.
\<close>

fun is_plain_broker_error :: "exn \<Rightarrow> bool" where
  "is_plain_broker_error (BrokerErrorBase _) = True"
| "is_plain_broker_error (KiteMappingError _) = True"
| "is_plain_broker_error (MarketDataUnavailableError _) = True"
| "is_plain_broker_error _ = False"

definition is_broker_error :: "exn \<Rightarrow> bool" where
  "is_broker_error e \<longleftrightarrow>
     is_retryable_broker_error e \<or> is_nonretryable_broker_error e \<or> is_plain_broker_error e"

definition is_exception :: "exn \<Rightarrow> bool" where
  "is_exception e \<longleftrightarrow> e \<noteq> ProcessCrash"

lemma broker_error_is_exception: "is_broker_error e \<Longrightarrow> is_exception e"
  by (cases e) (simp_all add: is_broker_error_def is_exception_def)

lemma retryable_nonretryable_disjoint:
  "\<not> (is_retryable_broker_error e \<and> is_nonretryable_broker_error e)"
  by (cases e) simp_all

end
