(* ===== verification/Py_Decimal.thy ===== *)
theory Py_Decimal
  imports Prelude
begin

text \<open>
  Money. A Python \<open>Decimal\<close> is modelled by its value, a rational; sums, differences and
  products of the amounts this program handles (NUMERIC(18,4) columns, fractions with four
  decimals, quantities) stay below the 28 digits of the default context and are exact, so they
  are the operations of \<open>rat\<close>. A division is not exact and is rounded to 28 significant digits,
  half to even (\<open>dec_div\<close>). \<open>quantize(..., ROUND_HALF_UP)\<close> rounds half away from zero
  (\<open>round_half_up\<close>). A value written to a NUMERIC(18,4) column is rounded by PostgreSQL to four
  decimals, half away from zero (\<open>num4\<close>). The second part models \<open>common/utilities.py\<close>.
\<close>

type_synonym decimal = rat

section \<open>Rounding\<close>

definition round_half_up :: "rat \<Rightarrow> int" where
  "round_half_up x = (if 0 \<le> x then \<lfloor>x + 1/2\<rfloor> else - \<lfloor>1/2 - x\<rfloor>)"

definition round_half_even :: "rat \<Rightarrow> int" where
  "round_half_even x =
     (let f = \<lfloor>x\<rfloor>; d = x - of_int f
      in if d < 1/2 then f else if d > 1/2 then f + 1 else if even f then f else f + 1)"

definition num4 :: "decimal \<Rightarrow> decimal" where
  "num4 x = of_int (round_half_up (x * 10000)) / 10000"

lemma round_half_up_of_int [simp]: "round_half_up (of_int n) = n"
proof -
  have "\<lfloor>(of_int n :: rat) + 1/2\<rfloor> = n" by (simp add: floor_eq_iff)
  moreover have "\<lfloor>1/2 - (of_int n :: rat)\<rfloor> = - n" by (simp add: floor_eq_iff)
  ultimately show ?thesis by (simp add: round_half_up_def)
qed

lemma round_half_up_0 [simp]: "round_half_up 0 = 0"
  using round_half_up_of_int [of 0] by simp

lemma floor_half_error: "\<bar>of_int \<lfloor>x + 1/2\<rfloor> - x\<bar> \<le> 1/2" for x :: rat
proof -
  have "of_int \<lfloor>x + 1/2\<rfloor> \<le> x + 1/2" and "x + 1/2 < of_int \<lfloor>x + 1/2\<rfloor> + 1"
    using floor_correct [of "x + 1/2"] by auto
  then show ?thesis unfolding abs_le_iff by linarith
qed

lemma round_half_up_error: "\<bar>of_int (round_half_up x) - x\<bar> \<le> 1/2"
proof (cases "0 \<le> x")
  case True
  then show ?thesis using floor_half_error [of x] by (simp add: round_half_up_def)
next
  case False
  have "\<bar>of_int \<lfloor>(- x) + 1/2\<rfloor> - (- x)\<bar> \<le> 1/2" by (rule floor_half_error)
  moreover have "(- x) + 1/2 = 1/2 - x" by simp
  ultimately have "\<bar>of_int \<lfloor>1/2 - x\<rfloor> - (- x)\<bar> \<le> 1/2" by simp
  then have "\<bar>- of_int \<lfloor>1/2 - x\<rfloor> - x\<bar> \<le> 1/2" unfolding abs_le_iff by linarith
  then show ?thesis using False by (simp add: round_half_up_def)
qed

lemma round_half_even_error: "\<bar>of_int (round_half_even x) - x\<bar> \<le> 1/2"
  using floor_correct [of x] by (auto simp: round_half_even_def Let_def abs_le_iff)

lemma round_half_up_nonneg: "0 \<le> x \<Longrightarrow> 0 \<le> round_half_up x"
  by (simp add: round_half_up_def)

lemma round_half_up_neg: "round_half_up (- x) = - round_half_up x"
proof (cases "x = 0")
  case True
  then show ?thesis by simp
next
  case False
  then show ?thesis by (auto simp: round_half_up_def add.commute)
qed

lemma round_half_up_mono: "x \<le> y \<Longrightarrow> round_half_up x \<le> round_half_up y"
proof -
  assume le: "x \<le> y"
  have neg: "- \<lfloor>1/2 - x\<rfloor> \<le> \<lfloor>y + 1/2\<rfloor>" if "x < 0" "0 \<le> y"
  proof -
    have "0 \<le> \<lfloor>1/2 - x\<rfloor>" and "0 \<le> \<lfloor>y + 1/2\<rfloor>" using that by simp_all
    then show ?thesis by linarith
  qed
  show ?thesis
    using le neg by (auto simp: round_half_up_def intro!: floor_mono)
qed

lemma num4_0 [simp]: "num4 0 = 0"
  by (simp add: num4_def)

lemma num4_error: "\<bar>num4 x - x\<bar> \<le> 1/20000"
proof -
  have eq: "num4 x - x = (of_int (round_half_up (x * 10000)) - x * 10000) / 10000"
    by (simp add: num4_def field_simps)
  show ?thesis unfolding eq abs_divide
    using round_half_up_error [of "x * 10000"] by simp
qed

lemma num4_idem [simp]: "num4 (num4 x) = num4 x"
  by (simp add: num4_def)

lemma num4_mono: "x \<le> y \<Longrightarrow> num4 x \<le> num4 y"
  by (simp add: num4_def divide_right_mono round_half_up_mono)

lemma num4_nonneg: "0 \<le> x \<Longrightarrow> 0 \<le> num4 x"
  using num4_mono [of 0 x] by simp

definition on_grid :: "decimal \<Rightarrow> bool" where
  "on_grid x \<longleftrightarrow> num4 x = x"

lemma on_grid_iff: "on_grid x \<longleftrightarrow> (\<exists>n :: int. x = of_int n / 10000)"
  by (auto simp: on_grid_def num4_def) metis

lemma on_grid_num4 [simp]: "on_grid (num4 x)"
  by (simp add: on_grid_def)

lemma on_grid_add: "on_grid x \<Longrightarrow> on_grid y \<Longrightarrow> on_grid (x + y)"
  unfolding on_grid_iff by (metis add_divide_distrib of_int_add)

lemma on_grid_diff: "on_grid x \<Longrightarrow> on_grid y \<Longrightarrow> on_grid (x - y)"
  unfolding on_grid_iff by (metis diff_divide_distrib of_int_diff)

lemma on_grid_mult_int: "on_grid x \<Longrightarrow> on_grid (x * of_int n)"
  unfolding on_grid_iff by (metis of_int_mult times_divide_eq_left)

section \<open>The 28-digit context\<close>

definition pow10 :: "int \<Rightarrow> rat" where
  "pow10 k = (if 0 \<le> k then 10 ^ nat k else 1 / 10 ^ nat (- k))"

lemma pow10_pos [simp]: "0 < pow10 k"
  by (simp add: pow10_def)

lemma pow10_nonzero [simp]: "pow10 k \<noteq> 0"
  by (rule less_imp_neq [OF pow10_pos, symmetric])

lemma pow10_nonneg [simp]: "0 \<le> pow10 k"
  by (rule less_imp_le [OF pow10_pos])

lemma pow10_of_nat: "pow10 (int n) = 10 ^ n" and pow10_of_neg: "pow10 (- int n) = 1 / 10 ^ n"
  by (auto simp: pow10_def)

lemma pow10_diff_nat: "pow10 (int a - int b) = 10 ^ a / 10 ^ b"
proof (cases "b \<le> a")
  case True
  then obtain c where a: "a = b + c" using le_Suc_ex by blast
  have eq: "int a - int b = int c" by (simp add: a)
  show ?thesis unfolding eq pow10_of_nat by (simp add: a power_add)
next
  case False
  then obtain c where b: "b = a + c" using le_Suc_ex [of a b] by auto
  have eq: "int a - int b = - int c" by (simp add: b)
  show ?thesis unfolding eq pow10_of_neg by (simp add: b power_add)
qed

lemma pow10_inverse: "pow10 k * pow10 (- k) = 1"
  by (simp add: pow10_def)

lemma pow10_27_minus: "pow10 (27 - e) * pow10 e = 10 ^ 27"
proof (cases "0 \<le> e")
  case True
  then obtain n where e: "e = int n" by (metis nonneg_int_cases)
  have "pow10 (27 - int n) = 10 ^ 27 / 10 ^ n" using pow10_diff_nat [of 27 n] by simp
  then show ?thesis by (simp add: e pow10_def)
next
  case False
  then obtain n where e: "e = - int n" by (metis int_cases2 of_nat_0_le_iff)
  have "pow10 (27 - e) = 10 ^ (27 + n)" using pow10_diff_nat [of "27 + n" 0] by (simp add: e)
  moreover have "pow10 e = 1 / 10 ^ n" using pow10_diff_nat [of 0 n] by (simp add: e)
  ultimately show ?thesis by (simp add: power_add)
qed

fun num_digits :: "nat \<Rightarrow> nat" where
  "num_digits n = (if n < 10 then 1 else Suc (num_digits (n div 10)))"

declare num_digits.simps [simp del]

lemma num_digits_upper: "n < 10 ^ num_digits n"
proof (induction n rule: num_digits.induct)
  case (1 n)
  then show ?case by (cases "n < 10") (auto simp: num_digits.simps [of n])
qed

lemma num_digits_lower: "0 < n \<Longrightarrow> 10 ^ (num_digits n - 1) \<le> n"
proof (induction n rule: num_digits.induct)
  case (1 n)
  show ?case
  proof (cases "n < 10")
    case True
    then show ?thesis using "1.prems" by (simp add: num_digits.simps [of n])
  next
    case False
    then have IH: "10 ^ (num_digits (n div 10) - 1) \<le> n div 10" using "1.IH" by simp
    have pos: "0 < num_digits (n div 10)" by (subst num_digits.simps) simp
    have "(10 :: nat) ^ num_digits (n div 10) = 10 * 10 ^ (num_digits (n div 10) - 1)"
      using pos by (simp flip: power_Suc)
    also have "\<dots> \<le> 10 * (n div 10)" using IH by simp
    also have "\<dots> \<le> n" by simp
    finally show ?thesis using False by (simp add: num_digits.simps [of n])
  qed
qed

lemma num_digits_pos: "0 < num_digits n"
  by (subst num_digits.simps) simp

text \<open>\<open>adjusted x\<close> is the decimal exponent of the leading digit of \<open>x\<close>.\<close>

definition adjusted :: "rat \<Rightarrow> int" where
  "adjusted x =
     (let (p, q) = quotient_of \<bar>x\<bar>; n = int (num_digits (nat p)) - int (num_digits (nat q))
      in if pow10 n \<le> \<bar>x\<bar> then n else n - 1)"

text \<open>Code equations that keep the digit count on binary integers.\<close>

definition int_digits :: "int \<Rightarrow> nat" where
  "int_digits i = num_digits (nat i)"

lemma int_digits_code [code]: "int_digits i = (if i < 10 then 1 else Suc (int_digits (i div 10)))"
proof -
  have "(nat i < 10) = (i < 10)" by linarith
  then show ?thesis
    using num_digits.simps [of "nat i"] by (auto simp: int_digits_def nat_div_distrib)
qed

lemma adjusted_code [code]:
  "adjusted x =
     (let (p, q) = quotient_of \<bar>x\<bar>; n = int (int_digits p) - int (int_digits q)
      in if pow10 n \<le> \<bar>x\<bar> then n else n - 1)"
  by (simp add: adjusted_def int_digits_def)

definition ctx28 :: "rat \<Rightarrow> decimal" where
  "ctx28 x =
     (if x = 0 then 0
      else let k = 27 - adjusted x in of_int (round_half_even (x * pow10 k)) / pow10 k)"

definition dec_div :: "decimal \<Rightarrow> decimal \<Rightarrow> decimal" where
  "dec_div x y = ctx28 (x / y)"

lemma adjusted_lower:
  assumes "x \<noteq> 0" shows "pow10 (adjusted x) \<le> \<bar>x\<bar>"
proof -
  obtain p q where pq: "quotient_of \<bar>x\<bar> = (p, q)" by force
  have q: "0 < q" using quotient_of_denom_pos [OF pq] .
  have eq: "\<bar>x\<bar> = of_int p / of_int q" using quotient_of_div [OF pq] .
  have p: "0 < p" using assms eq q by (metis abs_ge_zero abs_eq_0 linorder_neqE_linordered_idom
        div_0 divide_less_0_iff not_le of_int_0 of_int_0_less_iff of_int_less_0_iff)
  define a where "a = num_digits (nat p)"
  define b where "b = num_digits (nat q)"
  have "10 ^ (a - 1) \<le> nat p" unfolding a_def using p by (intro num_digits_lower) simp
  then have "of_nat (10 ^ (a - 1)) \<le> (of_nat (nat p) :: rat)" by (rule of_nat_mono)
  then have pa: "10 ^ (a - 1) \<le> (of_int p :: rat)" using p by simp
  have "nat q < 10 ^ b" unfolding b_def by (rule num_digits_upper)
  then have "(of_nat (nat q) :: rat) < of_nat (10 ^ b)" by (rule of_nat_less_iff [THEN iffD2])
  then have qb: "of_int q < (10 ^ b :: rat)" using q by simp
  have a1: "1 \<le> a" unfolding a_def using num_digits_pos [of "nat p"] by simp
  then have "int a - int b - 1 = int (a - 1) - int b" by simp
  then have "pow10 (int a - int b - 1) = 10 ^ (a - 1) / 10 ^ b" by (simp only: pow10_diff_nat)
  also have "\<dots> \<le> of_int p / of_int q"
    using pa qb q p by (intro frac_le) simp_all
  finally have low: "pow10 (int a - int b - 1) \<le> \<bar>x\<bar>" by (simp add: eq)
  show ?thesis
    using low by (simp add: adjusted_def pq Let_def flip: a_def b_def)
qed

lemma ctx28_error: "\<bar>ctx28 x - x\<bar> \<le> \<bar>x\<bar> / (2 * 10 ^ 27)"
proof (cases "x = 0")
  case True
  then show ?thesis by (simp add: ctx28_def)
next
  case False
  define k where "k = 27 - adjusted x"
  have pos: "0 < pow10 k" by simp
  have "\<bar>of_int (round_half_even (x * pow10 k)) - x * pow10 k\<bar> \<le> 1/2"
    by (rule round_half_even_error)
  then have "\<bar>of_int (round_half_even (x * pow10 k)) - x * pow10 k\<bar> / pow10 k \<le> (1/2) / pow10 k"
    using pos by (intro divide_right_mono) simp_all
  moreover have "ctx28 x - x = (of_int (round_half_even (x * pow10 k)) - x * pow10 k) / pow10 k"
    using False pos by (simp add: ctx28_def Let_def k_def diff_divide_distrib)
  ultimately have "\<bar>ctx28 x - x\<bar> \<le> (1/2) / pow10 k" by (simp add: abs_divide)
  also have "(1/2) / pow10 k = pow10 (adjusted x) / (2 * 10 ^ 27)"
    using pow10_27_minus [of "adjusted x"] pos by (simp add: k_def field_simps)
  also have "\<dots> \<le> \<bar>x\<bar> / (2 * 10 ^ 27)"
    using adjusted_lower [OF False] by (intro divide_right_mono) simp_all
  finally show ?thesis .
qed

lemma ctx28_of_exact:
  assumes "x * pow10 (27 - adjusted x) = of_int m"
  shows "ctx28 x = x"
proof (cases "x = 0")
  case True
  then show ?thesis by (simp add: ctx28_def)
next
  case False
  have "round_half_even (of_int m) = m" by (simp add: round_half_even_def)
  then show ?thesis
    using assms False pow10_pos [of "27 - adjusted x"]
    by (simp add: ctx28_def Let_def divide_eq_eq)
qed

lemma ctx28_0 [simp]: "ctx28 0 = 0"
  by (simp add: ctx28_def)

lemma ctx28_nonneg: "0 \<le> x \<Longrightarrow> 0 \<le> ctx28 x"
proof -
  assume nn: "0 \<le> x"
  then have "x / (2 * 10 ^ 27) \<le> x / 1" by (intro divide_left_mono) simp_all
  then have "\<bar>ctx28 x - x\<bar> \<le> x" using ctx28_error [of x] nn by simp
  then show ?thesis unfolding abs_le_iff by linarith
qed

section \<open>pnl\_per\_share (common/utilities.py)\<close>

definition quantize_cents :: "decimal \<Rightarrow> decimal" where
  "quantize_cents x = of_int (round_half_up (x * 100)) / 100"

definition pnl_per_share :: "decimal option \<Rightarrow> int option \<Rightarrow> decimal option" where
  "pnl_per_share total_pnl lot_size =
     (case total_pnl of
        None \<Rightarrow> None
      | Some p \<Rightarrow>
          (case lot_size of
             None \<Rightarrow> None
           | Some l \<Rightarrow> if l = 0 then None else Some (quantize_cents (dec_div p (of_int l)))))"

lemma quantize_cents_error: "\<bar>quantize_cents x - x\<bar> \<le> 1/200"
proof -
  have eq: "quantize_cents x - x = (of_int (round_half_up (x * 100)) - x * 100) / 100"
    by (simp add: quantize_cents_def field_simps)
  show ?thesis unfolding eq abs_divide using round_half_up_error [of "x * 100"] by simp
qed

lemma pnl_per_share_None:
  "pnl_per_share total_pnl lot_size = None \<longleftrightarrow>
     total_pnl = None \<or> lot_size = None \<or> lot_size = Some 0"
  by (auto simp: pnl_per_share_def split: option.splits)

end
