(* ===== verification/Broker_Data.thy ===== *)
theory Broker_Data
  imports Enums Py_Decimal
begin

text \<open>
  The data transfer objects of \<open>brokers/broker_base.py\<close>, with the checks their pydantic
  validators make at construction (a validation failure is a \<open>ValueError\<close>). Raw broker payloads
  (\<open>raw_response\<close>) are opaque and left out. An instant is an \<open>int\<close>, microseconds since the
  epoch in UTC; a calendar date is an \<open>int\<close>, days since the epoch.
\<close>

type_synonym dt = int
type_synonym date = int

record instrument_id =
  ii_exchange :: exchange
  ii_symbol :: string

record broker_instrument =
  bi_token :: int
  bi_exchange :: exchange
  bi_symbol :: string
  bi_name :: string
  bi_lot_size :: int
  bi_tick_size :: decimal
  bi_expiry :: "date option"
  bi_strike :: "decimal option"
  bi_option_type :: "option_type option"

record place_request =
  pr_exchange :: exchange
  pr_symbol :: string
  pr_side :: transaction_type
  pr_quantity :: int
  pr_product :: product_type
  pr_order_type :: order_type
  pr_price :: "decimal option"
  pr_trigger :: "decimal option"
  pr_tag :: string

record modify_request =
  mr_order_id :: string
  mr_quantity :: "int option"
  mr_price :: "decimal option"
  mr_trigger :: "decimal option"
  mr_order_type :: "order_type option"

record broker_order =
  bo_id :: string
  bo_tag :: "string option"
  bo_status :: order_status
  bo_exchange :: exchange
  bo_symbol :: string
  bo_side :: transaction_type
  bo_product :: product_type
  bo_order_type :: order_type
  bo_quantity :: int
  bo_filled :: int
  bo_avg_price :: "decimal option"
  bo_trigger :: "decimal option"
  bo_placed_at :: "dt option"
  bo_filled_at :: "dt option"
  bo_updated_at :: "dt option"
  bo_message :: "string option"

record broker_position =
  bp_exchange :: exchange
  bp_symbol :: string
  bp_product :: product_type
  bp_quantity :: int
  bp_avg_price :: decimal
  bp_last_price :: decimal
  bp_pnl :: decimal

record broker_margins =
  bm_segment :: string
  bm_available_cash :: decimal
  bm_used_margin :: decimal
  bm_opening_balance :: decimal

record health_status =
  hs_healthy :: bool
  hs_checked_at :: dt

record tick =
  tk_instrument :: instrument_id
  tk_price :: decimal
  tk_time :: dt

definition mk_broker_instrument :: "broker_instrument \<Rightarrow> exn + broker_instrument" where
  "mk_broker_instrument i = (if 0 < bi_lot_size i then Inr i else Inl ValueError)"

definition mk_place_request :: "place_request \<Rightarrow> exn + place_request" where
  "mk_place_request r =
     (if \<not> 0 < pr_quantity r then Inl ValueError
      else if \<not> (1 \<le> length (pr_tag r) \<and> length (pr_tag r) \<le> 20) then Inl ValueError
      else if pr_order_type r = LIMIT \<and> pr_price r = None then Inl ValueError
      else if pr_order_type r = MARKET \<and> pr_price r \<noteq> None then Inl ValueError
      else Inr r)"

definition mk_broker_order :: "broker_order \<Rightarrow> exn + broker_order" where
  "mk_broker_order o1 =
     (if \<not> 0 < bo_quantity o1 then Inl ValueError
      else if \<not> 0 \<le> bo_filled o1 then Inl ValueError
      else if bo_filled o1 > bo_quantity o1 then Inl ValueError
      else Inr o1)"

definition broker_order_ok :: "broker_order \<Rightarrow> bool" where
  "broker_order_ok o1 \<longleftrightarrow> 0 < bo_quantity o1 \<and> 0 \<le> bo_filled o1 \<and> bo_filled o1 \<le> bo_quantity o1"

lemma mk_broker_order_ok: "mk_broker_order o1 = Inr o2 \<longleftrightarrow> broker_order_ok o1 \<and> o2 = o1"
  by (auto simp: mk_broker_order_def broker_order_ok_def)

lemma mk_place_request_ok:
  "mk_place_request r = Inr r' \<longleftrightarrow>
     r' = r \<and> 0 < pr_quantity r \<and> pr_tag r \<noteq> [] \<and> length (pr_tag r) \<le> 20 \<and>
     (pr_order_type r = LIMIT \<longrightarrow> pr_price r \<noteq> None) \<and>
     (pr_order_type r = MARKET \<longrightarrow> pr_price r = None)"
  by (cases "pr_tag r") (auto simp: mk_place_request_def)

definition broker_instrument_id :: "broker_instrument \<Rightarrow> instrument_id" where
  "broker_instrument_id i = \<lparr>ii_exchange = bi_exchange i, ii_symbol = bi_symbol i\<rparr>"

end
