(* ===== verification/Store.thy ===== *)
theory Store
  imports Effects Broker_Data
begin

text \<open>
  The database: one record per row of \<open>database/models/*.py\<close> and the record \<open>db\<close> of all tables.
  Columns of type NUMERIC(18,4) and NUMERIC(6,4) are written through \<open>num4\<close>, NUMERIC(12,2)
  through \<open>num2\<close>. \<open>db_constraints\<close> is the conjunction of the UNIQUE and CHECK constraints the
  models declare; PostgreSQL refuses a transaction that breaks one of them. A column that no
  modelled code reads (\<open>raw_response\<close>, \<open>broker_snapshot\<close>, timestamps of the mixin) is left out,
  and so are the foreign keys: every id stored is one the code has just read or created.
\<close>

definition num2 :: "decimal \<Rightarrow> decimal" where
  "num2 x = of_int (round_half_up (x * 100)) / 100"

lemma num2_idem [simp]: "num2 (num2 x) = num2 x"
  by (simp add: num2_def)

section \<open>Rows\<close>

record position_row =
  p_instance :: nat
  p_date :: date
  p_state :: position_state
  p_expiry :: "date option"
  p_strike :: "decimal option"
  p_interval :: "decimal option"
  p_lots :: "int option"
  p_lot_size :: "int option"
  p_quantity :: "int option"
  p_spot :: "decimal option"
  p_target_pct :: "decimal option"
  p_sl_pct :: "decimal option"
  p_entry_premium :: "decimal option"
  p_target :: "decimal option"
  p_stoploss :: "decimal option"
  p_exit_premium :: "decimal option"
  p_exit_reason :: "exit_reason option"
  p_pnl :: "decimal option"
  p_entry_signal :: "dt option"
  p_entry_done :: "dt option"
  p_exit_signal :: "dt option"
  p_exit_done :: "dt option"
  p_error :: "string option"
  p_recon :: bool
  p_version :: nat

record trade_row =
  t_position :: nat
  t_option :: option_type
  t_symbol :: string
  t_exchange :: exchange
  t_strike :: decimal
  t_quantity :: int
  t_entry_price :: "decimal option"
  t_exit_price :: "decimal option"
  t_entry_time :: "dt option"
  t_exit_time :: "dt option"
  t_pnl :: "decimal option"
  t_status :: trade_leg_status
  t_version :: nat

record intent_row =
  i_trade :: nat
  i_purpose :: order_purpose
  i_side :: transaction_type
  i_quantity :: int
  i_key :: string
  i_tag :: string
  i_status :: intent_status
  i_started :: "dt option"
  i_version :: nat

record order_row =
  o_trade :: nat
  o_intent :: "nat option"
  o_purpose :: order_purpose
  o_side :: transaction_type
  o_type :: order_type
  o_quantity :: int
  o_filled :: int
  o_avg_price :: "decimal option"
  o_status :: order_status
  o_broker_id :: "string option"
  o_tag :: "string option"
  o_placed_at :: "dt option"
  o_filled_at :: "dt option"
  o_error :: "string option"
  o_retries :: int
  o_version :: nat

record transition_row =
  x_position :: nat
  x_from :: "position_state option"
  x_to :: position_state
  x_reason :: "string option"
  x_actor :: actor

record instance_row =
  si_strategy :: string
  si_instrument :: string
  si_account :: nat
  si_exchange :: exchange
  si_status :: instance_status
  si_version :: nat

record flag_row =
  f_type :: flag_type
  f_scope :: flag_scope
  f_account :: "nat option"
  f_instance :: "nat option"
  f_active :: bool
  f_reason :: "string option"
  f_by :: "string option"
  f_at :: dt
  f_cleared_at :: "dt option"
  f_cleared_by :: "string option"
  f_version :: nat

record daily_row =
  dr_account :: nat
  dr_instrument :: "string option"
  dr_date :: date
  dr_realized :: decimal
  dr_unrealized :: decimal
  dr_limit :: decimal
  dr_breached :: bool
  dr_breached_at :: "dt option"
  dr_version :: nat

record break_row =
  b_position :: "nat option"
  b_order :: "nat option"
  b_intent :: "nat option"
  b_type :: break_type
  b_detected_at :: dt
  b_resolution :: resolution
  b_notes :: "string option"
  b_resolved_at :: "dt option"
  b_resolved_by :: "string option"
  b_version :: nat

record history_row =
  h_position :: nat
  h_instance :: "nat option"
  h_account :: "nat option"
  h_date :: date
  h_strategy :: string
  h_instrument :: string
  h_account_name :: "string option"
  h_mode :: "string option"
  h_exchange :: "exchange option"
  h_strike :: "decimal option"
  h_expiry :: "date option"
  h_call_symbol :: "string option"
  h_put_symbol :: "string option"
  h_entry_time :: "dt option"
  h_exit_time :: "dt option"
  h_entry_signal :: "dt option"
  h_exit_signal :: "dt option"
  h_holding_seconds :: "int option"
  h_holding_minutes :: "decimal option"
  h_lots :: "int option"
  h_lot_size :: "int option"
  h_quantity :: "int option"
  h_entry_premium :: "decimal option"
  h_exit_premium :: "decimal option"
  h_target :: "decimal option"
  h_stoploss :: "decimal option"
  h_target_pct :: "decimal option"
  h_sl_pct :: "decimal option"
  h_call_entry :: "decimal option"
  h_call_exit :: "decimal option"
  h_put_entry :: "decimal option"
  h_put_exit :: "decimal option"
  h_spot :: "decimal option"
  h_reason :: "exit_reason option"
  h_pnl :: "decimal option"
  h_pnl_share :: "decimal option"
  h_profit_pct :: "decimal option"
  h_weekday :: "string option"
  h_month :: "int option"
  h_entry_ids :: "(option_type \<times> string) list"
  h_exit_ids :: "(option_type \<times> string) list"

record account_row =
  ac_broker :: broker_name
  ac_client_id :: "string option"
  ac_name :: string
  ac_active :: bool

record db =
  d_positions :: "position_row table"
  d_trades :: "trade_row table"
  d_intents :: "intent_row table"
  d_orders :: "order_row table"
  d_transitions :: "transition_row table"
  d_instances :: "instance_row table"
  d_flags :: "flag_row table"
  d_daily :: "daily_row table"
  d_breaks :: "break_row table"
  d_history :: "history_row table"
  d_accounts :: "account_row table"

definition empty_db :: db where
  "empty_db = \<lparr>d_positions = [], d_trades = [], d_intents = [], d_orders = [],
     d_transitions = [], d_instances = [], d_flags = [], d_daily = [], d_breaks = [],
     d_history = [], d_accounts = []\<rparr>"

section \<open>Constraints\<close>

definition opt_all :: "('a \<Rightarrow> bool) \<Rightarrow> 'a option \<Rightarrow> bool" where
  "opt_all P x = (case x of None \<Rightarrow> True | Some y \<Rightarrow> P y)"

lemma opt_all_simps [simp]: "opt_all P None" "opt_all P (Some y) = P y"
  by (simp_all add: opt_all_def)

definition unique_by :: "('r \<Rightarrow> 'k option) \<Rightarrow> 'r table \<Rightarrow> bool" where
  "unique_by key t \<longleftrightarrow> distinct (List.map_filter key (map snd t))"

definition position_ok :: "position_row \<Rightarrow> bool" where
  "position_ok r \<longleftrightarrow>
     opt_all (\<lambda>l. 0 < l) (p_lots r) \<and>
     opt_all (\<lambda>l. 0 < l) (p_lot_size r) \<and>
     opt_all (\<lambda>q. 0 < q) (p_quantity r) \<and>
     (case (p_lots r, p_lot_size r, p_quantity r) of
        (Some l, Some z, Some q) \<Rightarrow> q = l * z | _ \<Rightarrow> True) \<and>
     opt_all (\<lambda>x. 0 < x \<and> x < 1) (p_target_pct r) \<and>
     opt_all (\<lambda>x. 0 < x \<and> x < 1) (p_sl_pct r) \<and>
     (case (p_exit_done r, p_entry_done r) of
        (Some x, Some e) \<Rightarrow> e \<le> x | _ \<Rightarrow> True)"

definition trade_ok :: "trade_row \<Rightarrow> bool" where
  "trade_ok r \<longleftrightarrow>
     0 < t_quantity r \<and>
     (case (t_exit_time r, t_entry_time r) of (Some x, Some e) \<Rightarrow> e \<le> x | _ \<Rightarrow> True) \<and>
     opt_all (\<lambda>x. 0 \<le> x) (t_entry_price r) \<and>
     opt_all (\<lambda>x. 0 \<le> x) (t_exit_price r) \<and>
     length (t_symbol r) \<le> 64"

definition intent_ok :: "intent_row \<Rightarrow> bool" where
  "intent_ok r \<longleftrightarrow> 0 < i_quantity r \<and> length (i_key r) \<le> 128 \<and> length (i_tag r) \<le> 20"

definition order_ok :: "order_row \<Rightarrow> bool" where
  "order_ok r \<longleftrightarrow>
     0 < o_quantity r \<and> 0 \<le> o_filled r \<and> o_filled r \<le> o_quantity r \<and> 0 \<le> o_retries r \<and>
     opt_all (\<lambda>s. length s \<le> 64) (o_broker_id r)"

definition flag_ok :: "flag_row \<Rightarrow> bool" where
  "flag_ok r \<longleftrightarrow>
     (f_scope r = GLOBAL \<and> f_account r = None \<and> f_instance r = None) \<or>
     (f_scope r = ACCOUNT \<and> f_account r \<noteq> None \<and> f_instance r = None) \<or>
     (f_scope r = STRATEGY_INSTANCE \<and> f_instance r \<noteq> None)"

definition rows_ok :: "('r \<Rightarrow> bool) \<Rightarrow> 'r table \<Rightarrow> bool" where
  "rows_ok P t \<longleftrightarrow> list_all (\<lambda>(i, r). P r) t"

definition db_constraints :: "db \<Rightarrow> bool" where
  "db_constraints d \<longleftrightarrow>
     rows_ok position_ok (d_positions d) \<and>
     unique_by (\<lambda>r. Some (p_instance r, p_date r)) (d_positions d) \<and>
     rows_ok trade_ok (d_trades d) \<and>
     unique_by (\<lambda>r. Some (t_position r, t_option r, t_strike r)) (d_trades d) \<and>
     rows_ok intent_ok (d_intents d) \<and>
     unique_by (\<lambda>r. Some (i_key r)) (d_intents d) \<and>
     unique_by (\<lambda>r. Some (i_tag r)) (d_intents d) \<and>
     rows_ok order_ok (d_orders d) \<and>
     unique_by o_broker_id (d_orders d) \<and>
     unique_by (\<lambda>r. Some (si_strategy r, si_instrument r, si_account r)) (d_instances d) \<and>
     rows_ok flag_ok (d_flags d) \<and>
     unique_by (\<lambda>r. if dr_instrument r = None then Some (dr_account r, dr_date r) else None)
       (d_daily d) \<and>
     unique_by (\<lambda>r. case dr_instrument r of None \<Rightarrow> None
                    | Some n \<Rightarrow> Some (dr_account r, n, dr_date r)) (d_daily d) \<and>
     unique_by (\<lambda>r. Some (h_position r)) (d_history d) \<and>
     unique_by (\<lambda>r. map_option (Pair (ac_broker r)) (ac_client_id r)) (d_accounts d)"

lemma rows_ok_get: "rows_ok P t \<Longrightarrow> t_get t i = Some r \<Longrightarrow> P r"
  by (auto simp: rows_ok_def list_all_iff dest!: t_get_Some_mem)

lemma rows_ok_mem: "rows_ok P t \<Longrightarrow> (i, r) \<in> set t \<Longrightarrow> P r"
  by (auto simp: rows_ok_def list_all_iff)

lemma rows_ok_add: "rows_ok P (t_add t r) \<longleftrightarrow> rows_ok P t \<and> P r"
  by (auto simp: rows_ok_def t_add_def)

lemma rows_ok_put: "rows_ok P t \<Longrightarrow> P r \<Longrightarrow> rows_ok P (t_put t i r)"
  by (auto simp: rows_ok_def list_all_iff dest: t_put_mem)

lemma unique_by_mem:
  assumes "unique_by key t" "(i, r) \<in> set t" "(j, q) \<in> set t" "key r = Some k" "key q = Some k"
  shows "(i, r) = (j, q)"
  using assms
proof (induction t)
  case Nil
  then show ?case by simp
next
  case (Cons x t)
  have memk: "k \<in> set (List.map_filter key (map snd t))" if "(l, s) \<in> set t" "key s = Some k" for l s
    using that by (force simp: List.map_filter_def)
  from Cons show ?case
    by (cases x) (auto simp: unique_by_def List.map_filter_simps dest: memk split: option.splits)
qed

definition db_wf :: "db \<Rightarrow> bool" where
  "db_wf d \<longleftrightarrow>
     t_wf (d_positions d) \<and> t_wf (d_trades d) \<and> t_wf (d_intents d) \<and> t_wf (d_orders d) \<and>
     t_wf (d_transitions d) \<and> t_wf (d_instances d) \<and> t_wf (d_flags d) \<and> t_wf (d_daily d) \<and>
     t_wf (d_breaks d) \<and> t_wf (d_history d) \<and> t_wf (d_accounts d)"

lemma empty_db_ok: "db_constraints empty_db" "db_wf empty_db"
  by (simp_all add: empty_db_def db_constraints_def rows_ok_def unique_by_def db_wf_def t_wf_def
      List.map_filter_simps)

end
