(* ===== verification/State_Machine.thy ===== *)
theory State_Machine
  imports Enums
begin

text \<open>
  The legal graph of \<open>strategies/strategy_1/state_machine.py\<close>: the pure functions that decide
  whether a proposed change of a position's state is permitted, as a step relation with its
  reachability facts. The persisted part (\<open>PositionStateMachine.transition\<close>) is in
  \<open>Repositories\<close>, where the audit rows are.
\<close>

section \<open>The legal graph\<close>

fun allowed_transitions :: "position_state \<Rightarrow> position_state list" where
  "allowed_transitions IDLE = [ENTRY_PENDING, PS_ERROR]"
| "allowed_transitions ENTRY_PENDING = [OPEN, CLOSED, PS_ERROR]"
| "allowed_transitions OPEN = [EXIT_PENDING, PS_ERROR]"
| "allowed_transitions EXIT_PENDING = [CLOSED, PS_ERROR]"
| "allowed_transitions PS_ERROR = [CLOSED]"
| "allowed_transitions CLOSED = []"

definition actor_restricted_edges ::
    "position_state \<Rightarrow> position_state \<Rightarrow> actor list option" where
  "actor_restricted_edges from_state to_state =
     (if from_state = PS_ERROR \<and> to_state = CLOSED then Some [AC_MANUAL, RECOVERY] else None)"

definition terminal_states :: "position_state list" where
  "terminal_states = [CLOSED]"

definition in_flight_states :: "position_state list" where
  "in_flight_states = [ENTRY_PENDING, EXIT_PENDING]"

definition non_terminal_states :: "position_state list" where
  "non_terminal_states = [IDLE, ENTRY_PENDING, OPEN, EXIT_PENDING, PS_ERROR]"

definition is_transition_allowed :: "position_state \<Rightarrow> position_state \<Rightarrow> bool" where
  "is_transition_allowed from_state to_state \<longleftrightarrow> to_state \<in> set (allowed_transitions from_state)"

definition is_transition_allowed_for_actor ::
    "position_state \<Rightarrow> position_state \<Rightarrow> actor \<Rightarrow> bool" where
  "is_transition_allowed_for_actor from_state to_state actor =
     (if \<not> is_transition_allowed from_state to_state then False
      else case actor_restricted_edges from_state to_state of
             None \<Rightarrow> True
           | Some allowed_actors \<Rightarrow> actor \<in> set allowed_actors)"

definition assert_transition_allowed ::
    "position_state \<Rightarrow> position_state \<Rightarrow> actor \<Rightarrow> exn + unit" where
  "assert_transition_allowed from_state to_state actor =
     (if \<not> is_transition_allowed from_state to_state
      then Inl (IllegalStateTransitionError from_state to_state actor)
      else case actor_restricted_edges from_state to_state of
             None \<Rightarrow> Inr ()
           | Some allowed_actors \<Rightarrow>
               if actor \<notin> set allowed_actors
               then Inl (IllegalStateTransitionError from_state to_state actor)
               else Inr ())"

definition is_terminal :: "position_state \<Rightarrow> bool" where
  "is_terminal state \<longleftrightarrow> state \<in> set terminal_states"

definition is_in_flight :: "position_state \<Rightarrow> bool" where
  "is_in_flight state \<longleftrightarrow> state \<in> set in_flight_states"

lemmas legal_graph_defs =
  is_transition_allowed_def is_transition_allowed_for_actor_def assert_transition_allowed_def
  actor_restricted_edges_def is_terminal_def is_in_flight_def
  terminal_states_def in_flight_states_def non_terminal_states_def

lemma assert_allowed_iff:
  "assert_transition_allowed f t a = Inr () \<longleftrightarrow> is_transition_allowed_for_actor f t a"
  by (auto simp: legal_graph_defs)

lemma assert_not_allowed_iff:
  "assert_transition_allowed f t a = Inl (IllegalStateTransitionError f t a) \<longleftrightarrow>
     \<not> is_transition_allowed_for_actor f t a"
  by (auto simp: legal_graph_defs)

lemma assert_allowed_cases:
  "assert_transition_allowed f t a =
     (if is_transition_allowed_for_actor f t a then Inr ()
      else Inl (IllegalStateTransitionError f t a))"
  using assert_allowed_iff [of f t a] assert_not_allowed_iff [of f t a] by simp

lemma allowed_for_actor_allowed:
  "is_transition_allowed_for_actor f t a \<Longrightarrow> is_transition_allowed f t"
  by (simp add: is_transition_allowed_for_actor_def split: if_splits)

lemma no_self_edge: "\<not> is_transition_allowed s s"
  by (cases s) (simp_all add: is_transition_allowed_def)

lemma allowed_from_closed [simp]: "\<not> is_transition_allowed CLOSED t"
  by (simp add: is_transition_allowed_def)

section \<open>Steps and paths\<close>

inductive sm_step :: "position_state \<Rightarrow> actor \<times> position_state \<Rightarrow> bool" where
  sm_step: "assert_transition_allowed f t a = Inr () \<Longrightarrow> sm_step f (a, t)"

inductive_cases sm_step_elim: "sm_step f (a, t)"
inductive_simps sm_step_iff: "sm_step f (a, t)"

fun sm_path :: "position_state \<Rightarrow> (actor \<times> position_state) list \<Rightarrow> position_state \<Rightarrow> bool" where
  "sm_path f [] t \<longleftrightarrow> f = t"
| "sm_path f ((a, m) # es) t \<longleftrightarrow> is_transition_allowed_for_actor f m a \<and> sm_path m es t"

lemma sm_step_simp: "sm_step f (a, t) \<longleftrightarrow> is_transition_allowed_for_actor f t a"
  by (simp add: sm_step_iff assert_allowed_iff)

lemma sm_path_append:
  "sm_path f (es @ fs) t \<longleftrightarrow> (\<exists>m. sm_path f es m \<and> sm_path m fs t)"
  by (induction es arbitrary: f) auto

lemma sm_path_snoc:
  "sm_path f es m \<Longrightarrow> is_transition_allowed_for_actor m t a \<Longrightarrow> sm_path f (es @ [(a, t)]) t"
  by (auto simp: sm_path_append)

text \<open>
  A rank that every legal edge increases: the graph has no cycle, so a cycle of a position is
  at most four steps long.
\<close>

fun state_rank :: "position_state \<Rightarrow> nat" where
  "state_rank IDLE = 0"
| "state_rank ENTRY_PENDING = 1"
| "state_rank OPEN = 2"
| "state_rank EXIT_PENDING = 3"
| "state_rank PS_ERROR = 4"
| "state_rank CLOSED = 5"

lemma allowed_increases_rank: "is_transition_allowed f t \<Longrightarrow> state_rank f < state_rank t"
  by (cases f; cases t) (simp_all add: is_transition_allowed_def)

lemma sm_path_rank: "sm_path f es t \<Longrightarrow> state_rank f + length es \<le> state_rank t"
proof (induction es arbitrary: f)
  case Nil
  then show ?case by simp
next
  case (Cons e es)
  obtain a m where e: "e = (a, m)" by force
  with Cons.prems have "is_transition_allowed f m" and path: "sm_path m es t"
    by (auto dest: allowed_for_actor_allowed)
  then show ?case using Cons.IH [OF path] allowed_increases_rank [of f m] by simp
qed

lemma sm_path_from_closed: "sm_path CLOSED es t \<longleftrightarrow> es = [] \<and> t = CLOSED"
proof (cases es)
  case (Cons e fs)
  then show ?thesis by (cases e) (auto dest: allowed_for_actor_allowed)
qed auto

lemma allowed_for_actor_unrestricted:
  "f \<noteq> PS_ERROR \<Longrightarrow> is_transition_allowed_for_actor f t a \<longleftrightarrow> is_transition_allowed f t"
  by (simp add: is_transition_allowed_for_actor_def actor_restricted_edges_def)

lemma error_edge_actor:
  "is_transition_allowed_for_actor PS_ERROR t a \<longleftrightarrow> t = CLOSED \<and> (a = AC_MANUAL \<or> a = RECOVERY)"
  by (auto simp: is_transition_allowed_for_actor_def actor_restricted_edges_def
      is_transition_allowed_def)

lemma sm_path_from_error:
  "sm_path PS_ERROR es t \<longleftrightarrow>
     (es = [] \<and> t = PS_ERROR) \<or> (\<exists>a. es = [(a, CLOSED)] \<and> t = CLOSED \<and> (a = AC_MANUAL \<or> a = RECOVERY))"
proof (cases es)
  case (Cons e fs)
  then show ?thesis by (cases e) (auto simp: error_edge_actor sm_path_from_closed)
qed auto

lemma is_terminal_iff: "is_terminal s \<longleftrightarrow> allowed_transitions s = []"
  by (cases s) (simp_all add: is_terminal_def terminal_states_def)

lemma non_terminal_iff: "s \<in> set non_terminal_states \<longleftrightarrow> s \<noteq> CLOSED"
  by (cases s) (simp_all add: non_terminal_states_def)

lemma sm_path_suffix:
  "sm_path f es t \<Longrightarrow> i < length es \<Longrightarrow> sm_path (snd (es ! i)) (drop (Suc i) es) t"
proof (induction f es t arbitrary: i rule: sm_path.induct)
  case (1 f t)
  then show ?case by simp
next
  case (2 f a m es t)
  then show ?case by (cases i) auto
qed

text \<open>
  A position's whole life is a path of legal edges from IDLE, and such a path is bounded:
  it never has more than five steps, ends in CLOSED only if it never moves again, and an
  errored position leaves ERROR only by one MANUAL or RECOVERY step to CLOSED.
\<close>

theorem legal_paths:
  "sm_path IDLE es t \<Longrightarrow>
     length es \<le> 5 \<and>
     (\<forall>i < length es. snd (es ! i) = CLOSED \<longrightarrow> Suc i = length es) \<and>
     (\<forall>i < length es. snd (es ! i) = PS_ERROR \<longrightarrow>
        Suc i = length es \<or>
        (Suc (Suc i) = length es \<and> snd (es ! Suc i) = CLOSED \<and>
         (fst (es ! Suc i) = AC_MANUAL \<or> fst (es ! Suc i) = RECOVERY)))"
  (is "_ \<Longrightarrow> ?len \<and> ?closed \<and> ?error")
proof -
  assume path: "sm_path IDLE es t"
  have "state_rank t \<le> 5" by (cases t) simp_all
  then have len: ?len using sm_path_rank [OF path] by simp
  have split: "sm_path (snd (es ! i)) (drop (Suc i) es) t" if "i < length es" for i
    using sm_path_suffix [OF path that] .
  have closed: ?closed
  proof (intro allI impI)
    fix i assume i: "i < length es" and c: "snd (es ! i) = CLOSED"
    have "drop (Suc i) es = []" using split [OF i] by (simp add: c sm_path_from_closed)
    then show "Suc i = length es" using i by simp
  qed
  have error: ?error
  proof (intro allI impI)
    fix i assume i: "i < length es" and c: "snd (es ! i) = PS_ERROR"
    consider "drop (Suc i) es = []"
      | a where "drop (Suc i) es = [(a, CLOSED)]" "a = AC_MANUAL \<or> a = RECOVERY"
      using split [OF i] by (auto simp: c sm_path_from_error)
    then show "Suc i = length es \<or>
        (Suc (Suc i) = length es \<and> snd (es ! Suc i) = CLOSED \<and>
         (fst (es ! Suc i) = AC_MANUAL \<or> fst (es ! Suc i) = RECOVERY))"
    proof cases
      case 1
      then show ?thesis using i by simp
    next
      case (2 a)
      have len2: "length (drop (Suc i) es) = 1" by (simp add: 2)
      then have "Suc (Suc i) = length es" by simp
      moreover have "es ! Suc i = (a, CLOSED)"
        using 2 i nth_drop [of "Suc i" es 0] by simp
      ultimately show ?thesis using 2 by simp
    qed
  qed
  show ?thesis using len closed error by blast
qed

theorem legal_paths_witness:
  "sm_path IDLE [(STRATEGY, ENTRY_PENDING), (STRATEGY, PS_ERROR), (AC_MANUAL, CLOSED)] CLOSED \<and>
   length [(STRATEGY, ENTRY_PENDING), (STRATEGY, PS_ERROR), (AC_MANUAL, CLOSED)] \<le> 5"
proof -
  have p: "sm_path IDLE [(STRATEGY, ENTRY_PENDING), (STRATEGY, PS_ERROR), (AC_MANUAL, CLOSED)] CLOSED"
    by (simp add: legal_graph_defs)
  show ?thesis using p legal_paths [OF p] by blast
qed

text \<open>
  ERROR is reachable in one step from exactly the states IDLE, ENTRY_PENDING, OPEN and
  EXIT_PENDING, for every actor; CLOSED has no edge at all.
\<close>

theorem error_reachable:
  "is_transition_allowed_for_actor s PS_ERROR a \<longleftrightarrow> s \<in> {IDLE, ENTRY_PENDING, OPEN, EXIT_PENDING}"
  by (cases s) (simp_all add: legal_graph_defs)

end
