(* ===== verification/Repositories.thy ===== *)
theory Repositories
  imports Store State_Machine
begin

text \<open>
  The repositories of \<open>database/repositories/*.py\<close> as actions on the database inside one unit of
  work, and the persisted half of the position state machine. A row is named by its primary key;
  each write bumps the row's optimistic-lock version once per flush. \<open>get_or_create\<close> is the
  SAVEPOINT helper of \<open>base.py\<close>: look up, insert when absent, and re-raise an IntegrityError that
  is not the expected race. Audit rows are listed in the order they were appended.
\<close>

type_synonym 'a tx = "(db, 'a) act"

section \<open>Row updates\<close>

definition upd_position :: "nat \<Rightarrow> (position_row \<Rightarrow> position_row) \<Rightarrow> unit tx" where
  "upd_position i f = modify (\<lambda>d. case t_get (d_positions d) i of
     None \<Rightarrow> d
   | Some r \<Rightarrow> d\<lparr>d_positions := t_put (d_positions d) i ((f r)\<lparr>p_version := p_version r + 1\<rparr>)\<rparr>)"

definition upd_trade :: "nat \<Rightarrow> (trade_row \<Rightarrow> trade_row) \<Rightarrow> unit tx" where
  "upd_trade i f = modify (\<lambda>d. case t_get (d_trades d) i of
     None \<Rightarrow> d
   | Some r \<Rightarrow> d\<lparr>d_trades := t_put (d_trades d) i ((f r)\<lparr>t_version := t_version r + 1\<rparr>)\<rparr>)"

definition upd_intent :: "nat \<Rightarrow> (intent_row \<Rightarrow> intent_row) \<Rightarrow> unit tx" where
  "upd_intent i f = modify (\<lambda>d. case t_get (d_intents d) i of
     None \<Rightarrow> d
   | Some r \<Rightarrow> d\<lparr>d_intents := t_put (d_intents d) i ((f r)\<lparr>i_version := i_version r + 1\<rparr>)\<rparr>)"

definition upd_order :: "nat \<Rightarrow> (order_row \<Rightarrow> order_row) \<Rightarrow> unit tx" where
  "upd_order i f = modify (\<lambda>d. case t_get (d_orders d) i of
     None \<Rightarrow> d
   | Some r \<Rightarrow> d\<lparr>d_orders := t_put (d_orders d) i ((f r)\<lparr>o_version := o_version r + 1\<rparr>)\<rparr>)"

definition upd_instance :: "nat \<Rightarrow> (instance_row \<Rightarrow> instance_row) \<Rightarrow> unit tx" where
  "upd_instance i f = modify (\<lambda>d. case t_get (d_instances d) i of
     None \<Rightarrow> d
   | Some r \<Rightarrow> d\<lparr>d_instances := t_put (d_instances d) i ((f r)\<lparr>si_version := si_version r + 1\<rparr>)\<rparr>)"

definition upd_flag :: "nat \<Rightarrow> (flag_row \<Rightarrow> flag_row) \<Rightarrow> unit tx" where
  "upd_flag i f = modify (\<lambda>d. case t_get (d_flags d) i of
     None \<Rightarrow> d
   | Some r \<Rightarrow> d\<lparr>d_flags := t_put (d_flags d) i ((f r)\<lparr>f_version := f_version r + 1\<rparr>)\<rparr>)"

definition upd_daily :: "nat \<Rightarrow> (daily_row \<Rightarrow> daily_row) \<Rightarrow> unit tx" where
  "upd_daily i f = modify (\<lambda>d. case t_get (d_daily d) i of
     None \<Rightarrow> d
   | Some r \<Rightarrow> d\<lparr>d_daily := t_put (d_daily d) i ((f r)\<lparr>dr_version := dr_version r + 1\<rparr>)\<rparr>)"

definition upd_break :: "nat \<Rightarrow> (break_row \<Rightarrow> break_row) \<Rightarrow> unit tx" where
  "upd_break i f = modify (\<lambda>d. case t_get (d_breaks d) i of
     None \<Rightarrow> d
   | Some r \<Rightarrow> d\<lparr>d_breaks := t_put (d_breaks d) i (f r)\<rparr>)"

lemmas upd_defs =
  upd_position_def upd_trade_def upd_intent_def upd_order_def upd_instance_def upd_flag_def
  upd_daily_def upd_break_def

section \<open>The base repository (base.py)\<close>

definition get_row :: "(db \<Rightarrow> 'r table) \<Rightarrow> nat \<Rightarrow> 'r option tx" where
  "get_row sel i = asks (\<lambda>d. t_get (sel d) i)"

definition get_row_or_raise :: "(db \<Rightarrow> 'r table) \<Rightarrow> nat \<Rightarrow> 'r tx" where
  "get_row_or_raise sel i =
     bnd (get_row sel i) (\<lambda>r. case r of None \<Rightarrow> throw NotFoundError | Some x \<Rightarrow> ret x)"

definition get_or_create ::
    "(db \<Rightarrow> (nat \<times> 'r) option) \<Rightarrow> (db \<Rightarrow> nat) \<Rightarrow> (db \<Rightarrow> db) \<Rightarrow> (nat \<times> bool) tx" where
  "get_or_create lookup new_id insert_row d =
     (case lookup d of
        Some (i, r) \<Rightarrow> (d, Inr (i, False))
      | None \<Rightarrow>
          if db_constraints (insert_row d) then (insert_row d, Inr (new_id d, True))
          else (d, Inl IntegrityError))"

section \<open>Positions (position\_repository.py)\<close>

definition get_by_instance_and_date :: "nat \<Rightarrow> date \<Rightarrow> db \<Rightarrow> (nat \<times> position_row) option" where
  "get_by_instance_and_date inst trade_date d =
     t_find (\<lambda>r. p_instance r = inst \<and> p_date r = trade_date) (d_positions d)"

definition position_get_or_create :: "position_row \<Rightarrow> (nat \<times> bool) tx" where
  "position_get_or_create row =
     get_or_create (get_by_instance_and_date (p_instance row) (p_date row))
       (\<lambda>d. t_next (d_positions d))
       (\<lambda>d. d\<lparr>d_positions := t_add (d_positions d) row\<rparr>)"

definition list_non_terminal :: "db \<Rightarrow> (nat \<times> position_row) list" where
  "list_non_terminal d =
     t_select (\<lambda>r. p_state r \<in> {ENTRY_PENDING, OPEN, EXIT_PENDING, PS_ERROR}) (d_positions d)"

definition instance_account :: "db \<Rightarrow> nat \<Rightarrow> nat option" where
  "instance_account d i = map_option si_account (t_get (d_instances d) i)"

definition positions_for_account :: "db \<Rightarrow> nat \<Rightarrow> date \<Rightarrow> position_row list" where
  "positions_for_account d account trade_date =
     map snd (t_select (\<lambda>r. instance_account d (p_instance r) = Some account \<and> p_date r = trade_date)
       (d_positions d))"

definition count_for_account_on_date :: "nat \<Rightarrow> date \<Rightarrow> db \<Rightarrow> nat" where
  "count_for_account_on_date account trade_date d = length (positions_for_account d account trade_date)"

definition realized_pnl_for_account_on_date :: "nat \<Rightarrow> date \<Rightarrow> db \<Rightarrow> decimal" where
  "realized_pnl_for_account_on_date account trade_date d =
     sum_list (List.map_filter p_pnl (positions_for_account d account trade_date))"

definition list_closed_ids :: "db \<Rightarrow> nat list" where
  "list_closed_ids d = map fst (t_select (\<lambda>r. p_state r = CLOSED) (d_positions d))"

definition list_needing_reconciliation :: "db \<Rightarrow> (nat \<times> position_row) list" where
  "list_needing_reconciliation d = t_select p_recon (d_positions d)"

definition transition_state ::
    "nat \<Rightarrow> position_state \<Rightarrow> actor \<Rightarrow> string option \<Rightarrow> unit tx" where
  "transition_state pid to_state actor reason =
     bnd (get_row_or_raise d_positions pid) (\<lambda>p.
     sq (upd_position pid (\<lambda>r. r\<lparr>p_state := to_state\<rparr>))
       (modify (\<lambda>d. d\<lparr>d_transitions := t_add (d_transitions d)
          \<lparr>x_position = pid, x_from = Some (p_state p), x_to = to_state, x_reason = reason,
           x_actor = actor\<rparr>\<rparr>)))"

definition list_state_transitions :: "nat \<Rightarrow> db \<Rightarrow> transition_row list" where
  "list_state_transitions pid d = map snd (t_select (\<lambda>x. x_position x = pid) (d_transitions d))"

definition add_trade :: "trade_row \<Rightarrow> nat tx" where
  "add_trade row d = (d\<lparr>d_trades := t_add (d_trades d) row\<rparr>, Inr (t_next (d_trades d)))"

definition list_trades_for_position :: "nat \<Rightarrow> db \<Rightarrow> (nat \<times> trade_row) list" where
  "list_trades_for_position pid d = t_select (\<lambda>t. t_position t = pid) (d_trades d)"

section \<open>The persisted state machine (state\_machine.py)\<close>

definition sm_transition ::
    "nat \<Rightarrow> position_state \<Rightarrow> actor \<Rightarrow> string option \<Rightarrow> bool tx" where
  "sm_transition pid to_state actor reason =
     bnd (get_row_or_raise d_positions pid) (\<lambda>p.
     if p_state p = to_state then ret False
     else bnd (lift_sum (assert_transition_allowed (p_state p) to_state actor)) (\<lambda>_.
          sq (transition_state pid to_state actor reason) (ret True)))"

definition mark_error :: "nat \<Rightarrow> actor \<Rightarrow> string \<Rightarrow> bool tx" where
  "mark_error pid actor reason = sm_transition pid PS_ERROR actor (Some reason)"

section \<open>Order intents (order\_intent\_repository.py)\<close>

definition intent_by_key :: "string \<Rightarrow> db \<Rightarrow> (nat \<times> intent_row) option" where
  "intent_by_key key d = t_find (\<lambda>r. i_key r = key) (d_intents d)"

definition intent_by_tag :: "string \<Rightarrow> db \<Rightarrow> (nat \<times> intent_row) option" where
  "intent_by_tag tag d = t_find (\<lambda>r. i_tag r = tag) (d_intents d)"

definition intent_get_or_create ::
    "nat \<Rightarrow> order_purpose \<Rightarrow> transaction_type \<Rightarrow> int \<Rightarrow> string \<Rightarrow> string \<Rightarrow> (nat \<times> bool) tx" where
  "intent_get_or_create trade_id purpose side quantity key tag =
     get_or_create (intent_by_key key) (\<lambda>d. t_next (d_intents d))
       (\<lambda>d. d\<lparr>d_intents := t_add (d_intents d)
          \<lparr>i_trade = trade_id, i_purpose = purpose, i_side = side, i_quantity = quantity,
           i_key = key, i_tag = tag, i_status = IN_PENDING, i_started = None,
           i_version = 1\<rparr>\<rparr>)"

definition list_in_doubt :: "db \<Rightarrow> (nat \<times> intent_row) list" where
  "list_in_doubt d =
     t_select (\<lambda>r. i_status r \<in> {IN_PENDING, SUBMITTED_UNCONFIRMED, PLACED}) (d_intents d)"

definition intents_for_trade :: "nat \<Rightarrow> db \<Rightarrow> (nat \<times> intent_row) list" where
  "intents_for_trade tid d = t_select (\<lambda>r. i_trade r = tid) (d_intents d)"

definition mark_broker_call_started :: "nat \<Rightarrow> dt \<Rightarrow> unit tx" where
  "mark_broker_call_started iid started_at =
     upd_intent iid (\<lambda>r. r\<lparr>i_started := Some started_at, i_status := SUBMITTED_UNCONFIRMED\<rparr>)"

definition mark_placed :: "nat \<Rightarrow> unit tx" where
  "mark_placed iid = upd_intent iid (\<lambda>r. r\<lparr>i_status := PLACED\<rparr>)"

definition mark_confirmed :: "nat \<Rightarrow> unit tx" where
  "mark_confirmed iid = upd_intent iid (\<lambda>r. r\<lparr>i_status := CONFIRMED\<rparr>)"

definition mark_failed :: "nat \<Rightarrow> unit tx" where
  "mark_failed iid = upd_intent iid (\<lambda>r. r\<lparr>i_status := IN_FAILED\<rparr>)"

definition mark_cancelled :: "nat \<Rightarrow> unit tx" where
  "mark_cancelled iid = upd_intent iid (\<lambda>r. r\<lparr>i_status := IN_CANCELLED\<rparr>)"

section \<open>Orders (order\_repository.py)\<close>

definition order_by_broker_id :: "string \<Rightarrow> db \<Rightarrow> (nat \<times> order_row) option" where
  "order_by_broker_id oid d = t_find (\<lambda>r. o_broker_id r = Some oid) (d_orders d)"

text \<open>
  The tag column of orders is not unique, so \<open>scalar_one_or_none\<close> raises on two matches.
\<close>

definition order_by_tag :: "string \<Rightarrow> (nat \<times> order_row) option tx" where
  "order_by_tag tag d =
     (case t_select (\<lambda>r. o_tag r = Some tag) (d_orders d) of
        [] \<Rightarrow> (d, Inr None)
      | [x] \<Rightarrow> (d, Inr (Some x))
      | _ \<Rightarrow> (d, Inl DatabaseError))"

definition order_create ::
    "nat \<Rightarrow> nat option \<Rightarrow> order_purpose \<Rightarrow> transaction_type \<Rightarrow> order_type \<Rightarrow> int \<Rightarrow>
     string option \<Rightarrow> nat tx" where
  "order_create trade_id intent_id purpose side otype quantity tag d =
     (d\<lparr>d_orders := t_add (d_orders d)
        \<lparr>o_trade = trade_id, o_intent = intent_id, o_purpose = purpose, o_side = side,
         o_type = otype, o_quantity = quantity, o_filled = 0, o_avg_price = None,
         o_status = OS_PENDING, o_broker_id = None, o_tag = tag, o_placed_at = None,
         o_filled_at = None, o_error = None, o_retries = 0, o_version = 1\<rparr>\<rparr>,
      Inr (t_next (d_orders d)))"

definition orders_for_trade :: "nat \<Rightarrow> db \<Rightarrow> (nat \<times> order_row) list" where
  "orders_for_trade tid d = t_select (\<lambda>r. o_trade r = tid) (d_orders d)"

definition list_in_flight :: "db \<Rightarrow> (nat \<times> order_row) list" where
  "list_in_flight d = t_select (\<lambda>r. o_status r \<in> {OS_PENDING, OS_OPEN}) (d_orders d)"

definition mark_acknowledged :: "nat \<Rightarrow> string \<Rightarrow> dt \<Rightarrow> unit tx" where
  "mark_acknowledged oid broker_order_id placed_at =
     upd_order oid (\<lambda>r. r\<lparr>o_broker_id := Some broker_order_id, o_placed_at := Some placed_at,
       o_status := OS_OPEN\<rparr>)"

definition record_fill :: "nat \<Rightarrow> order_status \<Rightarrow> int \<Rightarrow> decimal \<Rightarrow> dt \<Rightarrow> unit tx" where
  "record_fill oid status filled_quantity average_price filled_at =
     upd_order oid (\<lambda>r. r\<lparr>o_status := status, o_filled := filled_quantity,
       o_avg_price := Some (num4 average_price), o_filled_at := Some filled_at\<rparr>)"

definition record_rejection :: "nat \<Rightarrow> string \<Rightarrow> unit tx" where
  "record_rejection oid message =
     upd_order oid (\<lambda>r. r\<lparr>o_status := REJECTED, o_error := Some message\<rparr>)"

definition record_cancellation :: "nat \<Rightarrow> unit tx" where
  "record_cancellation oid = upd_order oid (\<lambda>r. r\<lparr>o_status := OS_CANCELLED\<rparr>)"

definition increment_retry_count :: "nat \<Rightarrow> unit tx" where
  "increment_retry_count oid = upd_order oid (\<lambda>r. r\<lparr>o_retries := o_retries r + 1\<rparr>)"

section \<open>Daily risk rows (daily\_risk\_state\_repository.py)\<close>

definition portfolio_row :: "nat \<Rightarrow> date \<Rightarrow> db \<Rightarrow> (nat \<times> daily_row) option" where
  "portfolio_row account trade_date d =
     t_find (\<lambda>r. dr_account r = account \<and> dr_date r = trade_date \<and> dr_instrument r = None) (d_daily d)"

definition instrument_row :: "nat \<Rightarrow> string \<Rightarrow> date \<Rightarrow> db \<Rightarrow> (nat \<times> daily_row) option" where
  "instrument_row account instrument trade_date d =
     t_find (\<lambda>r. dr_account r = account \<and> dr_instrument r = Some instrument \<and> dr_date r = trade_date)
       (d_daily d)"

definition new_daily_row :: "nat \<Rightarrow> string option \<Rightarrow> date \<Rightarrow> decimal \<Rightarrow> daily_row" where
  "new_daily_row account instrument trade_date loss_limit =
     \<lparr>dr_account = account, dr_instrument = instrument, dr_date = trade_date, dr_realized = 0,
      dr_unrealized = 0, dr_limit = num4 loss_limit, dr_breached = False, dr_breached_at = None,
      dr_version = 1\<rparr>"

definition portfolio_get_or_create :: "nat \<Rightarrow> date \<Rightarrow> decimal \<Rightarrow> (nat \<times> bool) tx" where
  "portfolio_get_or_create account trade_date loss_limit =
     get_or_create (portfolio_row account trade_date) (\<lambda>d. t_next (d_daily d))
       (\<lambda>d. d\<lparr>d_daily := t_add (d_daily d) (new_daily_row account None trade_date loss_limit)\<rparr>)"

definition instrument_get_or_create :: "nat \<Rightarrow> string \<Rightarrow> date \<Rightarrow> decimal \<Rightarrow> (nat \<times> bool) tx" where
  "instrument_get_or_create account instrument trade_date loss_limit =
     get_or_create (instrument_row account instrument trade_date) (\<lambda>d. t_next (d_daily d))
       (\<lambda>d. d\<lparr>d_daily := t_add (d_daily d) (new_daily_row account (Some instrument) trade_date loss_limit)\<rparr>)"

definition update_pnl :: "nat \<Rightarrow> decimal \<Rightarrow> decimal \<Rightarrow> unit tx" where
  "update_pnl rid realized unrealized =
     upd_daily rid (\<lambda>r. r\<lparr>dr_realized := num4 realized, dr_unrealized := num4 unrealized\<rparr>)"

definition mark_breached :: "nat \<Rightarrow> dt \<Rightarrow> unit tx" where
  "mark_breached rid breached_at =
     upd_daily rid (\<lambda>r. r\<lparr>dr_breached := True, dr_breached_at := Some breached_at\<rparr>)"

section \<open>Control flags (risk\_control\_flag\_repository.py)\<close>

definition list_active :: "db \<Rightarrow> (nat \<times> flag_row) list" where
  "list_active d = t_select f_active (d_flags d)"

definition flag_covers :: "nat \<Rightarrow> nat \<Rightarrow> flag_row \<Rightarrow> bool" where
  "flag_covers account inst f \<longleftrightarrow>
     f_scope f = GLOBAL \<or> (f_scope f = ACCOUNT \<and> f_account f = Some account) \<or>
     (f_scope f = STRATEGY_INSTANCE \<and> f_instance f = Some inst)"

definition list_active_relevant_to :: "nat \<Rightarrow> nat \<Rightarrow> db \<Rightarrow> (nat \<times> flag_row) list" where
  "list_active_relevant_to account inst d =
     t_select (\<lambda>f. f_active f \<and> flag_covers account inst f) (d_flags d)"

definition flag_activate ::
    "flag_type \<Rightarrow> flag_scope \<Rightarrow> string option \<Rightarrow> string \<Rightarrow> dt \<Rightarrow> nat option \<Rightarrow> nat option \<Rightarrow> nat tx" where
  "flag_activate ftype scope reason activated_by activated_at account inst d =
     (let row = \<lparr>f_type = ftype, f_scope = scope, f_account = account, f_instance = inst,
                 f_active = True, f_reason = reason, f_by = Some activated_by, f_at = activated_at,
                 f_cleared_at = None, f_cleared_by = None, f_version = 1\<rparr>
      in if flag_ok row then (d\<lparr>d_flags := t_add (d_flags d) row\<rparr>, Inr (t_next (d_flags d)))
         else (d, Inl IntegrityError))"

definition flag_clear :: "nat \<Rightarrow> string \<Rightarrow> dt \<Rightarrow> unit tx" where
  "flag_clear fid cleared_by cleared_at =
     upd_flag fid (\<lambda>r. r\<lparr>f_active := False, f_cleared_by := Some cleared_by,
       f_cleared_at := Some cleared_at\<rparr>)"

section \<open>Instances (strategy\_instance\_repository.py)\<close>

definition instance_by_key :: "string \<Rightarrow> string \<Rightarrow> nat \<Rightarrow> db \<Rightarrow> (nat \<times> instance_row) option" where
  "instance_by_key strategy instrument account d =
     t_find (\<lambda>r. si_strategy r = strategy \<and> si_instrument r = instrument \<and> si_account r = account)
       (d_instances d)"

definition instance_get_or_create :: "string \<Rightarrow> string \<Rightarrow> nat \<Rightarrow> exchange \<Rightarrow> (nat \<times> bool) tx" where
  "instance_get_or_create strategy instrument account exch =
     get_or_create (instance_by_key strategy instrument account) (\<lambda>d. t_next (d_instances d))
       (\<lambda>d. d\<lparr>d_instances := t_add (d_instances d)
          \<lparr>si_strategy = strategy, si_instrument = instrument, si_account = account,
           si_exchange = exch, si_status = IS_ACTIVE, si_version = 1\<rparr>\<rparr>)"

definition list_active_instances :: "db \<Rightarrow> (nat \<times> instance_row) list" where
  "list_active_instances d = t_select (\<lambda>r. si_status r = IS_ACTIVE) (d_instances d)"

definition list_frozen :: "db \<Rightarrow> (nat \<times> instance_row) list" where
  "list_frozen d = t_select (\<lambda>r. si_status r = IS_FROZEN) (d_instances d)"

definition set_status :: "nat \<Rightarrow> instance_status \<Rightarrow> unit tx" where
  "set_status iid status = upd_instance iid (\<lambda>r. r\<lparr>si_status := status\<rparr>)"

section \<open>Reconciliation breaks (reconciliation\_break\_repository.py)\<close>

definition break_create ::
    "break_type \<Rightarrow> dt \<Rightarrow> nat option \<Rightarrow> nat option \<Rightarrow> nat option \<Rightarrow> nat tx" where
  "break_create btype detected_at position_id order_id intent_id d =
     (d\<lparr>d_breaks := t_add (d_breaks d)
        \<lparr>b_position = position_id, b_order = order_id, b_intent = intent_id, b_type = btype,
         b_detected_at = detected_at, b_resolution = RS_PENDING, b_notes = None,
         b_resolved_at = None, b_resolved_by = None, b_version = 1\<rparr>\<rparr>,
      Inr (t_next (d_breaks d)))"

definition breaks_pending :: "db \<Rightarrow> (nat \<times> break_row) list" where
  "breaks_pending d = t_select (\<lambda>r. b_resolution r = RS_PENDING) (d_breaks d)"

definition breaks_for_position :: "nat \<Rightarrow> db \<Rightarrow> (nat \<times> break_row) list" where
  "breaks_for_position pid d = t_select (\<lambda>r. b_position r = Some pid) (d_breaks d)"

definition break_resolve ::
    "nat \<Rightarrow> resolution \<Rightarrow> string \<Rightarrow> dt \<Rightarrow> string option \<Rightarrow> unit tx" where
  "break_resolve bid res resolved_by resolved_at notes =
     upd_break bid (\<lambda>r. r\<lparr>b_resolution := res, b_resolved_by := Some resolved_by,
       b_resolved_at := Some resolved_at,
       b_notes := (case notes of None \<Rightarrow> b_notes r | Some n \<Rightarrow> Some n)\<rparr>)"

section \<open>Trade history (trade\_history\_repository.py)\<close>

definition history_by_position :: "nat \<Rightarrow> db \<Rightarrow> (nat \<times> history_row) option" where
  "history_by_position pid d = t_find (\<lambda>r. h_position r = pid) (d_history d)"

definition history_add_if_absent :: "history_row \<Rightarrow> (nat \<times> bool) tx" where
  "history_add_if_absent row =
     get_or_create (history_by_position (h_position row)) (\<lambda>d. t_next (d_history d))
       (\<lambda>d. d\<lparr>d_history := t_add (d_history d) row\<rparr>)"

definition recorded_position_ids :: "nat list \<Rightarrow> db \<Rightarrow> nat list" where
  "recorded_position_ids pids d =
     map (\<lambda>x. h_position (snd x)) (t_select (\<lambda>r. h_position r \<in> set pids) (d_history d))"

section \<open>Accounts (account\_repository.py)\<close>

definition account_by_client :: "broker_name \<Rightarrow> string \<Rightarrow> db \<Rightarrow> (nat \<times> account_row) option" where
  "account_by_client br cid d =
     t_find (\<lambda>r. ac_broker r = br \<and> ac_client_id r = Some cid) (d_accounts d)"

definition account_get_or_create :: "broker_name \<Rightarrow> string option \<Rightarrow> string \<Rightarrow> (nat \<times> bool) tx" where
  "account_get_or_create br cid name =
     get_or_create
       (\<lambda>d. case cid of
              Some c \<Rightarrow> account_by_client br c d
            | None \<Rightarrow> t_find (\<lambda>r. ac_broker r = br \<and> ac_name r = name) (d_accounts d))
       (\<lambda>d. t_next (d_accounts d))
       (\<lambda>d. d\<lparr>d_accounts := t_add (d_accounts d)
          \<lparr>ac_broker = br, ac_client_id = cid, ac_name = name, ac_active = True\<rparr>\<rparr>)"

definition list_active_accounts :: "db \<Rightarrow> (nat \<times> account_row) list" where
  "list_active_accounts d = t_select ac_active (d_accounts d)"

section \<open>Which tables an operation touches\<close>

lemma upd_position_run:
  "t_get (d_positions d) i = Some r \<Longrightarrow>
   upd_position i f d =
     (d\<lparr>d_positions := t_put (d_positions d) i ((f r)\<lparr>p_version := p_version r + 1\<rparr>)\<rparr>, Inr ())"
  by (simp add: upd_position_def modify_def)

lemma upd_trade_run:
  "t_get (d_trades d) i = Some r \<Longrightarrow>
   upd_trade i f d =
     (d\<lparr>d_trades := t_put (d_trades d) i ((f r)\<lparr>t_version := t_version r + 1\<rparr>)\<rparr>, Inr ())"
  by (simp add: upd_trade_def modify_def)

lemma upd_intent_run:
  "t_get (d_intents d) i = Some r \<Longrightarrow>
   upd_intent i f d =
     (d\<lparr>d_intents := t_put (d_intents d) i ((f r)\<lparr>i_version := i_version r + 1\<rparr>)\<rparr>, Inr ())"
  by (simp add: upd_intent_def modify_def)

lemma upd_order_run:
  "t_get (d_orders d) i = Some r \<Longrightarrow>
   upd_order i f d =
     (d\<lparr>d_orders := t_put (d_orders d) i ((f r)\<lparr>o_version := o_version r + 1\<rparr>)\<rparr>, Inr ())"
  by (simp add: upd_order_def modify_def)

lemma upd_always_returns:
  "snd (upd_position i f d) = Inr ()" "snd (upd_trade i g d) = Inr ()"
  "snd (upd_intent i h d) = Inr ()" "snd (upd_order i k d) = Inr ()"
  "snd (upd_instance i l d) = Inr ()" "snd (upd_flag i m d) = Inr ()"
  "snd (upd_daily i n d) = Inr ()" "snd (upd_break i q d) = Inr ()"
  by (simp_all add: upd_defs modify_def)

lemma keeps_upd_position:
  "(\<And>d r. I d \<Longrightarrow> t_get (d_positions d) i = Some r \<Longrightarrow>
      I (d\<lparr>d_positions := t_put (d_positions d) i ((f r)\<lparr>p_version := p_version r + 1\<rparr>)\<rparr>)) \<Longrightarrow>
   keeps I (upd_position i f)"
  by (auto simp: upd_position_def intro!: keeps_modify split: option.split)

lemma keeps_upd_trade:
  "(\<And>d t. I d \<Longrightarrow> I (d\<lparr>d_trades := t\<rparr>)) \<Longrightarrow> keeps I (upd_trade i f)"
  by (auto simp: upd_trade_def intro!: keeps_modify split: option.split)

lemma keeps_upd_intent:
  "(\<And>d r. I d \<Longrightarrow> t_get (d_intents d) i = Some r \<Longrightarrow>
      I (d\<lparr>d_intents := t_put (d_intents d) i ((f r)\<lparr>i_version := i_version r + 1\<rparr>)\<rparr>)) \<Longrightarrow>
   keeps I (upd_intent i f)"
  by (auto simp: upd_intent_def intro!: keeps_modify split: option.split)

lemma keeps_upd_order:
  "(\<And>d t. I d \<Longrightarrow> I (d\<lparr>d_orders := t\<rparr>)) \<Longrightarrow> keeps I (upd_order i f)"
  by (auto simp: upd_order_def intro!: keeps_modify split: option.split)

lemma keeps_upd_instance:
  "(\<And>d t. I d \<Longrightarrow> I (d\<lparr>d_instances := t\<rparr>)) \<Longrightarrow> keeps I (upd_instance i f)"
  by (auto simp: upd_instance_def intro!: keeps_modify split: option.split)

lemma keeps_upd_flag:
  "(\<And>d t. I d \<Longrightarrow> I (d\<lparr>d_flags := t\<rparr>)) \<Longrightarrow> keeps I (upd_flag i f)"
  by (auto simp: upd_flag_def intro!: keeps_modify split: option.split)

lemma keeps_upd_daily:
  "(\<And>d t. I d \<Longrightarrow> I (d\<lparr>d_daily := t\<rparr>)) \<Longrightarrow> keeps I (upd_daily i f)"
  by (auto simp: upd_daily_def intro!: keeps_modify split: option.split)

lemma keeps_upd_break:
  "(\<And>d t. I d \<Longrightarrow> I (d\<lparr>d_breaks := t\<rparr>)) \<Longrightarrow> keeps I (upd_break i f)"
  by (auto simp: upd_break_def intro!: keeps_modify split: option.split)

lemma keeps_get_row [keeps_intro]: "keeps I (get_row sel i)"
  by (simp add: get_row_def keeps_asks)

lemma keeps_get_row_or_raise [keeps_intro]: "keeps I (get_row_or_raise sel i)"
  unfolding get_row_or_raise_def by (intro keeps_intro)

lemma keeps_order_by_tag [keeps_intro]: "keeps I (order_by_tag tag)"
  by (auto simp: keeps_def order_by_tag_def split: list.split)

lemma keeps_get_or_create:
  "(\<And>d. I d \<Longrightarrow> lookup d = None \<Longrightarrow> I (insert_row d)) \<Longrightarrow> keeps I (get_or_create lookup new_id insert_row)"
  by (auto simp: keeps_def get_or_create_def split: option.split)

text \<open>What \<open>get_or_create\<close> promises: the row is there afterwards, and only if it was absent was it
  created.\<close>

lemma get_or_create_created:
  "get_or_create lookup new_id insert_row d = (d', Inr (i, True)) \<Longrightarrow>
     lookup d = None \<and> d' = insert_row d \<and> i = new_id d \<and> db_constraints d'"
  by (auto simp: get_or_create_def split: option.splits if_splits)

lemma get_or_create_existing:
  "get_or_create lookup new_id insert_row d = (d', Inr (i, False)) \<Longrightarrow>
     d' = d \<and> (\<exists>r. lookup d = Some (i, r))"
  by (auto simp: get_or_create_def split: option.splits if_splits)

lemma get_or_create_error:
  "get_or_create lookup new_id insert_row d = (d', Inl e) \<Longrightarrow> d' = d \<and> e = IntegrityError"
  by (auto simp: get_or_create_def split: option.splits if_splits)

section \<open>The audit trail of a position\<close>

fun audit_path :: "position_state \<Rightarrow> transition_row list \<Rightarrow> position_state \<Rightarrow> bool" where
  "audit_path s [] t \<longleftrightarrow> s = t"
| "audit_path s (x # xs) t \<longleftrightarrow>
     x_from x = Some s \<and> is_transition_allowed_for_actor s (x_to x) (x_actor x) \<and>
     audit_path (x_to x) xs t"

definition audit_ok :: "db \<Rightarrow> bool" where
  "audit_ok d \<longleftrightarrow>
     t_wf (d_positions d) \<and>
     list_all (\<lambda>(pid, p). audit_path ENTRY_PENDING (list_state_transitions pid d) (p_state p))
       (d_positions d) \<and>
     list_all (\<lambda>(k, x). x_position x \<in> set (map fst (d_positions d))) (d_transitions d)"

lemma audit_path_append:
  "audit_path s (xs @ ys) t \<longleftrightarrow> (\<exists>m. audit_path s xs m \<and> audit_path m ys t)"
  by (induction xs arbitrary: s) auto

lemma audit_path_sm_path:
  "audit_path s xs t \<Longrightarrow> sm_path s (map (\<lambda>x. (x_actor x, x_to x)) xs) t"
  by (induction xs arbitrary: s) auto

lemma audit_ok_indep [simp]:
  "audit_ok (d\<lparr>d_trades := t1\<rparr>) = audit_ok d" "audit_ok (d\<lparr>d_intents := t2\<rparr>) = audit_ok d"
  "audit_ok (d\<lparr>d_orders := t3\<rparr>) = audit_ok d" "audit_ok (d\<lparr>d_instances := t4\<rparr>) = audit_ok d"
  "audit_ok (d\<lparr>d_flags := t5\<rparr>) = audit_ok d" "audit_ok (d\<lparr>d_daily := t6\<rparr>) = audit_ok d"
  "audit_ok (d\<lparr>d_breaks := t7\<rparr>) = audit_ok d" "audit_ok (d\<lparr>d_history := t8\<rparr>) = audit_ok d"
  "audit_ok (d\<lparr>d_accounts := t9\<rparr>) = audit_ok d"
  by (simp_all add: audit_ok_def list_state_transitions_def)

lemma audit_okD:
  "audit_ok d \<Longrightarrow> t_get (d_positions d) pid = Some p \<Longrightarrow>
     audit_path ENTRY_PENDING (list_state_transitions pid d) (p_state p)"
  by (auto simp: audit_ok_def list_all_iff dest!: t_get_Some_mem)

lemma audit_ok_iff:
  "audit_ok d \<longleftrightarrow>
     t_wf (d_positions d) \<and>
     (\<forall>pid p. t_get (d_positions d) pid = Some p \<longrightarrow>
        audit_path ENTRY_PENDING (list_state_transitions pid d) (p_state p)) \<and>
     (\<forall>(k, x) \<in> set (d_transitions d). t_get (d_positions d) (x_position x) \<noteq> None)"
proof -
  have mem: "i \<in> set (map fst t) \<longleftrightarrow> t_get t i \<noteq> None" for i and t :: "position_row table"
    by (simp add: t_get_iff_map_of map_of_eq_None_iff)
  show ?thesis
    unfolding audit_ok_def list_all_iff mem
    by (auto dest: t_get_Some_mem t_get_mem)
qed

lemma audit_put:
  assumes "audit_ok d" "t_get (d_positions d) pid = Some r" "p_state q = p_state r"
  shows "audit_ok (d\<lparr>d_positions := t_put (d_positions d) pid q\<rparr>)"
  using assms by (auto simp: audit_ok_iff t_get_put list_state_transitions_def split: prod.splits)

lemma audit_add:
  assumes "audit_ok d" "p_state q = ENTRY_PENDING"
  shows "audit_ok (d\<lparr>d_positions := t_add (d_positions d) q\<rparr>)"
proof -
  have none: "list_state_transitions (t_next (d_positions d)) d = []"
    using assms(1) t_get_fresh [of "d_positions d"]
    by (auto simp: audit_ok_iff list_state_transitions_def t_select_def filter_empty_conv)
  then show ?thesis using assms
    by (auto simp: audit_ok_iff t_get_add list_state_transitions_def split: prod.splits)
qed

lemma transitions_add:
  "list_state_transitions pid (d\<lparr>d_positions := ps, d_transitions := t_add (d_transitions d) x\<rparr>) =
     list_state_transitions pid d @ (if x_position x = pid then [x] else [])"
  by (simp add: list_state_transitions_def t_select_def t_add_def)

lemma audit_transition:
  assumes "audit_ok d" "t_get (d_positions d) pid = Some r"
    and "is_transition_allowed_for_actor (p_state r) t a" "p_state q = t"
  shows "audit_ok (d\<lparr>d_positions := t_put (d_positions d) pid q,
      d_transitions := t_add (d_transitions d)
        \<lparr>x_position = pid, x_from = Some (p_state r), x_to = t, x_reason = reason, x_actor = a\<rparr>\<rparr>)"
  using assms
  by (auto simp: audit_ok_iff t_get_put transitions_add audit_path_append set_t_add split: prod.splits)

lemma transition_state_run:
  "t_get (d_positions d) pid = Some r \<Longrightarrow>
   transition_state pid t a reason d =
     (d\<lparr>d_positions := t_put (d_positions d) pid (r\<lparr>p_state := t, p_version := p_version r + 1\<rparr>),
        d_transitions := t_add (d_transitions d)
          \<lparr>x_position = pid, x_from = Some (p_state r), x_to = t, x_reason = reason, x_actor = a\<rparr>\<rparr>,
      Inr ())"
  by (simp add: transition_state_def get_row_or_raise_def get_row_def act_defs upd_position_def)

lemma transition_state_missing:
  "t_get (d_positions d) pid = None \<Longrightarrow> transition_state pid t a reason d = (d, Inl NotFoundError)"
  by (simp add: transition_state_def get_row_or_raise_def get_row_def act_defs)

lemma sm_transition_missing:
  "t_get (d_positions d) pid = None \<Longrightarrow> sm_transition pid t a reason d = (d, Inl NotFoundError)"
  by (simp add: sm_transition_def get_row_or_raise_def get_row_def act_defs)

lemma sm_transition_run:
  assumes "t_get (d_positions d) pid = Some r"
  shows "sm_transition pid t a reason d =
     (if p_state r = t then (d, Inr False)
      else if is_transition_allowed_for_actor (p_state r) t a
      then (fst (transition_state pid t a reason d), Inr True)
      else (d, Inl (IllegalStateTransitionError (p_state r) t a)))"
  using assms transition_state_run [OF assms, of t a reason]
  by (simp add: sm_transition_def get_row_or_raise_def get_row_def act_defs assert_allowed_cases)

lemma keeps_audit_upd_position:
  "(\<And>r. p_state (f r) = p_state r) \<Longrightarrow> keeps audit_ok (upd_position i f)"
  by (auto intro!: keeps_upd_position audit_put)

lemma keeps_audit_sm_transition: "keeps audit_ok (sm_transition pid t a reason)"
  unfolding keeps_def
proof (intro allI impI)
  fix d assume ok: "audit_ok d"
  show "audit_ok (fst (sm_transition pid t a reason d))"
  proof (cases "t_get (d_positions d) pid")
    case None
    then show ?thesis using ok by (simp add: sm_transition_missing)
  next
    case (Some r)
    then show ?thesis using ok audit_transition [OF ok Some]
      by (simp add: sm_transition_run transition_state_run)
  qed
qed

lemma keeps_audit_mark_error: "keeps audit_ok (mark_error pid a reason)"
  unfolding mark_error_def by (rule keeps_audit_sm_transition)

lemma keeps_audit_position_get_or_create:
  "p_state row = ENTRY_PENDING \<Longrightarrow> keeps audit_ok (position_get_or_create row)"
  unfolding position_get_or_create_def by (rule keeps_get_or_create) (rule audit_add)

end
