(* ===== verification/Order_Updates.thy ===== *)
theory Order_Updates
  imports Repositories
begin

text \<open>
  \<open>services/order_update_processor.py\<close>: the one decision how a broker order snapshot is applied to
  an Order row, used by the push path (the websocket callback) and by the poll path of entry and
  exit. The push path reads the row twice in one session, first to locate it and then under a row
  lock. Whether the locked read refreshes the attributes of the object the session already
  holds is a matter of the ORM; the flag \<open>refresh\<close> stands for it and the properties hold either
  way, because a write from stale attributes fails the optimistic version check.
\<close>

datatype update_outcome =
    APPLIED_FILL | APPLIED_PARTIAL_FILL | APPLIED_REJECTION | APPLIED_CANCELLATION
  | NO_CHANGE | ALREADY_TERMINAL | NOT_FOUND | CONFLICT

definition terminal_status :: "order_status \<Rightarrow> bool" where
  "terminal_status s \<longleftrightarrow> s \<in> {COMPLETE, REJECTED, OS_CANCELLED, OS_ERROR}"

text \<open>Python's \<open>x or y\<close> on an optional Decimal, an optional string and an optional instant.\<close>

definition or_dec :: "decimal option \<Rightarrow> decimal \<Rightarrow> decimal" where
  "or_dec x y = (case x of None \<Rightarrow> y | Some v \<Rightarrow> if v = 0 then y else v)"

definition or_str :: "string option \<Rightarrow> string \<Rightarrow> string" where
  "or_str x y = (case x of None \<Rightarrow> y | Some v \<Rightarrow> if v = [] then y else v)"

definition or_dt :: "dt option \<Rightarrow> dt \<Rightarrow> dt" where
  "or_dt x y = (case x of None \<Rightarrow> y | Some v \<Rightarrow> v)"

text \<open>
  The writes of \<open>record_fill\<close>, \<open>record_rejection\<close> and \<open>record_cancellation\<close> on the attributes of
  the loaded row; \<open>flush_order\<close> is the flush that follows.
\<close>

definition fill_attrs :: "order_status \<Rightarrow> int \<Rightarrow> decimal \<Rightarrow> dt \<Rightarrow> order_row \<Rightarrow> order_row" where
  "fill_attrs status filled price filled_at r =
     r\<lparr>o_status := status, o_filled := filled, o_avg_price := Some (num4 price),
       o_filled_at := Some filled_at\<rparr>"

definition apply_broker_order_update ::
    "order_row \<Rightarrow> broker_order \<Rightarrow> dt \<Rightarrow> update_outcome \<times> order_row" where
  "apply_broker_order_update order bo now =
     (if terminal_status (o_status order) then (ALREADY_TERMINAL, order)
      else
        let r = (if o_broker_id order = None \<and> bo_id bo \<noteq> []
                 then order\<lparr>o_broker_id := Some (bo_id bo)\<rparr> else order)
        in if bo_status bo = COMPLETE then
             (APPLIED_FILL,
              fill_attrs COMPLETE (bo_filled bo) (or_dec (bo_avg_price bo) 0)
                (or_dt (bo_filled_at bo) now) r)
           else if bo_status bo \<in> {REJECTED, OS_ERROR} then
             (APPLIED_REJECTION,
              r\<lparr>o_status := REJECTED,
                o_error := Some (or_str (bo_message bo)
                  (if bo_status bo = REJECTED then ''broker rejected'' else ''broker error''))\<rparr>)
           else if bo_status bo = OS_CANCELLED then
             (APPLIED_CANCELLATION, r\<lparr>o_status := OS_CANCELLED\<rparr>)
           else if bo_filled bo > o_filled order then
             (APPLIED_PARTIAL_FILL,
              fill_attrs OS_OPEN (bo_filled bo)
                (or_dec (bo_avg_price bo) (or_dec (o_avg_price order) 0))
                (or_dt (bo_filled_at bo) now) r)
           else (NO_CHANGE, r))"

definition flush_order :: "nat \<Rightarrow> order_row \<Rightarrow> order_row \<Rightarrow> unit tx" where
  "flush_order oid old new d =
     (if old = new then (d, Inr ())
      else case t_get (d_orders d) oid of
             None \<Rightarrow> (d, Inl ConcurrentModificationError)
           | Some cur \<Rightarrow>
               if o_version cur = o_version old
               then (d\<lparr>d_orders := t_put (d_orders d) oid (new\<lparr>o_version := o_version old + 1\<rparr>)\<rparr>, Inr ())
               else (d, Inl ConcurrentModificationError))"

definition locate :: "broker_order \<Rightarrow> (nat \<times> order_row) option tx" where
  "locate bo =
     bnd (asks (\<lambda>d. if bo_id bo = [] then None else order_by_broker_id (bo_id bo) d)) (\<lambda>found.
     case found of
       Some x \<Rightarrow> ret (Some x)
     | None \<Rightarrow>
         (case bo_tag bo of
            None \<Rightarrow> ret None
          | Some tag \<Rightarrow> if tag = [] then ret None else order_by_tag tag))"

text \<open>
  \<open>process\<close>: the row is located in the database \<open>d0\<close> and locked in the database \<open>d\<close>; other
  transactions may have committed in between. Every failure is an outcome.
\<close>

definition process ::
    "bool \<Rightarrow> broker_order \<Rightarrow> dt \<Rightarrow> db \<Rightarrow> db \<Rightarrow> db \<times> update_outcome" where
  "process refresh bo now d0 d =
     (case snd (locate bo d0) of
        Inl e \<Rightarrow> (d, CONFLICT)
      | Inr None \<Rightarrow> (d, NOT_FOUND)
      | Inr (Some (oid, seen)) \<Rightarrow>
          (case t_get (d_orders d) oid of
             None \<Rightarrow> (d, NOT_FOUND)
           | Some cur \<Rightarrow>
               (let r = (if refresh then cur else seen);
                    res = apply_broker_order_update r bo now
                in case flush_order oid r (snd res) d of
                     (d', Inl e) \<Rightarrow> (d, CONFLICT)
                   | (d', Inr _) \<Rightarrow> if db_constraints d' then (d', fst res) else (d, CONFLICT))))"

text \<open>The transaction of the poll path, \<open>reconcile_order_terminal\<close>.\<close>

definition reconcile_order_body :: "string \<Rightarrow> broker_order \<Rightarrow> dt \<Rightarrow> unit tx" where
  "reconcile_order_body broker_order_id bo now =
     bnd (asks (order_by_broker_id broker_order_id)) (\<lambda>located.
     case located of
       None \<Rightarrow> ret ()
     | Some (oid, seen) \<Rightarrow>
         bnd (get_row d_orders oid) (\<lambda>order.
         case order of
           None \<Rightarrow> ret ()
         | Some r \<Rightarrow> flush_order oid r (snd (apply_broker_order_update r bo now))))"

section \<open>The decision\<close>

lemma apply_terminal: "terminal_status (o_status r) \<Longrightarrow> apply_broker_order_update r bo now = (ALREADY_TERMINAL, r)"
  by (simp add: apply_broker_order_update_def)

lemma apply_keeps_identity:
  "o_trade (snd (apply_broker_order_update r bo now)) = o_trade r"
  "o_intent (snd (apply_broker_order_update r bo now)) = o_intent r"
  "o_purpose (snd (apply_broker_order_update r bo now)) = o_purpose r"
  "o_side (snd (apply_broker_order_update r bo now)) = o_side r"
  "o_quantity (snd (apply_broker_order_update r bo now)) = o_quantity r"
  "o_tag (snd (apply_broker_order_update r bo now)) = o_tag r"
  "o_version (snd (apply_broker_order_update r bo now)) = o_version r"
  "o_placed_at (snd (apply_broker_order_update r bo now)) = o_placed_at r"
  by (simp_all add: apply_broker_order_update_def fill_attrs_def Let_def)

lemma apply_broker_id:
  "o_broker_id (snd (apply_broker_order_update r bo now)) =
     (if \<not> terminal_status (o_status r) \<and> o_broker_id r = None \<and> bo_id bo \<noteq> []
      then Some (bo_id bo) else o_broker_id r)"
  by (simp add: apply_broker_order_update_def fill_attrs_def Let_def)

lemma apply_twice:
  "apply_broker_order_update (snd (apply_broker_order_update r bo now)) bo now' =
     ((if terminal_status (o_status (snd (apply_broker_order_update r bo now)))
       then ALREADY_TERMINAL else NO_CHANGE), snd (apply_broker_order_update r bo now))"
proof (cases "terminal_status (o_status r)")
  case True
  then show ?thesis by (simp add: apply_terminal)
next
  case False
  note defs = apply_broker_order_update_def fill_attrs_def Let_def terminal_status_def
  show ?thesis
    using False
    by (cases "bo_status bo"; cases "o_broker_id r = None \<and> bo_id bo \<noteq> []";
        cases "o_filled r < bo_filled bo") (simp_all add: defs)
qed

lemma apply_status:
  "\<not> terminal_status (o_status r) \<Longrightarrow>
     (terminal_status (bo_status bo) \<longrightarrow>
        terminal_status (o_status (snd (apply_broker_order_update r bo now)))) \<and>
     (\<not> terminal_status (bo_status bo) \<longrightarrow>
        \<not> terminal_status (o_status (snd (apply_broker_order_update r bo now))) \<and>
        o_filled r \<le> o_filled (snd (apply_broker_order_update r bo now)))"
  by (cases "bo_status bo")
    (auto simp: apply_broker_order_update_def fill_attrs_def Let_def terminal_status_def)

section \<open>Versions only grow\<close>

definition orders_later :: "db \<Rightarrow> db \<Rightarrow> bool" where
  "orders_later d0 d \<longleftrightarrow>
     (\<forall>oid r0. t_get (d_orders d0) oid = Some r0 \<longrightarrow>
        (\<exists>r. t_get (d_orders d) oid = Some r \<and> (r = r0 \<or> o_version r0 < o_version r)))"

lemma orders_later_refl: "orders_later d d"
  by (simp add: orders_later_def)

lemma orders_laterD:
  "orders_later a b \<Longrightarrow> t_get (d_orders a) i = Some r \<Longrightarrow>
     \<exists>q. t_get (d_orders b) i = Some q \<and> (q = r \<or> o_version r < o_version q)"
  by (simp add: orders_later_def)

lemma orders_later_trans: "orders_later a b \<Longrightarrow> orders_later b c \<Longrightarrow> orders_later a c"
proof -
  assume ab: "orders_later a b" and bc: "orders_later b c"
  have "\<exists>q. t_get (d_orders c) i = Some q \<and> (q = r \<or> o_version r < o_version q)"
    if r: "t_get (d_orders a) i = Some r" for i r
  proof -
    obtain p where p: "t_get (d_orders b) i = Some p" "p = r \<or> o_version r < o_version p"
      using orders_laterD [OF ab r] by blast
    obtain q where "t_get (d_orders c) i = Some q" "q = p \<or> o_version p < o_version q"
      using orders_laterD [OF bc p(1)] by blast
    then show ?thesis using p(2) by auto
  qed
  then show ?thesis by (simp add: orders_later_def)
qed

lemma orders_later_flush:
  assumes "t_get (d_orders d) oid = Some r"
  shows "orders_later d (fst (flush_order oid r r' d))"
  using assms by (auto simp: orders_later_def flush_order_def t_get_put)

lemma orders_later_upd_order:
  assumes "\<And>r. o_version (f r) = o_version r"
  shows "orders_later d (fst (upd_order oid f d))"
  using assms by (auto simp: orders_later_def upd_order_def modify_def t_get_put split: option.split)

lemma orders_later_order_create:
  "orders_later d (fst (order_create a b c e f g h d))"
  by (auto simp: orders_later_def order_create_def t_get_add t_get_add_old)

lemma flush_order_cases:
  assumes "t_get (d_orders d) oid = Some cur"
  shows "flush_order oid r r' d =
    (if r = r' then (d, Inr ())
     else if o_version cur = o_version r
     then (d\<lparr>d_orders := t_put (d_orders d) oid (r'\<lparr>o_version := o_version r + 1\<rparr>)\<rparr>, Inr ())
     else (d, Inl ConcurrentModificationError))"
  using assms by (simp add: flush_order_def)

lemma locate_state: "fst (locate bo d) = d"
  by (auto simp: locate_def act_defs order_by_tag_def split: option.split list.split)

lemma locate_mem:
  "snd (locate bo d) = Inr (Some (oid, r)) \<Longrightarrow>
     (oid, r) \<in> set (d_orders d) \<and> (o_broker_id r = Some (bo_id bo) \<or> o_tag r = bo_tag bo)"
proof -
  assume l: "snd (locate bo d) = Inr (Some (oid, r))"
  have tag: "(oid, r) \<in> set (d_orders d) \<and> o_tag r = Some tag"
    if "snd (order_by_tag tag d) = Inr (Some (oid, r))" for tag
  proof -
    have "(oid, r) \<in> set (t_select (\<lambda>r. o_tag r = Some tag) (d_orders d))"
      using that by (auto simp: order_by_tag_def split: list.splits)
    then show ?thesis by (simp add: t_select_mem)
  qed
  from l show ?thesis
    by (auto simp: locate_def act_defs order_by_broker_id_def dest!: t_find_Some tag
        split: option.splits if_splits)
qed

text \<open>
  What one processed update can have done: nothing, or one row rewritten by the decision
  function from its current content.
\<close>

lemma process_effect:
  assumes "db_wf d0" "orders_later d0 d"
  obtains "fst (process refresh bo now d0 d) = d"
  | oid cur where "t_get (d_orders d) oid = Some cur" "\<not> terminal_status (o_status cur)"
      "process refresh bo now d0 d =
         (d\<lparr>d_orders := t_put (d_orders d) oid
             ((snd (apply_broker_order_update cur bo now))\<lparr>o_version := o_version cur + 1\<rparr>)\<rparr>,
          fst (apply_broker_order_update cur bo now))"
      "db_constraints (fst (process refresh bo now d0 d))"
proof (cases "fst (process refresh bo now d0 d) = d")
  case True
  then show ?thesis by (rule that(1))
next
  case ne: False
  then obtain oid seen cur where loc: "snd (locate bo d0) = Inr (Some (oid, seen))"
    and cur: "t_get (d_orders d) oid = Some cur"
    by (auto simp: process_def split: sum.splits option.splits prod.splits)
  have mem: "t_get (d_orders d0) oid = Some seen"
    using locate_mem [OF loc] assms(1) by (auto simp: db_wf_def intro: t_get_mem)
  define r where "r = (if refresh then cur else seen)"
  define r' where "r' = snd (apply_broker_order_update r bo now)"
  have run: "process refresh bo now d0 d =
      (case flush_order oid r r' d of
         (d', Inl e) \<Rightarrow> (d, CONFLICT)
       | (d', Inr _) \<Rightarrow> if db_constraints d' then (d', fst (apply_broker_order_update r bo now))
           else (d, CONFLICT))"
    unfolding process_def r_def r'_def Let_def by (simp only: loc cur sum.case option.case prod.case)
  have diff: "r \<noteq> r'"
  proof
    assume "r = r'"
    then show False using ne run by (auto simp: flush_order_def split: if_splits)
  qed
  have ver: "o_version cur = o_version r"
  proof (rule ccontr)
    assume "o_version cur \<noteq> o_version r"
    then show False using ne run diff by (simp add: flush_order_cases [OF cur])
  qed
  have rc: "r = cur"
    using ver cur orders_laterD [OF assms(2) mem] by (auto simp: r_def)
  define d' where "d' = d\<lparr>d_orders := t_put (d_orders d) oid (r'\<lparr>o_version := o_version cur + 1\<rparr>)\<rparr>"
  have fl: "flush_order oid r r' d = (d', Inr ())"
    using diff ver by (simp add: flush_order_cases [OF cur] d'_def)
  have res: "process refresh bo now d0 d =
      (if db_constraints d' then (d', fst (apply_broker_order_update cur bo now)) else (d, CONFLICT))"
    unfolding run fl by (simp add: rc)
  have con: "db_constraints d'" using ne res by (auto split: if_splits)
  show ?thesis
  proof (rule that(2) [OF cur])
    show "\<not> terminal_status (o_status cur)" using diff by (auto simp: r'_def rc apply_terminal)
  qed (simp_all add: res con, simp add: d'_def r'_def rc)
qed

section \<open>Properties\<close>

lemma process_orders_later:
  assumes "db_wf d0" "orders_later d0 d"
  shows "orders_later d (fst (process refresh bo now d0 d))"
  using assms
proof (cases rule: process_effect [of d0 d refresh bo now])
  case 1
  then show ?thesis by (simp add: orders_later_refl)
next
  case (2 oid cur)
  then show ?thesis by (auto simp: orders_later_def t_get_put)
qed

lemma process_other_tables:
  assumes "db_wf d0" "orders_later d0 d"
  shows "fst (process refresh bo now d0 d) = d\<lparr>d_orders := d_orders (fst (process refresh bo now d0 d))\<rparr>"
  using assms by (cases rule: process_effect [of d0 d refresh bo now]) simp_all


text \<open>
  C35: the decision is idempotent: once a snapshot has been applied to a row, applying the same
  snapshot again writes nothing and reports ALREADY_TERMINAL or NO_CHANGE; a terminal snapshot
  always leaves the row terminal, a working one never does.
\<close>

theorem apply_update_idempotent:
  "(case apply_broker_order_update r bo now of
      (out, r') \<Rightarrow>
        snd (apply_broker_order_update r' bo now') = r' \<and>
        fst (apply_broker_order_update r' bo now') \<in> {ALREADY_TERMINAL, NO_CHANGE} \<and>
        (if terminal_status (o_status r) then out = ALREADY_TERMINAL \<and> r' = r
         else terminal_status (o_status r') = terminal_status (bo_status bo)))"
  using apply_twice [of r bo now now'] apply_status [of r bo now]
  by (auto simp: apply_terminal split: prod.split)

definition demo_order :: order_row where
  "demo_order = \<lparr>o_trade = 1, o_intent = Some 1, o_purpose = ENTRY, o_side = SELL, o_type = MARKET,
     o_quantity = 75, o_filled = 0, o_avg_price = None, o_status = OS_OPEN, o_broker_id = Some ''B1'',
     o_tag = Some ''E1-250101-CE'', o_placed_at = Some 0, o_filled_at = None, o_error = None,
     o_retries = 0, o_version = 2\<rparr>"

definition demo_broker_order :: broker_order where
  "demo_broker_order = \<lparr>bo_id = ''B1'', bo_tag = None, bo_status = COMPLETE, bo_exchange = NFO,
     bo_symbol = ''NIFTY24500CE'', bo_side = SELL, bo_product = INTRADAY, bo_order_type = MARKET,
     bo_quantity = 75, bo_filled = 75, bo_avg_price = Some 100, bo_trigger = None,
     bo_placed_at = None, bo_filled_at = Some 5, bo_updated_at = None, bo_message = None\<rparr>"

definition demo_order_db :: db where
  "demo_order_db = empty_db\<lparr>d_orders := [(1, demo_order)]\<rparr>"


end
