(* ===== verification/Calendar.thy ===== *)
theory Calendar
  imports Broker_Data
begin

text \<open>
  Dates, the Asia/Kolkata clock (a fixed offset of 5:30 hours), trading calendars
  (\<open>services/holiday_service.py\<close>, \<open>scheduler/trading_calendar.py\<close>), session phases
  (\<open>market_data_collector/market_hours.py\<close>) and the expiry services of
  \<open>services/live_seams.py\<close>. The civil calendar of Python's \<open>date\<close> is modelled by finding the year
  and the month whose first day is the last one not after the given day.
\<close>

section \<open>The civil calendar\<close>

definition weekday :: "date \<Rightarrow> int" where
  "weekday d = (d + 3) mod 7"

definition is_leap :: "int \<Rightarrow> bool" where
  "is_leap y \<longleftrightarrow> y mod 4 = 0 \<and> (y mod 100 \<noteq> 0 \<or> y mod 400 = 0)"

definition days_before_year :: "int \<Rightarrow> int" where
  "days_before_year y =
     365 * (y - 1970) + ((y - 1) div 4 - (y - 1) div 100 + (y - 1) div 400) - 477"

definition days_in_month :: "int \<Rightarrow> int \<Rightarrow> int" where
  "days_in_month y m =
     (if m = 2 then (if is_leap y then 29 else 28) else if m \<in> {4, 6, 9, 11} then 30 else 31)"

definition days_before_month :: "int \<Rightarrow> int \<Rightarrow> int" where
  "days_before_month y m = sum_list (map (days_in_month y) [1 .. m - 1])"

definition days_from_civil :: "int \<Rightarrow> int \<Rightarrow> int \<Rightarrow> date" where
  "days_from_civil y m d = days_before_year y + days_before_month y m + (d - 1)"

lemma div_pred_step:
  assumes "0 < k" shows "y div k - (y - 1) div k = (if y mod k = 0 then 1 else (0 :: int))"
proof -
  define q r where "q = y div k" and "r = y mod k"
  have y: "y = k * q + r" and r: "0 \<le> r" "r < k" using assms by (simp_all add: q_def r_def)
  show ?thesis
  proof (cases "r = 0")
    case True
    have "(y - 1) div k = q - 1"
      by (rule int_div_pos_eq [where r = "k - 1"]) (use y True assms in \<open>simp_all add: algebra_simps\<close>)
    then show ?thesis using True by (simp add: q_def r_def)
  next
    case False
    have "(y - 1) div k = q"
      by (rule int_div_pos_eq [where r = "r - 1"]) (use y r False in \<open>simp_all add: algebra_simps\<close>)
    then show ?thesis using False by (simp add: q_def r_def)
  qed
qed

lemma year_difference:
  "365 * (y + 1 - 1970) + (p - q + r) - 477 - (365 * (y - 1970) + (p' - q' + r') - 477) =
     365 + (p - p' - (q - q') + (r - r'))" for y :: int
  by simp

lemma days_before_year_step:
  "days_before_year (y + 1) = days_before_year y + (if is_leap y then 366 else 365)"
proof -
  define a b c where "a = y div 4 - (y - 1) div 4" and "b = y div 100 - (y - 1) div 100"
    and "c = y div 400 - (y - 1) div 400"
  have abc: "a = (if y mod 4 = 0 then 1 else 0)" "b = (if y mod 100 = 0 then 1 else 0)"
    "c = (if y mod 400 = 0 then 1 else 0)"
    unfolding a_def b_def c_def by (rule div_pred_step, simp)+
  have "400 dvd y \<Longrightarrow> 100 dvd y" "100 dvd y \<Longrightarrow> 4 dvd y"
    by (rule dvd_trans [of "100 :: int" 400], simp_all) (rule dvd_trans [of "4 :: int" 100], simp_all)
  then have imp: "y mod 400 = 0 \<Longrightarrow> y mod 100 = 0" "y mod 100 = 0 \<Longrightarrow> y mod 4 = 0"
    by (simp_all only: dvd_eq_mod_eq_0)
  have "days_before_year (y + 1) - days_before_year y = 365 + (a - b + c)"
    unfolding days_before_year_def a_def b_def c_def add_diff_cancel_right'
    by (rule year_difference)
  also have "a - b + c = (if is_leap y then 1 else 0)"
    using imp unfolding abc is_leap_def
    by (cases "y mod 400 = 0"; cases "y mod 100 = 0"; cases "y mod 4 = 0")
      (simp_all only: if_True if_False simp_thms True_implies_equals diff_0_right add_0_left diff_self add_0_right)
  finally show ?thesis by (simp split: if_splits)
qed

lemma days_before_year_1970: "days_before_year 1970 = 0"
  by (simp add: days_before_year_def)

lemma days_before_year_grows: "days_before_year y + 365 \<le> days_before_year (y + 1)"
  by (simp add: days_before_year_step)

lemma days_before_year_mono_nat: "days_before_year y + 365 * int k \<le> days_before_year (y + int k)"
proof (induction k)
  case (Suc k)
  then show ?case using days_before_year_grows [of "y + int k"] by (simp add: algebra_simps)
qed simp

lemma days_before_year_mono: "y \<le> z \<Longrightarrow> days_before_year y \<le> days_before_year z"
  using days_before_year_mono_nat [of y "nat (z - y)"] by simp

text \<open>
  The search for the year starts at an estimate that is never too late (years have at most 366
  days); every step moves at least 365 days forward.
\<close>

function find_year :: "int \<Rightarrow> date \<Rightarrow> int" where
  "find_year y n = (if n < days_before_year (y + 1) then y else find_year (y + 1) n)"
  by pat_completeness auto
termination
proof (relation "measure (\<lambda>(y, n). nat (n + 1 - days_before_year y))")
  fix y n assume "\<not> n < days_before_year (y + 1)"
  then show "((y + 1, n), (y, n)) \<in> measure (\<lambda>(y, n). nat (n + 1 - days_before_year y))"
    using days_before_year_grows [of y] by simp
qed simp

declare find_year.simps [simp del]

definition year_estimate :: "date \<Rightarrow> int" where
  "year_estimate n = (if 0 \<le> n then 1970 + n div 366 else 1969 + n div 365)"

definition year_of :: "date \<Rightarrow> int" where
  "year_of n = find_year (year_estimate n) n"

function find_month :: "int \<Rightarrow> int \<Rightarrow> int \<Rightarrow> int" where
  "find_month y m k =
     (if 12 \<le> m \<or> k < days_before_month y (m + 1) then m else find_month y (m + 1) k)"
  by pat_completeness auto
termination by (relation "measure (\<lambda>(y, m, k). nat (12 - m))") auto

declare find_month.simps [simp del]

definition month_of :: "date \<Rightarrow> int" where
  "month_of n = find_month (year_of n) 1 (n - days_before_year (year_of n))"

definition day_of :: "date \<Rightarrow> int" where
  "day_of n = n - days_before_year (year_of n) - days_before_month (year_of n) (month_of n) + 1"

lemma find_year_upper: "n < days_before_year (find_year y n + 1)"
  by (induction y n rule: find_year.induct) (subst find_year.simps, simp)

lemma find_year_lower: "days_before_year y \<le> n \<Longrightarrow> days_before_year (find_year y n) \<le> n"
  by (induction y n rule: find_year.induct) (subst find_year.simps, simp)

lemma days_before_year_upper_nat: "days_before_year (y + int k) \<le> days_before_year y + 366 * int k"
proof (induction k)
  case (Suc k)
  have "days_before_year (y + int k + 1) \<le> days_before_year (y + int k) + 366"
    by (simp add: days_before_year_step)
  then show ?case using Suc by (simp add: algebra_simps)
qed simp

lemma year_estimate_lower: "days_before_year (year_estimate n) \<le> n"
proof (cases "0 \<le> n")
  case True
  have "days_before_year (1970 + int (nat (n div 366))) \<le> 366 * int (nat (n div 366))"
    using days_before_year_upper_nat [of 1970 "nat (n div 366)"] by (simp add: days_before_year_1970)
  also have "int (nat (n div 366)) = n div 366" using True by simp
  also have "366 * (n div 366) \<le> n" by simp
  finally show ?thesis using True by (simp add: year_estimate_def)
next
  case False
  define k where "k = nat (- (n div 365 - 1))"
  have k: "int k = - (n div 365 - 1)" using False by (simp add: k_def)
  have "days_before_year (1970 - int k) + 365 * int k \<le> days_before_year (1970 - int k + int k)"
    by (rule days_before_year_mono_nat)
  then have "days_before_year (1970 - int k) \<le> - 365 * int k" by (simp add: days_before_year_1970)
  also have "\<dots> \<le> n"
    unfolding k using div_mult_mod_eq [of n 365] pos_mod_bound [of 365 n] by simp
  finally show ?thesis using False k by (simp add: year_estimate_def)
qed

lemma year_of_bounds: "days_before_year (year_of n) \<le> n \<and> n < days_before_year (year_of n + 1)"
  unfolding year_of_def using find_year_upper find_year_lower [OF year_estimate_lower] by blast

section \<open>The clock\<close>

definition ist_offset :: int where
  "ist_offset = 19800000000"

definition day_micros :: int where
  "day_micros = 86400000000"

definition ist_date :: "dt \<Rightarrow> date" where
  "ist_date now = (now + ist_offset) div day_micros"

definition ist_time :: "dt \<Rightarrow> int" where
  "ist_time now = (now + ist_offset) mod day_micros"

definition hms :: "int \<Rightarrow> int \<Rightarrow> int \<Rightarrow> int" where
  "hms h m s = ((h * 60 + m) * 60 + s) * 1000000"

lemma ist_split: "ist_date now * day_micros + ist_time now = now + ist_offset"
  by (simp add: ist_date_def ist_time_def)

lemma ist_time_bounds: "0 \<le> ist_time now \<and> ist_time now < day_micros"
  by (simp add: ist_time_def day_micros_def)

lemma ist_date_mono: "a \<le> b \<Longrightarrow> ist_date a \<le> ist_date b"
  by (simp add: ist_date_def day_micros_def zdiv_mono1)

section \<open>Rendering of dates\<close>

definition pad2 :: "int \<Rightarrow> string" where
  "pad2 n = [char_of (48 + nat (n div 10 mod 10)), char_of (48 + nat (n mod 10))]"

definition isoformat :: "date \<Rightarrow> string" where
  "isoformat n =
     pad2 (year_of n div 100) @ pad2 (year_of n mod 100) @ ''-'' @ pad2 (month_of n) @ ''-'' @
     pad2 (day_of n)"

definition yymmdd :: "date \<Rightarrow> string" where
  "yymmdd n = pad2 (year_of n mod 100) @ pad2 (month_of n) @ pad2 (day_of n)"

lemma length_pad2 [simp]: "length (pad2 n) = 2"
  by (simp add: pad2_def)

lemma length_isoformat [simp]: "length (isoformat n) = 10"
  by (simp add: isoformat_def)

lemma length_yymmdd [simp]: "length (yymmdd n) = 6"
  by (simp add: yymmdd_def)

lemma pad2_inj:
  assumes "pad2 a = pad2 b" "0 \<le> a" "a < 100" "0 \<le> b" "b < 100" shows "a = b"
proof -
  have d: "nat (a div 10 mod 10) = nat (b div 10 mod 10)" "nat (a mod 10) = nat (b mod 10)"
    using assms(1) by (auto simp: pad2_def intro!: digit_char_inj)
  have "a div 10 mod 10 = a div 10" "b div 10 mod 10 = b div 10"
    using assms by (auto intro!: mod_pos_pos_trivial)
  with d have "a div 10 = b div 10" "a mod 10 = b mod 10"
    using assms by (simp_all add: nat_eq_iff2 split: if_splits)
  then show ?thesis by (metis div_mult_mod_eq)
qed

section \<open>Walking over trading days\<close>

text \<open>
  \<open>walk fuel step p d\<close> is the loop of \<open>previous_trading_day\<close> and \<open>next_trading_day\<close>: it returns
  the first day from \<open>d\<close> in direction \<open>step\<close> that satisfies \<open>p\<close>, or None when the bound on the
  walk is exhausted (the code then raises ValueError).
\<close>

fun walk :: "nat \<Rightarrow> int \<Rightarrow> (date \<Rightarrow> bool) \<Rightarrow> date \<Rightarrow> date option" where
  "walk 0 step p d = None"
| "walk (Suc n) step p d = (if p d then Some d else walk n step p (d + step))"

lemma walk_unfold:
  "walk (numeral n) step p d = (if p d then Some d else walk (pred_numeral n) step p (d + step))"
  by (simp add: numeral_eq_Suc)

lemma walk_Some:
  "walk n step p d = Some x \<Longrightarrow>
     \<exists>k < n. x = d + int k * step \<and> p x \<and> (\<forall>j < k. \<not> p (d + int j * step))"
proof (induction n arbitrary: d)
  case 0
  then show ?case by simp
next
  case (Suc n)
  show ?case
  proof (cases "p d")
    case True
    then show ?thesis using Suc.prems by (intro exI [of _ 0]) simp
  next
    case False
    then obtain k where k: "k < n" "x = d + step + int k * step" "p x"
      "\<forall>j < k. \<not> p (d + step + int j * step)" using Suc by auto
    have "\<not> p (d + int j * step)" if "j < Suc k" for j
      using that k(4) False by (cases j) (auto simp: algebra_simps)
    then show ?thesis using k by (intro exI [of _ "Suc k"]) (auto simp: algebra_simps)
  qed
qed

lemma walk_None: "walk n step p d = None \<longleftrightarrow> (\<forall>j < n. \<not> p (d + int j * step))"
proof (induction n arbitrary: d)
  case 0
  then show ?case by simp
next
  case (Suc n)
  have "(\<forall>j < Suc n. \<not> p (d + int j * step)) \<longleftrightarrow> \<not> p d \<and> (\<forall>j < n. \<not> p (d + step + int j * step))"
    by (auto simp: less_Suc_eq_0_disj algebra_simps)
  then show ?case using Suc by simp
qed

section \<open>The trading-calendar interface\<close>

text \<open>
  What the scheduler, the session clock and the expiry service rely on: no calendar trades on a
  Saturday or a Sunday.
\<close>

locale trading_calendar =
  fixes trading :: "date \<Rightarrow> bool"
  assumes weekend_closed: "5 \<le> weekday d \<Longrightarrow> \<not> trading d"
begin

lemma trading_weekday: "trading d \<Longrightarrow> weekday d < 5"
  using weekend_closed [of d] by linarith

lemma next_day_least:
  assumes "walk n 1 trading (d + 1) = Some x"
  shows "d < x \<and> trading x \<and> weekday x < 5 \<and> (\<forall>y. d < y \<and> y < x \<longrightarrow> \<not> trading y)"
proof -
  obtain k where k: "x = d + 1 + int k" "trading x" "\<forall>j < k. \<not> trading (d + 1 + int j)"
    using walk_Some [OF assms] by auto
  have "\<not> trading y" if "d < y" "y < x" for y
  proof -
    have "nat (y - (d + 1)) < k" "y = d + 1 + int (nat (y - (d + 1)))" using that k by auto
    then show ?thesis using k(3) by metis
  qed
  then show ?thesis using k trading_weekday by auto
qed

lemma previous_day_greatest:
  assumes "walk n (- 1) trading (d - 1) = Some x"
  shows "x < d \<and> trading x \<and> weekday x < 5 \<and> (\<forall>y. x < y \<and> y < d \<longrightarrow> \<not> trading y)"
proof -
  obtain k where k: "x = d - 1 - int k" "trading x" "\<forall>j < k. \<not> trading (d - 1 - int j)"
    using walk_Some [OF assms] by auto
  have "\<not> trading y" if "x < y" "y < d" for y
  proof -
    have "nat (d - 1 - y) < k" "y = d - 1 - int (nat (d - 1 - y))" using that k by auto
    then show ?thesis using k(3) by metis
  qed
  then show ?thesis using k trading_weekday by auto
qed

text \<open>The step back from a day stays at or after any trading day it starts from or passes.\<close>

lemma step_back_bounded:
  assumes "trading a" "a \<le> d" "walk n (- 1) trading d = Some x"
  shows "a \<le> x \<and> x \<le> d \<and> trading x"
proof -
  obtain k where k: "x = d - int k" "trading x" "\<forall>j < k. \<not> trading (d - int j)"
    using walk_Some [OF assms(3)] by auto
  have "\<not> x < a"
  proof
    assume "x < a"
    then have "nat (d - a) < k" "a = d - int (nat (d - a))" using assms(2) k by auto
    then show False using k(3) assms(1) by metis
  qed
  then show ?thesis using k by auto
qed

end

section \<open>Calendars (holiday\_service.py, trading\_calendar.py)\<close>

type_synonym holidays = "(string \<times> date list) list"

fun calendar_key :: "exchange \<Rightarrow> string" where
  "calendar_key NFO = ''NSE''"
| "calendar_key NSE = ''NSE''"
| "calendar_key BFO = ''BSE''"
| "calendar_key BSE = ''BSE''"

definition dates_for :: "holidays \<Rightarrow> exchange \<Rightarrow> date list" where
  "dates_for h exch = (case map_of h (calendar_key exch) of None \<Rightarrow> [] | Some ds \<Rightarrow> ds)"

definition is_holiday :: "holidays \<Rightarrow> date \<Rightarrow> exchange \<Rightarrow> bool" where
  "is_holiday h day exch \<longleftrightarrow> day \<in> set (dates_for h exch)"

definition is_trading_day :: "holidays \<Rightarrow> date \<Rightarrow> exchange \<Rightarrow> bool" where
  "is_trading_day h day exch \<longleftrightarrow> weekday day < 5 \<and> day \<notin> set (dates_for h exch)"

definition max_walk_days :: nat where
  "max_walk_days = 3650"

definition previous_trading_day :: "holidays \<Rightarrow> date \<Rightarrow> exchange \<Rightarrow> exn + date" where
  "previous_trading_day h day exch =
     (case walk max_walk_days (- 1) (\<lambda>d. is_trading_day h d exch) (day - 1) of
        Some d \<Rightarrow> Inr d | None \<Rightarrow> Inl ValueError)"

definition next_trading_day :: "holidays \<Rightarrow> date \<Rightarrow> exchange \<Rightarrow> exn + date" where
  "next_trading_day h day exch =
     (case walk max_walk_days 1 (\<lambda>d. is_trading_day h d exch) (day + 1) of
        Some d \<Rightarrow> Inr d | None \<Rightarrow> Inl ValueError)"

definition holiday_aware_trading_day :: "holidays \<Rightarrow> exchange list \<Rightarrow> date \<Rightarrow> bool" where
  "holiday_aware_trading_day h exchanges day =
     (if 5 \<le> weekday day then False
      else if filter (\<lambda>e. is_holiday h day e) exchanges \<noteq> [] then False
      else True)"

definition weekday_trading_day :: "date \<Rightarrow> bool" where
  "weekday_trading_day day \<longleftrightarrow> weekday day < 5"

interpretation exchange_cal: trading_calendar "\<lambda>d. is_trading_day h d exch" for h exch
  by unfold_locales (simp add: is_trading_day_def)

interpretation platform_cal: trading_calendar "holiday_aware_trading_day h exchanges" for h exchanges
  by unfold_locales (simp add: holiday_aware_trading_day_def)

interpretation weekday_cal: trading_calendar weekday_trading_day
  by unfold_locales (simp add: weekday_trading_day_def)

lemma holiday_aware_iff:
  "exchanges \<noteq> [] \<Longrightarrow>
   holiday_aware_trading_day h exchanges day \<longleftrightarrow> (\<forall>e \<in> set exchanges. is_trading_day h day e)"
  by (auto simp: holiday_aware_trading_day_def is_trading_day_def is_holiday_def filter_empty_conv)

section \<open>The session clock (market\_hours.py)\<close>

datatype phase = PRE_OPEN | CONNECT | COLLECT | PH_FREEZE | FLUSH | PH_CLOSED

record market_hours =
  mh_connect :: int
  mh_start :: int
  mh_stop_subscribe :: int
  mh_flush :: int
  mh_disconnect :: int

definition session_phase :: "market_hours \<Rightarrow> (date \<Rightarrow> bool) \<Rightarrow> dt \<Rightarrow> phase" where
  "session_phase c trading now =
     (let t = ist_time now
      in if \<not> trading (ist_date now) then PRE_OPEN
         else if t < mh_connect c then PRE_OPEN
         else if t < mh_start c then CONNECT
         else if t < mh_stop_subscribe c then COLLECT
         else if t < mh_flush c then PH_FREEZE
         else if t < mh_disconnect c then FLUSH
         else PH_CLOSED)"

fun phase_rank :: "phase \<Rightarrow> nat" where
  "phase_rank PRE_OPEN = 0"
| "phase_rank CONNECT = 1"
| "phase_rank COLLECT = 2"
| "phase_rank PH_FREEZE = 3"
| "phase_rank FLUSH = 4"
| "phase_rank PH_CLOSED = 5"

section \<open>Expiries (live\_seams.py)\<close>

datatype cadence = WEEKLY | MONTHLY

record instrument_config =
  ic_exchange :: exchange
  ic_strike_interval :: decimal
  ic_lot_size :: int
  ic_tick_size :: decimal
  ic_spot_exchange :: exchange
  ic_spot_symbol :: string
  ic_expiry_weekday :: int
  ic_cadence :: cadence
  ic_underlying :: "string option"

definition instrument_config_ok :: "instrument_config \<Rightarrow> bool" where
  "instrument_config_ok c \<longleftrightarrow>
     0 < ic_strike_interval c \<and> 0 < ic_lot_size c \<and> 0 < ic_tick_size c \<and>
     0 \<le> ic_expiry_weekday c \<and> ic_expiry_weekday c \<le> 6"

type_synonym instrument_configs = "(string \<times> instrument_config) list"

definition require_config :: "instrument_configs \<Rightarrow> string \<Rightarrow> exn + instrument_config" where
  "require_config cs instrument =
     (case map_of cs instrument of None \<Rightarrow> Inl KeyError | Some c \<Rightarrow> Inr c)"

record instrument_spec =
  is_instrument :: string
  is_exchange :: exchange
  is_strike_interval :: decimal
  is_lot_size :: int
  is_tick_size :: decimal
  is_underlying :: "string option"

definition get_instrument_spec :: "instrument_configs \<Rightarrow> string \<Rightarrow> exn + instrument_spec" where
  "get_instrument_spec cs instrument =
     (case require_config cs instrument of
        Inl e \<Rightarrow> Inl e
      | Inr c \<Rightarrow> Inr \<lparr>is_instrument = instrument, is_exchange = ic_exchange c,
          is_strike_interval = ic_strike_interval c, is_lot_size = ic_lot_size c,
          is_tick_size = ic_tick_size c, is_underlying = ic_underlying c\<rparr>)"

definition spot_reference :: "instrument_configs \<Rightarrow> string \<Rightarrow> exn + exchange \<times> string" where
  "spot_reference cs instrument =
     (case require_config cs instrument of
        Inl e \<Rightarrow> Inl e | Inr c \<Rightarrow> Inr (ic_spot_exchange c, ic_spot_symbol c))"

definition last_weekday_of_month :: "int \<Rightarrow> int \<Rightarrow> int \<Rightarrow> date" where
  "last_weekday_of_month y m wd =
     (let next_month = (if m = 12 then days_from_civil (y + 1) 1 1 else days_from_civil y (m + 1) 1);
          last_day = next_month - 1
      in last_day - (weekday last_day - wd) mod 7)"

definition monthly_expiry_on_or_after :: "date \<Rightarrow> int \<Rightarrow> date" where
  "monthly_expiry_on_or_after as_of wd =
     (let expiry = last_weekday_of_month (year_of as_of) (month_of as_of) wd
      in if expiry < as_of
         then let y = (if month_of as_of = 12 then year_of as_of + 1 else year_of as_of);
                  m = (if month_of as_of = 12 then 1 else month_of as_of + 1)
              in last_weekday_of_month y m wd
         else expiry)"

definition weekly_expiry_on_or_after :: "date \<Rightarrow> int \<Rightarrow> date" where
  "weekly_expiry_on_or_after as_of wd = as_of + (wd - weekday as_of) mod 7"

text \<open>The holiday shift: at most fourteen days back, and no shift on a trading day.\<close>

fun shift_back :: "nat \<Rightarrow> (date \<Rightarrow> bool) \<Rightarrow> date \<Rightarrow> date" where
  "shift_back 0 trading d = d"
| "shift_back (Suc n) trading d = (if trading d then d else shift_back n trading (d - 1))"

definition get_current_weekly_expiry ::
    "instrument_configs \<Rightarrow> holidays \<Rightarrow> string \<Rightarrow> date \<Rightarrow> exn + date" where
  "get_current_weekly_expiry cs h instrument as_of =
     (case require_config cs instrument of
        Inl e \<Rightarrow> Inl e
      | Inr c \<Rightarrow>
          (let expiry = (if ic_cadence c = MONTHLY
                         then monthly_expiry_on_or_after as_of (ic_expiry_weekday c)
                         else weekly_expiry_on_or_after as_of (ic_expiry_weekday c))
           in Inr (shift_back 14 (\<lambda>d. is_trading_day h d (ic_exchange c)) expiry)))"

text \<open>
  The decorator that checks the computed expiry against the broker's instrument master; a broker
  that cannot enumerate answers None. \<open>ExpiryNotListedError\<close> is an exception of its own class,
  which no modelled code tells apart from other exceptions; it is rendered as LookupError.
\<close>

definition validated_expiry ::
    "(string \<Rightarrow> date \<Rightarrow> exn + date) \<Rightarrow> instrument_configs \<Rightarrow>
     (string \<Rightarrow> exchange \<Rightarrow> date list option) \<Rightarrow> string \<Rightarrow> date \<Rightarrow> exn + date" where
  "validated_expiry inner cs listed instrument as_of =
     (case inner instrument as_of of
        Inl e \<Rightarrow> Inl e
      | Inr computed \<Rightarrow>
          (case get_instrument_spec cs instrument of
             Inl e \<Rightarrow> Inl e
           | Inr spec \<Rightarrow>
               (let underlying = (case is_underlying spec of
                      None \<Rightarrow> instrument | Some u \<Rightarrow> if u = [] then instrument else u)
                in case listed underlying (is_exchange spec) of
                     None \<Rightarrow> Inr computed
                   | Some ds \<Rightarrow> if computed \<in> set ds then Inr computed else Inl LookupError)))"

lemma shift_back_range: "shift_back n p d \<le> d \<and> d - int n \<le> shift_back n p d"
  by (induction n p d rule: shift_back.induct) auto

lemma shift_back_bounded: "p a \<Longrightarrow> a \<le> d \<Longrightarrow> a \<le> shift_back n p d"
  by (induction n p d rule: shift_back.induct) (auto, fastforce)

lemma shift_back_trading: "p a \<Longrightarrow> a \<le> d \<Longrightarrow> d < a + int n \<Longrightarrow> p (shift_back n p d)"
proof (induction n arbitrary: d)
  case 0
  then show ?case by simp
next
  case (Suc n)
  show ?case
  proof (cases "p d")
    case False
    then have "a \<le> d - 1" using Suc.prems by (cases "a = d") auto
    then show ?thesis using Suc False by simp
  qed simp
qed

lemma shift_back_skips: "shift_back n p d < y \<Longrightarrow> y \<le> d \<Longrightarrow> \<not> p y"
proof (induction n p d rule: shift_back.induct)
  case (2 n p d)
  then show ?case by (cases "y = d") (auto split: if_splits)
qed simp

lemma weekly_expiry_spec:
  assumes "0 \<le> wd" "wd \<le> 6"
  shows "weekday (weekly_expiry_on_or_after as_of wd) = wd \<and>
    as_of \<le> weekly_expiry_on_or_after as_of wd \<and> weekly_expiry_on_or_after as_of wd \<le> as_of + 6"
proof -
  have "(x + (wd - x mod 7) mod 7) mod 7 = wd" for x using assms by presburger
  from this [of "as_of + 3"] have "weekday (weekly_expiry_on_or_after as_of wd) = wd"
    by (simp add: weekly_expiry_on_or_after_def weekday_def algebra_simps)
  moreover have "0 \<le> (wd - weekday as_of) mod 7" "(wd - weekday as_of) mod 7 \<le> 6"
    using pos_mod_bound [of 7 "wd - weekday as_of"] by simp_all
  ultimately show ?thesis unfolding weekly_expiry_on_or_after_def by linarith
qed

definition next_month_start :: "int \<Rightarrow> int \<Rightarrow> date" where
  "next_month_start y m = (if m = 12 then days_from_civil (y + 1) 1 1 else days_from_civil y (m + 1) 1)"

lemma last_weekday_weekday:
  assumes "0 \<le> wd" "wd \<le> 6" shows "weekday (last_weekday_of_month y m wd) = wd"
proof -
  have "(z - (z mod 7 - wd) mod 7) mod 7 = wd" for z
  proof -
    have "(z - (z mod 7 - wd) mod 7) mod 7 = (z - (z mod 7 - wd)) mod 7" by (rule mod_diff_right_eq)
    also have "z - (z mod 7 - wd) = wd + z div 7 * 7" using div_mult_mod_eq [of z 7] by linarith
    finally show ?thesis using assms by simp
  qed
  from this [of "next_month_start y m - 1 + 3"] show ?thesis
    by (simp add: last_weekday_of_month_def next_month_start_def weekday_def Let_def algebra_simps)
qed

lemma last_weekday_range:
  "next_month_start y m - 7 \<le> last_weekday_of_month y m wd \<and>
   last_weekday_of_month y m wd < next_month_start y m"
proof -
  have "0 \<le> (a - wd) mod 7 \<and> (a - wd) mod 7 \<le> 6" for a :: int
    using pos_mod_bound [of 7 "a - wd"] by simp
  from this [of "weekday (next_month_start y m - 1)"] show ?thesis
    by (auto simp: last_weekday_of_month_def next_month_start_def Let_def)
qed

lemma month_numbers: "1 \<le> m \<Longrightarrow> m \<le> 12 \<Longrightarrow> m \<in> {1, 2, 3, 4, 5, 6, 7, 8, 9, 10, 11, 12 :: int}"
  unfolding insert_iff empty_iff by presburger

lemma days_before_month_numeral:
  "days_before_month y 1 = 0" "days_before_month y 2 = 31"
  "days_before_month y 3 = (if is_leap y then 60 else 59)"
  "days_before_month y 4 = (if is_leap y then 91 else 90)"
  "days_before_month y 5 = (if is_leap y then 121 else 120)"
  "days_before_month y 6 = (if is_leap y then 152 else 151)"
  "days_before_month y 7 = (if is_leap y then 182 else 181)"
  "days_before_month y 8 = (if is_leap y then 213 else 212)"
  "days_before_month y 9 = (if is_leap y then 244 else 243)"
  "days_before_month y 10 = (if is_leap y then 274 else 273)"
  "days_before_month y 11 = (if is_leap y then 305 else 304)"
  "days_before_month y 12 = (if is_leap y then 335 else 334)"
  by (simp_all add: days_before_month_def days_in_month_def upto.simps)

lemma next_month_start_step:
  assumes "1 \<le> m" "m \<le> 12"
  shows "next_month_start y m = days_from_civil y m 1 + days_in_month y m"
  using month_numbers [OF assms]
  by (elim insertE emptyE)
    (simp_all add: next_month_start_def days_from_civil_def days_before_month_numeral
      days_in_month_def days_before_year_step)

lemma days_in_month_min: "28 \<le> days_in_month y m"
  by (simp add: days_in_month_def)

lemma find_month_spec:
  "1 \<le> m \<Longrightarrow> m \<le> 12 \<Longrightarrow>
   1 \<le> find_month y m k \<and> find_month y m k \<le> 12 \<and>
   (find_month y m k = 12 \<or> k < days_before_month y (find_month y m k + 1))"
proof (induction y m k rule: find_month.induct)
  case (1 y m k)
  then show ?case by (subst (1 2 3 4) find_month.simps) auto
qed

lemma month_of_range: "1 \<le> month_of n \<and> month_of n \<le> 12"
  using find_month_spec [of 1] by (simp add: month_of_def)

lemma before_next_month: "n < next_month_start (year_of n) (month_of n)"
proof (cases "month_of n = 12")
  case True
  then show ?thesis using year_of_bounds [of n]
    by (simp add: next_month_start_def days_from_civil_def days_before_month_numeral)
next
  case False
  then have "n - days_before_year (year_of n) < days_before_month (year_of n) (month_of n + 1)"
    using find_month_spec [of 1 "year_of n" "n - days_before_year (year_of n)"]
    by (auto simp: month_of_def)
  then show ?thesis using False by (simp add: next_month_start_def days_from_civil_def)
qed

lemma monthly_expiry_spec:
  assumes "0 \<le> wd" "wd \<le> 6"
  shows "weekday (monthly_expiry_on_or_after as_of wd) = wd \<and>
    as_of \<le> monthly_expiry_on_or_after as_of wd"
proof -
  define y where "y = year_of as_of"
  define m where "m = month_of as_of"
  define y' where "y' = (if m = 12 then y + 1 else y)"
  define m' where "m' = (if m = 12 then 1 else m + 1)"
  have m: "1 \<le> m" "m \<le> 12" using month_of_range [of as_of] by (simp_all add: m_def)
  then have m': "1 \<le> m'" "m' \<le> 12" by (auto simp: m'_def)
  have "days_from_civil y' m' 1 = next_month_start y m"
    by (simp add: y'_def m'_def next_month_start_def)
  then have "as_of < days_from_civil y' m' 1" using before_next_month [of as_of] by (simp add: y_def m_def)
  also have "days_from_civil y' m' 1 \<le> last_weekday_of_month y' m' wd"
    using next_month_start_step [OF m', of y'] days_in_month_min [of y' m']
      last_weekday_range [of y' m' wd] by linarith
  finally show ?thesis
    using last_weekday_weekday [OF assms]
    by (cases "m = 12") (auto simp: monthly_expiry_on_or_after_def Let_def y'_def m'_def
        simp flip: y_def m_def)
qed

section \<open>Properties\<close>

definition demo_holidays :: holidays where
  "demo_holidays = [(''NSE'', [20089, 20090]), (''BSE'', [20089])]"

definition demo_configs :: instrument_configs where
  "demo_configs =
     [(''NIFTY'', \<lparr>ic_exchange = NFO, ic_strike_interval = 50, ic_lot_size = 75, ic_tick_size = 1/20,
        ic_spot_exchange = NSE, ic_spot_symbol = ''NIFTY 50'', ic_expiry_weekday = 3,
        ic_cadence = WEEKLY, ic_underlying = None\<rparr>)]"

text \<open>
  The walk of \<open>next_trading_day\<close> and \<open>previous_trading_day\<close> returns the nearest trading day:
  strictly after (before) the given day, trading, never a weekend, and with no trading day
  skipped in between.
\<close>

theorem trading_day_walks_nearest:
  "(case next_trading_day h day exch of
      Inr x \<Rightarrow> day < x \<and> is_trading_day h x exch \<and> (\<forall>y. day < y \<and> y < x \<longrightarrow> \<not> is_trading_day h y exch)
    | Inl e \<Rightarrow> e = ValueError \<and> (\<forall>k < max_walk_days. \<not> is_trading_day h (day + 1 + int k) exch)) \<and>
   (case previous_trading_day h day exch of
      Inr x \<Rightarrow> x < day \<and> is_trading_day h x exch \<and> (\<forall>y. x < y \<and> y < day \<longrightarrow> \<not> is_trading_day h y exch)
    | Inl e \<Rightarrow> e = ValueError \<and> (\<forall>k < max_walk_days. \<not> is_trading_day h (day - 1 - int k) exch))"
proof -
  let ?p = "\<lambda>d. is_trading_day h d exch"
  have n: "case next_trading_day h day exch of
      Inr x \<Rightarrow> day < x \<and> is_trading_day h x exch \<and> (\<forall>y. day < y \<and> y < x \<longrightarrow> \<not> is_trading_day h y exch)
    | Inl e \<Rightarrow> e = ValueError \<and> (\<forall>k < max_walk_days. \<not> is_trading_day h (day + 1 + int k) exch)"
  proof (cases "walk max_walk_days 1 ?p (day + 1)")
    case None
    then have "\<forall>k < max_walk_days. \<not> ?p (day + 1 + int k)" unfolding walk_None by simp
    then show ?thesis using None by (simp add: next_trading_day_def)
  next
    case (Some x)
    then show ?thesis using exchange_cal.next_day_least [OF Some] by (simp add: next_trading_day_def)
  qed
  have p: "case previous_trading_day h day exch of
      Inr x \<Rightarrow> x < day \<and> is_trading_day h x exch \<and> (\<forall>y. x < y \<and> y < day \<longrightarrow> \<not> is_trading_day h y exch)
    | Inl e \<Rightarrow> e = ValueError \<and> (\<forall>k < max_walk_days. \<not> is_trading_day h (day - 1 - int k) exch)"
  proof (cases "walk max_walk_days (- 1) ?p (day - 1)")
    case None
    then have "\<forall>k < max_walk_days. \<not> ?p (day - 1 - int k)" unfolding walk_None by simp
    then show ?thesis using None by (simp add: previous_trading_day_def)
  next
    case (Some x)
    then show ?thesis using exchange_cal.previous_day_greatest [OF Some]
      by (simp add: previous_trading_day_def)
  qed
  show ?thesis using n p by (rule conjI)
qed

theorem trading_day_walks_nearest_witness:
  "next_trading_day demo_holidays 20088 NFO = Inr 20091 \<and>
   is_trading_day demo_holidays 20091 NFO \<and> \<not> is_trading_day demo_holidays 20089 NFO"
proof -
  have "walk max_walk_days 1 (\<lambda>d. is_trading_day demo_holidays d NFO) (20088 + 1) = Some 20091"
    unfolding max_walk_days_def
    by (simp add: walk_unfold is_trading_day_def weekday_def dates_for_def demo_holidays_def)
  then have eq: "next_trading_day demo_holidays 20088 NFO = Inr 20091"
    by (simp only: next_trading_day_def option.case)
  have "20088 < (20089 :: int) \<and> (20089 :: int) < 20091" by simp
  then show ?thesis
    using trading_day_walks_nearest [of demo_holidays 20088 NFO] by (auto simp: eq)
qed

text \<open>
  On a trading day the expiry service answers a date on or after that day and never skips a
  trading day between its answer and the configured expiry weekday; for weekly instruments the
  answer is itself a trading day of the instrument's exchange within the next six days.
\<close>

theorem current_expiry_on_or_after:
  assumes "map_of cs instrument = Some c" "instrument_config_ok c"
    and "is_trading_day h as_of (ic_exchange c)"
  shows "\<exists>original e. get_current_weekly_expiry cs h instrument as_of = Inr e \<and>
     weekday original = ic_expiry_weekday c \<and> as_of \<le> e \<and> e \<le> original \<and>
     (\<forall>y. e < y \<and> y \<le> original \<longrightarrow> \<not> is_trading_day h y (ic_exchange c)) \<and>
     (ic_cadence c = WEEKLY \<longrightarrow> is_trading_day h e (ic_exchange c) \<and> e \<le> as_of + 6)"
proof -
  define wd where "wd = ic_expiry_weekday c"
  have wd: "0 \<le> wd" "wd \<le> 6" using assms(2) by (simp_all add: instrument_config_ok_def wd_def)
  define p where "p = (\<lambda>d. is_trading_day h d (ic_exchange c))"
  define x where "x = (if ic_cadence c = MONTHLY then monthly_expiry_on_or_after as_of wd
                       else weekly_expiry_on_or_after as_of wd)"
  have run: "get_current_weekly_expiry cs h instrument as_of = Inr (shift_back 14 p x)"
    using assms(1) by (simp add: get_current_weekly_expiry_def require_config_def x_def wd_def p_def)
  have x: "weekday x = wd" "as_of \<le> x"
    using monthly_expiry_spec [OF wd] weekly_expiry_spec [OF wd] by (simp_all add: x_def)
  have pa: "p as_of" using assms(3) by (simp add: p_def)
  have weekly: "ic_cadence c = WEEKLY \<Longrightarrow> p (shift_back 14 p x) \<and> x \<le> as_of + 6"
    using weekly_expiry_spec [OF wd, of as_of] pa x(2) by (auto simp: x_def intro: shift_back_trading)
  have skip: "\<forall>y. shift_back 14 p x < y \<and> y \<le> x \<longrightarrow> \<not> p y" using shift_back_skips by blast
  show ?thesis
    using run x skip weekly shift_back_bounded [of p, OF pa x(2), of 14] shift_back_range [of 14 p x]
    unfolding wd_def p_def
    by (intro exI [of _ x] exI [of _ "shift_back 14 p x"]) (auto simp: p_def)
qed

theorem current_expiry_on_or_after_witness:
  "\<exists>e. get_current_weekly_expiry demo_configs demo_holidays ''NIFTY'' 20088 = Inr e \<and> 20088 \<le> e \<and>
       is_trading_day demo_holidays e NFO"
proof -
  have "map_of demo_configs ''NIFTY'' = Some (snd (hd demo_configs))"
    "instrument_config_ok (snd (hd demo_configs))"
    "is_trading_day demo_holidays 20088 (ic_exchange (snd (hd demo_configs)))"
    by (simp_all add: demo_configs_def instrument_config_ok_def is_trading_day_def weekday_def
        dates_for_def demo_holidays_def)
  from current_expiry_on_or_after [OF this] show ?thesis
    by (auto simp: demo_configs_def)
qed

text \<open>
  Within one trading day the session phase never goes backwards as time passes, and on a day
  that does not trade it is PRE_OPEN at every time.
\<close>

theorem session_phase_monotone:
  assumes "mh_connect c \<le> mh_start c" "mh_start c \<le> mh_stop_subscribe c"
    and "mh_stop_subscribe c \<le> mh_flush c" "mh_flush c \<le> mh_disconnect c"
    and "a \<le> b" "ist_date a = ist_date b"
  shows "phase_rank (session_phase c trading a) \<le> phase_rank (session_phase c trading b) \<and>
    (\<not> trading (ist_date a) \<longrightarrow> session_phase c trading a = PRE_OPEN)"
proof -
  have "ist_time a \<le> ist_time b"
    using ist_split [of a] ist_split [of b] assms(5,6) by simp
  then show ?thesis using assms by (auto simp: session_phase_def Let_def)
qed

definition demo_hours :: market_hours where
  "demo_hours = \<lparr>mh_connect = hms 9 0 0, mh_start = hms 9 15 0, mh_stop_subscribe = hms 15 30 0,
     mh_flush = hms 15 35 0, mh_disconnect = hms 15 45 0\<rparr>"

theorem session_phase_monotone_witness:
  "phase_rank (session_phase demo_hours weekday_trading_day (20086 * day_micros)) \<le>
   phase_rank (session_phase demo_hours weekday_trading_day (20086 * day_micros + hms 5 0 0))"
  by (rule session_phase_monotone [THEN conjunct1])
    (simp_all add: demo_hours_def hms_def ist_date_def ist_offset_def day_micros_def)

end
