(* ===== verification/World.thy ===== *)
theory World
  imports Order_Updates Calendar
begin

text \<open>
  The world one strategy instance acts in: the database, the broker, the clock and the other
  actors. Code outside this process's own control flow is a schedule of events, one consumed
  at the start of each unit of work: the push thread applies a broker update, an operator or
  another component raises a control flag, clears an errored position or creates today's
  position first, another writer wins the race for a row this unit of work updates (the flush
  raises \<open>ConcurrentModificationError\<close>), the database fails, or the process dies. A broker call goes through
  \<open>bcall\<close>: the broker answers, the clock advances, and the updates the broker pushes meanwhile
  are applied by the order update processor. \<open>unit_of_work\<close> (\<open>database/session.py\<close>) commits the
  body's database when it returns and its constraints hold, and rolls back otherwise.
\<close>

datatype env_event =
    EvQuiet
  | EvDbFail
  | EvCrash
  | EvPush broker_order
  | EvFlag flag_row
  | EvPosition position_row
  | EvManualClose nat
  | EvStale

record 'b world =
  w_db :: db
  w_bk :: 'b
  w_now :: dt
  w_env :: "env_event list"
  w_exit_lock :: bool

type_synonym ('b, 'a) prog = "('b world, 'a) act"

section \<open>Other actors\<close>

definition push_update :: "broker_order \<Rightarrow> dt \<Rightarrow> db \<Rightarrow> db" where
  "push_update bo now d = fst (process False bo now d d)"

fun apply_env :: "env_event \<Rightarrow> dt \<Rightarrow> db \<Rightarrow> db" where
  "apply_env (EvPush bo) now d = push_update bo now d"
| "apply_env (EvFlag row) now d =
     (if flag_ok row then d\<lparr>d_flags := t_add (d_flags d) row\<rparr> else d)"
| "apply_env (EvPosition row) now d =
     fst (position_get_or_create (row\<lparr>p_state := ENTRY_PENDING\<rparr>) d)"
| "apply_env (EvManualClose pid) now d = fst (sm_transition pid CLOSED AC_MANUAL None d)"
| "apply_env EvQuiet now d = d"
| "apply_env EvDbFail now d = d"
| "apply_env EvCrash now d = d"
| "apply_env EvStale now d = d"

section \<open>Units of work\<close>

definition commit :: "'a tx \<Rightarrow> ('b, 'a) prog" where
  "commit body w =
     (case body (w_db w) of
        (d, Inl e) \<Rightarrow> (w, Inl e)
      | (d, Inr x) \<Rightarrow>
          if db_constraints d then (w\<lparr>w_db := d\<rparr>, Inr x) else (w, Inl IntegrityError))"

definition unit_of_work :: "'a tx \<Rightarrow> ('b, 'a) prog" where
  "unit_of_work body w =
     (case w_env w of
        [] \<Rightarrow> commit body w
      | e # es \<Rightarrow>
          (let w' = w\<lparr>w_env := es, w_db := apply_env e (w_now w) (w_db w)\<rparr>
           in if e = EvCrash then (w', Inl ProcessCrash)
              else if e = EvDbFail then (w', Inl DatabaseError)
              else if e = EvStale then (w', Inl ConcurrentModificationError)
              else commit body w'))"

text \<open>A session that only reads: nothing to commit and no row to lose a race for.\<close>

definition read_session :: "(db \<Rightarrow> 'a) \<Rightarrow> ('b, 'a) prog" where
  "read_session f w =
     (case w_env w of
        [] \<Rightarrow> (w, Inr (f (w_db w)))
      | e # es \<Rightarrow>
          (let w' = w\<lparr>w_env := es, w_db := apply_env e (w_now w) (w_db w)\<rparr>
           in if e = EvCrash then (w', Inl ProcessCrash)
              else if e = EvDbFail then (w', Inl DatabaseError)
              else (w', Inr (f (w_db w')))))"

lemma read_session_bk [simp]: "w_bk (fst (read_session f w)) = w_bk w"
  by (simp add: read_session_def Let_def split: list.split)

lemma read_session_now [simp]: "w_now (fst (read_session f w)) = w_now w"
  by (simp add: read_session_def Let_def split: list.split)

lemma read_session_Inr: "read_session f w = (w', Inr x) \<Longrightarrow> x = f (w_db w')"
  by (auto simp: read_session_def Let_def split: list.splits if_splits)

lemma read_session_quiet: "w_env w = [] \<Longrightarrow> read_session f w = (w, Inr (f (w_db w)))"
  by (simp add: read_session_def)

section \<open>Broker calls\<close>

text \<open>
  A broker operation takes the current time and the broker's state and answers with the new
  state, the time it took in microseconds, the order updates it pushed and the result.
\<close>

type_synonym ('b, 'a) broker_call = "dt \<Rightarrow> 'b \<Rightarrow> 'b \<times> nat \<times> broker_order list \<times> (exn + 'a)"

definition bcall :: "('b, 'a) broker_call \<Rightarrow> ('b, 'a) prog" where
  "bcall f w =
     (case f (w_now w) (w_bk w) of
        (b, elapsed, pushed, r) \<Rightarrow>
          (let now = w_now w + int elapsed
           in (w\<lparr>w_bk := b, w_now := now,
                 w_db := fold (\<lambda>bo d. push_update bo now d) pushed (w_db w)\<rparr>, r)))"

definition sleep :: "nat \<Rightarrow> ('b, unit) prog" where
  "sleep micros = modify (\<lambda>w. w\<lparr>w_now := w_now w + int micros\<rparr>)"

definition now :: "('b, dt) prog" where
  "now = asks w_now"

definition today :: "('b, date) prog" where
  "today = asks (\<lambda>w. ist_date (w_now w))"

record 'b broker =
  bk_place :: "place_request \<Rightarrow> ('b, string) broker_call"
  bk_get :: "string \<Rightarrow> ('b, broker_order) broker_call"
  bk_find_tag :: "string \<Rightarrow> ('b, broker_order option) broker_call"
  bk_orders :: "('b, broker_order list) broker_call"
  bk_positions :: "('b, broker_position list) broker_call"
  bk_margins :: "('b, broker_margins) broker_call"
  bk_health :: "('b, health_status) broker_call"
  bk_ltp :: "instrument_id list \<Rightarrow> ('b, (instrument_id \<times> decimal) list) broker_call"
  bk_contract ::
    "string \<Rightarrow> date \<Rightarrow> decimal \<Rightarrow> option_type \<Rightarrow> exchange \<Rightarrow> ('b, broker_instrument) broker_call"
  bk_authenticated :: "'b \<Rightarrow> bool"

section \<open>Invariants of the database through a program\<close>

text \<open>
  An invariant of the database that every event of the other actors keeps. The client lemmas
  say that units of work, broker calls and waiting keep it for the whole world; they are
  proved once here and used for every invariant below.
\<close>

definition on_db :: "(db \<Rightarrow> bool) \<Rightarrow> 'b world \<Rightarrow> bool" where
  "on_db I w \<longleftrightarrow> I (w_db w)"

locale db_invariant =
  fixes I :: "db \<Rightarrow> bool"
  assumes env_keeps: "I d \<Longrightarrow> I (apply_env e tm d)"
begin

lemma push_keeps: "I d \<Longrightarrow> I (push_update bo tm d)"
  using env_keeps [of d "EvPush bo" tm] by simp

lemma keeps_commit: "keeps I body \<Longrightarrow> keeps (on_db I) (commit body)"
  by (auto simp: keeps_def on_db_def commit_def split: prod.splits sum.splits)

lemma keeps_unit_of_work:
  fixes body :: "'a tx"
  assumes body: "keeps I body"
  shows "keeps (on_db I) (unit_of_work body :: ('b, 'a) prog)"
proof -
  have c: "keeps (on_db I) (commit body :: ('b, 'a) prog)" by (rule keeps_commit [OF body])
  show ?thesis
    unfolding keeps_def
  proof (intro allI impI)
    fix w :: "'b world" assume I: "on_db I w"
    show "on_db I (fst (unit_of_work body w))"
    proof (cases "w_env w")
      case Nil
      then show ?thesis using c I by (simp add: unit_of_work_def keeps_def)
    next
      case (Cons e es)
      then have "on_db I (w\<lparr>w_env := es, w_db := apply_env e (w_now w) (w_db w)\<rparr>)"
        using I env_keeps by (simp add: on_db_def)
      then show ?thesis using c Cons
        by (auto simp: unit_of_work_def keeps_def Let_def on_db_def)
    qed
  qed
qed

lemma keeps_read_session: "keeps (on_db I) (read_session f)"
  by (auto simp: keeps_def on_db_def read_session_def Let_def env_keeps split: list.split)

lemma fold_push_keeps: "I d \<Longrightarrow> I (fold (\<lambda>bo d. push_update bo tm d) bos d)"
  by (induction bos arbitrary: d) (simp_all add: push_keeps)

lemma keeps_bcall: "keeps (on_db I) (bcall f)"
  by (auto simp: keeps_def on_db_def bcall_def Let_def fold_push_keeps split: prod.split)

lemma keeps_sleep: "keeps (on_db I) (sleep n)"
  by (simp add: sleep_def on_db_def keeps_def modify_def)

lemma keeps_now: "keeps (on_db I) now"
  by (simp add: now_def keeps_asks)

lemma keeps_today: "keeps (on_db I) today"
  by (simp add: today_def keeps_asks)

lemmas keeps_world = keeps_bcall keeps_sleep keeps_now keeps_today keeps_read_session

end

section \<open>The audit trail survives every actor\<close>

lemma push_update_indep: "audit_ok (d\<lparr>d_orders := t\<rparr>) = audit_ok d"
  by simp

lemma process_orders_only:
  "\<exists>t. fst (process refresh bo tm d0 d) = d\<lparr>d_orders := t\<rparr>"
proof -
  have same: "\<exists>t. d = d\<lparr>d_orders := t\<rparr>"
    by (rule exI [of _ "d_orders d"]) simp
  have fl: "\<exists>t. fst (flush_order oid r r' d) = d\<lparr>d_orders := t\<rparr>" for oid r r'
    using same by (auto simp: flush_order_def split: option.split)
  show ?thesis
    using same fl
    by (auto simp: process_def Let_def split: sum.split option.split prod.split) (metis fst_conv)+
qed

lemma push_orders_only: "\<exists>t. push_update bo tm d = d\<lparr>d_orders := t\<rparr>"
  unfolding push_update_def by (rule process_orders_only)

interpretation audit: db_invariant audit_ok
proof
  fix d e tm assume ok: "audit_ok d"
  show "audit_ok (apply_env e tm d)"
  proof (cases e)
    case (EvPush bo)
    then show ?thesis using ok push_orders_only [of bo tm d] by auto
  next
    case (EvPosition row)
    have "keeps audit_ok (position_get_or_create (row\<lparr>p_state := ENTRY_PENDING\<rparr>))"
      by (rule keeps_audit_position_get_or_create) simp
    then show ?thesis using EvPosition ok by (simp add: keeps_def)
  next
    case (EvManualClose pid)
    then show ?thesis using ok keeps_audit_sm_transition by (simp add: keeps_def)
  qed (use ok in simp_all)
qed

end
