(* ===== verification/Premium.thy ===== *)
theory Premium
  imports Broker_Data
begin

text \<open>
  \<open>strategies/strategy_1/combined_premium.py\<close>: the combined straddle premium, the target and
  stoploss levels derived from it, and the tracker that recomputes the premium tick by tick.
  The tracker object is the record \<open>tracker\<close>; a method that mutates it returns the new record.
\<close>

section \<open>Pure computation\<close>

definition compute_combined_premium :: "decimal \<Rightarrow> decimal \<Rightarrow> exn + decimal" where
  "compute_combined_premium ce_price pe_price =
     (if ce_price < 0 then Inl ValueError
      else if pe_price < 0 then Inl ValueError
      else Inr (ce_price + pe_price))"

definition validate_fraction :: "decimal \<Rightarrow> exn + unit" where
  "validate_fraction v = (if \<not> (0 < v \<and> v < 1) then Inl ValueError else Inr ())"

definition validate_positive_premium :: "decimal \<Rightarrow> exn + unit" where
  "validate_positive_premium v = (if v \<le> 0 then Inl ValueError else Inr ())"

definition compute_target_premium :: "decimal \<Rightarrow> decimal \<Rightarrow> exn + decimal" where
  "compute_target_premium entry_premium target_pct =
     (case validate_fraction target_pct of
        Inl e \<Rightarrow> Inl e
      | Inr _ \<Rightarrow>
          (case validate_positive_premium entry_premium of
             Inl e \<Rightarrow> Inl e
           | Inr _ \<Rightarrow> Inr (entry_premium * (1 - target_pct))))"

definition compute_stoploss_premium :: "decimal \<Rightarrow> decimal \<Rightarrow> exn + decimal" where
  "compute_stoploss_premium entry_premium sl_pct =
     (case validate_fraction sl_pct of
        Inl e \<Rightarrow> Inl e
      | Inr _ \<Rightarrow>
          (case validate_positive_premium entry_premium of
             Inl e \<Rightarrow> Inl e
           | Inr _ \<Rightarrow> Inr (entry_premium * (1 + sl_pct))))"

record thresholds =
  th_entry :: decimal
  th_target :: decimal
  th_stoploss :: decimal
  th_target_pct :: decimal
  th_sl_pct :: decimal

definition compute_thresholds :: "decimal \<Rightarrow> decimal \<Rightarrow> decimal \<Rightarrow> exn + thresholds" where
  "compute_thresholds entry_premium target_pct sl_pct =
     (case compute_target_premium entry_premium target_pct of
        Inl e \<Rightarrow> Inl e
      | Inr t \<Rightarrow>
          (case compute_stoploss_premium entry_premium sl_pct of
             Inl e \<Rightarrow> Inl e
           | Inr s \<Rightarrow>
               Inr \<lparr>th_entry = entry_premium, th_target = t, th_stoploss = s,
                    th_target_pct = target_pct, th_sl_pct = sl_pct\<rparr>))"

definition fraction_ok :: "decimal \<Rightarrow> bool" where
  "fraction_ok v \<longleftrightarrow> 0 < v \<and> v < 1"

lemma compute_combined_premium_Inr:
  "compute_combined_premium c p = Inr x \<longleftrightarrow> 0 \<le> c \<and> 0 \<le> p \<and> x = c + p"
  by (auto simp: compute_combined_premium_def)

lemma compute_combined_premium_Inl:
  "compute_combined_premium c p = Inl e \<longleftrightarrow> (c < 0 \<or> p < 0) \<and> e = ValueError"
  by (auto simp: compute_combined_premium_def)

lemma compute_target_premium_Inr:
  "compute_target_premium e p = Inr x \<longleftrightarrow> fraction_ok p \<and> 0 < e \<and> x = e * (1 - p)"
  by (auto simp: compute_target_premium_def validate_fraction_def validate_positive_premium_def
      fraction_ok_def)

lemma compute_stoploss_premium_Inr:
  "compute_stoploss_premium e p = Inr x \<longleftrightarrow> fraction_ok p \<and> 0 < e \<and> x = e * (1 + p)"
  by (auto simp: compute_stoploss_premium_def validate_fraction_def validate_positive_premium_def
      fraction_ok_def)

lemma compute_target_premium_Inl:
  "compute_target_premium e p = Inl x \<longleftrightarrow> \<not> (fraction_ok p \<and> 0 < e) \<and> x = ValueError"
  by (auto simp: compute_target_premium_def validate_fraction_def validate_positive_premium_def
      fraction_ok_def)

lemma compute_stoploss_premium_Inl:
  "compute_stoploss_premium e p = Inl x \<longleftrightarrow> \<not> (fraction_ok p \<and> 0 < e) \<and> x = ValueError"
  by (auto simp: compute_stoploss_premium_def validate_fraction_def validate_positive_premium_def
      fraction_ok_def)

lemma compute_thresholds_Inr:
  "compute_thresholds e t s = Inr th \<longleftrightarrow>
     fraction_ok t \<and> fraction_ok s \<and> 0 < e \<and>
     th = \<lparr>th_entry = e, th_target = e * (1 - t), th_stoploss = e * (1 + s),
           th_target_pct = t, th_sl_pct = s\<rparr>"
  unfolding compute_thresholds_def
  by (auto simp: compute_target_premium_Inr compute_stoploss_premium_Inr
      compute_target_premium_Inl compute_stoploss_premium_Inl split: sum.splits)

lemma compute_thresholds_Inl:
  "compute_thresholds e t s = Inl x \<longleftrightarrow> \<not> (fraction_ok t \<and> fraction_ok s \<and> 0 < e) \<and> x = ValueError"
  unfolding compute_thresholds_def
  by (auto simp: compute_target_premium_Inr compute_stoploss_premium_Inr
      compute_target_premium_Inl compute_stoploss_premium_Inl split: sum.splits)

section \<open>Live tracking\<close>

record premium_snapshot =
  sn_combined :: decimal
  sn_ce :: decimal
  sn_pe :: decimal
  sn_as_of :: dt

record tracker =
  tr_call :: instrument_id
  tr_put :: instrument_id
  tr_target_pct :: decimal
  tr_sl_pct :: decimal
  tr_call_price :: "decimal option"
  tr_put_price :: "decimal option"
  tr_price_at :: "dt option"
  tr_thresholds :: "thresholds option"

definition new_tracker ::
    "instrument_id \<Rightarrow> instrument_id \<Rightarrow> decimal \<Rightarrow> decimal \<Rightarrow> exn + tracker" where
  "new_tracker call_instrument put_instrument target_pct sl_pct =
     (if call_instrument = put_instrument then Inl ValueError
      else case validate_fraction target_pct of
             Inl e \<Rightarrow> Inl e
           | Inr _ \<Rightarrow>
               (case validate_fraction sl_pct of
                  Inl e \<Rightarrow> Inl e
                | Inr _ \<Rightarrow>
                    Inr \<lparr>tr_call = call_instrument, tr_put = put_instrument,
                         tr_target_pct = target_pct, tr_sl_pct = sl_pct,
                         tr_call_price = None, tr_put_price = None, tr_price_at = None,
                         tr_thresholds = None\<rparr>))"

text \<open>
  \<open>from_context\<close> reads the two percentages off any config object; a config that lacks them (or
  whose fields are not Decimal) is modelled as None.
\<close>

definition tracker_from_config ::
    "decimal option \<Rightarrow> decimal option \<Rightarrow> instrument_id \<Rightarrow> instrument_id \<Rightarrow> exn + tracker" where
  "tracker_from_config target_pct sl_pct call_instrument put_instrument =
     (case (target_pct, sl_pct) of
        (Some t, Some s) \<Rightarrow> new_tracker call_instrument put_instrument t s
      | _ \<Rightarrow> Inl TypeError)"

definition record_entry ::
    "decimal \<Rightarrow> decimal \<Rightarrow> dt \<Rightarrow> tracker \<Rightarrow> exn + thresholds \<times> tracker" where
  "record_entry call_fill put_fill tm t =
     (if tr_thresholds t \<noteq> None then Inl ValueError
      else case compute_combined_premium call_fill put_fill of
             Inl e \<Rightarrow> Inl e
           | Inr entry_premium \<Rightarrow>
               (case compute_thresholds entry_premium (tr_target_pct t) (tr_sl_pct t) of
                  Inl e \<Rightarrow> Inl e
                | Inr th \<Rightarrow>
                    Inr (th, t\<lparr>tr_thresholds := Some th, tr_call_price := Some call_fill,
                               tr_put_price := Some put_fill, tr_price_at := Some tm\<rparr>)))"

definition current_snapshot :: "tracker \<Rightarrow> exn + premium_snapshot option" where
  "current_snapshot t =
     (case (tr_call_price t, tr_put_price t) of
        (Some c, Some p) \<Rightarrow>
          (case tr_price_at t of
             None \<Rightarrow> Inl AssertionError
           | Some tm \<Rightarrow>
               (case compute_combined_premium c p of
                  Inl e \<Rightarrow> Inl e
                | Inr combined \<Rightarrow>
                    Inr (Some \<lparr>sn_combined = combined, sn_ce = c, sn_pe = p, sn_as_of = tm\<rparr>)))
      | _ \<Rightarrow> Inr None)"

text \<open>The update happens before the snapshot, so it stays when the snapshot raises.\<close>

definition on_tick :: "tick \<Rightarrow> tracker \<Rightarrow> tracker \<times> (exn + premium_snapshot option)" where
  "on_tick tick t =
     (if tk_instrument tick = tr_call t
      then let t' = t\<lparr>tr_call_price := Some (tk_price tick), tr_price_at := Some (tk_time tick)\<rparr>
           in (t', current_snapshot t')
      else if tk_instrument tick = tr_put t
      then let t' = t\<lparr>tr_put_price := Some (tk_price tick), tr_price_at := Some (tk_time tick)\<rparr>
           in (t', current_snapshot t')
      else (t, Inr None))"

definition tracker_wf :: "tracker \<Rightarrow> bool" where
  "tracker_wf t \<longleftrightarrow>
     tr_call t \<noteq> tr_put t \<and> fraction_ok (tr_target_pct t) \<and> fraction_ok (tr_sl_pct t) \<and>
     (tr_price_at t = None \<longleftrightarrow> tr_call_price t = None \<and> tr_put_price t = None) \<and>
     (\<forall>th. tr_thresholds t = Some th \<longrightarrow>
        compute_thresholds (th_entry th) (tr_target_pct t) (tr_sl_pct t) = Inr th)"

lemma new_tracker_Inr:
  "new_tracker c p tp sp = Inr t \<Longrightarrow>
     tracker_wf t \<and> tr_call t = c \<and> tr_put t = p \<and> tr_thresholds t = None"
  by (auto simp: new_tracker_def tracker_wf_def validate_fraction_def fraction_ok_def
      split: if_splits)

lemma record_entry_Inr:
  "record_entry c p tm t = Inr (th, t') \<longleftrightarrow>
     tr_thresholds t = None \<and> 0 \<le> c \<and> 0 \<le> p \<and>
     compute_thresholds (c + p) (tr_target_pct t) (tr_sl_pct t) = Inr th \<and>
     t' = t\<lparr>tr_thresholds := Some th, tr_call_price := Some c, tr_put_price := Some p,
            tr_price_at := Some tm\<rparr>"
  by (auto simp: record_entry_def compute_combined_premium_Inr compute_combined_premium_Inl
      split: sum.splits)

lemma record_entry_wf: "tracker_wf t \<Longrightarrow> record_entry c p tm t = Inr (th, t') \<Longrightarrow> tracker_wf t'"
proof -
  assume wf: "tracker_wf t" and "record_entry c p tm t = Inr (th, t')"
  then have th: "compute_thresholds (c + p) (tr_target_pct t) (tr_sl_pct t) = Inr th"
    and t': "t' = t\<lparr>tr_thresholds := Some th, tr_call_price := Some c, tr_put_price := Some p,
            tr_price_at := Some tm\<rparr>"
    by (simp_all add: record_entry_Inr)
  have "th_entry th = c + p" using th by (simp add: compute_thresholds_Inr)
  then show ?thesis using wf th t' by (simp add: tracker_wf_def)
qed

lemma on_tick_wf: "tracker_wf t \<Longrightarrow> tracker_wf (fst (on_tick k t))"
  by (auto simp: on_tick_def tracker_wf_def Let_def)

lemma on_tick_thresholds [simp]: "tr_thresholds (fst (on_tick k t)) = tr_thresholds t"
  by (simp add: on_tick_def Let_def)

lemma current_snapshot_wf:
  "tracker_wf t \<Longrightarrow> current_snapshot t \<noteq> Inl AssertionError"
  by (auto simp: current_snapshot_def tracker_wf_def compute_combined_premium_Inl
      split: option.splits sum.splits)

lemma on_tick_other:
  "tk_instrument k \<noteq> tr_call t \<Longrightarrow> tk_instrument k \<noteq> tr_put t \<Longrightarrow> on_tick k t = (t, Inr None)"
  by (simp add: on_tick_def)

section \<open>What the tracker reports\<close>

text \<open>
  The abstract view of a stream of ticks: the last price seen for an instrument, starting from
  an optional seed.
\<close>

fun last_price :: "instrument_id \<Rightarrow> decimal option \<Rightarrow> tick list \<Rightarrow> decimal option" where
  "last_price i seed [] = seed"
| "last_price i seed (k # ks) =
     last_price i (if tk_instrument k = i then Some (tk_price k) else seed) ks"

fun feed :: "tick list \<Rightarrow> tracker \<Rightarrow> tracker" where
  "feed [] t = t"
| "feed (k # ks) t = feed ks (fst (on_tick k t))"

lemma on_tick_prices:
  assumes "tr_call t \<noteq> tr_put t"
  shows "tr_call_price (fst (on_tick k t)) = last_price (tr_call t) (tr_call_price t) [k]"
    and "tr_put_price (fst (on_tick k t)) = last_price (tr_put t) (tr_put_price t) [k]"
    and "tr_call (fst (on_tick k t)) = tr_call t"
    and "tr_put (fst (on_tick k t)) = tr_put t"
  using assms by (auto simp: on_tick_def Let_def)

lemma feed_prices:
  assumes "tracker_wf t"
  shows "tr_call_price (feed ks t) = last_price (tr_call t) (tr_call_price t) ks \<and>
         tr_put_price (feed ks t) = last_price (tr_put t) (tr_put_price t) ks \<and>
         tr_thresholds (feed ks t) = tr_thresholds t \<and> tracker_wf (feed ks t)"
  using assms
proof (induction ks arbitrary: t)
  case Nil
  then show ?case by simp
next
  case (Cons k ks)
  have ne: "tr_call t \<noteq> tr_put t" using Cons.prems by (simp add: tracker_wf_def)
  note IH = Cons.IH [OF on_tick_wf [OF Cons.prems, of k]]
  show ?case using IH by (simp add: on_tick_prices [OF ne])
qed

text \<open>
  For a valid entry premium and percentages the two levels bracket it strictly, target below
  and stoploss above, both positive, and they are the entry premium scaled by the percentages;
  in every other case the computation raises ValueError instead of returning levels.
\<close>

theorem thresholds_bracket_entry:
  "case compute_thresholds e t s of
     Inr th \<Rightarrow> 0 < th_target th \<and> th_target th < th_entry th \<and> th_entry th < th_stoploss th \<and>
       th_entry th = e \<and> th_entry th - th_target th = t * e \<and> th_stoploss th - th_entry th = s * e
   | Inl x \<Rightarrow> x = ValueError \<and> (e \<le> 0 \<or> t \<le> 0 \<or> 1 \<le> t \<or> s \<le> 0 \<or> 1 \<le> s)"
proof (cases "compute_thresholds e t s")
  case (Inl x)
  then have "\<not> (fraction_ok t \<and> fraction_ok s \<and> 0 < e)" and "x = ValueError"
    by (simp_all add: compute_thresholds_Inl)
  then show ?thesis using Inl by (auto simp: fraction_ok_def)
next
  case (Inr th)
  then have ok: "0 < t" "t < 1" "0 < s" "s < 1" "0 < e"
    and th: "th = \<lparr>th_entry = e, th_target = e * (1 - t), th_stoploss = e * (1 + s),
           th_target_pct = t, th_sl_pct = s\<rparr>"
    by (auto simp: compute_thresholds_Inr fraction_ok_def)
  have pos: "0 < e * t" "0 < e * s" "0 < e * (1 - t)" using ok by simp_all
  have eq: "e * (1 - t) = e - e * t" "e * (1 + s) = e + e * s" by (simp_all add: algebra_simps)
  show ?thesis using Inr pos by (simp add: th eq mult.commute)
qed

text \<open>
  Once both legs have a known non-negative price, the snapshot after any stream of ticks is
  the sum of the last price seen for the call and the last price seen for the put, whatever
  ticks of other instruments are interleaved, and the levels recorded at entry never move.
\<close>

theorem tracker_snapshot_is_last_prices:
  assumes "tracker_wf t"
    and "last_price (tr_call t) (tr_call_price t) ks = Some c" and "0 \<le> c"
    and "last_price (tr_put t) (tr_put_price t) ks = Some p" and "0 \<le> p"
  shows "(\<exists>tm. current_snapshot (feed ks t) =
           Inr (Some \<lparr>sn_combined = c + p, sn_ce = c, sn_pe = p, sn_as_of = tm\<rparr>)) \<and>
         tr_thresholds (feed ks t) = tr_thresholds t"
proof -
  note f = feed_prices [OF assms(1), of ks]
  have "tr_price_at (feed ks t) \<noteq> None" using f assms by (auto simp: tracker_wf_def)
  then obtain tm where tm: "tr_price_at (feed ks t) = Some tm" by blast
  have "compute_combined_premium c p = Inr (c + p)" using assms by (simp add: compute_combined_premium_Inr)
  then show ?thesis using f assms tm by (simp add: current_snapshot_def)
qed

definition demo_call :: instrument_id where
  "demo_call = \<lparr>ii_exchange = NFO, ii_symbol = ''NIFTY24500CE''\<rparr>"

definition demo_put :: instrument_id where
  "demo_put = \<lparr>ii_exchange = NFO, ii_symbol = ''NIFTY24500PE''\<rparr>"

definition demo_tracker :: tracker where
  "demo_tracker =
     \<lparr>tr_call = demo_call, tr_put = demo_put, tr_target_pct = 1/10, tr_sl_pct = 1/4,
      tr_call_price = Some 100, tr_put_price = None, tr_price_at = Some 5, tr_thresholds = None\<rparr>"

definition demo_ticks :: "tick list" where
  "demo_ticks =
     [\<lparr>tk_instrument = demo_put, tk_price = 80, tk_time = 6\<rparr>,
      \<lparr>tk_instrument = \<lparr>ii_exchange = BFO, ii_symbol = ''X''\<rparr>, tk_price = 1, tk_time = 7\<rparr>,
      \<lparr>tk_instrument = demo_call, tk_price = 60, tk_time = 8\<rparr>]"

theorem tracker_snapshot_is_last_prices_witness:
  "\<exists>tm. current_snapshot (feed demo_ticks demo_tracker) =
     Inr (Some \<lparr>sn_combined = 60 + 80, sn_ce = 60, sn_pe = 80, sn_as_of = tm\<rparr>)"
  by (rule tracker_snapshot_is_last_prices [THEN conjunct1])
    (simp_all add: tracker_wf_def demo_tracker_def demo_ticks_def demo_call_def demo_put_def
      fraction_ok_def)

end
