(* ===== verification/Strategy_Context.thy ===== *)
theory Strategy_Context
  imports World Premium
begin

text \<open>
  What a running strategy instance is given: its identity (\<open>strategy_engine/strategy_context.py\<close>),
  its validated configuration (\<open>strategies/strategy_1/config.py\<close>), the broker and the services, and
  the strike selector of \<open>strategies/strategy_1/strike_selector.py\<close>. Times of day and durations are
  in microseconds; the caller-side broker timeout is part of the broker operation itself. The
  risk gateway, the expiry service, the spot price provider and the history recorder are
  programs of the context, as they are injected objects in the code.
\<close>

section \<open>Configuration\<close>

record retry_settings =
  rs_attempts :: nat
  rs_delay :: nat
  rs_close_attempts :: nat
  rs_close_delay :: nat

record strategy_config =
  sc_entry_time :: int
  sc_cutoff :: int
  sc_target_pct :: decimal
  sc_sl_pct :: decimal
  sc_lots :: int
  sc_product :: product_type
  sc_skip_expiry :: bool
  sc_monitoring :: nat
  sc_polling :: nat
  sc_retry :: retry_settings

definition mk_strategy_config :: "strategy_config \<Rightarrow> exn + strategy_config" where
  "mk_strategy_config c =
     (if \<not> (0 < sc_target_pct c \<and> sc_target_pct c < 1) then Inl ValueError
      else if \<not> (0 < sc_sl_pct c \<and> sc_sl_pct c < 1) then Inl ValueError
      else if \<not> 0 < sc_lots c then Inl ValueError
      else if \<not> 0 < sc_monitoring c \<or> \<not> 0 < sc_polling c then Inl ValueError
      else if \<not> 0 < rs_attempts (sc_retry c) \<or> \<not> 0 < rs_delay (sc_retry c) \<or>
              \<not> 0 < rs_close_attempts (sc_retry c) \<or> \<not> 0 < rs_close_delay (sc_retry c)
           then Inl ValueError
      else if sc_entry_time c \<ge> sc_cutoff c then Inl ValueError
      else if sc_polling c > sc_monitoring c then Inl ValueError
      else Inr c)"

definition config_ok :: "strategy_config \<Rightarrow> bool" where
  "config_ok c \<longleftrightarrow> mk_strategy_config c = Inr c"

lemma config_okD:
  "config_ok c \<Longrightarrow> fraction_ok (sc_target_pct c) \<and> fraction_ok (sc_sl_pct c) \<and> 0 < sc_lots c \<and>
     0 < rs_attempts (sc_retry c) \<and> 0 < rs_close_attempts (sc_retry c) \<and>
     sc_entry_time c < sc_cutoff c \<and> sc_polling c \<le> sc_monitoring c"
  by (auto simp: config_ok_def mk_strategy_config_def fraction_ok_def split: if_splits)

section \<open>The context\<close>

record identity =
  id_instance :: nat
  id_strategy :: string
  id_instrument :: string
  id_account :: nat
  id_exchange :: exchange

record risk_decision =
  rd_approved :: bool
  rd_reason :: "string option"

record 'b ctx =
  cx_id :: identity
  cx_config :: strategy_config
  cx_broker :: "'b broker"
  cx_halted :: "('b, bool) prog"
  cx_approve :: "int \<Rightarrow> ('b, risk_decision) prog"
  cx_spec :: "string \<Rightarrow> exn + instrument_spec"
  cx_expiry :: "string \<Rightarrow> date \<Rightarrow> ('b, date) prog"
  cx_spot :: "string \<Rightarrow> ('b, decimal) prog"
  cx_history :: "nat \<Rightarrow> ('b, unit) prog"

text \<open>\<open>BrokerSpotPriceProvider.get_spot_ltp\<close> of \<open>live_seams.py\<close>.\<close>

definition broker_spot_ltp ::
    "'b broker \<Rightarrow> (string \<Rightarrow> exn + exchange \<times> string) \<Rightarrow> string \<Rightarrow> ('b, decimal) prog" where
  "broker_spot_ltp B spot_ref instrument =
     bnd (lift_sum (spot_ref instrument)) (\<lambda>(exch, symbol).
     (let ident = \<lparr>ii_exchange = exch, ii_symbol = symbol\<rparr>
      in bnd (bcall (bk_ltp B [ident])) (\<lambda>ltps.
         case map_of ltps ident of None \<Rightarrow> throw LookupError | Some p \<Rightarrow> ret p)))"

section \<open>Strike selection\<close>

definition compute_atm_strike :: "decimal \<Rightarrow> decimal \<Rightarrow> exn + decimal" where
  "compute_atm_strike spot_ltp strike_interval =
     (if spot_ltp \<le> 0 then Inl StrikeSelectionError
      else if strike_interval \<le> 0 then Inl StrikeSelectionError
      else Inr (of_int (round_half_up (dec_div spot_ltp strike_interval)) * strike_interval))"

record straddle =
  ss_instrument :: string
  ss_exchange :: exchange
  ss_spot :: decimal
  ss_interval :: decimal
  ss_strike :: decimal
  ss_expiry :: date
  ss_call :: broker_instrument
  ss_put :: broker_instrument

definition contract_matches ::
    "broker_instrument \<Rightarrow> decimal \<Rightarrow> date \<Rightarrow> option_type \<Rightarrow> exchange \<Rightarrow> bool" where
  "contract_matches c strike expiry opt exch \<longleftrightarrow>
     bi_strike c = Some strike \<and> bi_expiry c = Some expiry \<and> bi_option_type c = Some opt \<and>
     bi_exchange c = exch"

definition resolve_contract ::
    "'b broker \<Rightarrow> string \<Rightarrow> date \<Rightarrow> decimal \<Rightarrow> option_type \<Rightarrow> exchange \<Rightarrow>
     ('b, broker_instrument) prog" where
  "resolve_contract B underlying expiry strike opt exch =
     bnd (catch_if (\<lambda>e. case e of InstrumentNotFoundError _ \<Rightarrow> True | _ \<Rightarrow> False)
            (bcall (bk_contract B underlying expiry strike opt exch))
            (\<lambda>_. throw StrikeSelectionError)) (\<lambda>resolved.
     if contract_matches resolved strike expiry opt exch then ret resolved
     else throw StrikeSelectionError)"

definition select_straddle :: "'b ctx \<Rightarrow> string \<Rightarrow> decimal \<Rightarrow> date \<Rightarrow> ('b, straddle) prog" where
  "select_straddle cx instrument spot_ltp as_of =
     bnd (lift_sum (cx_spec cx instrument)) (\<lambda>spec.
     bnd (lift_sum (compute_atm_strike spot_ltp (is_strike_interval spec))) (\<lambda>atm.
     bnd (cx_expiry cx instrument as_of) (\<lambda>expiry.
     (let underlying = or_str (is_underlying spec) instrument
      in bnd (resolve_contract (cx_broker cx) underlying expiry atm CE (is_exchange spec)) (\<lambda>call.
         bnd (resolve_contract (cx_broker cx) underlying expiry atm PE (is_exchange spec)) (\<lambda>put.
         ret \<lparr>ss_instrument = instrument, ss_exchange = is_exchange spec, ss_spot = spot_ltp,
              ss_interval = is_strike_interval spec, ss_strike = atm, ss_expiry = expiry,
              ss_call = call, ss_put = put\<rparr>))))))"

lemma compute_atm_strike_Inr:
  "compute_atm_strike s i = Inr x \<longleftrightarrow>
     0 < s \<and> 0 < i \<and> x = of_int (round_half_up (dec_div s i)) * i"
  by (auto simp: compute_atm_strike_def)

lemma resolve_contract_Inr:
  "resolve_contract B u x s t exch w = (w', Inr c) \<Longrightarrow> contract_matches c s x t exch"
  unfolding resolve_contract_def
  by (auto elim!: bnd_Inr_elim split: if_splits simp: ret_def throw_def)

definition straddle_ok :: "straddle \<Rightarrow> bool" where
  "straddle_ok sel \<longleftrightarrow>
     contract_matches (ss_call sel) (ss_strike sel) (ss_expiry sel) CE (ss_exchange sel) \<and>
     contract_matches (ss_put sel) (ss_strike sel) (ss_expiry sel) PE (ss_exchange sel) \<and>
     compute_atm_strike (ss_spot sel) (ss_interval sel) = Inr (ss_strike sel)"

lemma select_straddle_ok:
  assumes "select_straddle cx instrument spot as_of w = (w', Inr sel)"
  shows "straddle_ok sel \<and> ss_instrument sel = instrument \<and> ss_spot sel = spot"
  using assms unfolding select_straddle_def Let_def
  by (auto elim!: bnd_Inr_elim simp: ret_def lift_sum_def straddle_ok_def
      dest!: resolve_contract_Inr)

text \<open>
  The ATM strike is a multiple of the strike interval and lies within half an interval of
  the spot, up to the relative error of the 28-digit division; a non-positive spot or interval
  is refused with StrikeSelectionError.
\<close>

theorem atm_strike_nearest:
  "case compute_atm_strike spot interval of
     Inr strike \<Rightarrow>
       (\<exists>k :: int. strike = of_int k * interval \<and> 0 \<le> k) \<and>
       \<bar>strike - spot\<bar> \<le> interval / 2 + spot / (2 * 10 ^ 27)
   | Inl e \<Rightarrow> e = StrikeSelectionError \<and> (spot \<le> 0 \<or> interval \<le> 0)"
proof (cases "compute_atm_strike spot interval")
  case (Inl e)
  then show ?thesis by (auto simp: compute_atm_strike_def split: if_splits)
next
  case (Inr strike)
  then have pos: "0 < spot" "0 < interval"
    and strike: "strike = of_int (round_half_up (dec_div spot interval)) * interval"
    by (simp_all add: compute_atm_strike_Inr)
  define x where "x = spot / interval"
  define q where "q = dec_div spot interval"
  have x: "0 < x" "x * interval = spot" using pos by (simp_all add: x_def)
  have q: "\<bar>q - x\<bar> \<le> x / (2 * 10 ^ 27)"
    using ctx28_error [of x] x(1) by (simp add: q_def dec_div_def x_def)
  have "0 \<le> q" using ctx28_nonneg [of x] x(1) by (simp add: q_def dec_div_def x_def)
  then have k: "0 \<le> round_half_up q" by (rule round_half_up_nonneg)
  have "\<bar>of_int (round_half_up q) - x\<bar> \<le> 1/2 + x / (2 * 10 ^ 27)"
    using round_half_up_error [of q] q unfolding abs_le_iff by linarith
  then have "\<bar>of_int (round_half_up q) - x\<bar> * interval \<le> (1/2 + x / (2 * 10 ^ 27)) * interval"
    using pos by (intro mult_right_mono) simp_all
  also have "(1/2 + x / (2 * 10 ^ 27)) * interval = interval / 2 + spot / (2 * 10 ^ 27)"
    by (simp add: distrib_right x(2) [symmetric])
  also have "\<bar>of_int (round_half_up q) - x\<bar> * interval = \<bar>strike - spot\<bar>"
  proof -
    have "strike - spot = (of_int (round_half_up q) - x) * interval"
      using x(2) by (simp add: strike q_def left_diff_distrib)
    then show ?thesis using pos by (simp add: abs_mult)
  qed
  finally show ?thesis using Inr k strike by (auto simp: q_def)
qed

end
