(* ===== verification/Entry.thy ===== *)
theory Entry
  imports Strategy_Context
begin

text \<open>
  \<open>strategies/strategy_1/entry_logic.py\<close>: the pre-gates, the durable record written before any
  broker call, the placement of the two legs with the intent-first ceremony, the confirmation of
  fills, the finalisation to OPEN, the auto-unwind of a partial entry and the error path. Each
  function is the method of the same name; \<open>with self._unit_of_work()\<close> is \<open>unit_of_work\<close>.
  Messages that render Decimals keep their fixed part.
\<close>

section \<open>Results\<close>

datatype entry_outcome =
    ENTERED | SKIPPED_ALREADY_EXISTS | SKIPPED_EXPIRY_DAY | BLOCKED_BY_RISK | ENTRY_REJECTED
  | PARTIAL_ENTRY_ERROR | AMBIGUOUS_ERROR | PERSISTENCE_DIVERGENCE

record entry_result =
  en_outcome :: entry_outcome
  en_message :: string
  en_position :: "nat option"

datatype leg_outcome = LegFilled | LegFailed | LegAmbiguous

fun leg_outcome_value :: "leg_outcome \<Rightarrow> string" where
  "leg_outcome_value LegFilled = ''FILLED''"
| "leg_outcome_value LegFailed = ''FAILED''"
| "leg_outcome_value LegAmbiguous = ''AMBIGUOUS''"

record leg_result =
  lr_outcome :: leg_outcome
  lr_reason :: string
  lr_price :: "decimal option"

record leg_ids =
  lg_trade :: nat
  lg_intent :: nat
  lg_symbol :: string
  lg_contract :: broker_instrument

record durable_record =
  du_position :: nat
  du_quantity :: int
  du_ce :: leg_ids
  du_pe :: leg_ids

definition leg_option :: "leg_ids \<Rightarrow> exn + option_type" where
  "leg_option leg =
     (case bi_option_type (lg_contract leg) of None \<Rightarrow> Inl AssertionError | Some t \<Rightarrow> Inr t)"

section \<open>Keys and tags\<close>

definition idempotency_key ::
    "nat \<Rightarrow> date \<Rightarrow> option_type \<Rightarrow> order_purpose \<Rightarrow> string option \<Rightarrow> string" where
  "idempotency_key inst trade_date opt purpose marker =
     nat_digits inst @ '':'' @ isoformat trade_date @ '':'' @ option_type_value opt @ '':'' @
     order_purpose_value purpose @ (case marker of None \<Rightarrow> [] | Some m \<Rightarrow> if m = [] then [] else '':'' @ m)"

definition validate_tag :: "string \<Rightarrow> exn + string" where
  "validate_tag tag = (if length tag > 20 then Inl ValueError else Inr tag)"

definition tag_text :: "string \<Rightarrow> nat \<Rightarrow> date \<Rightarrow> option_type \<Rightarrow> string" where
  "tag_text prefix inst trade_date opt =
     prefix @ nat_digits inst @ ''-'' @ yymmdd trade_date @ ''-'' @ option_type_value opt"

definition broker_tag :: "nat \<Rightarrow> date \<Rightarrow> option_type \<Rightarrow> order_purpose \<Rightarrow> exn + string" where
  "broker_tag inst trade_date opt purpose =
     validate_tag (tag_text (if purpose = ENTRY then ''E'' else ''X'') inst trade_date opt)"

definition unwind_tag :: "nat \<Rightarrow> date \<Rightarrow> option_type \<Rightarrow> exn + string" where
  "unwind_tag inst trade_date opt = validate_tag (tag_text ''U'' inst trade_date opt)"

definition entry_tag_for :: "nat \<Rightarrow> date \<Rightarrow> leg_ids \<Rightarrow> exn + string" where
  "entry_tag_for inst today_date leg =
     (case leg_option leg of Inl e \<Rightarrow> Inl e | Inr t \<Rightarrow> broker_tag inst today_date t ENTRY)"

section \<open>Pre-gates\<close>

definition find_existing_position :: "'b ctx \<Rightarrow> date \<Rightarrow> ('b, position_state option) prog" where
  "find_existing_position cx trade_date =
     unit_of_work (asks (\<lambda>d. map_option (\<lambda>x. p_state (snd x))
       (get_by_instance_and_date (id_instance (cx_id cx)) trade_date d)))"

definition should_skip_expiry_day :: "'b ctx \<Rightarrow> date \<Rightarrow> ('b, bool) prog" where
  "should_skip_expiry_day cx trade_date =
     (if \<not> sc_skip_expiry (cx_config cx) then ret False
      else bnd (cx_expiry cx (id_instrument (cx_id cx)) trade_date) (\<lambda>expiry.
           ret (expiry = trade_date)))"

definition check_risk :: "'b ctx \<Rightarrow> ('b, string option) prog" where
  "check_risk cx =
     bnd (cx_halted cx) (\<lambda>halted.
     if halted then ret (Some ''trading is halted (kill-switch / emergency-exit active)'')
     else bnd (cx_approve cx (sc_lots (cx_config cx))) (\<lambda>decision.
          if \<not> rd_approved decision
          then ret (Some (or_str (rd_reason decision) ''entry rejected by risk (no reason given)''))
          else ret None))"

definition resolve_straddle :: "'b ctx \<Rightarrow> date \<Rightarrow> ('b, straddle) prog" where
  "resolve_straddle cx trade_date =
     bnd (cx_spot cx (id_instrument (cx_id cx))) (\<lambda>spot.
     select_straddle cx (id_instrument (cx_id cx)) spot trade_date)"

section \<open>The durable record\<close>

definition entry_position_row ::
    "'b ctx \<Rightarrow> date \<Rightarrow> straddle \<Rightarrow> dt \<Rightarrow> position_row" where
  "entry_position_row cx trade_date sel signal =
     \<lparr>p_instance = id_instance (cx_id cx), p_date = trade_date, p_state = ENTRY_PENDING,
      p_expiry = Some (ss_expiry sel), p_strike = Some (num2 (ss_strike sel)),
      p_interval = Some (num2 (ss_interval sel)), p_lots = Some (sc_lots (cx_config cx)),
      p_lot_size = Some (bi_lot_size (ss_call sel)),
      p_quantity = Some (sc_lots (cx_config cx) * bi_lot_size (ss_call sel)),
      p_spot = Some (num4 (ss_spot sel)), p_target_pct = Some (num4 (sc_target_pct (cx_config cx))),
      p_sl_pct = Some (num4 (sc_sl_pct (cx_config cx))), p_entry_premium = None, p_target = None,
      p_stoploss = None, p_exit_premium = None, p_exit_reason = None, p_pnl = None,
      p_entry_signal = Some signal, p_entry_done = None, p_exit_signal = None, p_exit_done = None,
      p_error = None, p_recon = False, p_version = 1\<rparr>"

definition create_leg ::
    "'b ctx \<Rightarrow> date \<Rightarrow> straddle \<Rightarrow> nat \<Rightarrow> int \<Rightarrow> option_type \<Rightarrow> broker_instrument \<Rightarrow> leg_ids tx" where
  "create_leg cx trade_date sel pid quantity opt contract =
     bnd (add_trade \<lparr>t_position = pid, t_option = opt, t_symbol = bi_symbol contract,
            t_exchange = bi_exchange contract, t_strike = num2 (ss_strike sel),
            t_quantity = quantity, t_entry_price = None, t_exit_price = None, t_entry_time = None,
            t_exit_time = None, t_pnl = None, t_status = TL_PENDING, t_version = 1\<rparr>) (\<lambda>tid.
     bnd (lift_sum (broker_tag (id_instance (cx_id cx)) trade_date opt ENTRY)) (\<lambda>tag.
     bnd (intent_get_or_create tid ENTRY SELL quantity
            (idempotency_key (id_instance (cx_id cx)) trade_date opt ENTRY None) tag) (\<lambda>(iid, created).
     ret \<lparr>lg_trade = tid, lg_intent = iid, lg_symbol = bi_symbol contract,
          lg_contract = contract\<rparr>)))"

definition durable_body ::
    "'b ctx \<Rightarrow> date \<Rightarrow> straddle \<Rightarrow> dt \<Rightarrow> durable_record option tx" where
  "durable_body cx trade_date sel signal =
     (let quantity = sc_lots (cx_config cx) * bi_lot_size (ss_call sel)
      in bnd (position_get_or_create (entry_position_row cx trade_date sel signal)) (\<lambda>(pid, created).
         if \<not> created then ret None
         else bnd (create_leg cx trade_date sel pid quantity CE (ss_call sel)) (\<lambda>ce.
              bnd (create_leg cx trade_date sel pid quantity PE (ss_put sel)) (\<lambda>pe.
              ret (Some \<lparr>du_position = pid, du_quantity = quantity, du_ce = ce, du_pe = pe\<rparr>)))))"

definition create_durable_record ::
    "'b ctx \<Rightarrow> date \<Rightarrow> straddle \<Rightarrow> ('b, durable_record option) prog" where
  "create_durable_record cx trade_date sel =
     bnd now (\<lambda>signal. unit_of_work (durable_body cx trade_date sel signal))"

section \<open>Small transactions\<close>

definition mark_intent_failed :: "nat \<Rightarrow> ('b, unit) prog" where
  "mark_intent_failed iid =
     unit_of_work (bnd (get_row_or_raise d_intents iid) (\<lambda>_. mark_failed iid))"

definition record_leg_rejection :: "'b ctx \<Rightarrow> leg_ids \<Rightarrow> string \<Rightarrow> ('b, unit) prog" where
  "record_leg_rejection cx leg message =
     bnd today (\<lambda>td.
     unit_of_work (
       bnd (lift_sum (entry_tag_for (id_instance (cx_id cx)) td leg)) (\<lambda>tag.
       bnd (order_create (lg_trade leg) (Some (lg_intent leg)) ENTRY SELL MARKET
              (sc_lots (cx_config cx) * bi_lot_size (lg_contract leg)) (Some tag)) (\<lambda>oid.
       sq (record_rejection oid message)
         (bnd (get_row_or_raise d_intents (lg_intent leg)) (\<lambda>_. mark_failed (lg_intent leg)))))))"

definition record_break ::
    "nat \<Rightarrow> nat option \<Rightarrow> break_type \<Rightarrow> ('b, unit) prog" where
  "record_break pid iid btype =
     bnd now (\<lambda>t.
     catch_if is_exception
       (unit_of_work (bnd (break_create btype t (Some pid) None iid) (\<lambda>_. ret ())))
       (\<lambda>_. ret ()))"

definition fail_body :: "nat \<Rightarrow> nat \<Rightarrow> string \<Rightarrow> unit tx" where
  "fail_body inst pid reason =
     bnd (get_row d_positions pid) (\<lambda>position.
     sq (case position of
           None \<Rightarrow> ret ()
         | Some p \<Rightarrow>
             if p_state p \<notin> {CLOSED, PS_ERROR} then
               sq (upd_position pid (\<lambda>r. r\<lparr>p_exit_reason := Some ER_ERROR, p_error := Some reason\<rparr>))
                 (bnd (mark_error pid STRATEGY reason) (\<lambda>_. ret ()))
             else ret ())
       (bnd (get_row d_instances inst) (\<lambda>instance.
        case instance of
          None \<Rightarrow> ret ()
        | Some i \<Rightarrow> if si_status i \<noteq> IS_FROZEN then set_status inst IS_FROZEN else ret ())))"

definition fail_to_error ::
    "'b ctx \<Rightarrow> nat \<Rightarrow> entry_outcome \<Rightarrow> string \<Rightarrow> ('b, entry_result) prog" where
  "fail_to_error cx pid outcome reason =
     sq (unit_of_work (fail_body (id_instance (cx_id cx)) pid reason))
       (ret \<lparr>en_outcome = outcome, en_message = reason, en_position = Some pid\<rparr>)"

section \<open>Placing one leg\<close>

fun poll_until_terminal :: "'b ctx \<Rightarrow> string \<Rightarrow> nat \<Rightarrow> ('b, broker_order option) prog" where
  "poll_until_terminal cx oid 0 = ret None"
| "poll_until_terminal cx oid (Suc n) =
     bnd (catch_if is_broker_error
            (bnd (bcall (bk_get (cx_broker cx) oid)) (\<lambda>bo. ret (Some bo)))
            (\<lambda>_. ret None)) (\<lambda>bo.
     if (case bo of None \<Rightarrow> False | Some b \<Rightarrow> terminal_status (bo_status b)) then ret bo
     else if n = 0 then ret None
     else sq (sleep (rs_delay (sc_retry (cx_config cx)))) (poll_until_terminal cx oid n))"

definition reconcile_order_terminal :: "string \<Rightarrow> broker_order \<Rightarrow> ('b, unit) prog" where
  "reconcile_order_terminal oid bo =
     bnd now (\<lambda>t.
     catch_if (\<lambda>e. e = ConcurrentModificationError)
       (unit_of_work (reconcile_order_body oid bo t)) (\<lambda>_. ret ()))"

fun order_status_value :: "order_status \<Rightarrow> string" where
  "order_status_value OS_PENDING = ''PENDING''"
| "order_status_value OS_OPEN = ''OPEN''"
| "order_status_value COMPLETE = ''COMPLETE''"
| "order_status_value REJECTED = ''REJECTED''"
| "order_status_value OS_CANCELLED = ''CANCELLED''"
| "order_status_value OS_ERROR = ''ERROR''"

definition acknowledge_body ::
    "nat \<Rightarrow> leg_ids \<Rightarrow> int \<Rightarrow> string \<Rightarrow> dt \<Rightarrow> date \<Rightarrow> nat tx" where
  "acknowledge_body inst leg quantity broker_order_id placed_at td =
     bnd (lift_sum (entry_tag_for inst td leg)) (\<lambda>tag.
     bnd (order_create (lg_trade leg) (Some (lg_intent leg)) ENTRY SELL MARKET quantity (Some tag)) (\<lambda>oid.
     sq (mark_acknowledged oid broker_order_id placed_at)
       (bnd (get_row_or_raise d_intents (lg_intent leg)) (\<lambda>_.
        sq (mark_placed (lg_intent leg)) (ret oid)))))"

definition settle_leg_body :: "nat \<Rightarrow> nat \<Rightarrow> leg_result tx" where
  "settle_leg_body oid iid =
     bnd (get_row_or_raise d_orders oid) (\<lambda>order.
     if o_status order = COMPLETE then
       (case o_avg_price order of
          None \<Rightarrow> throw MissingFillPriceError
        | Some price \<Rightarrow>
            if price \<le> 0 then throw MissingFillPriceError
            else ret \<lparr>lr_outcome = LegFilled, lr_reason = ''filled'', lr_price = Some price\<rparr>)
     else
       bnd (get_row_or_raise d_intents iid) (\<lambda>_.
       sq (mark_failed iid)
         (ret \<lparr>lr_outcome = LegFailed,
               lr_reason = ''terminal '' @ order_status_value (o_status order) @ '' after ack'',
               lr_price = None\<rparr>)))"

definition confirm_and_record ::
    "'b ctx \<Rightarrow> leg_ids \<Rightarrow> int \<Rightarrow> string \<Rightarrow> ('b, leg_result) prog" where
  "confirm_and_record cx leg quantity broker_order_id =
     bnd now (\<lambda>placed_at. bnd today (\<lambda>td.
     bnd (unit_of_work (acknowledge_body (id_instance (cx_id cx)) leg quantity broker_order_id
            placed_at td)) (\<lambda>oid.
     bnd (poll_until_terminal cx broker_order_id (rs_attempts (sc_retry (cx_config cx)))) (\<lambda>polled.
     case polled of
       None \<Rightarrow>
         ret \<lparr>lr_outcome = LegAmbiguous,
              lr_reason = ''order '' @ broker_order_id @
                '' acknowledged but not terminal within poll window'',
              lr_price = None\<rparr>
     | Some bo \<Rightarrow>
         sq (reconcile_order_terminal broker_order_id bo)
           (unit_of_work (settle_leg_body oid (lg_intent leg)))))))"

definition start_intent_body :: "nat \<Rightarrow> dt \<Rightarrow> string tx" where
  "start_intent_body iid started_at =
     bnd (get_row_or_raise d_intents iid) (\<lambda>intent.
     sq (mark_broker_call_started iid started_at) (ret (i_tag intent)))"

definition market_request ::
    "'b ctx \<Rightarrow> leg_ids \<Rightarrow> transaction_type \<Rightarrow> int \<Rightarrow> string \<Rightarrow> place_request" where
  "market_request cx leg side quantity tag =
     \<lparr>pr_exchange = bi_exchange (lg_contract leg), pr_symbol = lg_symbol leg, pr_side = side,
      pr_quantity = quantity, pr_product = sc_product (cx_config cx), pr_order_type = MARKET,
      pr_price = None, pr_trigger = None, pr_tag = tag\<rparr>"

definition try_sum :: "('s, 'a) act \<Rightarrow> ('s, exn + 'a) act" where
  "try_sum m s = (case m s of (s', r) \<Rightarrow> (s', Inr r))"

definition place_leg :: "'b ctx \<Rightarrow> leg_ids \<Rightarrow> int \<Rightarrow> ('b, leg_result) prog" where
  "place_leg cx leg quantity =
     bnd now (\<lambda>t.
     bnd (unit_of_work (start_intent_body (lg_intent leg) t)) (\<lambda>tag.
     bnd (lift_sum (mk_place_request (market_request cx leg SELL quantity tag))) (\<lambda>request.
     bnd (try_sum (bcall (bk_place (cx_broker cx) request))) (\<lambda>placement.
     case placement of
       Inr oid \<Rightarrow> confirm_and_record cx leg quantity oid
     | Inl (OrderRejectedError m) \<Rightarrow>
         sq (record_leg_rejection cx leg m)
           (ret \<lparr>lr_outcome = LegFailed, lr_reason = ''rejected before ack: '' @ m, lr_price = None\<rparr>)
     | Inl (InvalidOrderRequestError m) \<Rightarrow>
         sq (record_leg_rejection cx leg m)
           (ret \<lparr>lr_outcome = LegFailed, lr_reason = ''rejected before ack: '' @ m, lr_price = None\<rparr>)
     | Inl (BrokerConnectionError m) \<Rightarrow>
         sq (mark_intent_failed (lg_intent leg))
           (ret \<lparr>lr_outcome = LegFailed, lr_reason = ''not sent: '' @ m, lr_price = None\<rparr>)
     | Inl (BrokerRateLimitExceededError m) \<Rightarrow>
         sq (mark_intent_failed (lg_intent leg))
           (ret \<lparr>lr_outcome = LegFailed, lr_reason = ''not sent: '' @ m, lr_price = None\<rparr>)
     | Inl (BrokerTimeoutError m) \<Rightarrow>
         ret \<lparr>lr_outcome = LegAmbiguous, lr_reason = ''ack timed out: '' @ m, lr_price = None\<rparr>
     | Inl e \<Rightarrow> throw e))))"

section \<open>Finalisation and unwind\<close>

definition open_trade_body :: "nat \<Rightarrow> decimal \<Rightarrow> dt \<Rightarrow> unit tx" where
  "open_trade_body tid price t =
     bnd (get_row d_trades tid) (\<lambda>trade.
     case trade of
       None \<Rightarrow> throw AssertionError
     | Some _ \<Rightarrow>
         upd_trade tid (\<lambda>r. r\<lparr>t_entry_price := Some (num4 price), t_entry_time := Some t,
           t_status := TL_OPEN\<rparr>))"

definition confirm_intent_body :: "nat \<Rightarrow> unit tx" where
  "confirm_intent_body iid = bnd (get_row_or_raise d_intents iid) (\<lambda>_. mark_confirmed iid)"

definition finalize_body ::
    "durable_record \<Rightarrow> decimal \<Rightarrow> decimal \<Rightarrow> thresholds \<Rightarrow> dt \<Rightarrow> unit tx" where
  "finalize_body du ce_price pe_price th t =
     bnd (get_row d_positions (du_position du)) (\<lambda>position.
     case position of
       None \<Rightarrow> throw RuntimeError
     | Some _ \<Rightarrow>
         sq (open_trade_body (lg_trade (du_ce du)) ce_price t)
         (sq (open_trade_body (lg_trade (du_pe du)) pe_price t)
         (sq (upd_position (du_position du) (\<lambda>r. r\<lparr>p_entry_premium := Some (num4 (ce_price + pe_price)),
                p_target := Some (num4 (th_target th)), p_stoploss := Some (num4 (th_stoploss th)),
                p_entry_done := Some t\<rparr>))
         (sq (sm_transition (du_position du) OPEN STRATEGY (Some ''entry filled''))
         (sq (confirm_intent_body (lg_intent (du_ce du)))
             (confirm_intent_body (lg_intent (du_pe du))))))))"

definition finalize_open ::
    "'b ctx \<Rightarrow> durable_record \<Rightarrow> leg_result \<Rightarrow> leg_result \<Rightarrow> ('b, entry_result) prog" where
  "finalize_open cx du ce_result pe_result =
     (case (lr_price ce_result, lr_price pe_result) of
        (Some ce_price, Some pe_price) \<Rightarrow>
          bnd (lift_sum (compute_thresholds (ce_price + pe_price) (sc_target_pct (cx_config cx))
                 (sc_sl_pct (cx_config cx)))) (\<lambda>th.
          bnd now (\<lambda>t.
          bnd (catch_if is_exception
                 (bnd (unit_of_work (finalize_body du ce_price pe_price th t)) (\<lambda>_. ret True))
                 (\<lambda>_. ret False)) (\<lambda>written.
          if written
          then ret \<lparr>en_outcome = ENTERED, en_message = ''entered at combined premium'',
                    en_position = Some (du_position du)\<rparr>
          else sq (record_break (du_position du) None ORPHAN_FILL)
                 (ret \<lparr>en_outcome = PERSISTENCE_DIVERGENCE,
                       en_message = ''both legs filled but OPEN persistence failed; reconciliation break recorded'',
                       en_position = Some (du_position du)\<rparr>))))
      | _ \<Rightarrow> throw AssertionError)"

definition unwind_start_body ::
    "'b ctx \<Rightarrow> leg_ids \<Rightarrow> int \<Rightarrow> date \<Rightarrow> dt \<Rightarrow> (string \<times> nat) tx" where
  "unwind_start_body cx leg quantity trade_date t =
     bnd (lift_sum (leg_option leg)) (\<lambda>opt.
     bnd (lift_sum (unwind_tag (id_instance (cx_id cx)) trade_date opt)) (\<lambda>tag.
     bnd (intent_get_or_create (lg_trade leg) EXIT BUY quantity
            (idempotency_key (id_instance (cx_id cx)) trade_date opt EXIT (Some ''UNWIND'')) tag)
       (\<lambda>(iid, created).
     sq (mark_broker_call_started iid t)
       (bnd (get_row_or_raise d_intents iid) (\<lambda>intent. ret (i_tag intent, iid))))))"

definition unwind_settle_body ::
    "leg_ids \<Rightarrow> nat \<Rightarrow> broker_order option \<Rightarrow> dt \<Rightarrow> bool tx" where
  "unwind_settle_body leg iid bo t =
     (let filled = (case bo of None \<Rightarrow> False | Some b \<Rightarrow> bo_status b = COMPLETE)
      in bnd (get_row d_trades (lg_trade leg)) (\<lambda>trade.
         sq (case trade of
               None \<Rightarrow> ret ()
             | Some _ \<Rightarrow>
                 upd_trade (lg_trade leg) (\<lambda>r.
                   (case bo of
                      Some b \<Rightarrow>
                        if filled
                        then r\<lparr>t_status := TL_UNWOUND,
                               t_exit_price := map_option num4 (bo_avg_price b),
                               t_exit_time := Some (or_dt (bo_filled_at b) t)\<rparr>
                        else r\<lparr>t_status := TL_ERROR\<rparr>
                    | None \<Rightarrow> r\<lparr>t_status := TL_ERROR\<rparr>)))
           (bnd (get_row_or_raise d_intents iid) (\<lambda>_.
            sq (if filled then mark_confirmed iid else mark_failed iid) (ret filled)))))"

definition auto_unwind :: "'b ctx \<Rightarrow> leg_ids \<Rightarrow> int \<Rightarrow> ('b, bool) prog" where
  "auto_unwind cx leg quantity =
     bnd today (\<lambda>trade_date. bnd now (\<lambda>t.
     bnd (catch_if is_broker_error
            (bnd (unit_of_work (unwind_start_body cx leg quantity trade_date t)) (\<lambda>(tag, iid).
             bnd (lift_sum (mk_place_request (market_request cx leg BUY quantity tag))) (\<lambda>request.
             bnd (bcall (bk_place (cx_broker cx) request)) (\<lambda>oid.
             bnd (poll_until_terminal cx oid (rs_attempts (sc_retry (cx_config cx)))) (\<lambda>bo.
             ret (Some (iid, bo)))))))
            (\<lambda>_. ret None)) (\<lambda>attempt.
     case attempt of
       None \<Rightarrow> ret False
     | Some (iid, bo) \<Rightarrow>
         bnd now (\<lambda>t'. unit_of_work (unwind_settle_body leg iid bo t')))))"

definition place_and_finalize ::
    "'b ctx \<Rightarrow> durable_record \<Rightarrow> ('b, entry_result) prog" where
  "place_and_finalize cx du =
     bnd (place_leg cx (du_ce du) (du_quantity du)) (\<lambda>ce_result.
     case lr_outcome ce_result of
       LegFailed \<Rightarrow>
         fail_to_error cx (du_position du) ENTRY_REJECTED
           (''CE leg failed before any exposure: '' @ lr_reason ce_result)
     | LegAmbiguous \<Rightarrow>
         sq (record_break (du_position du) (Some (lg_intent (du_ce du))) AMBIGUOUS_ACK)
           (fail_to_error cx (du_position du) AMBIGUOUS_ERROR
             (''CE leg outcome ambiguous: '' @ lr_reason ce_result))
     | LegFilled \<Rightarrow>
         bnd (place_leg cx (du_pe du) (du_quantity du)) (\<lambda>pe_result.
         if lr_outcome pe_result = LegFilled then finalize_open cx du ce_result pe_result
         else
           bnd (auto_unwind cx (du_ce du) (du_quantity du)) (\<lambda>unwound.
           sq (record_break (du_position du) (Some (lg_intent (du_pe du)))
                (if lr_outcome pe_result = LegAmbiguous then AMBIGUOUS_ACK else PARTIAL_ENTRY))
             (fail_to_error cx (du_position du) PARTIAL_ENTRY_ERROR
               (''partial entry (PE '' @ leg_outcome_value (lr_outcome pe_result) @ ''); '' @
                (if unwound then ''CE unwound'' else ''CE UNWIND FAILED -- NAKED EXPOSURE''))))))"

section \<open>The entry\<close>

definition skip_result :: "entry_outcome \<Rightarrow> string \<Rightarrow> entry_result" where
  "skip_result outcome message =
     \<lparr>en_outcome = outcome, en_message = message, en_position = None\<rparr>"

definition enter :: "'b ctx \<Rightarrow> ('b, entry_result) prog" where
  "enter cx =
     bnd today (\<lambda>trade_date.
     bnd (find_existing_position cx trade_date) (\<lambda>existing.
     if existing \<noteq> None
     then ret (skip_result SKIPPED_ALREADY_EXISTS ''position already exists'')
     else
     bnd (should_skip_expiry_day cx trade_date) (\<lambda>expiry_day.
     if expiry_day
     then ret (skip_result SKIPPED_EXPIRY_DAY ''skip_on_expiry_day is set and today is an expiry day'')
     else
     bnd (check_risk cx) (\<lambda>risk_block.
     case risk_block of
       Some reason \<Rightarrow> ret (skip_result BLOCKED_BY_RISK reason)
     | None \<Rightarrow>
         bnd (resolve_straddle cx trade_date) (\<lambda>sel.
         bnd (create_durable_record cx trade_date sel) (\<lambda>durable.
         case durable of
           None \<Rightarrow>
             ret (skip_result SKIPPED_ALREADY_EXISTS
               ''another writer created today's position concurrently'')
         | Some du \<Rightarrow> place_and_finalize cx du))))))"

end
