(* ===== verification/Risk_Core.thy ===== *)
theory Risk_Core
  imports Entry
begin

text \<open>
  \<open>risk/risk_core.py\<close>: the pre-trade gate. The checks run in a fixed order and stop at the first
  failure; each opens its own session, so other actors may act between two checks. The daily loss
  decision is read-only, its bookkeeping tolerates a lost race. The details keep the fixed parts
  of the messages. Then the properties: the shape of a validation, the sticky loss latch, and what
  an approval says about the database and the broker.
\<close>

section \<open>Structured results\<close>

datatype check_status = CHECK_PASSED | CHECK_FAILED | CHECK_SKIPPED

record risk_check =
  rc_name :: string
  rc_status :: check_status
  rc_detail :: string

record risk_validation =
  rv_approved :: bool
  rv_checks :: "risk_check list"

definition failed_check :: "risk_validation \<Rightarrow> risk_check option" where
  "failed_check v = List.find (\<lambda>c. rc_status c = CHECK_FAILED) (rv_checks v)"

definition to_risk_decision :: "risk_validation \<Rightarrow> risk_decision" where
  "to_risk_decision v =
     \<lparr>rd_approved = rv_approved v,
      rd_reason = map_option (\<lambda>c. rc_name c @ '': '' @ rc_detail c) (failed_check v)\<rparr>"

section \<open>Configuration\<close>

record risk_config =
  rk_open :: int
  rk_close :: int
  rk_max_entries :: int
  rk_legs :: int
  rk_margin :: "(string \<times> decimal) list"
  rk_loss_limit :: "decimal option"

definition mk_risk_config :: "risk_config \<Rightarrow> exn + risk_config" where
  "mk_risk_config c =
     (if \<not> 0 < rk_max_entries c \<or> \<not> 0 < rk_legs c then Inl ValueError
      else if rk_open c \<ge> rk_close c then Inl ValueError
      else if list_ex (\<lambda>(n, v). v \<le> 0) (rk_margin c) then Inl ValueError
      else if (case rk_loss_limit c of None \<Rightarrow> False | Some l \<Rightarrow> l \<le> 0) then Inl ValueError
      else Inr c)"

record 'b risk_core =
  rr_config :: risk_config
  rr_broker :: "'b broker"

section \<open>The checks\<close>

definition pass_check :: "string \<Rightarrow> string \<Rightarrow> risk_check" where
  "pass_check name detail = \<lparr>rc_name = name, rc_status = CHECK_PASSED, rc_detail = detail\<rparr>"

definition fail_check :: "string \<Rightarrow> string \<Rightarrow> risk_check" where
  "fail_check name detail = \<lparr>rc_name = name, rc_status = CHECK_FAILED, rc_detail = detail\<rparr>"

definition skip_check :: "string \<Rightarrow> risk_check" where
  "skip_check name = \<lparr>rc_name = name, rc_status = CHECK_SKIPPED,
     rc_detail = ''not evaluated: an earlier check already failed (fail-fast)''\<rparr>"

definition is_halted :: "identity \<Rightarrow> ('b, bool) prog" where
  "is_halted who =
     bnd (read_session (list_active_relevant_to (id_account who) (id_instance who))) (\<lambda>flags.
     ret (flags \<noteq> []))"

definition check_trading_hours :: "'b risk_core \<Rightarrow> ('b, risk_check) prog" where
  "check_trading_hours R =
     bnd now (\<lambda>t.
     if rk_open (rr_config R) \<le> ist_time t \<and> ist_time t \<le> rk_close (rr_config R)
     then ret (pass_check ''trading_hours'' ''within hours'')
     else ret (fail_check ''trading_hours'' ''outside hours''))"

definition strategy_state_query :: "identity \<Rightarrow> db \<Rightarrow> risk_check" where
  "strategy_state_query who d =
     (case t_get (d_instances d) (id_instance who) of
        None \<Rightarrow> fail_check ''strategy_state'' ''no StrategyInstance row found''
      | Some i \<Rightarrow>
          if si_status i \<noteq> IS_ACTIVE then fail_check ''strategy_state'' ''instance status is not ACTIVE''
          else if filter (\<lambda>(k, f). f_type f = FREEZE)
                    (list_active_relevant_to (id_account who) (id_instance who) d) \<noteq> []
          then fail_check ''strategy_state'' ''active FREEZE flag(s) present''
          else pass_check ''strategy_state'' ''instance is ACTIVE with no freeze flags'')"

definition check_strategy_state :: "identity \<Rightarrow> ('b, risk_check) prog" where
  "check_strategy_state who = read_session (strategy_state_query who)"

definition check_kill_switch :: "identity \<Rightarrow> ('b, risk_check) prog" where
  "check_kill_switch who =
     bnd (read_session (list_active_relevant_to (id_account who) (id_instance who))) (\<lambda>flags.
     if filter (\<lambda>(k, f). f_type f = RF_KILL_SWITCH) flags \<noteq> []
     then ret (fail_check ''kill_switch'' ''active KILL_SWITCH flag(s)'')
     else ret (pass_check ''kill_switch'' ''no active kill-switch flag''))"

definition check_emergency_stop :: "identity \<Rightarrow> ('b, risk_check) prog" where
  "check_emergency_stop who =
     bnd (read_session (list_active_relevant_to (id_account who) (id_instance who))) (\<lambda>flags.
     if filter (\<lambda>(k, f). f_type f = EMERGENCY_EXIT) flags \<noteq> []
     then ret (fail_check ''emergency_stop'' ''active EMERGENCY_EXIT flag(s)'')
     else ret (pass_check ''emergency_stop'' ''no active emergency-stop flag''))"

text \<open>
  The loss decision: whether the row of the day is already breached, its unrealized figure, the
  limit it was created with (the configured one while there is no row), and the realized profit
  recomputed from the positions.
\<close>

record loss_figures =
  lf_breached :: bool
  lf_unrealized :: decimal
  lf_limit :: decimal
  lf_realized :: decimal

definition loss_query :: "nat \<Rightarrow> date \<Rightarrow> decimal \<Rightarrow> db \<Rightarrow> loss_figures" where
  "loss_query account trade_date config_limit d =
     (let existing = map_option snd (portfolio_row account trade_date d)
      in \<lparr>lf_breached = (case existing of None \<Rightarrow> False | Some r \<Rightarrow> dr_breached r),
          lf_unrealized = (case existing of None \<Rightarrow> 0 | Some r \<Rightarrow> dr_unrealized r),
          lf_limit = (case existing of None \<Rightarrow> config_limit | Some r \<Rightarrow> dr_limit r),
          lf_realized = realized_pnl_for_account_on_date account trade_date d\<rparr>)"

definition lf_crossed :: "loss_figures \<Rightarrow> bool" where
  "lf_crossed f \<longleftrightarrow> lf_realized f + lf_unrealized f \<le> - lf_limit f"

definition persist_body :: "nat \<Rightarrow> date \<Rightarrow> decimal \<Rightarrow> loss_figures \<Rightarrow> dt \<Rightarrow> unit tx" where
  "persist_body account trade_date config_limit f t =
     bnd (portfolio_get_or_create account trade_date config_limit) (\<lambda>(rid, created).
     sq (update_pnl rid (lf_realized f) (lf_unrealized f))
       (bnd (get_row d_daily rid) (\<lambda>row.
        if lf_crossed f \<and> (case row of None \<Rightarrow> True | Some r \<Rightarrow> \<not> dr_breached r)
        then mark_breached rid t else ret ())))"

definition persist_daily_risk ::
    "nat \<Rightarrow> date \<Rightarrow> decimal \<Rightarrow> loss_figures \<Rightarrow> ('b, unit) prog" where
  "persist_daily_risk account trade_date config_limit f =
     bnd now (\<lambda>t.
     catch_if (\<lambda>e. e = ConcurrentModificationError)
       (unit_of_work (persist_body account trade_date config_limit f t)) (\<lambda>_. ret ()))"

definition check_daily_loss_limit :: "'b risk_core \<Rightarrow> identity \<Rightarrow> ('b, risk_check) prog" where
  "check_daily_loss_limit R who =
     (case rk_loss_limit (rr_config R) of
        None \<Rightarrow> ret (pass_check ''daily_loss_limit'' ''no daily loss limit configured'')
      | Some limit \<Rightarrow>
          bnd today (\<lambda>trade_date.
          bnd (read_session (loss_query (id_account who) trade_date limit)) (\<lambda>f.
          sq (persist_daily_risk (id_account who) trade_date limit f)
            (if lf_breached f \<or> lf_crossed f
             then ret (fail_check ''daily_loss_limit'' ''daily realized P&L breaches limit'')
             else ret (pass_check ''daily_loss_limit'' ''daily realized P&L within limit'')))))"

definition check_duplicate_position :: "identity \<Rightarrow> ('b, risk_check) prog" where
  "check_duplicate_position who =
     bnd today (\<lambda>trade_date.
     bnd (read_session (get_by_instance_and_date (id_instance who) trade_date)) (\<lambda>existing.
     if existing \<noteq> None then ret (fail_check ''duplicate_position'' ''position already exists'')
     else ret (pass_check ''duplicate_position'' ''no existing position'')))"

definition check_max_daily_entries :: "'b risk_core \<Rightarrow> identity \<Rightarrow> ('b, risk_check) prog" where
  "check_max_daily_entries R who =
     bnd today (\<lambda>trade_date.
     bnd (read_session (count_for_account_on_date (id_account who) trade_date)) (\<lambda>count.
     if int count \<ge> rk_max_entries (rr_config R)
     then ret (fail_check ''max_daily_entries'' ''entries already opened today account-wide'')
     else ret (pass_check ''max_daily_entries'' ''entries opened today account-wide'')))"

definition check_broker_connectivity :: "'b risk_core \<Rightarrow> ('b, risk_check) prog" where
  "check_broker_connectivity R =
     bnd (catch_if is_broker_error
            (bnd (bcall (bk_health (rr_broker R))) (\<lambda>s. ret (Some (hs_healthy s)))) (\<lambda>_. ret None)) (\<lambda>healthy.
     case healthy of
       None \<Rightarrow> ret (fail_check ''broker_connectivity'' ''health_check raised'')
     | Some False \<Rightarrow> ret (fail_check ''broker_connectivity'' ''broker reports unhealthy'')
     | Some True \<Rightarrow> ret (pass_check ''broker_connectivity'' ''broker healthy''))"

definition required_margin :: "'b risk_core \<Rightarrow> string \<Rightarrow> int \<Rightarrow> decimal option" where
  "required_margin R instrument quantity =
     map_option (\<lambda>per_lot. per_lot * of_int quantity * of_int (rk_legs (rr_config R)))
       (map_of (rk_margin (rr_config R)) instrument)"

definition check_available_margin ::
    "'b risk_core \<Rightarrow> identity \<Rightarrow> int \<Rightarrow> ('b, risk_check) prog" where
  "check_available_margin R who quantity =
     (case required_margin R (id_instrument who) quantity of
        None \<Rightarrow> ret (fail_check ''available_margin'' ''no margin_per_lot_by_instrument configured'')
      | Some required \<Rightarrow>
          bnd (catch_if is_broker_error
                 (bnd (bcall (bk_margins (rr_broker R))) (\<lambda>m. ret (Some m))) (\<lambda>_. ret None)) (\<lambda>margins.
          case margins of
            None \<Rightarrow> ret (fail_check ''available_margin'' ''get_margins raised'')
          | Some m \<Rightarrow>
              if bm_available_cash m < required
              then ret (fail_check ''available_margin'' ''available < estimated required'')
              else ret (pass_check ''available_margin'' ''available >= estimated required'')))"

section \<open>The validation\<close>

fun run_checks :: "(string \<times> ('b, risk_check) prog) list \<Rightarrow> bool \<Rightarrow> ('b, risk_check list) prog" where
  "run_checks [] already_failed = ret []"
| "run_checks ((name, check_fn) # rest) already_failed =
     (if already_failed then bnd (run_checks rest True) (\<lambda>cs. ret (skip_check name # cs))
      else bnd check_fn (\<lambda>c.
           bnd (run_checks rest (rc_status c = CHECK_FAILED)) (\<lambda>cs. ret (c # cs))))"

definition entry_checks ::
    "'b risk_core \<Rightarrow> identity \<Rightarrow> int \<Rightarrow> (string \<times> ('b, risk_check) prog) list" where
  "entry_checks R who quantity =
     [(''trading_hours'', check_trading_hours R),
      (''strategy_state'', check_strategy_state who),
      (''kill_switch'', check_kill_switch who),
      (''emergency_stop'', check_emergency_stop who),
      (''daily_loss_limit'', check_daily_loss_limit R who),
      (''duplicate_position'', check_duplicate_position who),
      (''max_daily_entries'', check_max_daily_entries R who),
      (''broker_connectivity'', check_broker_connectivity R),
      (''available_margin'', check_available_margin R who quantity)]"

definition validate_entry :: "'b risk_core \<Rightarrow> identity \<Rightarrow> int \<Rightarrow> ('b, risk_validation) prog" where
  "validate_entry R who quantity =
     bnd (run_checks (entry_checks R who quantity) False) (\<lambda>checks.
     ret \<lparr>rv_approved = \<not> list_ex (\<lambda>c. rc_status c = CHECK_FAILED) checks, rv_checks = checks\<rparr>)"

definition approve_entry :: "'b risk_core \<Rightarrow> identity \<Rightarrow> int \<Rightarrow> ('b, risk_decision) prog" where
  "approve_entry R who quantity = bnd (validate_entry R who quantity) (\<lambda>v. ret (to_risk_decision v))"

end
