(* ===== verification/Exit.thy ===== *)
theory Exit
  imports Entry "HOL-Library.AList"
begin

text \<open>
  \<open>strategies/strategy_1/exit_logic.py\<close>: the exit decision, the exit lock, the durable exit intent,
  the close of each leg (adoption of an order a crashed attempt already sent, bounded resends of
  closes that were never sent, confirmation of the fill), the finalisation to CLOSED and the error
  path. The attempts and delays are those of \<open>RetrySettings\<close>, as \<open>Strategy1\<close> passes them; the Excel
  exporter is reporting and has no effect here.
\<close>

section \<open>The decision\<close>

record exit_decision =
  ed_exit :: bool
  ed_reason :: "exit_reason option"
  ed_detail :: string

definition evaluate_exit ::
    "int \<Rightarrow> int \<Rightarrow> bool \<Rightarrow> decimal option \<Rightarrow> decimal option \<Rightarrow> decimal option \<Rightarrow> exit_decision" where
  "evaluate_exit now_ist_time hard_cutoff halted combined target stoploss =
     (if now_ist_time \<ge> hard_cutoff then
        \<lparr>ed_exit = True, ed_reason = Some TIMEOUT, ed_detail = ''hard cutoff reached''\<rparr>
      else if halted then
        \<lparr>ed_exit = True, ed_reason = Some ER_KILL_SWITCH, ed_detail = ''risk halt active''\<rparr>
      else case combined of
        None \<Rightarrow> \<lparr>ed_exit = False, ed_reason = None, ed_detail = ''no combined premium yet''\<rparr>
      | Some c \<Rightarrow>
          if (case stoploss of None \<Rightarrow> False | Some s \<Rightarrow> c \<ge> s) then
            \<lparr>ed_exit = True, ed_reason = Some STOPLOSS, ed_detail = ''stoploss hit''\<rparr>
          else if (case target of None \<Rightarrow> False | Some t \<Rightarrow> c \<le> t) then
            \<lparr>ed_exit = True, ed_reason = Some TARGET, ed_detail = ''target hit''\<rparr>
          else \<lparr>ed_exit = False, ed_reason = None, ed_detail = ''no trigger''\<rparr>)"

definition exit_evaluate ::
    "'b ctx \<Rightarrow> int \<Rightarrow> bool \<Rightarrow> decimal option \<Rightarrow> decimal option \<Rightarrow> decimal option \<Rightarrow> exit_decision" where
  "exit_evaluate cx now_ist_time = evaluate_exit now_ist_time (sc_cutoff (cx_config cx))"

definition leg_realized_pnl :: "decimal \<Rightarrow> decimal \<Rightarrow> int \<Rightarrow> decimal" where
  "leg_realized_pnl entry_price exit_price quantity = (entry_price - exit_price) * of_int quantity"

section \<open>Results\<close>

datatype exit_outcome =
    EXITED | SKIPPED_ALREADY_CLOSED | SKIPPED_EXIT_IN_PROGRESS | NOT_OPEN | PARTIAL_EXIT_ERROR
  | EXIT_AMBIGUOUS_ERROR | EXIT_PERSISTENCE_DIVERGENCE

record exit_result =
  xr_outcome :: exit_outcome
  xr_message :: string
  xr_position :: "nat option"
  xr_pnl :: "decimal option"

datatype close_outcome = LegClosed | CloseFailed | CloseAmbiguous

fun close_outcome_value :: "close_outcome \<Rightarrow> string" where
  "close_outcome_value LegClosed = ''CLOSED''"
| "close_outcome_value CloseFailed = ''FAILED''"
| "close_outcome_value CloseAmbiguous = ''AMBIGUOUS''"

record close_result =
  cr_outcome :: close_outcome
  cr_reason :: string
  cr_price :: "decimal option"

fun actor_by_reason :: "exit_reason \<Rightarrow> actor" where
  "actor_by_reason TARGET = STRATEGY"
| "actor_by_reason STOPLOSS = STRATEGY"
| "actor_by_reason TIMEOUT = STRATEGY"
| "actor_by_reason ER_KILL_SWITCH = AC_KILL_SWITCH"
| "actor_by_reason ER_MANUAL = AC_MANUAL"
| "actor_by_reason ER_ERROR = STRATEGY"

record exit_leg =
  xl_trade :: nat
  xl_intent :: nat
  xl_symbol :: string
  xl_exchange :: exchange
  xl_option :: option_type
  xl_quantity :: int

record prepared_exit =
  px_position :: nat
  px_legs :: "(option_type \<times> exit_leg) list"

section \<open>Keys and tags\<close>

definition exit_idempotency_key :: "nat \<Rightarrow> date \<Rightarrow> option_type \<Rightarrow> string" where
  "exit_idempotency_key inst trade_date opt =
     nat_digits inst @ '':'' @ isoformat trade_date @ '':'' @ option_type_value opt @ '':'' @
     order_purpose_value EXIT"

definition exit_broker_tag :: "nat \<Rightarrow> date \<Rightarrow> option_type \<Rightarrow> exn + string" where
  "exit_broker_tag inst trade_date opt = validate_tag (tag_text ''X'' inst trade_date opt)"

section \<open>Small transactions\<close>

definition exit_record_break :: "nat \<Rightarrow> break_type \<Rightarrow> ('b, unit) prog" where
  "exit_record_break pid btype = record_break pid None btype"

definition exit_fail_to_error ::
    "'b ctx \<Rightarrow> nat \<Rightarrow> exit_outcome \<Rightarrow> string \<Rightarrow> ('b, exit_result) prog" where
  "exit_fail_to_error cx pid outcome reason =
     sq (unit_of_work (fail_body (id_instance (cx_id cx)) pid reason))
       (ret \<lparr>xr_outcome = outcome, xr_message = reason, xr_position = Some pid, xr_pnl = None\<rparr>)"

definition exit_mark_intent_failed :: "nat \<Rightarrow> ('b, unit) prog" where
  "exit_mark_intent_failed iid =
     unit_of_work (bnd (get_row_or_raise d_intents iid) (\<lambda>_. mark_failed iid))"

definition exit_poll :: "'b ctx \<Rightarrow> string \<Rightarrow> ('b, broker_order option) prog" where
  "exit_poll cx oid = poll_until_terminal cx oid (rs_attempts (sc_retry (cx_config cx)))"

definition reconcile_at :: "string \<Rightarrow> broker_order \<Rightarrow> dt \<Rightarrow> ('b, unit) prog" where
  "reconcile_at oid bo t =
     catch_if (\<lambda>e. e = ConcurrentModificationError)
       (unit_of_work (reconcile_order_body oid bo t)) (\<lambda>_. ret ())"

section \<open>Preparing the exit\<close>

fun prepare_legs ::
    "nat \<Rightarrow> date \<Rightarrow> (nat \<times> trade_row) list \<Rightarrow> (option_type \<times> exit_leg) list \<Rightarrow>
     (option_type \<times> exit_leg) list tx" where
  "prepare_legs inst trade_date [] legs = ret legs"
| "prepare_legs inst trade_date ((tid, t) # ts) legs =
     bnd (lift_sum (exit_broker_tag inst trade_date (t_option t))) (\<lambda>tag.
     bnd (intent_get_or_create tid EXIT BUY (t_quantity t)
            (exit_idempotency_key inst trade_date (t_option t)) tag) (\<lambda>(iid, created).
     prepare_legs inst trade_date ts
       (AList.update (t_option t)
          \<lparr>xl_trade = tid, xl_intent = iid, xl_symbol = t_symbol t, xl_exchange = t_exchange t,
           xl_option = t_option t, xl_quantity = t_quantity t\<rparr> legs)))"

definition stop_exit :: "exit_outcome \<Rightarrow> string \<Rightarrow> nat option \<Rightarrow> exit_result" where
  "stop_exit outcome message pid =
     \<lparr>xr_outcome = outcome, xr_message = message, xr_position = pid, xr_pnl = None\<rparr>"

definition prepare_body ::
    "nat \<Rightarrow> date \<Rightarrow> exit_reason \<Rightarrow> actor \<Rightarrow> (exit_result + prepared_exit) tx" where
  "prepare_body inst trade_date reason actor =
     bnd (asks (get_by_instance_and_date inst trade_date)) (\<lambda>position.
     case position of
       None \<Rightarrow> ret (Inl (stop_exit NOT_OPEN ''no position for today'' None))
     | Some (pid, p) \<Rightarrow>
         if p_state p = CLOSED then
           ret (Inl (stop_exit SKIPPED_ALREADY_CLOSED ''position already CLOSED'' (Some pid)))
         else if p_state p \<notin> {OPEN, EXIT_PENDING} then
           ret (Inl (stop_exit NOT_OPEN ''position state is not exitable'' (Some pid)))
         else
           sq (if p_state p = OPEN then
                 bnd (sm_transition pid EXIT_PENDING actor
                        (Some (''exit triggered: '' @ exit_reason_value reason))) (\<lambda>_. ret ())
               else ret ())
             (bnd (asks (list_trades_for_position pid)) (\<lambda>trades.
              bnd (prepare_legs inst trade_date trades []) (\<lambda>legs.
              ret (Inr \<lparr>px_position = pid, px_legs = legs\<rparr>)))))"

definition prepare_exit ::
    "'b ctx \<Rightarrow> date \<Rightarrow> exit_reason \<Rightarrow> actor \<Rightarrow> ('b, exit_result + prepared_exit) prog" where
  "prepare_exit cx trade_date reason actor =
     unit_of_work (prepare_body (id_instance (cx_id cx)) trade_date reason actor)"

section \<open>Closing one leg\<close>

definition close_rejection_body ::
    "nat \<Rightarrow> date \<Rightarrow> exit_leg \<Rightarrow> string \<Rightarrow> bool \<Rightarrow> unit tx" where
  "close_rejection_body inst td leg message pre_ack =
     sq (do_if pre_ack
           (bnd (lift_sum (exit_broker_tag inst td (xl_option leg))) (\<lambda>tag.
            bnd (order_create (xl_trade leg) (Some (xl_intent leg)) EXIT BUY MARKET
                   (xl_quantity leg) (Some tag)) (\<lambda>oid. record_rejection oid message))))
       (bnd (get_row_or_raise d_intents (xl_intent leg)) (\<lambda>_. mark_failed (xl_intent leg)))"

definition record_close_rejection ::
    "'b ctx \<Rightarrow> exit_leg \<Rightarrow> string \<Rightarrow> (string \<times> broker_order) option \<Rightarrow> ('b, unit) prog" where
  "record_close_rejection cx leg message known =
     sq (case known of
           None \<Rightarrow> ret ()
         | Some (oid, bo) \<Rightarrow> bnd now (\<lambda>t. reconcile_at oid bo t))
       (bnd today (\<lambda>td.
        unit_of_work (close_rejection_body (id_instance (cx_id cx)) td leg message (known = None))))"

definition close_fill_body :: "exit_leg \<Rightarrow> decimal \<Rightarrow> dt \<Rightarrow> unit tx" where
  "close_fill_body leg exit_price t =
     bnd (get_row d_trades (xl_trade leg)) (\<lambda>trade.
     case trade of
       None \<Rightarrow> throw AssertionError
     | Some r \<Rightarrow>
         sq (upd_trade (xl_trade leg) (\<lambda>r. r\<lparr>t_exit_price := Some (num4 exit_price),
               t_exit_time := Some t,
               t_pnl := (case t_entry_price r of
                           None \<Rightarrow> t_pnl r
                         | Some e \<Rightarrow> Some (num4 (leg_realized_pnl e exit_price (t_quantity r)))),
               t_status := TL_CLOSED\<rparr>))
           (bnd (get_row_or_raise d_intents (xl_intent leg)) (\<lambda>_. mark_confirmed (xl_intent leg))))"

definition record_close_fill ::
    "exit_leg \<Rightarrow> string \<Rightarrow> decimal \<Rightarrow> broker_order \<Rightarrow> ('b, unit) prog" where
  "record_close_fill leg oid exit_price bo =
     bnd now (\<lambda>t0.
     (let t = or_dt (bo_filled_at bo) t0
      in sq (reconcile_at oid bo t) (unit_of_work (close_fill_body leg exit_price t))))"

definition close_fill_without_price :: close_result where
  "close_fill_without_price =
     \<lparr>cr_outcome = CloseAmbiguous, cr_reason = ''closed at broker but no usable fill price reported'',
      cr_price = None\<rparr>"

definition usable_price :: "broker_order \<Rightarrow> decimal option" where
  "usable_price bo = (case bo_avg_price bo of None \<Rightarrow> None | Some p \<Rightarrow> if p \<le> 0 then None else Some p)"

definition confirm_close_body ::
    "nat \<Rightarrow> date \<Rightarrow> exit_leg \<Rightarrow> string \<Rightarrow> dt \<Rightarrow> unit tx" where
  "confirm_close_body inst td leg broker_order_id placed_at =
     bnd (lift_sum (exit_broker_tag inst td (xl_option leg))) (\<lambda>tag.
     bnd (order_create (xl_trade leg) (Some (xl_intent leg)) EXIT BUY MARKET (xl_quantity leg)
            (Some tag)) (\<lambda>oid.
     sq (mark_acknowledged oid broker_order_id placed_at)
       (bnd (get_row_or_raise d_intents (xl_intent leg)) (\<lambda>_. mark_placed (xl_intent leg)))))"

definition confirm_close :: "'b ctx \<Rightarrow> exit_leg \<Rightarrow> string \<Rightarrow> ('b, close_result) prog" where
  "confirm_close cx leg broker_order_id =
     bnd now (\<lambda>placed_at. bnd today (\<lambda>td.
     sq (unit_of_work (confirm_close_body (id_instance (cx_id cx)) td leg broker_order_id placed_at))
     (bnd (exit_poll cx broker_order_id) (\<lambda>terminal.
     case terminal of
       None \<Rightarrow>
         ret \<lparr>cr_outcome = CloseAmbiguous,
              cr_reason = ''close order '' @ broker_order_id @
                '' acknowledged but not terminal in poll window'',
              cr_price = None\<rparr>
     | Some bo \<Rightarrow>
         if bo_status bo = COMPLETE then
           (case usable_price bo of
              None \<Rightarrow> ret close_fill_without_price
            | Some price \<Rightarrow>
                sq (record_close_fill leg broker_order_id price bo)
                  (ret \<lparr>cr_outcome = LegClosed, cr_reason = ''closed'', cr_price = Some price\<rparr>))
         else
           sq (record_close_rejection cx leg (or_str (bo_message bo) (order_status_value (bo_status bo)))
                 (Some (broker_order_id, bo)))
             (ret \<lparr>cr_outcome = CloseFailed,
                   cr_reason = ''terminal '' @ order_status_value (bo_status bo),
                   cr_price = None\<rparr>)))))"

fun send_close ::
    "'b ctx \<Rightarrow> exit_leg \<Rightarrow> place_request \<Rightarrow> nat \<Rightarrow> string \<Rightarrow> ('b, close_result) prog" where
  "send_close cx leg request 0 last_reason =
     sq (exit_mark_intent_failed (xl_intent leg))
       (ret \<lparr>cr_outcome = CloseFailed, cr_reason = last_reason, cr_price = None\<rparr>)"
| "send_close cx leg request (Suc n) last_reason =
     bnd (try_sum (bcall (bk_place (cx_broker cx) request))) (\<lambda>placement.
     case placement of
       Inr oid \<Rightarrow> confirm_close cx leg oid
     | Inl (OrderRejectedError m) \<Rightarrow>
         sq (record_close_rejection cx leg m None)
           (ret \<lparr>cr_outcome = CloseFailed, cr_reason = ''rejected: '' @ m, cr_price = None\<rparr>)
     | Inl (InvalidOrderRequestError m) \<Rightarrow>
         sq (record_close_rejection cx leg m None)
           (ret \<lparr>cr_outcome = CloseFailed, cr_reason = ''rejected: '' @ m, cr_price = None\<rparr>)
     | Inl (BrokerConnectionError m) \<Rightarrow>
         sq (do_if (n \<noteq> 0) (sleep (rs_close_delay (sc_retry (cx_config cx)))))
           (send_close cx leg request n (''not sent: '' @ m))
     | Inl (BrokerRateLimitExceededError m) \<Rightarrow>
         sq (do_if (n \<noteq> 0) (sleep (rs_close_delay (sc_retry (cx_config cx)))))
           (send_close cx leg request n (''not sent: '' @ m))
     | Inl (BrokerTimeoutError m) \<Rightarrow>
         ret \<lparr>cr_outcome = CloseAmbiguous, cr_reason = ''ack timed out: '' @ m, cr_price = None\<rparr>
     | Inl e \<Rightarrow> throw e)"

definition close_request :: "'b ctx \<Rightarrow> exit_leg \<Rightarrow> string \<Rightarrow> place_request" where
  "close_request cx leg tag =
     \<lparr>pr_exchange = xl_exchange leg, pr_symbol = xl_symbol leg, pr_side = BUY,
      pr_quantity = xl_quantity leg, pr_product = sc_product (cx_config cx),
      pr_order_type = MARKET, pr_price = None, pr_trigger = None, pr_tag = tag\<rparr>"

definition mark_started_body :: "nat \<Rightarrow> dt \<Rightarrow> unit tx" where
  "mark_started_body iid t =
     bnd (get_row_or_raise d_intents iid) (\<lambda>_. mark_broker_call_started iid t)"

definition place_close_with_retries ::
    "'b ctx \<Rightarrow> exit_leg \<Rightarrow> string \<Rightarrow> ('b, close_result) prog" where
  "place_close_with_retries cx leg tag =
     bnd now (\<lambda>t.
     sq (unit_of_work (mark_started_body (xl_intent leg) t))
     (bnd (lift_sum (mk_place_request (close_request cx leg tag))) (\<lambda>request.
      send_close cx leg request (rs_close_attempts (sc_retry (cx_config cx))) ''not attempted'')))"

definition adopt_existing_order ::
    "'b ctx \<Rightarrow> exit_leg \<Rightarrow> string \<Rightarrow> ('b, close_result option) prog" where
  "adopt_existing_order cx leg tag =
     bnd (catch_if is_broker_error
            (bnd (bcall (bk_find_tag (cx_broker cx) tag)) (\<lambda>x. ret (Some x))) (\<lambda>_. ret None)) (\<lambda>found.
     case found of
       None \<Rightarrow>
         ret (Some \<lparr>cr_outcome = CloseAmbiguous, cr_reason = ''could not query existing order'',
                    cr_price = None\<rparr>)
     | Some None \<Rightarrow> ret None
     | Some (Some existing) \<Rightarrow>
         bnd (exit_poll cx (bo_id existing)) (\<lambda>terminal.
         case terminal of
           Some bo \<Rightarrow>
             if bo_status bo = COMPLETE then
               (case usable_price bo of
                  None \<Rightarrow> ret (Some close_fill_without_price)
                | Some price \<Rightarrow>
                    sq (record_close_fill leg (bo_id bo) price bo)
                      (ret (Some \<lparr>cr_outcome = LegClosed, cr_reason = ''adopted prior fill'',
                                  cr_price = Some price\<rparr>)))
             else ret (Some \<lparr>cr_outcome = CloseAmbiguous,
                    cr_reason = ''prior exit order exists but is not confirmed filled'',
                    cr_price = None\<rparr>)
         | None \<Rightarrow>
             ret (Some \<lparr>cr_outcome = CloseAmbiguous,
                    cr_reason = ''prior exit order exists but is not confirmed filled'',
                    cr_price = None\<rparr>)))"

definition close_check_body :: "exit_leg \<Rightarrow> (close_result + bool \<times> string) tx" where
  "close_check_body leg =
     bnd (get_row d_trades (xl_trade leg)) (\<lambda>trade.
     case trade of
       None \<Rightarrow> throw AssertionError
     | Some t \<Rightarrow>
         if t_status t = TL_CLOSED then
           ret (Inl \<lparr>cr_outcome = LegClosed, cr_reason = ''already closed'', cr_price = t_exit_price t\<rparr>)
         else bnd (get_row_or_raise d_intents (xl_intent leg)) (\<lambda>i.
           ret (Inr (i_started i \<noteq> None, i_tag i))))"

definition close_leg :: "'b ctx \<Rightarrow> exit_leg \<Rightarrow> ('b, close_result) prog" where
  "close_leg cx leg =
     bnd (unit_of_work (close_check_body leg)) (\<lambda>check.
     case check of
       Inl result \<Rightarrow> ret result
     | Inr (already_attempted, tag) \<Rightarrow>
         bnd (if already_attempted then adopt_existing_order cx leg tag else ret None) (\<lambda>adopted.
         case adopted of
           Some result \<Rightarrow> ret result
         | None \<Rightarrow> place_close_with_retries cx leg tag))"

section \<open>Finalisation\<close>

definition finalize_exit_body :: "nat \<Rightarrow> exit_reason \<Rightarrow> actor \<Rightarrow> dt \<Rightarrow> decimal tx" where
  "finalize_exit_body pid reason actor t =
     bnd (get_row d_positions pid) (\<lambda>position.
     case position of
       None \<Rightarrow> throw RuntimeError
     | Some _ \<Rightarrow>
         bnd (asks (list_trades_for_position pid)) (\<lambda>trades.
         if list_ex (\<lambda>(i, r). t_exit_price r = None \<or> t_pnl r = None) trades
         then throw MissingFillPriceError
         else
           (let combined_exit = sum_list (map (\<lambda>(i, r). the (t_exit_price r)) trades);
                realized = sum_list (map (\<lambda>(i, r). the (t_pnl r)) trades)
            in sq (upd_position pid (\<lambda>r. r\<lparr>p_exit_premium := Some (num4 combined_exit),
                     p_pnl := Some (num4 realized), p_exit_reason := Some reason,
                     p_exit_done := Some t\<rparr>))
                 (sq (sm_transition pid CLOSED actor (Some ''exit complete'')) (ret realized)))))"

definition record_trade_history :: "'b ctx \<Rightarrow> nat \<Rightarrow> ('b, unit) prog" where
  "record_trade_history cx pid = catch_if is_exception (cx_history cx pid) (\<lambda>_. ret ())"

definition finalize_closed ::
    "'b ctx \<Rightarrow> prepared_exit \<Rightarrow> exit_reason \<Rightarrow> actor \<Rightarrow> ('b, exit_result) prog" where
  "finalize_closed cx px reason actor =
     bnd now (\<lambda>t.
     bnd (catch_if is_exception
            (bnd (unit_of_work (finalize_exit_body (px_position px) reason actor t)) (\<lambda>x. ret (Some x)))
            (\<lambda>_. ret None)) (\<lambda>written.
     case written of
       None \<Rightarrow>
         sq (exit_record_break (px_position px) BT_OTHER)
           (ret \<lparr>xr_outcome = EXIT_PERSISTENCE_DIVERGENCE,
                 xr_message = ''both legs closed but CLOSED persistence failed; reconciliation break recorded'',
                 xr_position = Some (px_position px), xr_pnl = None\<rparr>)
     | Some realized \<Rightarrow>
         sq (record_trade_history cx (px_position px))
           (ret \<lparr>xr_outcome = EXITED, xr_message = ''exited'',
                 xr_position = Some (px_position px), xr_pnl = Some realized\<rparr>)))"

section \<open>The exit\<close>

fun close_legs ::
    "'b ctx \<Rightarrow> (option_type \<times> exit_leg) list \<Rightarrow> ('b, (option_type \<times> close_result) list) prog" where
  "close_legs cx [] = ret []"
| "close_legs cx ((opt, leg) # legs) =
     bnd (close_leg cx leg) (\<lambda>r. bnd (close_legs cx legs) (\<lambda>rs. ret ((opt, r) # rs)))"

fun join_details :: "(option_type \<times> close_result) list \<Rightarrow> string" where
  "join_details [] = []"
| "join_details [(opt, r)] = option_type_value opt @ ''='' @ close_outcome_value (cr_outcome r)"
| "join_details ((opt, r) # x # xs) =
     option_type_value opt @ ''='' @ close_outcome_value (cr_outcome r) @ ''; '' @ join_details (x # xs)"

definition conclude_exit ::
    "'b ctx \<Rightarrow> prepared_exit \<Rightarrow> exit_reason \<Rightarrow> actor \<Rightarrow> (option_type \<times> close_result) list \<Rightarrow>
     ('b, exit_result) prog" where
  "conclude_exit cx px reason actor results =
     (if list_all (\<lambda>(opt, r). cr_outcome r = LegClosed) results
      then finalize_closed cx px reason actor
      else
        (let ambiguous = list_ex (\<lambda>(opt, r). cr_outcome r = CloseAmbiguous) results
         in sq (exit_record_break (px_position px) (if ambiguous then AMBIGUOUS_ACK else BT_OTHER))
              (exit_fail_to_error cx (px_position px)
                 (if ambiguous then EXIT_AMBIGUOUS_ERROR else PARTIAL_EXIT_ERROR)
                 (''exit incomplete ('' @ exit_reason_value reason @ ''): '' @ join_details results))))"

definition exit_locked :: "'b ctx \<Rightarrow> exit_reason \<Rightarrow> ('b, exit_result) prog" where
  "exit_locked cx reason =
     bnd today (\<lambda>trade_date.
     bnd (prepare_exit cx trade_date reason (actor_by_reason reason)) (\<lambda>prepared.
     case prepared of
       Inl result \<Rightarrow> ret result
     | Inr px \<Rightarrow>
         bnd (close_legs cx (px_legs px)) (\<lambda>results.
         conclude_exit cx px reason (actor_by_reason reason) results)))"

definition exit_position :: "'b ctx \<Rightarrow> exit_reason \<Rightarrow> ('b, exit_result) prog" where
  "exit_position cx reason =
     bnd (asks w_exit_lock) (\<lambda>busy.
     if busy then
       ret (stop_exit SKIPPED_EXIT_IN_PROGRESS
              (''exit already in progress; ignoring concurrent '' @ exit_reason_value reason @ '' trigger'')
              None)
     else
       sq (modify (\<lambda>w. w\<lparr>w_exit_lock := True\<rparr>))
         (finally_do (exit_locked cx reason) (\<lambda>w. w\<lparr>w_exit_lock := False\<rparr>)))"

end
