(* ===== verification/Invariants.thy ===== *)
theory Invariants
  imports Strategy_Context
begin

text \<open>
  The invariants carried through the strategy's programs. \<open>tx_invariant\<close> is the interface between
  the persistence layer and the orchestration code: a property of the database kept by every row
  update the repositories make. The programs of entry, exit and reconciliation are proved to keep
  any such property, once, in its context; it is interpreted for the audit trail and for the
  durability of order intents. \<open>broker_book\<close> is the interface of a broker as far as placed orders
  go: only \<open>place_order\<close> adds to the book, at most one order per call, carrying the tag of the
  request.
\<close>

section \<open>Durable intents\<close>

definition intent_le :: "intent_row \<Rightarrow> intent_row \<Rightarrow> bool" where
  "intent_le r q \<longleftrightarrow>
     i_trade q = i_trade r \<and> i_purpose q = i_purpose r \<and> i_side q = i_side r \<and>
     i_quantity q = i_quantity r \<and> i_key q = i_key r \<and> i_tag q = i_tag r \<and>
     (i_started r \<noteq> None \<longrightarrow> i_started q \<noteq> None)"

lemma intent_le_refl [simp]: "intent_le r r"
  by (simp add: intent_le_def)

lemma intent_le_trans: "intent_le a b \<Longrightarrow> intent_le b c \<Longrightarrow> intent_le a c"
  by (auto simp: intent_le_def)

definition intents_grow :: "db \<Rightarrow> db \<Rightarrow> bool" where
  "intents_grow d0 d \<longleftrightarrow>
     (\<forall>iid r. t_get (d_intents d0) iid = Some r \<longrightarrow>
        (\<exists>q. t_get (d_intents d) iid = Some q \<and> intent_le r q))"

lemma intents_grow_refl [simp]: "intents_grow d d"
  by (auto simp: intents_grow_def)

lemma intents_growD:
  "intents_grow d0 d \<Longrightarrow> t_get (d_intents d0) iid = Some r \<Longrightarrow>
     \<exists>q. t_get (d_intents d) iid = Some q \<and> intent_le r q"
  by (simp add: intents_grow_def)

lemma intents_grow_trans: "intents_grow a b \<Longrightarrow> intents_grow b c \<Longrightarrow> intents_grow a c"
  unfolding intents_grow_def by (meson intent_le_trans)

lemma intents_grow_indep:
  "d_intents d' = d_intents d \<Longrightarrow> intents_grow d0 d' = intents_grow d0 d"
  by (simp add: intents_grow_def)

definition tag_started :: "string \<Rightarrow> db \<Rightarrow> bool" where
  "tag_started tag d \<longleftrightarrow>
     (\<exists>iid r. t_get (d_intents d) iid = Some r \<and> i_tag r = tag \<and> i_started r \<noteq> None)"

lemma tag_started_grows: "tag_started tag d0 \<Longrightarrow> intents_grow d0 d \<Longrightarrow> tag_started tag d"
  unfolding tag_started_def intents_grow_def intent_le_def by metis

section \<open>Durable identities\<close>

text \<open>What an update may do to an instance: never its key, and never thaw it.\<close>

definition instance_le :: "instance_row \<Rightarrow> instance_row \<Rightarrow> bool" where
  "instance_le r q \<longleftrightarrow>
     si_strategy q = si_strategy r \<and> si_instrument q = si_instrument r \<and> si_account q = si_account r \<and>
     (si_status r = IS_FROZEN \<longrightarrow> si_status q = IS_FROZEN)"

section \<open>The interface of the persistence layer\<close>

locale tx_invariant = db_invariant +
  assumes trades_free: "I d \<Longrightarrow> I (d\<lparr>d_trades := a\<rparr>)"
    and orders_free: "I d \<Longrightarrow> I (d\<lparr>d_orders := b\<rparr>)"
    and instance_update:
      "I d \<Longrightarrow> t_get (d_instances d) nid = Some nr \<Longrightarrow> instance_le nr nq \<Longrightarrow>
       I (d\<lparr>d_instances := t_put (d_instances d) nid nq\<rparr>)"
    and instance_insert: "I d \<Longrightarrow> I (d\<lparr>d_instances := t_add (d_instances d) nrow\<rparr>)"
    and flags_free: "I d \<Longrightarrow> I (d\<lparr>d_flags := e\<rparr>)"
    and daily_free: "I d \<Longrightarrow> I (d\<lparr>d_daily := f\<rparr>)"
    and breaks_free: "I d \<Longrightarrow> I (d\<lparr>d_breaks := g\<rparr>)"
    and history_free: "I d \<Longrightarrow> I (d\<lparr>d_history := h\<rparr>)"
    and accounts_free: "I d \<Longrightarrow> I (d\<lparr>d_accounts := k\<rparr>)"
    and position_update:
      "I d \<Longrightarrow> t_get (d_positions d) pid = Some r \<Longrightarrow> p_state q = p_state r \<Longrightarrow>
       p_instance q = p_instance r \<Longrightarrow> p_date q = p_date r \<Longrightarrow>
       I (d\<lparr>d_positions := t_put (d_positions d) pid q\<rparr>)"
    and position_insert:
      "I d \<Longrightarrow> p_state row = ENTRY_PENDING \<Longrightarrow> I (d\<lparr>d_positions := t_add (d_positions d) row\<rparr>)"
    and transition: "I d \<Longrightarrow> I (fst (sm_transition pid st ac reason d))"
    and intent_update:
      "I d \<Longrightarrow> t_get (d_intents d) iid = Some ir \<Longrightarrow> intent_le ir iq \<Longrightarrow>
       I (d\<lparr>d_intents := t_put (d_intents d) iid iq\<rparr>)"
    and intent_insert: "I d \<Longrightarrow> I (d\<lparr>d_intents := t_add (d_intents d) irow\<rparr>)"
begin

lemma k_upd_trade: "keeps I (upd_trade i f')"
  by (rule keeps_upd_trade) (rule trades_free)

lemma k_upd_order: "keeps I (upd_order i f')"
  by (rule keeps_upd_order) (rule orders_free)

lemma k_upd_instance: "(\<And>r. instance_le r (f' r)) \<Longrightarrow> keeps I (upd_instance i f')"
  by (auto simp: keeps_def upd_instance_def modify_def instance_le_def split: option.split
      intro!: instance_update)

lemma k_upd_flag: "keeps I (upd_flag i f')"
  by (rule keeps_upd_flag) (rule flags_free)

lemma k_upd_daily: "keeps I (upd_daily i f')"
  by (rule keeps_upd_daily) (rule daily_free)

lemma k_upd_break: "keeps I (upd_break i f')"
  by (rule keeps_upd_break) (rule breaks_free)

lemma k_upd_position:
  "(\<And>r. p_state (f' r) = p_state r \<and> p_instance (f' r) = p_instance r \<and> p_date (f' r) = p_date r) \<Longrightarrow>
   keeps I (upd_position i f')"
  by (rule keeps_upd_position) (rule position_update, assumption+, simp_all)

lemma k_upd_intent: "(\<And>r. intent_le r (f' r)) \<Longrightarrow> keeps I (upd_intent i f')"
  by (rule keeps_upd_intent) (rule intent_update, assumption+, simp add: intent_le_def)

lemma k_marks:
  "keeps I (mark_broker_call_started i t)" "keeps I (mark_placed i)" "keeps I (mark_confirmed i)"
  "keeps I (mark_failed i)" "keeps I (mark_cancelled i)"
  by (simp_all add: mark_broker_call_started_def mark_placed_def mark_confirmed_def mark_failed_def
      mark_cancelled_def k_upd_intent intent_le_def)

lemma k_orders:
  "keeps I (mark_acknowledged i oid t)" "keeps I (record_fill i st n p t)"
  "keeps I (record_rejection i m)" "keeps I (record_cancellation i)"
  "keeps I (order_create ti io pu si ot n tg)"
  by (simp_all add: mark_acknowledged_def record_fill_def record_rejection_def
      record_cancellation_def k_upd_order) (simp add: keeps_def order_create_def orders_free)

lemma k_flush_order: "keeps I (flush_order i r r')"
  by (auto simp: keeps_def flush_order_def orders_free split: option.split)

lemma k_reconcile_order_body: "keeps I (reconcile_order_body oid bo t)"
  unfolding reconcile_order_body_def by (intro keeps_intro k_flush_order)

lemma k_positions:
  "keeps I (sm_transition pid st ac reason)" "keeps I (mark_error pid ac m)"
  by (simp_all add: keeps_def transition mark_error_def)

lemma k_position_get_or_create:
  "p_state row = ENTRY_PENDING \<Longrightarrow> keeps I (position_get_or_create row)"
  unfolding position_get_or_create_def by (rule keeps_get_or_create) (rule position_insert)

lemma k_intent_get_or_create: "keeps I (intent_get_or_create ti pu si n k tg)"
  unfolding intent_get_or_create_def by (rule keeps_get_or_create) (rule intent_insert)

lemma k_rows:
  "keeps I (add_trade row)" "keeps I (set_status i IS_FROZEN)" "keeps I (break_create bt t p oo ii)"
  "keeps I (break_resolve b res by1 t notes)"
  by (simp_all add: set_status_def break_resolve_def k_upd_instance k_upd_break instance_le_def)
    (simp_all add: keeps_def add_trade_def break_create_def trades_free breaks_free)

lemma k_daily:
  "keeps I (portfolio_get_or_create ac td limit)" "keeps I (instrument_get_or_create ac ins td limit)"
  "keeps I (update_pnl i x y)" "keeps I (mark_breached i t)"
  by (auto simp: portfolio_get_or_create_def instrument_get_or_create_def update_pnl_def
      mark_breached_def k_upd_daily intro!: keeps_get_or_create daily_free)

lemma k_flags: "keeps I (flag_clear i who t)" "keeps I (flag_activate ft sc rs by1 t ac ins)"
  by (simp_all add: flag_clear_def k_upd_flag)
    (simp add: keeps_def flag_activate_def Let_def flags_free)

lemma k_history: "keeps I (history_add_if_absent row)"
  unfolding history_add_if_absent_def by (rule keeps_get_or_create) (rule history_free)

lemma k_identities:
  "keeps I (instance_get_or_create st ins ac ex)" "keeps I (account_get_or_create br cid name)"
  unfolding instance_get_or_create_def account_get_or_create_def
  by (rule keeps_get_or_create; simp add: instance_insert accounts_free)+

lemmas tx_keeps =
  k_upd_trade k_upd_order k_upd_instance k_upd_flag k_upd_daily k_upd_break k_marks k_orders
  k_flush_order k_reconcile_order_body k_positions k_intent_get_or_create k_rows k_daily k_flags
  k_history k_identities

end

section \<open>Interpretations\<close>

interpretation audit_inv: tx_invariant audit_ok
proof
  fix d pid r and q :: position_row
  assume "audit_ok d" "t_get (d_positions d) pid = Some r" "p_state q = p_state r"
  then show "audit_ok (d\<lparr>d_positions := t_put (d_positions d) pid q\<rparr>)" by (rule audit_put)
next
  fix d and row :: position_row
  assume "audit_ok d" "p_state row = ENTRY_PENDING"
  then show "audit_ok (d\<lparr>d_positions := t_add (d_positions d) row\<rparr>)" by (rule audit_add)
next
  fix d pid st ac reason assume "audit_ok d"
  then show "audit_ok (fst (sm_transition pid st ac reason d))"
    using keeps_audit_sm_transition [of pid st ac reason] by (simp add: keeps_def)
next
  fix d iid iq assume "audit_ok d"
  then show "audit_ok (d\<lparr>d_intents := t_put (d_intents d) iid iq\<rparr>)" by simp
qed simp_all

lemma intents_grow_same_table:
  "intents_grow d0 d \<Longrightarrow> d_intents d' = d_intents d \<Longrightarrow> intents_grow d0 d'"
  by (simp add: intents_grow_def)

lemma intents_of_sm_transition [simp]: "d_intents (fst (sm_transition pid st ac reason d)) = d_intents d"
  by (cases "t_get (d_positions d) pid")
    (simp_all add: sm_transition_missing sm_transition_run transition_state_run)

lemma intents_of_push [simp]: "d_intents (push_update bo tm d) = d_intents d"
  using push_orders_only [of bo tm d] by auto

lemma intents_of_apply_env [simp]: "d_intents (apply_env e tm d) = d_intents d"
proof (cases e)
  case (EvPosition row)
  then show ?thesis
    by (auto simp: position_get_or_create_def get_or_create_def split: option.split)
qed simp_all

interpretation grow_inv: tx_invariant "intents_grow d0" for d0
proof
  fix d iid ir iq assume g: "intents_grow d0 d" "t_get (d_intents d) iid = Some ir" "intent_le ir iq"
  then show "intents_grow d0 (d\<lparr>d_intents := t_put (d_intents d) iid iq\<rparr>)"
    unfolding intents_grow_def by (auto simp: t_get_put) (metis intent_le_trans option.inject)+
next
  fix d irow assume "intents_grow d0 d"
  then show "intents_grow d0 (d\<lparr>d_intents := t_add (d_intents d) irow\<rparr>)"
    unfolding intents_grow_def by (auto simp: t_get_add) (metis option.distinct(1) t_get_fresh)+
qed (auto intro: intents_grow_same_table)

text \<open>
  Two more facts that no program and no other actor can undo: the position of an instance and day
  exists, and a closed position is closed.
\<close>

definition position_exists :: "nat \<Rightarrow> date \<Rightarrow> db \<Rightarrow> bool" where
  "position_exists inst trade_date d \<longleftrightarrow>
     list_ex (\<lambda>(i, r). p_instance r = inst \<and> p_date r = trade_date) (d_positions d)"

definition closed :: "nat \<Rightarrow> db \<Rightarrow> bool" where
  "closed pid d \<longleftrightarrow> (case t_get (d_positions d) pid of None \<Rightarrow> False | Some r \<Rightarrow> p_state r = CLOSED)"

lemma position_exists_iff:
  "position_exists inst trade_date d \<longleftrightarrow> get_by_instance_and_date inst trade_date d \<noteq> None"
  by (auto simp: position_exists_def get_by_instance_and_date_def t_find_None list_ex_iff)

lemma t_put_ex:
  "t_get t i = Some r \<Longrightarrow> (P r \<Longrightarrow> P q) \<Longrightarrow> list_ex (\<lambda>(i, r). P r) t \<Longrightarrow> list_ex (\<lambda>(i, r). P r) (t_put t i q)"
  by (induction t i q rule: t_put.induct) (auto split: if_splits)

lemma position_exists_put:
  "position_exists inst td d \<Longrightarrow> t_get (d_positions d) pid = Some r \<Longrightarrow>
   p_instance q = p_instance r \<Longrightarrow> p_date q = p_date r \<Longrightarrow>
   position_exists inst td (d\<lparr>d_positions := t_put (d_positions d) pid q\<rparr>)"
  unfolding position_exists_def by simp (erule t_put_ex, simp_all)

lemma position_exists_transition:
  "position_exists inst td d \<Longrightarrow> position_exists inst td (fst (sm_transition pid st ac m d))"
proof (cases "t_get (d_positions d) pid")
  case (Some r)
  assume "position_exists inst td d"
  from position_exists_put [OF this Some, of "r\<lparr>p_state := st, p_version := p_version r + 1\<rparr>"]
  show ?thesis using Some \<open>position_exists inst td d\<close>
    by (simp add: sm_transition_run transition_state_run) (simp add: position_exists_def)
qed (simp add: sm_transition_missing)

lemma position_exists_env:
  "position_exists inst td d \<Longrightarrow> position_exists inst td (apply_env e tm d)"
proof (cases e)
  case (EvPush bo)
  assume "position_exists inst td d"
  then show ?thesis using EvPush push_orders_only [of bo tm d] by (auto simp: position_exists_def)
next
  case (EvPosition row)
  assume "position_exists inst td d"
  then show ?thesis using EvPosition
    by (auto simp: position_exists_def position_get_or_create_def get_or_create_def t_add_def
        split: option.split)
qed (simp_all add: position_exists_transition, simp add: position_exists_def)

interpretation exists_inv: tx_invariant "position_exists inst td" for inst td
  by unfold_locales
    (simp_all add: position_exists_env position_exists_transition position_exists_put,
      simp_all add: position_exists_def t_add_def)

lemma closed_put:
  "closed pid d \<Longrightarrow> t_get (d_positions d) i = Some r \<Longrightarrow> p_state q = p_state r \<Longrightarrow>
   closed pid (d\<lparr>d_positions := t_put (d_positions d) i q\<rparr>)"
  by (auto simp: closed_def t_get_put split: option.splits)

lemma closed_transition: "closed pid d \<Longrightarrow> closed pid (fst (sm_transition i st ac m d))"
proof (cases "t_get (d_positions d) i")
  case (Some r)
  assume c: "closed pid d"
  show ?thesis
  proof (cases "i = pid")
    case True
    then have "p_state r = CLOSED" using c Some by (simp add: closed_def)
    then show ?thesis using Some c
      by (auto simp: sm_transition_run dest: allowed_for_actor_allowed)
  next
    case False
    then show ?thesis using Some c by (simp add: sm_transition_run transition_state_run closed_def)
  qed
qed (simp add: sm_transition_missing)

lemma closed_add: "closed pid d \<Longrightarrow> closed pid (d\<lparr>d_positions := t_add (d_positions d) row\<rparr>)"
  by (auto simp: closed_def t_get_add_old split: option.splits)

lemma closed_env: "closed pid d \<Longrightarrow> closed pid (apply_env e tm d)"
proof (cases e)
  case (EvPush bo)
  assume "closed pid d"
  then show ?thesis using EvPush push_orders_only [of bo tm d] by (auto simp: closed_def)
next
  case (EvPosition row)
  assume "closed pid d"
  then show ?thesis using EvPosition closed_add
    by (auto simp: position_get_or_create_def get_or_create_def split: option.split)
qed (simp_all add: closed_transition, simp add: closed_def)

interpretation closed_inv: tx_invariant "closed pid" for pid
  by unfold_locales
    (simp_all add: closed_env closed_transition closed_put closed_add, simp_all add: closed_def)

text \<open>A position row stays, and stays with its instance and day.\<close>

definition position_is :: "nat \<Rightarrow> nat \<Rightarrow> date \<Rightarrow> db \<Rightarrow> bool" where
  "position_is pid inst td d \<longleftrightarrow>
     (case t_get (d_positions d) pid of None \<Rightarrow> False | Some r \<Rightarrow> p_instance r = inst \<and> p_date r = td)"

lemma position_is_put:
  "position_is pid inst td d \<Longrightarrow> t_get (d_positions d) i = Some r \<Longrightarrow> p_instance q = p_instance r \<Longrightarrow>
   p_date q = p_date r \<Longrightarrow> position_is pid inst td (d\<lparr>d_positions := t_put (d_positions d) i q\<rparr>)"
  by (auto simp: position_is_def t_get_put split: option.splits)

lemma position_is_transition:
  "position_is pid inst td d \<Longrightarrow> position_is pid inst td (fst (sm_transition i st ac m d))"
proof (cases "t_get (d_positions d) i")
  case (Some r)
  assume "position_is pid inst td d"
  from position_is_put [OF this Some, of "r\<lparr>p_state := st, p_version := p_version r + 1\<rparr>"]
  show ?thesis using Some \<open>position_is pid inst td d\<close>
    by (simp add: sm_transition_run transition_state_run) (simp add: position_is_def)
qed (simp add: sm_transition_missing)

lemma position_is_add:
  "position_is pid inst td d \<Longrightarrow> position_is pid inst td (d\<lparr>d_positions := t_add (d_positions d) row\<rparr>)"
  by (auto simp: position_is_def t_get_add_old split: option.splits)

lemma position_is_env: "position_is pid inst td d \<Longrightarrow> position_is pid inst td (apply_env e tm d)"
proof (cases e)
  case (EvPush bo)
  assume "position_is pid inst td d"
  then show ?thesis using EvPush push_orders_only [of bo tm d] by (auto simp: position_is_def)
next
  case (EvPosition row)
  assume "position_is pid inst td d"
  then show ?thesis using EvPosition position_is_add
    by (auto simp: position_get_or_create_def get_or_create_def split: option.split)
qed (simp_all add: position_is_transition, simp add: position_is_def)

interpretation row_inv: tx_invariant "position_is pid inst td" for pid inst td
  by unfold_locales
    (simp_all add: position_is_env position_is_transition position_is_put position_is_add,
      simp_all add: position_is_def)

section \<open>The interface of a broker's book\<close>

locale broker_book =
  fixes B :: "'b broker" and book :: "'b \<Rightarrow> (string \<times> string) list"
  assumes place_book:
      "bk_place B req t b = (b', n, ps, r) \<Longrightarrow>
       \<exists>oid. set (book b') \<subseteq> insert (oid, pr_tag req) (set (book b))"
    and get_book: "bk_get B oid t b = (b', n, ps, r2) \<Longrightarrow> book b' = book b"
    and tag_book: "bk_find_tag B tg t b = (b', n, ps, r3) \<Longrightarrow> book b' = book b"
    and orders_book: "bk_orders B t b = (b', n, ps, r4) \<Longrightarrow> book b' = book b"
    and positions_book: "bk_positions B t b = (b', n, ps, r5) \<Longrightarrow> book b' = book b"
    and margins_book: "bk_margins B t b = (b', n, ps, r6) \<Longrightarrow> book b' = book b"
    and health_book: "bk_health B t b = (b', n, ps, r7) \<Longrightarrow> book b' = book b"
    and ltp_book: "bk_ltp B ids t b = (b', n, ps, r8) \<Longrightarrow> book b' = book b"
    and contract_book: "bk_contract B u x st ot ex t b = (b', n, ps, r9) \<Longrightarrow> book b' = book b"
begin

text \<open>Every order the broker holds is announced by an intent that was marked started first.\<close>

definition intent_first :: "'b world \<Rightarrow> bool" where
  "intent_first w \<longleftrightarrow> (\<forall>(oid, tag) \<in> set (book (w_bk w)). tag_started tag (w_db w))"

lemma intent_first_mono:
  "intent_first w \<Longrightarrow> book (w_bk w') = book (w_bk w) \<Longrightarrow> intents_grow (w_db w) (w_db w') \<Longrightarrow>
   intent_first w'"
  by (auto simp: intent_first_def intro: tag_started_grows)

definition quiet_call :: "('b, 'a) broker_call \<Rightarrow> bool" where
  "quiet_call f \<longleftrightarrow> (\<forall>t b. book (fst (f t b)) = book b)"

lemma quiet_calls:
  "quiet_call (bk_get B oid)" "quiet_call (bk_find_tag B tg)" "quiet_call (bk_orders B)"
  "quiet_call (bk_positions B)" "quiet_call (bk_margins B)" "quiet_call (bk_health B)"
  "quiet_call (bk_ltp B ids)" "quiet_call (bk_contract B u x st ot ex)"
  unfolding quiet_call_def
  using get_book tag_book orders_book positions_book margins_book health_book ltp_book contract_book
  by (metis prod.collapse)+

lemma fold_push_intents [simp]: "d_intents (fold (\<lambda>bo d. push_update bo tm d) bos d) = d_intents d"
  by (induction bos arbitrary: d) simp_all

lemma keeps_quiet_call: "quiet_call f \<Longrightarrow> keeps intent_first (bcall f)"
  unfolding keeps_def
proof (intro allI impI)
  fix w assume "quiet_call f" and I: "intent_first w"
  then show "intent_first (fst (bcall f w))"
    by (intro intent_first_mono [OF I])
      (auto simp: bcall_def Let_def quiet_call_def intents_grow_def split: prod.split, metis fst_conv)
qed

lemma place_keeps:
  assumes "intent_first w" "tag_started (pr_tag req) (w_db w)"
  shows "intent_first (fst (bcall (bk_place B req) w))"
proof -
  obtain b' n ps r where p: "bk_place B req (w_now w) (w_bk w) = (b', n, ps, r)"
    by (metis prod.collapse)
  have d: "d_intents (w_db (fst (bcall (bk_place B req) w))) = d_intents (w_db w)"
    and b: "w_bk (fst (bcall (bk_place B req) w)) = b'"
    by (simp_all add: bcall_def p Let_def)
  have ts: "tag_started tag (w_db (fst (bcall (bk_place B req) w))) = tag_started tag (w_db w)" for tag
    by (simp add: tag_started_def d)
  obtain oid where "set (book b') \<subseteq> insert (oid, pr_tag req) (set (book (w_bk w)))"
    using place_book [OF p] by blast
  then show ?thesis using assms unfolding intent_first_def by (fastforce simp: b ts)
qed

lemma keeps_first_unit_of_work:
  fixes body :: "'a tx"
  assumes "\<And>d0. keeps (intents_grow d0) body"
  shows "keeps intent_first (unit_of_work body)"
  unfolding keeps_def
proof (intro allI impI)
  fix w :: "'b world" assume I: "intent_first w"
  have "keeps (on_db (intents_grow (w_db w))) (unit_of_work body :: ('b, 'a) prog)"
    by (rule grow_inv.keeps_unit_of_work) (rule assms)
  then have "intents_grow (w_db w) (w_db (fst (unit_of_work body w)))"
    by (simp add: keeps_def on_db_def)
  moreover have "w_bk (fst (unit_of_work body w)) = w_bk w"
    by (auto simp: unit_of_work_def commit_def Let_def split: list.split prod.split sum.split)
  ultimately show "intent_first (fst (unit_of_work body w))"
    by (intro intent_first_mono [OF I]) simp_all
qed

lemma keeps_first_time:
  "keeps intent_first now" "keeps intent_first today" "keeps intent_first (sleep n)"
  by (simp_all add: now_def today_def sleep_def keeps_def asks_def modify_def intent_first_def)

end

end
