(* ===== verification/Entry_Proofs.thy ===== *)
theory Entry_Proofs
  imports Entry Invariants
begin

text \<open>
  Properties of the entry: its transactions and programs keep every invariant of the persistence
  layer, every order it places is announced by a durable intent first, and the outcomes it
  reports are true of the database.
\<close>

section \<open>Entry keeps the invariants of the persistence layer\<close>

definition ctx_keeps :: "('b world \<Rightarrow> bool) \<Rightarrow> 'b ctx \<Rightarrow> bool" where
  "ctx_keeps W cx \<longleftrightarrow>
     keeps W (cx_halted cx) \<and> (\<forall>n. keeps W (cx_approve cx n)) \<and>
     (\<forall>i d. keeps W (cx_expiry cx i d)) \<and> (\<forall>i. keeps W (cx_spot cx i)) \<and>
     (\<forall>p. keeps W (cx_history cx p))"

lemma keeps_leg_outcome [keeps_intro]:
  "keeps I a \<Longrightarrow> keeps I b \<Longrightarrow> keeps I c \<Longrightarrow>
   keeps I (case x of LegFilled \<Rightarrow> a | LegFailed \<Rightarrow> b | LegAmbiguous \<Rightarrow> c)"
  by (cases x) simp_all

lemma keeps_try_sum: "keeps I m \<Longrightarrow> keeps I (try_sum m)"
  by (auto simp: keeps_def try_sum_def split: prod.split)

lemma keeps_placement:
  assumes "\<And>m. keeps I (a m)" "\<And>m. keeps I (b m)" "\<And>m. keeps I (c m)" "\<And>m. keeps I (d m)"
    and "\<And>m. keeps I (f m)" "\<And>oid. keeps I (g oid)"
  shows "keeps I (case x of
      Inr oid \<Rightarrow> g oid
    | Inl (OrderRejectedError m) \<Rightarrow> a m
    | Inl (InvalidOrderRequestError m) \<Rightarrow> b m
    | Inl (BrokerConnectionError m) \<Rightarrow> c m
    | Inl (BrokerRateLimitExceededError m) \<Rightarrow> d m
    | Inl (BrokerTimeoutError m) \<Rightarrow> f m
    | Inl e \<Rightarrow> throw e)"
  using assms by (auto split: sum.split exn.split intro: keeps_throw)

context tx_invariant
begin

lemma e_durable_body: "keeps I (durable_body cx td sel t)"
  unfolding durable_body_def create_leg_def
  by (intro keeps_intro tx_keeps k_position_get_or_create) (simp add: entry_position_row_def)

lemma e_fail_body: "keeps I (fail_body inst pid m)"
  unfolding fail_body_def by (intro keeps_intro tx_keeps k_upd_position) simp

lemma e_acknowledge_body: "keeps I (acknowledge_body inst leg q oid t td)"
  unfolding acknowledge_body_def by (intro keeps_intro tx_keeps)

lemma e_settle_leg_body: "keeps I (settle_leg_body oid iid)"
  unfolding settle_leg_body_def by (intro keeps_intro tx_keeps)

lemma e_start_intent_body: "keeps I (start_intent_body iid t)"
  unfolding start_intent_body_def by (intro keeps_intro tx_keeps)

lemma e_finalize_body: "keeps I (finalize_body du c p th t)"
  unfolding finalize_body_def open_trade_body_def confirm_intent_body_def
  by (intro keeps_intro tx_keeps k_upd_position) simp

lemma e_unwind_start_body: "keeps I (unwind_start_body cx leg q td t)"
  unfolding unwind_start_body_def by (intro keeps_intro tx_keeps)

lemma e_unwind_settle_body: "keeps I (unwind_settle_body leg iid bo t)"
  unfolding unwind_settle_body_def by (intro keeps_intro tx_keeps)

lemmas entry_bodies =
  e_durable_body e_fail_body e_acknowledge_body e_settle_leg_body e_start_intent_body
  e_finalize_body e_unwind_start_body e_unwind_settle_body

lemma e_poll: "keeps (on_db I) (poll_until_terminal cx oid n)"
  by (induction n) (auto intro!: keeps_intro keeps_world)

lemma e_reconcile: "keeps (on_db I) (reconcile_order_terminal oid bo)"
  unfolding reconcile_order_terminal_def
  by (intro keeps_intro keeps_world keeps_unit_of_work tx_keeps)

lemma e_mark_intent_failed: "keeps (on_db I) (mark_intent_failed iid)"
  unfolding mark_intent_failed_def by (intro keeps_unit_of_work keeps_intro tx_keeps)

lemma e_record_leg_rejection: "keeps (on_db I) (record_leg_rejection cx leg m)"
  unfolding record_leg_rejection_def
  by (intro keeps_bnd keeps_world keeps_unit_of_work keeps_sq keeps_lift_sum keeps_get_row_or_raise
      tx_keeps)

lemma e_record_break: "keeps (on_db I) (record_break pid iid bt)"
  unfolding record_break_def
  by (intro keeps_bnd keeps_world keeps_catch_if keeps_unit_of_work keeps_ret tx_keeps)

lemma e_fail_to_error: "keeps (on_db I) (fail_to_error cx pid oc m)"
  unfolding fail_to_error_def by (intro keeps_sq keeps_ret keeps_unit_of_work entry_bodies)

lemma e_confirm: "keeps (on_db I) (confirm_and_record cx leg q oid)"
  unfolding confirm_and_record_def
  by (intro keeps_bnd keeps_sq keeps_option keeps_ret keeps_world keeps_unit_of_work entry_bodies
      e_poll e_reconcile)

lemma e_place_leg: "keeps (on_db I) (place_leg cx leg q)"
  unfolding place_leg_def
  by (intro keeps_bnd keeps_sq keeps_ret keeps_lift_sum keeps_world keeps_unit_of_work entry_bodies
      keeps_placement keeps_try_sum e_confirm e_record_leg_rejection e_mark_intent_failed)

lemma e_finalize_open: "keeps (on_db I) (finalize_open cx du c p)"
  unfolding finalize_open_def
  by (intro keeps_prod keeps_option keeps_throw keeps_bnd keeps_sq keeps_if keeps_ret keeps_lift_sum
      keeps_catch_if keeps_world keeps_unit_of_work entry_bodies e_record_break)

lemma e_auto_unwind: "keeps (on_db I) (auto_unwind cx leg q)"
  unfolding auto_unwind_def
  by (intro keeps_prod keeps_option keeps_bnd keeps_ret keeps_lift_sum
      keeps_catch_if keeps_world keeps_unit_of_work entry_bodies e_poll)

lemma e_place_and_finalize: "keeps (on_db I) (place_and_finalize cx du)"
  unfolding place_and_finalize_def
  by (intro keeps_bnd keeps_leg_outcome keeps_sq keeps_if e_place_leg e_fail_to_error
      e_record_break e_finalize_open e_auto_unwind)

lemma e_select:
  "ctx_keeps (on_db I) cx \<Longrightarrow> keeps (on_db I) (select_straddle cx ins spot td)"
  unfolding select_straddle_def resolve_contract_def Let_def
  by (intro keeps_bnd keeps_lift_sum keeps_ret keeps_catch_if keeps_if keeps_throw keeps_world)
    (simp add: ctx_keeps_def)

lemma e_enter: "ctx_keeps (on_db I) cx \<Longrightarrow> keeps (on_db I) (enter cx)"
  unfolding enter_def find_existing_position_def should_skip_expiry_day_def check_risk_def
    resolve_straddle_def create_durable_record_def
  by (intro keeps_bnd keeps_if keeps_option keeps_ret keeps_asks keeps_world keeps_unit_of_work
      entry_bodies e_select e_place_and_finalize) (simp_all add: ctx_keeps_def)

end

section \<open>Every order is announced by a durable intent\<close>

context broker_book
begin

lemma f_uow: "(\<And>d0. keeps (intents_grow d0) body) \<Longrightarrow> keeps intent_first (unit_of_work body)"
  by (rule keeps_first_unit_of_work)

lemmas f_bodies = grow_inv.entry_bodies

lemma f_poll:
  assumes "cx_broker cx = B" shows "keeps intent_first (poll_until_terminal cx oid n)"
proof (induction n)
  case (Suc n)
  then show ?case
    unfolding poll_until_terminal.simps assms
    by (intro keeps_bnd keeps_sq keeps_catch_if keeps_if keeps_ret keeps_first_time keeps_quiet_call
        quiet_calls)
qed (simp add: keeps_ret)

lemma f_small:
  "keeps intent_first (reconcile_order_terminal oid bo)"
  "keeps intent_first (mark_intent_failed iid)"
  "keeps intent_first (record_leg_rejection cx leg m)"
  "keeps intent_first (record_break pid ii bt)"
  "keeps intent_first (fail_to_error cx pid oc m)"
  unfolding reconcile_order_terminal_def mark_intent_failed_def record_leg_rejection_def
    record_break_def fail_to_error_def
  by (intro keeps_bnd keeps_sq keeps_catch_if keeps_ret keeps_first_time f_uow f_bodies
      grow_inv.tx_keeps keeps_get_row_or_raise keeps_lift_sum)+

lemma f_confirm: "cx_broker cx = B \<Longrightarrow> keeps intent_first (confirm_and_record cx leg q oid)"
  unfolding confirm_and_record_def
  by (intro keeps_bnd keeps_sq keeps_option keeps_ret keeps_first_time f_uow f_bodies f_poll f_small)

lemma commit_Inr:
  "commit body w = (w', Inr x) \<Longrightarrow> \<exists>d. body (w_db w) = (d, Inr x) \<and> w' = w\<lparr>w_db := d\<rparr> \<and> db_constraints d"
  by (auto simp: commit_def split: prod.splits sum.splits if_splits)

lemma unit_of_work_Inr:
  "unit_of_work body w = (w', Inr x) \<Longrightarrow>
     \<exists>d0. body d0 = (w_db w', Inr x) \<and> db_constraints (w_db w') \<and> w_bk w' = w_bk w \<and>
          w_now w' = w_now w"
  by (auto simp: unit_of_work_def Let_def split: list.splits if_splits dest!: commit_Inr)

lemma start_intent_started:
  "start_intent_body iid t d = (d', Inr tag) \<Longrightarrow> tag_started tag d'"
  by (auto simp: start_intent_body_def get_row_or_raise_def get_row_def act_defs
      mark_broker_call_started_def upd_intent_def tag_started_def t_get_put
      split: option.splits intro!: exI [of _ iid])

text \<open>A request whose tag was just marked started may be sent.\<close>

lemma f_send:
  assumes "\<And>r. keeps intent_first (k r)" "tag_started (pr_tag req) (w_db w)" "intent_first w"
  shows "intent_first (fst (bnd (try_sum (bcall (bk_place B req))) k w))"
proof -
  obtain w' r where b: "bcall (bk_place B req) w = (w', r)" by (metis prod.collapse)
  then have "intent_first w'" using place_keeps [OF assms(3,2)] by simp
  then show ?thesis using assms(1) by (simp add: bnd_def try_sum_def b keeps_def)
qed

lemma f_start_then:
  fixes k :: "'x \<Rightarrow> ('b, 'a) prog"
  assumes started: "\<And>d d' x. body d = (d', Inr x) \<Longrightarrow> tag_started (f x) d'"
    and grow: "\<And>d0. keeps (intents_grow d0) body"
    and k: "\<And>x w. tag_started (f x) (w_db w) \<Longrightarrow> intent_first w \<Longrightarrow> intent_first (fst (k x w))"
  shows "keeps intent_first (bnd (unit_of_work body) k)"
  unfolding keeps_def
proof (intro allI impI)
  fix w :: "'b world" assume I: "intent_first w"
  obtain w' r where u: "unit_of_work body w = (w', r)" by (metis prod.collapse)
  have w': "intent_first w'"
    using keepsD [OF f_uow [OF grow] I u] .
  show "intent_first (fst (bnd (unit_of_work body) k w))"
  proof (cases r)
    case (Inl e)
    then show ?thesis using u w' by (simp add: bnd_def)
  next
    case (Inr x)
    then have "tag_started (f x) (w_db w')" using unit_of_work_Inr [of body w w' x] u started by blast
    then show ?thesis using u w' Inr k by (simp add: bnd_def)
  qed
qed

lemma f_request:
  assumes "\<And>req. pr_tag req = tag \<Longrightarrow> intent_first (fst (k req w))" "intent_first w"
  shows "intent_first (fst (bnd (lift_sum (mk_place_request (market_request cx leg side q tag))) k w))"
proof (cases "mk_place_request (market_request cx leg side q tag)")
  case (Inl e)
  then show ?thesis using assms(2) by (simp add: bnd_def lift_sum_def)
next
  case (Inr req)
  then have "pr_tag req = tag" by (simp add: mk_place_request_ok) (simp add: market_request_def)
  then show ?thesis using assms(1) Inr by (simp add: bnd_def lift_sum_def)
qed

lemma f_place_leg:
  assumes B: "cx_broker cx = B" shows "keeps intent_first (place_leg cx leg q)"
  unfolding place_leg_def B
  by (intro keeps_bnd [OF keeps_first_time(1)]
      f_start_then [where f = "\<lambda>x. x", OF start_intent_started f_bodies(5)]
      f_request f_send keeps_placement keeps_sq keeps_ret f_small f_confirm [OF B]) simp_all

lemma unwind_started:
  "unwind_start_body cx leg q td t d = (d', Inr x) \<Longrightarrow> tag_started (fst x) d'"
  by (auto simp: unwind_start_body_def get_row_or_raise_def get_row_def ret_def throw_def asks_def
      mark_broker_call_started_def upd_intent_def modify_def tag_started_def t_get_put
      split: option.splits if_splits elim!: bnd_Inr_elim sq_Inr_elim) blast

lemma f_finalize_open: "keeps intent_first (finalize_open cx du c p)"
  unfolding finalize_open_def
  by (intro keeps_prod keeps_option keeps_throw keeps_bnd keeps_sq keeps_if keeps_ret keeps_lift_sum
      keeps_catch_if keeps_first_time f_uow f_bodies f_small)

lemma f_place_then:
  assumes "\<And>r. keeps intent_first (k r)" "tag_started (pr_tag req) (w_db w)" "intent_first w"
  shows "intent_first (fst (bnd (bcall (bk_place B req)) k w))"
proof -
  obtain w' r where b: "bcall (bk_place B req) w = (w', r)" by (metis prod.collapse)
  then have "intent_first w'" using place_keeps [OF assms(3,2)] by simp
  then show ?thesis using assms(1) by (cases r) (simp_all add: bnd_def b keeps_def)
qed

lemma f_auto_unwind:
  assumes B: "cx_broker cx = B" shows "keeps intent_first (auto_unwind cx leg q)"
proof -
  have start: "keeps intent_first
     (bnd (unit_of_work (unwind_start_body cx leg q td t)) (\<lambda>(tag, iid).
      bnd (lift_sum (mk_place_request (market_request cx leg BUY q tag))) (\<lambda>request.
      bnd (bcall (bk_place B request)) (\<lambda>oid.
      bnd (poll_until_terminal cx oid (rs_attempts (sc_retry (cx_config cx)))) (\<lambda>bo.
      ret (Some (iid, bo)))))))" for td t
  proof (rule f_start_then [where f = fst, OF unwind_started f_bodies(7)])
    fix x and w :: "'b world" assume "tag_started (fst x) (w_db w)" "intent_first w"
    then show "intent_first (fst ((\<lambda>(tag, iid).
      bnd (lift_sum (mk_place_request (market_request cx leg BUY q tag))) (\<lambda>request.
      bnd (bcall (bk_place B request)) (\<lambda>oid.
      bnd (poll_until_terminal cx oid (rs_attempts (sc_retry (cx_config cx)))) (\<lambda>bo.
      ret (Some (iid, bo)))))) x w))"
      by (cases x) (auto intro!: f_request f_place_then keeps_bnd keeps_ret f_poll [OF B])
  qed
  show ?thesis
    unfolding auto_unwind_def B
    by (intro keeps_bnd keeps_prod keeps_option keeps_ret keeps_catch_if keeps_first_time start
        f_uow f_bodies)
qed

lemma f_place_and_finalize:
  assumes B: "cx_broker cx = B" shows "keeps intent_first (place_and_finalize cx du)"
  unfolding place_and_finalize_def
  by (intro keeps_bnd keeps_leg_outcome keeps_sq keeps_if f_place_leg [OF B] f_small
      f_finalize_open f_auto_unwind [OF B])

lemma f_select:
  assumes "cx_broker cx = B" "ctx_keeps intent_first cx"
  shows "keeps intent_first (select_straddle cx ins spot td)"
  using assms(2) unfolding select_straddle_def resolve_contract_def Let_def assms(1)
  by (intro keeps_bnd keeps_lift_sum keeps_ret keeps_catch_if keeps_if keeps_throw keeps_quiet_call
      quiet_calls) (simp add: ctx_keeps_def)

lemma f_enter:
  assumes "cx_broker cx = B" "ctx_keeps intent_first cx"
  shows "keeps intent_first (enter cx)"
  using assms(2)
  unfolding enter_def find_existing_position_def should_skip_expiry_day_def check_risk_def
    resolve_straddle_def create_durable_record_def
  by (intro keeps_bnd keeps_if keeps_option keeps_ret keeps_asks keeps_first_time f_uow
      f_bodies f_select [OF assms] f_place_and_finalize [OF assms(1)]) (simp_all add: ctx_keeps_def)

end

section \<open>What a reported outcome says\<close>

lemma uow_Inr:
  "unit_of_work body w = (w', Inr x) \<Longrightarrow>
     \<exists>d0. body d0 = (w_db w', Inr x) \<and> db_constraints (w_db w') \<and> w_bk w' = w_bk w \<and>
          w_now w' = w_now w"
  by (auto simp: unit_of_work_def commit_def Let_def split: list.splits if_splits prod.splits sum.splits)

lemma unit_of_work_bk: "w_bk (fst (unit_of_work body w)) = w_bk w"
  by (auto simp: unit_of_work_def commit_def Let_def split: list.split prod.split sum.split)

lemma now_run: "now w = (w, Inr (w_now w))" and today_run: "today w = (w, Inr (ist_date (w_now w)))"
  by (simp_all add: now_def today_def asks_def)

lemma settle_filled:
  "settle_leg_body oid iid d = (d', Inr r) \<Longrightarrow> lr_outcome r = LegFilled \<Longrightarrow>
     \<exists>p. lr_price r = Some p \<and> 0 < p"
  by (auto simp: settle_leg_body_def ret_def throw_def elim!: bnd_Inr_elim sq_Inr_elim
      split: if_splits option.splits)

lemma confirm_filled:
  "confirm_and_record cx leg q oid w = (w', Inr r) \<Longrightarrow> lr_outcome r = LegFilled \<Longrightarrow>
     \<exists>p. lr_price r = Some p \<and> 0 < p"
  by (auto simp: confirm_and_record_def ret_def elim!: bnd_Inr_elim sq_Inr_elim
      split: option.splits dest!: uow_Inr settle_filled)

lemma place_leg_filled:
  "place_leg cx leg q w = (w', Inr r) \<Longrightarrow> lr_outcome r = LegFilled \<Longrightarrow>
     \<exists>p. lr_price r = Some p \<and> 0 < p"
  by (auto simp: place_leg_def ret_def throw_def elim!: bnd_Inr_elim sq_Inr_elim
      split: sum.splits exn.splits dest!: confirm_filled)

lemma create_leg_run:
  "create_leg cx td sel pid q opt c d = (d', Inr l) \<Longrightarrow>
     lg_trade l = t_next (d_trades d) \<and> lg_contract l = c \<and> lg_symbol l = bi_symbol c \<and>
     t_get (d_trades d') (lg_trade l) \<noteq> None"
  by (auto simp: create_leg_def add_trade_def lift_sum_def intent_get_or_create_def
      get_or_create_def ret_def elim!: bnd_Inr_elim split: option.splits if_splits)

lemma durable_body_run:
  "durable_body cx td sel t d = (d', Inr (Some du)) \<Longrightarrow>
     lg_trade (du_ce du) \<noteq> lg_trade (du_pe du) \<and> lg_contract (du_ce du) = ss_call sel \<and>
     lg_contract (du_pe du) = ss_put sel \<and>
     du_quantity du = sc_lots (cx_config cx) * bi_lot_size (ss_call sel)"
  by (auto simp: durable_body_def Let_def ret_def elim!: bnd_Inr_elim split: if_splits prod.splits
      dest!: create_leg_run)

definition entry_written ::
    "durable_record \<Rightarrow> decimal \<Rightarrow> decimal \<Rightarrow> thresholds \<Rightarrow> dt \<Rightarrow> db \<Rightarrow> bool" where
  "entry_written du c p th t d \<longleftrightarrow>
     (\<exists>r. t_get (d_positions d) (du_position du) = Some r \<and> p_state r = OPEN \<and>
        p_entry_premium r = Some (num4 (c + p)) \<and> p_target r = Some (num4 (th_target th)) \<and>
        p_stoploss r = Some (num4 (th_stoploss th)) \<and> p_entry_done r = Some t) \<and>
     (\<exists>r. t_get (d_trades d) (lg_trade (du_ce du)) = Some r \<and> t_status r = TL_OPEN \<and>
        t_entry_price r = Some (num4 c) \<and> t_entry_time r = Some t) \<and>
     (\<exists>r. t_get (d_trades d) (lg_trade (du_pe du)) = Some r \<and> t_status r = TL_OPEN \<and>
        t_entry_price r = Some (num4 p) \<and> t_entry_time r = Some t) \<and>
     (\<exists>r. t_get (d_intents d) (lg_intent (du_ce du)) = Some r \<and> i_status r = CONFIRMED) \<and>
     (\<exists>r. t_get (d_intents d) (lg_intent (du_pe du)) = Some r \<and> i_status r = CONFIRMED)"

lemma open_trade_run:
  "open_trade_body tid price t d = (d', Inr x) \<Longrightarrow>
     \<exists>r. t_get (d_trades d) tid = Some r \<and>
       d' = d\<lparr>d_trades := t_put (d_trades d) tid
          (r\<lparr>t_entry_price := Some (num4 price), t_entry_time := Some t, t_status := TL_OPEN,
             t_version := t_version r + 1\<rparr>)\<rparr>"
  by (auto simp: open_trade_body_def get_row_def asks_def bnd_def throw_def upd_trade_run
      split: option.splits)

lemma confirm_intent_run:
  "confirm_intent_body iid d = (d', Inr x) \<Longrightarrow>
     \<exists>r. t_get (d_intents d) iid = Some r \<and>
       d' = d\<lparr>d_intents := t_put (d_intents d) iid (r\<lparr>i_status := CONFIRMED, i_version := i_version r + 1\<rparr>)\<rparr>"
  by (auto simp: confirm_intent_body_def get_row_or_raise_def get_row_def asks_def bnd_def throw_def
      ret_def mark_confirmed_def upd_intent_run split: option.splits)

lemma sm_transition_Inr:
  "sm_transition pid st ac m d = (d', Inr b) \<Longrightarrow>
     \<exists>r. t_get (d_positions d) pid = Some r \<and>
       (if p_state r = st then d' = d
        else is_transition_allowed_for_actor (p_state r) st ac \<and>
             d' = fst (transition_state pid st ac m d))"
  by (cases "t_get (d_positions d) pid")
    (auto simp: sm_transition_missing sm_transition_run split: if_splits)

lemma sm_transition_state:
  "sm_transition pid st ac m d = (d', Inr b) \<Longrightarrow> t_get (d_positions d) pid = Some r \<Longrightarrow>
     d_trades d' = d_trades d \<and> d_intents d' = d_intents d \<and> d_instances d' = d_instances d \<and>
     (\<exists>v. t_get (d_positions d') pid = Some (r\<lparr>p_state := st, p_version := v\<rparr>))"
proof -
  assume run: "sm_transition pid st ac m d = (d', Inr b)" and r: "t_get (d_positions d) pid = Some r"
  show ?thesis
  proof (cases "p_state r = st")
    case True
    then have same: "r = r\<lparr>p_state := st, p_version := p_version r\<rparr>" by (cases r) simp
    have eq: "d' = d" using sm_transition_Inr [OF run] r True by simp
    have "t_get (d_positions d) pid = Some (r\<lparr>p_state := st, p_version := p_version r\<rparr>)"
      unfolding r option.inject by (rule same)
    then show ?thesis unfolding eq by (intro conjI refl exI)
  next
    case False
    then show ?thesis using sm_transition_Inr [OF run] r by (auto simp: transition_state_run)
  qed
qed

lemma finalize_body_written:
  assumes "finalize_body du c p th t d0 = (d, Inr x)" "lg_trade (du_ce du) \<noteq> lg_trade (du_pe du)"
  shows "entry_written du c p th t d"
proof -
  obtain r0 where r0: "t_get (d_positions d0) (du_position du) = Some r0"
    using assms(1) by (auto simp: finalize_body_def get_row_def asks_def bnd_def throw_def
        split: option.splits)
  from assms(1) r0 obtain d1 d2 d3 d4 d5 b where
      s1: "open_trade_body (lg_trade (du_ce du)) c t d0 = (d1, Inr ())"
    and s2: "open_trade_body (lg_trade (du_pe du)) p t d1 = (d2, Inr ())"
    and s3: "upd_position (du_position du) (\<lambda>r. r\<lparr>p_entry_premium := Some (num4 (c + p)),
                p_target := Some (num4 (th_target th)), p_stoploss := Some (num4 (th_stoploss th)),
                p_entry_done := Some t\<rparr>) d2 = (d3, Inr ())"
    and s4: "sm_transition (du_position du) OPEN STRATEGY (Some ''entry filled'') d3 = (d4, Inr b)"
    and s5: "confirm_intent_body (lg_intent (du_ce du)) d4 = (d5, Inr ())"
    and s6: "confirm_intent_body (lg_intent (du_pe du)) d5 = (d, Inr ())"
    by (auto simp: finalize_body_def get_row_def asks_def elim!: bnd_Inr_elim sq_Inr_elim)
  note t1 = open_trade_run [OF s1] and t2 = open_trade_run [OF s2]
  have p2: "t_get (d_positions d2) (du_position du) = Some r0" using t1 t2 r0 by auto
  have p3: "t_get (d_positions d3) (du_position du) =
      Some (r0\<lparr>p_entry_premium := Some (num4 (c + p)), p_target := Some (num4 (th_target th)),
        p_stoploss := Some (num4 (th_stoploss th)), p_entry_done := Some t,
        p_version := p_version r0 + 1\<rparr>)"
    using s3 p2 by (auto simp: upd_position_run [OF p2])
  have d3: "d_trades d3 = d_trades d2" using s3 by (auto simp: upd_position_run [OF p2])
  note p4 = sm_transition_state [OF s4 p3]
  note i5 = confirm_intent_run [OF s5] and i6 = confirm_intent_run [OF s6]
  have tr: "d_trades d = d_trades d2" and po: "d_positions d = d_positions d4"
    using d3 p4 i5 i6 by auto
  show ?thesis
    unfolding entry_written_def tr po
    using t1 t2 p4 i5 i6 assms(2) by (auto simp: t_get_put)
qed

lemma finalize_open_entered:
  assumes "finalize_open cx du cr pr w = (w', Inr r)" "en_outcome r = ENTERED"
    and "lg_trade (du_ce du) \<noteq> lg_trade (du_pe du)" "lr_price cr = Some c" "lr_price pr = Some p"
  shows "\<exists>th. compute_thresholds (c + p) (sc_target_pct (cx_config cx)) (sc_sl_pct (cx_config cx)) = Inr th \<and>
     entry_written du c p th (w_now w') (w_db w') \<and> en_position r = Some (du_position du)"
proof -
  from assms(1,4,5) obtain th w1 b where
      th: "compute_thresholds (c + p) (sc_target_pct (cx_config cx)) (sc_sl_pct (cx_config cx)) = Inr th"
    and run: "catch_if is_exception
         (bnd (unit_of_work (finalize_body du c p th (w_now w))) (\<lambda>_. ret True)) (\<lambda>_. ret False) w = (w1, Inr b)"
    and rest: "(if b
          then ret \<lparr>en_outcome = ENTERED, en_message = ''entered at combined premium'',
                    en_position = Some (du_position du)\<rparr>
          else sq (record_break (du_position du) None ORPHAN_FILL)
                 (ret \<lparr>en_outcome = PERSISTENCE_DIVERGENCE,
                       en_message = ''both legs filled but OPEN persistence failed; reconciliation break recorded'',
                       en_position = Some (du_position du)\<rparr>)) w1 = (w', Inr r)"
    by (auto simp: finalize_open_def lift_sum_def now_run elim!: bnd_Inr_elim)
  have b: "b" using rest assms(2) by (auto simp: ret_def elim!: sq_Inr_elim split: if_splits)
  then have w1: "w1 = w'" "en_position r = Some (du_position du)" using rest by (auto simp: ret_def)
  from run b w1 have "unit_of_work (finalize_body du c p th (w_now w)) w = (w', Inr ())"
    by (auto simp: catch_if_def bnd_def ret_def split: prod.splits sum.splits if_splits)
  from uow_Inr [OF this] show ?thesis
    using th w1 finalize_body_written [OF _ assms(3)] by auto
qed

lemma place_and_finalize_entered:
  assumes "place_and_finalize cx du w = (w', Inr r)" "en_outcome r = ENTERED"
    and "lg_trade (du_ce du) \<noteq> lg_trade (du_pe du)"
  shows "\<exists>c p th. 0 < c \<and> 0 < p \<and>
     compute_thresholds (c + p) (sc_target_pct (cx_config cx)) (sc_sl_pct (cx_config cx)) = Inr th \<and>
     entry_written du c p th (w_now w') (w_db w') \<and> en_position r = Some (du_position du)"
proof -
  have fail: "fail_to_error cx pid oc m v = (v', Inr r) \<Longrightarrow> en_outcome r = oc" for pid oc m v v'
    by (auto simp: fail_to_error_def ret_def elim!: sq_Inr_elim)
  from assms(1) obtain w1 cr where ce: "place_leg cx (du_ce du) (du_quantity du) w = (w1, Inr cr)"
    and rest: "(case lr_outcome cr of
       LegFailed \<Rightarrow>
         fail_to_error cx (du_position du) ENTRY_REJECTED
           (''CE leg failed before any exposure: '' @ lr_reason cr)
     | LegAmbiguous \<Rightarrow>
         sq (record_break (du_position du) (Some (lg_intent (du_ce du))) AMBIGUOUS_ACK)
           (fail_to_error cx (du_position du) AMBIGUOUS_ERROR
             (''CE leg outcome ambiguous: '' @ lr_reason cr))
     | LegFilled \<Rightarrow>
         bnd (place_leg cx (du_pe du) (du_quantity du)) (\<lambda>pe_result.
         if lr_outcome pe_result = LegFilled then finalize_open cx du cr pe_result
         else
           bnd (auto_unwind cx (du_ce du) (du_quantity du)) (\<lambda>unwound.
           sq (record_break (du_position du) (Some (lg_intent (du_pe du)))
                (if lr_outcome pe_result = LegAmbiguous then AMBIGUOUS_ACK else PARTIAL_ENTRY))
             (fail_to_error cx (du_position du) PARTIAL_ENTRY_ERROR
               (''partial entry (PE '' @ leg_outcome_value (lr_outcome pe_result) @ ''); '' @
                (if unwound then ''CE unwound'' else ''CE UNWIND FAILED -- NAKED EXPOSURE'')))))) w1 = (w', Inr r)"
    unfolding place_and_finalize_def by (auto elim!: bnd_Inr_elim)
  have cf: "lr_outcome cr = LegFilled"
    using rest assms(2) by (auto split: leg_outcome.splits elim!: sq_Inr_elim dest!: fail)
  with rest obtain w2 pr where pe: "place_leg cx (du_pe du) (du_quantity du) w1 = (w2, Inr pr)"
    and rest2: "(if lr_outcome pr = LegFilled then finalize_open cx du cr pr
         else
           bnd (auto_unwind cx (du_ce du) (du_quantity du)) (\<lambda>unwound.
           sq (record_break (du_position du) (Some (lg_intent (du_pe du)))
                (if lr_outcome pr = LegAmbiguous then AMBIGUOUS_ACK else PARTIAL_ENTRY))
             (fail_to_error cx (du_position du) PARTIAL_ENTRY_ERROR
               (''partial entry (PE '' @ leg_outcome_value (lr_outcome pr) @ ''); '' @
                (if unwound then ''CE unwound'' else ''CE UNWIND FAILED -- NAKED EXPOSURE''))))) w2 = (w', Inr r)"
    by (auto elim!: bnd_Inr_elim)
  have pf: "lr_outcome pr = LegFilled"
    using rest2 assms(2) by (auto split: if_splits elim!: bnd_Inr_elim sq_Inr_elim dest!: fail)
  obtain c p where "lr_price cr = Some c" "0 < c" "lr_price pr = Some p" "0 < p"
    using place_leg_filled [OF ce cf] place_leg_filled [OF pe pf] by blast
  moreover have "finalize_open cx du cr pr w2 = (w', Inr r)" using rest2 pf by simp
  ultimately show ?thesis
    using finalize_open_entered [OF _ assms(2,3)] by blast
qed

lemma create_durable_run:
  "create_durable_record cx td sel w = (w', Inr (Some du)) \<Longrightarrow> lg_trade (du_ce du) \<noteq> lg_trade (du_pe du)"
  by (auto simp: create_durable_record_def now_run elim!: bnd_Inr_elim dest!: uow_Inr durable_body_run)

lemma enter_reaches_placement:
  assumes "enter cx w = (w', Inr r)"
    and "en_outcome r \<notin> {SKIPPED_ALREADY_EXISTS, SKIPPED_EXPIRY_DAY, BLOCKED_BY_RISK}"
  shows "\<exists>v du. place_and_finalize cx du v = (w', Inr r) \<and> lg_trade (du_ce du) \<noteq> lg_trade (du_pe du)"
  using assms
  by (auto simp: enter_def skip_result_def ret_def elim!: bnd_Inr_elim split: if_splits option.splits
      dest!: create_durable_run) blast

lemma entered_run:
  assumes "enter cx w = (w', Inr r)" "en_outcome r = ENTERED"
  shows "\<exists>pid row c p ti tj rc rp ii ij ic ip.
     en_position r = Some pid \<and> t_get (d_positions (w_db w')) pid = Some row \<and> p_state row = OPEN \<and>
     0 < c \<and> 0 < p \<and> p_entry_premium row = Some (num4 (c + p)) \<and>
     p_target row = Some (num4 ((c + p) * (1 - sc_target_pct (cx_config cx)))) \<and>
     p_stoploss row = Some (num4 ((c + p) * (1 + sc_sl_pct (cx_config cx)))) \<and>
     p_entry_done row = Some (w_now w') \<and> ti \<noteq> tj \<and>
     t_get (d_trades (w_db w')) ti = Some rc \<and> t_status rc = TL_OPEN \<and>
     t_entry_price rc = Some (num4 c) \<and>
     t_get (d_trades (w_db w')) tj = Some rp \<and> t_status rp = TL_OPEN \<and>
     t_entry_price rp = Some (num4 p) \<and>
     t_get (d_intents (w_db w')) ii = Some ic \<and> i_status ic = CONFIRMED \<and>
     t_get (d_intents (w_db w')) ij = Some ip \<and> i_status ip = CONFIRMED"
proof -
  obtain v du where pf: "place_and_finalize cx du v = (w', Inr r)"
    and ne: "lg_trade (du_ce du) \<noteq> lg_trade (du_pe du)"
    using enter_reaches_placement [OF assms(1)] assms(2) by auto
  from place_and_finalize_entered [OF pf assms(2) ne] obtain c p th where
      "0 < c" "0 < p"
    and th: "compute_thresholds (c + p) (sc_target_pct (cx_config cx)) (sc_sl_pct (cx_config cx)) = Inr th"
    and ew: "entry_written du c p th (w_now w') (w_db w')" "en_position r = Some (du_position du)"
    by blast
  moreover have "th_target th = (c + p) * (1 - sc_target_pct (cx_config cx))"
    "th_stoploss th = (c + p) * (1 + sc_sl_pct (cx_config cx))"
    using th by (simp_all add: compute_thresholds_Inr)
  ultimately show ?thesis
    using ne unfolding entry_written_def by metis
qed


section \<open>One entry per day, no order when blocked\<close>

lemma find_existing_Inr:
  assumes "find_existing_position cx td w = (w', Inr x)"
    and "position_exists (id_instance (cx_id cx)) td (w_db w)"
  shows "x \<noteq> None"
proof -
  have body: "keeps (position_exists (id_instance (cx_id cx)) td)
      (asks (\<lambda>d. map_option (\<lambda>x. p_state (snd x)) (get_by_instance_and_date (id_instance (cx_id cx)) td d)))"
    by (rule keeps_asks)
  have "on_db (position_exists (id_instance (cx_id cx)) td) w'"
    using exists_inv.keeps_unit_of_work [OF body] assms
    by (auto simp: find_existing_position_def on_db_def keeps_def)
  moreover obtain d0 where "asks (\<lambda>d. map_option (\<lambda>x. p_state (snd x))
      (get_by_instance_and_date (id_instance (cx_id cx)) td d)) d0 = (w_db w', Inr x)"
    using uow_Inr [OF assms(1) [unfolded find_existing_position_def]] by blast
  ultimately show ?thesis by (auto simp: asks_def on_db_def position_exists_iff)
qed

lemma bnd_cases:
  "(\<And>s' e. m s = (s', Inl e) \<Longrightarrow> P (s', Inl e)) \<Longrightarrow> (\<And>s' x. m s = (s', Inr x) \<Longrightarrow> P (f x s')) \<Longrightarrow>
   P (bnd m f s)"
  by (auto simp: bnd_def split: prod.splits sum.splits)

text \<open>
  C2: when today's position of the instance already exists, \<open>enter\<close> makes no broker call at all
  and can only report SKIPPED_ALREADY_EXISTS or raise, under every schedule of the other actors:
  an instance enters at most once a day.
\<close>

theorem no_second_entry:
  assumes "position_exists (id_instance (cx_id cx)) (ist_date (w_now w)) (w_db w)"
  shows "w_bk (fst (enter cx w)) = w_bk w \<and>
    (\<forall>r. snd (enter cx w) = Inr r \<longrightarrow> en_outcome r = SKIPPED_ALREADY_EXISTS)"
proof -
  let ?td = "ist_date (w_now w)"
  obtain w' x where f: "find_existing_position cx ?td w = (w', x)" by (metis prod.collapse)
  have bk: "w_bk w' = w_bk w"
    using f unit_of_work_bk unfolding find_existing_position_def by (metis fst_conv)
  show ?thesis
  proof (cases x)
    case (Inl e)
    then show ?thesis using bk by (simp add: enter_def bnd_def today_run f)
  next
    case (Inr y)
    then have "y \<noteq> None" using find_existing_Inr [OF _ assms] f by blast
    then show ?thesis
      using bk f Inr by (simp add: enter_def bnd_def today_run ret_def skip_result_def)
  qed
qed

definition failed_outcome :: "entry_outcome \<Rightarrow> bool" where
  "failed_outcome o1 \<longleftrightarrow> o1 \<in> {ENTRY_REJECTED, PARTIAL_ENTRY_ERROR, AMBIGUOUS_ERROR}"

lemma fail_body_run:
  assumes "fail_body inst pid m d0 = (d, Inr x)"
  shows "(case t_get (d_positions d) pid of None \<Rightarrow> True | Some p \<Rightarrow> p_state p \<in> {CLOSED, PS_ERROR}) \<and>
    (case t_get (d_instances d) inst of None \<Rightarrow> True | Some i \<Rightarrow> si_status i = IS_FROZEN)"
proof -
  from assms obtain d1 y where
    s1: "(case t_get (d_positions d0) pid of
           None \<Rightarrow> ret ()
         | Some p \<Rightarrow>
             if p_state p \<notin> {CLOSED, PS_ERROR} then
               sq (upd_position pid (\<lambda>r. r\<lparr>p_exit_reason := Some ER_ERROR, p_error := Some m\<rparr>))
                 (bnd (mark_error pid STRATEGY m) (\<lambda>_. ret ()))
             else ret ()) d0 = (d1, Inr y)"
    and s2: "(case t_get (d_instances d1) inst of
          None \<Rightarrow> ret ()
        | Some i \<Rightarrow> if si_status i \<noteq> IS_FROZEN then set_status inst IS_FROZEN else ret ()) d1 = (d, Inr x)"
    by (auto simp: fail_body_def get_row_def asks_def elim!: bnd_Inr_elim sq_Inr_elim)
  have pos: "d_positions d = d_positions d1"
    using s2 by (auto simp: ret_def set_status_def upd_instance_def modify_def split: option.splits if_splits)
  have inst: "case t_get (d_instances d) inst of None \<Rightarrow> True | Some i \<Rightarrow> si_status i = IS_FROZEN"
    using s2 by (auto simp: ret_def set_status_def upd_instance_def modify_def split: option.splits if_splits)
  have "case t_get (d_positions d1) pid of None \<Rightarrow> True | Some p \<Rightarrow> p_state p \<in> {CLOSED, PS_ERROR}"
  proof (cases "t_get (d_positions d0) pid")
    case None
    then show ?thesis using s1 by (simp add: ret_def)
  next
    case (Some p)
    show ?thesis
    proof (cases "p_state p \<in> {CLOSED, PS_ERROR}")
      case True
      then show ?thesis using s1 Some by (auto simp: ret_def)
    next
      case False
      from s1 Some False obtain d2 b where
        u: "upd_position pid (\<lambda>r. r\<lparr>p_exit_reason := Some ER_ERROR, p_error := Some m\<rparr>) d0 = (d2, Inr ())"
        and e: "sm_transition pid PS_ERROR STRATEGY (Some m) d2 = (d1, Inr b)"
        by (auto simp: mark_error_def ret_def elim!: bnd_Inr_elim sq_Inr_elim)
      have "t_get (d_positions d2) pid =
          Some (p\<lparr>p_exit_reason := Some ER_ERROR, p_error := Some m, p_version := p_version p + 1\<rparr>)"
        using u Some by (auto simp: upd_position_run [OF Some])
      from sm_transition_state [OF e this] show ?thesis by auto
    qed
  qed
  then show ?thesis using pos inst by simp
qed

lemma fail_to_error_run:
  "fail_to_error cx pid oc m w = (w', Inr r) \<Longrightarrow>
     en_outcome r = oc \<and> en_position r = Some pid \<and>
     (\<exists>d0. fail_body (id_instance (cx_id cx)) pid m d0 = (w_db w', Inr ()))"
  by (auto simp: fail_to_error_def ret_def elim!: sq_Inr_elim dest!: uow_Inr)

lemma finalize_open_outcome:
  "finalize_open cx du cr pr w = (w', Inr r) \<Longrightarrow> en_outcome r \<in> {ENTERED, PERSISTENCE_DIVERGENCE}"
  by (auto simp: finalize_open_def ret_def throw_def elim!: bnd_Inr_elim sq_Inr_elim
      split: option.splits if_splits)

lemma place_and_finalize_failed:
  assumes "place_and_finalize cx du w = (w', Inr r)" "failed_outcome (en_outcome r)"
  shows "\<exists>pid d0 m. en_position r = Some pid \<and> fail_body (id_instance (cx_id cx)) pid m d0 = (w_db w', Inr ())"
  using assms
  by (auto simp: place_and_finalize_def failed_outcome_def elim!: bnd_Inr_elim sq_Inr_elim
      split: leg_outcome.splits if_splits dest!: finalize_open_outcome fail_to_error_run) blast+

lemma position_created:
  "position_get_or_create row d0 = (d1, Inr (pid, True)) \<Longrightarrow>
   position_is pid (p_instance row) (p_date row) d1"
  by (auto simp: position_get_or_create_def get_or_create_def position_is_def
      split: option.splits if_splits)

lemma durable_body_row:
  assumes "durable_body cx td sel t d0 = (d, Inr (Some du))"
  shows "position_is (du_position du) (id_instance (cx_id cx)) td d"
proof -
  let ?I = "position_is (du_position du) (id_instance (cx_id cx)) td"
  have leg: "keeps ?I (create_leg cx td sel pid q opt c)" for pid q opt c
    unfolding create_leg_def by (intro keeps_intro row_inv.tx_keeps)
  from assms obtain d1 d2 d3 ce pe where
    g: "position_get_or_create (entry_position_row cx td sel t) d0 = (d1, Inr (du_position du, True))"
    and l: "create_leg cx td sel (du_position du) (sc_lots (cx_config cx) * bi_lot_size (ss_call sel)) CE
              (ss_call sel) d1 = (d2, Inr ce)"
      "create_leg cx td sel (du_position du) (sc_lots (cx_config cx) * bi_lot_size (ss_call sel)) PE
              (ss_put sel) d2 = (d3, Inr pe)" "d = d3"
    by (auto simp: durable_body_def Let_def ret_def elim!: bnd_Inr_elim split: if_splits prod.splits)
  have "?I d1"
    using position_created [OF g] by (simp add: entry_position_row_def)
  then show ?thesis using keepsD [OF leg] l by metis
qed

lemma place_and_finalize_position:
  "place_and_finalize cx du w = (w', Inr r) \<Longrightarrow> en_position r = Some (du_position du)"
  by (auto simp: place_and_finalize_def fail_to_error_def finalize_open_def ret_def throw_def
      elim!: bnd_Inr_elim sq_Inr_elim split: leg_outcome.splits if_splits option.splits)

lemma enter_names_row:
  assumes "enter cx w = (w', Inr r)" "failed_outcome (en_outcome r)"
  shows "\<exists>pid row d0 m. en_position r = Some pid \<and> t_get (d_positions (w_db w')) pid = Some row \<and>
    p_instance row = id_instance (cx_id cx) \<and> fail_body (id_instance (cx_id cx)) pid m d0 = (w_db w', Inr ())"
proof -
  have "en_outcome r \<notin> {SKIPPED_ALREADY_EXISTS, SKIPPED_EXPIRY_DAY, BLOCKED_BY_RISK}"
    using assms(2) by (auto simp: failed_outcome_def)
  then obtain u v td sel du where c: "create_durable_record cx td sel u = (v, Inr (Some du))"
    and pf: "place_and_finalize cx du v = (w', Inr r)"
    using assms(1)
    by (auto simp: enter_def skip_result_def ret_def elim!: bnd_Inr_elim split: if_splits option.splits)
  obtain t d0 where "durable_body cx td sel t d0 = (w_db v, Inr (Some du))"
    using c by (auto simp: create_durable_record_def elim!: bnd_Inr_elim dest!: uow_Inr)
  then have "position_is (du_position du) (id_instance (cx_id cx)) td (w_db v)"
    by (rule durable_body_row)
  then have "on_db (position_is (du_position du) (id_instance (cx_id cx)) td) w'"
    using keepsD [OF row_inv.e_place_and_finalize _ pf] by (simp add: on_db_def)
  moreover obtain pid e0 m where pid: "en_position r = Some pid"
      "fail_body (id_instance (cx_id cx)) pid m e0 = (w_db w', Inr ())"
    using place_and_finalize_failed [OF pf assms(2)] by blast
  moreover have "pid = du_position du" using place_and_finalize_position [OF pf] pid by simp
  ultimately show ?thesis by (auto simp: on_db_def position_is_def split: option.splits)
qed


text \<open>
  A halted instance sends no order: when the risk gateway reports a halt (or refuses the
  entry), and the pre-gates leave the broker alone, \<open>enter\<close> leaves the broker's state untouched
  and never creates a position.
\<close>

theorem blocked_entry_sends_nothing:
  fixes cx :: "'b ctx" and w :: "'b world"
  assumes "\<And>v. w_bk (fst (cx_halted cx v)) = w_bk v \<and> w_db (fst (cx_halted cx v)) = w_db v"
    and "\<And>v n. w_bk (fst (cx_approve cx n v)) = w_bk v \<and> w_db (fst (cx_approve cx n v)) = w_db v"
    and "\<And>i d v. w_bk (fst (cx_expiry cx i d v)) = w_bk v \<and> w_db (fst (cx_expiry cx i d v)) = w_db v"
    and "\<And>v. snd (cx_halted cx v) = Inr True \<or>
           (\<forall>n u x. snd (cx_approve cx n u) = Inr x \<longrightarrow> \<not> rd_approved x)"
    and "w_env w = []"
  shows "w_bk (fst (enter cx w)) = w_bk w \<and> w_db (fst (enter cx w)) = w_db w \<and>
    (\<forall>r. snd (enter cx w) = Inr r \<longrightarrow>
       en_outcome r \<in> {SKIPPED_ALREADY_EXISTS, SKIPPED_EXPIRY_DAY, BLOCKED_BY_RISK})"
proof -
  define same where "same = (\<lambda>v :: 'b world. w_bk v = w_bk w \<and> w_db v = w_db w)"
  have keep: "keeps same (cx_halted cx)" "keeps same (cx_approve cx n)" "keeps same (cx_expiry cx i d)" for n i d
    using assms(1-3) by (simp_all add: keeps_def same_def)
  have skip: "hoare same (should_skip_expiry_day cx td) (\<lambda>_. same) (\<lambda>_. same)" for td
    by (rule hoare_of_keeps)
      (unfold should_skip_expiry_day_def, intro keeps_if keeps_ret keeps_bnd keep)
  have risk: "hoare same (check_risk cx) (\<lambda>x v. same v \<and> x \<noteq> None) (\<lambda>_. same)"
  proof (rule hoareI)
    have k: "keeps same (check_risk cx)"
      unfolding check_risk_def by (intro keeps_bnd keeps_if keeps_ret keep)
    fix v v' assume v: "same v"
    show "same v' \<and> x \<noteq> None" if run: "check_risk cx v = (v', Inr x)" for x
    proof
      show "same v'" by (rule keepsD [OF k v run])
      show "x \<noteq> None"
      proof
        assume "x = None"
        then obtain u t y where h: "cx_halted cx v = (u, Inr False)"
          and a: "cx_approve cx (sc_lots (cx_config cx)) u = (t, Inr y)" "rd_approved y"
          using run by (auto simp: check_risk_def ret_def elim!: bnd_Inr_elim split: if_splits)
        have "snd (cx_halted cx v) \<noteq> Inr True" by (simp add: h)
        moreover have "snd (cx_approve cx (sc_lots (cx_config cx)) u) = Inr y" by (simp add: a)
        ultimately show False using assms(4) [of v] a(2) by blast
      qed
    qed
    show "same v'" if "check_risk cx v = (v', Inl e)" for e
      by (rule keepsD [OF k v that])
  qed
  have first: "hoare (\<lambda>v. v = w) today (\<lambda>_ v. v = w) (\<lambda>_. same)"
    by (simp add: hoare_def today_run)
  have find: "hoare (\<lambda>v. v = w) (find_existing_position cx td) (\<lambda>_. same) (\<lambda>_. same)" for td
    using assms(5) by (auto simp: hoare_def same_def find_existing_position_def unit_of_work_def
        commit_def asks_def)
  let ?Q = "\<lambda>r v. same v \<and> en_outcome r \<in> {SKIPPED_ALREADY_EXISTS, SKIPPED_EXPIRY_DAY, BLOCKED_BY_RISK}"
  have "hoare (\<lambda>v. v = w) (enter cx) ?Q (\<lambda>_. same)"
    unfolding enter_def
    by (intro hoare_bnd [OF first] hoare_bnd [OF find] hoare_bnd [OF skip] hoare_bnd [OF risk]
        hoare_if hoare_option hoare_ret') (simp_all add: skip_result_def hoare_def)
  from hoare_run [OF this refl] show ?thesis by (auto simp: same_def split: prod.splits sum.splits)
qed

end
