(* ===== verification/Sim_Broker.thy ===== *)
theory Sim_Broker
  imports Invariants "HOL-Library.AList"
begin

text \<open>
  The simulation broker of \<open>brokers/simulation/\<close>: orders roll their outcome once when they are
  placed, a matching pass advances every due order by one step, and fills move a net position
  ledger. Operations are actions on the broker's state; \<open>sim_call\<close> turns one into a broker call
  of theory \<open>World\<close> (the clock and the updates dispatched during the call are two fields of the
  state). The random generator, \<open>uuid4\<close> and the injected price source are parameters: the n-th
  draw, the n-th identifier and a function on the price source's own state. The background
  matching thread is represented by the passes every read makes itself.
\<close>

section \<open>Orders, positions and the ledger\<close>

datatype fill_outcome = FULL_FILL | PARTIAL_THEN_FILL | FO_REJECTED

record sim_order =
  so_id :: string
  so_tag :: string
  so_exchange :: exchange
  so_symbol :: string
  so_side :: transaction_type
  so_product :: product_type
  so_quantity :: int
  so_type :: order_type
  so_price :: "decimal option"
  so_trigger :: "decimal option"
  so_status :: order_status
  so_filled :: int
  so_avg :: "decimal option"
  so_placed_at :: dt
  so_filled_at :: "dt option"
  so_updated_at :: dt
  so_message :: "string option"
  so_outcome :: fill_outcome
  so_resolve_at :: dt
  so_steps :: int
  so_step_qty :: int

record sim_position =
  sp_quantity :: int
  sp_avg :: decimal
  sp_realized :: decimal

definition empty_position :: sim_position where
  "empty_position = \<lparr>sp_quantity = 0, sp_avg = 0, sp_realized = 0\<rparr>"

definition signed_delta :: "transaction_type \<Rightarrow> int \<Rightarrow> int" where
  "signed_delta side qty = (if side = BUY then qty else - qty)"

definition update_position ::
    "sim_position \<Rightarrow> transaction_type \<Rightarrow> int \<Rightarrow> decimal \<Rightarrow> sim_position" where
  "update_position p side qty price =
     (let delta = signed_delta side qty; q = sp_quantity p
      in if q = 0 \<or> (0 < q) = (0 < delta) then
           (let total = q + delta
            in if total = 0 then
                 \<lparr>sp_quantity = 0, sp_avg = 0, sp_realized = sp_realized p\<rparr>
               else \<lparr>sp_quantity = total,
                      sp_avg = dec_div (sp_avg p * of_int \<bar>q\<bar> + price * of_int \<bar>delta\<bar>) (of_int \<bar>total\<bar>),
                      sp_realized = sp_realized p\<rparr>)
         else
           (let closing = min \<bar>q\<bar> \<bar>delta\<bar>;
                realized = (if 0 < q then of_int closing * (price - sp_avg p)
                            else of_int closing * (sp_avg p - price));
                new_quantity = q + delta;
                remaining = \<bar>delta\<bar> - closing
            in \<lparr>sp_quantity = new_quantity,
                 sp_avg = (if remaining = 0 then (if new_quantity \<noteq> 0 then sp_avg p else 0)
                           else price),
                 sp_realized = sp_realized p + realized\<rparr>))"

text \<open>
  The ledger books every rupee: the cash a fill moves is the change of realized plus open
  profit, at any mark price, exactly when the fill reduces or flips the position, and up to the
  rounding of the average (28 digits) when it adds to it.
\<close>

definition position_value :: "sim_position \<Rightarrow> decimal \<Rightarrow> decimal" where
  "position_value p mark = sp_realized p + of_int (sp_quantity p) * (mark - sp_avg p)"

lemma update_position_quantity:
  "sp_quantity (update_position p side qty price) = sp_quantity p + signed_delta side qty"
  by (simp add: update_position_def Let_def)

lemma position_value_closing:
  assumes "sp_quantity p \<noteq> 0" "(0 < sp_quantity p) \<noteq> (0 < signed_delta side qty)" "qty \<noteq> 0"
  shows "position_value (update_position p side qty price) mark =
           position_value p mark + of_int (signed_delta side qty) * (mark - price)"
proof -
  define d where "d = signed_delta side qty"
  define q where "q = sp_quantity p"
  have d0: "d \<noteq> 0" "q \<noteq> 0" "(0 < q) \<noteq> (0 < d)"
    using assms by (simp_all add: d_def signed_delta_def q_def split: if_splits)
  show ?thesis
    using d0 unfolding position_value_def update_position_def d_def [symmetric] q_def [symmetric] Let_def
    by (cases "0 < q"; cases "\<bar>d\<bar> \<le> \<bar>q\<bar>") (auto simp: min_def algebra_simps)
qed

lemma of_int_times_share:
  "n \<noteq> 0 \<Longrightarrow> of_int n * (c / of_int \<bar>n\<bar>) = sgn (of_int n) * c" for c :: rat
  by (cases "0 < n") (simp_all add: sgn_if)

lemma position_value_adding:
  assumes "sp_quantity p = 0 \<or> (0 < sp_quantity p) = (0 < signed_delta side qty)" "0 < qty"
  shows "\<bar>position_value (update_position p side qty price) mark
           - (position_value p mark + of_int (signed_delta side qty) * (mark - price))\<bar>
         \<le> \<bar>sp_avg p * of_int \<bar>sp_quantity p\<bar> + price * of_int qty\<bar> / (2 * 10 ^ 27)"
proof -
  define d where "d = signed_delta side qty"
  define q where "q = sp_quantity p"
  define cost where "cost = sp_avg p * of_int \<bar>q\<bar> + price * of_int qty"
  have ad: "\<bar>d\<bar> = qty" using assms(2) by (simp add: d_def signed_delta_def)
  have same: "q = 0 \<or> (0 < q) = (0 < d)" using assms(1) by (simp add: q_def d_def)
  have nz: "q + d \<noteq> 0" and d0: "d \<noteq> 0" using same ad assms(2) by (auto simp: abs_if split: if_splits)
  have sum: "\<bar>q + d\<bar> = \<bar>q\<bar> + \<bar>d\<bar>" using same d0 by (auto simp: abs_if)
  have v: "position_value (update_position p side qty price) mark =
      sp_realized p + of_int (q + d) * (mark - ctx28 (cost / of_int \<bar>q + d\<bar>))"
    using same nz
    by (simp add: position_value_def update_position_def Let_def dec_div_def cost_def
        d_def [symmetric] q_def [symmetric] ad)
  have pv: "position_value p mark = sp_realized p + of_int q * (mark - sp_avg p)"
    by (simp add: position_value_def q_def)
  have e: "of_int (q + d) * (cost / of_int \<bar>q + d\<bar>) = sgn (of_int (q + d)) * cost"
    by (rule of_int_times_share [OF nz])
  have sg: "sgn (of_int (q + d) :: rat) * cost = sp_avg p * of_int q + price * of_int d"
    using same d0 by (auto simp: cost_def ad [symmetric] sgn_if abs_if algebra_simps)
  have "position_value (update_position p side qty price) mark
        - (position_value p mark + of_int d * (mark - price))
      = of_int (q + d) * (cost / of_int \<bar>q + d\<bar> - ctx28 (cost / of_int \<bar>q + d\<bar>))"
    unfolding v pv right_diff_distrib e sg by (simp add: algebra_simps)
  also have "\<bar>\<dots>\<bar> = of_int \<bar>q + d\<bar> * \<bar>ctx28 (cost / of_int \<bar>q + d\<bar>) - cost / of_int \<bar>q + d\<bar>\<bar>"
    by (simp add: abs_mult abs_minus_commute)
  also have "\<dots> \<le> of_int \<bar>q + d\<bar> * (\<bar>cost / of_int \<bar>q + d\<bar>\<bar> / (2 * 10 ^ 27))"
    by (rule mult_left_mono [OF ctx28_error]) simp
  also have "\<dots> = \<bar>cost\<bar> / (2 * 10 ^ 27)" using nz by (simp add: abs_divide)
  finally show ?thesis by (simp add: d_def q_def cost_def)
qed

section \<open>Configuration and state\<close>

record sim_config =
  sc_synchronous :: bool
  sc_ack_latency :: nat
  sc_fill_latency :: nat
  sc_auth_should_fail :: bool
  sc_connection_failure :: decimal
  sc_ack_timeout :: decimal
  sc_rejection :: decimal
  sc_partial_fill :: decimal
  sc_min_steps :: int
  sc_max_steps :: int
  sc_ws_failure :: decimal
  sc_initial_cash :: decimal
  sc_margin_per_lot :: decimal

definition probability_ok :: "decimal \<Rightarrow> bool" where
  "probability_ok p \<longleftrightarrow> 0 \<le> p \<and> p \<le> 1"

definition sim_config_ok :: "sim_config \<Rightarrow> bool" where
  "sim_config_ok c \<longleftrightarrow>
     probability_ok (sc_connection_failure c) \<and> probability_ok (sc_ack_timeout c) \<and>
     probability_ok (sc_rejection c) \<and> probability_ok (sc_partial_fill c) \<and>
     2 \<le> sc_min_steps c \<and> 2 \<le> sc_max_steps c \<and> probability_ok (sc_ws_failure c) \<and>
     0 < sc_margin_per_lot c"

definition resolved_max_steps :: "sim_config \<Rightarrow> int" where
  "resolved_max_steps c = max (sc_min_steps c) (sc_max_steps c)"

type_synonym symbol_key = "exchange \<times> string"
type_synonym option_key = "string \<times> date \<times> decimal \<times> option_type \<times> exchange"
type_synonym ledger_key = "exchange \<times> string \<times> product_type"

record catalog =
  ca_symbols :: "(symbol_key \<times> broker_instrument) list"
  ca_options :: "(option_key \<times> broker_instrument) list"

definition catalog_add :: "broker_instrument \<Rightarrow> catalog \<Rightarrow> catalog" where
  "catalog_add i c =
     c\<lparr>ca_symbols := AList.update (bi_exchange i, bi_symbol i) i (ca_symbols c)\<rparr>"

definition catalog_add_option :: "string \<Rightarrow> broker_instrument \<Rightarrow> catalog \<Rightarrow> exn + catalog" where
  "catalog_add_option underlying i c =
     (case (bi_expiry i, bi_strike i, bi_option_type i) of
        (Some ex, Some st, Some ot) \<Rightarrow>
          (let c' = catalog_add i c
           in Inr (c'\<lparr>ca_options :=
                AList.update (underlying, ex, st, ot, bi_exchange i) i (ca_options c')\<rparr>))
      | _ \<Rightarrow> Inl ValueError)"

definition get_by_symbol :: "catalog \<Rightarrow> exchange \<Rightarrow> string \<Rightarrow> exn + broker_instrument" where
  "get_by_symbol c ex symbol =
     (case map_of (ca_symbols c) (ex, symbol) of
        None \<Rightarrow> Inl (InstrumentNotFoundError ''No instrument'') | Some i \<Rightarrow> Inr i)"

definition find_option ::
    "catalog \<Rightarrow> string \<Rightarrow> date \<Rightarrow> decimal \<Rightarrow> option_type \<Rightarrow> exchange \<Rightarrow> exn + broker_instrument" where
  "find_option c underlying expiry strike ot ex =
     (case map_of (ca_options c) (underlying, expiry, strike, ot, ex) of
        None \<Rightarrow> Inl (InstrumentNotFoundError ''No option'') | Some i \<Rightarrow> Inr i)"

text \<open>The two price sources: fixed prices, and a random walk that moves on every read.\<close>

type_synonym price_table = "(instrument_id \<times> decimal) list"

definition static_ltp :: "instrument_id \<Rightarrow> price_table \<Rightarrow> price_table \<times> (exn + decimal)" where
  "static_ltp i ps = (ps, case map_of ps i of None \<Rightarrow> Inl KeyError | Some p \<Rightarrow> Inr p)"

definition random_walk_ltp ::
    "(nat \<Rightarrow> decimal) \<Rightarrow> decimal \<Rightarrow> instrument_id \<Rightarrow> nat \<times> price_table \<Rightarrow>
     (nat \<times> price_table) \<times> (exn + decimal)" where
  "random_walk_ltp uniform volatility i s =
     (case s of (k, ps) \<Rightarrow>
        (case map_of ps i of
           None \<Rightarrow> (s, Inl KeyError)
         | Some current \<Rightarrow>
             (let updated = max (current + uniform k * current * volatility) (5/100)
              in ((Suc k, AList.update i updated ps), Inr updated))))"

record 'p sim_env =
  se_config :: sim_config
  se_catalog :: catalog
  se_random :: "nat \<Rightarrow> decimal"
  se_randint :: "nat \<Rightarrow> int \<Rightarrow> int \<Rightarrow> int"
  se_uuid :: "nat \<Rightarrow> string"
  se_price :: "instrument_id \<Rightarrow> 'p \<Rightarrow> 'p \<times> (exn + decimal)"

record 'p sim =
  sb_authenticated :: bool
  sb_ws :: bool
  sb_orders :: "(string \<times> sim_order) list"
  sb_by_tag :: "(string \<times> string) list"
  sb_positions :: "(ledger_key \<times> sim_position) list"
  sb_draws :: nat
  sb_ids :: nat
  sb_prices :: 'p
  sb_clock :: dt
  sb_pushed :: "broker_order list"

type_synonym ('p, 'a) sim_act = "('p sim, 'a) act"

section \<open>The matching engine\<close>

definition sim_terminal :: "order_status \<Rightarrow> bool" where
  "sim_terminal s \<longleftrightarrow> s \<in> {COMPLETE, REJECTED, OS_CANCELLED, OS_ERROR}"

definition snapshot_order :: "sim_order \<Rightarrow> broker_order" where
  "snapshot_order o1 =
     \<lparr>bo_id = so_id o1, bo_tag = Some (so_tag o1), bo_status = so_status o1,
      bo_exchange = so_exchange o1, bo_symbol = so_symbol o1, bo_side = so_side o1,
      bo_product = so_product o1, bo_order_type = so_type o1, bo_quantity = so_quantity o1,
      bo_filled = so_filled o1, bo_avg_price = so_avg o1, bo_trigger = so_trigger o1,
      bo_placed_at = Some (so_placed_at o1), bo_filled_at = so_filled_at o1,
      bo_updated_at = Some (so_updated_at o1), bo_message = so_message o1\<rparr>"

definition to_broker_order :: "sim_order \<Rightarrow> exn + broker_order" where
  "to_broker_order o1 = mk_broker_order (snapshot_order o1)"

definition ledger_get :: "(ledger_key \<times> sim_position) list \<Rightarrow> ledger_key \<Rightarrow> sim_position" where
  "ledger_get ps k = (case map_of ps k of None \<Rightarrow> empty_position | Some p \<Rightarrow> p)"

definition order_key :: "sim_order \<Rightarrow> ledger_key" where
  "order_key o1 = (so_exchange o1, so_symbol o1, so_product o1)"

definition apply_fill :: "int \<Rightarrow> decimal \<Rightarrow> sim_order \<Rightarrow> 'p sim \<Rightarrow> sim_order \<times> 'p sim" where
  "apply_fill delta price o1 s =
     (let prior = so_filled o1;
          prior_avg = (case so_avg o1 of None \<Rightarrow> 0 | Some a \<Rightarrow> a);
          new_filled = prior + delta;
          avg = dec_div (prior_avg * of_int prior + price * of_int delta) (of_int new_filled);
          k = order_key o1
      in (o1\<lparr>so_avg := Some avg, so_filled := new_filled\<rparr>,
          s\<lparr>sb_positions := AList.update k
              (update_position (ledger_get (sb_positions s) k) (so_side o1) delta price)
              (sb_positions s)\<rparr>))"

definition step_fill :: "sim_order \<Rightarrow> int" where
  "step_fill o1 =
     (let remaining = so_quantity o1 - so_filled o1
      in if so_steps o1 \<le> 1 then remaining else min (so_step_qty o1) remaining)"

definition finish_step :: "'p sim_env \<Rightarrow> dt \<Rightarrow> sim_order \<Rightarrow> sim_order" where
  "finish_step E tm o1 =
     (let o2 = o1\<lparr>so_steps := max 0 (so_steps o1 - 1), so_updated_at := tm\<rparr>
      in if so_filled o2 \<ge> so_quantity o2 then
           o2\<lparr>so_status := COMPLETE, so_filled_at := Some tm, so_steps := 0\<rparr>
         else o2\<lparr>so_status := OS_OPEN,
                  so_resolve_at := tm + int (sc_fill_latency (se_config E))\<rparr>)"

definition process_due_order ::
    "'p sim_env \<Rightarrow> bool \<Rightarrow> sim_order \<Rightarrow> 'p sim \<Rightarrow> sim_order \<times> 'p sim \<times> (exn + broker_order option)" where
  "process_due_order E force o1 s =
     (let tm = sb_clock s
      in if sim_terminal (so_status o1) then (o1, s, Inr None)
         else if \<not> force \<and> tm < so_resolve_at o1 then (o1, s, Inr None)
         else if so_outcome o1 = FO_REJECTED then
           (let o2 = o1\<lparr>so_status := REJECTED, so_message := Some ''Simulated rejection'',
                        so_updated_at := tm, so_steps := 0\<rparr>
            in (o2, s, map_sum id Some (to_broker_order o2)))
         else
           (case se_price E \<lparr>ii_exchange = so_exchange o1, ii_symbol = so_symbol o1\<rparr> (sb_prices s) of
              (p, Inl e) \<Rightarrow> (o1, s\<lparr>sb_prices := p\<rparr>, Inl e)
            | (p, Inr price) \<Rightarrow>
                (let s1 = s\<lparr>sb_prices := p\<rparr>;
                     (o2, s2) = (if 0 < step_fill o1 then apply_fill (step_fill o1) price o1 s1
                                 else (o1, s1));
                     o3 = finish_step E tm o2
                 in (o3, s2, map_sum id Some (to_broker_order o3)))))"

fun resolve_list ::
    "'p sim_env \<Rightarrow> bool \<Rightarrow> (string \<times> sim_order) list \<Rightarrow> 'p sim \<Rightarrow>
     (string \<times> sim_order) list \<times> 'p sim \<times> (exn + broker_order list)" where
  "resolve_list E force [] s = ([], s, Inr [])"
| "resolve_list E force ((k, o1) # os) s =
     (case process_due_order E force o1 s of
        (o2, s2, Inl e) \<Rightarrow> ((k, o2) # os, s2, Inl e)
      | (o2, s2, Inr u) \<Rightarrow>
          (case resolve_list E force os s2 of
             (os', s3, Inl e) \<Rightarrow> ((k, o2) # os', s3, Inl e)
           | (os', s3, Inr us) \<Rightarrow>
               ((k, o2) # os', s3, Inr (case u of None \<Rightarrow> us | Some x \<Rightarrow> x # us))))"

definition dispatch_updates :: "broker_order list \<Rightarrow> 'p sim \<Rightarrow> 'p sim" where
  "dispatch_updates us s = (if sb_ws s then s\<lparr>sb_pushed := sb_pushed s @ us\<rparr> else s)"

definition resolve_due_orders :: "'p sim_env \<Rightarrow> bool \<Rightarrow> ('p, broker_order list) sim_act" where
  "resolve_due_orders E force s =
     (case resolve_list E force (sb_orders s) s of
        (os, s1, Inl e) \<Rightarrow> (s1\<lparr>sb_orders := os\<rparr>, Inl e)
      | (os, s1, Inr us) \<Rightarrow> (dispatch_updates us (s1\<lparr>sb_orders := os\<rparr>), Inr us))"

text \<open>
  The drain of the synchronous mode: every forced step takes a live order one step closer to
  its end, so the loop ends after at most as many passes as steps are left.
\<close>

definition steps_left :: "sim_order \<Rightarrow> nat" where
  "steps_left o1 = (if sim_terminal (so_status o1) then 0 else Suc (nat (so_steps o1)))"

definition work_left :: "(string \<times> sim_order) list \<Rightarrow> nat" where
  "work_left os = sum_list (map (steps_left \<circ> snd) os)"

lemma process_forced:
  assumes "process_due_order E True o1 s = (o2, s2, Inr u)"
  shows "steps_left o2 \<le> steps_left o1 \<and> (u \<noteq> None \<longrightarrow> steps_left o2 < steps_left o1)"
proof (cases "sim_terminal (so_status o1) \<or> so_outcome o1 = FO_REJECTED")
  case True
  then show ?thesis using assms
    by (auto simp: process_due_order_def steps_left_def sim_terminal_def Let_def split: if_splits)
next
  case False
  define o' where "o' = (\<lambda>a. if 0 < step_fill o1 then
      o1\<lparr>so_avg := Some a, so_filled := so_filled o1 + step_fill o1\<rparr> else o1)"
  obtain a where o2: "o2 = finish_step E (sb_clock s) (o' a)"
    using assms False
    by (auto simp: process_due_order_def Let_def apply_fill_def o'_def split: prod.splits sum.splits if_splits)
  have f: "sim_terminal COMPLETE" by (simp add: sim_terminal_def)
  show ?thesis
  proof (cases "so_steps o1 \<le> 1")
    case True
    then have "so_status o2 = COMPLETE"
      by (auto simp: o2 finish_step_def o'_def step_fill_def Let_def)
    then show ?thesis using False by (simp add: steps_left_def f)
  next
    case many: False
    then have "so_status o2 = COMPLETE \<or> so_steps o2 = so_steps o1 - 1"
      by (auto simp: o2 finish_step_def o'_def Let_def)
    then show ?thesis using False many f by (auto simp: steps_left_def)
  qed
qed

lemma resolve_list_forced:
  "resolve_list E True os s = (os', s', Inr us) \<Longrightarrow>
   work_left os' \<le> work_left os \<and> (us \<noteq> [] \<longrightarrow> work_left os' < work_left os)"
proof (induction E "True" os s arbitrary: os' s' us rule: resolve_list.induct)
  case (2 E k o1 os s)
  from "2.prems" obtain o2 s2 u os2 us2 where
    h: "process_due_order E True o1 s = (o2, s2, Inr u)"
       "resolve_list E True os s2 = (os2, s', Inr us2)"
       "os' = (k, o2) # os2" "us = (case u of None \<Rightarrow> us2 | Some x \<Rightarrow> x # us2)"
    by (auto split: prod.splits sum.splits)
  have IH: "work_left os2 \<le> work_left os \<and> (us2 \<noteq> [] \<longrightarrow> work_left os2 < work_left os)"
    using "2.hyps" h by metis
  show ?case using process_forced [OF h(1)] IH h(3,4)
    by (auto simp: work_left_def split: option.splits)
qed (simp add: work_left_def)

function drain :: "'p sim_env \<Rightarrow> ('p, unit) sim_act" where
  "drain E s =
     (case resolve_due_orders E True s of
        (s1, Inl e) \<Rightarrow> (s1, Inl e)
      | (s1, Inr us) \<Rightarrow> (if us = [] then (s1, Inr ()) else drain E s1))"
  by pat_completeness auto

lemma sb_orders_dispatch [simp]: "sb_orders (dispatch_updates us s) = sb_orders s"
  by (simp add: dispatch_updates_def)

lemma resolve_forced_less:
  "resolve_due_orders E True s = (s1, Inr us) \<Longrightarrow> us \<noteq> [] \<Longrightarrow>
   work_left (sb_orders s1) < work_left (sb_orders s)"
  by (auto simp: resolve_due_orders_def dest!: resolve_list_forced split: prod.splits sum.splits)

termination drain
  by (relation "measure (\<lambda>(E, s). work_left (sb_orders s))")
    (simp, simp add: resolve_forced_less [OF sym])

declare drain.simps [simp del]

definition pump :: "'p sim_env \<Rightarrow> ('p, unit) sim_act" where
  "pump E s =
     (if sc_synchronous (se_config E) then drain E s
      else (case resolve_due_orders E False s of (s1, r) \<Rightarrow> (s1, map_sum id (\<lambda>_. ()) r)))"

section \<open>Operations\<close>

definition draw_below :: "'p sim_env \<Rightarrow> decimal \<Rightarrow> ('p, bool) sim_act" where
  "draw_below E p s =
     (s\<lparr>sb_draws := Suc (sb_draws s)\<rparr>, Inr (se_random E (sb_draws s) < p))"

definition decide_outcome :: "'p sim_env \<Rightarrow> ('p, fill_outcome) sim_act" where
  "decide_outcome E =
     bnd (draw_below E (sc_rejection (se_config E))) (\<lambda>rejected.
     if rejected then ret FO_REJECTED
     else bnd (draw_below E (sc_partial_fill (se_config E))) (\<lambda>partial.
     ret (if partial then PARTIAL_THEN_FILL else FULL_FILL)))"

definition sim_sleep :: "nat \<Rightarrow> ('p, unit) sim_act" where
  "sim_sleep n = modify (\<lambda>s. s\<lparr>sb_clock := sb_clock s + int n\<rparr>)"

definition require_authenticated :: "('p, unit) sim_act" where
  "require_authenticated =
     bnd (asks sb_authenticated) (\<lambda>ok.
     if ok then ret () else throw (BrokerAuthenticationError ''not authenticated''))"

definition exceeds :: "'p sim_env \<Rightarrow> nat option \<Rightarrow> bool" where
  "exceeds E timeout =
     (case timeout of None \<Rightarrow> False | Some t \<Rightarrow> t < sc_ack_latency (se_config E))"

definition ack_gate :: "'p sim_env \<Rightarrow> nat option \<Rightarrow> string \<Rightarrow> string \<Rightarrow> ('p, unit) sim_act" where
  "ack_gate E timeout on_failure on_timeout =
     bnd (draw_below E (sc_connection_failure (se_config E))) (\<lambda>failed.
     if failed then throw (BrokerConnectionError on_failure)
     else if exceeds E timeout then throw (BrokerTimeoutError on_timeout)
     else sim_sleep (sc_ack_latency (se_config E)))"

definition simulate_read_call :: "'p sim_env \<Rightarrow> nat option \<Rightarrow> ('p, unit) sim_act" where
  "simulate_read_call E timeout =
     ack_gate E timeout ''Simulated connection failure'' ''Simulated call exceeded''"

definition next_order_id :: "'p sim_env \<Rightarrow> ('p, string) sim_act" where
  "next_order_id E s = (s\<lparr>sb_ids := Suc (sb_ids s)\<rparr>, Inr (''SIM'' @ se_uuid E (sb_ids s)))"

definition build_sim_order ::
    "'p sim_env \<Rightarrow> string \<Rightarrow> place_request \<Rightarrow> fill_outcome \<Rightarrow> dt \<Rightarrow> ('p, sim_order) sim_act" where
  "build_sim_order E oid req outcome tm s =
     (let c = se_config E;
          split = (outcome = PARTIAL_THEN_FILL);
          steps = (if split then se_randint E (sb_draws s) (sc_min_steps c) (resolved_max_steps c)
                   else 1);
          step_qty = (if split then max 1 (pr_quantity req div steps) else pr_quantity req)
      in (if split then s\<lparr>sb_draws := Suc (sb_draws s)\<rparr> else s,
          Inr \<lparr>so_id = oid, so_tag = pr_tag req, so_exchange = pr_exchange req,
            so_symbol = pr_symbol req, so_side = pr_side req, so_product = pr_product req,
            so_quantity = pr_quantity req, so_type = pr_order_type req, so_price = pr_price req,
            so_trigger = pr_trigger req, so_status = OS_OPEN, so_filled = 0, so_avg = None,
            so_placed_at = tm, so_filled_at = None, so_updated_at = tm, so_message = None,
            so_outcome = outcome, so_resolve_at = tm + int (sc_fill_latency c),
            so_steps = steps, so_step_qty = step_qty\<rparr>))"

definition sim_place :: "'p sim_env \<Rightarrow> nat option \<Rightarrow> place_request \<Rightarrow> ('p, string) sim_act" where
  "sim_place E timeout req =
     sq require_authenticated
     (sq (ack_gate E timeout ''Simulated connection failure placing order'' ''Simulated ack exceeded'')
     (case get_by_symbol (se_catalog E) (pr_exchange req) (pr_symbol req) of
        Inl _ \<Rightarrow> throw (OrderRejectedError ''Unknown instrument'')
      | Inr _ \<Rightarrow>
          bnd (asks sb_clock) (\<lambda>tm.
          bnd (next_order_id E) (\<lambda>oid.
          bnd (decide_outcome E) (\<lambda>outcome.
          bnd (build_sim_order E oid req outcome tm) (\<lambda>o1.
          sq (modify (\<lambda>s. s\<lparr>sb_orders := AList.update oid o1 (sb_orders s),
                            sb_by_tag := AList.update (pr_tag req) oid (sb_by_tag s)\<rparr>))
          (bnd (draw_below E (sc_ack_timeout (se_config E))) (\<lambda>lost.
          if lost then throw (BrokerTimeoutError ''Simulated ack timeout'')
          else sq (pump E) (ret oid)))))))))"

definition find_live :: "string \<Rightarrow> exn \<Rightarrow> ('p, sim_order) sim_act" where
  "find_live oid not_live =
     bnd (asks (\<lambda>s. map_of (sb_orders s) oid)) (\<lambda>found.
     case found of
       None \<Rightarrow> throw (OrderNotFoundError ''No order'')
     | Some o1 \<Rightarrow> if sim_terminal (so_status o1) then throw not_live else ret o1)"

definition put_order :: "string \<Rightarrow> sim_order \<Rightarrow> ('p, unit) sim_act" where
  "put_order oid o1 = modify (\<lambda>s. s\<lparr>sb_orders := AList.update oid o1 (sb_orders s)\<rparr>)"

definition dispatch_order :: "sim_order \<Rightarrow> ('p, unit) sim_act" where
  "dispatch_order o1 =
     bnd (lift_sum (to_broker_order o1)) (\<lambda>u. modify (dispatch_updates [u]))"

definition modified :: "modify_request \<Rightarrow> dt \<Rightarrow> sim_order \<Rightarrow> sim_order" where
  "modified req tm o1 =
     o1\<lparr>so_quantity := (case mr_quantity req of None \<Rightarrow> so_quantity o1 | Some q \<Rightarrow> q),
        so_price := (case mr_price req of None \<Rightarrow> so_price o1 | Some p \<Rightarrow> Some p),
        so_trigger := (case mr_trigger req of None \<Rightarrow> so_trigger o1 | Some p \<Rightarrow> Some p),
        so_type := (case mr_order_type req of None \<Rightarrow> so_type o1 | Some t \<Rightarrow> t),
        so_updated_at := tm\<rparr>"

definition sim_modify :: "'p sim_env \<Rightarrow> nat option \<Rightarrow> modify_request \<Rightarrow> ('p, unit) sim_act" where
  "sim_modify E timeout req =
     sq require_authenticated
     (sq (ack_gate E timeout ''Simulated connection failure modifying order''
           ''Simulated modify exceeded'')
     (bnd (find_live (mr_order_id req) (OrderNotModifiableError ''already terminal'')) (\<lambda>o1.
      if (case mr_quantity req of None \<Rightarrow> False | Some q \<Rightarrow> q < so_filled o1)
      then throw (InvalidOrderRequestError ''Cannot modify quantity below what has already filled'')
      else bnd (asks sb_clock) (\<lambda>tm.
        sq (put_order (mr_order_id req) (modified req tm o1)) (dispatch_order (modified req tm o1))))))"

definition cancelled :: "dt \<Rightarrow> sim_order \<Rightarrow> sim_order" where
  "cancelled tm o1 = o1\<lparr>so_status := OS_CANCELLED, so_updated_at := tm, so_steps := 0\<rparr>"

definition sim_cancel :: "'p sim_env \<Rightarrow> nat option \<Rightarrow> string \<Rightarrow> ('p, unit) sim_act" where
  "sim_cancel E timeout oid =
     sq require_authenticated
     (sq (ack_gate E timeout ''Simulated connection failure cancelling order''
           ''Simulated cancel exceeded'')
     (bnd (find_live oid (OrderNotCancellableError ''already terminal'')) (\<lambda>o1.
      bnd (asks sb_clock) (\<lambda>tm.
      sq (put_order oid (cancelled tm o1)) (dispatch_order (cancelled tm o1))))))"

definition sim_read :: "'p sim_env \<Rightarrow> nat option \<Rightarrow> ('p, 'a) sim_act \<Rightarrow> ('p, 'a) sim_act" where
  "sim_read E timeout m = sq (simulate_read_call E timeout) (sq (pump E) m)"

definition sim_get_order :: "'p sim_env \<Rightarrow> nat option \<Rightarrow> string \<Rightarrow> ('p, broker_order) sim_act" where
  "sim_get_order E timeout oid = sim_read E timeout
     (bnd (asks (\<lambda>s. map_of (sb_orders s) oid)) (\<lambda>found.
      case found of
        None \<Rightarrow> throw (OrderNotFoundError ''No order'')
      | Some o1 \<Rightarrow> lift_sum (to_broker_order o1)))"

definition sim_get_orders :: "'p sim_env \<Rightarrow> nat option \<Rightarrow> ('p, broker_order list) sim_act" where
  "sim_get_orders E timeout = sim_read E timeout
     (bnd (asks sb_orders) (map_act (\<lambda>(k, o1). lift_sum (to_broker_order o1))))"

definition sim_find_tag :: "'p sim_env \<Rightarrow> nat option \<Rightarrow> string \<Rightarrow> ('p, broker_order option) sim_act" where
  "sim_find_tag E timeout tag = sim_read E timeout
     (bnd (asks (\<lambda>s. map_of (sb_by_tag s) tag)) (\<lambda>found.
      case found of
        None \<Rightarrow> ret None
      | Some oid \<Rightarrow>
          bnd (asks (\<lambda>s. map_of (sb_orders s) oid)) (\<lambda>o1.
          case o1 of
            None \<Rightarrow> throw KeyError
          | Some o2 \<Rightarrow> lift_sum (map_sum id Some (to_broker_order o2)))))"

definition read_price :: "'p sim_env \<Rightarrow> instrument_id \<Rightarrow> ('p, decimal) sim_act" where
  "read_price E i s = (case se_price E i (sb_prices s) of (p, r) \<Rightarrow> (s\<lparr>sb_prices := p\<rparr>, r))"

definition position_report ::
    "'p sim_env \<Rightarrow> ledger_key \<times> sim_position \<Rightarrow> ('p, broker_position) sim_act" where
  "position_report E e =
     (case e of ((ex, symbol, product), pos) \<Rightarrow>
        bnd (read_price E \<lparr>ii_exchange = ex, ii_symbol = symbol\<rparr>) (\<lambda>last.
        ret \<lparr>bp_exchange = ex, bp_symbol = symbol, bp_product = product,
             bp_quantity = sp_quantity pos, bp_avg_price = sp_avg pos, bp_last_price = last,
             bp_pnl = sp_realized pos + of_int (sp_quantity pos) * (last - sp_avg pos)\<rparr>))"

definition sim_get_positions :: "'p sim_env \<Rightarrow> nat option \<Rightarrow> ('p, broker_position list) sim_act" where
  "sim_get_positions E timeout = sim_read E timeout
     (bnd (asks sb_positions) (\<lambda>ps.
      map_act (position_report E) (filter (\<lambda>(k, pos). sp_quantity pos \<noteq> 0) ps)))"

definition margin_lots :: "catalog \<Rightarrow> ledger_key \<times> sim_position \<Rightarrow> int" where
  "margin_lots c e =
     (case e of ((ex, symbol, product), pos) \<Rightarrow>
        if sp_quantity pos = 0 then 0
        else case get_by_symbol c ex symbol of
               Inl _ \<Rightarrow> \<bar>sp_quantity pos\<bar>
             | Inr i \<Rightarrow> max 1 (\<bar>sp_quantity pos\<bar> div bi_lot_size i))"

definition sim_get_margins :: "'p sim_env \<Rightarrow> nat option \<Rightarrow> ('p, broker_margins) sim_act" where
  "sim_get_margins E timeout = sim_read E timeout
     (bnd (asks sb_positions) (\<lambda>ps.
      (let c = se_config E;
           realized = sum_list (map (sp_realized \<circ> snd) ps);
           used = sum_list (map (\<lambda>e. sc_margin_per_lot c * of_int (margin_lots (se_catalog E) e)) ps)
       in ret \<lparr>bm_segment = ''NFO'', bm_available_cash = sc_initial_cash c + realized - used,
               bm_used_margin = used, bm_opening_balance = sc_initial_cash c\<rparr>)))"

definition sim_health :: "'p sim_env \<Rightarrow> nat option \<Rightarrow> ('p, health_status) sim_act" where
  "sim_health E timeout = sq (simulate_read_call E timeout)
     (asks (\<lambda>s. \<lparr>hs_healthy = sb_authenticated s, hs_checked_at = sb_clock s\<rparr>))"

definition sim_ltp ::
    "'p sim_env \<Rightarrow> nat option \<Rightarrow> instrument_id list \<Rightarrow> ('p, (instrument_id \<times> decimal) list) sim_act" where
  "sim_ltp E timeout is = sq (simulate_read_call E timeout)
     (bnd (map_act (\<lambda>i. bnd (read_price E i) (\<lambda>p. ret (i, p))) is) (\<lambda>ps.
      ret (fold (\<lambda>(i, p). AList.update i p) ps [])))"

definition sim_contract ::
    "'p sim_env \<Rightarrow> nat option \<Rightarrow> string \<Rightarrow> date \<Rightarrow> decimal \<Rightarrow> option_type \<Rightarrow> exchange \<Rightarrow>
     ('p, broker_instrument) sim_act" where
  "sim_contract E timeout underlying expiry strike ot ex = sq (simulate_read_call E timeout)
     (lift_sum (find_option (se_catalog E) underlying expiry strike ot ex))"

definition sim_authenticate :: "'p sim_env \<Rightarrow> ('p, unit) sim_act" where
  "sim_authenticate E =
     (if sc_auth_should_fail (se_config E)
      then throw (BrokerAuthenticationError ''Simulated authentication failure'')
      else sq (sim_sleep (sc_ack_latency (se_config E)))
             (modify (\<lambda>s. s\<lparr>sb_authenticated := True\<rparr>)))"

definition sim_connect_websocket :: "'p sim_env \<Rightarrow> ('p, unit) sim_act" where
  "sim_connect_websocket E =
     bnd (draw_below E (sc_ws_failure (se_config E))) (\<lambda>failed.
     if failed then throw (BrokerConnectionError ''Simulated websocket connection failure'')
     else sq (sim_sleep (sc_ack_latency (se_config E))) (modify (\<lambda>s. s\<lparr>sb_ws := True\<rparr>)))"

definition sim_disconnect_websocket :: "('p, unit) sim_act" where
  "sim_disconnect_websocket = modify (\<lambda>s. s\<lparr>sb_ws := False\<rparr>)"

section \<open>The simulation broker as a broker\<close>

definition sim_call :: "('p, 'a) sim_act \<Rightarrow> ('p sim, 'a) broker_call" where
  "sim_call f t s =
     (case f (s\<lparr>sb_clock := t, sb_pushed := []\<rparr>) of
        (s1, r) \<Rightarrow> (s1, nat (sb_clock s1 - t), sb_pushed s1, r))"

definition sim_broker :: "'p sim_env \<Rightarrow> nat option \<Rightarrow> 'p sim broker" where
  "sim_broker E timeout =
     \<lparr>bk_place = \<lambda>req. sim_call (sim_place E timeout req),
      bk_get = \<lambda>oid. sim_call (sim_get_order E timeout oid),
      bk_find_tag = \<lambda>tag. sim_call (sim_find_tag E timeout tag),
      bk_orders = sim_call (sim_get_orders E timeout),
      bk_positions = sim_call (sim_get_positions E timeout),
      bk_margins = sim_call (sim_get_margins E timeout),
      bk_health = sim_call (sim_health E timeout),
      bk_ltp = \<lambda>is. sim_call (sim_ltp E timeout is),
      bk_contract = \<lambda>u x st ot ex. sim_call (sim_contract E timeout u x st ot ex),
      bk_authenticated = sb_authenticated\<rparr>"

section \<open>The book\<close>

definition sim_book :: "'p sim \<Rightarrow> (string \<times> string) list" where
  "sim_book s = map (\<lambda>(k, o1). (k, so_tag o1)) (sb_orders s)"

lemma process_tag: "process_due_order E force o1 s = (o2, s2, r) \<Longrightarrow>
    so_tag o2 = so_tag o1 \<and> so_id o2 = so_id o1 \<and> sb_orders s2 = sb_orders s"
  by (auto simp: process_due_order_def finish_step_def apply_fill_def Let_def
      split: if_splits prod.splits sum.splits)

lemma resolve_list_tags: "resolve_list E force os s = (os', s', r) \<Longrightarrow>
    map (\<lambda>(k, o1). (k, so_tag o1)) os' = map (\<lambda>(k, o1). (k, so_tag o1)) os"
proof (induction E force os s arbitrary: os' s' r rule: resolve_list.induct)
  case (2 E force k o1 os s)
  obtain o2 s2 x where p: "process_due_order E force o1 s = (o2, s2, x)" by (metis prod_cases3)
  obtain os2 s3 y where q: "resolve_list E force os s2 = (os2, s3, y)" by (metis prod_cases3)
  show ?case
    using "2.prems" "2.IH" [OF p [symmetric] refl _ q] process_tag [OF p] p q
    by (cases x; cases y) auto
qed simp

lemma sim_book_simps [simp]:
  "sim_book (dispatch_updates us s) = sim_book s" "sim_book (s\<lparr>sb_clock := t\<rparr>) = sim_book s"
  "sim_book (s\<lparr>sb_pushed := ps\<rparr>) = sim_book s" "sim_book (s\<lparr>sb_draws := n\<rparr>) = sim_book s"
  "sim_book (s\<lparr>sb_ids := n\<rparr>) = sim_book s" "sim_book (s\<lparr>sb_prices := q\<rparr>) = sim_book s"
  by (simp_all add: sim_book_def)

lemma resolve_book: "resolve_due_orders E force s = (s', r) \<Longrightarrow> sim_book s' = sim_book s"
  by (auto simp: resolve_due_orders_def sim_book_def dispatch_updates_def dest!: resolve_list_tags
      split: prod.splits sum.splits if_splits)

lemma drain_book: "sim_book (fst (drain E s)) = sim_book s"
proof (induction E s rule: drain.induct)
  case (1 E s)
  show ?case
  proof (cases "resolve_due_orders E True s")
    case (Pair s1 r)
    note b = resolve_book [OF Pair]
    show ?thesis
    proof (cases r)
      case (Inr us)
      show ?thesis
      proof (cases "us = []")
        case False
        have "sim_book (fst (drain E s1)) = sim_book s1" using 1 [of s1 "Inr us" us] Pair Inr False by simp
        then show ?thesis using Pair Inr False b by (simp add: drain.simps [of E s])
      qed (simp add: drain.simps [of E s] Pair Inr b)
    qed (simp add: drain.simps [of E s] Pair b)
  qed
qed

lemma keeps_book_pump: "keeps (\<lambda>s. sim_book s = bk) (pump E)"
  by (auto simp: keeps_def pump_def drain_book dest: resolve_book split: prod.split)

lemma keeps_book_prims:
  "keeps (\<lambda>s. sim_book s = bk) (draw_below E p)" "keeps (\<lambda>s. sim_book s = bk) (sim_sleep n)"
  "keeps (\<lambda>s. sim_book s = bk) require_authenticated" "keeps (\<lambda>s. sim_book s = bk) (next_order_id E)"
  "keeps (\<lambda>s. sim_book s = bk) (read_price E i)"
  "keeps (\<lambda>s. sim_book s = bk) (build_sim_order E oid req outcome tm)"
  by (auto simp: keeps_def draw_below_def sim_sleep_def modify_def require_authenticated_def bnd_def
      asks_def ret_def throw_def next_order_id_def read_price_def build_sim_order_def Let_def
      split: prod.splits)

lemma keeps_book_gate: "keeps (\<lambda>s. sim_book s = bk) (ack_gate E timeout m n)"
  unfolding ack_gate_def by (intro keeps_bnd keeps_if keeps_throw keeps_book_prims)

lemma keeps_book_read:
  "keeps (\<lambda>s. sim_book s = bk) m \<Longrightarrow> keeps (\<lambda>s. sim_book s = bk) (sim_read E timeout m)"
  unfolding sim_read_def simulate_read_call_def
  by (intro keeps_sq keeps_book_gate keeps_book_pump)

lemma keeps_book_decide: "keeps (\<lambda>s. sim_book s = bk) (decide_outcome E)"
  unfolding decide_outcome_def by (intro keeps_bnd keeps_if keeps_ret keeps_book_prims)

lemmas keeps_book =
  keeps_book_prims keeps_book_gate keeps_book_read keeps_book_pump keeps_bnd keeps_sq keeps_asks
  keeps_option keeps_throw keeps_ret keeps_lift_sum keeps_map_act keeps_if

lemma keeps_book_ops:
  "keeps (\<lambda>s. sim_book s = bk) (sim_get_order E timeout oid)"
  "keeps (\<lambda>s. sim_book s = bk) (sim_get_orders E timeout)"
  "keeps (\<lambda>s. sim_book s = bk) (sim_find_tag E timeout tag)"
  "keeps (\<lambda>s. sim_book s = bk) (sim_get_positions E timeout)"
  "keeps (\<lambda>s. sim_book s = bk) (sim_get_margins E timeout)"
  "keeps (\<lambda>s. sim_book s = bk) (sim_health E timeout)"
  "keeps (\<lambda>s. sim_book s = bk) (sim_ltp E timeout is)"
  "keeps (\<lambda>s. sim_book s = bk) (sim_contract E timeout u x st ot ex)"
  unfolding sim_get_order_def sim_get_orders_def sim_find_tag_def sim_get_positions_def
    sim_get_margins_def sim_health_def sim_ltp_def sim_contract_def simulate_read_call_def
    position_report_def case_prod_beta Let_def
  by (intro keeps_book)+

lemma sim_call_book:
  "(\<And>bk. keeps (\<lambda>s. sim_book s = bk) f) \<Longrightarrow> sim_call f t s = (s', n, ps, r) \<Longrightarrow>
   sim_book s' = sim_book s"
  by (auto simp: sim_call_def keeps_def split: prod.splits) (metis fst_conv sim_book_simps(2,3))

lemma sim_place_book:
  "\<exists>oid. set (sim_book (fst (sim_place E timeout req s))) \<subseteq> insert (oid, pr_tag req) (set (sim_book s))"
proof -
  define P where "P = (\<lambda>s1 :: 'a sim.
     \<exists>oid. set (sim_book s1) \<subseteq> insert (oid, pr_tag req) (set (sim_book s)))"
  have keep: "sim_book s1 = sim_book s2 \<Longrightarrow> P s2 \<Longrightarrow> P s1" for s1 s2 by (simp add: P_def)
  have kp: "keeps P m" if "\<And>bk. keeps (\<lambda>s. sim_book s = bk) m" for m :: "('a, 'b) sim_act"
    using that keep unfolding keeps_def by metis
  let ?B = "\<lambda>s1. sim_book s1 = sim_book s"
  have pre: "hoare ?B m (\<lambda>_. ?B) (\<lambda>_. P)" if "keeps ?B m" for m :: "('a, 'b) sim_act"
    by (rule hoare_post [OF hoare_of_keeps [OF that]]) (auto simp: P_def)
  have upd: "hoare ?B (modify (\<lambda>s. s\<lparr>sb_orders := AList.update oid o1 (sb_orders s),
      sb_by_tag := AList.update (pr_tag req) oid (sb_by_tag s)\<rparr>)) (\<lambda>_. P) (\<lambda>_. P)"
    if "so_tag o1 = pr_tag req" for oid o1
  proof -
    have sub: "set (map (\<lambda>(k, o1). (k, so_tag o1)) (AList.update oid o1 os)) \<subseteq>
        insert (oid, pr_tag req) (set (map (\<lambda>(k, o1). (k, so_tag o1)) os))" for os
      using that by (induction os) auto
    have "?B s1 \<Longrightarrow> P (s1\<lparr>sb_orders := AList.update oid o1 (sb_orders s1),
        sb_by_tag := AList.update (pr_tag req) oid (sb_by_tag s1)\<rparr>)" for s1
      using sub [of "sb_orders s1"] unfolding P_def sim_book_def
      by (intro exI [of _ oid]) (simp del: set_map)
    then show ?thesis by (simp add: hoare_def modify_def)
  qed
  have fin: "keeps P (bnd (draw_below E (sc_ack_timeout (se_config E))) (\<lambda>lost.
      if lost then throw (BrokerTimeoutError ''Simulated ack timeout'')
      else sq (pump E) (ret oid)))" for oid :: string
    by (intro kp keeps_book)
  have build: "hoare ?B (build_sim_order E oid req outcome tm)
      (\<lambda>o1 s1. ?B s1 \<and> so_tag o1 = pr_tag req) (\<lambda>_. P)" for oid outcome tm
    by (auto simp: hoare_def build_sim_order_def Let_def)
  have "hoare ?B (sim_place E timeout req) (\<lambda>_. P) (\<lambda>_. P)"
  proof (cases "get_by_symbol (se_catalog E) (pr_exchange req) (pr_symbol req)")
    case (Inl e)
    have "keeps ?B (sim_place E timeout req)"
      unfolding sim_place_def Inl sum.case by (intro keeps_book)
    then show ?thesis by (intro hoare_post [OF pre]) (auto simp: P_def)
  next
    case (Inr i)
    have tail: "hoare (\<lambda>s1. ?B s1 \<and> so_tag o1 = pr_tag req)
        (bnd (modify (\<lambda>s. s\<lparr>sb_orders := AList.update oid o1 (sb_orders s),
            sb_by_tag := AList.update (pr_tag req) oid (sb_by_tag s)\<rparr>)) (\<lambda>_.
         bnd (draw_below E (sc_ack_timeout (se_config E))) (\<lambda>lost.
         if lost then throw (BrokerTimeoutError ''Simulated ack timeout'')
         else sq (pump E) (ret oid)))) (\<lambda>_. P) (\<lambda>_. P)" for oid o1
    proof (cases "so_tag o1 = pr_tag req")
      case True
      show ?thesis
        by (rule hoare_pre [OF hoare_bnd [OF upd [OF True] hoare_of_keeps [OF fin]]]) simp
    qed (simp add: hoare_def)
    show ?thesis
      unfolding sim_place_def sq_def Inr sum.case
      by (intro hoare_bnd [OF pre] hoare_bnd [OF build] tail [unfolded sq_def] keeps_book_prims
          keeps_book_gate keeps_asks keeps_book_decide)
  qed
  then show ?thesis by (auto dest: hoare_run [where s = s] simp: P_def split: prod.splits sum.splits)
qed

interpretation sim_book: broker_book "sim_broker E timeout" sim_book for E timeout
proof
  fix req t b b' n ps r
  assume "bk_place (sim_broker E timeout) req t b = (b', n, ps, r)"
  then obtain s1 where "fst (sim_place E timeout req (b\<lparr>sb_clock := t, sb_pushed := []\<rparr>)) = s1" "b' = s1"
    by (auto simp: sim_broker_def sim_call_def split: prod.splits)
  then show "\<exists>oid. set (sim_book b') \<subseteq> insert (oid, pr_tag req) (set (sim_book b))"
    using sim_place_book [of E timeout req "b\<lparr>sb_clock := t, sb_pushed := []\<rparr>"] by simp
qed (simp_all add: sim_broker_def, (erule sim_call_book [OF keeps_book_ops(1)]
  | erule sim_call_book [OF keeps_book_ops(2)] | erule sim_call_book [OF keeps_book_ops(3)]
  | erule sim_call_book [OF keeps_book_ops(4)] | erule sim_call_book [OF keeps_book_ops(5)]
  | erule sim_call_book [OF keeps_book_ops(6)] | erule sim_call_book [OF keeps_book_ops(7)]
  | erule sim_call_book [OF keeps_book_ops(8)])+)

end
