(* ===== verification/Sim_Proofs.thy ===== *)
theory Sim_Proofs
  imports Sim_Broker
begin

text \<open>
  Correctness of the simulation broker: the net position ledger is the sum of the fills of its
  orders after any sequence of operations, no order ever fills beyond its quantity, and the
  synchronous drain leaves no order unsettled.
\<close>

section \<open>Orders and the ledger\<close>

definition sim_order_wf :: "sim_order \<Rightarrow> bool" where
  "sim_order_wf o1 \<longleftrightarrow>
     0 < so_quantity o1 \<and> 0 \<le> so_filled o1 \<and> so_filled o1 \<le> so_quantity o1 \<and>
     (so_status o1 = COMPLETE \<longrightarrow> so_filled o1 = so_quantity o1) \<and>
     (so_avg o1 = None \<longleftrightarrow> so_filled o1 = 0) \<and> 0 < so_step_qty o1"

definition contribution :: "ledger_key \<Rightarrow> sim_order \<Rightarrow> int" where
  "contribution k o1 = (if order_key o1 = k then signed_delta (so_side o1) (so_filled o1) else 0)"

definition net_fills :: "ledger_key \<Rightarrow> (string \<times> sim_order) list \<Rightarrow> int" where
  "net_fills k os = sum_list (map (contribution k \<circ> snd) os)"

definition sim_ok :: "'p sim_env \<Rightarrow> 'p sim \<Rightarrow> bool" where
  "sim_ok E s \<longleftrightarrow>
     distinct (map fst (sb_orders s)) \<and>
     (\<forall>oid \<in> set (map fst (sb_orders s)). \<exists>i < sb_ids s. oid = ''SIM'' @ se_uuid E i) \<and>
     (\<forall>(oid, o1) \<in> set (sb_orders s). sim_order_wf o1) \<and>
     (\<forall>k. sp_quantity (ledger_get (sb_positions s) k) = net_fills k (sb_orders s))"

lemma signed_delta_add: "signed_delta side (a + b) = signed_delta side a + signed_delta side b"
  by (simp add: signed_delta_def)

lemma ledger_get_update:
  "ledger_get (AList.update k p ps) k' = (if k' = k then p else ledger_get ps k')"
  by (simp add: ledger_get_def update_conv')

lemma apply_fill_ok:
  assumes "apply_fill delta price o1 s = (o2, s2)" "sim_order_wf o1" "0 < delta"
    "so_filled o1 + delta \<le> so_quantity o1" "so_status o1 \<noteq> COMPLETE"
  shows "sim_order_wf o2 \<and> so_status o2 = so_status o1 \<and> so_filled o2 = so_filled o1 + delta \<and>
    so_quantity o2 = so_quantity o1 \<and>
    sp_quantity (ledger_get (sb_positions s2) k) =
      sp_quantity (ledger_get (sb_positions s) k) + (contribution k o2 - contribution k o1)"
proof -
  define a where "a = the (so_avg o2)"
  have o2: "o2 = o1\<lparr>so_avg := Some a, so_filled := so_filled o1 + delta\<rparr>"
    and s2: "sb_positions s2 = AList.update (order_key o1) (update_position
        (ledger_get (sb_positions s) (order_key o1)) (so_side o1) delta price) (sb_positions s)"
    using assms(1) by (auto simp: apply_fill_def Let_def a_def)
  have "sim_order_wf o2" using assms(2-5) by (simp add: o2 sim_order_wf_def)
  moreover have "contribution k o2 - contribution k o1 =
      (if k = order_key o1 then signed_delta (so_side o1) delta else 0)"
    by (simp add: o2 contribution_def order_key_def signed_delta_add)
  moreover have "sp_quantity (ledger_get (sb_positions s2) k) = sp_quantity (ledger_get (sb_positions s) k)
      + (if k = order_key o1 then signed_delta (so_side o1) delta else 0)"
    by (simp add: s2 ledger_get_update update_position_quantity)
  ultimately show ?thesis by (simp add: o2)
qed

lemma finish_step_ok:
  assumes "sim_order_wf o1"
  shows "sim_order_wf (finish_step E tm o1) \<and> contribution k (finish_step E tm o1) = contribution k o1"
  using assms by (auto simp: finish_step_def Let_def sim_order_wf_def contribution_def order_key_def)

lemma step_fill_le: "step_fill o1 \<le> so_quantity o1 - so_filled o1"
  by (simp add: step_fill_def Let_def)

lemma process_ok:
  assumes p: "process_due_order E force o1 s = (o2, s2, r)" and wf: "sim_order_wf o1"
  shows "sim_order_wf o2 \<and> sb_ids s2 = sb_ids s \<and>
    sp_quantity (ledger_get (sb_positions s2) k) =
      sp_quantity (ledger_get (sb_positions s) k) + (contribution k o2 - contribution k o1)"
proof (cases "\<exists>price q s1. se_price E \<lparr>ii_exchange = so_exchange o1, ii_symbol = so_symbol o1\<rparr>
    (sb_prices s) = (q, Inr price) \<and> \<not> sim_terminal (so_status o1) \<and> so_outcome o1 \<noteq> FO_REJECTED \<and>
    (force \<or> so_resolve_at o1 \<le> sb_clock s)")
  case True
  then obtain price q where pr: "se_price E \<lparr>ii_exchange = so_exchange o1, ii_symbol = so_symbol o1\<rparr>
      (sb_prices s) = (q, Inr price)" "\<not> sim_terminal (so_status o1)" "so_outcome o1 \<noteq> FO_REJECTED"
      "force \<or> so_resolve_at o1 \<le> sb_clock s"
    by blast
  define s1 where "s1 = s\<lparr>sb_prices := q\<rparr>"
  obtain o3 s3 where f: "(if 0 < step_fill o1 then apply_fill (step_fill o1) price o1 s1 else (o1, s1)) = (o3, s3)"
    by fastforce
  have nc: "so_status o1 \<noteq> COMPLETE" using pr(2) by (auto simp: sim_terminal_def)
  have a: "sim_order_wf o3 \<and> sb_ids s3 = sb_ids s \<and>
      sp_quantity (ledger_get (sb_positions s3) k) =
        sp_quantity (ledger_get (sb_positions s) k) + (contribution k o3 - contribution k o1)"
  proof (cases "0 < step_fill o1")
    case True
    have "sb_ids s3 = sb_ids s" using f True by (auto simp: apply_fill_def Let_def s1_def)
    then show ?thesis
      using f True apply_fill_ok [OF _ wf True _ nc, of price s1 o3 s3 k] step_fill_le [of o1]
      by (simp add: s1_def)
  qed (use f wf in \<open>auto simp: s1_def\<close>)
  have "o2 = finish_step E (sb_clock s) o3" "s2 = s3"
    using p pr f [unfolded s1_def]
    by (auto simp: process_due_order_def Let_def simp del: prod.case split: prod.splits)
  then show ?thesis using a finish_step_ok [of o3 E "sb_clock s" k] by simp
next
  case False
  have rej: "sim_order_wf (o1\<lparr>so_status := REJECTED, so_message := m, so_updated_at := t, so_steps := 0\<rparr>)"
    "contribution k (o1\<lparr>so_status := REJECTED, so_message := m, so_updated_at := t, so_steps := 0\<rparr>)
       = contribution k o1" for m t
    using wf by (simp_all add: sim_order_wf_def contribution_def order_key_def)
  show ?thesis using p False wf rej
    by (auto simp: process_due_order_def Let_def split: if_splits prod.splits sum.splits)
qed

lemma net_fills_simps [simp]:
  "net_fills k [] = 0" "net_fills k ((i, o1) # os) = contribution k o1 + net_fills k os"
  by (simp_all add: net_fills_def)

lemma resolve_list_ok:
  "resolve_list E force os s = (os', s', r) \<Longrightarrow> \<forall>(oid, o1) \<in> set os. sim_order_wf o1 \<Longrightarrow>
   (\<forall>(oid, o1) \<in> set os'. sim_order_wf o1) \<and> map fst os' = map fst os \<and> sb_ids s' = sb_ids s \<and>
   sp_quantity (ledger_get (sb_positions s') k) =
     sp_quantity (ledger_get (sb_positions s) k) + (net_fills k os' - net_fills k os)"
proof (induction E force os s arbitrary: os' s' r rule: resolve_list.induct)
  case (2 E force i o1 os s)
  obtain o2 s2 x where p: "process_due_order E force o1 s = (o2, s2, x)" by (metis prod_cases3)
  obtain os2 s3 y where q: "resolve_list E force os s2 = (os2, s3, y)" by (metis prod_cases3)
  have wf: "sim_order_wf o1" "\<forall>(oid, o1) \<in> set os. sim_order_wf o1" using "2.prems"(2) by auto
  note a = process_ok [OF p wf(1), of k]
  show ?case
  proof (cases x)
    case (Inl e)
    then show ?thesis using "2.prems"(1) p a wf by auto
  next
    case (Inr u)
    then show ?thesis using "2.prems"(1) "2.IH" [OF p [symmetric] refl Inr q wf(2)] p q a
      by (cases y) auto
  qed
qed simp

lemma resolve_due_ok: "sim_ok E s \<Longrightarrow> sim_ok E (fst (resolve_due_orders E force s))"
proof -
  assume ok: "sim_ok E s"
  obtain os s1 r where l: "resolve_list E force (sb_orders s) s = (os, s1, r)" by (metis prod_cases3)
  have wf: "\<forall>(oid, o1) \<in> set (sb_orders s). sim_order_wf o1" using ok by (simp add: sim_ok_def)
  have r: "(\<forall>(oid, o1) \<in> set os. sim_order_wf o1)" "map fst os = map fst (sb_orders s)"
      "sb_ids s1 = sb_ids s"
    using resolve_list_ok [OF l wf] by auto
  have "sp_quantity (ledger_get (sb_positions s1) k) = net_fills k os" for k
  proof -
    have "sp_quantity (ledger_get (sb_positions s) k) = net_fills k (sb_orders s)"
      using ok unfolding sim_ok_def by blast
    then show ?thesis using resolve_list_ok [OF l wf, of k] by simp
  qed
  then have "sim_ok E (s1\<lparr>sb_orders := os\<rparr>)" using ok r unfolding sim_ok_def by simp
  then show ?thesis
    by (auto simp: resolve_due_orders_def l dispatch_updates_def sim_ok_def split: sum.splits)
qed

lemma drain_ok: "sim_ok E s \<Longrightarrow> sim_ok E (fst (drain E s))"
proof (induction E s rule: drain.induct)
  case (1 E s)
  show ?case
  proof (cases "resolve_due_orders E True s")
    case (Pair s1 r)
    have ok: "sim_ok E s1" using resolve_due_ok [OF "1.prems", of True] Pair by simp
    show ?thesis
    proof (cases r)
      case (Inr us)
      show ?thesis
      proof (cases "us = []")
        case False
        then show ?thesis using "1.IH" [of s1 "Inr us" us] Pair Inr ok by (simp add: drain.simps [of E s])
      qed (simp add: drain.simps [of E s] Pair Inr ok)
    qed (simp add: drain.simps [of E s] Pair ok)
  qed
qed

lemma keeps_ok_pump: "keeps (sim_ok E) (pump E)"
  by (auto simp: keeps_def pump_def drain_ok split: prod.split dest: resolve_due_ok [where force = False])

lemma sim_ok_same:
  "sim_ok E s \<Longrightarrow> sb_orders s' = sb_orders s \<Longrightarrow> sb_ids s \<le> sb_ids s' \<Longrightarrow>
   sb_positions s' = sb_positions s \<Longrightarrow> sim_ok E s'"
proof -
  assume ok: "sim_ok E s" and same: "sb_orders s' = sb_orders s" "sb_positions s' = sb_positions s"
    and ids: "sb_ids s \<le> sb_ids s'"
  have "\<exists>i < sb_ids s'. oid = ''SIM'' @ se_uuid E i"
    if e: "\<exists>i < sb_ids s. oid = ''SIM'' @ se_uuid E i" for oid
  proof -
    obtain i where "i < sb_ids s" "oid = ''SIM'' @ se_uuid E i" using e by (elim exE conjE)
    then show ?thesis using ids by (intro exI [of _ i]) simp
  qed
  then have "\<forall>oid \<in> set (map fst (sb_orders s')). \<exists>i < sb_ids s'. oid = ''SIM'' @ se_uuid E i"
    using ok unfolding sim_ok_def same by blast
  then show ?thesis using ok unfolding sim_ok_def same by (elim conjE) (intro conjI)
qed

lemma keeps_ok_prims:
  "keeps (sim_ok E) (draw_below E p)" "keeps (sim_ok E) (sim_sleep n)"
  "keeps (sim_ok E) require_authenticated" "keeps (sim_ok E) (read_price E i)"
  "keeps (sim_ok E) (modify (dispatch_updates us))"
  "keeps (sim_ok E) (modify (\<lambda>s. s\<lparr>sb_authenticated := b\<rparr>))"
  "keeps (sim_ok E) (modify (\<lambda>s. s\<lparr>sb_ws := b\<rparr>))"
  by (auto simp: keeps_def draw_below_def sim_sleep_def modify_def require_authenticated_def bnd_def
      asks_def ret_def throw_def read_price_def dispatch_updates_def
      intro: sim_ok_same split: prod.splits)

lemma keeps_ok_gate: "keeps (sim_ok E) (ack_gate E timeout m n)"
  unfolding ack_gate_def by (intro keeps_bnd keeps_if keeps_throw keeps_ok_prims)

lemma keeps_ok_read: "keeps (sim_ok E) m \<Longrightarrow> keeps (sim_ok E) (sim_read E timeout m)"
  unfolding sim_read_def simulate_read_call_def by (intro keeps_sq keeps_ok_gate keeps_ok_pump)

lemma keeps_ok_decide: "keeps (sim_ok E) (decide_outcome E)"
  unfolding decide_outcome_def by (intro keeps_bnd keeps_if keeps_ret keeps_ok_prims)

lemmas keeps_ok =
  keeps_ok_prims keeps_ok_gate keeps_ok_read keeps_ok_pump keeps_ok_decide keeps_bnd keeps_sq
  keeps_asks keeps_option keeps_throw keeps_ret keeps_lift_sum keeps_map_act keeps_if

section \<open>Changing one order\<close>

lemma net_fills_update:
  "distinct (map fst os) \<Longrightarrow> map_of os oid = Some o1 \<Longrightarrow>
   net_fills k (AList.update oid o2 os) = net_fills k os + (contribution k o2 - contribution k o1)"
proof (induction os)
  case (Cons e os)
  then show ?case by (cases e) (auto simp: split: if_splits)
qed simp

lemma net_fills_new:
  "oid \<notin> fst ` set os \<Longrightarrow> net_fills k (AList.update oid o1 os) = net_fills k os + contribution k o1"
  by (induction os) (auto simp: image_iff)

lemma set_update: "set (AList.update oid o1 os) \<subseteq> insert (oid, o1) (set os)"
  by (induction os) auto

lemma put_order_ok:
  assumes "sim_ok E s" "map_of (sb_orders s) oid = Some o1" "sim_order_wf o2"
    "\<And>k. contribution k o2 = contribution k o1"
  shows "sim_ok E (s\<lparr>sb_orders := AList.update oid o2 (sb_orders s)\<rparr>)"
proof -
  have keys: "set (map fst (AList.update oid o2 (sb_orders s))) = set (map fst (sb_orders s))"
    using map_of_SomeD [OF assms(2)] by (force simp: update_keys)
  then show ?thesis
    using assms net_fills_update [OF _ assms(2), of _ o2] set_update [of oid o2 "sb_orders s"]
    unfolding sim_ok_def by (auto simp: distinct_update)
qed

lemma new_order_ok:
  assumes "sim_ok E s" "oid \<notin> fst ` set (sb_orders s)" "i < sb_ids s" "oid = ''SIM'' @ se_uuid E i"
    "sim_order_wf o1" "so_filled o1 = 0"
  shows "sim_ok E (s\<lparr>sb_orders := AList.update oid o1 (sb_orders s),
                     sb_by_tag := AList.update tag oid (sb_by_tag s)\<rparr>)"
proof -
  have "contribution k o1 = 0" for k using assms(6) by (simp add: contribution_def signed_delta_def)
  then show ?thesis
    using assms net_fills_new [OF assms(2), of _ o1] set_update [of oid o1 "sb_orders s"]
    unfolding sim_ok_def by (auto simp: update_keys)
qed

definition fresh_id :: "'p sim_env \<Rightarrow> string \<Rightarrow> 'p sim \<Rightarrow> bool" where
  "fresh_id E oid s \<longleftrightarrow>
     sim_ok E s \<and> oid \<notin> fst ` set (sb_orders s) \<and> (\<exists>i < sb_ids s. oid = ''SIM'' @ se_uuid E i)"

lemma next_id_fresh:
  "inj (se_uuid E) \<Longrightarrow> hoare (sim_ok E) (next_order_id E) (fresh_id E) (\<lambda>_. sim_ok E)"
proof (rule hoareI)
  fix s s' oid assume inj: "inj (se_uuid E)" and ok: "sim_ok E s" and n: "next_order_id E s = (s', Inr oid)"
  have s': "s' = s\<lparr>sb_ids := Suc (sb_ids s)\<rparr>" and oid: "oid = ''SIM'' @ se_uuid E (sb_ids s)"
    using n by (simp_all add: next_order_id_def)
  have "oid \<notin> fst ` set (sb_orders s)"
  proof
    assume "oid \<in> fst ` set (sb_orders s)"
    then obtain i where "i < sb_ids s" "oid = ''SIM'' @ se_uuid E i"
      using ok unfolding sim_ok_def set_map by blast
    then show False using injD [OF inj, of i "sb_ids s"] by (simp add: oid)
  qed
  then show "fresh_id E oid s'"
    using ok unfolding fresh_id_def by (auto simp: s' oid intro: sim_ok_same)
qed (simp add: next_order_id_def)

lemma keeps_fresh_prims:
  "keeps (fresh_id E oid) (draw_below E p)" "keeps (fresh_id E oid) (build_sim_order E oid' req outcome tm)"
  by (auto simp: keeps_def fresh_id_def draw_below_def build_sim_order_def Let_def intro: sim_ok_same)

lemma keeps_fresh_decide: "keeps (fresh_id E oid) (decide_outcome E)"
  unfolding decide_outcome_def by (intro keeps_bnd keeps_if keeps_ret keeps_fresh_prims)

lemma fresh_ok: "keeps (fresh_id E oid) m \<Longrightarrow>
    hoare (fresh_id E oid) m (\<lambda>_. fresh_id E oid) (\<lambda>_. sim_ok E)"
  by (rule hoare_post [OF hoare_of_keeps]) (auto simp: fresh_id_def)

lemma build_wf:
  "0 < pr_quantity req \<Longrightarrow> hoare (fresh_id E oid) (build_sim_order E oid req outcome tm)
     (\<lambda>o1 s. fresh_id E oid s \<and> sim_order_wf o1 \<and> so_filled o1 = 0) (\<lambda>_. sim_ok E)"
  by (auto simp: hoare_def build_sim_order_def Let_def sim_order_wf_def fresh_id_def intro: sim_ok_same)

lemma store_new:
  "hoare (\<lambda>s. fresh_id E oid s \<and> sim_order_wf o1 \<and> so_filled o1 = 0)
     (modify (\<lambda>s. s\<lparr>sb_orders := AList.update oid o1 (sb_orders s),
                    sb_by_tag := AList.update tag oid (sb_by_tag s)\<rparr>)) (\<lambda>_. sim_ok E) (\<lambda>_. sim_ok E)"
  by (auto simp: hoare_def modify_def fresh_id_def intro: new_order_ok)

lemma keeps_ok_place:
  assumes "inj (se_uuid E)" "0 < pr_quantity req"
  shows "keeps (sim_ok E) (sim_place E timeout req)"
proof (cases "get_by_symbol (se_catalog E) (pr_exchange req) (pr_symbol req)")
  case (Inl e)
  show ?thesis unfolding sim_place_def Inl sum.case by (intro keeps_ok)
next
  case (Inr i)
  have ok: "hoare (sim_ok E) m (\<lambda>_. sim_ok E) (\<lambda>_. sim_ok E)" if "keeps (sim_ok E) m" for m :: "('a, 'b) sim_act"
    by (rule hoare_of_keeps [OF that])
  have lost: "keeps (sim_ok E) (bnd (draw_below E (sc_ack_timeout (se_config E))) (\<lambda>lost.
      if lost then throw (BrokerTimeoutError ''Simulated ack timeout'')
      else bnd (pump E) (\<lambda>_. ret oid)))" for oid :: string
    by (intro keeps_ok)
  show ?thesis
    unfolding sim_place_def sq_def Inr sum.case keeps_hoare
    by (intro hoare_bnd [OF ok] hoare_bnd [OF next_id_fresh [OF assms(1)]]
        hoare_bnd [OF fresh_ok [OF keeps_fresh_decide]] hoare_bnd [OF build_wf [OF assms(2)]]
        hoare_bnd [OF store_new] hoare_of_keeps [OF lost] keeps_ok_prims keeps_ok_gate keeps_asks)
qed

lemma find_live_ok:
  "hoare (sim_ok E) (find_live oid e)
     (\<lambda>o1 s. sim_ok E s \<and> map_of (sb_orders s) oid = Some o1 \<and> \<not> sim_terminal (so_status o1)) (\<lambda>_. sim_ok E)"
  by (auto simp: hoare_def find_live_def bnd_def asks_def throw_def ret_def split: option.splits)

definition holds_order :: "'p sim_env \<Rightarrow> string \<Rightarrow> sim_order \<Rightarrow> 'p sim \<Rightarrow> bool" where
  "holds_order E oid o1 s \<longleftrightarrow>
     sim_ok E s \<and> map_of (sb_orders s) oid = Some o1 \<and> \<not> sim_terminal (so_status o1)"

lemma holds_order_wf: "holds_order E oid o1 s \<Longrightarrow> sim_order_wf o1"
  unfolding holds_order_def sim_ok_def by (auto dest: map_of_SomeD)

lemma put_changed:
  assumes "\<And>s. holds_order E oid o1 s \<Longrightarrow> sim_order_wf o2 \<and> (\<forall>k. contribution k o2 = contribution k o1)"
  shows "hoare (holds_order E oid o1) (sq (put_order oid o2) (dispatch_order o2)) (\<lambda>_. sim_ok E) (\<lambda>_. sim_ok E)"
  unfolding sq_def put_order_def
proof (rule hoare_bnd)
  show "hoare (holds_order E oid o1) (modify (\<lambda>s. s\<lparr>sb_orders := AList.update oid o2 (sb_orders s)\<rparr>))
      (\<lambda>_. sim_ok E) (\<lambda>_. sim_ok E)"
    using assms by (auto simp: hoare_def modify_def holds_order_def intro: put_order_ok)
  show "hoare (sim_ok E) (dispatch_order o2) (\<lambda>_. sim_ok E) (\<lambda>_. sim_ok E)" for x :: unit
    unfolding dispatch_order_def keeps_hoare [symmetric] by (intro keeps_ok)
qed

lemma modified_ok:
  assumes "sim_order_wf o1" "\<not> sim_terminal (so_status o1)"
    "case mr_quantity req of None \<Rightarrow> True | Some q \<Rightarrow> 0 < q \<and> so_filled o1 \<le> q"
  shows "sim_order_wf (modified req tm o1) \<and> (\<forall>k. contribution k (modified req tm o1) = contribution k o1)"
  using assms by (auto simp: modified_def sim_order_wf_def contribution_def order_key_def sim_terminal_def
      split: option.splits)

lemma cancelled_ok:
  "sim_order_wf o1 \<Longrightarrow>
   sim_order_wf (cancelled tm o1) \<and> (\<forall>k. contribution k (cancelled tm o1) = contribution k o1)"
  by (auto simp: cancelled_def sim_order_wf_def contribution_def order_key_def)

definition modify_request_ok :: "modify_request \<Rightarrow> bool" where
  "modify_request_ok req \<longleftrightarrow> (case mr_quantity req of None \<Rightarrow> True | Some q \<Rightarrow> 0 < q)"

lemma find_live_holds:
  "hoare (sim_ok E) (find_live oid e) (\<lambda>o1. holds_order E oid o1) (\<lambda>_. sim_ok E)"
  by (rule hoare_post [OF find_live_ok]) (simp_all add: holds_order_def)

lemma asks_holds:
  "hoare (holds_order E oid o1) (asks f) (\<lambda>_. holds_order E oid o1) (\<lambda>_. sim_ok E)"
  by (simp add: hoare_def asks_def)

lemma keeps_ok_modify: "modify_request_ok req \<Longrightarrow> keeps (sim_ok E) (sim_modify E timeout req)"
proof -
  assume q: "modify_request_ok req"
  have ok: "hoare (sim_ok E) m (\<lambda>_. sim_ok E) (\<lambda>_. sim_ok E)" if "keeps (sim_ok E) m" for m :: "('a, 'b) sim_act"
    by (rule hoare_of_keeps [OF that])
  have change: "hoare (holds_order E (mr_order_id req) o1)
      (if (case mr_quantity req of None \<Rightarrow> False | Some q \<Rightarrow> q < so_filled o1)
       then throw (InvalidOrderRequestError ''Cannot modify quantity below what has already filled'')
       else bnd (asks sb_clock) (\<lambda>tm.
         sq (put_order (mr_order_id req) (modified req tm o1)) (dispatch_order (modified req tm o1))))
      (\<lambda>_. sim_ok E) (\<lambda>_. sim_ok E)" for o1
  proof (rule hoare_if)
    assume "\<not> (case mr_quantity req of None \<Rightarrow> False | Some q \<Rightarrow> q < so_filled o1)"
    then have "case mr_quantity req of None \<Rightarrow> True | Some q \<Rightarrow> 0 < q \<and> so_filled o1 \<le> q"
      using q by (auto simp: modify_request_ok_def split: option.splits)
    then have m: "holds_order E (mr_order_id req) o1 s \<Longrightarrow>
        sim_order_wf (modified req tm o1) \<and> (\<forall>k. contribution k (modified req tm o1) = contribution k o1)" for s tm
      using modified_ok holds_order_wf by (simp add: holds_order_def) blast
    show "hoare (holds_order E (mr_order_id req) o1) (bnd (asks sb_clock) (\<lambda>tm.
         sq (put_order (mr_order_id req) (modified req tm o1)) (dispatch_order (modified req tm o1))))
      (\<lambda>_. sim_ok E) (\<lambda>_. sim_ok E)"
      by (rule hoare_bnd [OF asks_holds put_changed]) (rule m)
  qed (rule hoare_throw', simp add: holds_order_def)
  show ?thesis
    unfolding sim_modify_def keeps_hoare sq_def
    by (intro hoare_bnd [OF ok] hoare_bnd [OF find_live_holds] change [unfolded sq_def]
        keeps_ok_prims keeps_ok_gate)
qed

lemma keeps_ok_cancel: "keeps (sim_ok E) (sim_cancel E timeout oid)"
proof -
  have ok: "hoare (sim_ok E) m (\<lambda>_. sim_ok E) (\<lambda>_. sim_ok E)" if "keeps (sim_ok E) m" for m :: "('a, 'b) sim_act"
    by (rule hoare_of_keeps [OF that])
  have change: "hoare (holds_order E oid o1) (bnd (asks sb_clock) (\<lambda>tm.
      sq (put_order oid (cancelled tm o1)) (dispatch_order (cancelled tm o1)))) (\<lambda>_. sim_ok E) (\<lambda>_. sim_ok E)" for o1
    by (rule hoare_bnd [OF asks_holds put_changed]) (rule cancelled_ok [OF holds_order_wf])
  show ?thesis
    unfolding sim_cancel_def keeps_hoare sq_def
    by (intro hoare_bnd [OF ok] hoare_bnd [OF find_live_holds] change [unfolded sq_def]
        keeps_ok_prims keeps_ok_gate)
qed

lemma keeps_ok_reads:
  "keeps (sim_ok E) (sim_get_order E timeout oid)" "keeps (sim_ok E) (sim_get_orders E timeout)"
  "keeps (sim_ok E) (sim_find_tag E timeout tag)" "keeps (sim_ok E) (sim_get_positions E timeout)"
  "keeps (sim_ok E) (sim_get_margins E timeout)" "keeps (sim_ok E) (sim_authenticate E)"
  "keeps (sim_ok E) (sim_connect_websocket E)" "keeps (sim_ok E) sim_disconnect_websocket"
  unfolding sim_get_order_def sim_get_orders_def sim_find_tag_def sim_get_positions_def
    sim_get_margins_def position_report_def case_prod_beta Let_def sim_authenticate_def
    sim_connect_websocket_def sim_disconnect_websocket_def
  by (intro keeps_ok)+

section \<open>Sequences of operations\<close>

datatype sim_op =
    OpPlace place_request
  | OpModify modify_request
  | OpCancel string
  | OpGetOrder string
  | OpGetOrders
  | OpFindTag string
  | OpGetPositions
  | OpGetMargins
  | OpAuthenticate
  | OpConnect
  | OpDisconnect
  | OpWait nat

definition done_with :: "('p, 'a) sim_act \<Rightarrow> 'p sim \<Rightarrow> 'p sim" where
  "done_with m s = fst (m s)"

fun run_op :: "'p sim_env \<Rightarrow> sim_op \<Rightarrow> 'p sim \<Rightarrow> 'p sim" where
  "run_op E (OpPlace req) = done_with (bnd (lift_sum (mk_place_request req)) (sim_place E None))"
| "run_op E (OpModify req) = done_with (sim_modify E None req)"
| "run_op E (OpCancel oid) = done_with (sim_cancel E None oid)"
| "run_op E (OpGetOrder oid) = done_with (sim_get_order E None oid)"
| "run_op E OpGetOrders = done_with (sim_get_orders E None)"
| "run_op E (OpFindTag tag) = done_with (sim_find_tag E None tag)"
| "run_op E OpGetPositions = done_with (sim_get_positions E None)"
| "run_op E OpGetMargins = done_with (sim_get_margins E None)"
| "run_op E OpAuthenticate = done_with (sim_authenticate E)"
| "run_op E OpConnect = done_with (sim_connect_websocket E)"
| "run_op E OpDisconnect = done_with sim_disconnect_websocket"
| "run_op E (OpWait n) = done_with (sim_sleep n)"

definition op_ok :: "sim_op \<Rightarrow> bool" where
  "op_ok x = (case x of OpModify req \<Rightarrow> modify_request_ok req | _ \<Rightarrow> True)"

definition new_sim :: "'p \<Rightarrow> dt \<Rightarrow> 'p sim" where
  "new_sim prices tm =
     \<lparr>sb_authenticated = False, sb_ws = False, sb_orders = [], sb_by_tag = [], sb_positions = [],
      sb_draws = 0, sb_ids = 0, sb_prices = prices, sb_clock = tm, sb_pushed = []\<rparr>"

lemma new_sim_ok: "sim_ok E (new_sim prices tm)"
  by (simp add: sim_ok_def new_sim_def ledger_get_def empty_position_def)

lemma done_with_ok: "keeps I m \<Longrightarrow> I s \<Longrightarrow> I (done_with m s)"
  by (simp add: keeps_def done_with_def)

lemma run_op_ok: "inj (se_uuid E) \<Longrightarrow> op_ok x \<Longrightarrow> sim_ok E s \<Longrightarrow> sim_ok E (run_op E x s)"
proof (cases x)
  case (OpPlace req)
  assume "inj (se_uuid E)" "sim_ok E s"
  then show ?thesis using OpPlace keeps_ok_place [of E req None]
    by (auto simp: done_with_def bnd_def lift_sum_def keeps_def mk_place_request_ok split: sum.split)
qed (simp_all add: done_with_ok keeps_ok_reads keeps_ok_cancel keeps_ok_prims op_ok_def keeps_ok_modify)

lemma run_ops_ok:
  "inj (se_uuid E) \<Longrightarrow> \<forall>x \<in> set ops. op_ok x \<Longrightarrow> sim_ok E s \<Longrightarrow> sim_ok E (fold (run_op E) ops s)"
  by (induction ops arbitrary: s) (simp_all add: run_op_ok)

text \<open>
  C29: from an empty simulation broker, after any sequence of placements, modifications,
  cancellations and reads, with any outcomes, prices and failures, the net position of every
  instrument is the sum of the signed fills of its orders, and no order is filled beyond its
  quantity or marked COMPLETE while something is left to fill.
\<close>

theorem sim_ledger_is_sum_of_fills:
  assumes "inj (se_uuid E)" "\<forall>x \<in> set ops. op_ok x" "s = fold (run_op E) ops (new_sim prices tm)"
  shows "sp_quantity (ledger_get (sb_positions s) k) = net_fills k (sb_orders s) \<and>
    (\<forall>(oid, o1) \<in> set (sb_orders s). 0 \<le> so_filled o1 \<and> so_filled o1 \<le> so_quantity o1 \<and>
       (so_status o1 = COMPLETE \<longrightarrow> so_filled o1 = so_quantity o1))"
  using run_ops_ok [OF assms(1,2) new_sim_ok [of E prices tm]] assms(3)
  unfolding sim_ok_def sim_order_wf_def by fastforce

definition demo_sim_config :: sim_config where
  "demo_sim_config =
     \<lparr>sc_synchronous = True, sc_ack_latency = 2, sc_fill_latency = 5,
      sc_auth_should_fail = False, sc_connection_failure = 0, sc_ack_timeout = 0, sc_rejection = 0,
      sc_partial_fill = 1, sc_min_steps = 2, sc_max_steps = 3, sc_ws_failure = 0,
      sc_initial_cash = 1000000, sc_margin_per_lot = 50000\<rparr>"

definition demo_contract :: "string \<Rightarrow> option_type \<Rightarrow> broker_instrument" where
  "demo_contract symbol ot =
     \<lparr>bi_token = 1, bi_exchange = NFO, bi_symbol = symbol, bi_name = ''NIFTY'', bi_lot_size = 75,
      bi_tick_size = 5/100, bi_expiry = Some 20000, bi_strike = Some 24000, bi_option_type = Some ot\<rparr>"

definition demo_catalog :: catalog where
  "demo_catalog =
     \<lparr>ca_symbols = [((NFO, ''CALL''), demo_contract ''CALL'' CE), ((NFO, ''PUT''), demo_contract ''PUT'' PE)],
      ca_options = [((''NIFTY'', 20000, 24000, CE, NFO), demo_contract ''CALL'' CE),
                    ((''NIFTY'', 20000, 24000, PE, NFO), demo_contract ''PUT'' PE)]\<rparr>"

definition demo_env :: "price_table sim_env" where
  "demo_env =
     \<lparr>se_config = demo_sim_config, se_catalog = demo_catalog, se_random = (\<lambda>n. 1/2),
      se_randint = (\<lambda>n lo hi. hi), se_uuid = (\<lambda>n. replicate n CHR ''0''), se_price = static_ltp\<rparr>"

definition demo_prices :: price_table where
  "demo_prices =
     [(\<lparr>ii_exchange = NFO, ii_symbol = ''CALL''\<rparr>, 100), (\<lparr>ii_exchange = NFO, ii_symbol = ''PUT''\<rparr>, 80)]"

definition demo_request :: "string \<Rightarrow> transaction_type \<Rightarrow> int \<Rightarrow> place_request" where
  "demo_request symbol side qty =
     \<lparr>pr_exchange = NFO, pr_symbol = symbol, pr_side = side, pr_quantity = qty,
      pr_product = INTRADAY, pr_order_type = MARKET, pr_price = None, pr_trigger = None,
      pr_tag = ''T''\<rparr>"

definition demo_ops :: "sim_op list" where
  "demo_ops = [OpAuthenticate, OpPlace (demo_request ''CALL'' SELL 75), OpPlace (demo_request ''CALL'' BUY 25)]"

lemma demo_uuid_inj: "inj (se_uuid demo_env)"
  by (auto simp: demo_env_def inj_def dest: arg_cong [of _ _ length])

theorem sim_ledger_witness:
  "sp_quantity (ledger_get (sb_positions (fold (run_op demo_env) demo_ops (new_sim demo_prices 0)))
     (NFO, ''CALL'', INTRADAY)) =
   net_fills (NFO, ''CALL'', INTRADAY) (sb_orders (fold (run_op demo_env) demo_ops (new_sim demo_prices 0)))"
  using sim_ledger_is_sum_of_fills [OF demo_uuid_inj, of demo_ops _ demo_prices 0]
  by (simp add: demo_ops_def op_ok_def)

section \<open>The synchronous drain\<close>

definition prices_known :: "'p sim_env \<Rightarrow> bool" where
  "prices_known E \<longleftrightarrow> (\<forall>i p. \<exists>q x. se_price E i p = (q, Inr x))"

lemma to_broker_order_ok: "sim_order_wf o1 \<Longrightarrow> to_broker_order o1 = Inr (snapshot_order o1)"
  by (simp add: to_broker_order_def mk_broker_order_def snapshot_order_def sim_order_wf_def)

lemma process_answer:
  assumes "process_due_order E True o1 s = (o2, s2, r)" "prices_known E"
  shows "if sim_terminal (so_status o1) then r = Inr None \<and> o2 = o1
         else r = map_sum id Some (to_broker_order o2)"
  using assms(1) assms(2) [unfolded prices_known_def, rule_format,
      of "\<lparr>ii_exchange = so_exchange o1, ii_symbol = so_symbol o1\<rparr>" "sb_prices s"]
  by (auto simp: process_due_order_def Let_def split: if_splits prod.splits)

lemma resolve_list_answer:
  "resolve_list E True os s = (os', s', r) \<Longrightarrow> prices_known E \<Longrightarrow> \<forall>(i, o1) \<in> set os. sim_order_wf o1 \<Longrightarrow>
   \<exists>us. r = Inr us \<and> (us = [] \<longrightarrow> os' = os \<and> (\<forall>(i, o1) \<in> set os. sim_terminal (so_status o1)))"
proof (induction E "True" os s arbitrary: os' s' r rule: resolve_list.induct)
  case (2 E i o1 os s)
  obtain o2 s2 x where p: "process_due_order E True o1 s = (o2, s2, x)" by (metis prod_cases3)
  obtain os2 s3 y where q: "resolve_list E True os s2 = (os2, s3, y)" by (metis prod_cases3)
  have wf: "sim_order_wf o1" "\<forall>(i, o1) \<in> set os. sim_order_wf o1" using "2.prems"(3) by auto
  have x: "if sim_terminal (so_status o1) then x = Inr None \<and> o2 = o1
           else x = Inr (Some (snapshot_order o2))"
    using process_answer [OF p "2.prems"(2)] process_ok [OF p wf(1)] to_broker_order_ok [of o2] by simp
  then obtain u where u: "x = Inr u" by (auto split: if_splits)
  from "2.hyps" [OF p [symmetric] refl u q "2.prems"(2) wf(2)] obtain us where
    us: "y = Inr us" "us = [] \<longrightarrow> os2 = os \<and> (\<forall>(i, o1) \<in> set os. sim_terminal (so_status o1))"
    by blast
  have os': "os' = (i, o2) # os2" and r: "r = Inr (case u of None \<Rightarrow> us | Some y \<Rightarrow> y # us)"
    using "2.prems"(1) p q u us(1) by simp_all
  show ?case
  proof (cases "sim_terminal (so_status o1)")
    case True
    then show ?thesis using x u us(2) os' r by simp
  next
    case False
    then show ?thesis using x u r by simp
  qed
qed simp

text \<open>
  In the synchronous mode the drain always returns, and when the price source knows every
  instrument it returns normally with every order of the book in a terminal state.
\<close>

theorem drain_settles_every_order:
  assumes "prices_known E" "sim_ok E s"
  shows "\<exists>s'. drain E s = (s', Inr ()) \<and> list_all (\<lambda>(oid, o1). sim_terminal (so_status o1)) (sb_orders s')"
  using assms
proof (induction E s rule: drain.induct)
  case (1 E s)
  obtain os s1 r where l: "resolve_list E True (sb_orders s) s = (os, s1, r)" by (metis prod_cases3)
  have wf: "\<forall>(i, o1) \<in> set (sb_orders s). sim_order_wf o1" using "1.prems"(2) by (simp add: sim_ok_def)
  obtain us where us: "r = Inr us"
      "us = [] \<longrightarrow> os = sb_orders s \<and> (\<forall>(i, o1) \<in> set (sb_orders s). sim_terminal (so_status o1))"
    using resolve_list_answer [OF l "1.prems"(1) wf] by blast
  define s2 where "s2 = dispatch_updates us (s1\<lparr>sb_orders := os\<rparr>)"
  have d: "resolve_due_orders E True s = (s2, Inr us)"
    by (simp add: resolve_due_orders_def l us(1) s2_def)
  show ?case
  proof (cases "us = []")
    case True
    then show ?thesis using us(2) by (simp add: drain.simps [of E s] d s2_def list_all_iff)
  next
    case False
    have "sim_ok E s2" using resolve_due_ok [OF "1.prems"(2), of True] d by simp
    then show ?thesis using "1.IH" [OF d [symmetric] refl False "1.prems"(1)] False
      by (simp add: drain.simps [of E s] d)
  qed
qed

definition flat_env :: "unit sim_env" where
  "flat_env = \<lparr>se_config = demo_sim_config, se_catalog = demo_catalog, se_random = (\<lambda>n. 1/2),
     se_randint = (\<lambda>n lo hi. hi), se_uuid = (\<lambda>n. replicate n CHR ''0''),
     se_price = (\<lambda>i p. (p, Inr 100))\<rparr>"

definition demo_sim_order :: sim_order where
  "demo_sim_order = \<lparr>so_id = ''SIM'', so_tag = ''T'', so_exchange = NFO, so_symbol = ''CALL'',
     so_side = SELL, so_product = INTRADAY, so_quantity = 75, so_type = MARKET, so_price = None,
     so_trigger = None, so_status = OS_OPEN, so_filled = 0, so_avg = None, so_placed_at = 0,
     so_filled_at = None, so_updated_at = 0, so_message = None, so_outcome = PARTIAL_THEN_FILL,
     so_resolve_at = 0, so_steps = 3, so_step_qty = 25\<rparr>"

definition demo_book :: "unit sim" where
  "demo_book = (new_sim () 0)\<lparr>sb_orders := [(''SIM'', demo_sim_order)], sb_ids := 1\<rparr>"

theorem drain_settles_witness:
  "\<exists>s'. drain flat_env demo_book = (s', Inr ()) \<and>
        list_all (\<lambda>(oid, o1). sim_terminal (so_status o1)) (sb_orders s')"
proof (rule drain_settles_every_order)
  show "prices_known flat_env" by (simp add: prices_known_def flat_env_def)
  show "sim_ok flat_env demo_book"
    by (simp add: sim_ok_def demo_book_def new_sim_def flat_env_def demo_sim_order_def
        sim_order_wf_def contribution_def signed_delta_def ledger_get_def empty_position_def)
qed

section \<open>Cash is conserved by a fill\<close>

definition opposes :: "sim_position \<Rightarrow> transaction_type \<Rightarrow> bool" where
  "opposes p side \<longleftrightarrow> (0 < sp_quantity p \<and> side = SELL) \<or> (sp_quantity p < 0 \<and> side = BUY)"

text \<open>
  A fill conserves value at every mark price: realized plus open profit changes by the
  value of the bought or sold quantity at the mark minus its price, exactly when the fill
  reduces, closes or flips the position, and up to the rounding of the average to 28 digits when
  it adds to it.
\<close>

theorem fill_conserves_value:
  assumes "0 < qty"
  shows "\<bar>position_value (update_position p side qty price) mark
           - (position_value p mark + of_int (signed_delta side qty) * (mark - price))\<bar>
         \<le> (if opposes p side then 0
            else \<bar>sp_avg p * of_int \<bar>sp_quantity p\<bar> + price * of_int qty\<bar> / (2 * 10 ^ 27))"
proof (cases "opposes p side")
  case True
  then have "sp_quantity p \<noteq> 0" "(0 < sp_quantity p) \<noteq> (0 < signed_delta side qty)"
    using assms by (auto simp: opposes_def signed_delta_def)
  then show ?thesis using position_value_closing [of p side qty price mark] True assms by simp
next
  case False
  then have "sp_quantity p = 0 \<or> (0 < sp_quantity p) = (0 < signed_delta side qty)"
    using assms by (cases side) (auto simp: opposes_def signed_delta_def)
  then show ?thesis using position_value_adding [OF _ assms] False by simp
qed

theorem fill_conserves_value_witness:
  "\<bar>position_value (update_position empty_position SELL 75 100) 90
     - (position_value empty_position 90 + of_int (signed_delta SELL 75) * (90 - 100))\<bar> \<le> 3 / 10 ^ 20"
  using fill_conserves_value [of 75 empty_position SELL 100 90]
  by (simp add: opposes_def empty_position_def split: if_splits)

end
