(* ===== verification/Entry_Sim.thy ===== *)
theory Entry_Sim
  imports Entry_Proofs Sim_Proofs
begin

text \<open>
  The entry on top of the simulation broker: the interface \<open>broker_book\<close> instantiated with the
  broker's own book, and a concrete context for witnesses.
\<close>

section \<open>Every simulated order was announced\<close>

definition sim_announced :: "'p sim world \<Rightarrow> bool" where
  "sim_announced w \<longleftrightarrow>
     (\<forall>(oid, o1) \<in> set (sb_orders (w_bk w)). tag_started (so_tag o1) (w_db w))"

text \<open>
  An entry over the simulation broker never puts an order in the broker's book that no
  durable intent announced: if every order held before is announced by an intent that was marked
  started, the same is true after \<open>enter\<close>, for every outcome and failure the broker draws,
  whatever the other actors do between the units of work and even when the process dies midway.
\<close>

theorem simulated_orders_announced:
  assumes "cx_broker cx = sim_broker E timeout" and "ctx_keeps sim_announced cx" and "sim_announced w"
  shows "\<forall>(oid, o1) \<in> set (sb_orders (w_bk (fst (enter cx w)))).
           tag_started (so_tag o1) (w_db (fst (enter cx w)))"
proof -
  have eq: "sim_announced = broker_book.intent_first sim_book"
    by (force simp: fun_eq_iff broker_book.intent_first_def [OF sim_book.broker_book_axioms]
        sim_announced_def sim_book_def)
  have "keeps sim_announced (enter cx)"
    using broker_book.f_enter [OF sim_book.broker_book_axioms assms(1)] assms(2) unfolding eq .
  then show ?thesis using assms(3) by (simp add: keeps_def sim_announced_def)
qed

section \<open>A concrete context\<close>

definition demo_identity :: identity where
  "demo_identity = \<lparr>id_instance = 1, id_strategy = ''strategy_1'', id_instrument = ''NIFTY'',
     id_account = 1, id_exchange = NFO\<rparr>"

definition demo_config :: strategy_config where
  "demo_config = \<lparr>sc_entry_time = 0, sc_cutoff = 1, sc_target_pct = 1/10, sc_sl_pct = 1/5,
     sc_lots = 1, sc_product = INTRADAY, sc_skip_expiry = False, sc_monitoring = 2, sc_polling = 1,
     sc_retry = \<lparr>rs_attempts = 2, rs_delay = 1, rs_close_attempts = 2, rs_close_delay = 1\<rparr>\<rparr>"

definition demo_cx :: "bool \<Rightarrow> price_table sim ctx" where
  "demo_cx halted =
     \<lparr>cx_id = demo_identity, cx_config = demo_config, cx_broker = sim_broker demo_env None,
      cx_halted = ret halted,
      cx_approve = (\<lambda>n. ret \<lparr>rd_approved = True, rd_reason = None\<rparr>),
      cx_spec = (\<lambda>i. Inr \<lparr>is_instrument = ''NIFTY'', is_exchange = NFO, is_strike_interval = 50,
        is_lot_size = 75, is_tick_size = 5/100, is_underlying = None\<rparr>),
      cx_expiry = (\<lambda>i d. ret 20000), cx_spot = (\<lambda>i. ret 24010), cx_history = (\<lambda>p. ret ())\<rparr>"

definition demo_position :: position_row where
  "demo_position = \<lparr>p_instance = 1, p_date = 0, p_state = ENTRY_PENDING, p_expiry = None,
     p_strike = None, p_interval = None, p_lots = None, p_lot_size = None, p_quantity = None,
     p_spot = None, p_target_pct = None, p_sl_pct = None, p_entry_premium = None, p_target = None,
     p_stoploss = None, p_exit_premium = None, p_exit_reason = None, p_pnl = None,
     p_entry_signal = None, p_entry_done = None, p_exit_signal = None, p_exit_done = None,
     p_error = None, p_recon = False, p_version = 1\<rparr>"

definition demo_world :: "position_row list \<Rightarrow> price_table sim world" where
  "demo_world ps =
     \<lparr>w_db = empty_db\<lparr>d_positions := map (\<lambda>p. (1, p)) ps\<rparr>,
      w_bk = fst (sim_authenticate demo_env (new_sim demo_prices 0)), w_now = 1000, w_env = [],
      w_exit_lock = False\<rparr>"

lemma demo_sim_orders: "sb_orders (w_bk (demo_world ps)) = []"
  by (simp add: demo_world_def sim_authenticate_def new_sim_def demo_env_def demo_sim_config_def
      sq_def bnd_def sim_sleep_def modify_def)

lemma demo_today: "ist_date (w_now (demo_world ps)) = 0"
  by (simp add: demo_world_def ist_date_def ist_offset_def day_micros_def)

theorem simulated_orders_announced_witness:
  "sim_announced (fst (enter (demo_cx False) (demo_world [])))"
  unfolding sim_announced_def
  by (rule simulated_orders_announced [where E = demo_env and timeout = None])
    (simp_all add: demo_cx_def ctx_keeps_def keeps_ret demo_sim_orders sim_announced_def)

theorem no_second_entry_witness:
  "w_bk (fst (enter (demo_cx False) (demo_world [demo_position]))) = w_bk (demo_world [demo_position])"
proof -
  have "position_exists (id_instance (cx_id (demo_cx False)))
      (ist_date (w_now (demo_world [demo_position]))) (w_db (demo_world [demo_position]))"
    unfolding demo_today
    by (simp add: demo_cx_def demo_identity_def demo_world_def demo_position_def position_exists_def)
  then show ?thesis by (rule no_second_entry [THEN conjunct1])
qed

theorem blocked_entry_witness:
  "w_bk (fst (enter (demo_cx True) (demo_world []))) = w_bk (demo_world [])"
  by (rule blocked_entry_sends_nothing [THEN conjunct1])
    (simp_all add: demo_cx_def ret_def demo_world_def)

end
