(* ===== verification/Exit_Proofs.thy ===== *)
theory Exit_Proofs
  imports Exit Entry_Sim
begin

text \<open>
  Correctness of the exit: invariants of every transaction are invariants of the whole exit, every
  close order is announced by a durable intent that was marked started, an EXITED result means a
  CLOSED position whose profit is the sum of its legs, an exit that already runs or a position
  already closed sends nothing, and a failed exit freezes the instance.
\<close>

section \<open>Invariants through the exit\<close>

lemma keeps_both: "keeps I m \<Longrightarrow> keeps J m \<Longrightarrow> keeps (\<lambda>s. I s \<and> J s) m"
  by (simp add: keeps_def)

lemma keeps_close_check [keeps_intro]:
  "(\<And>r. keeps I (a r)) \<Longrightarrow> (\<And>b t. keeps I (f b t)) \<Longrightarrow>
   keeps I (case x of Inl r \<Rightarrow> a r | Inr (b, t) \<Rightarrow> f b t)"
  by (cases x) (auto split: prod.split)

lemma keeps_lock: "keeps (on_db I) (modify (\<lambda>w. w\<lparr>w_exit_lock := b\<rparr>))"
  by (simp add: keeps_def modify_def on_db_def)

context tx_invariant
begin

lemma x_prepare_legs: "keeps I (prepare_legs inst td ts legs)"
  by (induction ts arbitrary: legs) (auto intro!: keeps_intro tx_keeps)

lemma x_prepare_body: "keeps I (prepare_body inst td reason ac)"
  unfolding prepare_body_def by (intro keeps_intro tx_keeps x_prepare_legs)

lemma x_close_rejection_body: "keeps I (close_rejection_body inst td leg m pre)"
  unfolding close_rejection_body_def by (intro keeps_intro tx_keeps)

lemma x_close_fill_body: "keeps I (close_fill_body leg p t)"
  unfolding close_fill_body_def by (intro keeps_intro tx_keeps)

lemma x_confirm_close_body: "keeps I (confirm_close_body inst td leg oid t)"
  unfolding confirm_close_body_def by (intro keeps_intro tx_keeps)

lemma x_mark_started_body: "keeps I (mark_started_body iid t)"
  unfolding mark_started_body_def by (intro keeps_intro tx_keeps)

lemma x_close_check_body: "keeps I (close_check_body leg)"
  unfolding close_check_body_def by (intro keeps_intro tx_keeps)

lemma x_finalize_exit_body: "keeps I (finalize_exit_body pid reason ac t)"
  unfolding finalize_exit_body_def by (intro keeps_intro tx_keeps k_upd_position) simp

lemmas exit_bodies =
  x_prepare_body x_close_rejection_body x_close_fill_body x_confirm_close_body
  x_mark_started_body x_close_check_body x_finalize_exit_body e_fail_body

lemma x_reconcile_at: "keeps (on_db I) (reconcile_at oid bo t)"
  unfolding reconcile_at_def by (intro keeps_catch_if keeps_ret keeps_unit_of_work tx_keeps)

lemma x_mark_failed: "keeps (on_db I) (exit_mark_intent_failed iid)"
  unfolding exit_mark_intent_failed_def by (intro keeps_unit_of_work keeps_intro tx_keeps)

lemma x_record_close_rejection: "keeps (on_db I) (record_close_rejection cx leg m known)"
  unfolding record_close_rejection_def
  by (intro keeps_sq keeps_option keeps_prod keeps_bnd keeps_ret keeps_world x_reconcile_at
      keeps_unit_of_work exit_bodies)

lemma x_record_close_fill: "keeps (on_db I) (record_close_fill leg oid p bo)"
  unfolding record_close_fill_def Let_def
  by (intro keeps_sq keeps_bnd keeps_world x_reconcile_at keeps_unit_of_work exit_bodies)

lemma x_poll: "keeps (on_db I) (exit_poll cx oid)"
  unfolding exit_poll_def by (rule e_poll)

lemmas exit_steps =
  x_reconcile_at x_mark_failed x_record_close_rejection x_record_close_fill x_poll

lemma x_confirm_close: "keeps (on_db I) (confirm_close cx leg oid)"
  unfolding confirm_close_def
  by (intro keeps_sq keeps_bnd keeps_option keeps_if keeps_ret keeps_world exit_steps
      keeps_unit_of_work exit_bodies)

lemma x_send_close: "keeps (on_db I) (send_close cx leg req n why)"
proof (induction n arbitrary: why)
  case 0
  show ?case unfolding send_close.simps by (intro keeps_sq keeps_ret exit_steps)
next
  case (Suc n)
  show ?case unfolding send_close.simps
    by (intro keeps_bnd keeps_try_sum keeps_placement keeps_sq keeps_do_if keeps_ret keeps_world
        exit_steps x_confirm_close Suc.IH)
qed

lemma x_place_close: "keeps (on_db I) (place_close_with_retries cx leg tag)"
  unfolding place_close_with_retries_def
  by (intro keeps_bnd keeps_sq keeps_lift_sum keeps_world keeps_unit_of_work exit_bodies x_send_close)

lemma x_adopt: "keeps (on_db I) (adopt_existing_order cx leg tag)"
  unfolding adopt_existing_order_def
  by (intro keeps_bnd keeps_sq keeps_option keeps_if keeps_ret keeps_catch_if keeps_world exit_steps)

lemma x_close_leg: "keeps (on_db I) (close_leg cx leg)"
  unfolding close_leg_def
  by (intro keeps_bnd keeps_option keeps_if keeps_ret keeps_close_check x_adopt x_place_close
      keeps_unit_of_work exit_bodies)

lemma x_close_legs: "keeps (on_db I) (close_legs cx legs)"
  by (induction legs) (auto intro!: keeps_bnd keeps_ret x_close_leg)

lemma x_record_break: "keeps (on_db I) (exit_record_break pid bt)"
  unfolding exit_record_break_def by (rule e_record_break)

lemma x_fail_to_error: "keeps (on_db I) (exit_fail_to_error cx pid oc m)"
  unfolding exit_fail_to_error_def by (intro keeps_sq keeps_ret keeps_unit_of_work exit_bodies)

lemma x_finalize_closed:
  "(\<And>p. keeps (on_db I) (cx_history cx p)) \<Longrightarrow> keeps (on_db I) (finalize_closed cx px reason ac)"
  unfolding finalize_closed_def record_trade_history_def
  by (intro keeps_bnd keeps_sq keeps_option keeps_ret keeps_catch_if keeps_world keeps_unit_of_work
      exit_bodies x_record_break)

lemma x_exit:
  assumes "\<And>p. keeps (on_db I) (cx_history cx p)"
  shows "keeps (on_db I) (exit_position cx reason)"
  unfolding exit_position_def exit_locked_def prepare_exit_def conclude_exit_def Let_def
  by (intro keeps_bnd keeps_sq keeps_if keeps_sum keeps_ret keeps_asks keeps_finally keeps_lock
      keeps_world keeps_unit_of_work exit_bodies x_close_legs x_finalize_closed x_record_break
      x_fail_to_error assms) (simp add: on_db_def)

end

section \<open>Every close order is announced\<close>

definition has_tag :: "nat \<Rightarrow> string \<Rightarrow> db \<Rightarrow> bool" where
  "has_tag iid tag d \<longleftrightarrow> (case t_get (d_intents d) iid of None \<Rightarrow> False | Some r \<Rightarrow> i_tag r = tag)"

lemma has_tag_grows: "has_tag iid tag d0 \<Longrightarrow> intents_grow d0 d \<Longrightarrow> has_tag iid tag d"
  unfolding has_tag_def intents_grow_def intent_le_def by (auto split: option.splits) fastforce+

text \<open>Whatever grows with the intents is kept by every transaction and every other actor.\<close>

lemma grows_tx_invariant:
  assumes "\<And>d0 d. J d0 \<Longrightarrow> intents_grow d0 d \<Longrightarrow> J d"
  shows "tx_invariant J"
proof (unfold_locales, goal_cases)
  case (1 d e tm) then show ?case by (rule assms) (rule grow_inv.env_keeps, simp)
next
  case (11 d pid r q) then show ?case
    by (elim assms) (rule grow_inv.position_update [where r = r], simp_all)
next
  case (13 d pid st ac reason) then show ?case by (rule assms) (rule grow_inv.transition, simp)
next
  case (14 d iid ir iq) then show ?case
    by (elim assms) (rule grow_inv.intent_update [where ir = ir], simp_all)
next
  case (15 d irow) then show ?case by (rule assms) (rule grow_inv.intent_insert, simp)
qed (erule assms, rule intents_grow_same_table [OF intents_grow_refl], simp)+

interpretation tag_inv: tx_invariant "has_tag iid tag" for iid tag
  by (rule grows_tx_invariant) (rule has_tag_grows)

interpretation started_inv: tx_invariant "tag_started tag" for tag
  by (rule grows_tx_invariant) (rule tag_started_grows)

context broker_book
begin

lemma g_steps:
  "keeps intent_first (reconcile_at oid bo t)" "keeps intent_first (exit_mark_intent_failed iid)"
  "keeps intent_first (record_close_rejection cx leg m known)"
  "keeps intent_first (record_close_fill leg oid p bo)"
  "keeps intent_first (exit_record_break pid bt)"
  "keeps intent_first (exit_fail_to_error cx pid oc m)"
  unfolding reconcile_at_def exit_mark_intent_failed_def record_close_rejection_def
    record_close_fill_def exit_record_break_def exit_fail_to_error_def Let_def
  by (intro keeps_bnd keeps_sq keeps_catch_if keeps_ret keeps_option keeps_prod keeps_first_time
      f_uow f_small grow_inv.exit_bodies grow_inv.tx_keeps keeps_get_row_or_raise)+

lemma g_poll: "cx_broker cx = B \<Longrightarrow> keeps intent_first (exit_poll cx oid)"
  unfolding exit_poll_def by (rule f_poll)

lemma g_confirm: "cx_broker cx = B \<Longrightarrow> keeps intent_first (confirm_close cx leg oid)"
  unfolding confirm_close_def
  by (intro keeps_sq keeps_bnd keeps_option keeps_if keeps_ret keeps_first_time g_steps g_poll
      f_uow grow_inv.exit_bodies)

lemma g_adopt: "cx_broker cx = B \<Longrightarrow> keeps intent_first (adopt_existing_order cx leg tag)"
  unfolding adopt_existing_order_def
  by (intro keeps_bnd keeps_sq keeps_option keeps_if keeps_ret keeps_catch_if g_steps g_poll
      keeps_quiet_call) (simp_all add: quiet_calls)

text \<open>A close whose tag was marked started may be sent as often as needed.\<close>

lemma g_try_place:
  "keeps (\<lambda>w. intent_first w \<and> on_db (tag_started (pr_tag req)) w) (try_sum (bcall (bk_place B req)))"
  unfolding keeps_def
proof (intro allI impI conjI)
  fix w assume w: "intent_first w \<and> on_db (tag_started (pr_tag req)) w"
  have eq: "fst (try_sum (bcall (bk_place B req)) w) = fst (bcall (bk_place B req) w)"
    by (simp add: try_sum_def split: prod.split)
  show "intent_first (fst (try_sum (bcall (bk_place B req)) w))"
    unfolding eq using w by (intro place_keeps) (simp_all add: on_db_def)
  show "on_db (tag_started (pr_tag req)) (fst (try_sum (bcall (bk_place B req)) w))"
    unfolding eq using w keepsD [OF started_inv.keeps_bcall] by (metis prod.collapse)
qed

lemma g_send_close:
  assumes B: "cx_broker cx = B"
  shows "keeps (\<lambda>w. intent_first w \<and> on_db (tag_started (pr_tag req)) w) (send_close cx leg req n why)"
proof (induction n arbitrary: why)
  case 0
  show ?case unfolding send_close.simps
    by (intro keeps_sq keeps_ret keeps_both g_steps started_inv.exit_steps)
next
  case (Suc n)
  show ?case unfolding send_close.simps B
    by (intro keeps_bnd g_try_place keeps_placement keeps_sq keeps_do_if keeps_ret Suc.IH
        keeps_both [OF g_steps(3) started_inv.x_record_close_rejection]
        keeps_both [OF g_confirm [OF B] started_inv.x_confirm_close]
        keeps_both [OF keeps_first_time(3) started_inv.keeps_sleep])
qed

lemma mark_started_tag:
  "mark_started_body iid t d = (d', Inr x) \<Longrightarrow> has_tag iid tag d' \<Longrightarrow> tag_started tag d'"
  by (auto simp: mark_started_body_def get_row_or_raise_def get_row_def act_defs
      mark_broker_call_started_def upd_intent_def has_tag_def tag_started_def t_get_put
      split: option.splits intro!: exI [of _ iid])

lemma g_place_close:
  assumes B: "cx_broker cx = B" and w: "intent_first w" "on_db (has_tag (xl_intent leg) tag) w"
  shows "intent_first (fst (place_close_with_retries cx leg tag w))"
proof -
  let ?uow = "unit_of_work (mark_started_body (xl_intent leg) (w_now w)) :: ('b, unit) prog"
  obtain w1 r where u: "?uow w = (w1, r)" by (metis prod.collapse)
  have w1: "intent_first w1" "on_db (has_tag (xl_intent leg) tag) w1"
    using keepsD [OF f_uow [OF grow_inv.x_mark_started_body] w(1) u]
      keepsD [OF tag_inv.keeps_unit_of_work [OF tag_inv.x_mark_started_body] w(2) u] by simp_all
  show ?thesis
  proof (cases r)
    case (Inl e)
    then show ?thesis
      using u w1 by (simp add: place_close_with_retries_def bnd_def sq_def now_run)
  next
    case (Inr x)
    have st: "tag_started tag (w_db w1)"
      using unit_of_work_Inr [of _ w w1 x] u Inr mark_started_tag w1(2) by (metis on_db_def)
    have send: "intent_first (fst (send_close cx leg req n why w1))"
      if "mk_place_request (close_request cx leg tag) = Inr req" for req n why
    proof -
      have "pr_tag req = tag" using that by (auto simp: mk_place_request_ok close_request_def)
      then show ?thesis
        using keepsD [OF g_send_close [OF B, of req leg n why], of w1] w1 st
        by (metis on_db_def prod.collapse)
    qed
    show ?thesis
      using u Inr w1 send
      by (cases "mk_place_request (close_request cx leg tag)")
        (simp_all add: place_close_with_retries_def bnd_def sq_def now_run lift_sum_def)
  qed
qed

lemma close_check_tag: "close_check_body leg d = (d', Inr (Inr (b, tag))) \<Longrightarrow> has_tag (xl_intent leg) tag d'"
  by (auto simp: close_check_body_def get_row_or_raise_def get_row_def act_defs has_tag_def
      split: option.splits if_splits)

lemma g_close_leg: assumes B: "cx_broker cx = B" shows "keeps intent_first (close_leg cx leg)"
  unfolding keeps_def
proof (intro allI impI)
  fix w :: "'b world" assume I: "intent_first w"
  let ?uow = "unit_of_work (close_check_body leg) :: ('b, close_result + bool \<times> string) prog"
  obtain w1 r where u: "?uow w = (w1, r)" by (metis prod.collapse)
  have w1: "intent_first w1" by (rule keepsD [OF f_uow [OF grow_inv.x_close_check_body] I u])
  show "intent_first (fst (close_leg cx leg w))"
  proof (cases "\<exists>b tag. r = Inr (Inr (b, tag))")
    case True
    then obtain b tag where r: "r = Inr (Inr (b, tag))" by blast
    have tg: "on_db (has_tag (xl_intent leg) tag) w1"
      using unit_of_work_Inr [of _ w w1] u r close_check_tag by (metis on_db_def)
    let ?a = "if b then adopt_existing_order cx leg tag else ret None"
    have ka: "keeps intent_first ?a" "keeps (on_db (has_tag (xl_intent leg) tag)) ?a"
      using g_adopt [OF B] tag_inv.x_adopt by (auto intro: keeps_ret)
    obtain w2 s where a: "?a w1 = (w2, s)" by (metis prod.collapse)
    have w2: "intent_first w2" "on_db (has_tag (xl_intent leg) tag) w2"
      using keepsD [OF ka(1) w1 a] keepsD [OF ka(2) tg a] by simp_all
    show ?thesis
      using u r a w2 g_place_close [OF B w2]
      by (simp add: close_leg_def bnd_def ret_def split: sum.split option.split)
  next
    case False
    then show ?thesis
      using u w1 by (cases r) (auto simp: close_leg_def bnd_def ret_def split: sum.split)
  qed
qed

lemma g_close_legs: "cx_broker cx = B \<Longrightarrow> keeps intent_first (close_legs cx legs)"
  by (induction legs) (auto intro!: keeps_bnd keeps_ret g_close_leg)

lemma g_lock: "keeps intent_first (modify (\<lambda>w. w\<lparr>w_exit_lock := b\<rparr>))"
  by (simp add: keeps_def modify_def intent_first_def)

lemma g_exit:
  assumes B: "cx_broker cx = B" and h: "\<And>p. keeps intent_first (cx_history cx p)"
  shows "keeps intent_first (exit_position cx reason)"
  unfolding exit_position_def exit_locked_def prepare_exit_def conclude_exit_def Let_def
    finalize_closed_def record_trade_history_def
  by (intro keeps_bnd keeps_sq keeps_if keeps_sum keeps_option keeps_ret keeps_asks keeps_finally
      keeps_catch_if g_lock keeps_first_time f_uow grow_inv.exit_bodies g_close_legs [OF B] g_steps h)
    (simp add: intent_first_def)

end

section \<open>What a reported exit says\<close>

lemma finalize_exit_run:
  assumes "finalize_exit_body pid reason ac t d0 = (d, Inr x)"
  shows "\<exists>row. t_get (d_positions d) pid = Some row \<and> p_state row = CLOSED \<and>
    p_exit_reason row = Some reason \<and> p_exit_done row = Some t \<and> p_pnl row = Some (num4 x) \<and>
    list_all (\<lambda>(i, r). t_exit_price r \<noteq> None \<and> t_pnl r \<noteq> None) (list_trades_for_position pid d) \<and>
    p_exit_premium row = Some (num4 (sum_list (map (\<lambda>(i, r). the (t_exit_price r)) (list_trades_for_position pid d)))) \<and>
    x = sum_list (map (\<lambda>(i, r). the (t_pnl r)) (list_trades_for_position pid d))"
proof -
  let ?ts = "list_trades_for_position pid d0"
  let ?f = "\<lambda>r. r\<lparr>p_exit_premium := Some (num4 (sum_list (map (\<lambda>(i, r). the (t_exit_price r)) ?ts))),
    p_pnl := Some (num4 x), p_exit_reason := Some reason, p_exit_done := Some t\<rparr>"
  from assms obtain row0 d1 b where g: "t_get (d_positions d0) pid = Some row0"
    and all: "\<not> list_ex (\<lambda>(i, r). t_exit_price r = None \<or> t_pnl r = None) ?ts"
    and x: "x = sum_list (map (\<lambda>(i, r). the (t_pnl r)) ?ts)"
    and u: "upd_position pid ?f d0 = (d1, Inr ())" and s: "sm_transition pid CLOSED ac (Some ''exit complete'') d1 = (d, Inr b)"
    by (auto simp: finalize_exit_body_def get_row_def asks_def throw_def ret_def Let_def
        elim!: bnd_Inr_elim sq_Inr_elim split: option.splits if_splits)
  have d1: "d1 = d0\<lparr>d_positions := t_put (d_positions d0) pid ((?f row0)\<lparr>p_version := p_version row0 + 1\<rparr>)\<rparr>"
    using u by (simp add: upd_position_run [OF g])
  have row1: "t_get (d_positions d1) pid = Some ((?f row0)\<lparr>p_version := p_version row0 + 1\<rparr>)"
    using g by (simp add: d1 t_get_put)
  from sm_transition_state [OF s row1] obtain row where row: "t_get (d_positions d) pid = Some row"
      "p_state row = CLOSED" "p_exit_reason row = Some reason" "p_exit_done row = Some t"
      "p_pnl row = Some (num4 x)"
      "p_exit_premium row = Some (num4 (sum_list (map (\<lambda>(i, r). the (t_exit_price r)) ?ts)))"
    by auto
  have same: "list_trades_for_position pid d = ?ts"
    using sm_transition_state [OF s row1] by (simp add: d1 list_trades_for_position_def)
  show ?thesis using row all x unfolding same by (auto simp: list_all_iff list_ex_iff)
qed

text \<open>
  The history recorder runs after the position is durably closed: it must leave closed positions
  and the trades alone.
\<close>

definition history_leaves_closed :: "'b ctx \<Rightarrow> bool" where
  "history_leaves_closed cx \<longleftrightarrow>
     (\<forall>p pid row. p_state row = CLOSED \<longrightarrow>
        keeps (on_db (\<lambda>d. t_get (d_positions d) pid = Some row)) (cx_history cx p)) \<and>
     (\<forall>p ts. keeps (on_db (\<lambda>d. d_trades d = ts)) (cx_history cx p))"

lemma history_keeps:
  assumes "history_leaves_closed cx" "p_state row = CLOSED"
  shows "keeps (on_db (\<lambda>d. t_get (d_positions d) pid = Some row)) (record_trade_history cx pid')"
  unfolding record_trade_history_def
  using assms by (intro keeps_catch_if keeps_ret) (simp add: history_leaves_closed_def)

lemma trade_history_keeps:
  assumes "history_leaves_closed cx"
  shows "keeps (on_db (\<lambda>d. d_trades d = ts)) (record_trade_history cx pid)"
  unfolding record_trade_history_def
  using assms by (intro keeps_catch_if keeps_ret) (simp add: history_leaves_closed_def)

lemma conclude_exited:
  assumes "conclude_exit cx px reason ac results w = (w', Inr r)" "xr_outcome r = EXITED"
  shows "finalize_closed cx px reason ac w = (w', Inr r)"
  using assms by (auto simp: conclude_exit_def exit_fail_to_error_def ret_def Let_def
      elim!: sq_Inr_elim split: if_splits)

lemma finalize_closed_run:
  assumes "finalize_closed cx px reason ac w = (w', Inr r)" "xr_outcome r = EXITED"
  obtains w1 x d0 t where "finalize_exit_body (px_position px) reason ac t d0 = (w_db w1, Inr x)"
    "record_trade_history cx (px_position px) w1 = (w', Inr ())" "xr_pnl r = Some x"
    "xr_position r = Some (px_position px)"
proof -
  from assms obtain w1 x where c: "catch_if is_exception
      (bnd (unit_of_work (finalize_exit_body (px_position px) reason ac (w_now w))) (\<lambda>x. ret (Some x)))
      (\<lambda>_. ret None) w = (w1, Inr (Some x))"
    and h: "record_trade_history cx (px_position px) w1 = (w', Inr ())"
    and r: "xr_pnl r = Some x" "xr_position r = Some (px_position px)"
    by (auto simp: finalize_closed_def ret_def now_run elim!: bnd_Inr_elim sq_Inr_elim
        split: option.splits)
  from c have "unit_of_work (finalize_exit_body (px_position px) reason ac (w_now w)) w = (w1, Inr x)"
    by (auto simp: catch_if_def bnd_def ret_def split: prod.splits sum.splits if_splits)
  from uow_Inr [OF this] h r that show ?thesis by blast
qed

lemma exit_exited:
  assumes "exit_position cx reason w = (w', Inr r)" "xr_outcome r = EXITED"
  obtains px v w2 where "finalize_closed cx px reason (actor_by_reason reason) v = (w2, Inr r)"
    "w' = w2\<lparr>w_exit_lock := False\<rparr>"
proof -
  from assms obtain w1 w2 where l: "exit_locked cx reason w1 = (w2, Inr r)" and w': "w' = w2\<lparr>w_exit_lock := False\<rparr>"
    by (auto simp: exit_position_def stop_exit_def ret_def asks_def finally_do_def
        elim!: bnd_Inr_elim sq_Inr_elim split: if_splits prod.splits)
  from l assms(2) obtain px results v where
    "conclude_exit cx px reason (actor_by_reason reason) results v = (w2, Inr r)"
  proof -
    from l obtain u prep v where p: "prepare_exit cx (ist_date (w_now w1)) reason (actor_by_reason reason) u = (v, Inr prep)"
      and rest: "(case prep of Inl result \<Rightarrow> ret result
        | Inr px \<Rightarrow> bnd (close_legs cx (px_legs px)) (\<lambda>results.
            conclude_exit cx px reason (actor_by_reason reason) results)) v = (w2, Inr r)"
      by (auto simp: exit_locked_def today_run elim!: bnd_Inr_elim)
    show ?thesis
    proof (cases prep)
      case (Inl result)
      then have "result = r" using rest by (simp add: ret_def)
      then have "xr_outcome r \<noteq> EXITED"
        using p Inl by (auto simp: prepare_exit_def prepare_body_def stop_exit_def ret_def
            elim!: bnd_Inr_elim sq_Inr_elim split: option.splits prod.splits if_splits dest!: uow_Inr)
      then show ?thesis using assms(2) by simp
    next
      case (Inr px)
      then show ?thesis using rest that by (auto elim!: bnd_Inr_elim)
    qed
  qed
  then show ?thesis using conclude_exited assms(2) w' that by blast
qed

text \<open>
  C5: when an exit reports EXITED, the position it names is CLOSED with the reason of the exit,
  every leg of it has an exit price and a profit, the exit premium is the sum of the exit prices
  and the realized profit, reported and stored, is the sum of the profits of the legs.
\<close>

theorem exited_position_is_closed:
  assumes "history_leaves_closed cx"
  shows "case exit_position cx reason w of
     (w', Inl e) \<Rightarrow> True
   | (w', Inr r) \<Rightarrow>
       (case xr_outcome r of
          EXITED \<Rightarrow>
            (\<exists>pid row x. xr_position r = Some pid \<and> xr_pnl r = Some x \<and>
               t_get (d_positions (w_db w')) pid = Some row \<and> p_state row = CLOSED \<and>
               p_exit_reason row = Some reason \<and> p_pnl row = Some (num4 x) \<and>
               list_all (\<lambda>(i, t). t_exit_price t \<noteq> None \<and> t_pnl t \<noteq> None) (list_trades_for_position pid (w_db w')) \<and>
               p_exit_premium row = Some (num4 (sum_list
                 (map (\<lambda>(i, t). the (t_exit_price t)) (list_trades_for_position pid (w_db w'))))) \<and>
               x = sum_list (map (\<lambda>(i, t). the (t_pnl t)) (list_trades_for_position pid (w_db w'))))
        | _ \<Rightarrow> True)"
proof (cases "exit_position cx reason w")
  case (Pair w' res)
  have main: "\<exists>pid row x. xr_position r = Some pid \<and> xr_pnl r = Some x \<and>
      t_get (d_positions (w_db w')) pid = Some row \<and> p_state row = CLOSED \<and>
      p_exit_reason row = Some reason \<and> p_pnl row = Some (num4 x) \<and>
      list_all (\<lambda>(i, t). t_exit_price t \<noteq> None \<and> t_pnl t \<noteq> None) (list_trades_for_position pid (w_db w')) \<and>
      p_exit_premium row = Some (num4 (sum_list
        (map (\<lambda>(i, t). the (t_exit_price t)) (list_trades_for_position pid (w_db w'))))) \<and>
      x = sum_list (map (\<lambda>(i, t). the (t_pnl t)) (list_trades_for_position pid (w_db w')))"
    if r: "res = Inr r" "xr_outcome r = EXITED" for r
  proof -
    obtain px v w2 where f: "finalize_closed cx px reason (actor_by_reason reason) v = (w2, Inr r)"
      and w': "w' = w2\<lparr>w_exit_lock := False\<rparr>"
      using exit_exited [OF Pair [unfolded r(1)] r(2)] by blast
    obtain w1 x d0 t where b: "finalize_exit_body (px_position px) reason (actor_by_reason reason) t d0 = (w_db w1, Inr x)"
      and h: "record_trade_history cx (px_position px) w1 = (w2, Inr ())"
      and x: "xr_pnl r = Some x" "xr_position r = Some (px_position px)"
      by (rule finalize_closed_run [OF f r(2)])
    from finalize_exit_run [OF b] obtain row where
      row: "t_get (d_positions (w_db w1)) (px_position px) = Some row" "p_state row = CLOSED"
      and run: "p_exit_reason row = Some reason" "p_pnl row = Some (num4 x)"
        "list_all (\<lambda>(i, r). t_exit_price r \<noteq> None \<and> t_pnl r \<noteq> None)
          (list_trades_for_position (px_position px) (w_db w1))"
        "p_exit_premium row = Some (num4 (sum_list (map (\<lambda>(i, r). the (t_exit_price r))
          (list_trades_for_position (px_position px) (w_db w1)))))"
        "x = sum_list (map (\<lambda>(i, r). the (t_pnl r))
          (list_trades_for_position (px_position px) (w_db w1)))"
      by blast
    note kh = history_keeps [OF assms row(2), of "px_position px" "px_position px"]
      trade_history_keeps [OF assms, of "d_trades (w_db w1)" "px_position px"]
    have end_row: "t_get (d_positions (w_db w2)) (px_position px) = Some row"
      and "d_trades (w_db w2) = d_trades (w_db w1)"
      using keepsD [OF kh(1) _ h] keepsD [OF kh(2) _ h] row(1) by (simp_all add: on_db_def)
    then have same: "list_trades_for_position (px_position px) (w_db w') =
        list_trades_for_position (px_position px) (w_db w1)"
      by (simp add: w' list_trades_for_position_def)
    have "t_get (d_positions (w_db w')) (px_position px) = Some row" using end_row by (simp add: w')
    then show ?thesis using run [folded same] row(2) x
      by (intro exI [of _ "px_position px"] exI [of _ row] exI [of _ x] conjI) assumption+
  qed
  show ?thesis using Pair main by (cases res) (auto split: exit_outcome.split)
qed

end
