(* ===== verification/Exit_Claims.thy ===== *)
theory Exit_Claims
  imports Exit_Proofs
begin

text \<open>
  The properties of the exit that rest on \<open>Exit_Proofs\<close>: what the decision means for the money of
  a position, mutual exclusion, no broker call for a closed position, what a failed exit leaves
  behind, no second close order for a leg whose first one the broker already holds, and the
  announcement of close orders over the simulation broker.
\<close>

section \<open>The decision and the money\<close>

definition strangle_pnl :: "decimal \<Rightarrow> decimal \<Rightarrow> decimal \<Rightarrow> decimal \<Rightarrow> int \<Rightarrow> decimal" where
  "strangle_pnl call_entry put_entry call_exit put_exit quantity =
     leg_realized_pnl call_entry call_exit quantity + leg_realized_pnl put_entry put_exit quantity"

lemma strangle_pnl_premium:
  "strangle_pnl ce pe cx px q = ((ce + pe) - (cx + px)) * of_int q"
  by (simp add: strangle_pnl_def leg_realized_pnl_def algebra_simps)

lemma evaluate_premium:
  assumes "t < cutoff"
  shows "ed_reason (evaluate_exit t cutoff False (Some c) (Some tg) (Some sl)) =
    (if sl \<le> c then Some STOPLOSS else if c \<le> tg then Some TARGET else None)"
    "ed_exit (evaluate_exit t cutoff False (Some c) (Some tg) (Some sl)) = (sl \<le> c \<or> c \<le> tg)"
  using assms by (simp_all add: evaluate_exit_def)

text \<open>
  Before the cutoff and without a halt, the decision taken on the thresholds computed at
  entry is exactly a statement on money: it says TARGET if and only if closing both legs at the
  given prices earns at least the target percentage of the premium received, STOPLOSS if and only
  if it loses at least the stoploss percentage, and it holds the position otherwise.
\<close>

theorem exit_decision_is_pnl:
  assumes "compute_thresholds (ce + pe) tp sp = Inr th" and "t < cutoff" and "0 < q"
  shows "(ed_reason (evaluate_exit t cutoff False (Some (cx + px)) (Some (th_target th)) (Some (th_stoploss th))) = Some TARGET
            \<longleftrightarrow> strangle_pnl ce pe cx px q \<ge> tp * (ce + pe) * of_int q) \<and>
         (ed_reason (evaluate_exit t cutoff False (Some (cx + px)) (Some (th_target th)) (Some (th_stoploss th))) = Some STOPLOSS
            \<longleftrightarrow> strangle_pnl ce pe cx px q \<le> - (sp * (ce + pe) * of_int q)) \<and>
         (ed_exit (evaluate_exit t cutoff False (Some (cx + px)) (Some (th_target th)) (Some (th_stoploss th)))
            \<longleftrightarrow> ed_reason (evaluate_exit t cutoff False (Some (cx + px)) (Some (th_target th)) (Some (th_stoploss th))) \<noteq> None)"
proof -
  define e c where "e = ce + pe" and "c = cx + px"
  define Q where "Q = (of_int q :: decimal)"
  have Q: "0 < Q" using assms(3) by (simp add: Q_def)
  have th: "th_target th = e * (1 - tp)" "th_stoploss th = e * (1 + sp)" and e: "0 < e"
    and p: "0 < tp" "0 < sp"
    using assms(1) by (simp_all add: compute_thresholds_Inr e_def fraction_ok_def)
  have between: "e * (1 - tp) < e * (1 + sp)" using e p by (intro mult_strict_left_mono) simp_all
  have pnl: "strangle_pnl ce pe cx px q = (e - c) * Q"
    by (simp add: strangle_pnl_premium e_def c_def Q_def)
  have up: "tp * e * Q \<le> (e - c) * Q \<longleftrightarrow> c \<le> e * (1 - tp)"
    using mult_le_cancel_right_pos [OF Q, of "tp * e" "e - c"] by (auto simp: algebra_simps)
  have down: "(e - c) * Q \<le> - (sp * e * Q) \<longleftrightarrow> e * (1 + sp) \<le> c"
    using mult_le_cancel_right_pos [OF Q, of "e - c" "- (sp * e)"] by (auto simp: algebra_simps)
  show ?thesis
    unfolding pnl e_def [symmetric] c_def [symmetric] Q_def [symmetric] up down
      evaluate_premium [OF assms(2)] th
    using between by auto
qed

theorem exit_decision_witness:
  "strangle_pnl 100 100 70 80 75 = 3750 \<and>
   ed_reason (evaluate_exit 1 2 False (Some (70 + 80)) (Some 180) (Some 240)) = Some TARGET"
proof -
  have "compute_thresholds (100 + 100) (1/10) (1/5) =
      Inr \<lparr>th_entry = 200, th_target = 180, th_stoploss = 240, th_target_pct = 1/10, th_sl_pct = 1/5\<rparr>"
    by (simp add: compute_thresholds_Inr fraction_ok_def)
  from exit_decision_is_pnl [OF this, of 1 2 75 70 80] show ?thesis
    by (simp add: strangle_pnl_def leg_realized_pnl_def)
qed

section \<open>A closed position\<close>

definition day_closed :: "nat \<Rightarrow> date \<Rightarrow> db \<Rightarrow> bool" where
  "day_closed inst td d \<longleftrightarrow>
     (case get_by_instance_and_date inst td d of None \<Rightarrow> False | Some (i, r) \<Rightarrow> p_state r = CLOSED)"

lemma t_find_put:
  "t_get t i = Some r \<Longrightarrow> (P q \<longleftrightarrow> P r) \<Longrightarrow> (Q r \<Longrightarrow> Q q) \<Longrightarrow>
   (case t_find P t of None \<Rightarrow> False | Some (k, s) \<Rightarrow> Q s) \<Longrightarrow>
   (case t_find P (t_put t i q) of None \<Rightarrow> False | Some (k, s) \<Rightarrow> Q s)"
  by (induction t i q rule: t_put.induct) (auto split: if_splits)

lemma t_find_add:
  "t_find P t = Some x \<Longrightarrow> t_find P (t_add t r) = Some x"
proof -
  have "t_find P t = Some x \<Longrightarrow> t_find P (t @ [y]) = Some x" for y
    by (induction P t rule: t_find.induct) (auto split: if_splits)
  then show "t_find P t = Some x \<Longrightarrow> t_find P (t_add t r) = Some x" by (simp add: t_add_def)
qed

lemma day_closed_put:
  "day_closed inst td d \<Longrightarrow> t_get (d_positions d) i = Some r \<Longrightarrow>
   p_instance q = p_instance r \<Longrightarrow> p_date q = p_date r \<Longrightarrow> (p_state r = CLOSED \<Longrightarrow> p_state q = CLOSED) \<Longrightarrow>
   day_closed inst td (d\<lparr>d_positions := t_put (d_positions d) i q\<rparr>)"
  unfolding day_closed_def get_by_instance_and_date_def
  by simp (rule t_find_put [where P = "\<lambda>r. p_instance r = inst \<and> p_date r = td"
      and Q = "\<lambda>s. p_state s = CLOSED" and r = r], simp_all)

lemma day_closed_add: "day_closed inst td d \<Longrightarrow> day_closed inst td (d\<lparr>d_positions := t_add (d_positions d) row\<rparr>)"
  by (auto simp: day_closed_def get_by_instance_and_date_def t_find_add split: option.splits)

lemma day_closed_transition: "day_closed inst td d \<Longrightarrow> day_closed inst td (fst (sm_transition i st ac m d))"
proof (cases "t_get (d_positions d) i")
  case (Some r)
  assume c: "day_closed inst td d"
  show ?thesis
  proof (cases "p_state r = CLOSED")
    case True
    then show ?thesis using Some c by (auto simp: sm_transition_run dest: allowed_for_actor_allowed)
  next
    case False
    have "day_closed inst td
        (d\<lparr>d_positions := t_put (d_positions d) i (r\<lparr>p_state := st, p_version := p_version r + 1\<rparr>)\<rparr>)"
      using c Some False by (intro day_closed_put [where r = r]) simp_all
    then show ?thesis using Some c
      by (simp add: sm_transition_run transition_state_run)
        (simp add: day_closed_def get_by_instance_and_date_def)
  qed
qed (simp add: sm_transition_missing)

lemma day_closed_env: "day_closed inst td d \<Longrightarrow> day_closed inst td (apply_env e tm d)"
proof (cases e)
  case (EvPush bo)
  assume "day_closed inst td d"
  then show ?thesis using EvPush push_orders_only [of bo tm d]
    by (auto simp: day_closed_def get_by_instance_and_date_def)
next
  case (EvPosition row)
  assume "day_closed inst td d"
  then show ?thesis using EvPosition day_closed_add
    by (auto simp: position_get_or_create_def get_or_create_def split: option.split)
qed (simp_all add: day_closed_transition, simp add: day_closed_def get_by_instance_and_date_def)

interpretation day_inv: tx_invariant "day_closed inst td" for inst td
  by unfold_locales
    (simp_all add: day_closed_env day_closed_transition day_closed_put day_closed_add,
      simp_all add: day_closed_def get_by_instance_and_date_def)

lemma prepare_closed:
  assumes "prepare_exit cx td reason ac w = (w', Inr x)" "day_closed (id_instance (cx_id cx)) td (w_db w)"
  shows "\<exists>r. x = Inl r \<and> xr_outcome r = SKIPPED_ALREADY_CLOSED"
proof -
  let ?I = "day_closed (id_instance (cx_id cx)) td"
  obtain d0 where run: "prepare_body (id_instance (cx_id cx)) td reason ac d0 = (w_db w', Inr x)"
    and d0: "?I d0"
  proof (cases "w_env w")
    case Nil
    then show ?thesis using that assms
      by (auto simp: prepare_exit_def unit_of_work_def commit_def split: prod.splits sum.splits if_splits)
  next
    case (Cons e es)
    then show ?thesis using that [of "apply_env e (w_now w) (w_db w)"] assms day_closed_env
      by (auto simp: prepare_exit_def unit_of_work_def commit_def Let_def split: prod.splits sum.splits if_splits)
  qed
  show ?thesis using run d0
    by (auto simp: prepare_body_def asks_def day_closed_def ret_def stop_exit_def
        elim!: bnd_Inr_elim split: option.splits)
qed

text \<open>
  When today's position of the instance is already CLOSED, an exit makes no broker call at all
  and can only report that it is closed, that another exit is running, or raise, under every
  schedule of the other actors.
\<close>

theorem closed_exit_sends_nothing:
  assumes "day_closed (id_instance (cx_id cx)) (ist_date (w_now w)) (w_db w)"
  shows "w_bk (fst (exit_position cx reason w)) = w_bk w \<and>
    (\<forall>r. snd (exit_position cx reason w) = Inr r \<longrightarrow>
       xr_outcome r \<in> {SKIPPED_ALREADY_CLOSED, SKIPPED_EXIT_IN_PROGRESS})"
proof (cases "w_exit_lock w")
  case True
  then show ?thesis by (simp add: exit_position_def asks_def bnd_def ret_def stop_exit_def)
next
  case False
  let ?v = "w\<lparr>w_exit_lock := True\<rparr>"
  let ?p = "prepare_exit cx (ist_date (w_now w)) reason (actor_by_reason reason)"
  obtain w' x where p: "?p ?v = (w', x)" by (metis prod.collapse)
  have bk: "w_bk w' = w_bk w"
    using arg_cong [OF p, of "\<lambda>z. w_bk (fst z)"] by (simp add: prepare_exit_def unit_of_work_bk)
  show ?thesis
  proof (cases x)
    case (Inl e)
    then show ?thesis using p bk False
      by (simp add: exit_position_def exit_locked_def asks_def bnd_def sq_def modify_def
          finally_do_def today_run)
  next
    case (Inr y)
    obtain r where "y = Inl r" "xr_outcome r = SKIPPED_ALREADY_CLOSED"
      using prepare_closed [of cx _ reason _ ?v w' y] p Inr assms by auto
    then show ?thesis using p bk False Inr
      by (simp add: exit_position_def exit_locked_def asks_def bnd_def sq_def modify_def
          finally_do_def today_run ret_def stop_exit_def)
  qed
qed

section \<open>What a failed exit leaves behind\<close>

definition exit_failed_outcome :: "exit_outcome \<Rightarrow> bool" where
  "exit_failed_outcome o1 \<longleftrightarrow> o1 \<in> {PARTIAL_EXIT_ERROR, EXIT_AMBIGUOUS_ERROR}"

lemma exit_fail_run:
  "exit_fail_to_error cx pid oc m w = (w', Inr r) \<Longrightarrow>
     xr_outcome r = oc \<and> xr_position r = Some pid \<and>
     (\<exists>d0. fail_body (id_instance (cx_id cx)) pid m d0 = (w_db w', Inr ()))"
  by (auto simp: exit_fail_to_error_def ret_def elim!: sq_Inr_elim dest!: uow_Inr)

lemma finalize_closed_outcome:
  "finalize_closed cx px reason ac w = (w', Inr r) \<Longrightarrow> \<not> exit_failed_outcome (xr_outcome r)"
  by (auto simp: finalize_closed_def ret_def exit_failed_outcome_def elim!: bnd_Inr_elim sq_Inr_elim
      split: option.splits)

lemma conclude_failed:
  assumes "conclude_exit cx px reason ac results w = (w', Inr r)" "exit_failed_outcome (xr_outcome r)"
  shows "xr_position r = Some (px_position px) \<and>
    (\<exists>d0 m. fail_body (id_instance (cx_id cx)) (px_position px) m d0 = (w_db w', Inr ()))"
  using assms finalize_closed_outcome [of cx px reason ac w w' r]
  by (auto simp: conclude_exit_def Let_def elim!: sq_Inr_elim split: if_splits dest!: exit_fail_run)

definition position_known :: "nat \<Rightarrow> db \<Rightarrow> bool" where
  "position_known pid d \<longleftrightarrow> t_get (d_positions d) pid \<noteq> None"

lemma t_find_known: "t_find P t = Some (i, r) \<Longrightarrow> t_get t i \<noteq> None"
  by (drule t_find_Some, cases "t_get t i") (force simp: t_get_iff_map_of map_of_eq_None_iff)+

lemma position_known_is: "position_known pid d \<longleftrightarrow> (\<exists>inst td. position_is pid inst td d)"
  by (auto simp: position_known_def position_is_def split: option.splits)

lemma keeps_known:
  "(\<And>inst td. keeps (position_is pid inst td) m) \<Longrightarrow> keeps (position_known pid) m"
  unfolding keeps_def position_known_is by blast

lemma keeps_known_world:
  "(\<And>inst td. keeps (on_db (position_is pid inst td)) m) \<Longrightarrow> keeps (on_db (position_known pid)) m"
  unfolding keeps_def position_known_is on_db_def by blast

lemma prepare_known:
  assumes "prepare_exit cx td reason ac w = (w', Inr (Inr px))"
  shows "position_known (px_position px) (w_db w')"
proof -
  obtain d0 where run: "prepare_body (id_instance (cx_id cx)) td reason ac d0 = (w_db w', Inr (Inr px))"
    using uow_Inr [OF assms [unfolded prepare_exit_def]] by blast
  have "\<exists>p. get_by_instance_and_date (id_instance (cx_id cx)) td d0 = Some (px_position px, p)"
    using run by (auto simp: prepare_body_def asks_def ret_def elim!: bnd_Inr_elim sq_Inr_elim
        split: option.splits if_splits)
  then have "position_known (px_position px) d0"
    by (auto simp: position_known_def get_by_instance_and_date_def dest: t_find_known)
  then show ?thesis using keepsD [OF keeps_known [OF row_inv.x_prepare_body] _ run] by blast
qed

lemma exit_failed_run:
  assumes "exit_position cx reason w = (w', Inr r)" "exit_failed_outcome (xr_outcome r)"
    and h: "\<And>p pid. keeps (on_db (position_known pid)) (cx_history cx p)"
  shows "\<exists>pid d0 m. xr_position r = Some pid \<and> position_known pid (w_db w') \<and>
    fail_body (id_instance (cx_id cx)) pid m d0 = (w_db w', Inr ())"
proof -
  from assms obtain w1 w2 where l: "exit_locked cx reason w1 = (w2, Inr r)"
    and w': "w' = w2\<lparr>w_exit_lock := False\<rparr>"
    by (auto simp: exit_position_def stop_exit_def ret_def asks_def finally_do_def
        exit_failed_outcome_def elim!: bnd_Inr_elim sq_Inr_elim split: if_splits prod.splits)
  from l obtain u v prep where
    p: "prepare_exit cx (ist_date (w_now w1)) reason (actor_by_reason reason) u = (v, Inr prep)"
    and rest: "(case prep of Inl result \<Rightarrow> ret result
        | Inr px \<Rightarrow> bnd (close_legs cx (px_legs px)) (\<lambda>results.
            conclude_exit cx px reason (actor_by_reason reason) results)) v = (w2, Inr r)"
    by (auto simp: exit_locked_def today_run elim!: bnd_Inr_elim)
  show ?thesis
  proof (cases prep)
    case (Inl result)
    then have "result = r" using rest by (simp add: ret_def)
    then have "\<not> exit_failed_outcome (xr_outcome r)"
      using p Inl by (auto simp: prepare_exit_def prepare_body_def stop_exit_def ret_def exit_failed_outcome_def
          elim!: bnd_Inr_elim sq_Inr_elim split: option.splits prod.splits if_splits dest!: uow_Inr)
    then show ?thesis using assms(2) by simp
  next
    case (Inr px)
    then obtain u2 results where cl: "close_legs cx (px_legs px) v = (u2, Inr results)"
      and cc: "conclude_exit cx px reason (actor_by_reason reason) results u2 = (w2, Inr r)"
      using rest by (auto elim!: bnd_Inr_elim)
    let ?K = "on_db (position_known (px_position px))"
    have "?K v" using prepare_known p Inr by (auto simp: on_db_def)
    then have "?K u2" using keepsD [OF keeps_known_world [OF row_inv.x_close_legs] _ cl] by blast
    moreover have "keeps ?K (conclude_exit cx px reason (actor_by_reason reason) results)"
      unfolding conclude_exit_def Let_def finalize_closed_def record_trade_history_def
      by (intro keeps_if keeps_sq keeps_bnd keeps_option keeps_ret keeps_catch_if h
          keeps_known_world row_inv.x_record_break row_inv.x_fail_to_error
          row_inv.keeps_unit_of_work row_inv.exit_bodies row_inv.keeps_world)
    ultimately have "?K w2" using cc by (metis keepsD)
    then show ?thesis using conclude_failed [OF cc assms(2)] w' by (auto simp: on_db_def)
  qed
qed

text \<open>
  When an exit reports PARTIAL_EXIT_ERROR or EXIT_AMBIGUOUS_ERROR, the position it names exists
  and is in ERROR (or was closed by an operator), and the row of the strategy instance, if there is
  one, is frozen: nothing is entered again before somebody looked at the open leg.
\<close>

theorem failed_exit_freezes:
  assumes "\<And>p pid. keeps (on_db (position_known pid)) (cx_history cx p)"
  shows "case exit_position cx reason w of
     (w', Inl e) \<Rightarrow> True
   | (w', Inr r) \<Rightarrow>
       (if exit_failed_outcome (xr_outcome r)
        then \<exists>pid row. xr_position r = Some pid \<and> t_get (d_positions (w_db w')) pid = Some row \<and>
               p_state row \<in> {PS_ERROR, CLOSED} \<and>
               (case t_get (d_instances (w_db w')) (id_instance (cx_id cx)) of
                  None \<Rightarrow> True | Some i \<Rightarrow> si_status i = IS_FROZEN)
        else True)"
proof (cases "exit_position cx reason w")
  case (Pair w' x)
  show ?thesis
  proof (cases "\<exists>r. x = Inr r \<and> exit_failed_outcome (xr_outcome r)")
    case True
    then obtain r where r: "x = Inr r" "exit_failed_outcome (xr_outcome r)" by blast
    obtain pid d0 m where e: "xr_position r = Some pid" "position_known pid (w_db w')"
      and f: "fail_body (id_instance (cx_id cx)) pid m d0 = (w_db w', Inr ())"
      using exit_failed_run [OF Pair [unfolded r(1)] r(2) assms] by blast
    obtain row where "t_get (d_positions (w_db w')) pid = Some row"
      using e(2) by (auto simp: position_known_def)
    then show ?thesis using fail_body_run [OF f] e by (simp add: Pair r) blast
  qed (auto simp: Pair split: sum.split)
qed

section \<open>No close order twice\<close>

definition started_as :: "nat \<Rightarrow> string \<Rightarrow> db \<Rightarrow> bool" where
  "started_as iid tag d \<longleftrightarrow>
     (case t_get (d_intents d) iid of None \<Rightarrow> False | Some r \<Rightarrow> i_tag r = tag \<and> i_started r \<noteq> None)"

lemma started_as_grows: "started_as iid tag d0 \<Longrightarrow> intents_grow d0 d \<Longrightarrow> started_as iid tag d"
  unfolding started_as_def intents_grow_def intent_le_def by (auto split: option.splits) fastforce+

interpretation as_inv: tx_invariant "started_as iid tag" for iid tag
  by (rule grows_tx_invariant) (rule started_as_grows)

lemma close_check_started:
  "close_check_body leg d = (d', Inr (Inr (b, tg))) \<Longrightarrow> started_as (xl_intent leg) tag d' \<Longrightarrow> b \<and> tg = tag"
  by (auto simp: close_check_body_def get_row_or_raise_def get_row_def act_defs started_as_def
      split: option.splits if_splits)

definition adopts :: "('b, broker_order option) broker_call \<Rightarrow> 'b \<Rightarrow> bool" where
  "adopts f b \<longleftrightarrow> (\<forall>t. snd (snd (snd (f t b))) \<noteq> Inr None)"

context broker_book
begin

lemma quiet_same: "quiet_call f \<Longrightarrow> book (w_bk (fst (bcall f w))) = book (w_bk w)"
  by (auto simp: bcall_def quiet_call_def Let_def split: prod.split) (metis fst_conv)

lemma keeps_same_call: "quiet_call f \<Longrightarrow> keeps (\<lambda>w. book (w_bk w) = bk) (bcall f)"
  by (simp add: keeps_def quiet_same)

lemma keeps_same_uow: "keeps (\<lambda>w. book (w_bk w) = bk) (unit_of_work body)"
  by (simp add: keeps_def unit_of_work_bk)

lemma keeps_same_time:
  "keeps (\<lambda>w. book (w_bk w) = bk) now" "keeps (\<lambda>w. book (w_bk w) = bk) (sleep n)"
  by (simp_all add: keeps_def now_def asks_def sleep_def modify_def)

lemma keeps_same_poll:
  assumes B: "cx_broker cx = B"
  shows "keeps (\<lambda>w. book (w_bk w) = bk) (poll_until_terminal cx oid n)"
  by (induction n)
    (auto intro!: keeps_bnd keeps_ret keeps_same_call keeps_same_time keeps_if keeps_sq
      keeps_catch_if simp: quiet_calls [folded B])

lemma keeps_same_adopt:
  "cx_broker cx = B \<Longrightarrow> keeps (\<lambda>w. book (w_bk w) = bk) (adopt_existing_order cx leg tag)"
  unfolding adopt_existing_order_def exit_poll_def record_close_fill_def reconcile_at_def Let_def
  by (intro keeps_bnd keeps_sq keeps_option keeps_if keeps_ret keeps_catch_if keeps_same_poll
      keeps_same_uow keeps_same_time keeps_same_call) (simp_all add: quiet_calls)

lemma adopt_some:
  assumes "adopts (bk_find_tag (cx_broker cx) tag) (w_bk w)"
  shows "snd (adopt_existing_order cx leg tag w) \<noteq> Inr None"
proof -
  have "snd (bcall (bk_find_tag (cx_broker cx) tag) w) \<noteq> Inr None"
    using assms by (auto simp: adopts_def bcall_def Let_def split: prod.splits) (metis snd_conv)
  then show ?thesis
    unfolding adopt_existing_order_def
    by (auto simp: bnd_def catch_if_def ret_def sq_def split: prod.splits sum.splits option.splits if_splits)
qed

lemma no_resend:
  assumes B: "cx_broker cx = B" and ad: "adopts (bk_find_tag B tag) (w_bk w)"
    and st: "started_as (xl_intent leg) tag (w_db w)"
  shows "book (w_bk (fst (close_leg cx leg w))) = book (w_bk w)"
proof -
  let ?uow = "unit_of_work (close_check_body leg) :: ('b, close_result + bool \<times> string) prog"
  obtain w1 r where u: "?uow w = (w1, r)" by (metis prod.collapse)
  have bk: "w_bk w1 = w_bk w" using unit_of_work_bk [of _ w] u by (metis fst_conv)
  have st1: "started_as (xl_intent leg) tag (w_db w1)"
    using keepsD [OF as_inv.keeps_unit_of_work [OF as_inv.x_close_check_body] _ u] st
    by (simp add: on_db_def)
  show ?thesis
  proof (cases "\<exists>b tg. r = Inr (Inr (b, tg))")
    case True
    then obtain b tg where r: "r = Inr (Inr (b, tg))" by blast
    obtain d0 where run: "close_check_body leg d0 = (w_db w1, Inr (Inr (b, tg)))"
      using unit_of_work_Inr [OF u [unfolded r]] by blast
    have btg: "b" "tg = tag" using close_check_started [OF run st1] by simp_all
    have k: "book (w_bk (fst (adopt_existing_order cx leg tag w1))) = book (w_bk w)"
      using keeps_same_adopt [OF B, of "book (w_bk w)" leg tag] bk by (simp add: keeps_def)
    obtain w2 s where a: "adopt_existing_order cx leg tag w1 = (w2, s)" by (metis prod.collapse)
    have ad1: "adopts (bk_find_tag (cx_broker cx) tag) (w_bk w1)" using ad by (simp add: bk B)
    have s: "s \<noteq> Inr None" using adopt_some [OF ad1, of leg] by (simp add: a)
    show ?thesis
    proof (cases s)
      case (Inl e)
      then show ?thesis using u r btg k a by (simp add: close_leg_def bnd_def)
    next
      case (Inr o1)
      then obtain x where "o1 = Some x" using s by (cases o1) auto
      then show ?thesis using u r btg k a Inr by (simp add: close_leg_def bnd_def ret_def)
    qed
  next
    case False
    then show ?thesis
      using u bk by (cases r) (auto simp: close_leg_def bnd_def ret_def split: sum.split)
  qed
qed

end

section \<open>Over the simulation broker\<close>

text \<open>The tag index of the simulator only changes when an order is placed.\<close>

lemma process_index: "process_due_order E force o1 s = (o2, s2, r) \<Longrightarrow> sb_by_tag s2 = sb_by_tag s"
  by (auto simp: process_due_order_def finish_step_def apply_fill_def Let_def
      split: if_splits prod.splits sum.splits)

lemma resolve_list_index: "resolve_list E force os s = (os', s', r) \<Longrightarrow> sb_by_tag s' = sb_by_tag s"
proof (induction E force os s arbitrary: os' s' r rule: resolve_list.induct)
  case (2 E force k o1 os s)
  obtain o2 s2 x where p: "process_due_order E force o1 s = (o2, s2, x)" by (metis prod_cases3)
  obtain os2 s3 y where q: "resolve_list E force os s2 = (os2, s3, y)" by (metis prod_cases3)
  show ?case
    using "2.prems" "2.IH" [OF p [symmetric] refl _ q] process_index [OF p] p q
    by (cases x; cases y) auto
qed simp

lemma resolve_index: "resolve_due_orders E force s = (s', r) \<Longrightarrow> sb_by_tag s' = sb_by_tag s"
  by (auto simp: resolve_due_orders_def dispatch_updates_def dest!: resolve_list_index
      split: prod.splits sum.splits if_splits)

lemma drain_index: "sb_by_tag (fst (drain E s)) = sb_by_tag s"
proof (induction E s rule: drain.induct)
  case (1 E s)
  show ?case
  proof (cases "resolve_due_orders E True s")
    case (Pair s1 r)
    note b = resolve_index [OF Pair]
    show ?thesis
    proof (cases r)
      case (Inr us)
      show ?thesis
      proof (cases "us = []")
        case False
        have "sb_by_tag (fst (drain E s1)) = sb_by_tag s1" using 1 [of s1 "Inr us" us] Pair Inr False by simp
        then show ?thesis using Pair Inr False b by (simp add: drain.simps [of E s])
      qed (simp add: drain.simps [of E s] Pair Inr b)
    qed (simp add: drain.simps [of E s] Pair b)
  qed
qed

definition indexed :: "string \<Rightarrow> 'p sim \<Rightarrow> bool" where
  "indexed tag s \<longleftrightarrow> map_of (sb_by_tag s) tag \<noteq> None"

lemma keeps_indexed_read: "keeps (indexed tag) (sq (simulate_read_call E timeout) (pump E))"
  unfolding simulate_read_call_def ack_gate_def
  by (intro keeps_sq keeps_bnd keeps_if keeps_throw)
    (auto simp: keeps_def indexed_def pump_def drain_index draw_below_def sim_sleep_def modify_def
      require_authenticated_def bnd_def asks_def ret_def throw_def
      split: prod.split dest: resolve_index)

lemma sim_adopts:
  assumes "indexed tag s"
  shows "adopts (bk_find_tag (sim_broker E timeout) tag) s"
proof -
  let ?find = "bnd (asks (\<lambda>s. map_of (sb_by_tag s) tag)) (\<lambda>found.
      case found of
        None \<Rightarrow> ret None
      | Some oid \<Rightarrow>
          bnd (asks (\<lambda>s. map_of (sb_orders s) oid)) (\<lambda>o1.
          case o1 of
            None \<Rightarrow> throw KeyError
          | Some o2 \<Rightarrow> lift_sum (map_sum id Some (to_broker_order o2))))"
  have found: "hoare (indexed tag) ?find (\<lambda>x _. x \<noteq> None) (\<lambda>_ _. True)"
    by (auto simp: hoare_def indexed_def bnd_def asks_def ret_def throw_def lift_sum_def map_sum_def
        split: option.splits sum.splits)
  have eq: "sim_find_tag E timeout tag = bnd (sq (simulate_read_call E timeout) (pump E)) (\<lambda>_. ?find)"
    by (simp add: sim_find_tag_def sim_read_def sq_def bnd_assoc)
  have "hoare (indexed tag) (sim_find_tag E timeout tag) (\<lambda>x _. x \<noteq> None) (\<lambda>_ _. True)"
    unfolding eq
    by (rule hoare_bnd [OF hoare_post [OF hoare_of_keeps [OF keeps_indexed_read]] found]) simp_all
  then have f: "snd (sim_find_tag E timeout tag v) \<noteq> Inr None" if "indexed tag v" for v
    using hoareD1 [of "indexed tag" _ "\<lambda>x _. x \<noteq> None" _ v "fst (sim_find_tag E timeout tag v)" None] that
    by (cases "sim_find_tag E timeout tag v") auto
  have eq2: "snd (snd (snd (bk_find_tag (sim_broker E timeout) tag t s))) =
      snd (sim_find_tag E timeout tag (s\<lparr>sb_clock := t, sb_pushed := []\<rparr>))" for t
    by (simp add: sim_broker_def sim_call_def split: prod.split)
  show ?thesis unfolding adopts_def eq2 using f assms by (simp add: indexed_def)
qed


text \<open>
  An exit over the simulation broker never puts an order in the broker's book that no durable
  intent announced: if every order held before is announced by an intent that was marked started,
  the same is true after the exit, resent closes included, for every outcome and failure the broker
  draws, whatever the other actors do and even when the process dies midway.
\<close>

theorem simulated_closes_announced:
  assumes "cx_broker cx = sim_broker E timeout" and "\<And>p. keeps sim_announced (cx_history cx p)"
    and "sim_announced w"
  shows "\<forall>(oid, o1) \<in> set (sb_orders (w_bk (fst (exit_position cx reason w)))).
           tag_started (so_tag o1) (w_db (fst (exit_position cx reason w)))"
proof -
  have eq: "sim_announced = broker_book.intent_first sim_book"
    by (force simp: fun_eq_iff broker_book.intent_first_def [OF sim_book.broker_book_axioms]
        sim_announced_def sim_book_def)
  have "keeps sim_announced (exit_position cx reason)"
    using broker_book.g_exit [OF sim_book.broker_book_axioms assms(1)] assms(2) unfolding eq .
  then show ?thesis using assms(3) by (simp add: keeps_def sim_announced_def)
qed

section \<open>Witnesses\<close>

definition demo_trade :: "option_type \<Rightarrow> decimal \<Rightarrow> trade_row" where
  "demo_trade opt exit_price =
     \<lparr>t_position = 1, t_option = opt, t_symbol = ''X'', t_exchange = NFO, t_strike = 24000,
      t_quantity = 75, t_entry_price = Some 100, t_exit_price = Some exit_price,
      t_entry_time = Some 10, t_exit_time = Some 20,
      t_pnl = Some (leg_realized_pnl 100 exit_price 75), t_status = TL_CLOSED, t_version = 1\<rparr>"

definition demo_exit_intent :: "nat \<Rightarrow> string \<Rightarrow> string \<Rightarrow> dt option \<Rightarrow> intent_row" where
  "demo_exit_intent trade key tag started =
     \<lparr>i_trade = trade, i_purpose = EXIT, i_side = BUY, i_quantity = 75, i_key = key, i_tag = tag,
      i_status = IN_PENDING, i_started = started, i_version = 1\<rparr>"

definition demo_exit_intents :: "(nat \<times> intent_row) list" where
  "demo_exit_intents =
     [(1, demo_exit_intent 1 ''1:1970-01-01:CE:EXIT'' ''X1-700101-CE'' None),
      (2, demo_exit_intent 2 ''1:1970-01-01:PE:EXIT'' ''X1-700101-PE'' None)]"

definition demo_exit_db :: "position_state \<Rightarrow> (nat \<times> intent_row) list \<Rightarrow> db" where
  "demo_exit_db st intents =
     empty_db\<lparr>d_positions := [(1, demo_position\<lparr>p_state := st\<rparr>)],
       d_trades := [(1, demo_trade CE 70), (2, demo_trade PE 80)], d_intents := intents\<rparr>"

definition demo_exit_leg :: "nat \<Rightarrow> option_type \<Rightarrow> exit_leg" where
  "demo_exit_leg i opt =
     \<lparr>xl_trade = i, xl_intent = i, xl_symbol = ''X'', xl_exchange = NFO, xl_option = opt,
      xl_quantity = 75\<rparr>"

definition demo_exit_final :: db where
  "demo_exit_final =
     (demo_exit_db CLOSED demo_exit_intents)\<lparr>
       d_positions := [(1, demo_position\<lparr>p_state := CLOSED, p_exit_premium := Some 150,
         p_exit_reason := Some TARGET, p_pnl := Some 3750, p_exit_done := Some 1000, p_version := 3\<rparr>)],
       d_transitions := [(1, \<lparr>x_position = 1, x_from = Some EXIT_PENDING, x_to = CLOSED,
         x_reason = Some ''exit complete'', x_actor = STRATEGY\<rparr>)]\<rparr>"

definition demo_exit_world :: "db \<Rightarrow> price_table sim world" where
  "demo_exit_world d = demo_world []\<lparr>w_db := d\<rparr>"

lemma demo_prepare:
  "prepare_body 1 0 TARGET STRATEGY (demo_exit_db EXIT_PENDING []) =
     (demo_exit_db EXIT_PENDING demo_exit_intents,
      Inr (Inr \<lparr>px_position = 1, px_legs = [(CE, demo_exit_leg 1 CE), (PE, demo_exit_leg 2 PE)]\<rparr>))"
  by code_simp

lemma demo_checks:
  "close_check_body (demo_exit_leg 1 CE) (demo_exit_db EXIT_PENDING demo_exit_intents) =
     (demo_exit_db EXIT_PENDING demo_exit_intents,
      Inr (Inl \<lparr>cr_outcome = LegClosed, cr_reason = ''already closed'', cr_price = Some 70\<rparr>))"
  "close_check_body (demo_exit_leg 2 PE) (demo_exit_db EXIT_PENDING demo_exit_intents) =
     (demo_exit_db EXIT_PENDING demo_exit_intents,
      Inr (Inl \<lparr>cr_outcome = LegClosed, cr_reason = ''already closed'', cr_price = Some 80\<rparr>))"
  by code_simp+

lemma demo_finalize:
  "finalize_exit_body 1 TARGET STRATEGY 1000 (demo_exit_db EXIT_PENDING demo_exit_intents) =
     (demo_exit_final, Inr 3750)"
  by code_simp

lemma demo_commits: "db_constraints (demo_exit_db EXIT_PENDING demo_exit_intents)" "db_constraints demo_exit_final"
  by code_simp+

lemma demo_exit_run:
  "exit_position (demo_cx False) TARGET (demo_exit_world (demo_exit_db EXIT_PENDING [])) =
     (demo_exit_world demo_exit_final,
      Inr \<lparr>xr_outcome = EXITED, xr_message = ''exited'', xr_position = Some 1, xr_pnl = Some 3750\<rparr>)"
  by (simp add: exit_position_def exit_locked_def prepare_exit_def close_leg_def conclude_exit_def
      finalize_closed_def record_trade_history_def act_defs finally_do_def unit_of_work_def commit_def
      demo_exit_world_def demo_world_def demo_cx_def demo_identity_def today_def now_def ist_date_def
      ist_offset_def day_micros_def demo_prepare demo_checks demo_finalize demo_commits del: One_nat_def)

lemma demo_history: "history_leaves_closed (demo_cx b)"
  by (simp add: history_leaves_closed_def demo_cx_def keeps_ret)

theorem exited_witness:
  "\<exists>row. t_get (d_positions demo_exit_final) 1 = Some row \<and> p_state row = CLOSED \<and>
     p_pnl row = Some (num4 3750) \<and>
     (\<Sum>(i, t) \<leftarrow> list_trades_for_position 1 demo_exit_final. the (t_pnl t)) = 3750"
  using exited_position_is_closed [OF demo_history [of False], of TARGET
      "demo_exit_world (demo_exit_db EXIT_PENDING [])"]
  unfolding demo_exit_run
  by (simp add: demo_exit_world_def del: One_nat_def) (elim exE conjE, intro exI conjI)

theorem closed_exit_witness:
  "w_bk (fst (exit_position (demo_cx False) TARGET (demo_exit_world (demo_exit_db CLOSED [])))) =
     w_bk (demo_exit_world (demo_exit_db CLOSED []))"
  by (rule closed_exit_sends_nothing [THEN conjunct1])
    (simp add: day_closed_def demo_cx_def demo_identity_def demo_exit_world_def demo_world_def
      demo_exit_db_def demo_position_def get_by_instance_and_date_def ist_date_def ist_offset_def
      day_micros_def)

text \<open>
  An exit that resumes after a crash, with both closes marked started, while the broker's order
  queries time out: both legs are ambiguous.
\<close>

definition stuck_intents :: "(nat \<times> intent_row) list" where
  "stuck_intents =
     [(1, demo_exit_intent 1 ''1:1970-01-01:CE:EXIT'' ''X1-700101-CE'' (Some 5)),
      (2, demo_exit_intent 2 ''1:1970-01-01:PE:EXIT'' ''X1-700101-PE'' (Some 5))]"

definition stuck_db :: db where
  "stuck_db =
     (demo_exit_db EXIT_PENDING stuck_intents)\<lparr>
       d_trades := map (\<lambda>(i, r). (i, r\<lparr>t_exit_price := None, t_pnl := None, t_status := TL_OPEN\<rparr>))
         [(1, demo_trade CE 70), (2, demo_trade PE 80)]\<rparr>"

definition stuck_sim :: "nat \<Rightarrow> price_table sim" where
  "stuck_sim n = (new_sim demo_prices 1000)\<lparr>sb_draws := n\<rparr>"

definition stuck_world :: "price_table sim world" where
  "stuck_world = (demo_exit_world stuck_db)\<lparr>w_bk := stuck_sim 0\<rparr>"

definition stuck_cx :: "price_table sim ctx" where
  "stuck_cx = (demo_cx False)\<lparr>cx_broker := sim_broker demo_env (Some 1)\<rparr>"

definition stuck_break :: break_row where
  "stuck_break = \<lparr>b_position = Some 1, b_order = None, b_intent = None, b_type = AMBIGUOUS_ACK,
     b_detected_at = 1000, b_resolution = RS_PENDING, b_notes = None, b_resolved_at = None,
     b_resolved_by = None, b_version = 1\<rparr>"

definition stuck_final :: db where
  "stuck_final =
     stuck_db\<lparr>
       d_positions := [(1, demo_position\<lparr>p_state := PS_ERROR, p_exit_reason := Some ER_ERROR,
         p_error := Some ''exit incomplete (TARGET): CE=AMBIGUOUS; PE=AMBIGUOUS'', p_version := 3\<rparr>)],
       d_transitions := [(1, \<lparr>x_position = 1, x_from = Some EXIT_PENDING, x_to = PS_ERROR,
         x_reason = Some ''exit incomplete (TARGET): CE=AMBIGUOUS; PE=AMBIGUOUS'', x_actor = STRATEGY\<rparr>)],
       d_breaks := [(1, stuck_break)]\<rparr>"

lemma stuck_prepare:
  "prepare_body 1 0 TARGET STRATEGY stuck_db =
     (stuck_db, Inr (Inr \<lparr>px_position = 1, px_legs = [(CE, demo_exit_leg 1 CE), (PE, demo_exit_leg 2 PE)]\<rparr>))"
  by code_simp

lemma stuck_checks:
  "close_check_body (demo_exit_leg 1 CE) stuck_db = (stuck_db, Inr (Inr (True, ''X1-700101-CE'')))"
  "close_check_body (demo_exit_leg 2 PE) stuck_db = (stuck_db, Inr (Inr (True, ''X1-700101-PE'')))"
  by code_simp+

lemma stuck_finds:
  "bk_find_tag (sim_broker demo_env (Some 1)) ''X1-700101-CE'' 1000 (stuck_sim 0) =
     (stuck_sim 1, 0, [], Inl (BrokerTimeoutError ''Simulated call exceeded''))"
  "bk_find_tag (sim_broker demo_env (Some 1)) ''X1-700101-PE'' 1000 (stuck_sim 1) =
     (stuck_sim 2, 0, [], Inl (BrokerTimeoutError ''Simulated call exceeded''))"
  by code_simp+

lemma stuck_fail:
  "break_create AMBIGUOUS_ACK 1000 (Some 1) None None stuck_db =
     (stuck_db\<lparr>d_breaks := [(1, stuck_break)]\<rparr>, Inr 1)"
  "fail_body 1 1 ''exit incomplete (TARGET): CE=AMBIGUOUS; PE=AMBIGUOUS''
     (stuck_db\<lparr>d_breaks := [(1, stuck_break)]\<rparr>) = (stuck_final, Inr ())"
  by code_simp+

lemma stuck_commits:
  "db_constraints stuck_db" "db_constraints (stuck_db\<lparr>d_breaks := [(1, stuck_break)]\<rparr>)"
  "db_constraints stuck_final"
  by code_simp+

lemma stuck_run:
  "exit_position stuck_cx TARGET stuck_world =
     (stuck_world\<lparr>w_db := stuck_final, w_bk := stuck_sim 2\<rparr>,
      Inr \<lparr>xr_outcome = EXIT_AMBIGUOUS_ERROR,
        xr_message = ''exit incomplete (TARGET): CE=AMBIGUOUS; PE=AMBIGUOUS'', xr_position = Some 1,
        xr_pnl = None\<rparr>)"
  by (simp add: exit_position_def exit_locked_def prepare_exit_def close_leg_def conclude_exit_def
      adopt_existing_order_def exit_record_break_def exit_fail_to_error_def record_break_def
      act_defs finally_do_def unit_of_work_def commit_def bcall_def Let_def is_exception_def is_broker_error_def
      demo_exit_world_def demo_world_def stuck_world_def stuck_cx_def demo_cx_def demo_identity_def
      today_def now_def ist_date_def ist_offset_def day_micros_def
      stuck_prepare stuck_checks stuck_finds stuck_fail stuck_commits del: One_nat_def)

theorem failed_exit_freezes_witness:
  "\<exists>row. t_get (d_positions stuck_final) 1 = Some row \<and> p_state row \<in> {PS_ERROR, CLOSED}"
proof -
  have "\<And>p pid. keeps (on_db (position_known pid)) (cx_history stuck_cx p)"
    by (simp add: stuck_cx_def demo_cx_def keeps_ret)
  from failed_exit_freezes [OF this, of TARGET stuck_world] show ?thesis
    unfolding stuck_run by (simp add: exit_failed_outcome_def stuck_world_def del: One_nat_def) blast
qed

theorem simulated_closes_announced_witness:
  "sim_announced (fst (exit_position (demo_cx False) TARGET (demo_exit_world (demo_exit_db EXIT_PENDING []))))"
  unfolding sim_announced_def
  by (rule simulated_closes_announced [where E = demo_env and timeout = None])
    (simp_all add: demo_cx_def keeps_ret demo_sim_orders sim_announced_def demo_exit_world_def)


end
