(* ===== verification/Risk_Proofs.thy ===== *)
theory Risk_Proofs
  imports Risk_Core Exit_Claims
begin

text \<open>
  Properties of the pre-trade gate: the shape of every validation, what an approval says about the
  database and the broker, and the daily loss latch.
\<close>

section \<open>Every validation is fail-fast\<close>

fun fail_fast :: "risk_check list \<Rightarrow> bool" where
  "fail_fast [] = True"
| "fail_fast (c # cs) =
     (case rc_status c of
        CHECK_PASSED \<Rightarrow> fail_fast cs
      | CHECK_FAILED \<Rightarrow> list_all (\<lambda>c. rc_status c = CHECK_SKIPPED) cs
      | CHECK_SKIPPED \<Rightarrow> False)"

definition answers :: "string \<Rightarrow> ('s, risk_check) act \<Rightarrow> bool" where
  "answers name m \<longleftrightarrow>
     (\<forall>s s' c. m s = (s', Inr c) \<longrightarrow> rc_name c = name \<and> rc_status c \<in> {CHECK_PASSED, CHECK_FAILED})"

lemma answers_ret [simp]: "answers name (ret (pass_check name d))" "answers name (ret (fail_check name d))"
  by (simp_all add: answers_def ret_def pass_check_def fail_check_def)

lemma answers_bnd: "(\<And>x. answers name (f x)) \<Longrightarrow> answers name (bnd m f)"
  unfolding answers_def by (blast elim: bnd_Inr_elim)

lemma answers_sq: "answers name n \<Longrightarrow> answers name (sq m n)"
  unfolding sq_def by (rule answers_bnd)

lemma answers_if: "answers name m \<Longrightarrow> answers name n \<Longrightarrow> answers name (if b then m else n)"
  by simp

lemma answers_option:
  "answers name m \<Longrightarrow> (\<And>y. answers name (f y)) \<Longrightarrow> answers name (case x of None \<Rightarrow> m | Some y \<Rightarrow> f y)"
  by (cases x) simp_all

lemma answers_bool:
  "answers name m \<Longrightarrow> answers name n \<Longrightarrow> answers name (case b of True \<Rightarrow> m | False \<Rightarrow> n)"
  by (cases b) simp_all

lemma answers_state: "answers ''strategy_state'' (check_strategy_state who)"
  by (auto simp: answers_def check_strategy_state_def strategy_state_query_def pass_check_def
      fail_check_def dest!: read_session_Inr split: option.splits if_splits)

lemma checks_answer: "(name, f) \<in> set (entry_checks R who q) \<Longrightarrow> answers name f"
  unfolding entry_checks_def check_trading_hours_def check_kill_switch_def
    check_emergency_stop_def check_daily_loss_limit_def check_duplicate_position_def
    check_max_daily_entries_def check_broker_connectivity_def check_available_margin_def
  by (auto intro!: answers_bnd answers_sq answers_if answers_option answers_bool answers_state)

lemma run_checks_skipped:
  "run_checks fs True w = (w', Inr cs) \<Longrightarrow>
     map rc_name cs = map fst fs \<and> list_all (\<lambda>c. rc_status c = CHECK_SKIPPED) cs"
  by (induction fs arbitrary: cs w w')
    (auto simp: ret_def skip_check_def elim!: bnd_Inr_elim)

lemma run_checks_shape:
  "(\<And>name f. (name, f) \<in> set fs \<Longrightarrow> answers name f) \<Longrightarrow> run_checks fs False w = (w', Inr cs) \<Longrightarrow>
     map rc_name cs = map fst fs \<and> fail_fast cs"
proof (induction fs arbitrary: cs w w')
  case Nil
  then show ?case by (simp add: ret_def)
next
  case (Cons x fs)
  obtain name f where x: "x = (name, f)" by (cases x)
  from Cons.prems(2) x obtain w1 c ds where c: "f w = (w1, Inr c)"
    and r: "run_checks fs (rc_status c = CHECK_FAILED) w1 = (w', Inr ds)" and cs: "cs = c # ds"
    by (auto simp: ret_def elim!: bnd_Inr_elim)
  have a: "rc_name c = name" "rc_status c \<in> {CHECK_PASSED, CHECK_FAILED}"
    using Cons.prems(1) [of name f] c x unfolding answers_def by auto
  show ?case
  proof (cases "rc_status c = CHECK_FAILED")
    case True
    then show ?thesis using run_checks_skipped r cs x a by auto
  next
    case False
    then have p: "rc_status c = CHECK_PASSED" and r': "run_checks fs False w1 = (w', Inr ds)"
      using a r by simp_all
    have "map rc_name ds = map fst fs \<and> fail_fast ds"
      by (rule Cons.IH [OF Cons.prems(1) r']) simp_all
    then show ?thesis using cs x a p by simp
  qed
qed

lemma fail_fast_failed:
  "fail_fast cs \<Longrightarrow> list_ex (\<lambda>c. rc_status c = CHECK_FAILED) cs \<longleftrightarrow>
     \<not> list_all (\<lambda>c. rc_status c = CHECK_PASSED) cs"
  by (induction cs rule: fail_fast.induct) (auto split: check_status.splits simp: list_all_iff list_ex_iff)

lemma validate_entry_run:
  assumes "validate_entry R who q w = (w', Inr v)"
  shows "run_checks (entry_checks R who q) False w = (w', Inr (rv_checks v)) \<and>
    rv_approved v = (\<not> list_ex (\<lambda>c. rc_status c = CHECK_FAILED) (rv_checks v))"
  using assms by (auto simp: validate_entry_def ret_def elim!: bnd_Inr_elim)

lemma find_list_ex: "List.find P xs = None \<longleftrightarrow> \<not> list_ex P xs"
  by (auto simp: find_None_iff list_ex_iff)

text \<open>
  A validation always reports the nine checks, in their fixed order; all of them passed if and
  only if the entry is approved, otherwise exactly one failed, every check before it passed and
  every check after it is SKIPPED; a decision carries a reason if and only if it is a rejection.
\<close>

theorem validation_is_fail_fast:
  "case validate_entry R who q w of
     (w', Inl e) \<Rightarrow> True
   | (w', Inr v) \<Rightarrow>
       map rc_name (rv_checks v) =
         [''trading_hours'', ''strategy_state'', ''kill_switch'', ''emergency_stop'',
          ''daily_loss_limit'', ''duplicate_position'', ''max_daily_entries'',
          ''broker_connectivity'', ''available_margin''] \<and>
       fail_fast (rv_checks v) \<and>
       rv_approved v = list_all (\<lambda>c. rc_status c = CHECK_PASSED) (rv_checks v) \<and>
       (rd_reason (to_risk_decision v) = None) = rv_approved v"
proof (cases "validate_entry R who q w")
  case (Pair w' x)
  show ?thesis
  proof (cases x)
    case (Inr v)
    note run = validate_entry_run [OF Pair [unfolded Inr]]
    have shape: "map rc_name (rv_checks v) = map fst (entry_checks R who q) \<and> fail_fast (rv_checks v)"
      by (rule run_checks_shape [OF checks_answer]) (use run in auto)
    show ?thesis
      using run shape fail_fast_failed [of "rv_checks v"]
      by (simp add: Pair Inr to_risk_decision_def failed_check_def find_list_ex entry_checks_def)
  qed (simp add: Pair)
qed

section \<open>What an approval means\<close>

fun chain :: "(string \<times> ('b, risk_check) prog) list \<Rightarrow> 'b world \<Rightarrow> bool" where
  "chain [] w = True"
| "chain ((name, f) # fs) w =
     (\<exists>w1 c. f w = (w1, Inr c) \<and> rc_status c = CHECK_PASSED \<and> chain fs w1)"

lemma run_chain:
  "run_checks fs False w = (w', Inr cs) \<Longrightarrow> list_all (\<lambda>c. rc_status c = CHECK_PASSED) cs \<Longrightarrow> chain fs w"
proof (induction fs arbitrary: w cs)
  case (Cons x fs)
  obtain name f where x: "x = (name, f)" by (cases x)
  from Cons.prems(1) x obtain w1 c ds where *: "f w = (w1, Inr c)"
    "run_checks fs (rc_status c = CHECK_FAILED) w1 = (w', Inr ds)" "cs = c # ds"
    by (auto simp: ret_def elim!: bnd_Inr_elim)
  then show ?case using Cons.prems(2) Cons.IH [of w1 ds] x by auto
qed simp

lemma status_simps [simp]:
  "rc_status (pass_check n d) = CHECK_PASSED" "rc_status (fail_check n d) = CHECK_FAILED"
  by (simp_all add: pass_check_def fail_check_def)

lemma hours_passed:
  "check_trading_hours R w = (w1, Inr c) \<Longrightarrow> rc_status c = CHECK_PASSED \<Longrightarrow>
     w1 = w \<and> rk_open (rr_config R) \<le> ist_time (w_now w) \<and> ist_time (w_now w) \<le> rk_close (rr_config R)"
  by (auto simp: check_trading_hours_def now_run ret_def elim!: bnd_Inr_elim split: if_splits)

lemma state_passed:
  assumes "check_strategy_state who w = (w1, Inr c)" "rc_status c = CHECK_PASSED" "w_env w = []"
  shows "w1 = w \<and> (\<exists>i. t_get (d_instances (w_db w)) (id_instance who) = Some i \<and> si_status i = IS_ACTIVE) \<and>
    filter (\<lambda>(k, f). f_type f = FREEZE)
      (list_active_relevant_to (id_account who) (id_instance who) (w_db w)) = []"
  using assms by (auto simp: check_strategy_state_def read_session_quiet strategy_state_query_def
      split: option.splits if_splits)

lemma kill_passed:
  assumes "check_kill_switch who w = (w1, Inr c)" "rc_status c = CHECK_PASSED" "w_env w = []"
  shows "w1 = w \<and> filter (\<lambda>(k, f). f_type f = RF_KILL_SWITCH)
    (list_active_relevant_to (id_account who) (id_instance who) (w_db w)) = []"
  using assms by (auto simp: check_kill_switch_def read_session_quiet ret_def bnd_def split: if_splits)

lemma emergency_passed:
  assumes "check_emergency_stop who w = (w1, Inr c)" "rc_status c = CHECK_PASSED" "w_env w = []"
  shows "w1 = w \<and> filter (\<lambda>(k, f). f_type f = EMERGENCY_EXIT)
    (list_active_relevant_to (id_account who) (id_instance who) (w_db w)) = []"
  using assms by (auto simp: check_emergency_stop_def read_session_quiet ret_def bnd_def split: if_splits)

text \<open>Every active flag that covers the instance is one of the three kinds.\<close>

lemma no_flags:
  fixes fs :: "(nat \<times> flag_row) list"
  assumes "filter (\<lambda>(k, f). f_type f = FREEZE) fs = []" "filter (\<lambda>(k, f). f_type f = RF_KILL_SWITCH) fs = []"
    "filter (\<lambda>(k, f). f_type f = EMERGENCY_EXIT) fs = []"
  shows "fs = []"
proof (cases fs)
  case (Cons x xs)
  then show ?thesis using assms by (cases x; cases "f_type (snd x)") auto
qed

definition daily_only :: "db \<Rightarrow> db \<Rightarrow> bool" where
  "daily_only d d' \<longleftrightarrow> (\<exists>t. d' = d\<lparr>d_daily := t\<rparr>)"

lemma daily_only_refl: "daily_only d d"
  unfolding daily_only_def by (rule exI [of _ "d_daily d"]) simp

lemma keeps_daily_only: "keeps (daily_only d) (persist_body account td limit f t)"
  unfolding persist_body_def portfolio_get_or_create_def update_pnl_def mark_breached_def get_row_def
  by (intro keeps_bnd keeps_sq keeps_if keeps_ret keeps_asks keeps_prod keeps_get_or_create
      keeps_upd_daily) (auto simp: daily_only_def)

lemma persist_quiet:
  assumes "persist_daily_risk account td limit f w = (w1, Inr x)" "w_env w = []"
  shows "daily_only (w_db w) (w_db w1) \<and> w_env w1 = [] \<and> w_now w1 = w_now w"
proof -
  note refl = daily_only_refl [of "w_db w"]
  have "daily_only (w_db w) (fst (persist_body account td limit f (w_now w) (w_db w)))"
    using keeps_daily_only refl by (simp add: keeps_def)
  then show ?thesis
    using assms refl
    by (auto simp: persist_daily_risk_def now_run bnd_def catch_if_def unit_of_work_def commit_def
        ret_def split: prod.splits sum.splits if_splits)
qed

lemma loss_passed:
  assumes "check_daily_loss_limit R who w = (w1, Inr c)" "rc_status c = CHECK_PASSED" "w_env w = []"
  shows "daily_only (w_db w) (w_db w1) \<and> w_env w1 = [] \<and> w_now w1 = w_now w \<and>
    (case rk_loss_limit (rr_config R) of None \<Rightarrow> True
     | Some l \<Rightarrow> \<not> lf_breached (loss_query (id_account who) (ist_date (w_now w)) l (w_db w)) \<and>
         \<not> lf_crossed (loss_query (id_account who) (ist_date (w_now w)) l (w_db w)))"
proof (cases "rk_loss_limit (rr_config R)")
  case None
  then show ?thesis using assms by (simp add: check_daily_loss_limit_def ret_def daily_only_refl)
next
  case (Some l)
  let ?f = "loss_query (id_account who) (ist_date (w_now w)) l (w_db w)"
  from assms Some have "persist_daily_risk (id_account who) (ist_date (w_now w)) l ?f w = (w1, Inr ())"
    and "\<not> (lf_breached ?f \<or> lf_crossed ?f)"
    by (auto simp: check_daily_loss_limit_def today_run bnd_def sq_def read_session_quiet ret_def
        split: prod.splits sum.splits if_splits)
  with persist_quiet [OF this(1) assms(3)] Some show ?thesis by simp
qed

lemma duplicate_passed:
  assumes "check_duplicate_position who w = (w1, Inr c)" "rc_status c = CHECK_PASSED" "w_env w = []"
  shows "w1 = w \<and> get_by_instance_and_date (id_instance who) (ist_date (w_now w)) (w_db w) = None"
  using assms
  by (cases "get_by_instance_and_date (id_instance who) (ist_date (w_now w)) (w_db w)")
    (auto simp: check_duplicate_position_def today_run bnd_def read_session_quiet ret_def split: if_splits)

lemma count_passed:
  assumes "check_max_daily_entries R who w = (w1, Inr c)" "rc_status c = CHECK_PASSED" "w_env w = []"
  shows "w1 = w \<and>
    int (count_for_account_on_date (id_account who) (ist_date (w_now w)) (w_db w)) < rk_max_entries (rr_config R)"
  using assms
  by (auto simp: check_max_daily_entries_def today_run bnd_def read_session_quiet ret_def split: if_splits)

lemma broker_passed:
  assumes "check_broker_connectivity R w = (w1, Inr c)" "rc_status c = CHECK_PASSED"
  shows "\<exists>h. bcall (bk_health (rr_broker R)) w = (w1, Inr h) \<and> hs_healthy h"
  using assms
  by (auto simp: check_broker_connectivity_def bnd_def catch_if_def ret_def
      split: prod.splits sum.splits option.splits if_splits bool.splits)

lemma margin_passed:
  assumes "check_available_margin R who q w = (w1, Inr c)" "rc_status c = CHECK_PASSED"
  shows "\<exists>required m. required_margin R (id_instrument who) q = Some required \<and>
    bcall (bk_margins (rr_broker R)) w = (w1, Inr m) \<and> required \<le> bm_available_cash m"
  using assms
  by (auto simp: check_available_margin_def bnd_def catch_if_def ret_def
      split: prod.splits sum.splits option.splits if_splits)

lemma daily_only_queries:
  assumes "daily_only d d'"
  shows "get_by_instance_and_date i td d' = get_by_instance_and_date i td d"
    "count_for_account_on_date a td d' = count_for_account_on_date a td d"
proof -
  from assms obtain x where d': "d' = d\<lparr>d_daily := x\<rparr>" unfolding daily_only_def by blast
  show "get_by_instance_and_date i td d' = get_by_instance_and_date i td d"
    by (simp add: d' get_by_instance_and_date_def)
  show "count_for_account_on_date a td d' = count_for_account_on_date a td d"
    by (simp add: d' count_for_account_on_date_def positions_for_account_def instance_account_def)
qed

text \<open>
  C10: an approved entry is safe: when no other actor acts during the validation, approval implies
  that the time is within trading hours, the instance is ACTIVE and no active control flag of any
  kind covers it, the day's loss is neither latched nor past the limit, the instance has no
  position today, the account has entries left, the broker reported itself healthy and has the
  estimated margin available.
\<close>

theorem approved_entry_is_safe:
  assumes "w_env w = []" and "snd (validate_entry R who q w) = Inr v" and "rv_approved v"
  shows "rk_open (rr_config R) \<le> ist_time (w_now w) \<and> ist_time (w_now w) \<le> rk_close (rr_config R) \<and>
    (\<exists>i. t_get (d_instances (w_db w)) (id_instance who) = Some i \<and> si_status i = IS_ACTIVE) \<and>
    list_active_relevant_to (id_account who) (id_instance who) (w_db w) = [] \<and>
    (case rk_loss_limit (rr_config R) of None \<Rightarrow> True
     | Some l \<Rightarrow> \<not> lf_breached (loss_query (id_account who) (ist_date (w_now w)) l (w_db w)) \<and>
         \<not> lf_crossed (loss_query (id_account who) (ist_date (w_now w)) l (w_db w))) \<and>
    get_by_instance_and_date (id_instance who) (ist_date (w_now w)) (w_db w) = None \<and>
    int (count_for_account_on_date (id_account who) (ist_date (w_now w)) (w_db w)) < rk_max_entries (rr_config R) \<and>
    (\<exists>u h. snd (bcall (bk_health (rr_broker R)) u) = Inr h \<and> hs_healthy h) \<and>
    (\<exists>u m required. required_margin R (id_instrument who) q = Some required \<and>
       snd (bcall (bk_margins (rr_broker R)) u) = Inr m \<and> required \<le> bm_available_cash m)"
proof -
  obtain w' where "validate_entry R who q w = (w', Inr v)" using assms(2) by (metis prod.collapse)
  note run = validate_entry_run [OF this]
  have ff: "fail_fast (rv_checks v)"
    by (rule conjunct2 [OF run_checks_shape [OF checks_answer]]) (use run in auto)
  have all: "list_all (\<lambda>c. rc_status c = CHECK_PASSED) (rv_checks v)"
    using run fail_fast_failed [OF ff] assms(3) by simp
  have "chain (entry_checks R who q) w" using run_chain run all by blast
  then obtain w1 c1 w2 c2 w3 c3 w4 c4 w5 c5 w6 c6 w7 c7 w8 c8 w9 c9 where
    1: "check_trading_hours R w = (w1, Inr c1)" "rc_status c1 = CHECK_PASSED" and
    2: "check_strategy_state who w1 = (w2, Inr c2)" "rc_status c2 = CHECK_PASSED" and
    3: "check_kill_switch who w2 = (w3, Inr c3)" "rc_status c3 = CHECK_PASSED" and
    4: "check_emergency_stop who w3 = (w4, Inr c4)" "rc_status c4 = CHECK_PASSED" and
    5: "check_daily_loss_limit R who w4 = (w5, Inr c5)" "rc_status c5 = CHECK_PASSED" and
    6: "check_duplicate_position who w5 = (w6, Inr c6)" "rc_status c6 = CHECK_PASSED" and
    7: "check_max_daily_entries R who w6 = (w7, Inr c7)" "rc_status c7 = CHECK_PASSED" and
    8: "check_broker_connectivity R w7 = (w8, Inr c8)" "rc_status c8 = CHECK_PASSED" and
    9: "check_available_margin R who q w8 = (w9, Inr c9)" "rc_status c9 = CHECK_PASSED"
    unfolding entry_checks_def chain.simps by (elim exE conjE)
  note p1 = hours_passed [OF 1] and p2 = state_passed [OF 2] and p3 = kill_passed [OF 3]
    and p4 = emergency_passed [OF 4] and p5 = loss_passed [OF 5] and p6 = duplicate_passed [OF 6]
    and p7 = count_passed [OF 7]
  have e1: "w1 = w" using p1 by blast
  note p2 = p2 [unfolded e1, OF assms(1)]
  have e2: "w2 = w" using p2 by blast
  note p3 = p3 [unfolded e2, OF assms(1)]
  have e3: "w3 = w" using p3 by blast
  note p4 = p4 [unfolded e3, OF assms(1)]
  have e4: "w4 = w" using p4 by blast
  note p5 = p5 [unfolded e4, OF assms(1)]
  have e5: "w_env w5 = []" "w_now w5 = w_now w" "daily_only (w_db w) (w_db w5)" using p5 by blast+
  note p6 = p6 [OF e5(1)]
  have e6: "w6 = w5" using p6 by blast
  note p7 = p7 [unfolded e6, OF e5(1)]
  have flags: "list_active_relevant_to (id_account who) (id_instance who) (w_db w) = []"
    by (rule no_flags [OF conjunct2 [OF conjunct2 [OF p2]] conjunct2 [OF p3] conjunct2 [OF p4]])
  note loss = conjunct2 [OF conjunct2 [OF conjunct2 [OF p5]]]
  have day: "get_by_instance_and_date (id_instance who) (ist_date (w_now w)) (w_db w) = None"
    "int (count_for_account_on_date (id_account who) (ist_date (w_now w)) (w_db w)) < rk_max_entries (rr_config R)"
    using p6 p7 daily_only_queries [OF e5(3)] unfolding e5(2) by simp_all
  note state = conjunct1 [OF conjunct2 [OF p2]]
  have broker: "\<exists>u h. snd (bcall (bk_health (rr_broker R)) u) = Inr h \<and> hs_healthy h"
    using broker_passed [OF 8] by (metis snd_conv)
  have margin: "\<exists>u m required. required_margin R (id_instrument who) q = Some required \<and>
       snd (bcall (bk_margins (rr_broker R)) u) = Inr m \<and> required \<le> bm_available_cash m"
    using margin_passed [OF 9] by (metis snd_conv)
  show ?thesis by (intro conjI flags loss day state broker margin) (use p1 in blast)+
qed

section \<open>The daily loss latch\<close>

definition breached_today :: "nat \<Rightarrow> date \<Rightarrow> db \<Rightarrow> bool" where
  "breached_today account td d \<longleftrightarrow>
     (case portfolio_row account td d of None \<Rightarrow> False | Some (i, r) \<Rightarrow> dr_breached r)"

lemma daily_of_apply_env [simp]: "d_daily (apply_env e tm d) = d_daily d"
proof (cases e)
  case (EvPush bo)
  then show ?thesis using push_orders_only [of bo tm d] by auto
next
  case (EvPosition row)
  then show ?thesis by (auto simp: position_get_or_create_def get_or_create_def split: option.split)
next
  case (EvManualClose pid)
  then show ?thesis
    by (cases "t_get (d_positions d) pid")
      (simp_all add: sm_transition_missing sm_transition_run transition_state_run)
qed simp_all

interpretation latch: db_invariant "breached_today account td" for account td
  by unfold_locales (simp add: breached_today_def portfolio_row_def)

lemma latch_put:
  assumes "breached_today account td d" "t_get (d_daily d) i = Some r" "dr_account q = dr_account r"
    "dr_date q = dr_date r" "dr_instrument q = dr_instrument r" "dr_breached r \<Longrightarrow> dr_breached q"
  shows "breached_today account td (d\<lparr>d_daily := t_put (d_daily d) i q\<rparr>)"
  using assms t_find_put [of "d_daily d" i r "\<lambda>r. dr_account r = account \<and> dr_date r = td \<and> dr_instrument r = None"
      q dr_breached]
  by (simp add: breached_today_def portfolio_row_def)

lemma latch_add: "breached_today account td d \<Longrightarrow> breached_today account td (d\<lparr>d_daily := t_add (d_daily d) row\<rparr>)"
  by (auto simp: breached_today_def portfolio_row_def t_find_add split: option.splits)

lemma latch_upd:
  assumes "\<And>r. dr_account (f r) = dr_account r \<and> dr_date (f r) = dr_date r \<and>
    dr_instrument (f r) = dr_instrument r \<and> (dr_breached r \<longrightarrow> dr_breached (f r))"
  shows "keeps (breached_today account td) (upd_daily i f)"
  unfolding keeps_def upd_daily_def modify_def
  by (auto split: option.split intro!: latch_put simp: assms)

lemma latch_persist_body: "keeps (breached_today account td) (persist_body a t0 limit f t)"
  unfolding persist_body_def portfolio_get_or_create_def update_pnl_def mark_breached_def get_row_def
  by (intro keeps_bnd keeps_sq keeps_if keeps_ret keeps_asks keeps_prod keeps_get_or_create latch_upd
      latch_add) simp_all

lemma latch_persist: "keeps (on_db (breached_today account td)) (persist_daily_risk a t0 limit f)"
  unfolding persist_daily_risk_def
  by (intro keeps_bnd keeps_catch_if keeps_ret latch.keeps_world latch.keeps_unit_of_work latch_persist_body)

lemma latch_checks:
  "(name, f) \<in> set (entry_checks R who q) \<Longrightarrow> keeps (on_db (breached_today account td)) f"
  unfolding entry_checks_def check_trading_hours_def check_strategy_state_def check_kill_switch_def
    check_emergency_stop_def check_daily_loss_limit_def check_duplicate_position_def
    check_max_daily_entries_def check_broker_connectivity_def check_available_margin_def
  by (auto intro!: keeps_bnd keeps_sq keeps_if keeps_ret keeps_option keeps_catch_if
      latch.keeps_world latch_persist split: option.split bool.split)

lemma keeps_run_checks:
  "(\<And>name f. (name, f) \<in> set fs \<Longrightarrow> keeps I f) \<Longrightarrow> keeps I (run_checks fs b)"
proof (induction fs arbitrary: b)
  case (Cons x fs)
  obtain name f where x: "x = (name, f)" by (cases x)
  have "keeps I (run_checks fs b')" for b' by (rule Cons.IH) (use Cons.prems in auto)
  moreover have "keeps I f" using Cons.prems [of name f] x by simp
  ultimately show ?case unfolding x run_checks.simps by (intro keeps_if keeps_bnd keeps_ret)
qed (simp add: keeps_ret)

lemma latch_validate: "keeps (on_db (breached_today account td)) (validate_entry R who q)"
  unfolding validate_entry_def by (intro keeps_bnd keeps_ret keeps_run_checks latch_checks)

definition latched :: "nat \<Rightarrow> dt \<Rightarrow> 'b world \<Rightarrow> bool" where
  "latched account t w \<longleftrightarrow> w_now w = t \<and> breached_today account (ist_date t) (w_db w)"

lemma latched_read: "read_session f w = (w', Inr x) \<Longrightarrow> latched account t w \<Longrightarrow> latched account t w'"
  using latch.keeps_read_session [of account "ist_date t" f] read_session_now [of f w]
  by (auto simp: latched_def keeps_def on_db_def dest: spec [of _ w])

lemma latched_fails:
  assumes "check_daily_loss_limit R who w = (w', Inr c)" "rk_loss_limit (rr_config R) = Some l"
    "latched (id_account who) t w"
  shows "rc_status c = CHECK_FAILED"
proof -
  from assms(1,2) obtain w1 w2 f where r: "read_session (loss_query (id_account who) (ist_date (w_now w)) l) w = (w1, Inr f)"
    and c: "(if lf_breached f \<or> lf_crossed f
             then ret (fail_check ''daily_loss_limit'' ''daily realized P&L breaches limit'')
             else ret (pass_check ''daily_loss_limit'' ''daily realized P&L within limit'')) w2 = (w', Inr c)"
    by (auto simp: check_daily_loss_limit_def today_run elim!: bnd_Inr_elim sq_Inr_elim)
  have "latched (id_account who) t w1" by (rule latched_read [OF r assms(3)])
  moreover have "f = loss_query (id_account who) (ist_date t) l (w_db w1)"
    using read_session_Inr [OF r] assms(3) by (simp add: latched_def)
  ultimately have "lf_breached f"
    by (auto simp: latched_def breached_today_def loss_query_def Let_def split: option.splits)
  then show ?thesis using c by (auto simp: ret_def)
qed

text \<open>
  C11: hitting the daily loss limit ends the day: once the account's risk row of today is marked
  breached, no validation approves an entry and no validation clears the mark, whatever the
  positions' profits have become, under every schedule of the other actors.
\<close>

theorem loss_limit_ends_the_day:
  assumes "rk_loss_limit (rr_config R) = Some l"
    and "breached_today (id_account who) (ist_date (w_now w)) (w_db w)"
  shows "breached_today (id_account who) (ist_date (w_now w)) (w_db (fst (validate_entry R who q w))) \<and>
    (case validate_entry R who q w of (w', Inl e) \<Rightarrow> True | (w', Inr v) \<Rightarrow> \<not> rv_approved v)"
proof
  show "breached_today (id_account who) (ist_date (w_now w)) (w_db (fst (validate_entry R who q w)))"
    using latch_validate [of "id_account who" "ist_date (w_now w)" R who q] assms(2)
    unfolding keeps_def on_db_def by blast
  have False if run: "validate_entry R who q w = (w', Inr v)" and ok: "rv_approved v" for w' v
  proof -
    note r = validate_entry_run [OF run]
    have ff: "fail_fast (rv_checks v)"
      by (rule conjunct2 [OF run_checks_shape [OF checks_answer]]) (use r in auto)
    have "list_all (\<lambda>c. rc_status c = CHECK_PASSED) (rv_checks v)"
      using r fail_fast_failed [OF ff] ok by simp
    then have "chain (entry_checks R who q) w" using run_chain r by blast
    then obtain w1 c1 w2 c2 w3 c3 w4 c4 w5 c5 where
      1: "check_trading_hours R w = (w1, Inr c1)" "rc_status c1 = CHECK_PASSED" and
      2: "check_strategy_state who w1 = (w2, Inr c2)" and
      3: "check_kill_switch who w2 = (w3, Inr c3)" and
      4: "check_emergency_stop who w3 = (w4, Inr c4)" and
      5: "check_daily_loss_limit R who w4 = (w5, Inr c5)" "rc_status c5 = CHECK_PASSED"
      unfolding entry_checks_def chain.simps by (elim exE conjE)
    let ?L = "latched (id_account who) (w_now w)"
    have "?L w1" using hours_passed [OF 1] assms(2) by (simp add: latched_def)
    then have "?L w2" using latched_read [OF 2 [unfolded check_strategy_state_def]] by blast
    then have "?L w3" using 3 by (auto simp: check_kill_switch_def ret_def elim!: bnd_Inr_elim
        intro: latched_read split: if_splits)
    then have "?L w4" using 4 by (auto simp: check_emergency_stop_def ret_def elim!: bnd_Inr_elim
        intro: latched_read split: if_splits)
    then show False using latched_fails [OF 5(1) assms(1)] 5(2) by simp
  qed
  then show "case validate_entry R who q w of (w', Inl e) \<Rightarrow> True | (w', Inr v) \<Rightarrow> \<not> rv_approved v"
    by (auto split: prod.split sum.split)
qed

section \<open>Witnesses\<close>

definition demo_risk :: "price_table sim risk_core" where
  "demo_risk =
     \<lparr>rr_config = \<lparr>rk_open = 0, rk_close = 86400000000, rk_max_entries = 2, rk_legs = 2,
        rk_margin = [(''NIFTY'', 50000)], rk_loss_limit = Some 10000\<rparr>,
      rr_broker = sim_broker demo_env None\<rparr>"

definition demo_instance :: instance_row where
  "demo_instance = \<lparr>si_strategy = ''strategy_1'', si_instrument = ''NIFTY'', si_account = 1,
     si_exchange = NFO, si_status = IS_ACTIVE, si_version = 1\<rparr>"

definition demo_risk_world :: "(nat \<times> daily_row) list \<Rightarrow> (nat \<times> flag_row) list \<Rightarrow> price_table sim world" where
  "demo_risk_world days flags =
     demo_world []\<lparr>w_db := empty_db\<lparr>d_instances := [(1, demo_instance)], d_daily := days, d_flags := flags\<rparr>\<rparr>"

definition demo_breached :: daily_row where
  "demo_breached = \<lparr>dr_account = 1, dr_instrument = None, dr_date = 0, dr_realized = -12000,
     dr_unrealized = 0, dr_limit = 10000, dr_breached = True, dr_breached_at = Some 5, dr_version = 2\<rparr>"

lemma demo_approved:
  "case validate_entry demo_risk demo_identity 1 (demo_risk_world [] []) of
     (w', Inl e) \<Rightarrow> False | (w', Inr v) \<Rightarrow> rv_approved v"
  by code_simp

theorem approved_entry_is_safe_witness:
  "list_active_relevant_to (id_account demo_identity) (id_instance demo_identity)
      (w_db (demo_risk_world [] [])) = [] \<and>
   get_by_instance_and_date (id_instance demo_identity) (ist_date (w_now (demo_risk_world [] [])))
      (w_db (demo_risk_world [] [])) = None"
proof -
  obtain w' v where "validate_entry demo_risk demo_identity 1 (demo_risk_world [] []) = (w', Inr v)" "rv_approved v"
    using demo_approved by (auto split: prod.splits sum.splits)
  then have v: "snd (validate_entry demo_risk demo_identity 1 (demo_risk_world [] [])) = Inr v" "rv_approved v"
    by simp_all
  have "w_env (demo_risk_world [] []) = []" by (simp add: demo_risk_world_def demo_world_def)
  from approved_entry_is_safe [OF this v] show ?thesis by (intro conjI) blast+
qed

theorem loss_limit_witness:
  "case validate_entry demo_risk demo_identity 1 (demo_risk_world [(1, demo_breached)] []) of
     (w', Inl e) \<Rightarrow> True | (w', Inr v) \<Rightarrow> \<not> rv_approved v"
  by (rule loss_limit_ends_the_day [THEN conjunct2])
    (simp_all add: demo_risk_def demo_risk_world_def demo_world_def demo_breached_def demo_identity_def
      breached_today_def portfolio_row_def ist_date_def ist_offset_def day_micros_def)

end
