(* ===== verification/Kill_Switch.thy ===== *)
theory Kill_Switch
  imports Risk_Proofs
begin

text \<open>
  \<open>risk/kill_switch.py\<close>, the producer of control flags, and the command logic of \<open>killswitch.py\<close>
  (argument parsing is argparse). Then what the switch is for: a committed flag halts every
  instance it covers until it is cleared, a halted instance enters nothing, engaging twice leaves
  one flag, and clearing restores exactly the flags that were active before.
\<close>

section \<open>The service\<close>

definition validate_scope_target :: "flag_scope \<Rightarrow> nat option \<Rightarrow> nat option \<Rightarrow> exn + unit" where
  "validate_scope_target scope account inst =
     (if scope = GLOBAL \<and> (account \<noteq> None \<or> inst \<noteq> None) then Inl ValueError
      else if scope = ACCOUNT \<and> (account = None \<or> inst \<noteq> None) then Inl ValueError
      else if scope = STRATEGY_INSTANCE \<and> inst = None then Inl ValueError
      else Inr ())"

definition flag_matches ::
    "flag_type \<Rightarrow> flag_scope \<Rightarrow> nat option \<Rightarrow> nat option \<Rightarrow> flag_row \<Rightarrow> bool" where
  "flag_matches ftype scope account inst f \<longleftrightarrow>
     f_type f = ftype \<and> f_scope f = scope \<and> f_account f = account \<and> f_instance f = inst"

definition find_matching_active ::
    "flag_type \<Rightarrow> flag_scope \<Rightarrow> nat option \<Rightarrow> nat option \<Rightarrow> db \<Rightarrow> (nat \<times> flag_row) option" where
  "find_matching_active ftype scope account inst d =
     List.find (\<lambda>(i, f). flag_matches ftype scope account inst f) (list_active d)"

definition engage_body ::
    "string \<Rightarrow> string \<Rightarrow> flag_type \<Rightarrow> flag_scope \<Rightarrow> nat option \<Rightarrow> nat option \<Rightarrow> dt \<Rightarrow> bool tx" where
  "engage_body reason activated_by ftype scope account inst t =
     bnd (asks (find_matching_active ftype scope account inst)) (\<lambda>existing.
     if existing \<noteq> None then ret False
     else bnd (flag_activate ftype scope (Some reason) activated_by t account inst) (\<lambda>_. ret True))"

definition engage ::
    "string \<Rightarrow> string \<Rightarrow> flag_type \<Rightarrow> flag_scope \<Rightarrow> nat option \<Rightarrow> nat option \<Rightarrow> ('b, bool) prog" where
  "engage reason activated_by ftype scope account inst =
     bnd (lift_sum (validate_scope_target scope account inst)) (\<lambda>_.
     bnd now (\<lambda>t. unit_of_work (engage_body reason activated_by ftype scope account inst t)))"

fun clear_matching ::
    "string \<Rightarrow> flag_type \<Rightarrow> flag_scope \<Rightarrow> nat option \<Rightarrow> nat option \<Rightarrow> dt \<Rightarrow> (nat \<times> flag_row) list \<Rightarrow>
     nat \<Rightarrow> nat tx" where
  "clear_matching cleared_by ftype scope account inst t [] cleared = ret cleared"
| "clear_matching cleared_by ftype scope account inst t ((i, f) # fs) cleared =
     (if flag_matches ftype scope account inst f
      then sq (flag_clear i cleared_by t)
             (clear_matching cleared_by ftype scope account inst t fs (Suc cleared))
      else clear_matching cleared_by ftype scope account inst t fs cleared)"

definition disengage_body ::
    "string \<Rightarrow> flag_type \<Rightarrow> flag_scope \<Rightarrow> nat option \<Rightarrow> nat option \<Rightarrow> dt \<Rightarrow> nat tx" where
  "disengage_body cleared_by ftype scope account inst t =
     bnd (asks list_active) (\<lambda>flags. clear_matching cleared_by ftype scope account inst t flags 0)"

definition disengage ::
    "string \<Rightarrow> flag_type \<Rightarrow> flag_scope \<Rightarrow> nat option \<Rightarrow> nat option \<Rightarrow> ('b, nat) prog" where
  "disengage cleared_by ftype scope account inst =
     bnd (lift_sum (validate_scope_target scope account inst)) (\<lambda>_.
     bnd now (\<lambda>t. unit_of_work (disengage_body cleared_by ftype scope account inst t)))"

definition is_engaged :: "flag_type option \<Rightarrow> flag_scope option \<Rightarrow> ('b, bool) prog" where
  "is_engaged ftype scope =
     read_session (\<lambda>d. list_ex (\<lambda>(i, f). (ftype = None \<or> ftype = Some (f_type f)) \<and>
       (scope = None \<or> scope = Some (f_scope f))) (list_active d))"

definition list_active_flags :: "('b, flag_row list) prog" where
  "list_active_flags = read_session (\<lambda>d. map snd (list_active d))"

section \<open>The operator commands\<close>

fun flag_type_value :: "flag_type \<Rightarrow> string" where
  "flag_type_value RF_KILL_SWITCH = ''KILL_SWITCH''"
| "flag_type_value EMERGENCY_EXIT = ''EMERGENCY_EXIT''"
| "flag_type_value FREEZE = ''FREEZE''"

fun flag_scope_value :: "flag_scope \<Rightarrow> string" where
  "flag_scope_value GLOBAL = ''GLOBAL''"
| "flag_scope_value ACCOUNT = ''ACCOUNT''"
| "flag_scope_value STRATEGY_INSTANCE = ''STRATEGY_INSTANCE''"

datatype ks_command =
    KsStatus
  | KsEngage string string flag_type flag_scope "nat option" "nat option"
  | KsDisengage string flag_type flag_scope "nat option" "nat option"

definition flag_target :: "flag_row \<Rightarrow> string" where
  "flag_target f =
     (case f_account f of
        Some a \<Rightarrow> ''account='' @ nat_digits a
      | None \<Rightarrow> (case f_instance f of
          Some i \<Rightarrow> ''instance='' @ nat_digits i
        | None \<Rightarrow> ''platform-wide''))"

definition none_text :: "string option \<Rightarrow> string" where
  "none_text x = (case x of None \<Rightarrow> ''None'' | Some s \<Rightarrow> s)"

definition flag_line :: "flag_row \<Rightarrow> string" where
  "flag_line f =
     ''  - '' @ flag_type_value (f_type f) @ '' ['' @ flag_scope_value (f_scope f) @ '', '' @
     flag_target f @ ''] by '' @ none_text (f_by f) @ '': '' @ none_text (f_reason f)"

fun ks_run :: "ks_command \<Rightarrow> ('b, string list \<times> nat) prog" where
  "ks_run KsStatus =
     bnd list_active_flags (\<lambda>flags.
     if flags = [] then ret ([''No active control flags. Trading is NOT halted.''], 0)
     else ret ((nat_digits (length flags) @ '' active control flag(s) -- trading IS halted:'') #
                 map flag_line flags, 0))"
| "ks_run (KsEngage reason by1 ftype scope account inst) =
     bnd (engage reason by1 ftype scope account inst) (\<lambda>created.
     ret ([if created then ''Kill switch engaged.'' else ''Already engaged (no change).''], 0))"
| "ks_run (KsDisengage by1 ftype scope account inst) =
     bnd (disengage by1 ftype scope account inst) (\<lambda>cleared.
     ret ([''Cleared '' @ nat_digits cleared @ '' flag(s).''], 0))"

definition ks_main :: "ks_command \<Rightarrow> ('b, string list \<times> nat) prog" where
  "ks_main command = catch_if is_exception (ks_run command) (\<lambda>_. ret ([''error''], 1))"

section \<open>A committed flag halts what it covers\<close>

definition halted :: "identity \<Rightarrow> db \<Rightarrow> bool" where
  "halted who d \<longleftrightarrow> list_active_relevant_to (id_account who) (id_instance who) d \<noteq> []"

lemma halted_iff:
  "halted who d \<longleftrightarrow>
     (\<exists>(i, f) \<in> set (d_flags d). f_active f \<and> flag_covers (id_account who) (id_instance who) f)"
  by (auto simp: halted_def list_active_relevant_to_def t_select_def filter_empty_conv)

lemma flags_of_apply_env:
  "set (d_flags d) \<subseteq> set (d_flags (apply_env e tm d))"
proof (cases e)
  case (EvPush bo)
  then show ?thesis using push_orders_only [of bo tm d] by auto
next
  case (EvPosition row)
  then show ?thesis by (auto simp: position_get_or_create_def get_or_create_def split: option.split)
next
  case (EvManualClose pid)
  then show ?thesis
    by (cases "t_get (d_positions d) pid")
      (simp_all add: sm_transition_missing sm_transition_run transition_state_run)
qed (auto simp: set_t_add)

interpretation halt: db_invariant "halted who" for who
  by unfold_locales (use flags_of_apply_env halted_iff in blast)

lemma halted_is_halted:
  assumes "halted who (w_db w)" "is_halted who w = (w', Inr b)"
  shows b
proof -
  from assms(2) obtain flags where r: "read_session (list_active_relevant_to (id_account who) (id_instance who)) w = (w', Inr flags)"
    and b: "b = (flags \<noteq> [])"
    by (auto simp: is_halted_def ret_def elim!: bnd_Inr_elim)
  have "halted who (w_db w')"
    using keepsD [OF halt.keeps_read_session _ r] assms(1) by (simp add: on_db_def)
  then show ?thesis using read_session_Inr [OF r] b by (simp add: halted_def)
qed

lemma engage_body_halts:
  assumes "engage_body reason by1 ftype scope account inst t d = (d', Inr b)"
    and "\<And>f. flag_matches ftype scope account inst f \<Longrightarrow> flag_covers (id_account who) (id_instance who) f"
  shows "halted who d'"
proof (cases "find_matching_active ftype scope account inst d")
  case (Some x)
  obtain i f where x: "x = (i, f)" by (cases x)
  from Some x have "(i, f) \<in> set (list_active d)" "flag_matches ftype scope account inst f"
    by (auto simp: find_matching_active_def find_Some_iff) (metis nth_mem)
  moreover have "d' = d" using assms(1) Some by (simp add: engage_body_def bnd_def asks_def ret_def)
  ultimately show ?thesis using assms(2) by (auto simp: halted_iff list_active_def t_select_def)
next
  case None
  then have "d_flags d' = t_add (d_flags d)
      \<lparr>f_type = ftype, f_scope = scope, f_account = account, f_instance = inst, f_active = True,
       f_reason = Some reason, f_by = Some by1, f_at = t, f_cleared_at = None, f_cleared_by = None,
       f_version = 1\<rparr>"
    using assms(1) by (auto simp: engage_body_def bnd_def asks_def ret_def flag_activate_def Let_def
        split: if_splits)
  then show ?thesis using assms(2) by (auto simp: halted_iff set_t_add flag_matches_def)
qed

lemma engage_halts:
  assumes "engage reason by1 ftype scope account inst w = (w', Inr b)"
    and "\<And>f. flag_matches ftype scope account inst f \<Longrightarrow> flag_covers (id_account who) (id_instance who) f"
  shows "halted who (w_db w')"
proof -
  from assms(1) obtain t where
    "unit_of_work (engage_body reason by1 ftype scope account inst t) w = (w', Inr b)"
    by (auto simp: engage_def lift_sum_def now_run bnd_def split: sum.splits)
  from uow_Inr [OF this] show ?thesis using engage_body_halts assms(2) by blast
qed

text \<open>What a scope covers.\<close>

definition scope_covers :: "flag_scope \<Rightarrow> nat option \<Rightarrow> nat option \<Rightarrow> identity \<Rightarrow> bool" where
  "scope_covers scope account inst who \<longleftrightarrow>
     scope = GLOBAL \<or> (scope = ACCOUNT \<and> account = Some (id_account who)) \<or>
     (scope = STRATEGY_INSTANCE \<and> inst = Some (id_instance who))"

text \<open>
  C12: the kill switch stops entries: once an \<open>engage\<close> has returned, whoever raced with it and
  whether it wrote the flag or found one, no instance in its scope enters: the entry makes no broker
  call and reports that it is blocked by risk (or an earlier skip), under every later schedule of
  the other actors.
\<close>

theorem kill_switch_stops_entries:
  fixes cx :: "'b ctx"
  assumes "engage reason by1 ftype scope account inst w0 = (w, Inr b)"
    and "scope_covers scope account inst (cx_id cx)"
    and "cx_halted cx = is_halted (cx_id cx)"
    and "\<And>i d v. w_bk (fst (cx_expiry cx i d v)) = w_bk v \<and> w_db (fst (cx_expiry cx i d v)) = w_db v"
  shows "w_bk (fst (enter cx w)) = w_bk w \<and>
    (case snd (enter cx w) of Inl e \<Rightarrow> True
     | Inr r \<Rightarrow> en_outcome r \<in> {SKIPPED_ALREADY_EXISTS, SKIPPED_EXPIRY_DAY, BLOCKED_BY_RISK})"
proof -
  define P where "P = (\<lambda>v :: 'b world. w_bk v = w_bk w \<and> halted (cx_id cx) (w_db v))"
  have start: "P w"
    using engage_halts [OF assms(1)] assms(2)
    by (auto simp: P_def scope_covers_def flag_matches_def flag_covers_def)
  have uow: "keeps P (unit_of_work body)" if "keeps (halted (cx_id cx)) body" for body :: "'c tx"
    unfolding P_def
    by (intro keeps_both) (use halt.keeps_unit_of_work [OF that] in
        \<open>simp_all add: keeps_def unit_of_work_bk on_db_def\<close>)
  have read: "keeps P (read_session f)" for f :: "db \<Rightarrow> 'c"
    unfolding P_def
    by (intro keeps_both) (use halt.keeps_read_session [of "cx_id cx" f] in
        \<open>simp_all add: keeps_def on_db_def\<close>)
  have find: "hoare P (find_existing_position cx td) (\<lambda>_. P) (\<lambda>_. P)" for td
    unfolding find_existing_position_def by (intro hoare_of_keeps uow keeps_asks)
  have skip: "hoare P (should_skip_expiry_day cx td) (\<lambda>_. P) (\<lambda>_. P)" for td
    unfolding should_skip_expiry_day_def
    by (intro hoare_of_keeps keeps_if keeps_ret keeps_bnd) (use assms(4) in \<open>simp add: P_def keeps_def\<close>)
  have halted: "hoare P (is_halted (cx_id cx)) (\<lambda>h v. P v \<and> h) (\<lambda>_. P)"
  proof (rule hoareI)
    have k: "keeps P (is_halted (cx_id cx))" unfolding is_halted_def by (intro keeps_bnd keeps_ret read)
    show "P s' \<and> h" if "P s" "is_halted (cx_id cx) s = (s', Inr h)" for s s' h
      using keepsD [OF k that(1,2)] halted_is_halted [OF _ that(2)] that(1) unfolding P_def by blast
    show "P s'" if "P s" "is_halted (cx_id cx) s = (s', Inl e)" for s s' e
      by (rule keepsD [OF k that])
  qed
  have risk: "hoare P (check_risk cx) (\<lambda>x v. P v \<and> x \<noteq> None) (\<lambda>_. P)"
    unfolding check_risk_def assms(3)
    by (rule hoare_bnd [OF halted]) (auto simp: hoare_def ret_def)
  let ?Q = "\<lambda>r v. P v \<and> en_outcome r \<in> {SKIPPED_ALREADY_EXISTS, SKIPPED_EXPIRY_DAY, BLOCKED_BY_RISK}"
  have today: "hoare P today (\<lambda>_. P) (\<lambda>_. P)" by (simp add: hoare_def today_run)
  have "hoare P (enter cx) ?Q (\<lambda>_. P)"
    unfolding enter_def
    by (intro hoare_bnd [OF today] hoare_bnd [OF find] hoare_bnd [OF skip] hoare_bnd [OF risk]
        hoare_if hoare_option hoare_ret') (simp_all add: skip_result_def hoare_def)
  from hoare_run [OF this start] show ?thesis by (auto simp: P_def split: prod.splits sum.splits)
qed

section \<open>Clearing\<close>

definition cleared_flag :: "string \<Rightarrow> dt \<Rightarrow> flag_row \<Rightarrow> flag_row" where
  "cleared_flag cleared_by t f =
     f\<lparr>f_active := False, f_cleared_by := Some cleared_by, f_cleared_at := Some t,
       f_version := Suc (f_version f)\<rparr>"

lemma t_put_map:
  "t_wf t \<Longrightarrow> t_put t i q = map (\<lambda>(k, s). if k = i then (k, q) else (k, s)) t"
proof (induction t i q rule: t_put.induct)
  case (2 j r t i q)
  have same: "k \<noteq> i" if "j = i" "(k, s) \<in> set t" for k s
    using 2(2) that by (force simp: t_wf_def)
  have "map (\<lambda>(k, s). if k = i then (k, q) else (k, s)) t = t" if "j = i"
    by (rule map_idI) (use same that in auto)
  then show ?case using 2 by (auto simp: t_wf_def)
qed simp

lemma flag_clear_run:
  assumes "t_wf (d_flags d)" "(i, f) \<in> set (d_flags d)"
  shows "flag_clear i who t d =
    (d\<lparr>d_flags := map (\<lambda>(k, s). if k = i then (k, cleared_flag who t f) else (k, s)) (d_flags d)\<rparr>, Inr ())"
  unfolding cleared_flag_def
  using t_get_mem [OF assms] t_put_map [OF assms(1)]
  by (simp add: flag_clear_def upd_flag_def modify_def)

lemma clear_matching_run:
  assumes "t_wf (d_flags d)" "distinct (map fst fs)" "set fs \<subseteq> set (d_flags d)"
  shows "clear_matching who ft sc ac ins t fs n d =
    (d\<lparr>d_flags := map (\<lambda>(k, s). if (k, s) \<in> set fs \<and> flag_matches ft sc ac ins s
         then (k, cleared_flag who t s) else (k, s)) (d_flags d)\<rparr>,
     Inr (n + length (filter (\<lambda>(k, s). flag_matches ft sc ac ins s) fs)))"
  using assms
proof (induction fs arbitrary: d n)
  case Nil
  have "map (\<lambda>(k, s). (k, s)) (d_flags d) = d_flags d" by (rule map_idI) auto
  then show ?case by (simp add: ret_def cong: map_cong)
next
  case (Cons x fs)
  obtain i f where x: "x = (i, f)" by (cases x)
  show ?case
  proof (cases "flag_matches ft sc ac ins f")
    case False
    have "(\<lambda>(k, s). if (k, s) \<in> set (x # fs) \<and> flag_matches ft sc ac ins s
        then (k, cleared_flag who t s) else (k, s)) =
      (\<lambda>(k, s). if (k, s) \<in> set fs \<and> flag_matches ft sc ac ins s then (k, cleared_flag who t s) else (k, s))"
      using False x by (auto simp: fun_eq_iff)
    then show ?thesis using Cons False x by simp
  next
    case True
    let ?h = "\<lambda>(k, s). if k = i then (k, cleared_flag who t f) else (k, s)"
    let ?d = "d\<lparr>d_flags := map ?h (d_flags d)\<rparr>"
    have mem: "(i, f) \<in> set (d_flags d)" using Cons.prems(3) x by simp
    have keys: "map fst (map ?h (d_flags d)) = map fst (d_flags d)" by (auto split: prod.split)
    have fl: "d_flags ?d = map ?h (d_flags d)" by simp
    have wf: "t_wf (d_flags ?d)" using Cons.prems(1) unfolding t_wf_def fl keys .
    have sub: "set fs \<subseteq> set (d_flags ?d)"
    proof
      fix y assume y: "y \<in> set fs"
      obtain k s where ks: "y = (k, s)" by (cases y)
      have "k \<noteq> i" using Cons.prems(2) x y ks by force
      moreover have "(k, s) \<in> set (d_flags d)" using Cons.prems(3) y ks by auto
      ultimately have "?h (k, s) = (k, s)" "(k, s) \<in> set (d_flags d)" by simp_all
      then show "y \<in> set (d_flags ?d)" using ks by (simp add: image_iff) force
    qed
    have own: "s = f" if "(i, s) \<in> set (d_flags d)" for s
      using t_get_mem [OF Cons.prems(1) that] t_get_mem [OF Cons.prems(1) mem] by simp
    have fresh: "(i, s) \<notin> set fs" for s using Cons.prems(2) x by force
    have "map (\<lambda>(k, s). if (k, s) \<in> set fs \<and> flag_matches ft sc ac ins s
          then (k, cleared_flag who t s) else (k, s)) (map ?h (d_flags d)) =
        map (\<lambda>(k, s). if (k, s) \<in> set (x # fs) \<and> flag_matches ft sc ac ins s
          then (k, cleared_flag who t s) else (k, s)) (d_flags d)"
      unfolding map_map
    proof (rule map_cong [OF refl])
      fix y assume y: "y \<in> set (d_flags d)"
      obtain k s where ks: "y = (k, s)" by (cases y)
      show "((\<lambda>(k, s). if (k, s) \<in> set fs \<and> flag_matches ft sc ac ins s
          then (k, cleared_flag who t s) else (k, s)) \<circ> ?h) y =
        (\<lambda>(k, s). if (k, s) \<in> set (x # fs) \<and> flag_matches ft sc ac ins s
          then (k, cleared_flag who t s) else (k, s)) y"
        using own [of s] fresh y ks x True by (cases "k = i") auto
    qed
    then show ?thesis
      using Cons.IH [OF wf _ sub, of "Suc n"] Cons.prems(2) x True
        flag_clear_run [OF Cons.prems(1) mem, of who t]
      by (simp add: sq_def bnd_def)
  qed
qed

lemma disengage_body_run:
  assumes "t_wf (d_flags d)"
  shows "disengage_body who ft sc ac ins t d =
    (d\<lparr>d_flags := map (\<lambda>(k, s). if f_active s \<and> flag_matches ft sc ac ins s
         then (k, cleared_flag who t s) else (k, s)) (d_flags d)\<rparr>,
     Inr (length (filter (\<lambda>(k, s). flag_matches ft sc ac ins s) (list_active d))))"
proof -
  have la: "list_active d = filter (\<lambda>(k, s). f_active s) (d_flags d)"
    by (simp add: list_active_def t_select_def)
  have "distinct (map fst (list_active d))"
    using assms unfolding la t_wf_def by (rule distinct_map_filter)
  moreover have "set (list_active d) \<subseteq> set (d_flags d)" by (auto simp: la)
  moreover have "map (\<lambda>(k, s). if (k, s) \<in> set (list_active d) \<and> flag_matches ft sc ac ins s
        then (k, cleared_flag who t s) else (k, s)) (d_flags d) =
      map (\<lambda>(k, s). if f_active s \<and> flag_matches ft sc ac ins s
        then (k, cleared_flag who t s) else (k, s)) (d_flags d)"
    by (rule map_cong [OF refl]) (auto simp: la)
  ultimately show ?thesis
    using clear_matching_run [OF assms, of "list_active d" who ft sc ac ins t 0]
    by (simp add: disengage_body_def bnd_def asks_def)
qed

lemma active_after_clear:
  "filter (\<lambda>(k, s). f_active s) (map (\<lambda>(k, s). if f_active s \<and> M s then (k, cleared_flag who t s) else (k, s)) fs) =
   filter (\<lambda>(k, s). f_active s \<and> \<not> M s) fs"
  by (induction fs) (auto simp: cleared_flag_def split: if_splits)

lemma disengage_active:
  assumes "disengage_body who ft sc ac ins t d = (d', Inr n)" "t_wf (d_flags d)"
  shows "list_active d' = filter (\<lambda>(k, s). \<not> flag_matches ft sc ac ins s) (list_active d) \<and>
    n = length (filter (\<lambda>(k, s). flag_matches ft sc ac ins s) (list_active d))"
  using assms(1) active_after_clear [of "flag_matches ft sc ac ins" who t "d_flags d"]
  unfolding disengage_body_run [OF assms(2)]
  by (auto simp: list_active_def t_select_def intro: filter_cong)

lemma quiet_uow:
  "w_env w = [] \<Longrightarrow> unit_of_work body w = (w', Inr x) \<Longrightarrow>
     \<exists>d. body (w_db w) = (d, Inr x) \<and> w' = w\<lparr>w_db := d\<rparr>"
  by (auto simp: unit_of_work_def commit_def split: prod.splits sum.splits if_splits)

lemma engage_run:
  assumes "engage reason by1 ft sc ac ins w = (w', Inr b)" "w_env w = []"
  shows "\<exists>d. engage_body reason by1 ft sc ac ins (w_now w) (w_db w) = (d, Inr b) \<and> w' = w\<lparr>w_db := d\<rparr>"
  using assms quiet_uow [OF assms(2)]
  by (auto simp: engage_def lift_sum_def now_run bnd_def split: sum.splits)

lemma disengage_run:
  assumes "disengage by1 ft sc ac ins w = (w', Inr n)" "w_env w = []"
  shows "\<exists>d. disengage_body by1 ft sc ac ins (w_now w) (w_db w) = (d, Inr n) \<and> w' = w\<lparr>w_db := d\<rparr>"
  using assms quiet_uow [OF assms(2)]
  by (auto simp: disengage_def lift_sum_def now_run bnd_def split: sum.splits)

lemma no_match:
  "find_matching_active ft sc ac ins d = None \<longleftrightarrow>
     filter (\<lambda>(k, s). flag_matches ft sc ac ins s) (list_active d) = []"
  by (auto simp: find_matching_active_def find_None_iff filter_empty_conv)

lemma filter_none_id: "filter (\<lambda>(k, s). P s) xs = [] \<Longrightarrow> filter (\<lambda>(k, s). \<not> P s) xs = xs"
  by (induction xs) (auto split: if_splits)

lemma engage_body_new:
  assumes "engage_body reason by1 ft sc ac ins t d = (d', Inr b)" "find_matching_active ft sc ac ins d = None"
  shows "b \<and> (\<exists>i f. d' = d\<lparr>d_flags := t_add (d_flags d) f\<rparr> \<and> flag_matches ft sc ac ins f \<and> f_active f \<and>
    i = t_next (d_flags d) \<and> list_active d' = list_active d @ [(i, f)])"
  using assms
  by (auto simp: engage_body_def bnd_def asks_def ret_def flag_activate_def Let_def flag_matches_def
      list_active_def t_select_def t_add_def split: if_splits)

text \<open>
  Engaging and clearing round trip: from a state with no equivalent active flag, and with
  nobody else acting, \<open>engage\<close> creates one flag, engaging again changes nothing and answers False,
  and \<open>disengage\<close> with the same arguments clears exactly that one flag and restores the list of
  active flags as it was.
\<close>

theorem engage_disengage_roundtrip:
  assumes "w_env w = []" and "t_wf (d_flags (w_db w))"
    and "find_matching_active ft sc ac ins (w_db w) = None"
    and "engage reason by1 ft sc ac ins w = (w1, Inr b)"
    and "disengage by2 ft sc ac ins w1 = (w2, Inr n)"
  shows "b \<and> n = 1 \<and> list_active (w_db w2) = list_active (w_db w) \<and>
    (\<exists>i f. list_active (w_db w1) = list_active (w_db w) @ [(i, f)] \<and> flag_matches ft sc ac ins f) \<and>
    (case engage reason2 by3 ft sc ac ins w1 of (v, Inl e) \<Rightarrow> True | (v, Inr c) \<Rightarrow> v = w1 \<and> \<not> c)"
proof -
  obtain d1 where e: "engage_body reason by1 ft sc ac ins (w_now w) (w_db w) = (d1, Inr b)"
    and w1: "w1 = w\<lparr>w_db := d1\<rparr>"
    using engage_run [OF assms(4,1)] by blast
  obtain i f where b: b and d1: "d1 = (w_db w)\<lparr>d_flags := t_add (d_flags (w_db w)) f\<rparr>"
    and f: "flag_matches ft sc ac ins f" and la: "list_active d1 = list_active (w_db w) @ [(i, f)]"
    using engage_body_new [OF e assms(3)] by blast
  have quiet1: "w_env w1 = []" using assms(1) by (simp add: w1)
  have wf: "t_wf (d_flags (w_db w1))" using assms(2) by (simp add: w1 d1)
  obtain d2 where dd: "disengage_body by2 ft sc ac ins (w_now w1) (w_db w1) = (d2, Inr n)"
    and w2: "w2 = w1\<lparr>w_db := d2\<rparr>"
    using disengage_run [OF assms(5) quiet1] by blast
  note none = assms(3) [unfolded no_match]
  have active: "list_active d2 = list_active (w_db w)" "n = 1"
    using disengage_active [OF dd wf] f none
      filter_none_id [OF none] by (simp_all add: w1 la case_prod_beta)
  have found: "find_matching_active ft sc ac ins (w_db w1) \<noteq> None"
    using f by (simp add: no_match w1 la)
  have again: "case engage reason2 by3 ft sc ac ins w1 of (v, Inl e) \<Rightarrow> True | (v, Inr c) \<Rightarrow> v = w1 \<and> \<not> c"
  proof (cases "engage reason2 by3 ft sc ac ins w1")
    case (Pair v r)
    show ?thesis
    proof (cases r)
      case (Inr c)
      obtain d where "engage_body reason2 by3 ft sc ac ins (w_now w1) (w_db w1) = (d, Inr c)"
        and v: "v = w1\<lparr>w_db := d\<rparr>"
        using engage_run [OF Pair [unfolded Inr] quiet1] by blast
      then have "d = w_db w1" "\<not> c" using found by (auto simp: engage_body_def bnd_def asks_def ret_def)
      then show ?thesis using v by (simp add: Pair Inr)
    qed (simp add: Pair)
  qed
  show ?thesis using b active f la again by (simp add: w1 w2)
qed

section \<open>Witnesses\<close>

theorem kill_switch_witness:
  "w_bk (fst (enter ((demo_cx False)\<lparr>cx_halted := is_halted demo_identity\<rparr>)
     (fst (engage ''halt'' ''ops'' RF_KILL_SWITCH GLOBAL None None (demo_world []))))) = w_bk (demo_world [])"
proof -
  let ?cx = "(demo_cx False)\<lparr>cx_halted := is_halted demo_identity\<rparr>"
  have run: "snd (engage ''halt'' ''ops'' RF_KILL_SWITCH GLOBAL None None (demo_world [])) = Inr True"
    "w_bk (fst (engage ''halt'' ''ops'' RF_KILL_SWITCH GLOBAL None None (demo_world []))) = w_bk (demo_world [])"
    by (simp_all add: engage_def validate_scope_target_def engage_body_def find_matching_active_def act_defs
        now_def unit_of_work_def commit_def demo_world_def empty_db_def list_active_def t_select_def
        flag_activate_def flag_ok_def Let_def db_constraints_def rows_ok_def unique_by_def t_add_def
        List.map_filter_def)
  obtain w where w: "engage ''halt'' ''ops'' RF_KILL_SWITCH GLOBAL None None (demo_world []) = (w, Inr True)"
    using run(1) by (metis prod.collapse)
  have "w_bk (fst (enter ?cx w)) = w_bk w"
    by (rule kill_switch_stops_entries [THEN conjunct1, OF w])
      (simp_all add: scope_covers_def demo_cx_def ret_def)
  then show ?thesis using run(2) by (simp add: w)
qed

lemmas demo_switch_defs =
  engage_def disengage_def validate_scope_target_def engage_body_def disengage_body_def
  find_matching_active_def act_defs now_def unit_of_work_def commit_def demo_world_def empty_db_def
  list_active_def t_select_def flag_activate_def flag_clear_def upd_flag_def flag_ok_def Let_def
  db_constraints_def rows_ok_def unique_by_def t_add_def t_next_def List.map_filter_def flag_matches_def

theorem engage_disengage_witness:
  "\<exists>w1 w2. engage ''halt'' ''ops'' RF_KILL_SWITCH GLOBAL None None (demo_world []) = (w1, Inr True) \<and>
     disengage ''ops'' RF_KILL_SWITCH GLOBAL None None w1 = (w2, Inr 1) \<and>
     list_active (w_db w2) = []"
proof -
  let ?e = "engage ''halt'' ''ops'' RF_KILL_SWITCH GLOBAL None None (demo_world [])"
  let ?d = "disengage ''ops'' RF_KILL_SWITCH GLOBAL None None (fst ?e)"
  have e: "?e = (fst ?e, Inr True)" and d: "?d = (fst ?d, Inr 1)"
    by (simp_all add: demo_switch_defs)
  have start: "w_env (demo_world []) = []" "t_wf (d_flags (w_db (demo_world [])))"
    "find_matching_active RF_KILL_SWITCH GLOBAL None None (w_db (demo_world [])) = None"
    "list_active (w_db (demo_world [])) = []"
    by (simp_all add: demo_world_def empty_db_def t_wf_def find_matching_active_def list_active_def t_select_def)
  have "list_active (w_db (fst ?d)) = []"
    using engage_disengage_roundtrip [OF start(1-3) e d] start(4) by metis
  then show ?thesis using e d by blast
qed

end
