(* ===== verification/Monitor.thy ===== *)
theory Monitor
  imports Exit
begin

text \<open>
  \<open>strategies/strategy_1/monitor.py\<close>: the monitor of one open position. Its fields are the record
  \<open>monitor\<close>, carried beside the world; its operations are programs over the pair. The market data
  gateway is injected in the code and is a record of programs here. The log snapshots are left out,
  except for the assertion and the connection query they make.
\<close>

section \<open>State\<close>

datatype attach_outcome = MONITORING | PENDING_EXIT | NOTHING_TO_MONITOR

record monitored_position =
  mp_position :: nat
  mp_call :: instrument_id
  mp_put :: instrument_id
  mp_target :: "decimal option"
  mp_stoploss :: "decimal option"
  mp_strike :: "decimal option"
  mp_expiry :: "date option"
  mp_quantity :: "int option"
  mp_lot_size :: "int option"
  mp_entry_premium :: "decimal option"
  mp_entry_time :: "dt option"

record monitor =
  mo_active :: bool
  mo_monitored :: "monitored_position option"
  mo_tracker :: "tracker option"
  mo_last_tick :: "dt option"
  mo_last_premium :: "decimal option"

definition new_monitor :: monitor where
  "new_monitor = \<lparr>mo_active = False, mo_monitored = None, mo_tracker = None, mo_last_tick = None,
     mo_last_premium = None\<rparr>"

record 'b gateway =
  mg_connected :: "('b, bool) prog"
  mg_ltps :: "instrument_id list \<Rightarrow> ('b, (instrument_id \<times> decimal) list) prog"
  mg_subscribe :: "instrument_id list \<Rightarrow> ('b, unit) prog"
  mg_unsubscribe :: "instrument_id list \<Rightarrow> ('b, unit) prog"

type_synonym ('b, 'a) mprog = "('b world \<times> monitor, 'a) act"

definition on_w :: "('b, 'a) prog \<Rightarrow> ('b, 'a) mprog" where
  "on_w m s = (case m (fst s) of (w, r) \<Rightarrow> ((w, snd s), r))"

definition get_mon :: "(monitor \<Rightarrow> 'a) \<Rightarrow> ('b, 'a) mprog" where
  "get_mon f = asks (\<lambda>s. f (snd s))"

definition set_mon :: "(monitor \<Rightarrow> monitor) \<Rightarrow> ('b, unit) mprog" where
  "set_mon f = modify (\<lambda>(w, s). (w, f s))"

text \<open>\<open>try ... finally\<close> whose last block acts; a process that died runs nothing.\<close>

definition finally_act :: "('s, 'a) act \<Rightarrow> ('s, unit) act \<Rightarrow> ('s, 'a) act" where
  "finally_act m n s =
     (case m s of (s', r) \<Rightarrow>
        if r = Inl ProcessCrash then (s', r)
        else (case n s' of (s'', Inl e) \<Rightarrow> (s'', Inl e) | (s'', Inr _) \<Rightarrow> (s'', r)))"

section \<open>Loading\<close>

definition load_monitored :: "nat \<Rightarrow> db \<Rightarrow> exn + monitored_position" where
  "load_monitored pid d =
     (case t_get (d_positions d) pid of
        None \<Rightarrow> Inl NotFoundError
      | Some p \<Rightarrow>
          (let trades = map snd (list_trades_for_position pid d);
               by_type = (\<lambda>opt. List.find (\<lambda>t. t_option t = opt) (rev trades))
           in case (by_type CE, by_type PE) of
                (Some call, Some put) \<Rightarrow>
                  Inr \<lparr>mp_position = pid,
                       mp_call = \<lparr>ii_exchange = t_exchange call, ii_symbol = t_symbol call\<rparr>,
                       mp_put = \<lparr>ii_exchange = t_exchange put, ii_symbol = t_symbol put\<rparr>,
                       mp_target = p_target p, mp_stoploss = p_stoploss p, mp_strike = p_strike p,
                       mp_expiry = p_expiry p, mp_quantity = p_quantity p,
                       mp_lot_size = p_lot_size p, mp_entry_premium = p_entry_premium p,
                       mp_entry_time = p_entry_done p\<rparr>
              | _ \<Rightarrow> Inl ValueError))"

definition attach_query :: "nat \<Rightarrow> date \<Rightarrow> db \<Rightarrow> exn + attach_outcome + monitored_position" where
  "attach_query inst trade_date d =
     (case get_by_instance_and_date inst trade_date d of
        None \<Rightarrow> Inr (Inl NOTHING_TO_MONITOR)
      | Some (pid, p) \<Rightarrow>
          if p_state p \<in> {IDLE, ENTRY_PENDING, CLOSED, PS_ERROR} then Inr (Inl NOTHING_TO_MONITOR)
          else if p_state p = EXIT_PENDING then Inr (Inl PENDING_EXIT)
          else map_sum id Inr (load_monitored pid d))"

section \<open>Market data\<close>

definition legs_of :: "monitored_position \<Rightarrow> instrument_id list" where
  "legs_of mp = [mp_call mp, mp_put mp]"

definition mon_subscribe :: "'b gateway \<Rightarrow> ('b, unit) mprog" where
  "mon_subscribe g =
     bnd (get_mon mo_monitored) (\<lambda>m.
     case m of
       None \<Rightarrow> ret ()
     | Some mp \<Rightarrow> on_w (catch_if is_exception (mg_subscribe g (legs_of mp)) (\<lambda>_. ret ())))"

definition mon_unsubscribe :: "'b gateway \<Rightarrow> ('b, unit) mprog" where
  "mon_unsubscribe g =
     bnd (get_mon mo_monitored) (\<lambda>m.
     case m of
       None \<Rightarrow> ret ()
     | Some mp \<Rightarrow> on_w (catch_if is_exception (mg_unsubscribe g (legs_of mp)) (\<lambda>_. ret ())))"

definition is_market_data_stale :: "'b ctx \<Rightarrow> 'b gateway \<Rightarrow> ('b, bool) mprog" where
  "is_market_data_stale cx g =
     bnd (on_w (catch_if is_exception (mg_connected g) (\<lambda>_. ret False))) (\<lambda>connected.
     bnd (get_mon mo_last_tick) (\<lambda>tick_at.
     case tick_at of
       None \<Rightarrow> ret True
     | Some t \<Rightarrow>
         if \<not> connected then ret True
         else bnd (on_w now) (\<lambda>t1. ret (t1 - t > int (sc_polling (cx_config cx))))))"

definition tracker_tick :: "tick \<Rightarrow> ('b, unit) mprog" where
  "tracker_tick tk s =
     (case mo_tracker (snd s) of
        None \<Rightarrow> (s, Inl AssertionError)
      | Some tr \<Rightarrow>
          (case on_tick tk tr of
             (tr', r) \<Rightarrow> ((fst s, (snd s)\<lparr>mo_tracker := Some tr'\<rparr>), map_sum id (\<lambda>_. ()) r)))"

fun feed_prices :: "dt \<Rightarrow> (instrument_id \<times> decimal) list \<Rightarrow> instrument_id list \<Rightarrow> ('b, unit) mprog" where
  "feed_prices t prices [] = ret ()"
| "feed_prices t prices (i # is) =
     sq (case map_of prices i of
           None \<Rightarrow> ret ()
         | Some p \<Rightarrow> tracker_tick \<lparr>tk_instrument = i, tk_price = p, tk_time = t\<rparr>)
       (feed_prices t prices is)"

definition poll_prices :: "'b gateway \<Rightarrow> ('b, unit) mprog" where
  "poll_prices g =
     bnd (get_mon mo_monitored) (\<lambda>m.
     case m of
       None \<Rightarrow> ret ()
     | Some mp \<Rightarrow>
         bnd (on_w (catch_if is_exception (bnd (mg_ltps g (legs_of mp)) (\<lambda>x. ret (Some x))) (\<lambda>_. ret None))) (\<lambda>ltps.
         case ltps of
           None \<Rightarrow> ret ()
         | Some prices \<Rightarrow> bnd (on_w now) (\<lambda>t. feed_prices t prices (legs_of mp))))"

definition current_premium :: "('b, decimal option) mprog" where
  "current_premium =
     bnd (get_mon mo_tracker) (\<lambda>tr.
     case tr of
       None \<Rightarrow> ret None
     | Some x \<Rightarrow> bnd (lift_sum (current_snapshot x)) (\<lambda>s. ret (map_option sn_combined s)))"

section \<open>Evaluation\<close>

definition trigger_exit :: "'b ctx \<Rightarrow> 'b gateway \<Rightarrow> exit_reason \<Rightarrow> ('b, unit) mprog" where
  "trigger_exit cx g reason =
     finally_act (bnd (on_w (exit_position cx reason)) (\<lambda>_. ret ()))
       (sq (mon_unsubscribe g) (set_mon (\<lambda>s. s\<lparr>mo_active := False\<rparr>)))"

text \<open>What \<open>_log_cycle\<close> can do besides logging: its assertion and its connection query.\<close>

definition log_cycle :: "'b ctx \<Rightarrow> 'b gateway \<Rightarrow> ('b, unit) mprog" where
  "log_cycle cx g =
     bnd (get_mon mo_tracker) (\<lambda>tr.
     if tr = None then throw AssertionError
     else bnd (is_market_data_stale cx g) (\<lambda>_. ret ()))"

definition evaluate :: "'b ctx \<Rightarrow> 'b gateway \<Rightarrow> decimal option \<Rightarrow> ('b, unit) mprog" where
  "evaluate cx g combined_premium =
     bnd (get_mon (\<lambda>s. if mo_active s then mo_monitored s else None)) (\<lambda>m.
     case m of
       None \<Rightarrow> ret ()
     | Some mp \<Rightarrow>
         sq (set_mon (\<lambda>s. s\<lparr>mo_last_premium := combined_premium\<rparr>))
         (bnd (on_w now) (\<lambda>t.
          bnd (on_w (cx_halted cx)) (\<lambda>halted.
          (let decision = exit_evaluate cx (ist_time t) halted combined_premium (mp_target mp) (mp_stoploss mp)
           in sq (log_cycle cx g)
                (if ed_exit decision
                 then (case ed_reason decision of
                         None \<Rightarrow> throw AssertionError
                       | Some reason \<Rightarrow> trigger_exit cx g reason)
                 else ret ()))))))"

section \<open>Operations\<close>

definition attach :: "'b ctx \<Rightarrow> 'b gateway \<Rightarrow> ('b, attach_outcome) mprog" where
  "attach cx g =
     bnd (on_w today) (\<lambda>trade_date.
     bnd (on_w (bnd (read_session (attach_query (id_instance (cx_id cx)) trade_date)) lift_sum)) (\<lambda>found.
     case found of
       Inl outcome \<Rightarrow> ret outcome
     | Inr mp \<Rightarrow>
         sq (set_mon (\<lambda>s. s\<lparr>mo_monitored := Some mp\<rparr>))
         (bnd (lift_sum (new_tracker (mp_call mp) (mp_put mp) (sc_target_pct (cx_config cx))
                (sc_sl_pct (cx_config cx)))) (\<lambda>tr.
          sq (set_mon (\<lambda>s. s\<lparr>mo_tracker := Some tr, mo_last_tick := None, mo_last_premium := None\<rparr>))
          (sq (mon_subscribe g)
          (sq (set_mon (\<lambda>s. s\<lparr>mo_active := True\<rparr>)) (ret MONITORING)))))))"

definition mon_stop :: "'b gateway \<Rightarrow> ('b, unit) mprog" where
  "mon_stop g =
     bnd (get_mon mo_active) (\<lambda>active.
     if \<not> active then ret ()
     else sq (mon_unsubscribe g) (set_mon (\<lambda>s. s\<lparr>mo_active := False\<rparr>)))"

definition mon_tick :: "'b ctx \<Rightarrow> 'b gateway \<Rightarrow> tick \<Rightarrow> ('b, unit) mprog" where
  "mon_tick cx g tk =
     bnd (get_mon (\<lambda>s. if mo_active s \<and> mo_tracker s \<noteq> None then mo_monitored s else None)) (\<lambda>m.
     case m of
       None \<Rightarrow> ret ()
     | Some mp \<Rightarrow>
         sq (if tk_instrument tk = mp_call mp \<or> tk_instrument tk = mp_put mp
             then bnd (on_w now) (\<lambda>t. set_mon (\<lambda>s. s\<lparr>mo_last_tick := Some t\<rparr>))
             else ret ())
         (sq (tracker_tick tk) (bnd current_premium (evaluate cx g))))"

definition poll_and_check :: "'b ctx \<Rightarrow> 'b gateway \<Rightarrow> ('b, unit) mprog" where
  "poll_and_check cx g =
     bnd (get_mon mo_active) (\<lambda>active.
     if \<not> active then ret ()
     else
       sq (bnd (is_market_data_stale cx g) (\<lambda>stale. if stale then poll_prices g else ret ()))
         (bnd current_premium (evaluate cx g)))"

end
