(* ===== verification/Strategy.thy ===== *)
theory Strategy
  imports Monitor
begin

text \<open>
  \<open>strategies/strategy_1/strategy.py\<close>: the facade of one instance. It owns no state but the
  monitor's; recovery decides by the state of today's position and reads the reason of an
  interrupted exit back from the audit trail. The value types are those of
  \<open>strategy_engine/strategy_base.py\<close>.
\<close>

section \<open>Triggers\<close>

datatype catch_up = SKIP | FIRE_ON_STARTUP

record time_trigger =
  tt_name :: string
  tt_time :: int
  tt_catch_up :: catch_up

definition mk_time_trigger :: "string \<Rightarrow> int \<Rightarrow> catch_up \<Rightarrow> exn + time_trigger" where
  "mk_time_trigger name t policy =
     (if name = [] then Inl ValueError
      else Inr \<lparr>tt_name = name, tt_time = t, tt_catch_up = policy\<rparr>)"

definition entry_trigger :: string where "entry_trigger = ''entry''"

definition cutoff_trigger :: string where "cutoff_trigger = ''cutoff''"

definition scheduled_triggers :: "strategy_config \<Rightarrow> time_trigger list" where
  "scheduled_triggers c =
     [\<lparr>tt_name = entry_trigger, tt_time = sc_entry_time c, tt_catch_up = SKIP\<rparr>,
      \<lparr>tt_name = cutoff_trigger, tt_time = sc_cutoff c, tt_catch_up = FIRE_ON_STARTUP\<rparr>]"

record strategy_health =
  sh_healthy :: bool
  sh_state :: string
  sh_checked_at :: dt
  sh_premium :: "decimal option option"

section \<open>Recovery\<close>

definition exit_trigger_prefix :: string where
  "exit_trigger_prefix = ''exit triggered: ''"

definition reason_of_transition :: "transition_row \<Rightarrow> exit_reason option" where
  "reason_of_transition x =
     (if x_to x = EXIT_PENDING
      then (case x_reason x of
              None \<Rightarrow> None
            | Some text \<Rightarrow>
                List.find (\<lambda>r. text = exit_trigger_prefix @ exit_reason_value r) all_exit_reasons)
      else None)"

fun first_reason :: "transition_row list \<Rightarrow> exit_reason" where
  "first_reason [] = ER_MANUAL"
| "first_reason (x # xs) = (case reason_of_transition x of None \<Rightarrow> first_reason xs | Some r \<Rightarrow> r)"

definition inferred_reason :: "nat \<Rightarrow> db \<Rightarrow> exit_reason" where
  "inferred_reason pid d = first_reason (rev (list_state_transitions pid d))"

definition infer_pending_exit_reason :: "nat \<Rightarrow> ('b, exit_reason) prog" where
  "infer_pending_exit_reason pid = unit_of_work (asks (inferred_reason pid))"

definition recovery_error_body :: "nat \<Rightarrow> nat \<Rightarrow> string \<Rightarrow> unit tx" where
  "recovery_error_body inst pid reason =
     sq (bnd (get_row d_positions pid) (\<lambda>p.
         case p of
           None \<Rightarrow> ret ()
         | Some r \<Rightarrow>
             if p_state r \<notin> {CLOSED, PS_ERROR} then
               sq (upd_position pid (\<lambda>r. r\<lparr>p_error := Some reason\<rparr>))
                 (bnd (mark_error pid RECOVERY reason) (\<lambda>_. ret ()))
             else ret ()))
       (bnd (get_row d_instances inst) (\<lambda>i.
        case i of
          None \<Rightarrow> ret ()
        | Some r \<Rightarrow> if si_status r \<noteq> IS_FROZEN then set_status inst IS_FROZEN else ret ()))"

definition mark_position_error_and_freeze :: "'b ctx \<Rightarrow> nat \<Rightarrow> string \<Rightarrow> ('b, unit) prog" where
  "mark_position_error_and_freeze cx pid reason =
     unit_of_work (recovery_error_body (id_instance (cx_id cx)) pid reason)"

definition initialize :: "('b, unit) mprog" where
  "initialize = ret ()"

definition position_of_day :: "'b ctx \<Rightarrow> date \<Rightarrow> ('b, (nat \<times> position_row) option) prog" where
  "position_of_day cx trade_date =
     unit_of_work (asks (get_by_instance_and_date (id_instance (cx_id cx)) trade_date))"

definition recovery_message :: string where
  "recovery_message = ''recovery found ENTRY_PENDING position; automatic entry resume is not '' @
     ''supported -- verify broker state manually before clearing''"

definition recover :: "'b ctx \<Rightarrow> 'b gateway \<Rightarrow> ('b, unit) mprog" where
  "recover cx g =
     bnd (on_w today) (\<lambda>trade_date.
     bnd (on_w (position_of_day cx trade_date)) (\<lambda>position.
     case position of
       None \<Rightarrow> initialize
     | Some (pid, p) \<Rightarrow>
         (case p_state p of
            IDLE \<Rightarrow> initialize
          | CLOSED \<Rightarrow> ret ()
          | PS_ERROR \<Rightarrow> ret ()
          | OPEN \<Rightarrow> bnd (attach cx g) (\<lambda>_. ret ())
          | EXIT_PENDING \<Rightarrow>
              on_w (bnd (infer_pending_exit_reason pid) (\<lambda>reason.
                bnd (exit_position cx reason) (\<lambda>_. ret ())))
          | ENTRY_PENDING \<Rightarrow> on_w (mark_position_error_and_freeze cx pid recovery_message))))"

section \<open>Events\<close>

definition handle_entry_trigger :: "'b ctx \<Rightarrow> 'b gateway \<Rightarrow> ('b, unit) mprog" where
  "handle_entry_trigger cx g =
     bnd (on_w (enter cx)) (\<lambda>result.
     if en_outcome result = ENTERED then bnd (attach cx g) (\<lambda>_. ret ()) else ret ())"

definition on_time_trigger :: "'b ctx \<Rightarrow> 'b gateway \<Rightarrow> string \<Rightarrow> ('b, unit) mprog" where
  "on_time_trigger cx g name =
     (if name = entry_trigger then handle_entry_trigger cx g
      else if name = cutoff_trigger then poll_and_check cx g
      else ret ())"

definition on_market_tick :: "'b ctx \<Rightarrow> 'b gateway \<Rightarrow> tick \<Rightarrow> ('b, unit) mprog" where
  "on_market_tick cx g tk = mon_tick cx g tk"

definition on_monitor_cycle :: "'b ctx \<Rightarrow> 'b gateway \<Rightarrow> ('b, unit) mprog" where
  "on_monitor_cycle cx g = poll_and_check cx g"

definition on_shutdown :: "'b gateway \<Rightarrow> ('b, unit) mprog" where
  "on_shutdown g = mon_stop g"

fun position_state_value :: "position_state \<Rightarrow> string" where
  "position_state_value IDLE = ''IDLE''"
| "position_state_value ENTRY_PENDING = ''ENTRY_PENDING''"
| "position_state_value OPEN = ''OPEN''"
| "position_state_value EXIT_PENDING = ''EXIT_PENDING''"
| "position_state_value CLOSED = ''CLOSED''"
| "position_state_value PS_ERROR = ''ERROR''"

definition strategy_health_of ::
    "(nat \<times> position_row) option \<Rightarrow> dt \<Rightarrow> monitor \<Rightarrow> strategy_health" where
  "strategy_health_of position t m =
     \<lparr>sh_healthy = (case position of None \<Rightarrow> True | Some (pid, p) \<Rightarrow> p_state p \<noteq> PS_ERROR),
      sh_state = (case position of None \<Rightarrow> ''NO_POSITION'' | Some (pid, p) \<Rightarrow> position_state_value (p_state p)),
      sh_checked_at = t,
      sh_premium = (if mo_active m then Some (mo_last_premium m) else None)\<rparr>"

definition health :: "'b ctx \<Rightarrow> ('b, strategy_health) mprog" where
  "health cx =
     catch_if is_exception
       (bnd (on_w today) (\<lambda>trade_date.
        bnd (on_w (position_of_day cx trade_date)) (\<lambda>position.
        bnd (on_w now) (\<lambda>t. bnd (get_mon id) (\<lambda>m. ret (strategy_health_of position t m))))))
       (\<lambda>_. bnd (on_w now) (\<lambda>t.
        ret \<lparr>sh_healthy = False, sh_state = ''UNKNOWN'', sh_checked_at = t, sh_premium = None\<rparr>))"

end
