(* ===== verification/Runner.thy ===== *)
theory Runner
  imports Strategy
begin

text \<open>
  \<open>strategy_engine/strategy_runner.py\<close>, \<open>strategy_registry.py\<close> and \<open>strategy_scheduler.py\<close>: the
  runner drives the hooks of any strategy behind one lock, which makes every dispatch one step
  here, and freezes the instance when a hook raises; the monitoring heartbeat asks every running
  runner in turn. The runner's own state is its status; the strategy's state is its monitor.
\<close>

section \<open>The strategy contract\<close>

record 'b hooks =
  hk_identity :: identity
  hk_triggers :: "time_trigger list"
  hk_recover :: "('b, unit) mprog"
  hk_time_trigger :: "string \<Rightarrow> ('b, unit) mprog"
  hk_tick :: "tick \<Rightarrow> ('b, unit) mprog"
  hk_cycle :: "('b, unit) mprog"
  hk_shutdown :: "('b, unit) mprog"
  hk_health :: "('b, strategy_health) mprog"

definition strategy1 :: "'b ctx \<Rightarrow> 'b gateway \<Rightarrow> 'b hooks" where
  "strategy1 cx g =
     \<lparr>hk_identity = cx_id cx, hk_triggers = scheduled_triggers (cx_config cx),
      hk_recover = recover cx g, hk_time_trigger = on_time_trigger cx g,
      hk_tick = on_market_tick cx g, hk_cycle = on_monitor_cycle cx g,
      hk_shutdown = on_shutdown g, hk_health = health cx\<rparr>"

section \<open>The runner\<close>

datatype runner_status = CREATED | RUNNING | STOPPED | FROZEN

record runner =
  rn_status :: runner_status
  rn_monitor :: monitor

definition new_runner :: runner where
  "new_runner = \<lparr>rn_status = CREATED, rn_monitor = new_monitor\<rparr>"

type_synonym ('b, 'a) rprog = "('b world \<times> runner, 'a) act"

definition on_strategy :: "('b, 'a) mprog \<Rightarrow> ('b, 'a) rprog" where
  "on_strategy m s =
     (case m (fst s, rn_monitor (snd s)) of
        ((w, mo), r) \<Rightarrow> ((w, (snd s)\<lparr>rn_monitor := mo\<rparr>), r))"

definition run_w :: "('b, 'a) prog \<Rightarrow> ('b, 'a) rprog" where
  "run_w m s = (case m (fst s) of (w, r) \<Rightarrow> ((w, snd s), r))"

definition get_status :: "('b, runner_status) rprog" where
  "get_status = asks (\<lambda>s. rn_status (snd s))"

definition set_runner_status :: "runner_status \<Rightarrow> ('b, unit) rprog" where
  "set_runner_status st = modify (\<lambda>(w, r). (w, r\<lparr>rn_status := st\<rparr>))"

definition freeze_body :: "nat \<Rightarrow> unit tx" where
  "freeze_body inst =
     bnd (get_row d_instances inst) (\<lambda>i.
     case i of
       None \<Rightarrow> ret ()
     | Some r \<Rightarrow> if si_status r \<noteq> IS_FROZEN then set_status inst IS_FROZEN else ret ())"

definition freeze_instance :: "'b hooks \<Rightarrow> ('b, unit) rprog" where
  "freeze_instance h =
     run_w (catch_if is_exception (unit_of_work (freeze_body (id_instance (hk_identity h)))) (\<lambda>_. ret ()))"

definition run_guarded :: "'b hooks \<Rightarrow> ('b, unit) mprog \<Rightarrow> ('b, bool) rprog" where
  "run_guarded h action =
     catch_if is_exception (bnd (on_strategy action) (\<lambda>_. ret True))
       (\<lambda>_. sq (set_runner_status FROZEN) (sq (freeze_instance h) (ret False)))"

definition runner_start :: "'b hooks \<Rightarrow> ('b, unit) rprog" where
  "runner_start h =
     bnd get_status (\<lambda>st.
     if st \<noteq> CREATED then throw RuntimeError
     else bnd (run_guarded h (hk_recover h)) (\<lambda>ok. if ok then set_runner_status RUNNING else ret ()))"

definition when_running :: "'b hooks \<Rightarrow> ('b, unit) mprog \<Rightarrow> ('b, unit) rprog" where
  "when_running h action =
     bnd get_status (\<lambda>st.
     if st \<noteq> RUNNING then ret () else bnd (run_guarded h action) (\<lambda>_. ret ()))"

definition dispatch_time_trigger :: "'b hooks \<Rightarrow> string \<Rightarrow> ('b, unit) rprog" where
  "dispatch_time_trigger h name = when_running h (hk_time_trigger h name)"

definition dispatch_tick :: "'b hooks \<Rightarrow> tick \<Rightarrow> ('b, unit) rprog" where
  "dispatch_tick h tk = when_running h (hk_tick h tk)"

definition dispatch_monitor_cycle :: "'b hooks \<Rightarrow> ('b, unit) rprog" where
  "dispatch_monitor_cycle h = when_running h (hk_cycle h)"

definition runner_stop :: "'b hooks \<Rightarrow> ('b, unit) rprog" where
  "runner_stop h =
     bnd get_status (\<lambda>st.
     if st = STOPPED \<or> st = FROZEN then ret ()
     else sq (catch_if is_exception (on_strategy (hk_shutdown h)) (\<lambda>_. ret ()))
            (set_runner_status STOPPED))"

fun runner_status_value :: "runner_status \<Rightarrow> string" where
  "runner_status_value CREATED = ''CREATED''"
| "runner_status_value RUNNING = ''RUNNING''"
| "runner_status_value STOPPED = ''STOPPED''"
| "runner_status_value FROZEN = ''FROZEN''"

definition unhealthy :: "string \<Rightarrow> dt \<Rightarrow> strategy_health" where
  "unhealthy state t = \<lparr>sh_healthy = False, sh_state = state, sh_checked_at = t, sh_premium = None\<rparr>"

definition runner_health :: "'b hooks \<Rightarrow> ('b, strategy_health) rprog" where
  "runner_health h =
     bnd get_status (\<lambda>st.
     if st = FROZEN then bnd (run_w now) (\<lambda>t. ret (unhealthy (runner_status_value FROZEN) t))
     else catch_if is_exception (on_strategy (hk_health h))
            (\<lambda>_. bnd (run_w now) (\<lambda>t. ret (unhealthy (runner_status_value st) t))))"

section \<open>The registry\<close>

text \<open>A class is represented by the number that names it.\<close>

type_synonym registry = "(string \<times> nat) list"

datatype registry_error = RegistryValueError | AlreadyRegistered | NotRegistered

definition registry_register :: "string \<Rightarrow> nat option \<Rightarrow> registry \<Rightarrow> registry_error + registry" where
  "registry_register sid cls r =
     (if sid = [] then Inl RegistryValueError
      else case cls of
             None \<Rightarrow> Inl RegistryValueError
           | Some c \<Rightarrow>
               (case map_of r sid of
                  None \<Rightarrow> Inr (AList.update sid c r)
                | Some e \<Rightarrow> if e \<noteq> c then Inl AlreadyRegistered else Inr (AList.update sid c r)))"

definition registry_get :: "string \<Rightarrow> registry \<Rightarrow> registry_error + nat" where
  "registry_get sid r = (case map_of r sid of None \<Rightarrow> Inl NotRegistered | Some c \<Rightarrow> Inr c)"

definition is_registered :: "string \<Rightarrow> registry \<Rightarrow> bool" where
  "is_registered sid r \<longleftrightarrow> map_of r sid \<noteq> None"

definition registered_ids :: "registry \<Rightarrow> string list" where
  "registered_ids r = map fst r"

definition unregister_id :: "string \<Rightarrow> registry \<Rightarrow> registry" where
  "unregister_id sid r = AList.delete sid r"

section \<open>The monitoring heartbeat (strategy\_scheduler.py)\<close>

text \<open>The runners under monitoring, by identity, in registration order.\<close>

type_synonym 'b fleet = "(string \<times> 'b hooks \<times> runner) list"

definition fleet_register :: "string \<Rightarrow> 'b hooks \<times> runner \<Rightarrow> 'b fleet \<Rightarrow> 'b fleet" where
  "fleet_register key r fs = AList.update key r fs"

definition fleet_unregister :: "string \<Rightarrow> 'b fleet \<Rightarrow> 'b fleet" where
  "fleet_unregister key fs = AList.delete key fs"

text \<open>
  One heartbeat over the snapshot of the runners; the guard around each dispatch never lets an
  exception stop the others, only the death of the process does.
\<close>

fun heartbeat :: "'b fleet \<Rightarrow> 'b world \<Rightarrow> 'b world \<times> 'b fleet \<times> bool" where
  "heartbeat [] w = (w, [], True)"
| "heartbeat ((key, h, r) # fs) w =
     (if rn_status r \<noteq> RUNNING then
        (case heartbeat fs w of (w', fs', alive) \<Rightarrow> (w', (key, h, r) # fs', alive))
      else
        (case dispatch_monitor_cycle h (w, r) of
           ((w1, r1), res) \<Rightarrow>
             if res = Inl ProcessCrash then (w1, (key, h, r1) # fs, False)
             else (case heartbeat fs w1 of (w', fs', alive) \<Rightarrow> (w', (key, h, r1) # fs', alive))))"

end
