(* ===== verification/Scheduler.thy ===== *)
theory Scheduler
  imports Runner
begin

text \<open>
  \<open>scheduler/platform_scheduler.py\<close>: the trigger bookkeeping of every registered runner and one
  scheduling pass. Dispatches of one pass run on their own threads in the code; here they run in
  list order, and what a thread does to another instance meanwhile is part of that instance's
  schedule of other actors. The background thread is the sequence of passes.
\<close>

section \<open>State\<close>

record 'b schedule =
  sd_hooks :: "'b hooks"
  sd_runner :: runner
  sd_triggers :: "time_trigger list"
  sd_fired :: "(string \<times> date) list"
  sd_skipped :: "(string \<times> date) list"

type_synonym 'b platform = "(string \<times> 'b schedule) list"

type_synonym ('b, 'a) pprog = "('b world \<times> 'b platform, 'a) act"

section \<open>Registration\<close>

fun seed_triggers :: "int \<Rightarrow> date \<Rightarrow> time_trigger list \<Rightarrow> (string \<times> date) list \<Rightarrow> (string \<times> date) list" where
  "seed_triggers now_time td [] skipped = skipped"
| "seed_triggers now_time td (t # ts) skipped =
     (if now_time < tt_time t then seed_triggers now_time td ts skipped
      else if tt_catch_up t = SKIP
      then seed_triggers now_time td ts (AList.update (tt_name t) td skipped)
      else seed_triggers now_time td ts skipped)"

definition seed_missed_triggers :: "(date \<Rightarrow> bool) \<Rightarrow> dt \<Rightarrow> 'b schedule \<Rightarrow> 'b schedule" where
  "seed_missed_triggers trading t s =
     (if \<not> trading (ist_date t) then s
      else s\<lparr>sd_skipped := seed_triggers (ist_time t) (ist_date t) (sd_triggers s) (sd_skipped s)\<rparr>)"

definition platform_register ::
    "(date \<Rightarrow> bool) \<Rightarrow> string \<Rightarrow> 'b hooks \<Rightarrow> runner \<Rightarrow> ('b, unit) pprog" where
  "platform_register trading key h r s =
     (if map_of (snd s) key \<noteq> None then (s, Inl ValueError)
      else
        (case runner_start h (fst s, r) of
           ((w, r1), Inl e) \<Rightarrow> ((w, snd s), Inl e)
         | ((w, r1), Inr _) \<Rightarrow>
             ((w, AList.update key
                  (seed_missed_triggers trading (w_now w)
                     \<lparr>sd_hooks = h, sd_runner = r1, sd_triggers = hk_triggers h, sd_fired = [],
                      sd_skipped = []\<rparr>) (snd s)),
              Inr ())))"

definition platform_unregister :: "string \<Rightarrow> bool \<Rightarrow> ('b, unit) pprog" where
  "platform_unregister key stop_runner s =
     (case map_of (snd s) key of
        None \<Rightarrow> (s, Inr ())
      | Some sch \<Rightarrow>
          (let p = AList.delete key (snd s)
           in if stop_runner
              then (case runner_stop (sd_hooks sch) (fst s, sd_runner sch) of
                      ((w, r1), res) \<Rightarrow> ((w, p), res))
              else ((fst s, p), Inr ())))"

section \<open>One pass\<close>

definition trigger_due :: "int \<Rightarrow> date \<Rightarrow> 'b schedule \<Rightarrow> time_trigger \<Rightarrow> bool" where
  "trigger_due now_time td s t \<longleftrightarrow>
     map_of (sd_fired s) (tt_name t) \<noteq> Some td \<and> map_of (sd_skipped s) (tt_name t) \<noteq> Some td \<and>
     tt_time t \<le> now_time"

definition due_of :: "int \<Rightarrow> date \<Rightarrow> bool \<Rightarrow> string \<times> 'b schedule \<Rightarrow> (string \<times> string) list" where
  "due_of now_time td trading_day x =
     (if rn_status (sd_runner (snd x)) \<noteq> RUNNING \<or> \<not> trading_day then []
      else map (\<lambda>t. (fst x, tt_name t)) (filter (trigger_due now_time td (snd x)) (sd_triggers (snd x))))"

definition due_triggers :: "(date \<Rightarrow> bool) \<Rightarrow> dt \<Rightarrow> 'b platform \<Rightarrow> (string \<times> string) list" where
  "due_triggers trading t p = concat (map (due_of (ist_time t) (ist_date t) (trading (ist_date t))) p)"

definition mark_fired :: "date \<Rightarrow> string \<times> string \<Rightarrow> 'b platform \<Rightarrow> 'b platform" where
  "mark_fired td x p =
     map (\<lambda>(k, s). if k = fst x then (k, s\<lparr>sd_fired := AList.update (snd x) td (sd_fired s)\<rparr>) else (k, s)) p"

definition dispatch_one :: "string \<times> string \<Rightarrow> ('b, unit) pprog" where
  "dispatch_one x s =
     (case map_of (snd s) (fst x) of
        None \<Rightarrow> (s, Inr ())
      | Some sch \<Rightarrow>
          (case dispatch_time_trigger (sd_hooks sch) (snd x) (fst s, sd_runner sch) of
             ((w, r1), res) \<Rightarrow>
               ((w, AList.update (fst x) (sch\<lparr>sd_runner := r1\<rparr>) (snd s)),
                if res = Inl ProcessCrash then Inl ProcessCrash else Inr ())))"

text \<open>The pass, answering with the triggers it fired.\<close>

definition scheduler_tick :: "(date \<Rightarrow> bool) \<Rightarrow> ('b, (string \<times> string) list) pprog" where
  "scheduler_tick trading s =
     (let t = w_now (fst s);
          due = due_triggers trading t (snd s);
          p = fold (mark_fired (ist_date t)) due (snd s)
      in bnd (for_each due dispatch_one) (\<lambda>_. ret due) (fst s, p))"

fun stop_all :: "'b platform \<Rightarrow> 'b world \<Rightarrow> 'b world" where
  "stop_all [] w = w"
| "stop_all ((k, s) # ss) w =
     (case runner_stop (sd_hooks s) (w, sd_runner s) of ((w', r'), res) \<Rightarrow> stop_all ss w')"

definition scheduler_stop :: "('b, unit) pprog" where
  "scheduler_stop s = ((stop_all (snd s) (fst s), []), Inr ())"

end
