(* ===== verification/Strategy_Proofs.thy ===== *)
theory Strategy_Proofs
  imports Scheduler Exit_Claims
begin

text \<open>
  Properties of the monitor, the strategy facade and the runner: invariants of the world survive
  the whole life of an instance, crashes and restarts included; recovery does what the state of the
  position calls for and finds the reason of an interrupted exit again; a dead price feed cannot
  keep the cutoff or a halt from closing the position; a failing hook freezes its instance.
\<close>

section \<open>Invariants of the world through monitor, strategy and runner\<close>

lemma keeps_on_w: "keeps W m \<Longrightarrow> keeps (\<lambda>s. W (fst s)) (on_w m)"
  by (auto simp: keeps_def on_w_def split: prod.split)

lemma keeps_get_mon: "keeps I (get_mon f)"
  unfolding get_mon_def by (rule keeps_asks)

lemma keeps_set_mon: "keeps (\<lambda>s. W (fst s)) (set_mon f)"
  by (simp add: keeps_def set_mon_def modify_def split: prod.split)

lemma keeps_tracker_tick: "keeps (\<lambda>s. W (fst s)) (tracker_tick tk)"
  by (simp add: keeps_def tracker_tick_def split: option.split prod.split)

lemma keeps_finally_act: "keeps I m \<Longrightarrow> keeps I n \<Longrightarrow> keeps I (finally_act m n)"
  by (fastforce simp: keeps_def finally_act_def split: prod.splits sum.splits)

definition gateway_keeps :: "('b world \<Rightarrow> bool) \<Rightarrow> 'b gateway \<Rightarrow> bool" where
  "gateway_keeps W g \<longleftrightarrow>
     keeps W (mg_connected g) \<and> (\<forall>is. keeps W (mg_ltps g is)) \<and> (\<forall>is. keeps W (mg_subscribe g is)) \<and>
     (\<forall>is. keeps W (mg_unsubscribe g is))"

text \<open>The programs of the layers below that the strategy calls.\<close>

definition drives :: "('b world \<Rightarrow> bool) \<Rightarrow> 'b ctx \<Rightarrow> 'b gateway \<Rightarrow> bool" where
  "drives W cx g \<longleftrightarrow>
     keeps W (enter cx) \<and> (\<forall>r. keeps W (exit_position cx r)) \<and> keeps W (cx_halted cx) \<and>
     gateway_keeps W g \<and> keeps W now \<and> keeps W today \<and>
     (\<forall>td. keeps W (read_session (attach_query (id_instance (cx_id cx)) td))) \<and>
     (\<forall>td. keeps W (position_of_day cx td)) \<and> (\<forall>pid. keeps W (infer_pending_exit_reason pid)) \<and>
     (\<forall>pid m. keeps W (mark_position_error_and_freeze cx pid m)) \<and>
     keeps W (unit_of_work (freeze_body (id_instance (cx_id cx))))"

lemmas drive_rules =
  keeps_bnd keeps_sq keeps_if keeps_option keeps_ret keeps_catch_if keeps_lift_sum keeps_throw
  keeps_on_w keeps_get_mon keeps_set_mon keeps_tracker_tick keeps_finally_act

lemma drive_parts:
  assumes "drives W cx g"
  shows "keeps W (enter cx)" "keeps W (exit_position cx r)" "keeps W (cx_halted cx)"
    "keeps W (mg_connected g)" "keeps W (mg_ltps g is)" "keeps W (mg_subscribe g is)"
    "keeps W (mg_unsubscribe g is)" "keeps W now" "keeps W today"
    "keeps W (read_session (attach_query (id_instance (cx_id cx)) td))"
    "keeps W (position_of_day cx td)" "keeps W (infer_pending_exit_reason pid)"
    "keeps W (mark_position_error_and_freeze cx pid m)"
    "keeps W (unit_of_work (freeze_body (id_instance (cx_id cx))))"
  using assms by (simp_all add: drives_def gateway_keeps_def)

lemma d_subscribe:
  "drives W cx g \<Longrightarrow> keeps (\<lambda>s. W (fst s)) (mon_subscribe g)"
  "drives W cx g \<Longrightarrow> keeps (\<lambda>s. W (fst s)) (mon_unsubscribe g)"
  unfolding mon_subscribe_def mon_unsubscribe_def by (intro drive_rules drive_parts; assumption)+

lemma d_stale: "drives W cx g \<Longrightarrow> keeps (\<lambda>s. W (fst s)) (is_market_data_stale cx g)"
  unfolding is_market_data_stale_def by (intro drive_rules drive_parts; assumption)

lemma d_feed: "keeps (\<lambda>s. W (fst s)) (feed_prices t prices is)"
  by (induction t prices "is" rule: feed_prices.induct) (auto intro!: drive_rules)

lemma d_poll_prices: "drives W cx g \<Longrightarrow> keeps (\<lambda>s. W (fst s)) (poll_prices g)"
  unfolding poll_prices_def by (intro drive_rules d_feed drive_parts; assumption)

lemma d_evaluate: "drives W cx g \<Longrightarrow> keeps (\<lambda>s. W (fst s)) (evaluate cx g c)"
  unfolding evaluate_def log_cycle_def trigger_exit_def Let_def
  by (intro drive_rules d_stale d_subscribe drive_parts; assumption)

lemma d_premium: "keeps (\<lambda>s. W (fst s)) current_premium"
  unfolding current_premium_def by (intro drive_rules)

lemma d_poll: "drives W cx g \<Longrightarrow> keeps (\<lambda>s. W (fst s)) (poll_and_check cx g)"
  unfolding poll_and_check_def
  by (intro drive_rules d_stale d_poll_prices d_evaluate d_premium; assumption)

lemma d_tick: "drives W cx g \<Longrightarrow> keeps (\<lambda>s. W (fst s)) (mon_tick cx g tk)"
  unfolding mon_tick_def by (intro drive_rules d_evaluate d_premium drive_parts; assumption)

lemma keeps_attach_found:
  "(\<And>o1. keeps I (a o1)) \<Longrightarrow> (\<And>m. keeps I (f m)) \<Longrightarrow> keeps I (case x of Inl o1 \<Rightarrow> a o1 | Inr m \<Rightarrow> f m)"
  by (cases x) simp_all

lemma d_attach: "drives W cx g \<Longrightarrow> keeps (\<lambda>s. W (fst s)) (attach cx g)"
  unfolding attach_def
  by (intro drive_rules keeps_attach_found d_subscribe drive_parts; assumption)

lemma d_stop: "drives W cx g \<Longrightarrow> keeps (\<lambda>s. W (fst s)) (mon_stop g)"
  unfolding mon_stop_def by (intro drive_rules d_subscribe; assumption)

lemma keeps_position_state:
  "keeps I a \<Longrightarrow> keeps I b \<Longrightarrow> keeps I c \<Longrightarrow> keeps I e \<Longrightarrow> keeps I f \<Longrightarrow> keeps I h \<Longrightarrow>
   keeps I (case st of IDLE \<Rightarrow> a | ENTRY_PENDING \<Rightarrow> b | OPEN \<Rightarrow> c | EXIT_PENDING \<Rightarrow> e | CLOSED \<Rightarrow> f | PS_ERROR \<Rightarrow> h)"
  by (cases st) simp_all

lemma d_recover: "drives W cx g \<Longrightarrow> keeps (\<lambda>s. W (fst s)) (recover cx g)"
  unfolding recover_def initialize_def
  by (intro drive_rules keeps_prod keeps_position_state d_attach drive_parts; assumption)

lemma d_trigger: "drives W cx g \<Longrightarrow> keeps (\<lambda>s. W (fst s)) (on_time_trigger cx g name)"
  unfolding on_time_trigger_def handle_entry_trigger_def
  by (intro drive_rules d_attach d_poll drive_parts; assumption)

lemma keeps_on_strategy:
  "keeps (\<lambda>s. W (fst s)) m \<Longrightarrow> keeps (\<lambda>s. W (fst s)) (on_strategy m)"
  unfolding keeps_def on_strategy_def by (auto split: prod.split) (metis fst_conv)

lemma keeps_run_w: "keeps W m \<Longrightarrow> keeps (\<lambda>s. W (fst s)) (run_w m)"
  by (auto simp: keeps_def run_w_def split: prod.split)

lemma keeps_runner_status:
  "keeps I get_status" "keeps (\<lambda>s. W (fst s)) (set_runner_status st)"
  by (simp_all add: get_status_def keeps_asks) (simp add: keeps_def set_runner_status_def modify_def split: prod.split)

text \<open>What can be asked of a runner, and its life: a process that dies starts over with a new runner.\<close>

datatype dispatch = DStart | DTrigger string | DTick tick | DCycle | DStop

fun run_dispatch :: "'b hooks \<Rightarrow> dispatch \<Rightarrow> ('b, unit) rprog" where
  "run_dispatch h DStart = runner_start h"
| "run_dispatch h (DTrigger name) = dispatch_time_trigger h name"
| "run_dispatch h (DTick tk) = dispatch_tick h tk"
| "run_dispatch h DCycle = dispatch_monitor_cycle h"
| "run_dispatch h DStop = runner_stop h"

fun run_life :: "'b hooks \<Rightarrow> dispatch list \<Rightarrow> 'b world \<times> runner \<Rightarrow> 'b world \<times> runner" where
  "run_life h [] s = s"
| "run_life h (e # es) s =
     (case run_dispatch h e s of
        ((w, r), res) \<Rightarrow>
          if res = Inl ProcessCrash then run_life h es (w\<lparr>w_exit_lock := False\<rparr>, new_runner)
          else run_life h es (w, r))"

lemma d_guarded:
  assumes d: "drives W cx g" and m: "keeps (\<lambda>s. W (fst s)) m"
  shows "keeps (\<lambda>s. W (fst s)) (run_guarded (strategy1 cx g) m)"
  unfolding run_guarded_def freeze_instance_def
  by (intro drive_rules keeps_on_strategy keeps_run_w keeps_runner_status m)
    (simp add: strategy1_def drive_parts(14) [OF d])

lemma d_dispatch: "drives W cx g \<Longrightarrow> keeps (\<lambda>s. W (fst s)) (run_dispatch (strategy1 cx g) e)"
proof (cases e)
  case (DTrigger n)
  assume d: "drives W cx g"
  then show ?thesis unfolding DTrigger run_dispatch.simps dispatch_time_trigger_def when_running_def
    by (intro drive_rules keeps_runner_status d_guarded) (simp_all add: strategy1_def d_trigger)
next
  case (DTick tk)
  assume d: "drives W cx g"
  then show ?thesis unfolding DTick run_dispatch.simps dispatch_tick_def when_running_def
    by (intro drive_rules keeps_runner_status d_guarded) (simp_all add: strategy1_def on_market_tick_def d_tick)
next
  case DCycle
  assume d: "drives W cx g"
  then show ?thesis unfolding DCycle run_dispatch.simps dispatch_monitor_cycle_def when_running_def
    by (intro drive_rules keeps_runner_status d_guarded) (simp_all add: strategy1_def on_monitor_cycle_def d_poll)
next
  case DStart
  assume d: "drives W cx g"
  then show ?thesis unfolding DStart run_dispatch.simps runner_start_def
    by (intro drive_rules keeps_runner_status d_guarded) (simp_all add: strategy1_def d_recover)
next
  case DStop
  assume d: "drives W cx g"
  then show ?thesis unfolding DStop run_dispatch.simps runner_stop_def
    by (intro drive_rules keeps_runner_status keeps_on_strategy) (simp_all add: strategy1_def on_shutdown_def d_stop)
qed

lemma life_keeps:
  assumes d: "drives W cx g" and lock: "\<And>w. W w \<Longrightarrow> W (w\<lparr>w_exit_lock := False\<rparr>)"
  shows "W (fst s) \<Longrightarrow> W (fst (run_life (strategy1 cx g) es s))"
proof (induction es arbitrary: s)
  case (Cons e es)
  obtain w r res where run: "run_dispatch (strategy1 cx g) e s = ((w, r), res)" by (metis prod.collapse)
  have "W w" using keepsD [OF d_dispatch [OF d] Cons.prems run] by simp
  then show ?case using Cons.IH [of "(w, r)"] Cons.IH [of "(w\<lparr>w_exit_lock := False\<rparr>, new_runner)"] lock
    by (simp add: run)
qed simp

section \<open>The whole life of an instance\<close>

context tx_invariant
begin

lemma x_recovery_error: "keeps I (recovery_error_body inst pid m)"
  unfolding recovery_error_body_def by (intro keeps_intro keeps_get_row tx_keeps k_upd_position) simp

lemma x_freeze_body: "keeps I (freeze_body inst)"
  unfolding freeze_body_def by (intro keeps_intro keeps_get_row tx_keeps)

lemma drives_db:
  assumes "ctx_keeps (on_db I) cx" "gateway_keeps (on_db I) g"
  shows "drives (on_db I) cx g"
  using assms
  by (auto simp: drives_def ctx_keeps_def position_of_day_def infer_pending_exit_reason_def
      mark_position_error_and_freeze_def
      intro!: e_enter x_exit keeps_world keeps_unit_of_work keeps_asks x_recovery_error x_freeze_body)

end

context broker_book
begin

lemma keeps_first_read: "keeps intent_first (read_session (f :: db \<Rightarrow> 'a))"
  unfolding keeps_def
proof (intro allI impI)
  fix w :: "'b world" assume I: "intent_first w"
  have k: "keeps (on_db (intents_grow (w_db w))) (read_session f :: ('b, 'a) prog)"
    by (rule grow_inv.keeps_read_session)
  have "intents_grow (w_db w) (w_db (fst (read_session f w)))"
    using k by (simp add: keeps_def on_db_def)
  then show "intent_first (fst (read_session f w))" by (intro intent_first_mono [OF I]) simp_all
qed

lemma drives_book:
  assumes "cx_broker cx = B" "ctx_keeps intent_first cx" "gateway_keeps intent_first g"
  shows "drives intent_first cx g"
  using assms
  by (auto simp: drives_def ctx_keeps_def position_of_day_def infer_pending_exit_reason_def
      mark_position_error_and_freeze_def
      intro!: f_enter g_exit keeps_first_time keeps_first_read f_uow keeps_asks
        grow_inv.x_recovery_error grow_inv.x_freeze_body)

end

text \<open>
  Over the whole life of an instance on the simulation broker - any sequence of starts,
  triggers, ticks, heartbeats and stops, with the process dying and restarting anywhere, under
  every schedule of the other actors - every order in the broker's book is announced by a durable
  intent that was marked started before the order was sent.
\<close>

theorem life_orders_announced:
  assumes "cx_broker cx = sim_broker E timeout" and "ctx_keeps sim_announced cx"
    and "gateway_keeps sim_announced g" and "sim_announced (fst s)"
  shows "sim_announced (fst (run_life (strategy1 cx g) es s))"
proof -
  have eq: "sim_announced = broker_book.intent_first sim_book"
    by (force simp: fun_eq_iff broker_book.intent_first_def [OF sim_book.broker_book_axioms]
        sim_announced_def sim_book_def)
  have d: "drives sim_announced cx g"
    using broker_book.drives_book [OF sim_book.broker_book_axioms assms(1)] assms(2,3) unfolding eq .
  show ?thesis by (rule life_keeps [OF d]) (use assms(4) in \<open>simp_all add: sim_announced_def\<close>)
qed

text \<open>
  Over the whole life of an instance, the audit trail of every position stays a legal path of
  the state machine that ends in the position's state, and a position that is CLOSED stays CLOSED,
  under every schedule of the other actors and through crashes and restarts.
\<close>

theorem life_keeps_audit_and_closed:
  assumes "ctx_keeps (on_db audit_ok) cx" and "gateway_keeps (on_db audit_ok) g"
    and "ctx_keeps (on_db (closed pid)) cx" and "gateway_keeps (on_db (closed pid)) g"
    and "audit_ok (w_db (fst s))" and "closed pid (w_db (fst s))"
  shows "audit_ok (w_db (fst (run_life (strategy1 cx g) es s))) \<and>
    closed pid (w_db (fst (run_life (strategy1 cx g) es s)))"
proof
  show "audit_ok (w_db (fst (run_life (strategy1 cx g) es s)))"
    using life_keeps [OF audit_inv.drives_db [OF assms(1,2)], of s es] assms(5) by (simp add: on_db_def)
  show "closed pid (w_db (fst (run_life (strategy1 cx g) es s)))"
    using life_keeps [OF closed_inv.drives_db [OF assms(3,4)], of s es] assms(6) by (simp add: on_db_def)
qed

section \<open>The reason of an interrupted exit\<close>

lemma reason_of_exit_transition:
  "x_to x = EXIT_PENDING \<Longrightarrow> x_reason x = Some (exit_trigger_prefix @ exit_reason_value r) \<Longrightarrow>
   reason_of_transition x = Some r"
  by (cases r) (simp_all add: reason_of_transition_def all_exit_reasons_def)

lemma list_transitions_added:
  "list_state_transitions pid (d\<lparr>d_transitions := t_add (d_transitions d) x\<rparr>) =
     (if x_position x = pid then list_state_transitions pid d @ [x] else list_state_transitions pid d)"
  by (simp add: list_state_transitions_def t_select_def t_add_def)

definition pending_reason :: "nat \<Rightarrow> exit_reason \<Rightarrow> db \<Rightarrow> bool" where
  "pending_reason pid r d \<longleftrightarrow> inferred_reason pid d = r"

lemma pending_reason_same:
  "d_transitions d' = d_transitions d \<Longrightarrow> pending_reason pid r d' = pending_reason pid r d"
  by (simp add: pending_reason_def inferred_reason_def list_state_transitions_def)

lemma pending_reason_env: "pending_reason pid r d \<Longrightarrow> pending_reason pid r (apply_env e tm d)"
proof (cases e)
  case (EvPush bo)
  assume p: "pending_reason pid r d"
  have "d_transitions (apply_env e tm d) = d_transitions d"
    using EvPush push_orders_only [of bo tm d] by auto
  from pending_reason_same [OF this] p show ?thesis by simp
next
  case (EvPosition row)
  assume p: "pending_reason pid r d"
  have "d_transitions (apply_env e tm d) = d_transitions d"
    using EvPosition by (auto simp: position_get_or_create_def get_or_create_def split: option.split)
  from pending_reason_same [OF this] p show ?thesis by simp
next
  case (EvManualClose i)
  assume p: "pending_reason pid r d"
  show ?thesis
  proof (cases "t_get (d_positions d) i")
    case None
    then show ?thesis using EvManualClose p by (simp add: sm_transition_missing)
  next
    case (Some row)
    show ?thesis
    proof (cases "p_state row \<noteq> CLOSED \<and> is_transition_allowed_for_actor (p_state row) CLOSED AC_MANUAL")
      case True
      let ?x = "\<lparr>x_position = i, x_from = Some (p_state row), x_to = CLOSED, x_reason = None, x_actor = AC_MANUAL\<rparr>"
      have "list_state_transitions pid (fst (sm_transition i CLOSED AC_MANUAL None d)) =
          list_state_transitions pid (d\<lparr>d_transitions := t_add (d_transitions d) ?x\<rparr>)"
        using True by (simp add: sm_transition_run [OF Some] transition_state_run [OF Some]
            list_state_transitions_def)
      then show ?thesis using p EvManualClose
        by (simp add: pending_reason_def inferred_reason_def list_transitions_added reason_of_transition_def)
    next
      case False
      then show ?thesis using p EvManualClose by (auto simp: sm_transition_run [OF Some])
    qed
  qed
qed (auto simp: pending_reason_def inferred_reason_def list_state_transitions_def)

interpretation pending: db_invariant "pending_reason pid r" for pid r
  by unfold_locales (rule pending_reason_env)

lemma prepare_legs_transitions:
  "keeps (\<lambda>d. d_transitions d = ts) (prepare_legs inst td xs legs)"
  by (induction xs arbitrary: legs)
    (auto intro!: keeps_intro keeps_get_or_create simp: intent_get_or_create_def)

lemma prepare_records_reason:
  assumes "prepare_body inst td reason ac d = (d', Inr (Inr px))"
    and "get_by_instance_and_date inst td d = Some (pid, p)" "p_state p = OPEN" "t_wf (d_positions d)"
  shows "px_position px = pid \<and> pending_reason pid reason d'"
proof -
  have g: "t_get (d_positions d) pid = Some p"
    using assms(2,4) by (simp add: get_by_instance_and_date_def t_find_get)
  from assms obtain d1 b d2 legs where
    s: "sm_transition pid EXIT_PENDING ac (Some (''exit triggered: '' @ exit_reason_value reason)) d = (d1, Inr b)"
    and l: "prepare_legs inst td (list_trades_for_position pid d1) [] d1 = (d', Inr legs)"
    and px: "px_position px = pid"
    by (auto simp: prepare_body_def asks_def ret_def elim!: bnd_Inr_elim sq_Inr_elim)
  let ?x = "\<lparr>x_position = pid, x_from = Some (p_state p), x_to = EXIT_PENDING,
    x_reason = Some (exit_trigger_prefix @ exit_reason_value reason), x_actor = ac\<rparr>"
  have "fst (sm_transition pid EXIT_PENDING ac (Some (exit_trigger_prefix @ exit_reason_value reason)) d) = d1"
    using s by (simp add: exit_trigger_prefix_def)
  moreover have "Inr b = snd (sm_transition pid EXIT_PENDING ac (Some (exit_trigger_prefix @ exit_reason_value reason)) d)"
    using s by (simp add: exit_trigger_prefix_def)
  ultimately have "d_transitions d1 = t_add (d_transitions d) ?x"
    using assms(3) by (auto simp: sm_transition_run [OF g] transition_state_run [OF g] split: if_splits)
  moreover have "d_transitions d' = d_transitions d1"
    using keepsD [OF prepare_legs_transitions _ l, of "d_transitions d1"] by simp
  ultimately have "list_state_transitions pid d' = list_state_transitions pid d @ [?x]"
    using list_transitions_added [of pid d ?x] by (simp add: list_state_transitions_def)
  then show ?thesis using px reason_of_exit_transition [of ?x reason]
    by (simp add: pending_reason_def inferred_reason_def)
qed

text \<open>
  C13: the reason of an exit survives the process: when the durable preparation of an exit has
  moved an OPEN position to EXIT_PENDING, recovery reads exactly that reason back from the audit
  trail, whatever the other actors did in between.
\<close>

theorem exit_reason_roundtrip:
  assumes "prepare_body inst td reason ac d = (d', Inr (Inr px))"
    and "get_by_instance_and_date inst td d = Some (pid, p)" and "p_state p = OPEN"
    and "t_wf (d_positions d)"
  shows "case infer_pending_exit_reason (px_position px) (w\<lparr>w_db := fold (\<lambda>(e, tm). apply_env e tm) es d'\<rparr>) of
     (w', Inl e) \<Rightarrow> True | (w', Inr r) \<Rightarrow> r = reason"
proof -
  note start = prepare_records_reason [OF assms]
  let ?d = "fold (\<lambda>(e, tm). apply_env e tm) es d'"
  have "pending_reason pid reason ?d"
  proof -
    have "pending_reason pid reason d0 \<Longrightarrow> pending_reason pid reason (fold (\<lambda>(e, tm). apply_env e tm) es d0)" for d0
      by (induction es arbitrary: d0) (auto simp: pending_reason_env)
    then show ?thesis using start by blast
  qed
  then have p: "on_db (pending_reason pid reason) (w\<lparr>w_db := ?d\<rparr>)" by (simp add: on_db_def)
  have k: "keeps (on_db (pending_reason pid reason)) (infer_pending_exit_reason pid)"
    unfolding infer_pending_exit_reason_def by (intro pending.keeps_unit_of_work keeps_asks)
  have "r = reason" if run: "infer_pending_exit_reason pid (w\<lparr>w_db := ?d\<rparr>) = (w', Inr r)" for w' r
    using keepsD [OF k p run] uow_Inr [OF run [unfolded infer_pending_exit_reason_def]]
    by (auto simp: on_db_def pending_reason_def asks_def)
  then show ?thesis using start by (auto split: prod.split sum.split)
qed

section \<open>Concrete lives\<close>

definition demo_gateway :: "price_table sim gateway" where
  "demo_gateway =
     \<lparr>mg_connected = ret True, mg_ltps = (\<lambda>is. ret []), mg_subscribe = (\<lambda>is. ret ()),
      mg_unsubscribe = (\<lambda>is. ret ())\<rparr>"

lemma demo_gateway_keeps: "gateway_keeps W demo_gateway"
  by (simp add: gateway_keeps_def demo_gateway_def keeps_ret)

lemma demo_ctx_keeps: "ctx_keeps W (demo_cx b)"
  by (simp add: ctx_keeps_def demo_cx_def keeps_ret)

definition demo_life :: "dispatch list" where
  "demo_life = [DStart, DTrigger ''entry'', DCycle, DTrigger ''cutoff'', DStop]"

theorem life_orders_witness:
  "sim_announced (fst (run_life (strategy1 (demo_cx False) demo_gateway) demo_life (demo_world [], new_runner)))"
  by (rule life_orders_announced [where E = demo_env and timeout = None])
    (simp_all add: demo_ctx_keeps demo_gateway_keeps demo_sim_orders sim_announced_def, simp add: demo_cx_def)

definition demo_closed_db :: db where
  "demo_closed_db =
     demo_exit_final\<lparr>d_transitions :=
       [(1, \<lparr>x_position = 1, x_from = Some ENTRY_PENDING, x_to = OPEN, x_reason = None, x_actor = STRATEGY\<rparr>),
        (2, \<lparr>x_position = 1, x_from = Some OPEN, x_to = EXIT_PENDING,
             x_reason = Some ''exit triggered: TARGET'', x_actor = STRATEGY\<rparr>),
        (3, \<lparr>x_position = 1, x_from = Some EXIT_PENDING, x_to = CLOSED,
             x_reason = Some ''exit complete'', x_actor = STRATEGY\<rparr>)]\<rparr>"

lemma demo_closed_ok: "audit_ok demo_closed_db" "closed 1 demo_closed_db"
  unfolding closed_def by code_simp+

theorem life_closed_witness:
  "audit_ok (w_db (fst (run_life (strategy1 (demo_cx False) demo_gateway) demo_life
      (demo_exit_world demo_closed_db, new_runner)))) \<and>
   closed 1 (w_db (fst (run_life (strategy1 (demo_cx False) demo_gateway) demo_life
      (demo_exit_world demo_closed_db, new_runner))))"
  by (rule life_keeps_audit_and_closed)
    (simp_all add: demo_ctx_keeps demo_gateway_keeps demo_exit_world_def demo_closed_ok del: One_nat_def)

theorem exit_reason_witness:
  "case prepare_body 1 0 TARGET STRATEGY (demo_exit_db OPEN []) of
     (d', Inr (Inr px)) \<Rightarrow>
       (case infer_pending_exit_reason (px_position px)
            ((demo_world [])\<lparr>w_db := fold (\<lambda>(e, tm). apply_env e tm) [(EvManualClose 2, 7)] d'\<rparr>) of
          (w', Inl e) \<Rightarrow> True
        | (w', Inr r) \<Rightarrow> r = TARGET)
   | _ \<Rightarrow> False"
proof -
  have "case prepare_body 1 0 TARGET STRATEGY (demo_exit_db OPEN []) of
     (d', Inr (Inr px)) \<Rightarrow> True | _ \<Rightarrow> False"
    by code_simp
  then obtain d' px where run: "prepare_body 1 0 TARGET STRATEGY (demo_exit_db OPEN []) = (d', Inr (Inr px))"
    by (auto split: prod.splits sum.splits)
  have day: "get_by_instance_and_date 1 0 (demo_exit_db OPEN []) = Some (1, demo_position\<lparr>p_state := OPEN\<rparr>)"
    by (simp add: get_by_instance_and_date_def demo_exit_db_def demo_position_def)
  have wf: "t_wf (d_positions (demo_exit_db OPEN []))"
    by (simp add: demo_exit_db_def t_wf_def)
  show ?thesis
    using exit_reason_roundtrip [OF run day _ wf, where w = "demo_world []" and es = "[(EvManualClose 2, 7)]"]
    by (simp add: run [simplified])
qed

end
