(* ===== verification/Monitor_Proofs.thy ===== *)
theory Monitor_Proofs
  imports Strategy_Proofs
begin

text \<open>
  Properties of the position monitor: its well-formedness through the whole life of an instance,
  and the enforcement of the hard cutoff and of a halt whatever the price feed does.
\<close>

section \<open>The well-formedness of the monitor\<close>

definition monitor_ok :: "monitor \<Rightarrow> bool" where
  "monitor_ok m \<longleftrightarrow>
     (mo_active m \<longrightarrow> mo_monitored m \<noteq> None \<and> mo_tracker m \<noteq> None) \<and>
     (case mo_tracker m of None \<Rightarrow> True | Some tr \<Rightarrow> tracker_wf tr)"

definition mon_ok :: "'b world \<times> monitor \<Rightarrow> bool" where
  "mon_ok s \<longleftrightarrow> monitor_ok (snd s)"

lemma ok_on_w: "keeps mon_ok (on_w m)"
  by (auto simp: keeps_def on_w_def mon_ok_def split: prod.split)

lemma ok_set_mon: "(\<And>m. monitor_ok m \<Longrightarrow> monitor_ok (f m)) \<Longrightarrow> keeps mon_ok (set_mon f)"
  by (auto simp: keeps_def set_mon_def modify_def mon_ok_def split: prod.split)

lemma ok_tracker_tick: "keeps mon_ok (tracker_tick tk)"
  unfolding keeps_def
proof (intro allI impI)
  fix s :: "'a world \<times> monitor" assume ok: "mon_ok s"
  show "mon_ok (fst (tracker_tick tk s))"
  proof (cases "mo_tracker (snd s)")
    case (Some tr)
    then have "tracker_wf (fst (on_tick tk tr))"
      using ok by (intro on_tick_wf) (simp add: mon_ok_def monitor_ok_def)
    then show ?thesis using ok Some
      by (cases "on_tick tk tr") (simp add: tracker_tick_def mon_ok_def monitor_ok_def)
  qed (simp add: tracker_tick_def ok)
qed

lemmas ok_rules =
  keeps_bnd keeps_sq keeps_if keeps_option keeps_ret keeps_catch_if keeps_lift_sum keeps_throw
  ok_on_w keeps_get_mon ok_tracker_tick keeps_finally_act keeps_attach_found

lemma ok_updates:
  "keeps mon_ok (set_mon (\<lambda>s. s\<lparr>mo_active := False\<rparr>))"
  "keeps mon_ok (set_mon (\<lambda>s. s\<lparr>mo_last_tick := t\<rparr>))"
  "keeps mon_ok (set_mon (\<lambda>s. s\<lparr>mo_last_premium := x\<rparr>))"
  "keeps mon_ok (set_mon (\<lambda>s. s\<lparr>mo_monitored := Some mp\<rparr>))"
  by (intro ok_set_mon; simp add: monitor_ok_def)+

lemma ok_subscribe: "keeps mon_ok (mon_subscribe g)" "keeps mon_ok (mon_unsubscribe g)"
  unfolding mon_subscribe_def mon_unsubscribe_def by (intro ok_rules)+

lemma ok_stale: "keeps mon_ok (is_market_data_stale cx g)"
  unfolding is_market_data_stale_def by (intro ok_rules)

lemma ok_feed: "keeps mon_ok (feed_prices t prices is)"
  by (induction t prices "is" rule: feed_prices.induct) (auto intro!: ok_rules)

lemma ok_premium: "keeps mon_ok current_premium"
  unfolding current_premium_def by (intro ok_rules)

lemma ok_evaluate: "keeps mon_ok (evaluate cx g c)"
  unfolding evaluate_def log_cycle_def trigger_exit_def Let_def
  by (intro ok_rules ok_updates ok_stale ok_subscribe)

lemma ok_poll: "keeps mon_ok (poll_and_check cx g)"
  unfolding poll_and_check_def poll_prices_def
  by (intro ok_rules ok_stale ok_feed ok_premium ok_evaluate)

lemma ok_tick: "keeps mon_ok (mon_tick cx g tk)"
  unfolding mon_tick_def by (intro ok_rules ok_updates ok_premium ok_evaluate)

lemma ok_stop: "keeps mon_ok (mon_stop g)"
  unfolding mon_stop_def by (intro ok_rules ok_updates ok_subscribe)

text \<open>
  Attaching installs the position first, then the tracker, and activates last, so that the
  monitor is well formed wherever the sequence is interrupted.
\<close>

lemma hoare_set_mon:
  "(\<And>w m. P (w, m) \<Longrightarrow> Q (w, f m)) \<Longrightarrow> hoare P (set_mon f) (\<lambda>_. Q) E"
  by (auto simp: hoare_def set_mon_def modify_def split: prod.split)

lemma hoare_sq:
  "hoare P m (\<lambda>_. R) E \<Longrightarrow> hoare R n Q E \<Longrightarrow> hoare P (sq m n) Q E"
  unfolding sq_def by (rule hoare_bnd)

lemma hoare_lift:
  "(\<And>x. r = Inr x \<Longrightarrow> hoare P (f x) Q E) \<Longrightarrow> (\<And>e s. r = Inl e \<Longrightarrow> P s \<Longrightarrow> E e s) \<Longrightarrow>
   hoare P (bnd (lift_sum r) f) Q E"
  by (cases r) (auto simp: hoare_def bnd_def lift_sum_def split: prod.splits sum.splits)

lemma any_on_w: "keeps (\<lambda>s. Q (snd s)) (on_w m)"
  by (auto simp: keeps_def on_w_def split: prod.split)

lemma any_subscribe: "keeps (\<lambda>s. Q (snd s)) (mon_subscribe g)"
  unfolding mon_subscribe_def by (intro keeps_bnd keeps_option keeps_get_mon keeps_ret any_on_w)

definition installed :: "monitor \<Rightarrow> bool" where
  "installed m \<longleftrightarrow> monitor_ok m \<and> mo_monitored m \<noteq> None"

definition ready :: "monitor \<Rightarrow> bool" where
  "ready m \<longleftrightarrow> installed m \<and> mo_tracker m \<noteq> None"

lemma ready_ok: "ready m \<Longrightarrow> monitor_ok m"
  by (simp add: ready_def installed_def)

lemma hoare_subscribe: "hoare (\<lambda>s. ready (snd s)) (mon_subscribe g) (\<lambda>_ s. ready (snd s)) (\<lambda>_. mon_ok)"
  using hoare_of_keeps [OF any_subscribe [of ready g]]
  by (rule hoare_post) (simp_all add: mon_ok_def ready_ok)

lemma ok_activate:
  "hoare (\<lambda>s. ready (snd s))
     (sq (mon_subscribe g) (sq (set_mon (\<lambda>s. s\<lparr>mo_active := True\<rparr>)) (ret MONITORING)))
     (\<lambda>_. mon_ok) (\<lambda>_. mon_ok)"
  by (rule hoare_sq [OF hoare_subscribe], rule hoare_sq [OF hoare_set_mon [where Q = mon_ok]])
    (auto simp: mon_ok_def ready_def installed_def monitor_ok_def intro!: hoare_ret')

lemma ok_install:
  "hoare (\<lambda>s. installed (snd s))
     (bnd (lift_sum (new_tracker call put tp sp)) (\<lambda>tr.
      sq (set_mon (\<lambda>s. s\<lparr>mo_tracker := Some tr, mo_last_tick := None, mo_last_premium := None\<rparr>))
      (sq (mon_subscribe g) (sq (set_mon (\<lambda>s. s\<lparr>mo_active := True\<rparr>)) (ret MONITORING)))))
     (\<lambda>_. mon_ok) (\<lambda>_. mon_ok)"
proof (rule hoare_lift)
  fix tr assume "new_tracker call put tp sp = Inr tr"
  then have "tracker_wf tr" by (simp add: new_tracker_Inr)
  then have r: "ready (m\<lparr>mo_tracker := Some tr, mo_last_tick := None, mo_last_premium := None\<rparr>)"
    if "installed m" for m
    using that by (simp add: ready_def installed_def monitor_ok_def)
  then have "hoare (\<lambda>s. installed (snd s))
     (set_mon (\<lambda>s. s\<lparr>mo_tracker := Some tr, mo_last_tick := None, mo_last_premium := None\<rparr>))
     (\<lambda>_ s. ready (snd s)) (\<lambda>_. mon_ok)"
    by (intro hoare_set_mon) simp
  then show "hoare (\<lambda>s. installed (snd s))
     (sq (set_mon (\<lambda>s. s\<lparr>mo_tracker := Some tr, mo_last_tick := None, mo_last_premium := None\<rparr>))
      (sq (mon_subscribe g) (sq (set_mon (\<lambda>s. s\<lparr>mo_active := True\<rparr>)) (ret MONITORING))))
     (\<lambda>_. mon_ok) (\<lambda>_. mon_ok)"
    by (rule hoare_sq [OF _ ok_activate])
qed (simp add: installed_def mon_ok_def)

lemma ok_attach: "keeps mon_ok (attach cx g)"
proof -
  have "hoare mon_ok (set_mon (\<lambda>s. s\<lparr>mo_monitored := Some mp\<rparr>)) (\<lambda>_ s. installed (snd s)) (\<lambda>_. mon_ok)"
    for mp
    by (rule hoare_set_mon) (auto simp: mon_ok_def installed_def monitor_ok_def)
  from hoare_sq [OF this ok_install]
  show ?thesis
    unfolding attach_def
    by (intro keeps_bnd ok_on_w keeps_attach_found keeps_ret) (simp add: keeps_hoare)
qed

lemma ok_recover: "keeps mon_ok (recover cx g)"
  unfolding recover_def initialize_def
  by (intro ok_rules keeps_prod keeps_position_state ok_attach)

lemma ok_trigger: "keeps mon_ok (on_time_trigger cx g name)"
  unfolding on_time_trigger_def handle_entry_trigger_def
  by (intro ok_rules ok_attach ok_poll)

definition runner_ok :: "'b world \<times> runner \<Rightarrow> bool" where
  "runner_ok s \<longleftrightarrow> monitor_ok (rn_monitor (snd s))"

lemma ok_on_strategy: "keeps mon_ok m \<Longrightarrow> keeps runner_ok (on_strategy m)"
  unfolding keeps_def on_strategy_def
  by (auto simp: runner_ok_def mon_ok_def split: prod.split) (metis fst_conv snd_conv)

lemma ok_run_w: "keeps runner_ok (run_w m)"
  by (auto simp: keeps_def run_w_def runner_ok_def split: prod.split)

lemma ok_status: "keeps runner_ok get_status" "keeps runner_ok (set_runner_status st)"
  by (simp_all add: get_status_def keeps_asks)
    (simp add: keeps_def set_runner_status_def modify_def runner_ok_def split: prod.split)

lemma ok_guarded: "keeps mon_ok m \<Longrightarrow> keeps runner_ok (run_guarded h m)"
  unfolding run_guarded_def freeze_instance_def
  by (intro keeps_bnd keeps_sq keeps_ret keeps_catch_if ok_on_strategy ok_run_w ok_status)

lemma ok_dispatch: "keeps runner_ok (run_dispatch (strategy1 cx g) e)"
  by (cases e)
    (auto simp: runner_start_def dispatch_time_trigger_def dispatch_tick_def dispatch_monitor_cycle_def
      when_running_def runner_stop_def strategy1_def on_market_tick_def on_monitor_cycle_def on_shutdown_def
      intro!: keeps_bnd keeps_sq keeps_if keeps_ret keeps_throw keeps_catch_if ok_status ok_guarded
        ok_on_strategy ok_recover ok_trigger ok_tick ok_poll ok_stop)

text \<open>
  C28: through the whole life of an instance an active monitor has its position and its tracker,
  and the tracker is well formed (distinct legs, percentages that are fractions, a price time
  exactly when there is a price), so that the assertions in the monitor's code cannot fail for
  want of them; whatever the feed, the broker, the database and the other actors do.
\<close>

theorem monitor_stays_well_formed:
  assumes "monitor_ok (rn_monitor (snd s))"
  shows "monitor_ok (rn_monitor (snd (run_life (strategy1 cx g) es s)))"
  using assms
proof (induction es arbitrary: s)
  case (Cons e es)
  obtain w r res where run: "run_dispatch (strategy1 cx g) e s = ((w, r), res)" by (metis prod.collapse)
  have "runner_ok (w, r)"
    using keepsD [OF ok_dispatch _ run] Cons.prems by (simp add: runner_ok_def)
  then have "monitor_ok (rn_monitor (snd (w, r)))" by (simp add: runner_ok_def)
  moreover have "monitor_ok (rn_monitor (snd (w\<lparr>w_exit_lock := False\<rparr>, new_runner)))"
    by (simp add: monitor_ok_def new_runner_def new_monitor_def)
  ultimately show ?case using Cons.IH by (simp add: run)
qed simp

theorem monitor_type_witness:
  "monitor_ok (rn_monitor (snd (run_life (strategy1 (demo_cx False) demo_gateway) demo_life
     (demo_world [], new_runner))))"
  by (rule monitor_stays_well_formed) (simp add: monitor_ok_def new_runner_def new_monitor_def)

section \<open>The cutoff and the halt against a failing feed\<close>

definition prices_ok :: "tracker \<Rightarrow> bool" where
  "prices_ok tr \<longleftrightarrow> tracker_wf tr \<and>
     (\<forall>p \<in> {tr_call_price tr, tr_put_price tr}. case p of None \<Rightarrow> True | Some x \<Rightarrow> 0 \<le> x)"

definition watching :: "('b world \<Rightarrow> bool) \<Rightarrow> monitored_position \<Rightarrow> 'b world \<times> monitor \<Rightarrow> bool" where
  "watching P mp s \<longleftrightarrow>
     P (fst s) \<and> mo_active (snd s) \<and> mo_monitored (snd s) = Some mp \<and>
     (case mo_tracker (snd s) of None \<Rightarrow> False | Some tr \<Rightarrow> prices_ok tr)"

text \<open>Programs that always return normally, in a state that still satisfies the predicate.\<close>

definition returns :: "('s \<Rightarrow> bool) \<Rightarrow> ('s, 'a) act \<Rightarrow> bool" where
  "returns P m \<longleftrightarrow> hoare P m (\<lambda>_. P) (\<lambda>_ _. False)"

text \<open>
  What the feed may do: answer, or raise anything but the death of the process; the polled prices
  are not negative.
\<close>

definition feed_may_fail :: "('b world \<Rightarrow> bool) \<Rightarrow> 'b gateway \<Rightarrow> bool" where
  "feed_may_fail P g \<longleftrightarrow>
     hoare P (mg_connected g) (\<lambda>_. P) (\<lambda>e w. is_exception e \<and> P w) \<and>
     (\<forall>is. hoare P (mg_ltps g is) (\<lambda>r w. P w \<and> (\<forall>(i, p) \<in> set r. 0 \<le> p)) (\<lambda>e w. is_exception e \<and> P w))"

lemma returnsE: "returns P m \<Longrightarrow> P s \<Longrightarrow> (\<And>s' x. m s = (s', Inr x) \<Longrightarrow> P s' \<Longrightarrow> R) \<Longrightarrow> R"
  by (cases "m s"; cases "snd (m s)") (auto simp: returns_def hoare_def)

lemma returns_ret: "returns P (ret x)"
  by (simp add: returns_def hoare_ret')

lemma returns_bnd: "returns P m \<Longrightarrow> (\<And>x. returns P (f x)) \<Longrightarrow> returns P (bnd m f)"
  unfolding returns_def by (rule hoare_bnd)

lemma returns_sq: "returns P m \<Longrightarrow> returns P n \<Longrightarrow> returns P (sq m n)"
  unfolding sq_def by (rule returns_bnd)

lemma returns_if: "returns P m \<Longrightarrow> returns P n \<Longrightarrow> returns P (if b then m else n)"
  by simp

lemma returns_option:
  "returns P m \<Longrightarrow> (\<And>y. x = Some y \<Longrightarrow> returns P (f y)) \<Longrightarrow>
   returns P (case x of None \<Rightarrow> m | Some y \<Rightarrow> f y)"
  by (cases x) simp_all

lemma returns_asks: "returns P (asks f)"
  by (simp add: returns_def hoare_def asks_def)

lemma returns_get_mon: "returns P (get_mon f)"
  unfolding get_mon_def by (rule returns_asks)

lemma returns_on_w:
  assumes m: "returns P m" and pre: "\<And>w mo. I (w, mo) \<Longrightarrow> P w"
    and post: "\<And>w w' mo. I (w, mo) \<Longrightarrow> P w' \<Longrightarrow> I (w', mo)"
  shows "returns I (on_w m)"
  unfolding returns_def hoare_def
proof (intro allI impI)
  fix s assume I: "I s"
  then have "P (fst s)" using pre [of "fst s" "snd s"] by simp
  then obtain w' x where "m (fst s) = (w', Inr x)" "P w'" by (rule returnsE [OF m]) blast
  then show "case on_w m s of (s', Inl e) \<Rightarrow> False | (s', Inr x) \<Rightarrow> I s'"
    using post [of "fst s" "snd s" w'] I by (simp add: on_w_def)
qed

lemma hoare_never: "(\<And>s. \<not> P s) \<Longrightarrow> hoare P m Q E"
  by (simp add: hoare_def)

lemma returns_catch:
  "hoare P m (\<lambda>_. P) (\<lambda>e w. is_exception e \<and> P w) \<Longrightarrow> returns P (catch_if is_exception m (\<lambda>_. ret x))"
  unfolding returns_def hoare_def catch_if_def ret_def
  by (fastforce split: prod.splits sum.splits)

lemma watching_on_w: "returns P m \<Longrightarrow> returns (watching P mp) (on_w m)"
  by (rule returns_on_w) (auto simp: watching_def)

lemma returns_now: "returns P now"
  unfolding now_def by (rule returns_asks)

lemma returns_stale: "feed_may_fail P g \<Longrightarrow> returns (watching P mp) (is_market_data_stale cx g)"
  unfolding is_market_data_stale_def
  by (intro returns_bnd watching_on_w returns_catch returns_get_mon returns_option returns_if
      returns_ret returns_now) (simp add: feed_may_fail_def)

lemma on_tick_returns:
  assumes "prices_ok tr" "0 \<le> tk_price tk"
  shows "prices_ok (fst (on_tick tk tr)) \<and> (\<exists>x. snd (on_tick tk tr) = Inr x)"
proof
  show ok: "prices_ok (fst (on_tick tk tr))"
    using assms on_tick_wf [of tr tk] by (auto simp: prices_ok_def on_tick_def Let_def)
  have "\<exists>x. current_snapshot t = Inr x" if "prices_ok t" for t
    using that by (auto simp: prices_ok_def current_snapshot_def tracker_wf_def compute_combined_premium_def
        split: option.splits sum.splits)
  then show "\<exists>x. snd (on_tick tk tr) = Inr x"
    using ok by (auto simp: on_tick_def Let_def split: if_splits)
qed

lemma returns_tick: "0 \<le> tk_price tk \<Longrightarrow> returns (watching P mp) (tracker_tick tk)"
  unfolding returns_def hoare_def
proof (intro allI impI)
  fix s assume p: "0 \<le> tk_price tk" and w: "watching P mp s"
  then obtain tr where tr: "mo_tracker (snd s) = Some tr" "prices_ok tr"
    by (auto simp: watching_def split: option.splits)
  from on_tick_returns [OF tr(2) p] w tr
  show "case tracker_tick tk s of (s', Inl e) \<Rightarrow> False | (s', Inr x) \<Rightarrow> watching P mp s'"
    by (cases "on_tick tk tr") (auto simp: tracker_tick_def watching_def)
qed

lemma returns_feed:
  "\<forall>(i, p) \<in> set prices. 0 \<le> p \<Longrightarrow> returns (watching P mp) (feed_prices t prices is)"
proof (induction t prices "is" rule: feed_prices.induct)
  case (2 t prices i "is")
  have "0 \<le> p" if "map_of prices i = Some p" for p
    using 2(2) map_of_SomeD [OF that] by auto
  then show ?case using 2 by (auto intro!: returns_sq returns_option returns_ret returns_tick)
qed (simp add: returns_ret)

lemma fetch_prices:
  assumes "feed_may_fail P g"
  shows "hoare (watching P mp)
     (on_w (catch_if is_exception (bnd (mg_ltps g is) (\<lambda>x. ret (Some x))) (\<lambda>_. ret None)))
     (\<lambda>r s. watching P mp s \<and> (case r of None \<Rightarrow> True | Some prices \<Rightarrow> \<forall>(i, p) \<in> set prices. 0 \<le> p))
     (\<lambda>_ _. False)"
  unfolding hoare_def
proof (intro allI impI)
  fix s assume w: "watching P mp s"
  obtain w' r where run: "mg_ltps g is (fst s) = (w', r)" by (cases "mg_ltps g is (fst s)")
  have "case (w', r) of (w', Inl e) \<Rightarrow> is_exception e \<and> P w' | (w', Inr r) \<Rightarrow> P w' \<and> (\<forall>(i, p) \<in> set r. 0 \<le> p)"
  proof -
    have h: "hoare P (mg_ltps g is) (\<lambda>r w. P w \<and> (\<forall>(i, p) \<in> set r. 0 \<le> p)) (\<lambda>e w. is_exception e \<and> P w)"
      using assms by (simp add: feed_may_fail_def)
    have "P (fst s)" using w by (simp add: watching_def)
    from hoare_run [OF h this] show ?thesis by (simp add: run)
  qed
  then show "case on_w (catch_if is_exception (bnd (mg_ltps g is) (\<lambda>x. ret (Some x))) (\<lambda>_. ret None)) s of
      (s', Inl e) \<Rightarrow> False
    | (s', Inr r) \<Rightarrow> watching P mp s' \<and> (case r of None \<Rightarrow> True | Some prices \<Rightarrow> \<forall>(i, p) \<in> set prices. 0 \<le> p)"
    using w run by (cases r) (simp_all add: on_w_def catch_if_def bnd_def ret_def watching_def)
qed

lemma returns_poll:
  assumes "feed_may_fail P g"
  shows "returns (watching P mp) (poll_prices g)"
proof -
  have "hoare (\<lambda>s. watching P mp s \<and> (case r of None \<Rightarrow> True | Some prices \<Rightarrow> \<forall>(i, p) \<in> set prices. 0 \<le> p))
      (case r of None \<Rightarrow> ret () | Some prices \<Rightarrow> bnd (on_w now) (\<lambda>t. feed_prices t prices is))
      (\<lambda>_. watching P mp) (\<lambda>_ _. False)" for r "is"
  proof (cases r)
    case (Some prices)
    show ?thesis
    proof (cases "\<forall>(i, p) \<in> set prices. 0 \<le> p")
      case True
      have "returns (watching P mp) (bnd (on_w now) (\<lambda>t. feed_prices t prices is))"
        by (intro returns_bnd watching_on_w returns_now returns_feed True)
      then show ?thesis using Some True by (simp add: returns_def)
    qed (rule hoare_never, auto simp: Some)
  qed (simp add: hoare_ret')
  then have "returns (watching P mp)
      (bnd (on_w (catch_if is_exception (bnd (mg_ltps g is) (\<lambda>x. ret (Some x))) (\<lambda>_. ret None))) (\<lambda>ltps.
       case ltps of None \<Rightarrow> ret () | Some prices \<Rightarrow> bnd (on_w now) (\<lambda>t. feed_prices t prices is)))" for "is"
    unfolding returns_def by (intro hoare_bnd [OF fetch_prices [OF assms]])
  note fetched = this
  show ?thesis
    unfolding poll_prices_def
    by (rule returns_bnd [OF returns_get_mon], rule returns_option [OF returns_ret], rule fetched)
qed

lemma returns_premium: "returns (watching P mp) current_premium"
  unfolding returns_def hoare_def
proof (intro allI impI)
  fix s assume w: "watching P mp s"
  then obtain tr where tr: "mo_tracker (snd s) = Some tr" "prices_ok tr"
    by (auto simp: watching_def split: option.splits)
  then obtain x where "current_snapshot tr = Inr x"
    by (auto simp: prices_ok_def current_snapshot_def tracker_wf_def compute_combined_premium_def
        split: option.splits sum.splits)
  then show "case current_premium s of (s', Inl e) \<Rightarrow> False | (s', Inr x) \<Rightarrow> watching P mp s'"
    using w tr by (simp add: current_premium_def get_mon_def asks_def bnd_def lift_sum_def ret_def)
qed

lemma returns_log:
  assumes "feed_may_fail P g"
  shows "returns (watching P mp) (log_cycle cx g)"
  unfolding returns_def hoare_def
proof (intro allI impI)
  fix s assume w: "watching P mp s"
  have "mo_tracker (snd s) \<noteq> None" using w by (cases "mo_tracker (snd s)") (simp_all add: watching_def)
  then have eq: "log_cycle cx g s = bnd (is_market_data_stale cx g) (\<lambda>_. ret ()) s"
    by (auto simp: log_cycle_def get_mon_def asks_def bnd_def)
  have "returns (watching P mp) (bnd (is_market_data_stale cx g) (\<lambda>_. ret ()))"
    by (intro returns_bnd returns_stale assms returns_ret)
  then show "case log_cycle cx g s of (s', Inl e) \<Rightarrow> False | (s', Inr x) \<Rightarrow> watching P mp s'"
    using w unfolding eq returns_def by (rule hoare_run)
qed

lemma returns_set_premium:
  "returns (watching P mp) (set_mon (\<lambda>s. s\<lparr>mo_last_premium := x\<rparr>))"
  unfolding returns_def by (rule hoare_set_mon) (simp add: watching_def)

text \<open>
  C14: whatever the price feed does - disconnected, raising on every call, answering with stale or
  missing prices - a heartbeat of an active monitor after the hard cutoff runs the exit with reason
  TIMEOUT, and a heartbeat before the cutoff runs it with reason KILL\_SWITCH when trading is
  halted; nothing but waiting for the feed happens before.
\<close>

theorem feed_cannot_stop_the_exit:
  assumes "feed_may_fail P g" and "watching P mp (w, mo)" and "returns P (cx_halted cx)"
    and "\<And>w1 w2 h. P w1 \<Longrightarrow> cx_halted cx w1 = (w2, Inr h) \<Longrightarrow> sc_cutoff (cx_config cx) \<le> ist_time (w_now w1) \<or> h"
  shows "\<exists>w1 mo1 reason. P w1 \<and> mo_monitored mo1 = Some mp \<and> reason \<in> {TIMEOUT, ER_KILL_SWITCH} \<and>
    poll_and_check cx g (w, mo) = trigger_exit cx g reason (w1, mo1)"
proof -
  let ?W = "watching P mp"
  have act: "mo_active mo" using assms(2) by (simp add: watching_def)
  have "returns ?W (bnd (is_market_data_stale cx g) (\<lambda>stale. if stale then poll_prices g else ret ()))"
    by (intro returns_bnd returns_stale returns_poll returns_if returns_ret assms(1))
  then obtain s1 u where s1: "?W s1"
    "(bnd (is_market_data_stale cx g) (\<lambda>stale. if stale then poll_prices g else ret ())) (w, mo) = (s1, Inr u)"
    by (rule returnsE) (use assms(2) in auto)
  obtain s2 c where s2: "?W s2" "current_premium s1 = (s2, Inr c)"
    by (rule returnsE [OF returns_premium s1(1)]) blast
  have poll: "poll_and_check cx g (w, mo) = evaluate cx g c s2"
    using act s1(2) s2(2) by (simp add: poll_and_check_def get_mon_def asks_def bnd_def sq_def)
  have m2: "mo_active (snd s2)" "mo_monitored (snd s2) = Some mp" using s2(1) by (simp_all add: watching_def)
  obtain s3 v where s3: "?W s3" "set_mon (\<lambda>s. s\<lparr>mo_last_premium := c\<rparr>) s2 = (s3, Inr v)"
    by (rule returnsE [OF returns_set_premium s2(1)]) blast
  let ?t = "w_now (fst s3)"
  have p3: "P (fst s3)" using s3(1) by (simp add: watching_def)
  obtain w4 h where h: "cx_halted cx (fst s3) = (w4, Inr h)" "P w4"
    by (rule returnsE [OF assms(3) p3]) blast
  let ?s4 = "(w4, snd s3)"
  have s4: "?W ?s4" using s3(1) h(2) by (simp add: watching_def)
  obtain s5 z where s5: "?W s5" "log_cycle cx g ?s4 = (s5, Inr z)"
    by (rule returnsE [OF returns_log [OF assms(1)] s4]) blast
  let ?d = "exit_evaluate cx (ist_time ?t) h c (mp_target mp) (mp_stoploss mp)"
  have due: "sc_cutoff (cx_config cx) \<le> ist_time ?t \<or> h" using assms(4) [OF p3 h(1)] .
  then obtain reason where d: "ed_exit ?d" "ed_reason ?d = Some reason" "reason \<in> {TIMEOUT, ER_KILL_SWITCH}"
    by (cases "sc_cutoff (cx_config cx) \<le> ist_time ?t") (auto simp: exit_evaluate_def evaluate_exit_def)
  have "evaluate cx g c s2 = trigger_exit cx g reason s5"
    using m2 s3(2) h(1) s5(2) d(1,2)
    by (simp add: evaluate_def get_mon_def asks_def bnd_def sq_def on_w_def now_def Let_def)
  moreover have "P (fst s5)" "mo_monitored (snd s5) = Some mp" using s5(1) by (simp_all add: watching_def)
  ultimately show ?thesis using d(3) poll by (metis prod.collapse)
qed

text \<open>A monitored position, a feed that raises on every call, and a clock after the cutoff.\<close>

definition dead_gateway :: "price_table sim gateway" where
  "dead_gateway =
     \<lparr>mg_connected = throw RuntimeError, mg_ltps = (\<lambda>is. throw (BrokerConnectionError ''down'')),
      mg_subscribe = (\<lambda>is. ret ()), mg_unsubscribe = (\<lambda>is. ret ())\<rparr>"

definition demo_call_id :: instrument_id where "demo_call_id = \<lparr>ii_exchange = NFO, ii_symbol = ''C''\<rparr>"

definition demo_put_id :: instrument_id where "demo_put_id = \<lparr>ii_exchange = NFO, ii_symbol = ''P''\<rparr>"

definition demo_monitored :: monitored_position where
  "demo_monitored =
     \<lparr>mp_position = 1, mp_call = demo_call_id, mp_put = demo_put_id, mp_target = Some 90,
      mp_stoploss = Some 120, mp_strike = None, mp_expiry = None, mp_quantity = Some 75,
      mp_lot_size = Some 75, mp_entry_premium = Some 100, mp_entry_time = None\<rparr>"

definition demo_watch :: monitor where
  "demo_watch =
     \<lparr>mo_active = True, mo_monitored = Some demo_monitored,
      mo_tracker = Some \<lparr>tr_call = demo_call_id, tr_put = demo_put_id, tr_target_pct = 1/10,
        tr_sl_pct = 1/5, tr_call_price = None, tr_put_price = None, tr_price_at = None,
        tr_thresholds = None\<rparr>,
      mo_last_tick = None, mo_last_premium = None\<rparr>"

theorem feed_failure_witness:
  "\<exists>w1 mo1 reason. (0 \<le> w_now w1) \<and> mo_monitored mo1 = Some demo_monitored \<and>
     reason \<in> {TIMEOUT, ER_KILL_SWITCH} \<and>
     poll_and_check (demo_cx True) dead_gateway (demo_world [], demo_watch) =
       trigger_exit (demo_cx True) dead_gateway reason (w1, mo1)"
proof (rule feed_cannot_stop_the_exit)
  show "feed_may_fail (\<lambda>w. 0 \<le> w_now w) dead_gateway"
    by (simp add: feed_may_fail_def dead_gateway_def is_exception_def hoare_throw')
  show "watching (\<lambda>w. 0 \<le> w_now w) demo_monitored (demo_world [], demo_watch)"
    by (simp add: watching_def demo_watch_def demo_world_def prices_ok_def tracker_wf_def fraction_ok_def
        demo_call_id_def demo_put_id_def)
  show "returns (\<lambda>w. 0 \<le> w_now w) (cx_halted (demo_cx True))"
    by (simp add: demo_cx_def returns_ret)
qed (simp add: demo_cx_def ret_def)

end
