(* ===== verification/Scheduler_Proofs.thy ===== *)
theory Scheduler_Proofs
  imports Strategy_Proofs
begin

text \<open>
  Properties of the scheduler and of the runner: a trigger fires at most once a day, a missed
  one that must be skipped never fires late, every other one fires on the first pass at or after
  its time; a hook that raises freezes its instance for good.
\<close>

section \<open>The bookkeeping of one pass\<close>

definition books :: "'b platform \<Rightarrow> string \<Rightarrow> (time_trigger list \<times> (string \<times> date) list \<times> (string \<times> date) list) option" where
  "books p k = map_option (\<lambda>s. (sd_triggers s, sd_fired s, sd_skipped s)) (map_of p k)"

lemma books_update:
  "map_of p k = Some s \<Longrightarrow> books (AList.update k (s\<lparr>sd_runner := r\<rparr>) p) = books p"
  by (auto simp: books_def AList.update_conv' fun_eq_iff)

lemma keeps_dispatch_books:
  "keeps (\<lambda>s. books (snd s) = B \<and> map fst (snd s) = K) (dispatch_one x)"
  by (auto simp: keeps_def dispatch_one_def books_update AList.update_keys split: option.split prod.split)
    (force dest: map_of_SomeD)+

lemma map_of_map_value:
  "map_of (map (\<lambda>(k, s). if k = c then (k, f s) else (k, s)) p) k =
     (if k = c then map_option f (map_of p k) else map_of p k)"
  by (induction p) auto

lemma books_mark_fired:
  "books (mark_fired td x p) k =
     (if k = fst x
      then map_option (\<lambda>(ts, f, sk). (ts, AList.update (snd x) td f, sk)) (books p k) else books p k)"
  unfolding books_def mark_fired_def map_of_map_value by (auto simp: option.map_comp comp_def)

lemma keys_mark_fired [simp]: "map fst (mark_fired td x p) = map fst p"
  by (induction p) (auto simp: mark_fired_def)

lemma keys_mark_all [simp]: "map fst (fold (mark_fired td) xs p) = map fst p"
  by (induction xs arbitrary: p) simp_all

definition fired_on :: "'b platform \<Rightarrow> string \<Rightarrow> string \<Rightarrow> date option" where
  "fired_on p k n = (case books p k of None \<Rightarrow> None | Some (ts, f, sk) \<Rightarrow> map_of f n)"

definition skipped_on :: "'b platform \<Rightarrow> string \<Rightarrow> string \<Rightarrow> date option" where
  "skipped_on p k n = (case books p k of None \<Rightarrow> None | Some (ts, f, sk) \<Rightarrow> map_of sk n)"

definition triggers_of :: "'b platform \<Rightarrow> string \<Rightarrow> time_trigger list" where
  "triggers_of p k = (case books p k of None \<Rightarrow> [] | Some (ts, f, sk) \<Rightarrow> ts)"

lemmas book_parts = fired_on_def skipped_on_def triggers_of_def

lemma parts_mark_fired:
  "fired_on (mark_fired td x p) k n =
     (if k = fst x \<and> n = snd x \<and> books p k \<noteq> None then Some td else fired_on p k n)"
  "skipped_on (mark_fired td x p) = skipped_on p"
  "triggers_of (mark_fired td x p) = triggers_of p"
  "books (mark_fired td x p) k = None \<longleftrightarrow> books p k = None"
  by (auto simp: book_parts books_mark_fired fun_eq_iff AList.update_conv' split: option.split)

lemma parts_mark_all:
  "fired_on (fold (mark_fired td) xs p) k n =
     (if (k, n) \<in> set xs \<and> books p k \<noteq> None then Some td else fired_on p k n)"
  "skipped_on (fold (mark_fired td) xs p) = skipped_on p"
  "triggers_of (fold (mark_fired td) xs p) = triggers_of p"
proof (induction xs arbitrary: p)
  case (Cons x xs)
  { case 1 show ?case using Cons(1) [of "mark_fired td x p"]
      by (cases x) (auto simp: parts_mark_fired simp del: not_None_eq) }
  { case 2 show ?case using Cons(2) by (simp add: parts_mark_fired) }
  { case 3 show ?case using Cons(3) by (simp add: parts_mark_fired) }
qed simp_all

lemma tick_effect:
  assumes "scheduler_tick trading (w, p) = ((w', p'), r)"
  shows "map fst p' = map fst p"
    "fired_on p' k n = (if (k, n) \<in> set (due_triggers trading (w_now w) p) \<and> books p k \<noteq> None
       then Some (ist_date (w_now w)) else fired_on p k n)"
    "skipped_on p' = skipped_on p" "triggers_of p' = triggers_of p"
proof -
  let ?due = "due_triggers trading (w_now w) p"
  let ?p = "fold (mark_fired (ist_date (w_now w))) ?due p"
  have "keeps (\<lambda>s. books (snd s) = books ?p \<and> map fst (snd s) = map fst p)
      (bnd (for_each ?due dispatch_one) (\<lambda>_. ret ?due))"
    by (intro keeps_intro keeps_dispatch_books)
  from keepsD [OF this, of "(w, ?p)" "(w', p')" r] assms
  have b: "books p' = books ?p" and "map fst p' = map fst p"
    by (simp_all add: scheduler_tick_def Let_def)
  then show "map fst p' = map fst p" by simp
  have "fired_on p' k n = fired_on ?p k n" "skipped_on p' = skipped_on ?p" "triggers_of p' = triggers_of ?p"
    by (simp_all add: book_parts b fun_eq_iff)
  then show "fired_on p' k n = (if (k, n) \<in> set ?due \<and> books p k \<noteq> None
       then Some (ist_date (w_now w)) else fired_on p k n)"
    "skipped_on p' = skipped_on p" "triggers_of p' = triggers_of p"
    by (simp_all only: parts_mark_all)
qed

definition platform_wf :: "'b platform \<Rightarrow> bool" where
  "platform_wf p \<longleftrightarrow> distinct (map fst p) \<and> (\<forall>k. distinct (map tt_name (triggers_of p k)))"

definition running :: "'b platform \<Rightarrow> string \<Rightarrow> bool" where
  "running p k \<longleftrightarrow> (case map_of p k of None \<Rightarrow> False | Some s \<Rightarrow> rn_status (sd_runner s) = RUNNING)"

lemma due_of_key: "(k, n) \<in> set (due_of a b c x) \<Longrightarrow> k = fst x"
  by (auto simp: due_of_def split: if_splits)

lemma due_iff:
  assumes "distinct (map fst p)"
  shows "(k, n) \<in> set (due_triggers trading t p) \<longleftrightarrow>
    running p k \<and> trading (ist_date t) \<and> fired_on p k n \<noteq> Some (ist_date t) \<and>
    skipped_on p k n \<noteq> Some (ist_date t) \<and>
    (\<exists>tr \<in> set (triggers_of p k). tt_name tr = n \<and> tt_time tr \<le> ist_time t)"
proof -
  have mem: "(k, s) \<in> set p \<longleftrightarrow> map_of p k = Some s" for s
    using assms by (metis map_of_eq_Some_iff)
  have "(k, n) \<in> set (due_triggers trading t p) \<longleftrightarrow>
      (\<exists>x \<in> set p. (k, n) \<in> set (due_of (ist_time t) (ist_date t) (trading (ist_date t)) x))"
    by (simp add: due_triggers_def)
  also have "\<dots> \<longleftrightarrow>
      (\<exists>s. map_of p k = Some s \<and> (k, n) \<in> set (due_of (ist_time t) (ist_date t) (trading (ist_date t)) (k, s)))"
    unfolding mem [symmetric] by (metis due_of_key prod.collapse)
  also have "\<dots> \<longleftrightarrow> running p k \<and> trading (ist_date t) \<and> fired_on p k n \<noteq> Some (ist_date t) \<and>
    skipped_on p k n \<noteq> Some (ist_date t) \<and>
    (\<exists>tr \<in> set (triggers_of p k). tt_name tr = n \<and> tt_time tr \<le> ist_time t)"
  proof (cases "map_of p k")
    case (Some s)
    then show ?thesis
      by (auto simp: due_of_def trigger_due_def running_def book_parts books_def)
  qed (simp add: running_def)
  finally show ?thesis .
qed

lemma distinct_due_names:
  "distinct (map tt_name ts) \<Longrightarrow> distinct (map (\<lambda>t. (k, tt_name t)) (filter P ts))"
  by (induction ts) auto

lemma due_distinct: "platform_wf p \<Longrightarrow> distinct (due_triggers trading t p)"
proof -
  have "distinct (map fst q) \<Longrightarrow> (\<And>k s. (k, s) \<in> set q \<Longrightarrow> distinct (map tt_name (sd_triggers s))) \<Longrightarrow>
      distinct (concat (map (due_of a b c) q))" for a b c and q :: "'b platform"
  proof (induction q)
    case (Cons x q)
    have "distinct (due_of a b c x)"
      using Cons.prems(2) [of "fst x" "snd x"] by (simp add: due_of_def distinct_due_names)
    moreover have "distinct (concat (map (due_of a b c) q))"
      using Cons.prems by (intro Cons.IH) auto
    moreover have "fst y = fst x" if "y \<in> set (due_of a b c x)" for y
      using that by (auto simp: due_of_def split: if_splits)
    moreover have "fst y \<in> set (map fst q)" if "y \<in> set (concat (map (due_of a b c) q))" for y
      using that by (force simp: due_of_def split: if_splits)
    ultimately show ?case using Cons.prems(1) by fastforce
  qed simp
  moreover assume wf: "platform_wf p"
  moreover have "distinct (map tt_name (sd_triggers s))" if "(k, s) \<in> set p" for k s
  proof -
    have "map_of p k = Some s" using wf that by (simp add: platform_wf_def)
    then have "triggers_of p k = sd_triggers s" by (simp add: triggers_of_def books_def)
    then show ?thesis using wf by (metis platform_wf_def)
  qed
  ultimately show ?thesis unfolding due_triggers_def platform_wf_def by blast
qed

section \<open>A day of passes\<close>

text \<open>
  The background thread as a sequence of passes, each at its own world and with the runners in
  whatever state the other threads left them; the log says what fired on which day, and the flag
  whether the process is alive.
\<close>

definition with_runners :: "(string \<Rightarrow> runner) \<Rightarrow> 'b platform \<Rightarrow> 'b platform" where
  "with_runners rs p = map (\<lambda>(k, s). (k, s\<lparr>sd_runner := rs k\<rparr>)) p"

fun scheduler_run ::
    "(date \<Rightarrow> bool) \<Rightarrow> ('b world \<times> (string \<Rightarrow> runner)) list \<Rightarrow> 'b platform \<Rightarrow>
     (date \<times> string \<times> string) list \<times> bool" where
  "scheduler_run trading [] p = ([], True)"
| "scheduler_run trading ((w, rs) # ps) p =
     (let p0 = with_runners rs p;
          fired = map (Pair (ist_date (w_now w))) (due_triggers trading (w_now w) p0)
      in case scheduler_tick trading (w, p0) of
           (s', Inl e) \<Rightarrow> (fired, False)
         | (s', Inr _) \<Rightarrow>
             (case scheduler_run trading ps (snd s') of (later, alive) \<Rightarrow> (fired @ later, alive)))"

definition pass_dates :: "('b world \<times> (string \<Rightarrow> runner)) list \<Rightarrow> date list" where
  "pass_dates ps = map (\<lambda>(w, rs). ist_date (w_now w)) ps"

lemma with_runners_simps [simp]:
  "map fst (with_runners rs p) = map fst p"
  "books (with_runners rs p) = books p" "fired_on (with_runners rs p) = fired_on p"
  "skipped_on (with_runners rs p) = skipped_on p" "triggers_of (with_runners rs p) = triggers_of p"
  "platform_wf (with_runners rs p) = platform_wf p"
proof -
  show k: "map fst (with_runners rs p) = map fst p"
    by (induction p) (auto simp: with_runners_def)
  have "books (with_runners rs p) k = books p k" for k
    by (induction p) (auto simp: with_runners_def books_def)
  then show b: "books (with_runners rs p) = books p" by (rule ext)
  show "fired_on (with_runners rs p) = fired_on p" "skipped_on (with_runners rs p) = skipped_on p"
    and t: "triggers_of (with_runners rs p) = triggers_of p"
    by (simp_all add: book_parts b fun_eq_iff)
  then show "platform_wf (with_runners rs p) = platform_wf p" by (simp add: platform_wf_def k)
qed

lemma tick_wf: "scheduler_tick trading (w, p) = ((w', p'), r) \<Longrightarrow> platform_wf p \<Longrightarrow> platform_wf p'"
  using tick_effect(1,4) [of trading w p w' p' r] by (simp add: platform_wf_def)

lemma due_books: "(k, n) \<in> set (due_triggers trading t p) \<Longrightarrow> books p k \<noteq> None"
  by (auto simp: due_triggers_def books_def map_of_eq_None_iff dest!: due_of_key)

lemma tick_fired:
  assumes "scheduler_tick trading (w, p) = ((w', p'), r)"
  shows "fired_on p' k n =
    (if (k, n) \<in> set (due_triggers trading (w_now w) p) then Some (ist_date (w_now w)) else fired_on p k n)"
  using tick_effect(2) [OF assms, of k n] due_books [of k n trading "w_now w" p]
  by (simp del: not_None_eq split: if_splits)

lemma run_step:
  assumes "scheduler_tick trading (w, with_runners rs p) = ((w', p'), Inr y)"
  shows "fst (scheduler_run trading ((w, rs) # ps) p) =
      map (Pair (ist_date (w_now w))) (due_triggers trading (w_now w) (with_runners rs p)) @
      fst (scheduler_run trading ps p')"
    "snd (scheduler_run trading ((w, rs) # ps) p) = snd (scheduler_run trading ps p')"
  by (simp_all add: assms Let_def split: prod.split)

lemma run_logs:
  assumes "platform_wf p" and "sorted (pass_dates ps)"
    and "\<And>k n d. fired_on p k n = Some d \<Longrightarrow> \<forall>e \<in> set (pass_dates ps). d \<le> e"
  shows "distinct (fst (scheduler_run trading ps p)) \<and>
    (\<forall>(d, k, n) \<in> set (fst (scheduler_run trading ps p)). d \<in> set (pass_dates ps) \<and> fired_on p k n \<noteq> Some d)"
  using assms
proof (induction trading ps p rule: scheduler_run.induct)
  case (2 trading w rs ps p)
  let ?p = "with_runners rs p" and ?d = "ist_date (w_now w)"
  let ?due = "due_triggers trading (w_now w) ?p"
  obtain w' p' r where t: "scheduler_tick trading (w, ?p) = ((w', p'), r)" by (metis prod.collapse)
  have wf: "platform_wf ?p" using "2.prems"(1) by simp
  have due: "distinct (map (Pair ?d) ?due)" "\<And>k n. (k, n) \<in> set ?due \<Longrightarrow> fired_on p k n \<noteq> Some ?d"
    using due_distinct [OF wf] wf by (simp_all add: distinct_map inj_on_def due_iff platform_wf_def)
  show ?case
  proof (cases r)
    case (Inl e)
    then show ?thesis using due by (auto simp: t Let_def pass_dates_def)
  next
    case (Inr x)
    have le: "\<forall>e \<in> set (pass_dates ps). ?d \<le> e" and sorted: "sorted (pass_dates ps)"
      using "2.prems"(2) by (auto simp: pass_dates_def)
    have "d \<le> e" if "fired_on p' k n = Some d" "e \<in> set (pass_dates ps)" for d e k n
      using that le "2.prems"(3) [of k n d] unfolding tick_fired [OF t]
      by (auto simp: pass_dates_def split: if_splits)
    then have "\<And>k n d. fired_on p' k n = Some d \<Longrightarrow> \<forall>e \<in> set (pass_dates ps). d \<le> e" by blast
    from "2.IH" [OF refl refl t [symmetric] Inr] tick_wf [OF t wf] sorted this
    have IH: "distinct (fst (scheduler_run trading ps p'))"
      "\<And>d k n. (d, k, n) \<in> set (fst (scheduler_run trading ps p')) \<Longrightarrow>
         d \<in> set (pass_dates ps) \<and> fired_on p' k n \<noteq> Some d"
      by auto
    have rest: "d \<noteq> ?d \<or> (k, n) \<notin> set ?due" "fired_on p k n \<noteq> Some d"
      if "(d, k, n) \<in> set (fst (scheduler_run trading ps p'))" for d k n
    proof -
      note i = IH(2) [OF that]
      show "d \<noteq> ?d \<or> (k, n) \<notin> set ?due" using i by (auto simp: tick_fired [OF t])
      show "fired_on p k n \<noteq> Some d"
      proof
        assume f: "fired_on p k n = Some d"
        have "d \<le> ?d" using "2.prems"(3) [OF f] by (simp add: pass_dates_def)
        then have "d = ?d" using i le by force
        then show False using f i by (simp add: tick_fired [OF t] split: if_splits)
      qed
    qed
    have lg: "fst (scheduler_run trading ((w, rs) # ps) p) =
        map (Pair ?d) ?due @ fst (scheduler_run trading ps p')"
      by (rule run_step(1) [OF t [unfolded Inr]])
    have "distinct (map (Pair ?d) ?due @ fst (scheduler_run trading ps p'))"
      using due(1) IH(1) rest(1) by auto
    moreover have "d \<in> set (pass_dates ((w, rs) # ps)) \<and> fired_on p k n \<noteq> Some d"
      if "(d, k, n) \<in> set (map (Pair ?d) ?due @ fst (scheduler_run trading ps p'))" for d k n
      using that due(2) rest(2) IH(2) by (auto simp: pass_dates_def)
    ultimately show ?thesis unfolding lg by blast
  qed
qed simp

lemma distinct_counts: "distinct xs \<Longrightarrow> count_list xs x \<le> 1"
  by (induction xs) auto

text \<open>
  C15: however the passes fall and whatever the dispatches and the other threads do to the
  runners, no trigger of a strategy fires twice on the same day, as long as the clock does not
  go back to an earlier day.
\<close>

theorem trigger_at_most_once_a_day:
  assumes "platform_wf p" and "\<And>k n. fired_on p k n = None" and "sorted (pass_dates ps)"
  shows "count_list (fst (scheduler_run trading ps p)) (d, key, name) \<le> 1"
proof -
  have "distinct (fst (scheduler_run trading ps p))"
    using run_logs [OF assms(1,3)] assms(2) by simp
  then show ?thesis by (rule distinct_counts)
qed

section \<open>Registration\<close>

lemma seed_triggers_iff:
  "map_of (seed_triggers t d ts sk) n =
     (if \<exists>x \<in> set ts. tt_name x = n \<and> tt_catch_up x = SKIP \<and> tt_time x \<le> t then Some d else map_of sk n)"
  by (induction t d ts sk rule: seed_triggers.induct) (auto simp: AList.update_conv')

definition missed_to_skip :: "(date \<Rightarrow> bool) \<Rightarrow> 'b hooks \<Rightarrow> dt \<Rightarrow> string \<Rightarrow> bool" where
  "missed_to_skip trading h t n \<longleftrightarrow>
     trading (ist_date t) \<and>
     (\<exists>x \<in> set (hk_triggers h). tt_name x = n \<and> tt_catch_up x = SKIP \<and> tt_time x \<le> ist_time t)"

lemma registered:
  assumes "platform_register trading key h r (w, p) = ((w1, p1), Inr ())"
  shows "map_of p key = None" "triggers_of p1 key = hk_triggers h" "fired_on p1 key n = None"
    "skipped_on p1 key n = (if missed_to_skip trading h (w_now w1) n then Some (ist_date (w_now w1)) else None)"
    "k \<noteq> key \<Longrightarrow> books p1 k = books p k" "map fst p1 = map fst p @ [key]"
proof -
  obtain r1 u where n: "map_of p key = None" and "runner_start h (w, r) = ((w1, r1), Inr u)"
    and p1: "p1 = AList.update key (seed_missed_triggers trading (w_now w1)
      \<lparr>sd_hooks = h, sd_runner = r1, sd_triggers = hk_triggers h, sd_fired = [], sd_skipped = []\<rparr>) p"
    using assms by (auto simp: platform_register_def split: if_splits prod.splits sum.splits)
  show "map_of p key = None" by (rule n)
  have m: "map_of p1 key = Some (seed_missed_triggers trading (w_now w1)
      \<lparr>sd_hooks = h, sd_runner = r1, sd_triggers = hk_triggers h, sd_fired = [], sd_skipped = []\<rparr>)"
    by (simp add: p1 AList.update_conv')
  show "triggers_of p1 key = hk_triggers h" "fired_on p1 key n = None"
    by (simp_all add: book_parts books_def m seed_missed_triggers_def)
  show "skipped_on p1 key n =
      (if missed_to_skip trading h (w_now w1) n then Some (ist_date (w_now w1)) else None)"
    by (auto simp: book_parts books_def m seed_missed_triggers_def seed_triggers_iff missed_to_skip_def)
  show "k \<noteq> key \<Longrightarrow> books p1 k = books p k"
    by (simp add: p1 books_def AList.update_conv')
  show "map fst p1 = map fst p @ [key]"
    using n by (simp add: p1 AList.update_keys map_of_eq_None_iff)
qed

lemma registered_wf:
  assumes "platform_register trading key h r (w, p) = ((w1, p1), Inr ())"
    and "platform_wf p" and "distinct (map tt_name (hk_triggers h))"
  shows "platform_wf p1"
proof -
  note reg = registered [OF assms(1)]
  have "distinct (map tt_name (triggers_of p1 k))" for k
  proof (cases "k = key")
    case False
    then have "triggers_of p1 k = triggers_of p k" using reg(5) by (simp add: triggers_of_def)
    then show ?thesis using assms(2) by (simp add: platform_wf_def)
  qed (simp add: reg(2) assms(3))
  moreover have "key \<notin> set (map fst p)" using reg(1) by (simp add: map_of_eq_None_iff)
  ultimately show ?thesis using assms(2) by (simp add: platform_wf_def reg(6))
qed

lemma skipped_never_fires:
  "platform_wf p \<Longrightarrow> skipped_on p k n = Some d \<Longrightarrow> (d, k, n) \<notin> set (fst (scheduler_run trading ps p))"
proof (induction trading ps p rule: scheduler_run.induct)
  case (2 trading w rs ps p)
  let ?p = "with_runners rs p"
  obtain w' p' x where t: "scheduler_tick trading (w, ?p) = ((w', p'), x)" by (metis prod.collapse)
  have wf: "platform_wf ?p" using "2.prems"(1) by simp
  have due: "(d, k, n) \<notin> set (map (Pair (ist_date (w_now w))) (due_triggers trading (w_now w) ?p))"
    using wf "2.prems"(2) by (auto simp: due_iff platform_wf_def)
  show ?case
  proof (cases x)
    case (Inl e)
    then show ?thesis using due by (simp add: t Let_def)
  next
    case (Inr y)
    have "(d, k, n) \<notin> set (fst (scheduler_run trading ps p'))"
      using "2.IH" [OF refl refl t [symmetric] Inr] tick_wf [OF t wf] tick_effect(3) [OF t] "2.prems"(2)
      by simp
    then show ?thesis using due unfolding run_step(1) [OF t [unfolded Inr]] by simp
  qed
qed simp

text \<open>
  A trigger that must be skipped when missed - the entry of the strategy - and whose time has
  passed when the instance is registered on a trading day never fires on that day, whatever
  passes follow.
\<close>

theorem missed_trigger_is_skipped:
  assumes "platform_register trading key h r (w, p) = ((w1, p1), Inr ())"
    and "platform_wf p" and "distinct (map tt_name (hk_triggers h))"
    and "missed_to_skip trading h (w_now w1) name"
  shows "(ist_date (w_now w1), key, name) \<notin> set (fst (scheduler_run trading ps p1))"
  using skipped_never_fires [OF registered_wf [OF assms(1-3)]] registered(4) [OF assms(1)] assms(4)
  by simp

lemma running_with_runners:
  "running (with_runners rs p) k \<longleftrightarrow> books p k \<noteq> None \<and> rn_status (rs k) = RUNNING"
  by (induction p) (auto simp: running_def with_runners_def books_def)

lemma due_fires:
  assumes "platform_wf p" and "skipped_on p k n \<noteq> Some (ist_date (w_now w))"
    and "tr \<in> set (triggers_of p k)" "tt_name tr = n" "tt_time tr \<le> ist_time (w_now w)"
    and "trading (ist_date (w_now w))" and "rn_status (rs k) = RUNNING"
    and "snd (scheduler_run trading ps p)"
  shows "(ist_date (w_now w), k, n) \<in> set (fst (scheduler_run trading (ps @ [(w, rs)]) p)) \<or>
    fired_on p k n = Some (ist_date (w_now w))"
  using assms(1-3,8)
proof (induction ps arbitrary: p)
  case Nil
  have b: "books p k \<noteq> None" using Nil.prems(3) by (cases "books p k") (simp_all add: triggers_of_def)
  have "fired_on p k n = Some (ist_date (w_now w)) \<or>
      (k, n) \<in> set (due_triggers trading (w_now w) (with_runners rs p))"
    using Nil.prems b assms(4-7) by (auto simp: due_iff platform_wf_def running_with_runners)
  then show ?case by (auto simp: Let_def split: prod.split sum.split)
next
  case (Cons pass ps)
  obtain v qs where pass: "pass = (v, qs)" by (cases pass)
  let ?p = "with_runners qs p"
  obtain w' p' x where t: "scheduler_tick trading (v, ?p) = ((w', p'), x)" by (metis prod.collapse)
  have wf: "platform_wf ?p" using Cons.prems(1) by simp
  obtain y where Inr: "x = Inr y" and alive: "snd (scheduler_run trading ps p')"
    using Cons.prems(4) by (auto simp: pass t Let_def split: sum.splits prod.splits)
  have "(ist_date (w_now w), k, n) \<in> set (fst (scheduler_run trading (ps @ [(w, rs)]) p')) \<or>
      fired_on p' k n = Some (ist_date (w_now w))"
    using Cons.IH [OF tick_wf [OF t wf] _ _ alive] Cons.prems(2,3) tick_effect(3,4) [OF t] by simp
  then show ?case
    unfolding pass append_Cons run_step(1) [OF t [unfolded Inr]]
    by (auto simp: tick_fired [OF t] split: if_splits)
qed


section \<open>A hook that raises\<close>

lemma frozen_dispatch: "rn_status r = FROZEN \<Longrightarrow> fst (run_dispatch h e (w, r)) = (w, r) \<and>
    snd (run_dispatch h e (w, r)) \<noteq> Inl ProcessCrash"
  by (cases e) (simp_all add: runner_start_def dispatch_time_trigger_def dispatch_tick_def
      dispatch_monitor_cycle_def when_running_def runner_stop_def get_status_def act_defs)

lemma frozen_life: "rn_status r = FROZEN \<Longrightarrow> run_life h es (w, r) = (w, r)"
proof (induction es)
  case (Cons e es)
  obtain s x where run: "run_dispatch h e (w, r) = (s, x)" by (cases "run_dispatch h e (w, r)")
  from frozen_dispatch [OF Cons.prems, of h e w] Cons show ?case by (simp add: run)
qed simp

lemma freeze_body_run:
  "t_get (d_instances d) i = Some row \<Longrightarrow>
   \<exists>d'. freeze_body i d = (d', Inr ()) \<and>
     (\<exists>row'. t_get (d_instances d') i = Some row' \<and> si_status row' = IS_FROZEN)"
  by (auto simp: freeze_body_def get_row_def act_defs set_status_def upd_instance_def)

lemma freeze_body_outcome:
  "freeze_body i d = (d', Inr ()) \<Longrightarrow> t_get (d_instances d) i = Some row \<Longrightarrow>
   \<exists>row'. t_get (d_instances d') i = Some row' \<and> si_status row' = IS_FROZEN"
  using freeze_body_run [of d i row] by auto

text \<open>
  C17: when the trigger handler of a running instance raises, the runner is frozen, the exception
  does not escape, and nothing that is asked of the runner afterwards reaches the strategy, the
  broker or the database.
\<close>

theorem failing_hook_freezes:
  assumes "rn_status r = RUNNING"
    and "hk_time_trigger h name (w, rn_monitor r) = ((w1, m1), Inl e)" and "e \<noteq> ProcessCrash"
  shows "case run_dispatch h (DTrigger name) (w, r) of
     ((w2, r2), res) \<Rightarrow> res = Inl ProcessCrash \<or>
       (res = Inr () \<and> rn_status r2 = FROZEN \<and> w_bk w2 = w_bk w1 \<and> run_life h es (w2, r2) = (w2, r2))"
proof -
  let ?r1 = "r\<lparr>rn_monitor := m1, rn_status := FROZEN\<rparr>"
  obtain w2 x where u: "unit_of_work (freeze_body (id_instance (hk_identity h))) w1 = (w2, x)"
    by (metis prod.collapse)
  have bk: "w_bk w2 = w_bk w1" using unit_of_work_bk [of "freeze_body (id_instance (hk_identity h))" w1] u by simp
  have run: "run_dispatch h (DTrigger name) (w, r) =
      ((w2, ?r1), if x = Inl ProcessCrash then Inl ProcessCrash else Inr ())"
    using assms u
    by (cases x) (auto simp: dispatch_time_trigger_def when_running_def run_guarded_def on_strategy_def
        get_status_def set_runner_status_def freeze_instance_def run_w_def act_defs is_exception_def)
  show ?thesis unfolding run using bk by (simp add: frozen_life)
qed

section \<open>Concrete runs\<close>

definition demo_hooks :: "price_table sim hooks" where
  "demo_hooks = strategy1 (demo_cx False) demo_gateway"

lemma demo_recover:
  "recover (demo_cx False) demo_gateway (demo_world [], new_monitor) = ((demo_world [], new_monitor), Inr ())"
proof -
  have "position_of_day (demo_cx False) 0 (demo_world []) = (demo_world [], Inr None)"
    using empty_db_ok by (simp add: position_of_day_def unit_of_work_def commit_def act_defs
        demo_world_def get_by_instance_and_date_def empty_db_def)
  then show ?thesis
    by (simp add: recover_def initialize_def on_w_def bnd_def ret_def today_def asks_def demo_today)
qed

lemma demo_registers:
  "\<exists>p1. platform_register (\<lambda>_. True) ''k'' demo_hooks new_runner (demo_world [], []) = ((demo_world [], p1), Inr ())"
  by (simp add: platform_register_def runner_start_def get_status_def new_runner_def run_guarded_def
      on_strategy_def demo_hooks_def strategy1_def act_defs set_runner_status_def demo_recover)

lemma demo_triggers: "hk_triggers demo_hooks = scheduled_triggers demo_config"
  by (simp add: demo_hooks_def strategy1_def demo_cx_def)

lemma demo_clock: "ist_time (w_now (demo_world [])) = 19800001000" "ist_date (w_now (demo_world [])) = 0"
  by (simp_all add: demo_world_def ist_time_def ist_date_def ist_offset_def day_micros_def)

lemma empty_platform: "platform_wf []" "fired_on [] k n = None"
  by (simp_all add: platform_wf_def triggers_of_def books_def fired_on_def)

lemmas demo_plan = scheduled_triggers_def demo_config_def entry_trigger_def cutoff_trigger_def

theorem missed_trigger_witness:
  "\<exists>p1. platform_register (\<lambda>_. True) ''k'' demo_hooks new_runner (demo_world [], []) = ((demo_world [], p1), Inr ()) \<and>
     (0, ''k'', ''entry'') \<notin> set (fst (scheduler_run (\<lambda>_. True) [(demo_world [], \<lambda>_. new_runner)] p1))"
proof -
  obtain p1 where reg: "platform_register (\<lambda>_. True) ''k'' demo_hooks new_runner (demo_world [], []) =
      ((demo_world [], p1), Inr ())"
    using demo_registers by blast
  have d: "distinct (map tt_name (hk_triggers demo_hooks))" and
    m: "missed_to_skip (\<lambda>_. True) demo_hooks (w_now (demo_world [])) ''entry''"
    by (simp_all add: demo_triggers demo_plan missed_to_skip_def demo_clock)
  show ?thesis using missed_trigger_is_skipped [OF reg empty_platform(1) d m] reg unfolding demo_clock by blast
qed


theorem trigger_once_witness:
  "\<exists>p1. platform_register (\<lambda>_. True) ''k'' demo_hooks new_runner (demo_world [], []) = ((demo_world [], p1), Inr ()) \<and>
     count_list (fst (scheduler_run (\<lambda>_. True)
       [(demo_world [], \<lambda>_. new_runner), (demo_world [], \<lambda>_. new_runner\<lparr>rn_status := RUNNING\<rparr>)] p1))
       (0, ''k'', ''cutoff'') \<le> 1"
proof -
  obtain p1 where reg: "platform_register (\<lambda>_. True) ''k'' demo_hooks new_runner (demo_world [], []) =
      ((demo_world [], p1), Inr ())"
    using demo_registers by blast
  have d: "distinct (map tt_name (hk_triggers demo_hooks))"
    by (simp add: demo_triggers demo_plan)
  have "fired_on p1 k n = None" for k n
    using registered(3) [OF reg, of n] registered(5) [OF reg, of k] by (cases "k = ''k''") (auto simp: fired_on_def books_def)
  then have "count_list (fst (scheduler_run (\<lambda>_. True)
      [(demo_world [], \<lambda>_. new_runner), (demo_world [], \<lambda>_. new_runner\<lparr>rn_status := RUNNING\<rparr>)] p1))
      (0, ''k'', ''cutoff'') \<le> 1"
    by (intro trigger_at_most_once_a_day registered_wf [OF reg empty_platform(1) d])
      (simp_all add: pass_dates_def)
  with reg show ?thesis by blast
qed

text \<open>A strategy whose handler always raises.\<close>

definition broken_hooks :: "price_table sim hooks" where
  "broken_hooks = demo_hooks\<lparr>hk_time_trigger := \<lambda>n. throw ValueError\<rparr>"

theorem failing_hook_witness:
  "case run_dispatch broken_hooks (DTrigger ''entry'') (demo_world [], new_runner\<lparr>rn_status := RUNNING\<rparr>) of
     ((w2, r2), res) \<Rightarrow> res = Inl ProcessCrash \<or>
       (res = Inr () \<and> rn_status r2 = FROZEN \<and> w_bk w2 = w_bk (demo_world []) \<and>
        run_life broken_hooks demo_life (w2, r2) = (w2, r2))"
  by (rule failing_hook_freezes [where ?m1.0 = new_monitor and e = ValueError])
    (simp_all add: broken_hooks_def throw_def new_runner_def)

end
