(* ===== verification/Reconciliation.thy ===== *)
theory Reconciliation
  imports Exit
begin

text \<open>
  \<open>services/reconciliation_engine.py\<close>: the repair of the database against broker truth. The two
  broker reads come first; every subject is then resolved in a unit of work of its own. The
  strategy's \<open>PositionReconciler\<close> is a protocol without an implementation in the repository and is
  a parameter (a pair of transactions, or none). The detail texts and snapshots are left out.
\<close>

section \<open>Results\<close>

datatype recon_outcome =
    BROKER_UNAVAILABLE
  | CONSISTENT_NO_ACTION | INTENT_FAILED_NOT_AT_BROKER | FILL_RECORDED | PARTIAL_FILL_RECORDED
  | REJECTION_RECORDED | ORDER_STILL_IN_FLIGHT | ORDER_ROW_CREATED | DUPLICATE_ORDERS_DETECTED
  | ORPHAN_ORDER_DETECTED
  | ENTRY_FINALIZED | EXIT_FINALIZED | ENTRY_ABORTED_NO_FILLS | POSITION_ERRORED
  | NEEDS_FINALIZATION_NO_RECONCILER | EXIT_PENDING_LEFT_FOR_RECOVERY

record recon_item =
  ri_subject :: string
  ri_outcome :: recon_outcome
  ri_break :: bool

definition broker_unavailable :: "recon_item list \<Rightarrow> bool" where
  "broker_unavailable items \<longleftrightarrow> list_ex (\<lambda>i. ri_outcome i = BROKER_UNAVAILABLE) items"

definition breaks_recorded :: "recon_item list \<Rightarrow> nat" where
  "breaks_recorded items = length (filter ri_break items)"

definition count_outcome :: "recon_outcome \<Rightarrow> recon_item list \<Rightarrow> nat" where
  "count_outcome x items = length (filter (\<lambda>i. ri_outcome i = x) items)"

definition item :: "string \<Rightarrow> nat \<Rightarrow> recon_outcome \<Rightarrow> bool \<Rightarrow> recon_item" where
  "item kind i x brk = \<lparr>ri_subject = kind @ '':'' @ nat_digits i, ri_outcome = x, ri_break = brk\<rparr>"

record recon_hooks =
  rh_entry :: "nat \<Rightarrow> unit tx"
  rh_exit :: "nat \<Rightarrow> unit tx"

section \<open>Helpers\<close>

type_synonym tag_groups = "(string \<times> broker_order list) list"

definition group_orders_by_tag :: "broker_order list \<Rightarrow> tag_groups" where
  "group_orders_by_tag orders =
     fold (\<lambda>o1 g. case bo_tag o1 of
                    None \<Rightarrow> g
                  | Some tag \<Rightarrow>
                      if tag = [] then g
                      else AList.update tag ((case map_of g tag of None \<Rightarrow> [] | Some os \<Rightarrow> os) @ [o1]) g) orders []"

definition freeze_unless_frozen :: "nat \<Rightarrow> unit tx" where
  "freeze_unless_frozen inst =
     bnd (get_row d_instances inst) (\<lambda>i.
     case i of
       None \<Rightarrow> ret ()
     | Some r \<Rightarrow> if si_status r \<noteq> IS_FROZEN then set_status inst IS_FROZEN else ret ())"

text \<open>
  The message, the flag and the state change reach the database in one flush, so the row's
  version goes up once.
\<close>

definition move_to_error :: "nat \<Rightarrow> position_row \<Rightarrow> string \<Rightarrow> unit tx" where
  "move_to_error pid p reason =
     sq (upd_position pid (\<lambda>r. r\<lparr>p_error := Some reason, p_recon := True, p_state := PS_ERROR\<rparr>))
       (modify (\<lambda>d. d\<lparr>d_transitions := t_add (d_transitions d)
          \<lparr>x_position = pid, x_from = Some (p_state p), x_to = PS_ERROR, x_reason = Some reason,
           x_actor = RECOVERY\<rparr>\<rparr>))"

definition error_position :: "nat \<Rightarrow> position_row \<Rightarrow> break_type \<Rightarrow> string \<Rightarrow> dt \<Rightarrow> recon_item tx" where
  "error_position pid p btype reason t =
     sq (move_to_error pid p reason)
     (sq (freeze_unless_frozen (p_instance p))
     (bnd (break_create btype t (Some pid) None None) (\<lambda>_.
      ret (item ''position'' pid POSITION_ERRORED True))))"

definition error_position_of_intent :: "intent_row \<Rightarrow> string \<Rightarrow> unit tx" where
  "error_position_of_intent i reason =
     bnd (get_row d_trades (i_trade i)) (\<lambda>trade.
     case trade of
       None \<Rightarrow> ret ()
     | Some tr \<Rightarrow>
         bnd (get_row d_positions (t_position tr)) (\<lambda>position.
         case position of
           None \<Rightarrow> ret ()
         | Some p \<Rightarrow>
             if p_state p \<in> {CLOSED, PS_ERROR} then ret ()
             else sq (move_to_error (t_position tr) p reason) (freeze_unless_frozen (p_instance p))))"

section \<open>Intents\<close>

definition recon_fill_price :: "broker_order \<Rightarrow> order_row \<Rightarrow> decimal" where
  "recon_fill_price bo row =
     (if bo_avg_price bo \<noteq> None \<and> bo_avg_price bo \<noteq> Some 0 then the (bo_avg_price bo)
      else case o_avg_price row of None \<Rightarrow> 0 | Some q \<Rightarrow> q)"

definition record_fill_rows :: "intent_row \<Rightarrow> nat \<Rightarrow> broker_order \<Rightarrow> dt \<Rightarrow> unit tx" where
  "record_fill_rows i oid bo t =
     bnd (get_row_or_raise d_orders oid) (\<lambda>row.
     (let tm = (case bo_filled_at bo of None \<Rightarrow> t | Some f \<Rightarrow> f);
          price = recon_fill_price bo row
      in sq (record_fill oid COMPLETE (bo_filled bo) price tm)
           (upd_trade (i_trade i) (\<lambda>r.
              if i_purpose i = ENTRY
              then r\<lparr>t_entry_price := Some (num4 price), t_entry_time := Some tm,
                     t_status := (if t_status r = TL_PENDING then TL_OPEN else t_status r)\<rparr>
              else r\<lparr>t_exit_price := Some (num4 price), t_exit_time := Some tm,
                     t_status := (if t_status r = TL_OPEN then TL_CLOSED else t_status r)\<rparr>))))"

definition recon_apply_fill :: "nat \<Rightarrow> intent_row \<Rightarrow> nat \<Rightarrow> broker_order \<Rightarrow> dt \<Rightarrow> unit tx" where
  "recon_apply_fill iid i oid bo t =
     sq (record_fill_rows i oid bo t) (sq (mark_placed iid) (mark_confirmed iid))"

definition recon_locate_order :: "nat \<Rightarrow> intent_row \<Rightarrow> broker_order \<Rightarrow> (nat \<times> bool) tx" where
  "recon_locate_order iid i bo =
     bnd (asks (order_by_broker_id (bo_id bo))) (\<lambda>known.
     bnd (case known of Some x \<Rightarrow> ret (Some x) | None \<Rightarrow> order_by_tag (i_tag i)) (\<lambda>found.
     case found of
       Some (oid, r) \<Rightarrow> ret (oid, False)
     | None \<Rightarrow>
         bnd (order_create (i_trade i) (Some iid) (i_purpose i) (i_side i) MARKET (i_quantity i)
                (Some (i_tag i))) (\<lambda>oid. ret (oid, True))))"

definition acknowledge_if_new :: "nat \<Rightarrow> broker_order \<Rightarrow> dt \<Rightarrow> unit tx" where
  "acknowledge_if_new oid bo t =
     bnd (get_row_or_raise d_orders oid) (\<lambda>row.
     if o_broker_id row = None
     then mark_acknowledged oid (bo_id bo) (case bo_placed_at bo of None \<Rightarrow> t | Some p \<Rightarrow> p)
     else ret ())"

definition resolve_intent_against_order ::
    "nat \<Rightarrow> intent_row \<Rightarrow> broker_order \<Rightarrow> dt \<Rightarrow> recon_item tx" where
  "resolve_intent_against_order iid i bo t =
     bnd (recon_locate_order iid i bo) (\<lambda>(oid, created).
     sq (acknowledge_if_new oid bo t)
     (if bo_status bo = COMPLETE then
        sq (recon_apply_fill iid i oid bo t)
          (if bo_filled bo \<noteq> i_quantity i
           then bnd (break_create QUANTITY_MISMATCH t None (Some oid) (Some iid)) (\<lambda>_.
                ret (item ''intent'' iid PARTIAL_FILL_RECORDED True))
           else ret (item ''intent'' iid FILL_RECORDED False))
      else if bo_status bo \<in> {REJECTED, OS_CANCELLED, OS_ERROR} then
        (if bo_filled bo > 0
         then sq (recon_apply_fill iid i oid bo t)
                (bnd (break_create QUANTITY_MISMATCH t None (Some oid) (Some iid)) (\<lambda>_.
                 ret (item ''intent'' iid PARTIAL_FILL_RECORDED True)))
         else sq (record_rejection oid
                    (case bo_message bo of
                       None \<Rightarrow> order_status_value (bo_status bo)
                     | Some m \<Rightarrow> if m = [] then order_status_value (bo_status bo) else m))
                (sq (mark_failed iid) (ret (item ''intent'' iid REJECTION_RECORDED False))))
      else ret (item ''intent'' iid (if created then ORDER_ROW_CREATED else ORDER_STILL_IN_FLIGHT) False)))"

definition intent_body :: "nat \<Rightarrow> tag_groups \<Rightarrow> dt \<Rightarrow> recon_item tx" where
  "intent_body iid groups t =
     bnd (get_row d_intents iid) (\<lambda>intent.
     case intent of
       None \<Rightarrow> ret (item ''intent'' iid CONSISTENT_NO_ACTION False)
     | Some i \<Rightarrow>
         if i_status i \<notin> {IN_PENDING, SUBMITTED_UNCONFIRMED, PLACED}
         then ret (item ''intent'' iid CONSISTENT_NO_ACTION False)
         else
           (case map_of groups (i_tag i) of
              None \<Rightarrow> sq (mark_failed iid) (ret (item ''intent'' iid INTENT_FAILED_NOT_AT_BROKER False))
            | Some [] \<Rightarrow> sq (mark_failed iid) (ret (item ''intent'' iid INTENT_FAILED_NOT_AT_BROKER False))
            | Some [bo] \<Rightarrow> resolve_intent_against_order iid i bo t
            | Some (bo1 # bo2 # bos) \<Rightarrow>
                bnd (break_create QUANTITY_MISMATCH t None None (Some iid)) (\<lambda>_.
                sq (error_position_of_intent i ''duplicate broker orders under one tag'')
                  (ret (item ''intent'' iid DUPLICATE_ORDERS_DETECTED True)))))"

definition reconcile_one_intent :: "tag_groups \<Rightarrow> nat \<Rightarrow> ('b, recon_item) prog" where
  "reconcile_one_intent groups iid = bnd now (\<lambda>t. unit_of_work (intent_body iid groups t))"

definition reconcile_intents :: "tag_groups \<Rightarrow> ('b, recon_item list) prog" where
  "reconcile_intents groups =
     bnd (unit_of_work (asks (\<lambda>d. map fst (list_in_doubt d)))) (\<lambda>ids.
     map_act (reconcile_one_intent groups) ids)"

section \<open>Orphans\<close>

fun orphans_body :: "tag_groups \<Rightarrow> dt \<Rightarrow> recon_item list tx" where
  "orphans_body [] t = ret []"
| "orphans_body ((tag, orders) # gs) t =
     bnd (asks (intent_by_tag tag)) (\<lambda>known.
     if known \<noteq> None then orphans_body gs t
     else bnd (break_create ORPHAN_FILL t None None None) (\<lambda>_.
          bnd (orphans_body gs t) (\<lambda>items.
          ret (\<lparr>ri_subject = ''broker_tag:'' @ tag, ri_outcome = ORPHAN_ORDER_DETECTED, ri_break = True\<rparr> # items))))"

definition detect_orphans :: "tag_groups \<Rightarrow> ('b, recon_item list) prog" where
  "detect_orphans groups = bnd now (\<lambda>t. unit_of_work (orphans_body groups t))"

section \<open>Positions\<close>

definition legs_in :: "trade_leg_status \<Rightarrow> (nat \<times> trade_row) list \<Rightarrow> trade_row list" where
  "legs_in st trades = filter (\<lambda>t. t_status t = st) (map snd trades)"

definition needs_finalization :: "nat \<Rightarrow> dt \<Rightarrow> recon_item tx" where
  "needs_finalization pid t =
     bnd (break_create BT_OTHER t (Some pid) None None) (\<lambda>_.
     sq (upd_position pid (\<lambda>r. r\<lparr>p_recon := True\<rparr>))
       (ret (item ''position'' pid NEEDS_FINALIZATION_NO_RECONCILER True)))"

definition finalize_entry :: "recon_hooks option \<Rightarrow> nat \<Rightarrow> dt \<Rightarrow> recon_item tx" where
  "finalize_entry hooks pid t =
     (case hooks of
        None \<Rightarrow> needs_finalization pid t
      | Some h \<Rightarrow> sq (rh_entry h pid) (ret (item ''position'' pid ENTRY_FINALIZED False)))"

definition finalize_exit :: "recon_hooks option \<Rightarrow> nat \<Rightarrow> dt \<Rightarrow> recon_item tx" where
  "finalize_exit hooks pid t =
     (case hooks of
        None \<Rightarrow> needs_finalization pid t
      | Some h \<Rightarrow> sq (rh_exit h pid) (ret (item ''position'' pid EXIT_FINALIZED False)))"

definition abort_reason :: string where
  "abort_reason = ''reconciliation: entry never filled at broker; no exposure opened''"

definition reconcile_entry_pending ::
    "recon_hooks option \<Rightarrow> nat \<Rightarrow> position_row \<Rightarrow> (nat \<times> trade_row) list \<Rightarrow> dt \<Rightarrow> recon_item tx" where
  "reconcile_entry_pending hooks pid p trades t =
     (if legs_in TL_OPEN trades \<noteq> [] \<and> legs_in TL_PENDING trades = [] \<and> trades \<noteq> []
      then finalize_entry hooks pid t
      else if legs_in TL_OPEN trades = []
      then sq (transition_state pid CLOSED RECOVERY (Some abort_reason))
             (ret (item ''position'' pid ENTRY_ABORTED_NO_FILLS False))
      else error_position pid p PARTIAL_ENTRY ''partial entry'' t)"

definition reconcile_exit_pending ::
    "recon_hooks option \<Rightarrow> nat \<Rightarrow> position_row \<Rightarrow> (nat \<times> trade_row) list \<Rightarrow> dt \<Rightarrow> recon_item tx" where
  "reconcile_exit_pending hooks pid p trades t =
     (if legs_in TL_CLOSED trades \<noteq> [] \<and> legs_in TL_OPEN trades = [] \<and> trades \<noteq> []
      then finalize_exit hooks pid t
      else if legs_in TL_CLOSED trades \<noteq> [] \<and> legs_in TL_OPEN trades \<noteq> []
      then error_position pid p BT_OTHER ''partial exit'' t
      else ret (item ''position'' pid EXIT_PENDING_LEFT_FOR_RECOVERY False))"

definition reconcile_open ::
    "nat \<Rightarrow> position_row \<Rightarrow> (nat \<times> trade_row) list \<Rightarrow> string list option \<Rightarrow> dt \<Rightarrow> recon_item tx" where
  "reconcile_open pid p trades live t =
     (case live of
        None \<Rightarrow> ret (item ''position'' pid CONSISTENT_NO_ACTION False)
      | Some symbols \<Rightarrow>
          if list_ex (\<lambda>tr. t_symbol tr \<notin> set symbols) (legs_in TL_OPEN trades)
          then error_position pid p BROKER_FLAT_DB_OPEN ''DB OPEN but broker flat'' t
          else ret (item ''position'' pid CONSISTENT_NO_ACTION False))"

definition position_body ::
    "recon_hooks option \<Rightarrow> string list option \<Rightarrow> nat \<Rightarrow> dt \<Rightarrow> recon_item tx" where
  "position_body hooks live pid t =
     bnd (get_row d_positions pid) (\<lambda>position.
     case position of
       None \<Rightarrow> ret (item ''position'' pid CONSISTENT_NO_ACTION False)
     | Some p \<Rightarrow>
         if p_state p \<in> {CLOSED, PS_ERROR} then ret (item ''position'' pid CONSISTENT_NO_ACTION False)
         else bnd (asks (list_trades_for_position pid)) (\<lambda>trades.
              if p_state p = ENTRY_PENDING then reconcile_entry_pending hooks pid p trades t
              else if p_state p = EXIT_PENDING then reconcile_exit_pending hooks pid p trades t
              else reconcile_open pid p trades live t))"

definition reconcile_one_position ::
    "recon_hooks option \<Rightarrow> string list option \<Rightarrow> nat \<Rightarrow> ('b, recon_item) prog" where
  "reconcile_one_position hooks live pid = bnd now (\<lambda>t. unit_of_work (position_body hooks live pid t))"

definition reconcile_positions ::
    "recon_hooks option \<Rightarrow> broker_position list option \<Rightarrow> ('b, recon_item list) prog" where
  "reconcile_positions hooks positions =
     bnd (unit_of_work (asks (\<lambda>d. map fst (filter (\<lambda>(i, p). p_state p \<noteq> PS_ERROR) (list_non_terminal d))))) (\<lambda>ids.
     map_act (reconcile_one_position hooks
       (map_option (\<lambda>ps. map bp_symbol (filter (\<lambda>b. bp_quantity b \<noteq> 0) ps)) positions)) ids)"

section \<open>The whole run\<close>

definition reconcile :: "'b broker \<Rightarrow> recon_hooks option \<Rightarrow> ('b, recon_item list) prog" where
  "reconcile B hooks =
     bnd (catch_if is_broker_error (bnd (bcall (bk_orders B)) (\<lambda>os. ret (Some os))) (\<lambda>_. ret None)) (\<lambda>orders.
     case orders of
       None \<Rightarrow> ret [\<lparr>ri_subject = ''broker'', ri_outcome = BROKER_UNAVAILABLE, ri_break = False\<rparr>]
     | Some os \<Rightarrow>
         bnd (catch_if is_broker_error (bnd (bcall (bk_positions B)) (\<lambda>ps. ret (Some ps))) (\<lambda>_. ret None)) (\<lambda>positions.
         (let groups = group_orders_by_tag os
          in bnd (reconcile_intents groups) (\<lambda>a.
             bnd (detect_orphans groups) (\<lambda>b.
             bnd (reconcile_positions hooks positions) (\<lambda>c. ret (a @ b @ c)))))))"

end
