(* ===== verification/Recon_Proofs.thy ===== *)
theory Recon_Proofs
  imports Reconciliation Exit_Claims
begin

text \<open>
  Properties of reconciliation: it only reads from the broker, it repairs nothing without broker
  truth, its direct state changes are legal ones, every intent in doubt is settled by a completed
  run, and what is settled stays as it is.
\<close>

section \<open>The broker is only read\<close>

lemma keeps_bk_uow: "keeps (\<lambda>w. w_bk w = b) (unit_of_work body)"
  by (simp add: keeps_def unit_of_work_bk)

lemma keeps_bk_now: "keeps (\<lambda>w. w_bk w = b) now"
  by (simp add: now_def keeps_asks)

lemmas bk_rules = keeps_bnd keeps_ret keeps_map_act keeps_bk_uow keeps_bk_now

lemma keeps_bk_recon:
  "keeps (\<lambda>w. w_bk w = b) (reconcile_intents groups)"
  "keeps (\<lambda>w. w_bk w = b) (detect_orphans groups)"
  "keeps (\<lambda>w. w_bk w = b) (reconcile_positions hooks positions)"
  unfolding reconcile_intents_def reconcile_one_intent_def detect_orphans_def reconcile_positions_def
    reconcile_one_position_def
  by (intro bk_rules)+

lemma read_run:
  "catch_if is_broker_error (bnd (bcall f) (\<lambda>x. ret (Some x))) (\<lambda>_. ret None) w =
     (let (w', r) = bcall f w
      in (w', case r of Inr x \<Rightarrow> Inr (Some x) | Inl e \<Rightarrow> if is_broker_error e then Inr None else Inl e))"
  by (simp add: catch_if_def bnd_def ret_def split: prod.split sum.split)

lemma bcall_bk:
  "f (w_now w) (w_bk w) = (b, n, ps, r) \<Longrightarrow>
   \<exists>w'. bcall f w = (w', r) \<and> w_bk w' = b \<and> w_now w' = w_now w + int n \<and>
        w_db w' = fold (\<lambda>bo d. push_update bo (w_now w') d) ps (w_db w) \<and> w_env w' = w_env w"
  by (simp add: bcall_def Let_def)

lemmas orders_call = bcall_bk [where f = "bk_orders B" for B]

lemmas positions_call = bcall_bk [where f = "bk_positions B" for B]

definition repairs :: "recon_hooks option \<Rightarrow> tag_groups \<Rightarrow> broker_position list option \<Rightarrow> ('b, recon_item list) prog" where
  "repairs hooks groups positions =
     bnd (reconcile_intents groups) (\<lambda>a.
     bnd (detect_orphans groups) (\<lambda>b.
     bnd (reconcile_positions hooks positions) (\<lambda>c. ret (a @ b @ c))))"

lemma keeps_bk_repairs: "keeps (\<lambda>w. w_bk w = b) (repairs hooks groups positions)"
  unfolding repairs_def by (intro bk_rules keeps_bk_recon)

lemma reconcile_cases [consumes 1, case_names failed stopped repaired]:
  assumes "bk_orders B (w_now w) (w_bk w) = (b1, n1, ps1, r1)"
  obtains (failed) w1 e where "bcall (bk_orders B) w = (w1, Inl e)" "r1 = Inl e"
      "reconcile B hooks w =
         (w1, if is_broker_error e
              then Inr [\<lparr>ri_subject = ''broker'', ri_outcome = BROKER_UNAVAILABLE, ri_break = False\<rparr>]
              else Inl e)"
    | (stopped) w1 os w2 e where "bcall (bk_orders B) w = (w1, Inr os)" "bcall (bk_positions B) w1 = (w2, Inl e)"
      "\<not> is_broker_error e" "reconcile B hooks w = (w2, Inl e)"
    | (repaired) w1 os w2 r2 where "bcall (bk_orders B) w = (w1, Inr os)" "bcall (bk_positions B) w1 = (w2, r2)"
      "reconcile B hooks w = repairs hooks (group_orders_by_tag os)
         (case r2 of Inl e \<Rightarrow> None | Inr ps \<Rightarrow> Some ps) w2"
proof -
  obtain w1 where w1: "bcall (bk_orders B) w = (w1, r1)" using orders_call [OF assms] by blast
  show ?thesis
  proof (cases r1)
    case (Inl e)
    show ?thesis
      by (rule failed [OF w1 [unfolded Inl] Inl])
        (simp add: reconcile_def bnd_def read_run w1 Inl ret_def)
  next
    case (Inr os)
    obtain w2 r2 where w2: "bcall (bk_positions B) w1 = (w2, r2)" by (metis prod.collapse)
    have run: "reconcile B hooks w =
        (case r2 of
           Inl e \<Rightarrow> if is_broker_error e then repairs hooks (group_orders_by_tag os) None w2 else (w2, Inl e)
         | Inr ps \<Rightarrow> repairs hooks (group_orders_by_tag os) (Some ps) w2)"
      unfolding reconcile_def repairs_def
      by (simp add: bnd_def [of "catch_if _ _ _"] read_run w1 w2 Inr Let_def split: sum.split)
    show ?thesis
    proof (cases r2)
      case (Inl e)
      show ?thesis
      proof (cases "is_broker_error e")
        case True
        then show ?thesis using repaired [OF w1 [unfolded Inr] w2] run Inl by simp
      next
        case False
        then show ?thesis using stopped [OF w1 [unfolded Inr] w2 [unfolded Inl]] run Inl by simp
      qed
    next
      case (Inr ps)
      then show ?thesis using repaired [OF w1 [unfolded \<open>r1 = Inr os\<close>] w2] run by simp
    qed
  qed
qed

text \<open>
  A reconciliation run reaches the broker with two calls at most, the order book and then the
  positions: whatever it repairs, the broker is left in the state those two reads leave it in, so
  no order is ever placed, modified or cancelled by it.
\<close>

theorem reconcile_only_reads:
  "case bk_orders B (w_now w) (w_bk w) of
     (b1, n1, ps, r) \<Rightarrow>
       w_bk (fst (reconcile B hooks w)) \<in> {b1, fst (bk_positions B (w_now w + int n1) b1)}"
proof -
  obtain b1 n1 ps1 r1 where call: "bk_orders B (w_now w) (w_bk w) = (b1, n1, ps1, r1)" by (metis prod_cases4)
  obtain w1 where w1: "bcall (bk_orders B) w = (w1, r1)" "w_bk w1 = b1" "w_now w1 = w_now w + int n1"
    using orders_call [OF call] by blast
  have "w_bk (fst (reconcile B hooks w)) = b1 \<or>
      w_bk (fst (reconcile B hooks w)) = fst (bk_positions B (w_now w1) (w_bk w1))"
    using call
  proof (cases rule: reconcile_cases [where hooks = hooks])
    case (failed v e)
    then show ?thesis using w1 by simp
  next
    case (stopped v os w2 e)
    obtain b2 n2 ps2 r2 where c2: "bk_positions B (w_now w1) (w_bk w1) = (b2, n2, ps2, r2)" by (metis prod_cases4)
    then show ?thesis using stopped w1 positions_call [OF c2] by auto
  next
    case (repaired v os w2 r2)
    obtain b2 n2 ps2 r3 where c2: "bk_positions B (w_now w1) (w_bk w1) = (b2, n2, ps2, r3)" by (metis prod_cases4)
    have "w_bk w2 = b2" using repaired w1 positions_call [OF c2] by auto
    then have "w_bk (fst (reconcile B hooks w)) = b2"
      using keeps_bk_repairs [of b2 hooks] repaired(3) by (simp add: keeps_def)
    then show ?thesis using c2 by simp
  qed
  then show ?thesis using call w1 by simp
qed

text \<open>
  When the order book cannot be fetched the run repairs nothing: the database holds what the
  broker's own pushed updates made of it, and the report says that the broker is unavailable.
\<close>

theorem no_repair_without_broker_truth:
  assumes "bk_orders B (w_now w) (w_bk w) = (b1, n1, ps, Inl e)" and "is_broker_error e"
  shows "w_db (fst (reconcile B hooks w)) = fold (\<lambda>bo d. push_update bo (w_now w + int n1) d) ps (w_db w) \<and>
    (case snd (reconcile B hooks w) of Inl e \<Rightarrow> False | Inr items \<Rightarrow> broker_unavailable items \<and> breaks_recorded items = 0)"
  using assms(1)
proof (cases rule: reconcile_cases [where hooks = hooks])
  case (failed w1 e')
  then show ?thesis using assms orders_call [OF assms(1)]
    by (auto simp: broker_unavailable_def breaks_recorded_def)
next
  case (stopped w1 os w2 e')
  then show ?thesis using orders_call [OF assms(1)] by auto
next
  case (repaired w1 os w2 r2)
  then show ?thesis using orders_call [OF assms(1)] by auto
qed

section \<open>The state changes are legal\<close>

definition hooks_keep :: "(db \<Rightarrow> bool) \<Rightarrow> recon_hooks option \<Rightarrow> bool" where
  "hooks_keep I hooks \<longleftrightarrow>
     (case hooks of None \<Rightarrow> True
      | Some h \<Rightarrow> \<forall>pid. keeps I (rh_entry h pid) \<and> keeps I (rh_exit h pid))"

lemma error_edge: "s \<notin> {CLOSED, PS_ERROR} \<Longrightarrow> is_transition_allowed_for_actor s PS_ERROR RECOVERY"
  by (cases s) (simp_all, code_simp+)

lemma abort_edge: "is_transition_allowed_for_actor ENTRY_PENDING CLOSED RECOVERY"
  by code_simp

lemma t_put_put: "t_put (t_put t i r) i q = t_put t i q"
  by (induction t i r rule: t_put.induct) auto

lemma keeps_list_cases [keeps_intro]:
  "(xs = [] \<Longrightarrow> keeps I a) \<Longrightarrow> (\<And>y ys. xs = y # ys \<Longrightarrow> keeps I (b y ys)) \<Longrightarrow>
   keeps I (case xs of [] \<Rightarrow> a | y # ys \<Rightarrow> b y ys)"
  by (cases xs) simp_all

lemma positions_last:
  "d\<lparr>d_transitions := b, d_positions := a\<rparr> = d\<lparr>d_positions := a, d_transitions := b\<rparr>" for d :: db
  by (cases d) simp

lemma move_to_error_run:
  assumes "t_get (d_positions d) pid = Some p"
  shows "move_to_error pid p reason d =
     (d\<lparr>d_positions := t_put (d_positions d) pid
          (p\<lparr>p_error := Some reason, p_recon := True, p_state := PS_ERROR, p_version := p_version p + 1\<rparr>),
        d_transitions := t_add (d_transitions d)
          \<lparr>x_position = pid, x_from = Some (p_state p), x_to = PS_ERROR, x_reason = Some reason,
           x_actor = RECOVERY\<rparr>\<rparr>, Inr ())"
  using assms by (simp add: move_to_error_def sq_def bnd_def upd_position_run modify_def)

context tx_invariant
begin

lemma x_move_to_error:
  assumes I: "I d" and g: "t_get (d_positions d) pid = Some p" and live: "p_state p \<notin> {CLOSED, PS_ERROR}"
  shows "I (fst (move_to_error pid p reason d))"
proof -
  let ?q = "p\<lparr>p_error := Some reason, p_recon := True, p_state := PS_ERROR, p_version := p_version p + 1\<rparr>"
  let ?d1 = "fst (sm_transition pid PS_ERROR RECOVERY (Some reason) d)"
  have d1: "?d1 = d\<lparr>d_positions := t_put (d_positions d) pid (p\<lparr>p_state := PS_ERROR, p_version := p_version p + 1\<rparr>),
        d_transitions := t_add (d_transitions d)
          \<lparr>x_position = pid, x_from = Some (p_state p), x_to = PS_ERROR, x_reason = Some reason,
           x_actor = RECOVERY\<rparr>\<rparr>"
    using live error_edge [OF live] by (simp add: sm_transition_run [OF g] transition_state_run [OF g])
  have "I ?d1" by (rule transition [OF I])
  moreover have "t_get (d_positions ?d1) pid = Some (p\<lparr>p_state := PS_ERROR, p_version := p_version p + 1\<rparr>)"
    using g by (simp add: d1 t_get_put)
  ultimately have "I (?d1\<lparr>d_positions := t_put (d_positions ?d1) pid ?q\<rparr>)"
    by (rule position_update) simp_all
  moreover have "?d1\<lparr>d_positions := t_put (d_positions ?d1) pid ?q\<rparr> = fst (move_to_error pid p reason d)"
    unfolding move_to_error_run [OF g] d1 by (simp add: t_put_put positions_last)
  ultimately show ?thesis by simp
qed

lemma x_freeze: "keeps I (freeze_unless_frozen inst)"
  unfolding freeze_unless_frozen_def by (intro keeps_intro keeps_get_row tx_keeps)

lemma x_error_position:
  assumes "I d" "t_get (d_positions d) pid = Some p" "p_state p \<notin> {CLOSED, PS_ERROR}"
  shows "I (fst (error_position pid p btype reason t d))"
proof -
  have "keeps I (sq (freeze_unless_frozen (p_instance p))
      (bnd (break_create btype t (Some pid) None None) (\<lambda>_. ret (item ''position'' pid POSITION_ERRORED True))))"
    by (intro keeps_intro x_freeze tx_keeps)
  then show ?thesis
    using x_move_to_error [OF assms, of reason]
    by (simp add: error_position_def sq_def bnd_def [of "move_to_error _ _ _"] move_to_error_run [OF assms(2)]
        keeps_def)
qed

lemma x_error_position_of_intent: "keeps I (error_position_of_intent i reason)"
  unfolding keeps_def
proof (intro allI impI)
  fix d assume I: "I d"
  show "I (fst (error_position_of_intent i reason d))"
  proof (cases "t_get (d_trades d) (i_trade i)")
    case None
    then show ?thesis using I by (simp add: error_position_of_intent_def get_row_def act_defs)
  next
    case (Some tr)
    show ?thesis
    proof (cases "t_get (d_positions d) (t_position tr)")
      case None
      then show ?thesis using I Some by (simp add: error_position_of_intent_def get_row_def act_defs)
    next
      case p: (Some p)
      show ?thesis
      proof (cases "p_state p \<in> {CLOSED, PS_ERROR}")
        case True
        then show ?thesis using I Some p
          by (auto simp: error_position_of_intent_def get_row_def act_defs)
      next
        case False
        have eq: "error_position_of_intent i reason d =
            sq (move_to_error (t_position tr) p reason) (freeze_unless_frozen (p_instance p)) d"
          using Some p False by (simp add: error_position_of_intent_def get_row_def asks_def bnd_def)
        show ?thesis
          using x_move_to_error [OF I p False, of reason] x_freeze [of "p_instance p"]
          unfolding eq by (simp add: sq_def bnd_def [of "move_to_error _ _ _"] move_to_error_run [OF p] keeps_def)
      qed
    qed
  qed
qed

lemma x_locate: "keeps I (recon_locate_order iid i bo)"
  unfolding recon_locate_order_def by (intro keeps_intro keeps_order_by_tag tx_keeps)

lemma x_acknowledge: "keeps I (acknowledge_if_new oid bo t)"
  unfolding acknowledge_if_new_def by (intro keeps_intro keeps_get_row_or_raise tx_keeps)

lemma x_apply_fill: "keeps I (recon_apply_fill iid i oid bo t)"
  unfolding recon_apply_fill_def record_fill_rows_def Let_def by (intro keeps_intro keeps_get_row_or_raise tx_keeps)

lemma x_resolve: "keeps I (resolve_intent_against_order iid i bo t)"
  unfolding resolve_intent_against_order_def
  by (intro keeps_intro x_locate x_acknowledge x_apply_fill tx_keeps)

lemma x_intent_body: "keeps I (intent_body iid groups t)"
  unfolding intent_body_def
  by (intro keeps_intro keeps_get_row x_resolve x_error_position_of_intent tx_keeps)

lemma x_orphans: "keeps I (orphans_body groups t)"
  by (induction groups t rule: orphans_body.induct) (auto intro!: keeps_intro tx_keeps)

lemma x_finalize:
  assumes "hooks_keep I hooks"
  shows "keeps I (finalize_entry hooks pid t)" "keeps I (finalize_exit hooks pid t)"
  using assms
  by (auto simp: finalize_entry_def finalize_exit_def needs_finalization_def hooks_keep_def
      intro!: keeps_intro tx_keeps k_upd_position split: option.splits)

lemma x_position_body:
  assumes h: "hooks_keep I hooks"
  shows "keeps I (position_body hooks live pid t)"
  unfolding keeps_def
proof (intro allI impI)
  fix d assume I: "I d"
  show "I (fst (position_body hooks live pid t d))"
  proof (cases "t_get (d_positions d) pid")
    case None
    then show ?thesis using I by (simp add: position_body_def get_row_def act_defs)
  next
    case (Some p)
    let ?trades = "list_trades_for_position pid d"
    have abort: "I (fst (transition_state pid CLOSED RECOVERY (Some abort_reason) d))" if "p_state p = ENTRY_PENDING"
      using transition [OF I, of pid CLOSED RECOVERY "Some abort_reason"] that abort_edge
      by (simp add: sm_transition_run [OF Some])
    have fin: "I (fst (finalize_entry hooks pid t d))" "I (fst (finalize_exit hooks pid t d))"
      using x_finalize [OF h] I by (simp_all add: keeps_def)
    have err: "I (fst (error_position pid p bt reason t d))" if "p_state p \<notin> {CLOSED, PS_ERROR}" for bt reason
      by (rule x_error_position [OF I Some that])
    show ?thesis
    proof (cases "p_state p \<in> {CLOSED, PS_ERROR}")
      case True
      then show ?thesis using I Some by (auto simp: position_body_def get_row_def act_defs)
    next
      case False
      have "I (fst (reconcile_entry_pending hooks pid p ?trades t d))" if "p_state p = ENTRY_PENDING"
        using fin err [OF False] abort [OF that]
        by (auto simp: reconcile_entry_pending_def sq_def bnd_def ret_def transition_state_run [OF Some])
      moreover have "I (fst (reconcile_exit_pending hooks pid p ?trades t d))"
        using fin err [OF False] I by (auto simp: reconcile_exit_pending_def ret_def)
      moreover have "I (fst (reconcile_open pid p ?trades live t d))"
        using err [OF False] I by (auto simp: reconcile_open_def ret_def split: option.split)
      ultimately show ?thesis using Some False
        by (auto simp: position_body_def get_row_def asks_def bnd_def)
    qed
  qed
qed

lemma x_reconcile:
  assumes "hooks_keep I hooks"
  shows "keeps (on_db I) (reconcile B hooks)"
  unfolding reconcile_def reconcile_intents_def reconcile_one_intent_def detect_orphans_def
    reconcile_positions_def reconcile_one_position_def Let_def
  by (intro keeps_intro keeps_world keeps_unit_of_work keeps_asks x_intent_body x_orphans
      x_position_body assms)

end

text \<open>
  Reconciliation changes states without asking the state machine, but only along its legal
  edges: the audit trail of every position stays a legal path that ends in the position's state,
  and a CLOSED position stays CLOSED, under every schedule of the other actors, provided the
  strategy's own finalisation respects both.
\<close>

theorem reconcile_keeps_audit_and_closed:
  assumes "hooks_keep audit_ok hooks" and "hooks_keep (closed pid) hooks"
    and "audit_ok (w_db w)" and "closed pid (w_db w)"
  shows "audit_ok (w_db (fst (reconcile B hooks w))) \<and> closed pid (w_db (fst (reconcile B hooks w)))"
  using audit_inv.x_reconcile [OF assms(1), of B] closed_inv.x_reconcile [OF assms(2), of B] assms(3,4)
  by (simp add: keeps_def on_db_def)

section \<open>Every intent in doubt is settled\<close>

definition in_doubt :: "intent_row \<Rightarrow> bool" where
  "in_doubt i \<longleftrightarrow> i_status i \<in> {IN_PENDING, SUBMITTED_UNCONFIRMED, PLACED}"

text \<open>What may stay in doubt: an order still live at the broker, or several orders under one tag.\<close>

definition awaiting :: "tag_groups \<Rightarrow> intent_row \<Rightarrow> bool" where
  "awaiting groups i \<longleftrightarrow>
     (case map_of groups (i_tag i) of
        None \<Rightarrow> False
      | Some [] \<Rightarrow> False
      | Some [bo] \<Rightarrow> bo_status bo \<in> {OS_PENDING, OS_OPEN}
      | Some (bo1 # bo2 # bos) \<Rightarrow> True)"

definition settled :: "tag_groups \<Rightarrow> nat \<Rightarrow> db \<Rightarrow> bool" where
  "settled groups iid d \<longleftrightarrow>
     t_wf (d_intents d) \<and>
     (case t_get (d_intents d) iid of None \<Rightarrow> True | Some i \<Rightarrow> in_doubt i \<longrightarrow> awaiting groups i)"

definition intents_are :: "intent_row table \<Rightarrow> db \<Rightarrow> bool" where
  "intents_are T d \<longleftrightarrow> d_intents d = T"

lemma intents_indep [simp]:
  "intents_are T (d\<lparr>d_positions := a\<rparr>) = intents_are T d" "intents_are T (d\<lparr>d_trades := b\<rparr>) = intents_are T d"
  "intents_are T (d\<lparr>d_orders := c\<rparr>) = intents_are T d" "intents_are T (d\<lparr>d_transitions := e\<rparr>) = intents_are T d"
  "intents_are T (d\<lparr>d_instances := f\<rparr>) = intents_are T d" "intents_are T (d\<lparr>d_breaks := g\<rparr>) = intents_are T d"
  by (simp_all add: intents_are_def)

lemma same_intents_ops:
  "keeps (intents_are T) (upd_trade i f1)" "keeps (intents_are T) (upd_order i f2)"
  "keeps (intents_are T) (upd_instance i f3)" "keeps (intents_are T) (upd_position i f4)"
  "keeps (intents_are T) (set_status i st)"
  "keeps (intents_are T) (mark_acknowledged i oid tm)" "keeps (intents_are T) (record_fill i os n x tm)"
  "keeps (intents_are T) (record_rejection i m)" "keeps (intents_are T) (order_create ti io pu si ot n tg)"
  "keeps (intents_are T) (break_create bt tm po oo io)"
  "keeps (intents_are T) (modify (\<lambda>d. d\<lparr>d_transitions := h d\<rparr>))"
  unfolding set_status_def mark_acknowledged_def record_fill_def record_rejection_def
  by (simp_all add: keeps_def order_create_def break_create_def upd_defs modify_def split: option.split)

lemmas same_rules = keeps_intro keeps_get_row keeps_get_row_or_raise keeps_order_by_tag same_intents_ops

lemma same_locate: "keeps (intents_are T) (recon_locate_order iid i bo)"
  unfolding recon_locate_order_def by (intro same_rules)

lemma same_acknowledge: "keeps (intents_are T) (acknowledge_if_new oid bo t)"
  unfolding acknowledge_if_new_def by (intro same_rules)

lemma same_errors:
  "keeps (intents_are T) (error_position_of_intent i reason)"
  "keeps (intents_are T) (error_position pid p bt reason t)"
  unfolding error_position_of_intent_def error_position_def move_to_error_def freeze_unless_frozen_def
  by (intro same_rules)+

lemma same_orphans: "keeps (intents_are T) (orphans_body groups t)"
  by (induction groups t rule: orphans_body.induct) (auto intro!: same_rules)

lemma same_transition: "keeps (intents_are T) (transition_state pid st ac reason)"
  unfolding transition_state_def by (intro same_rules)

lemma same_position_body: "hooks_keep (intents_are T) hooks \<Longrightarrow> keeps (intents_are T) (position_body hooks live pid t)"
  unfolding position_body_def reconcile_entry_pending_def reconcile_exit_pending_def reconcile_open_def
    finalize_entry_def finalize_exit_def needs_finalization_def
  by (intro same_rules same_errors same_transition; simp add: hooks_keep_def)

lemma confirm_run:
  assumes "t_get (d_intents d) iid = Some i"
  shows "\<exists>d'. sq (mark_placed iid) (mark_confirmed iid) d = (d', Inr ()) \<and>
    d_intents d' = t_put (d_intents d) iid (i\<lparr>i_status := CONFIRMED, i_version := i_version i + 2\<rparr>)"
proof -
  have "t_get (t_put (d_intents d) iid x) iid = Some x" for x using assms by (simp add: t_get_put)
  then show ?thesis using assms
    by (simp add: mark_placed_def mark_confirmed_def upd_intent_def sq_def bnd_def modify_def t_put_put)
qed

text \<open>The outcome of one intent: its row is untouched, or confirmed, or failed; no other row changes.\<close>

definition settles :: "nat \<Rightarrow> intent_row table \<Rightarrow> db \<Rightarrow> bool" where
  "settles iid T d \<longleftrightarrow> (\<exists>q. i_status q \<in> {CONFIRMED, IN_FAILED} \<and> d_intents d = t_put T iid q)"

lemma hoare_same: "keeps (intents_are T) m \<Longrightarrow> hoare (intents_are T) m (\<lambda>_. intents_are T) (\<lambda>_ _. True)"
  by (drule hoare_of_keeps, erule hoare_post) simp_all

lemma hoare_same_settles:
  "(\<And>T. keeps (intents_are T) m) \<Longrightarrow> hoare (settles iid T) m (\<lambda>_. settles iid T) (\<lambda>_ _. True)"
proof (rule hoareI)
  fix s s' x assume k: "\<And>T. keeps (intents_are T) m" and "settles iid T s" "m s = (s', Inr x)"
  moreover have "intents_are (d_intents s) s'"
    using keepsD [OF k _ \<open>m s = (s', Inr x)\<close>, of "d_intents s"] by (simp add: intents_are_def)
  ultimately show "settles iid T s'" by (simp add: settles_def intents_are_def)
qed simp

lemma hoare_fill:
  assumes "t_get T iid = Some i"
  shows "hoare (intents_are T) (recon_apply_fill iid i oid bo t) (\<lambda>_. settles iid T) (\<lambda>_ _. True)"
proof -
  have "keeps (intents_are T) (record_fill_rows i oid bo t)"
    unfolding record_fill_rows_def Let_def by (intro same_rules)
  moreover have "hoare (intents_are T) (sq (mark_placed iid) (mark_confirmed iid)) (\<lambda>_. settles iid T) (\<lambda>_ _. True)"
    using confirm_run [of _ iid i] assms unfolding hoare_def
    by (force simp: intents_are_def settles_def)
  ultimately show ?thesis unfolding recon_apply_fill_def sq_def [of "record_fill_rows _ _ _ _"]
    by (intro hoare_bnd [OF hoare_same])
qed

lemma hoare_failed:
  assumes "t_get T iid = Some i"
  shows "hoare (intents_are T) (mark_failed iid) (\<lambda>_. settles iid T) (\<lambda>_ _. True)"
  unfolding hoare_def
proof (intro allI impI)
  fix d assume T: "intents_are T d"
  have "settles iid T (fst (mark_failed iid d))"
    unfolding settles_def using assms T
    by (intro exI [of _ "i\<lparr>i_status := IN_FAILED, i_version := i_version i + 1\<rparr>"])
      (simp add: mark_failed_def upd_intent_def modify_def intents_are_def)
  then show "case mark_failed iid d of (s', Inl e) \<Rightarrow> True | (s', Inr x) \<Rightarrow> settles iid T s'"
    by (cases "mark_failed iid d") (simp split: sum.split)
qed

lemma hoare_sq2:
  "hoare P m (\<lambda>_. R) (\<lambda>_ _. True) \<Longrightarrow> hoare R n Q (\<lambda>_ _. True) \<Longrightarrow> hoare P (sq m n) Q (\<lambda>_ _. True)"
  unfolding sq_def by (rule hoare_bnd)

definition outcome_of :: "nat \<Rightarrow> tag_groups \<Rightarrow> intent_row table \<Rightarrow> db \<Rightarrow> bool" where
  "outcome_of iid groups T d \<longleftrightarrow>
     settles iid T d \<or>
     intents_are T d \<and>
       (case t_get T iid of None \<Rightarrow> True | Some i \<Rightarrow> in_doubt i \<longrightarrow> awaiting groups i)"

lemma hoare_settles_ret: "hoare (settles iid T) (ret x) (\<lambda>_. outcome_of iid groups T) (\<lambda>_ _. True)"
  by (rule hoare_ret') (simp add: outcome_of_def)

lemma hoare_break_ret:
  "hoare (settles iid T) (bnd (break_create bt t po oo io) (\<lambda>_. ret x)) (\<lambda>_. outcome_of iid groups T) (\<lambda>_ _. True)"
  by (rule hoare_bnd [OF hoare_same_settles hoare_settles_ret]) (rule same_intents_ops)

lemma hoare_resolve:
  assumes g: "t_get T iid = Some i" and m: "map_of groups (i_tag i) = Some [bo]"
  shows "hoare (intents_are T) (resolve_intent_against_order iid i bo t)
    (\<lambda>_. outcome_of iid groups T) (\<lambda>_ _. True)"
proof -
  have fill: "hoare (intents_are T) (sq (recon_apply_fill iid i oid bo t) n) Q (\<lambda>_ _. True)"
    if "hoare (settles iid T) n Q (\<lambda>_ _. True)" for oid n and Q :: "recon_item \<Rightarrow> db \<Rightarrow> bool"
    using hoare_sq2 [OF hoare_fill [OF g] that] .
  have live: "hoare (intents_are T) (ret x) (\<lambda>_. outcome_of iid groups T) (\<lambda>_ _. True)"
    if "bo_status bo \<notin> {COMPLETE, REJECTED, OS_CANCELLED, OS_ERROR}" for x :: recon_item
    using that g m by (intro hoare_ret') (cases "bo_status bo"; simp add: outcome_of_def awaiting_def)
  have rejected: "hoare (intents_are T) (sq (record_rejection oid msg) (sq (mark_failed iid) (ret x)))
      (\<lambda>_. outcome_of iid groups T) (\<lambda>_ _. True)" for oid msg and x :: recon_item
    by (rule hoare_sq2 [OF hoare_same hoare_sq2 [OF hoare_failed [OF g] hoare_settles_ret]])
      (rule same_intents_ops)
  show ?thesis
    unfolding resolve_intent_against_order_def
    by (intro hoare_bnd [OF hoare_same [OF same_locate]], simp only: split_paired_all prod.case)
      (intro hoare_sq2 [OF hoare_same [OF same_acknowledge]] hoare_if fill hoare_break_ret
        hoare_settles_ret rejected; rule live; simp)
qed

lemma intent_body_outcome:
  assumes "intent_body iid groups t d = (d', Inr x)"
  shows "outcome_of iid groups (d_intents d) d'"
proof -
  let ?T = "d_intents d"
  have T: "intents_are ?T d" by (simp add: intents_are_def)
  have quiet: "hoare (intents_are ?T) (ret y) (\<lambda>_. outcome_of iid groups ?T) (\<lambda>_ _. True)"
    if "case t_get ?T iid of None \<Rightarrow> True | Some i \<Rightarrow> in_doubt i \<longrightarrow> awaiting groups i" for y :: recon_item
    using that by (intro hoare_ret') (simp add: outcome_of_def)
  have "hoare (intents_are ?T) (intent_body iid groups t) (\<lambda>_. outcome_of iid groups ?T) (\<lambda>_ _. True)"
  proof -
    have "hoare (intents_are ?T)
       (case r of
          None \<Rightarrow> ret (item ''intent'' iid CONSISTENT_NO_ACTION False)
        | Some i \<Rightarrow>
            if i_status i \<notin> {IN_PENDING, SUBMITTED_UNCONFIRMED, PLACED}
            then ret (item ''intent'' iid CONSISTENT_NO_ACTION False)
            else
              (case map_of groups (i_tag i) of
                 None \<Rightarrow> sq (mark_failed iid) (ret (item ''intent'' iid INTENT_FAILED_NOT_AT_BROKER False))
               | Some [] \<Rightarrow> sq (mark_failed iid) (ret (item ''intent'' iid INTENT_FAILED_NOT_AT_BROKER False))
               | Some [bo] \<Rightarrow> resolve_intent_against_order iid i bo t
               | Some (bo1 # bo2 # bos) \<Rightarrow>
                   bnd (break_create QUANTITY_MISMATCH t None None (Some iid)) (\<lambda>_.
                   sq (error_position_of_intent i ''duplicate broker orders under one tag'')
                     (ret (item ''intent'' iid DUPLICATE_ORDERS_DETECTED True)))))
       (\<lambda>_. outcome_of iid groups ?T) (\<lambda>_ _. True)" if r: "r = t_get ?T iid" for r
    proof (cases r)
      case None
      then show ?thesis using r quiet by simp
    next
      case (Some i)
      then have g: "t_get ?T iid = Some i" using r by simp
      show ?thesis
      proof (cases "i_status i \<in> {IN_PENDING, SUBMITTED_UNCONFIRMED, PLACED}")
        case False
        then have "hoare (intents_are ?T) (ret (item ''intent'' iid CONSISTENT_NO_ACTION False))
            (\<lambda>_. outcome_of iid groups ?T) (\<lambda>_ _. True)"
          by (intro quiet) (simp add: g in_doubt_def)
        then show ?thesis using Some False by simp
      next
        case True
        have fail: "hoare (intents_are ?T) (sq (mark_failed iid) (ret y)) (\<lambda>_. outcome_of iid groups ?T) (\<lambda>_ _. True)"
          for y :: recon_item
          by (rule hoare_sq2 [OF hoare_failed [OF g] hoare_settles_ret])
        consider "map_of groups (i_tag i) = None" | "map_of groups (i_tag i) = Some []"
          | bo where "map_of groups (i_tag i) = Some [bo]"
          | b1 b2 bos where "map_of groups (i_tag i) = Some (b1 # b2 # bos)"
          by (metis list.exhaust not_None_eq)
        then show ?thesis
        proof cases
          case (3 bo)
          then show ?thesis using True Some hoare_resolve [OF g 3] by simp
        next
          case (4 b1 b2 bos)
          have "hoare (intents_are ?T) (ret y) (\<lambda>_. outcome_of iid groups ?T) (\<lambda>_ _. True)" for y :: recon_item
            using 4 by (intro quiet) (simp add: g awaiting_def)
          then have "hoare (intents_are ?T) (bnd (break_create QUANTITY_MISMATCH t None None (Some iid)) (\<lambda>_.
                   sq (error_position_of_intent i ''duplicate broker orders under one tag'')
                     (ret (item ''intent'' iid DUPLICATE_ORDERS_DETECTED True))))
              (\<lambda>_. outcome_of iid groups ?T) (\<lambda>_ _. True)"
            by (intro hoare_bnd [OF hoare_same] hoare_sq2 [OF hoare_same] same_errors same_intents_ops)
          then show ?thesis using True Some 4 by simp
        qed (use True Some fail in simp_all)
      qed
    qed
    note cases = this
    show ?thesis
      unfolding hoare_def
    proof (intro allI impI)
      fix d0 assume "intents_are ?T d0"
      then show "case intent_body iid groups t d0 of (s', Inl e) \<Rightarrow> True
          | (s', Inr x) \<Rightarrow> outcome_of iid groups ?T s'"
        using hoare_run [OF cases [OF refl] \<open>intents_are ?T d0\<close>]
        unfolding intent_body_def get_row_def asks_def bnd_def [of "\<lambda>s. (s, _ s)"]
        by (simp add: intents_are_def)
    qed
  qed
  from hoareD1 [OF this T assms] show ?thesis .
qed

lemma settled_outcome:
  assumes "outcome_of iid groups T d'" and "t_wf T"
    and "settled groups j d \<or> j = iid" and "d_intents d = T"
  shows "settled groups j d'"
proof (cases "settles iid T d'")
  case True
  then obtain q where q: "i_status q \<in> {CONFIRMED, IN_FAILED}" "d_intents d' = t_put T iid q"
    by (auto simp: settles_def)
  have wf: "t_wf (d_intents d')" using assms(2) q(2) by (simp add: t_wf_put)
  show ?thesis
  proof (cases "j = iid")
    case True
    have "\<not> in_doubt q" using q(1) by (auto simp: in_doubt_def)
    then show ?thesis using wf q True
      by (cases "t_get T iid") (simp_all add: settled_def t_get_put)
  next
    case False
    then show ?thesis using wf q assms(3,4) by (auto simp: settled_def t_get_put)
  qed
next
  case False
  then have "d_intents d' = T" "case t_get T iid of None \<Rightarrow> True | Some i \<Rightarrow> in_doubt i \<longrightarrow> awaiting groups i"
    using assms(1) by (simp_all add: outcome_of_def intents_are_def)
  then show ?thesis using assms(2-4) by (auto simp: settled_def)
qed

lemma quiet_uow_run: "w_env w = [] \<Longrightarrow> unit_of_work body w =
    (case body (w_db w) of
       (d, Inl e) \<Rightarrow> (w, Inl e)
     | (d, Inr x) \<Rightarrow> if db_constraints d then (w\<lparr>w_db := d\<rparr>, Inr x) else (w, Inl IntegrityError))"
  by (simp add: unit_of_work_def commit_def)

lemma one_intent_run:
  assumes "reconcile_one_intent groups iid w = (w', Inr x)" "w_env w = []" "t_wf (d_intents (w_db w))"
  shows "w_env w' = [] \<and> t_wf (d_intents (w_db w')) \<and> settled groups iid (w_db w') \<and>
    (settled groups j (w_db w) \<longrightarrow> settled groups j (w_db w'))"
proof -
  have body: "intent_body iid groups (w_now w) (w_db w) = (w_db w', Inr x)" and env: "w_env w' = []"
    using assms(1,2)
    by (auto simp: reconcile_one_intent_def now_def asks_def bnd_def quiet_uow_run
        split: prod.splits sum.splits if_splits)
  note out = settled_outcome [OF intent_body_outcome [OF body] assms(3)]
  have "settled groups iid (w_db w')" by (rule out [of iid]) simp_all
  then show ?thesis using env out [of j "w_db w"] by (auto simp: settled_def)
qed

lemma all_intents_run:
  "map_act (reconcile_one_intent groups) ids w = (w', Inr xs) \<Longrightarrow> w_env w = [] \<Longrightarrow> t_wf (d_intents (w_db w)) \<Longrightarrow>
   (\<And>j. settled groups j (w_db w) \<or> j \<in> set ids) \<Longrightarrow> w_env w' = [] \<and> (\<forall>j. settled groups j (w_db w'))"
proof (induction ids arbitrary: w w' xs)
  case Nil
  then show ?case by (auto simp: ret_def)
next
  case (Cons iid ids)
  from Cons.prems(1) obtain w1 x ys where
    one: "reconcile_one_intent groups iid w = (w1, Inr x)"
    and rest: "map_act (reconcile_one_intent groups) ids w1 = (w', Inr ys)"
    by (auto simp: ret_def elim!: bnd_Inr_elim)
  have "settled groups j (w_db w1) \<or> j \<in> set ids" for j
    using one_intent_run [OF one Cons.prems(2,3), of j] Cons.prems(4) [of j] by auto
  then show ?case
    using Cons.IH [OF rest] one_intent_run [OF one Cons.prems(2,3)] by blast
qed

lemma reconcile_intents_run:
  assumes "reconcile_intents groups w = (w', Inr xs)" "w_env w = []" "t_wf (d_intents (w_db w))"
  shows "w_env w' = [] \<and> (\<forall>j. settled groups j (w_db w'))"
proof -
  obtain w1 ids where scan: "unit_of_work (asks (\<lambda>d. map fst (list_in_doubt d))) w = (w1, Inr ids)"
    and all: "map_act (reconcile_one_intent groups) ids w1 = (w', Inr xs)"
    using assms(1) unfolding reconcile_intents_def by (rule bnd_Inr_elim)
  have w1: "w1 = w" "ids = map fst (list_in_doubt (w_db w))"
    using scan assms(2) by (auto simp: quiet_uow_run asks_def split: if_splits)
  have "settled groups j (w_db w) \<or> j \<in> set ids" for j
  proof (cases "t_get (d_intents (w_db w)) j")
    case (Some i)
    then show ?thesis
      using assms(3) t_get_Some_mem [OF Some]
      by (cases "in_doubt i") (force simp: w1 settled_def list_in_doubt_def t_select_def in_doubt_def)+
  qed (simp add: settled_def assms(3))
  then show ?thesis using all_intents_run [OF all [unfolded w1(1)] assms(2,3)] by blast
qed

lemma uow_intents:
  assumes "\<And>T. keeps (intents_are T) body" "unit_of_work body w = (w', Inr x)" "w_env w = []"
  shows "d_intents (w_db w') = d_intents (w_db w) \<and> w_env w' = []"
proof -
  have "body (w_db w) = (w_db w', Inr x)" "w_env w' = []"
    using assms(2,3) by (auto simp: quiet_uow_run split: prod.splits sum.splits if_splits)
  then show ?thesis using keepsD [OF assms(1), of "d_intents (w_db w)" "w_db w"] by (auto simp: intents_are_def)
qed

definition only_updates_positions :: "recon_hooks option \<Rightarrow> bool" where
  "only_updates_positions hooks \<longleftrightarrow> (\<forall>T. hooks_keep (intents_are T) hooks)"

lemma positions_intents:
  assumes "only_updates_positions hooks"
    and "map_act (reconcile_one_position hooks live) ids w = (w', Inr xs)" "w_env w = []"
  shows "d_intents (w_db w') = d_intents (w_db w)"
  using assms(2,3)
proof (induction ids arbitrary: w xs)
  case (Cons pid ids)
  from Cons.prems(1) obtain w1 x ys where
    one: "reconcile_one_position hooks live pid w = (w1, Inr x)"
    and rest: "map_act (reconcile_one_position hooks live) ids w1 = (w', Inr ys)"
    by (auto simp: ret_def elim!: bnd_Inr_elim)
  have "unit_of_work (position_body hooks live pid (w_now w)) w = (w1, Inr x)"
    using one by (simp add: reconcile_one_position_def now_def asks_def bnd_def)
  from uow_intents [OF same_position_body this Cons.prems(2)] assms(1)
  have "d_intents (w_db w1) = d_intents (w_db w)" "w_env w1 = []"
    by (simp_all add: only_updates_positions_def)
  then show ?case using Cons.IH [OF rest] by simp
qed (simp add: ret_def)

lemma repairs_intents:
  assumes "repairs hooks groups positions w = (w', Inr items)" "w_env w = []" "t_wf (d_intents (w_db w))"
    and "only_updates_positions hooks"
  shows "\<forall>j. settled groups j (w_db w')"
proof -
  obtain w1 a w2 b c where 1: "reconcile_intents groups w = (w1, Inr a)"
    and 2: "detect_orphans groups w1 = (w2, Inr b)"
    and 3: "reconcile_positions hooks positions w2 = (w', Inr c)"
    using assms(1) unfolding repairs_def by (auto simp: ret_def elim!: bnd_Inr_elim)
  note s1 = reconcile_intents_run [OF 1 assms(2,3)]
  have "unit_of_work (orphans_body groups (w_now w1)) w1 = (w2, Inr b)"
    using 2 by (simp add: detect_orphans_def now_def asks_def bnd_def)
  from uow_intents [OF same_orphans this] s1
  have s2: "d_intents (w_db w2) = d_intents (w_db w1)" "w_env w2 = []" by simp_all
  obtain w3 ids live where scan: "unit_of_work (asks (\<lambda>d. map fst (filter (\<lambda>(i, p). p_state p \<noteq> PS_ERROR) (list_non_terminal d)))) w2 = (w3, Inr ids)"
    and all: "map_act (reconcile_one_position hooks live) ids w3 = (w', Inr c)"
    using 3 unfolding reconcile_positions_def by (auto elim!: bnd_Inr_elim)
  have s3: "d_intents (w_db w3) = d_intents (w_db w2)" "w_env w3 = []"
    using uow_intents [OF keeps_asks scan s2(2)] by simp_all
  have "d_intents (w_db w') = d_intents (w_db w1)"
    using positions_intents [OF assms(4) all s3(2)] s2 s3 by simp
  then show ?thesis using s1 by (simp add: settled_def)
qed

text \<open>
  C20: a reconciliation run that reads the order book and completes settles every intent in doubt:
  what stays in doubt is only an intent whose single order is still live at the broker, or one
  whose tag several orders carry (which is flagged); every other one is CONFIRMED or FAILED.
\<close>

theorem reconcile_settles_intents:
  assumes "bcall (bk_orders B) w = (w1, Inr os)" and "reconcile B hooks w = (w', Inr items)"
    and "w_env w = []" and "t_wf (d_intents (w_db w))" and "only_updates_positions hooks"
  shows "list_all (\<lambda>(iid, i). awaiting (group_orders_by_tag os) i) (list_in_doubt (w_db w'))"
proof -
  have frame: "d_intents (w_db v') = d_intents (w_db v) \<and> w_env v' = w_env v"
    if "bcall f v = (v', r)" for f :: "('a, 'c) broker_call" and v v' r
  proof -
    have "keeps (on_db (intents_are (d_intents (w_db v)))) (bcall f)"
    proof -
      have "intents_are T (fold (\<lambda>bo d. push_update bo tm d) bos d) = intents_are T d" for T bos tm d
        by (induction bos arbitrary: d) (simp_all add: intents_are_def)
      then show ?thesis by (auto simp: keeps_def on_db_def bcall_def Let_def split: prod.split)
    qed
    from keepsD [OF this _ that] have "d_intents (w_db v') = d_intents (w_db v)"
      by (simp add: on_db_def intents_are_def)
    moreover have "w_env v' = w_env v" using that by (auto simp: bcall_def Let_def split: prod.splits)
    ultimately show ?thesis ..
  qed
  obtain b1 n1 ps1 r1 where call: "bk_orders B (w_now w) (w_bk w) = (b1, n1, ps1, r1)" by (metis prod_cases4)
  from call have "\<forall>j. settled (group_orders_by_tag os) j (w_db w')"
  proof (cases rule: reconcile_cases [where hooks = hooks])
    case (repaired v os' w2 r2)
    have eq: "v = w1" "os' = os" using repaired(1) assms(1) by simp_all
    have env: "w_env w2 = []" "d_intents (w_db w2) = d_intents (w_db w)"
      using frame [OF assms(1)] frame [OF repaired(2)] assms(3) by (simp_all add: eq)
    have run: "repairs hooks (group_orders_by_tag os)
        (case r2 of Inl e \<Rightarrow> None | Inr ps \<Rightarrow> Some ps) w2 = (w', Inr items)"
      using repaired(3) assms(2) eq by simp
    have "t_wf (d_intents (w_db w2))" using assms(4) env(2) by simp
    from repairs_intents [OF run env(1) this assms(5)] show ?thesis .
  qed (use assms(1,2) in auto)
  then have fin: "awaiting (group_orders_by_tag os) i"
    if "t_get (d_intents (w_db w')) iid = Some i" "in_doubt i" and "t_wf (d_intents (w_db w'))" for iid i
    using that by (auto simp: settled_def dest!: spec [of _ iid])
  have "t_wf (d_intents (w_db w'))"
    using \<open>\<forall>j. settled (group_orders_by_tag os) j (w_db w')\<close> by (auto simp: settled_def)
  then show ?thesis
    using fin by (auto simp: list_all_iff list_in_doubt_def t_select_def in_doubt_def dest!: t_get_mem)
qed

text \<open>
  Repairing an intent is idempotent: once an intent without a live or duplicated order has
  been resolved, a second pass leaves the database as it is and reports that there is nothing to
  do, whatever the order book then says.
\<close>

theorem resolved_intent_is_left_alone:
  assumes "intent_body iid groups t d = (d', Inr x)" and "t_get (d_intents d) iid = Some i"
    and "\<not> awaiting groups i" and "t_wf (d_intents d)"
  shows "intent_body iid groups' t' d' = (d', Inr (item ''intent'' iid CONSISTENT_NO_ACTION False))"
proof -
  have out: "outcome_of iid groups (d_intents d) d'" by (rule intent_body_outcome [OF assms(1)])
  have "\<exists>q. t_get (d_intents d') iid = Some q \<and> \<not> in_doubt q"
  proof (cases "settles iid (d_intents d) d'")
    case True
    then show ?thesis using assms(2) by (auto simp: settles_def t_get_put in_doubt_def)
  next
    case False
    then show ?thesis using out assms(2,3) by (auto simp: outcome_of_def intents_are_def)
  qed
  then show ?thesis by (auto simp: intent_body_def get_row_def asks_def bnd_def in_doubt_def ret_def)
qed

text \<open>
  Not everything is: an order under an unknown tag is recorded as a new break by every run.
\<close>

lemma orphans_recorded_again:
  "orphans_body groups t d = (d', Inr items) \<Longrightarrow> d_intents e = d_intents d \<Longrightarrow>
   \<exists>e'. orphans_body groups t' e = (e', Inr items) \<and> d_intents e' = d_intents e \<and>
     length (d_breaks e') = length (d_breaks e) + length items"
proof (induction groups t arbitrary: d d' e items rule: orphans_body.induct)
  case (1 t)
  then show ?case by (auto simp: ret_def)
next
  case (2 tag os gs t)
  show ?case
  proof (cases "intent_by_tag tag d")
    case None
    let ?row = "\<lambda>tm. \<lparr>b_position = None, b_order = None, b_intent = None, b_type = ORPHAN_FILL,
       b_detected_at = tm, b_resolution = RS_PENDING, b_notes = None, b_resolved_at = None,
       b_resolved_by = None, b_version = 1\<rparr>"
    let ?d1 = "d\<lparr>d_breaks := t_add (d_breaks d) (?row t)\<rparr>" and ?e1 = "e\<lparr>d_breaks := t_add (d_breaks e) (?row t')\<rparr>"
    obtain items' where rest: "orphans_body gs t ?d1 = (d', Inr items')"
      and items: "items = \<lparr>ri_subject = ''broker_tag:'' @ tag, ri_outcome = ORPHAN_ORDER_DETECTED, ri_break = True\<rparr> # items'"
      using 2(3) None
      by (auto simp: asks_def break_create_def bnd_def ret_def split: prod.splits sum.splits)
    have "d_intents ?e1 = d_intents ?d1" using 2(4) by simp
    from "2.IH" (2) [OF _ rest this] None obtain e' where
      e': "orphans_body gs t' ?e1 = (e', Inr items')" "d_intents e' = d_intents e"
        "length (d_breaks e') = length (d_breaks ?e1) + length items'"
      by auto
    have "intent_by_tag tag e = None" using None 2(4) by (simp add: intent_by_tag_def)
    then show ?thesis using e' items
      by (simp add: asks_def break_create_def bnd_def ret_def t_add_def)
  next
    case (Some x)
    have skip: "orphans_body ((tag, os) # gs) tm f = orphans_body gs tm f" if "d_intents f = d_intents d" for tm f
      using Some that by (simp add: asks_def bnd_def intent_by_tag_def)
    show ?thesis
      using "2.IH"(1) [OF _ 2(3) [unfolded skip [OF refl]] 2(4)] Some unfolding skip [OF 2(4)] by auto
  qed
qed

section \<open>Concrete runs\<close>

definition recon_order :: "string \<Rightarrow> order_status \<Rightarrow> int \<Rightarrow> broker_order" where
  "recon_order tag st filled =
     \<lparr>bo_id = ''B1'', bo_tag = Some tag, bo_status = st, bo_exchange = NFO, bo_symbol = ''X'',
      bo_side = BUY, bo_product = INTRADAY, bo_order_type = MARKET, bo_quantity = 75,
      bo_filled = filled, bo_avg_price = (if filled = 0 then None else Some 70), bo_trigger = None,
      bo_placed_at = Some 800, bo_filled_at = Some 900, bo_updated_at = Some 900, bo_message = None\<rparr>"

text \<open>A broker that answers every read from a fixed order book, or not at all.\<close>

definition read_broker :: "exn + broker_order list \<Rightarrow> nat broker" where
  "read_broker orders =
     \<lparr>bk_place = (\<lambda>req t b. (b, 0, [], Inl RuntimeError)), bk_get = (\<lambda>oid t b. (b, 0, [], Inl RuntimeError)),
      bk_find_tag = (\<lambda>tag t b. (b, 0, [], Inl RuntimeError)), bk_orders = (\<lambda>t b. (b, 5, [], orders)),
      bk_positions = (\<lambda>t b. (b, 5, [], Inl (BrokerTimeoutError ''slow''))),
      bk_margins = (\<lambda>t b. (b, 0, [], Inl RuntimeError)), bk_health = (\<lambda>t b. (b, 0, [], Inl RuntimeError)),
      bk_ltp = (\<lambda>is t b. (b, 0, [], Inl RuntimeError)),
      bk_contract = (\<lambda>u x st ot ex t b. (b, 0, [], Inl RuntimeError)), bk_authenticated = (\<lambda>b. True)\<rparr>"

definition recon_world :: "db \<Rightarrow> nat world" where
  "recon_world d = \<lparr>w_db = d, w_bk = 0, w_now = 1000, w_env = [], w_exit_lock = False\<rparr>"

definition recon_demo_db :: db where
  "recon_demo_db =
     (demo_exit_db EXIT_PENDING demo_exit_intents)\<lparr>
       d_positions := [(1, demo_position\<lparr>p_state := EXIT_PENDING\<rparr>),
         (2, demo_position\<lparr>p_instance := 2, p_state := CLOSED\<rparr>)],
       d_transitions :=
       [(1, \<lparr>x_position = 1, x_from = Some ENTRY_PENDING, x_to = OPEN, x_reason = None, x_actor = STRATEGY\<rparr>),
        (2, \<lparr>x_position = 1, x_from = Some OPEN, x_to = EXIT_PENDING,
             x_reason = Some ''exit triggered: TARGET'', x_actor = STRATEGY\<rparr>),
        (3, \<lparr>x_position = 2, x_from = Some ENTRY_PENDING, x_to = CLOSED, x_reason = None, x_actor = RECOVERY\<rparr>)]\<rparr>"

definition recon_book :: "broker_order list" where
  "recon_book = [recon_order ''X1-700101-CE'' COMPLETE 75]"

theorem no_repair_witness:
  "w_db (fst (reconcile (read_broker (Inl (BrokerConnectionError ''down''))) None (recon_world recon_demo_db))) =
     recon_demo_db \<and>
   (case snd (reconcile (read_broker (Inl (BrokerConnectionError ''down''))) None (recon_world recon_demo_db)) of
      Inl e \<Rightarrow> False | Inr items \<Rightarrow> broker_unavailable items \<and> breaks_recorded items = 0)"
  using no_repair_without_broker_truth [of "read_broker (Inl (BrokerConnectionError ''down''))"
      "recon_world recon_demo_db" 0 5 "[]" "BrokerConnectionError ''down''" None]
  by (simp add: read_broker_def is_broker_error_def recon_world_def)

lemma demo_recon_run:
  "snd (reconcile (read_broker (Inr recon_book)) None (recon_world recon_demo_db)) =
     Inr [item ''intent'' 1 FILL_RECORDED False, item ''intent'' 2 INTENT_FAILED_NOT_AT_BROKER False,
          item ''position'' 1 NEEDS_FINALIZATION_NO_RECONCILER True]"
  by code_simp

lemma demo_recon_start: "audit_ok recon_demo_db" "closed 2 recon_demo_db" "t_wf (d_intents recon_demo_db)"
  unfolding closed_def t_wf_def by code_simp+

lemma no_hooks: "hooks_keep I None" "only_updates_positions None"
  by (simp_all add: hooks_keep_def only_updates_positions_def)

theorem recon_audit_witness:
  "audit_ok (w_db (fst (reconcile (read_broker (Inr recon_book)) None (recon_world recon_demo_db)))) \<and>
   closed 2 (w_db (fst (reconcile (read_broker (Inr recon_book)) None (recon_world recon_demo_db))))"
  by (rule reconcile_keeps_audit_and_closed) (simp_all add: no_hooks recon_world_def demo_recon_start)

theorem recon_settles_witness:
  "case reconcile (read_broker (Inr recon_book)) None (recon_world recon_demo_db) of
     (w', Inl e) \<Rightarrow> False
   | (w', Inr items) \<Rightarrow> list_all (\<lambda>(iid, i). awaiting (group_orders_by_tag recon_book) i) (list_in_doubt (w_db w'))"
proof -
  obtain w' items where run: "reconcile (read_broker (Inr recon_book)) None (recon_world recon_demo_db) = (w', Inr items)"
    using demo_recon_run by (metis prod.collapse)
  obtain w1 where "bcall (bk_orders (read_broker (Inr recon_book))) (recon_world recon_demo_db) = (w1, Inr recon_book)"
    by (simp add: bcall_def read_broker_def)
  from reconcile_settles_intents [OF this run _ _ no_hooks(2)]
  have "list_all (\<lambda>(iid, i). awaiting (group_orders_by_tag recon_book) i) (list_in_doubt (w_db w'))"
    by (simp add: recon_world_def demo_recon_start)
  then show ?thesis unfolding run by simp
qed

theorem recon_idempotent_witness:
  "case intent_body 1 (group_orders_by_tag recon_book) 1000 recon_demo_db of
     (d', Inl e) \<Rightarrow> False
   | (d', Inr x) \<Rightarrow> intent_body 1 [] 2000 d' = (d', Inr (item ''intent'' 1 CONSISTENT_NO_ACTION False))"
proof -
  have "snd (intent_body 1 (group_orders_by_tag recon_book) 1000 recon_demo_db) = Inr (item ''intent'' 1 FILL_RECORDED False)"
    by code_simp
  then obtain d' where run: "intent_body 1 (group_orders_by_tag recon_book) 1000 recon_demo_db =
      (d', Inr (item ''intent'' 1 FILL_RECORDED False))"
    by (metis prod.collapse)
  have i: "t_get (d_intents recon_demo_db) 1 = Some (demo_exit_intent 1 ''1:1970-01-01:CE:EXIT'' ''X1-700101-CE'' None)"
    by (simp add: recon_demo_db_def demo_exit_db_def demo_exit_intents_def)
  have "\<not> awaiting (group_orders_by_tag recon_book) (demo_exit_intent 1 ''1:1970-01-01:CE:EXIT'' ''X1-700101-CE'' None)"
    by code_simp
  from resolved_intent_is_left_alone [OF run i this demo_recon_start(3), of "[]" 2000] show ?thesis
    by (simp add: run del: One_nat_def)
qed

end
