(* ===== verification/Rate_Limiter.thy ===== *)
theory Rate_Limiter
  imports Sim_Broker
begin

text \<open>
  \<open>brokers/rate_limiter.py\<close>: the sliding-window limiter of one category and the decorator that
  throttles every broker call. Monotonic time is counted in integer microseconds. One pass over the
  locked section is \<open>try_acquire\<close>; the blocking loop is \<open>acquire\<close>, which sleeps until the oldest
  call leaves the window. What happens while it sleeps - by how much it oversleeps, and which other
  threads take a slot meanwhile - is a schedule of naps; with no nap left it wakes on time and
  alone. Several threads at once are the step relation of theory \<open>Rate_Proofs\<close>.
\<close>

section \<open>One category\<close>

datatype rate_category =
  ORDER_MUTATION | ORDER_READ | PORTFOLIO_READ | MARKET_DATA | INSTRUMENT_LOOKUP | GENERAL

record rate_rule =
  rl_max_calls :: int
  rl_per :: int

definition mk_rate_rule :: "int \<Rightarrow> int \<Rightarrow> exn + rate_rule" where
  "mk_rate_rule max_calls per =
     (if 0 < max_calls \<and> 0 < per then Inr \<lparr>rl_max_calls = max_calls, rl_per = per\<rparr> else Inl ValueError)"

record bucket =
  bu_rule :: rate_rule
  bu_calls :: "int list"

definition new_bucket :: "rate_rule \<Rightarrow> bucket" where
  "new_bucket rule = \<lparr>bu_rule = rule, bu_calls = []\<rparr>"

datatype attempt = Granted | WaitUntil int | Refused exn

definition prune :: "int \<Rightarrow> bucket \<Rightarrow> int list" where
  "prune t b = filter (\<lambda>c. t - rl_per (bu_rule b) < c) (bu_calls b)"

definition rate_error :: exn where
  "rate_error = BrokerRateLimitExceededError ''Rate limit exceeded''"

text \<open>
  The locked section. The oldest call is read as \<open>self._calls[0]\<close>, which an empty list would
  answer with an IndexError; the validated rule rules that out.
\<close>

definition try_acquire :: "int option \<Rightarrow> int \<Rightarrow> bucket \<Rightarrow> bucket \<times> attempt" where
  "try_acquire deadline t b =
     (let calls = prune t b
      in if int (length calls) < rl_max_calls (bu_rule b)
         then (b\<lparr>bu_calls := calls @ [t]\<rparr>, Granted)
         else (b\<lparr>bu_calls := calls\<rparr>,
               case calls of
                 [] \<Rightarrow> Refused LookupError
               | c # cs \<Rightarrow>
                   (let wake = c + rl_per (bu_rule b)
                    in if (case deadline of None \<Rightarrow> False | Some d \<Rightarrow> wake > d)
                       then Refused rate_error else WaitUntil wake)))"

section \<open>Blocking\<close>

record nap =
  nap_over :: nat
  nap_others :: "nat list"

text \<open>The attempts of other threads, each a little later than the one before.\<close>

fun others_try :: "nat list \<Rightarrow> int \<Rightarrow> bucket \<Rightarrow> bucket" where
  "others_try [] t b = b"
| "others_try (n # ns) t b = others_try ns (t + int n) (fst (try_acquire None (t + int n) b))"

function acquire :: "int option \<Rightarrow> nap list \<Rightarrow> int \<Rightarrow> bucket \<Rightarrow> bucket \<times> int \<times> nap list \<times> (exn + unit)" where
  "acquire deadline naps t b =
     (case try_acquire deadline t b of
        (b1, Granted) \<Rightarrow> (b1, t, naps, Inr ())
      | (b1, Refused e) \<Rightarrow> (b1, t, naps, Inl e)
      | (b1, WaitUntil wake) \<Rightarrow>
          (case naps of
             [] \<Rightarrow> acquire deadline [] (max t wake) b1
           | n # ns \<Rightarrow>
               (let awake = max t wake + int (sum_list (nap_others n)) + int (nap_over n)
                in acquire deadline ns awake (others_try (nap_others n) t b1))))"
  by pat_completeness auto

lemma try_wait:
  assumes "try_acquire deadline t b = (b1, WaitUntil wake)"
  shows "bu_calls b1 = prune t b" "bu_rule b1 = bu_rule b" "prune t b \<noteq> []"
    "wake = hd (prune t b) + rl_per (bu_rule b)" "t < wake"
proof -
  have calls: "b1 = b\<lparr>bu_calls := prune t b\<rparr>" "prune t b \<noteq> []" "wake = hd (prune t b) + rl_per (bu_rule b)"
    using assms by (auto simp: try_acquire_def Let_def split: if_splits list.splits option.splits)
  then show "bu_calls b1 = prune t b" "bu_rule b1 = bu_rule b" "prune t b \<noteq> []"
    "wake = hd (prune t b) + rl_per (bu_rule b)" by simp_all
  have "hd (prune t b) \<in> set (prune t b)" using calls(2) by (rule hd_in_set)
  then show "t < wake" by (auto simp: calls(3) prune_def)
qed

text \<open>Waking on time, the oldest call has left the window, so the window has shrunk.\<close>

lemma wake_shrinks:
  assumes "try_acquire deadline t b = (b1, WaitUntil wake)"
  shows "length (prune (max t wake) b1) < length (prune t b)"
proof -
  note w = try_wait [OF assms]
  obtain c cs where calls: "prune t b = c # cs" using w(3) by (cases "prune t b") simp_all
  have "bu_calls b1 = c # cs" using w(1) calls by simp
  then have "prune (max t wake) b1 = filter (\<lambda>x. max t wake - rl_per (bu_rule b) < x) (c # cs)"
    by (simp add: prune_def w(2))
  also have "\<dots> = filter (\<lambda>x. max t wake - rl_per (bu_rule b) < x) cs"
    using w(4,5) by (simp add: calls)
  finally show ?thesis by (simp add: calls le_imp_less_Suc)
qed

termination acquire
proof (relation "measures [\<lambda>(d, naps, t, b). length naps, \<lambda>(d, naps, t, b). length (prune t b)]")
  fix deadline :: "int option" and naps :: "nap list" and t b b1 a wake
  assume "(b1, a) = try_acquire deadline t b" "a = WaitUntil wake" "naps = []"
  then have "try_acquire deadline t b = (b1, WaitUntil wake)" by simp
  from wake_shrinks [OF this] \<open>naps = []\<close>
  show "((deadline, [], max t wake, b1), deadline, naps, t, b)
      \<in> measures [\<lambda>(d, naps, t, b). length naps, \<lambda>(d, naps, t, b). length (prune t b)]"
    by simp
qed auto

declare acquire.simps [simp del]

section \<open>The decorator\<close>

type_synonym buckets = "(rate_category \<times> bucket) list"

definition new_buckets :: "(rate_category \<times> rate_rule) list \<Rightarrow> buckets" where
  "new_buckets rules = map (\<lambda>(c, r). (c, new_bucket r)) rules"

text \<open>
  The state of the wrapped broker: the inner broker's, the buckets, and the schedule of naps of
  each later call.
\<close>

record 'b limited =
  li_inner :: 'b
  li_buckets :: buckets
  li_naps :: "nap list list"

definition method_categories :: "(string \<times> rate_category) list" where
  "method_categories =
     [(''authenticate'', GENERAL), (''health_check'', GENERAL),
      (''place_order'', ORDER_MUTATION), (''modify_order'', ORDER_MUTATION),
      (''cancel_order'', ORDER_MUTATION),
      (''get_order'', ORDER_READ), (''get_orders'', ORDER_READ), (''find_order_by_tag'', ORDER_READ),
      (''get_positions'', PORTFOLIO_READ), (''get_holdings'', PORTFOLIO_READ),
      (''get_margins'', PORTFOLIO_READ),
      (''get_quote'', MARKET_DATA), (''get_ltp'', MARKET_DATA),
      (''get_instrument'', INSTRUMENT_LOOKUP), (''find_option_contract'', INSTRUMENT_LOOKUP),
      (''list_option_expiries'', INSTRUMENT_LOOKUP)]"

definition throttle ::
    "string \<Rightarrow> nat option \<Rightarrow> int \<Rightarrow> 'b limited \<Rightarrow> 'b limited \<times> nat \<times> (exn + unit)" where
  "throttle method_name timeout t s =
     (case map_of method_categories method_name of
        None \<Rightarrow> (s, 0, Inl LookupError)
      | Some category \<Rightarrow>
          (case map_of (li_buckets s) category of
             None \<Rightarrow> (s, 0, Inr ())
           | Some b \<Rightarrow>
               (let deadline = map_option (\<lambda>n. t + int n) timeout;
                    naps = (case li_naps s of [] \<Rightarrow> [] | n # ns \<Rightarrow> n)
                in case acquire deadline naps t b of
                     (b1, t1, left, r) \<Rightarrow>
                       (s\<lparr>li_buckets := AList.update category b1 (li_buckets s),
                         li_naps := tl (li_naps s)\<rparr>, nat (t1 - t), r))))"

text \<open>Every throttled method has this shape; the ones the strategy calls make up \<open>rate_limited\<close>.\<close>

definition limited_call ::
    "string \<Rightarrow> nat option \<Rightarrow> ('b, 'a) broker_call \<Rightarrow> ('b limited, 'a) broker_call" where
  "limited_call method_name timeout f t s =
     (case throttle method_name timeout t s of
        (s1, waited, Inl e) \<Rightarrow> (s1, waited, [], Inl e)
      | (s1, waited, Inr _) \<Rightarrow>
          (case f (t + int waited) (li_inner s1) of
             (b, elapsed, pushed, r) \<Rightarrow> (s1\<lparr>li_inner := b\<rparr>, waited + elapsed, pushed, r)))"

definition rate_limited :: "nat option \<Rightarrow> 'b broker \<Rightarrow> 'b limited broker" where
  "rate_limited timeout B =
     \<lparr>bk_place = \<lambda>req. limited_call ''place_order'' timeout (bk_place B req),
      bk_get = \<lambda>oid. limited_call ''get_order'' timeout (bk_get B oid),
      bk_find_tag = \<lambda>tag. limited_call ''find_order_by_tag'' timeout (bk_find_tag B tag),
      bk_orders = limited_call ''get_orders'' timeout (bk_orders B),
      bk_positions = limited_call ''get_positions'' timeout (bk_positions B),
      bk_margins = limited_call ''get_margins'' timeout (bk_margins B),
      bk_health = limited_call ''health_check'' timeout (bk_health B),
      bk_ltp = \<lambda>is. limited_call ''get_ltp'' timeout (bk_ltp B is),
      bk_contract = \<lambda>u x st ot ex. limited_call ''find_option_contract'' timeout (bk_contract B u x st ot ex),
      bk_authenticated = \<lambda>s. bk_authenticated B (li_inner s)\<rparr>"

text \<open>The other throttled methods, on the inner operation each delegates to.\<close>

definition limited_authenticate :: "nat option \<Rightarrow> ('b, unit) broker_call \<Rightarrow> ('b limited, unit) broker_call" where
  "limited_authenticate timeout f = limited_call ''authenticate'' timeout f"

definition limited_modify ::
    "nat option \<Rightarrow> ('r \<Rightarrow> ('b, unit) broker_call) \<Rightarrow> 'r \<Rightarrow> ('b limited, unit) broker_call" where
  "limited_modify timeout f req = limited_call ''modify_order'' timeout (f req)"

definition limited_cancel ::
    "nat option \<Rightarrow> (string \<Rightarrow> ('b, unit) broker_call) \<Rightarrow> string \<Rightarrow> ('b limited, unit) broker_call" where
  "limited_cancel timeout f oid = limited_call ''cancel_order'' timeout (f oid)"

definition limited_holdings :: "nat option \<Rightarrow> ('b, 'a) broker_call \<Rightarrow> ('b limited, 'a) broker_call" where
  "limited_holdings timeout f = limited_call ''get_holdings'' timeout f"

definition limited_quote ::
    "nat option \<Rightarrow> (instrument_id list \<Rightarrow> ('b, 'a) broker_call) \<Rightarrow> instrument_id list \<Rightarrow>
     ('b limited, 'a) broker_call" where
  "limited_quote timeout f ids = limited_call ''get_quote'' timeout (f ids)"

definition limited_instrument ::
    "nat option \<Rightarrow> (exchange \<Rightarrow> string \<Rightarrow> ('b, broker_instrument) broker_call) \<Rightarrow>
     exchange \<Rightarrow> string \<Rightarrow> ('b limited, broker_instrument) broker_call" where
  "limited_instrument timeout f ex symbol = limited_call ''get_instrument'' timeout (f ex symbol)"

definition limited_expiries ::
    "nat option \<Rightarrow> (string \<Rightarrow> exchange \<Rightarrow> ('b, int list option) broker_call) \<Rightarrow>
     string \<Rightarrow> exchange \<Rightarrow> ('b limited, int list option) broker_call" where
  "limited_expiries timeout f u ex = limited_call ''list_option_expiries'' timeout (f u ex)"

end
