(* ===== verification/Rate_Proofs.thy ===== *)
theory Rate_Proofs
  imports Rate_Limiter Entry_Sim
begin

text \<open>
  The rate limiter is correct: the pruned list of one bucket decides every attempt exactly as a
  limiter that remembers every call it ever granted (a refinement), no window ever holds more calls
  than the rule allows whatever the number of threads (the step relation \<open>limiter_step\<close>), a caller
  alone blocks for at most one window, and a throttled broker is still a broker in the sense of the
  interface \<open>broker_book\<close>, so what is proved of the strategy on a bare broker holds behind the
  decorator (theory \<open>Kite_Proofs\<close> uses it for the live broker).
\<close>

section \<open>A bucket and the full history\<close>

definition rule_ok :: "rate_rule \<Rightarrow> bool" where
  "rule_ok r \<longleftrightarrow> 0 < rl_max_calls r \<and> 0 < rl_per r"

lemma mk_rate_rule_ok: "mk_rate_rule m p = Inr r \<longleftrightarrow> r = \<lparr>rl_max_calls = m, rl_per = p\<rparr> \<and> rule_ok r"
  by (auto simp: mk_rate_rule_def rule_ok_def)

definition recent :: "rate_rule \<Rightarrow> int \<Rightarrow> int list \<Rightarrow> int list" where
  "recent r t hist = filter (\<lambda>h. t - rl_per r < h) hist"

text \<open>
  The abstract limiter: it remembers every call it granted and counts those of the last window.
\<close>

definition spec_attempt :: "rate_rule \<Rightarrow> int option \<Rightarrow> int \<Rightarrow> int list \<Rightarrow> int list \<times> attempt" where
  "spec_attempt r deadline t hist =
     (if int (length (recent r t hist)) < rl_max_calls r then (hist @ [t], Granted)
      else (let wake = Min (set (recent r t hist)) + rl_per r
            in (hist, if (case deadline of None \<Rightarrow> False | Some d \<Rightarrow> wake > d)
                      then Refused rate_error else WaitUntil wake)))"

fun run_spec :: "rate_rule \<Rightarrow> (int option \<times> int) list \<Rightarrow> int list \<Rightarrow> int list \<times> attempt list" where
  "run_spec r [] hist = (hist, [])"
| "run_spec r ((d, t) # as) hist =
     (let (h1, a) = spec_attempt r d t hist; (h2, out) = run_spec r as h1 in (h2, a # out))"

fun run_bucket :: "(int option \<times> int) list \<Rightarrow> bucket \<Rightarrow> bucket \<times> attempt list" where
  "run_bucket [] b = (b, [])"
| "run_bucket ((d, t) # as) b =
     (let (b1, a) = try_acquire d t b; (b2, out) = run_bucket as b1 in (b2, a # out))"

text \<open>The bucket holds the history, forgetting only calls that are already out of the window.\<close>

definition represents :: "int \<Rightarrow> bucket \<Rightarrow> int list \<Rightarrow> bool" where
  "represents t b hist \<longleftrightarrow>
     rule_ok (bu_rule b) \<and> sorted hist \<and> (\<forall>h \<in> set hist. h \<le> t) \<and>
     recent (bu_rule b) t hist = prune t b"

lemma represents_new: "rule_ok r \<Longrightarrow> represents t (new_bucket r) []"
  by (simp add: represents_def new_bucket_def recent_def prune_def)

lemma recent_later: "t \<le> u \<Longrightarrow> recent r u (recent r t hist) = recent r u hist"
  by (auto simp: recent_def intro: filter_cong)

lemma prune_later: "t \<le> u \<Longrightarrow> prune u b = recent (bu_rule b) u (prune t b)"
  by (auto simp: recent_def prune_def intro: filter_cong)

lemma represents_later:
  assumes "represents t b hist" and "t \<le> u"
  shows "represents u b hist"
proof -
  have "recent (bu_rule b) u hist = recent (bu_rule b) u (recent (bu_rule b) t hist)"
    using recent_later [OF assms(2)] by simp
  also have "\<dots> = prune u b"
    using assms(1) prune_later [OF assms(2)] by (simp add: represents_def)
  finally show ?thesis using assms by (auto simp: represents_def)
qed

lemma recent_sorted: "sorted hist \<Longrightarrow> sorted (recent r t hist)"
  by (simp add: recent_def sorted_wrt_filter)

lemma hd_is_Min: "sorted xs \<Longrightarrow> xs \<noteq> [] \<Longrightarrow> Min (set xs) = (hd xs :: int)"
  by (cases xs) (auto intro!: Min_eqI)

lemma recent_snoc: "0 < rl_per r \<Longrightarrow> recent r t (hist @ [t]) = recent r t hist @ [t]"
  by (simp add: recent_def)

lemma prune_pruned: "bu_calls b1 = prune t b \<Longrightarrow> bu_rule b1 = bu_rule b \<Longrightarrow> prune t b1 = prune t b"
  by (simp add: prune_def)

lemma try_acquire_cases:
  "int (length (prune t b)) < rl_max_calls (bu_rule b) \<Longrightarrow>
     try_acquire d t b = (b\<lparr>bu_calls := prune t b @ [t]\<rparr>, Granted)"
  "\<not> int (length (prune t b)) < rl_max_calls (bu_rule b) \<Longrightarrow> rule_ok (bu_rule b) \<Longrightarrow>
     prune t b \<noteq> [] \<and>
     try_acquire d t b =
       (b\<lparr>bu_calls := prune t b\<rparr>,
        if (case d of None \<Rightarrow> False | Some d \<Rightarrow> hd (prune t b) + rl_per (bu_rule b) > d)
        then Refused rate_error else WaitUntil (hd (prune t b) + rl_per (bu_rule b)))"
  by (cases "prune t b"; auto simp: try_acquire_def Let_def rule_ok_def split: option.split)+

text \<open>One attempt is answered alike, and the bucket still represents the history.\<close>

lemma attempt_refines:
  assumes "represents t b hist"
  shows "snd (try_acquire d t b) = snd (spec_attempt (bu_rule b) d t hist)"
    and "represents t (fst (try_acquire d t b)) (fst (spec_attempt (bu_rule b) d t hist))"
    and "bu_rule (fst (try_acquire d t b)) = bu_rule b"
proof -
  note R = assms [unfolded represents_def]
  have eq: "recent (bu_rule b) t hist = prune t b" and ok: "rule_ok (bu_rule b)" using R by simp_all
  have goal: "snd (try_acquire d t b) = snd (spec_attempt (bu_rule b) d t hist) \<and>
      represents t (fst (try_acquire d t b)) (fst (spec_attempt (bu_rule b) d t hist)) \<and>
      bu_rule (fst (try_acquire d t b)) = bu_rule b"
  proof (cases "int (length (prune t b)) < rl_max_calls (bu_rule b)")
    case True
    let ?b1 = "b\<lparr>bu_calls := prune t b @ [t]\<rparr>"
    have "prune t ?b1 = prune t b @ [t]"
      using ok by (simp add: prune_def rule_ok_def)
    then have "represents t ?b1 (hist @ [t])"
      using R ok by (auto simp: represents_def recent_snoc rule_ok_def sorted_append)
    then show ?thesis by (simp add: try_acquire_cases(1) [OF True] spec_attempt_def eq True)
  next
    case False
    from try_acquire_cases(2) [OF False ok] have ne: "prune t b \<noteq> []" by blast
    have "sorted (prune t b)" using R eq recent_sorted by metis
    then have m: "Min (set (prune t b)) = hd (prune t b)" using ne by (rule hd_is_Min)
    have "represents t (b\<lparr>bu_calls := prune t b\<rparr>) hist"
      using R prune_pruned [of "b\<lparr>bu_calls := prune t b\<rparr>" t b] by (simp add: represents_def)
    then show ?thesis
      by (simp add: try_acquire_cases(2) [OF False ok] spec_attempt_def eq False m Let_def)
  qed
  show "snd (try_acquire d t b) = snd (spec_attempt (bu_rule b) d t hist)"
    and "represents t (fst (try_acquire d t b)) (fst (spec_attempt (bu_rule b) d t hist))"
    and "bu_rule (fst (try_acquire d t b)) = bu_rule b"
    using goal by blast+
qed

lemma run_refines:
  assumes "represents t b hist" and "sorted (t # map snd as)"
  shows "snd (run_bucket as b) = snd (run_spec (bu_rule b) as hist)"
  using assms
proof (induction as arbitrary: t b hist)
  case (Cons a as)
  obtain d u where a: "a = (d, u)" by (cases a)
  have rep: "represents u b hist" using Cons.prems represents_later by (simp add: a)
  obtain b1 o1 where t1: "try_acquire d u b = (b1, o1)" by (cases "try_acquire d u b")
  obtain h1 o2 where s1: "spec_attempt (bu_rule b) d u hist = (h1, o2)"
    by (cases "spec_attempt (bu_rule b) d u hist")
  note step = attempt_refines [OF rep, of d, unfolded t1 s1 fst_conv snd_conv]
  have "sorted (u # map snd as)" using Cons.prems(2) by (simp add: a)
  from Cons.IH [OF step(2) this] step(1,3)
  show ?case by (auto simp: a t1 s1 Let_def split: prod.split)
qed simp

text \<open>
  C27: the limiter of a category refines the obvious one. Whatever sequence of attempts the threads
  make under the lock (each with its own deadline, the clock never going back), every attempt is
  granted, refused or told until when to wait exactly as by a limiter that keeps every call it ever
  granted and counts those of the last window: dropping old timestamps loses nothing.
\<close>

theorem limiter_refines_full_history:
  assumes "mk_rate_rule max_calls per = Inr rule" and "sorted (map snd attempts)"
  shows "snd (run_bucket attempts (new_bucket rule)) = snd (run_spec rule attempts [])"
proof (cases attempts)
  case (Cons a as)
  have "rule_ok rule" using mk_rate_rule_ok [THEN iffD1, OF assms(1)] by blast
  then have "represents (snd a) (new_bucket rule) []" by (rule represents_new)
  from run_refines [OF this, of attempts] show ?thesis
    using assms(2) by (simp add: Cons new_bucket_def)
qed simp

theorem limiter_refinement_witness:
  "snd (run_bucket [(None, 0), (None, 3), (Some 5, 4), (None, 6), (None, 11)]
      (new_bucket \<lparr>rl_max_calls = 2, rl_per = 10\<rparr>)) =
     [Granted, Granted, Refused rate_error, WaitUntil 10, Granted]"
  by (subst limiter_refines_full_history [of 2 10])
    (simp_all add: mk_rate_rule_def spec_attempt_def recent_def Let_def)

section \<open>Many threads\<close>

text \<open>
  The limiter under concurrency: the clock advances, and any thread may enter the locked section.
  The list of granted calls is only observed, never read by the code.
\<close>

record limiter =
  lm_now :: int
  lm_bucket :: bucket
  lm_granted :: "int list"

inductive limiter_step :: "limiter \<Rightarrow> limiter \<Rightarrow> bool" where
  clock: "lm_now s \<le> t \<Longrightarrow> limiter_step s (s\<lparr>lm_now := t\<rparr>)"
| enter_lock: "try_acquire d (lm_now s) (lm_bucket s) = (b, a) \<Longrightarrow>
    limiter_step s (s\<lparr>lm_bucket := b,
      lm_granted := lm_granted s @ (if a = Granted then [lm_now s] else [])\<rparr>)"

definition start_limiter :: "rate_rule \<Rightarrow> int \<Rightarrow> limiter" where
  "start_limiter rule t = \<lparr>lm_now = t, lm_bucket = new_bucket rule, lm_granted = []\<rparr>"

definition in_window :: "rate_rule \<Rightarrow> int \<Rightarrow> int list \<Rightarrow> int list" where
  "in_window r x hist = filter (\<lambda>h. x - rl_per r < h \<and> h \<le> x) hist"

definition limiter_inv :: "rate_rule \<Rightarrow> limiter \<Rightarrow> bool" where
  "limiter_inv r s \<longleftrightarrow>
     bu_rule (lm_bucket s) = r \<and> represents (lm_now s) (lm_bucket s) (lm_granted s) \<and>
     (\<forall>x. int (length (in_window r x (lm_granted s))) \<le> rl_max_calls r)"

lemma in_window_le_recent:
  "t \<le> x \<Longrightarrow> length (in_window r x hist) \<le> length (recent r t hist)"
proof -
  assume "t \<le> x"
  then have "in_window r x hist = filter (\<lambda>h. x - rl_per r < h \<and> h \<le> x) (recent r t hist)"
    unfolding in_window_def recent_def by (auto intro: filter_cong)
  then show ?thesis by simp
qed

lemma limiter_inv_step:
  assumes "limiter_step s s'" and "limiter_inv r s"
  shows "limiter_inv r s'"
  using assms
proof (cases rule: limiter_step.cases)
  case (clock t)
  then show ?thesis using assms(2) by (auto simp: limiter_inv_def represents_later)
next
  case (enter_lock d b a)
  let ?t = "lm_now s" and ?h = "lm_granted s" and ?b = "lm_bucket s"
  have rep: "represents ?t ?b ?h" and r: "bu_rule ?b = r"
    and win: "int (length (in_window r x ?h)) \<le> rl_max_calls r" for x
    using assms(2) by (simp_all add: limiter_inv_def)
  note ref = attempt_refines [OF rep, of d, unfolded enter_lock(2) fst_conv snd_conv r]
  have hist: "fst (spec_attempt r d ?t ?h) = ?h @ (if a = Granted then [?t] else [])"
    using ref(1) by (auto simp: spec_attempt_def Let_def split: if_splits)
  have "int (length (in_window r x (?h @ (if a = Granted then [?t] else [])))) \<le> rl_max_calls r" for x
  proof (cases "a = Granted \<and> ?t \<le> x")
    case True
    then have "int (length (recent r ?t ?h)) < rl_max_calls r"
      using ref(1) by (auto simp: spec_attempt_def Let_def split: if_splits)
    then have "int (length (in_window r x ?h)) < rl_max_calls r"
      using in_window_le_recent [of ?t x r ?h] True by linarith
    then show ?thesis by (auto simp: in_window_def)
  next
    case False
    then have "in_window r x (?h @ (if a = Granted then [?t] else [])) = in_window r x ?h"
      by (auto simp: in_window_def)
    then show ?thesis using win by simp
  qed
  then show ?thesis using ref(2,3) by (simp add: enter_lock(1) limiter_inv_def hist)
qed

lemma limiter_inv_reachable:
  assumes "limiter_step\<^sup>*\<^sup>* (start_limiter r t) s" and "rule_ok r"
  shows "limiter_inv r s"
  using assms(1)
proof (induction rule: rtranclp_induct)
  case base
  have "bu_rule (new_bucket r) = r" by (simp add: new_bucket_def)
  then show ?case using assms(2)
    by (simp add: start_limiter_def limiter_inv_def represents_new in_window_def)
      (simp add: rule_ok_def)
qed (rule limiter_inv_step)

text \<open>
  C26: whatever the number of threads and however their attempts interleave, a category never lets
  more than its configured number of calls through in any rolling window.
\<close>

theorem window_never_exceeded:
  assumes "mk_rate_rule max_calls per = Inr rule" and "limiter_step\<^sup>*\<^sup>* (start_limiter rule t0) s"
  shows "int (length (filter (\<lambda>h. x - per < h \<and> h \<le> x) (lm_granted s))) \<le> max_calls"
  using limiter_inv_reachable [OF assms(2)] assms(1)
  by (auto simp: mk_rate_rule_ok limiter_inv_def in_window_def)

lemma two_grants:
  "limiter_step\<^sup>*\<^sup>* (start_limiter \<lparr>rl_max_calls = 1, rl_per = 10\<rparr> 0)
     \<lparr>lm_now = 10, lm_bucket = \<lparr>bu_rule = \<lparr>rl_max_calls = 1, rl_per = 10\<rparr>, bu_calls = [10]\<rparr>,
      lm_granted = [0, 10]\<rparr>"
proof -
  let ?r = "\<lparr>rl_max_calls = 1, rl_per = 10\<rparr>"
  let ?s1 = "\<lparr>lm_now = 0, lm_bucket = \<lparr>bu_rule = ?r, bu_calls = [0]\<rparr>, lm_granted = [0]\<rparr>"
  let ?s2 = "\<lparr>lm_now = 10, lm_bucket = \<lparr>bu_rule = ?r, bu_calls = [0]\<rparr>, lm_granted = [0]\<rparr>"
  let ?s3 = "\<lparr>lm_now = 10, lm_bucket = \<lparr>bu_rule = ?r, bu_calls = [10]\<rparr>, lm_granted = [0, 10]\<rparr>"
  have "limiter_step (start_limiter ?r 0) ?s1"
    using enter_lock [of None "start_limiter ?r 0"]
    by (simp add: start_limiter_def new_bucket_def try_acquire_def prune_def)
  moreover have "limiter_step ?s1 ?s2" using clock [of ?s1 10] by simp
  moreover have "limiter_step ?s2 ?s3"
    using enter_lock [of None ?s2] by (simp add: try_acquire_def prune_def)
  ultimately show ?thesis by (meson converse_rtranclp_into_rtranclp rtranclp.rtrancl_refl)
qed

theorem window_witness:
  "int (length (filter (\<lambda>h. 10 - 10 < h \<and> h \<le> 10) [0::int, 10])) \<le> 1"
  using window_never_exceeded [OF _ two_grants, of 1 10 10] by (simp add: mk_rate_rule_def)

section \<open>Blocking\<close>

definition bucket_ok :: "int \<Rightarrow> bucket \<Rightarrow> bool" where
  "bucket_ok t b \<longleftrightarrow>
     rule_ok (bu_rule b) \<and> sorted (bu_calls b) \<and> (\<forall>c \<in> set (bu_calls b). c \<le> t) \<and>
     int (length (bu_calls b)) \<le> rl_max_calls (bu_rule b)"

lemma prune_length: "length (prune t b) \<le> length (bu_calls b)"
  by (simp add: prune_def)

lemma acquire_at_once:
  "try_acquire d t b = (b1, Granted) \<Longrightarrow> acquire d naps t b = (b1, t, naps, Inr ())"
  "try_acquire d t b = (b1, Refused e) \<Longrightarrow> acquire d naps t b = (b1, t, naps, Inl e)"
  by (subst acquire.simps, simp)+

lemma acquire_wakes:
  "try_acquire d t b = (b1, WaitUntil wake) \<Longrightarrow> acquire d [] t b = acquire d [] (max t wake) b1"
  by (subst acquire.simps, simp)

lemma granted_on_waking:
  assumes "bucket_ok t b" and "try_acquire d t b = (b1, WaitUntil wake)"
  shows "try_acquire d (max t wake) b1 =
      (b1\<lparr>bu_calls := prune (max t wake) b1 @ [max t wake]\<rparr>, Granted)"
proof (rule try_acquire_cases(1))
  have "length (prune (max t wake) b1) < length (prune t b)" using assms(2) by (rule wake_shrinks)
  also have "\<dots> \<le> length (bu_calls b)" by (rule prune_length)
  finally show "int (length (prune (max t wake) b1)) < rl_max_calls (bu_rule b1)"
    using assms(1) try_wait(2) [OF assms(2)] by (simp add: bucket_ok_def)
qed

text \<open>
  A caller that no other thread overtakes and that wakes on time is served after one sleep at
  most. Without a deadline it always gets its slot, within one window of time; with a deadline it
  either gets the slot by then, or is refused at once, without having slept and without its call
  having been counted.
\<close>

theorem lone_caller_is_served:
  assumes "bucket_ok t b"
  shows "case acquire deadline [] t b of
           (b1, t1, naps, Inr _) \<Rightarrow>
             t \<le> t1 \<and> t1 \<le> t + rl_per (bu_rule b) \<and> last (bu_calls b1) = t1 \<and>
             t1 \<le> (case deadline of None \<Rightarrow> t1 | Some d \<Rightarrow> max t d)
         | (b1, t1, naps, Inl e) \<Rightarrow>
             e = rate_error \<and> deadline \<noteq> None \<and> t1 = t \<and> bu_calls b1 = prune t b"
proof (cases "int (length (prune t b)) < rl_max_calls (bu_rule b)")
  case True
  then show ?thesis using assms
    by (simp add: acquire_at_once(1) [OF try_acquire_cases(1)] bucket_ok_def rule_ok_def split: option.split)
next
  case False
  have ok: "rule_ok (bu_rule b)" using assms by (simp add: bucket_ok_def)
  let ?wake = "hd (prune t b) + rl_per (bu_rule b)"
  let ?late = "case deadline of None \<Rightarrow> False | Some d \<Rightarrow> ?wake > d"
  from try_acquire_cases(2) [OF False ok, of deadline]
  have ne: "prune t b \<noteq> []" and try1: "try_acquire deadline t b =
      (b\<lparr>bu_calls := prune t b\<rparr>, if ?late then Refused rate_error else WaitUntil ?wake)" by blast+
  show ?thesis
  proof (cases ?late)
    case True
    then have "acquire deadline [] t b = (b\<lparr>bu_calls := prune t b\<rparr>, t, [], Inl rate_error)"
      using try1 by (intro acquire_at_once(2)) simp
    then show ?thesis using True by (auto split: option.splits)
  next
    case False
    then have wait: "try_acquire deadline t b = (b\<lparr>bu_calls := prune t b\<rparr>, WaitUntil ?wake)"
      using try1 by simp
    have "hd (prune t b) \<in> set (bu_calls b)" using hd_in_set [OF ne] by (auto simp: prune_def)
    then have le: "?wake \<le> t + rl_per (bu_rule b)" using assms by (auto simp: bucket_ok_def)
    have lt: "t < ?wake" using try_wait(5) [OF wait] .
    then have m: "max t ?wake = ?wake" by simp
    note g = granted_on_waking [OF assms wait, unfolded m]
    show ?thesis
      unfolding acquire_wakes [OF wait] m acquire_at_once(1) [OF g]
      using False le lt by (simp split: option.splits)
  qed
qed

theorem lone_caller_witness:
  "case acquire None [] 4 \<lparr>bu_rule = \<lparr>rl_max_calls = 2, rl_per = 10\<rparr>, bu_calls = [0, 3]\<rparr> of
     (b1, t1, naps, Inr _) \<Rightarrow> 4 \<le> t1 \<and> t1 \<le> 14
   | (b1, t1, naps, Inl e) \<Rightarrow> False"
  using lone_caller_is_served
    [of 4 "\<lparr>bu_rule = \<lparr>rl_max_calls = 2, rl_per = 10\<rparr>, bu_calls = [0, 3]\<rparr>" None]
  by (auto simp: bucket_ok_def rule_ok_def split: prod.splits sum.splits)

section \<open>The throttled broker\<close>

lemma throttle_inner [simp]: "li_inner (fst (throttle c timeout t s)) = li_inner s"
  by (auto simp: throttle_def Let_def split: option.split prod.split)

text \<open>A call the limiter refuses is not sent: the wrapped broker does not change.\<close>

lemma limited_call_inner:
  assumes "limited_call c timeout f t s = (s', n, ps, r)"
  shows "li_inner s' = li_inner s \<and> ps = [] \<or>
    (\<exists>w m. f (t + int w) (li_inner s) = (li_inner s', m, ps, r) \<and> n = w + m)"
proof -
  obtain s1 w q where th: "throttle c timeout t s = (s1, w, q)" by (metis prod.collapse)
  have inner: "li_inner s1 = li_inner s" using throttle_inner [of c timeout t s] by (simp add: th)
  show ?thesis
  proof (cases q)
    case (Inl e)
    then show ?thesis using assms by (simp add: limited_call_def th inner [symmetric])
  next
    case (Inr u)
    obtain b m qs q2 where f: "f (t + int w) (li_inner s1) = (b, m, qs, q2)" by (metis prod.collapse)
    then have "s' = s1\<lparr>li_inner := b\<rparr>" "n = w + m" "ps = qs" "r = q2"
      using assms by (simp_all add: limited_call_def th Inr)
    then show ?thesis using f by (intro disjI2 exI [of _ w] exI [of _ m]) (simp add: inner)
  qed
qed

context broker_book
begin

lemma throttled_book: "broker_book (rate_limited timeout B) (\<lambda>s. book (li_inner s))"
proof
  fix req t b b' n ps r
  assume "bk_place (rate_limited timeout B) req t b = (b', n, ps, r)"
  then have "limited_call ''place_order'' timeout (bk_place B req) t b = (b', n, ps, r)"
    by (simp add: rate_limited_def)
  from limited_call_inner [OF this]
  show "\<exists>oid. set (book (li_inner b')) \<subseteq> insert (oid, pr_tag req) (set (book (li_inner b)))"
    using place_book by fastforce
qed (simp_all add: rate_limited_def,
     (drule limited_call_inner,
       auto dest: get_book tag_book orders_book positions_book margins_book health_book ltp_book
         contract_book)+)

end

interpretation throttled_sim: broker_book "rate_limited timeout (sim_broker E sim_timeout)"
    "\<lambda>s. sim_book (li_inner s)" for timeout E sim_timeout
  by (rule sim_book.throttled_book)

end
