(* ===== verification/Market_Data.thy ===== *)
theory Market_Data
  imports Monitor Entry
begin

text \<open>
  The market data layer (\<open>market_data/\<close>): the reference-counted subscriptions, the price cache, the
  tick router, the service that composes them over a tick stream and a polling fallback, and the
  polling-only stream. The service shares the world with the strategy: its fields stand beside the
  broker's state (record \<open>md\<close>), and its poller is the broker. The tick stream is the protocol
  \<open>TickStream\<close>, an argument over a state of its own. The severity of each logged poll failure is kept,
  because deciding it is the point of that code; other log lines are left out. Times are in
  microseconds.
\<close>

section \<open>Subscriptions\<close>

type_synonym counts = "(instrument_id \<times> nat) list"

definition ref_count :: "counts \<Rightarrow> instrument_id \<Rightarrow> nat" where
  "ref_count c i = (case map_of c i of None \<Rightarrow> 0 | Some n \<Rightarrow> n)"

fun sub_add :: "instrument_id list \<Rightarrow> counts \<times> instrument_id list \<Rightarrow> counts \<times> instrument_id list" where
  "sub_add [] (c, new) = (c, new)"
| "sub_add (i # is) (c, new) =
     (let previous = ref_count c i
      in sub_add is (AList.update i (previous + 1) c,
           if previous = 0 \<and> i \<notin> set new then new @ [i] else new))"

fun sub_drop :: "instrument_id list \<Rightarrow> counts \<times> instrument_id list \<Rightarrow> counts \<times> instrument_id list" where
  "sub_drop [] (c, gone) = (c, gone)"
| "sub_drop (i # is) (c, gone) =
     (let previous = ref_count c i
      in if previous = 0 then sub_drop is (c, gone)
         else if previous = 1
         then sub_drop is (AList.delete i c, if i \<notin> set gone then gone @ [i] else gone)
         else sub_drop is (AList.update i (previous - 1) c, gone))"

definition active :: "counts \<Rightarrow> instrument_id list" where
  "active c = map fst c"

definition is_subscribed :: "counts \<Rightarrow> instrument_id \<Rightarrow> bool" where
  "is_subscribed c i \<longleftrightarrow> ref_count c i > 0"

section \<open>The cache\<close>

record cached =
  ca_price :: decimal
  ca_at :: dt

type_synonym cache = "(instrument_id \<times> cached) list"

definition cache_update :: "instrument_id \<Rightarrow> decimal \<Rightarrow> dt \<Rightarrow> cache \<Rightarrow> cache" where
  "cache_update i p t c = AList.update i \<lparr>ca_price = p, ca_at = t\<rparr> c"

definition cache_price :: "cache \<Rightarrow> instrument_id \<Rightarrow> decimal option" where
  "cache_price c i = map_option ca_price (map_of c i)"

definition is_fresh :: "cache \<Rightarrow> instrument_id \<Rightarrow> dt \<Rightarrow> nat \<Rightarrow> bool" where
  "is_fresh c i t max_age = (case map_of c i of None \<Rightarrow> False | Some e \<Rightarrow> t - ca_at e \<le> int max_age)"

definition cache_age :: "cache \<Rightarrow> instrument_id \<Rightarrow> dt \<Rightarrow> int option" where
  "cache_age c i t = map_option (\<lambda>e. t - ca_at e) (map_of c i)"

definition cache_remove :: "instrument_id \<Rightarrow> cache \<Rightarrow> cache" where
  "cache_remove i c = AList.delete i c"

section \<open>The router\<close>

definition is_plausible :: "tick \<Rightarrow> bool" where
  "is_plausible tick \<longleftrightarrow> tk_price tick > 0"

definition broadcast :: "(tick \<Rightarrow> ('s, unit) act) list \<Rightarrow> tick \<Rightarrow> ('s, unit) act" where
  "broadcast consumers tick =
     for_each consumers (\<lambda>consumer. catch_if is_exception (consumer tick) (\<lambda>_. ret ()))"

section \<open>The service\<close>

record md_config =
  mc_freshness :: nat
  mc_attempts :: nat
  mc_backoff :: nat
  mc_max_backoff :: nat
  mc_threshold :: nat

definition mk_md_config :: "md_config \<Rightarrow> exn + md_config" where
  "mk_md_config c =
     (if 0 < mc_freshness c \<and> 1 \<le> mc_attempts c \<and> 0 < mc_backoff c \<and> 0 < mc_max_backoff c \<and>
         1 \<le> mc_threshold c
      then Inr c else Inl ValueError)"

datatype severity = SV_DEBUG | SV_ERROR | SV_CRITICAL

record 's tick_stream =
  sm_start :: "'s \<Rightarrow> 's \<times> (exn + unit)"
  sm_stop :: "'s \<Rightarrow> 's \<times> (exn + unit)"
  sm_connected :: "'s \<Rightarrow> bool"
  sm_subscribe :: "instrument_id list \<Rightarrow> 's \<Rightarrow> 's \<times> (exn + unit)"
  sm_unsubscribe :: "instrument_id list \<Rightarrow> 's \<Rightarrow> 's \<times> (exn + unit)"

record ('b, 's) md =
  md_broker :: 'b
  md_stream :: 's
  md_counts :: counts
  md_cache :: cache
  md_failures :: nat
  md_alerts :: "severity list"

type_synonym ('b, 's, 'a) mdprog = "(('b, 's) md, 'a) prog"

record ('b, 's) md_setup =
  ms_config :: md_config
  ms_stream :: "'s tick_stream"
  ms_broker :: "'b broker"
  ms_consumers :: "(tick \<Rightarrow> ('b, 's, unit) mdprog) list"

definition new_md :: "'b \<Rightarrow> 's \<Rightarrow> ('b, 's) md" where
  "new_md b s =
     \<lparr>md_broker = b, md_stream = s, md_counts = [], md_cache = [], md_failures = 0, md_alerts = []\<rparr>"

definition get_md :: "(('b, 's) md \<Rightarrow> 'a) \<Rightarrow> ('b, 's, 'a) mdprog" where
  "get_md f = asks (\<lambda>w. f (w_bk w))"

definition set_md :: "(('b, 's) md \<Rightarrow> ('b, 's) md) \<Rightarrow> ('b, 's, unit) mdprog" where
  "set_md f = modify (\<lambda>w. w\<lparr>w_bk := f (w_bk w)\<rparr>)"

definition stream_op :: "('s \<Rightarrow> 's \<times> (exn + unit)) \<Rightarrow> ('b, 's, unit) mdprog" where
  "stream_op f w =
     (case f (md_stream (w_bk w)) of (s, r) \<Rightarrow> (w\<lparr>w_bk := (w_bk w)\<lparr>md_stream := s\<rparr>\<rparr>, r))"

text \<open>A broker operation, beside the market data.\<close>

definition lift_md :: "('b, 'a) broker_call \<Rightarrow> (('b, 's) md, 'a) broker_call" where
  "lift_md f t s = (case f t (md_broker s) of (b, n, ps, r) \<Rightarrow> (s\<lparr>md_broker := b\<rparr>, n, ps, r))"

definition safe_stream_subscribe ::
    "('b, 's) md_setup \<Rightarrow> instrument_id list \<Rightarrow> ('b, 's, unit) mdprog" where
  "safe_stream_subscribe S is =
     catch_if is_exception (stream_op (sm_subscribe (ms_stream S) is)) (\<lambda>_. ret ())"

definition safe_stream_unsubscribe ::
    "('b, 's) md_setup \<Rightarrow> instrument_id list \<Rightarrow> ('b, 's, unit) mdprog" where
  "safe_stream_unsubscribe S is =
     catch_if is_exception (stream_op (sm_unsubscribe (ms_stream S) is)) (\<lambda>_. ret ())"

definition md_connected :: "('b, 's) md_setup \<Rightarrow> ('b, 's, bool) mdprog" where
  "md_connected S = get_md (\<lambda>m. sm_connected (ms_stream S) (md_stream m))"

definition md_subscribe :: "('b, 's) md_setup \<Rightarrow> instrument_id list \<Rightarrow> ('b, 's, unit) mdprog" where
  "md_subscribe S is =
     bnd (get_md (\<lambda>m. sub_add is (md_counts m, []))) (\<lambda>(counts, newly).
     sq (set_md (\<lambda>m. m\<lparr>md_counts := counts\<rparr>))
     (bnd (md_connected S) (\<lambda>conn.
      do_if (newly \<noteq> [] \<and> conn) (safe_stream_subscribe S newly))))"

definition md_unsubscribe :: "('b, 's) md_setup \<Rightarrow> instrument_id list \<Rightarrow> ('b, 's, unit) mdprog" where
  "md_unsubscribe S is =
     bnd (get_md (\<lambda>m. sub_drop is (md_counts m, []))) (\<lambda>(counts, gone).
     sq (set_md (\<lambda>m. m\<lparr>md_counts := counts\<rparr>))
     (do_if (gone \<noteq> [])
        (bnd (md_connected S) (\<lambda>conn.
         sq (do_if conn (safe_stream_unsubscribe S gone))
            (set_md (\<lambda>m. m\<lparr>md_cache := fold cache_remove gone (md_cache m)\<rparr>))))))"

subsection \<open>Polling\<close>

definition note_recovered :: "('b, 's, unit) mdprog" where
  "note_recovered = set_md (\<lambda>m. m\<lparr>md_failures := 0\<rparr>)"

definition failure_severity :: "md_config \<Rightarrow> nat \<Rightarrow> bool \<Rightarrow> severity" where
  "failure_severity c consecutive unexpected =
     (if unexpected then SV_ERROR
      else if consecutive = mc_threshold c then SV_ERROR
      else if consecutive = mc_threshold c * 2 then SV_CRITICAL
      else SV_DEBUG)"

definition note_failure :: "('b, 's) md_setup \<Rightarrow> bool \<Rightarrow> ('b, 's, unit) mdprog" where
  "note_failure S unexpected =
     set_md (\<lambda>m. let consecutive = md_failures m + 1
                 in m\<lparr>md_failures := consecutive,
                      md_alerts := md_alerts m @ [failure_severity (ms_config S) consecutive unexpected]\<rparr>)"

fun poll_tries ::
    "('b, 's) md_setup \<Rightarrow> instrument_id list \<Rightarrow> nat \<Rightarrow> nat \<Rightarrow>
     ('b, 's, (instrument_id \<times> decimal) list option) mdprog" where
  "poll_tries S is 0 backoff = sq (note_failure S False) (ret None)"
| "poll_tries S is (Suc n) backoff =
     bnd (try_sum (bcall (lift_md (bk_ltp (ms_broker S) is)))) (\<lambda>r.
     case r of
       Inr polled \<Rightarrow> sq note_recovered (ret (Some polled))
     | Inl e \<Rightarrow>
         if is_nonretryable_broker_error e then sq (note_failure S False) (ret None)
         else if is_broker_error e then
           (if n = 0 then sq (note_failure S False) (ret None)
            else sq (sleep (min backoff (mc_max_backoff (ms_config S)))) (poll_tries S is n (backoff * 2)))
         else if is_exception e then sq (note_failure S True) (ret None)
         else throw e)"

definition resilient_poll ::
    "('b, 's) md_setup \<Rightarrow> instrument_id list \<Rightarrow> ('b, 's, (instrument_id \<times> decimal) list option) mdprog" where
  "resilient_poll S is = poll_tries S is (mc_attempts (ms_config S)) (mc_backoff (ms_config S))"

definition poll ::
    "('b, 's) md_setup \<Rightarrow> instrument_id list \<Rightarrow> bool \<Rightarrow> ('b, 's, (instrument_id \<times> decimal) list) mdprog" where
  "poll S is bcast =
     bnd (resilient_poll S is) (\<lambda>r.
     case r of
       None \<Rightarrow> ret []
     | Some polled \<Rightarrow>
         if polled = [] then ret []
         else
           bnd now (\<lambda>t.
           sq (for_each polled (\<lambda>(i, p).
                 sq (set_md (\<lambda>m. m\<lparr>md_cache := cache_update i p t (md_cache m)\<rparr>))
                    (do_if (bcast \<and> p > 0)
                      (broadcast (ms_consumers S) \<lparr>tk_instrument = i, tk_price = p, tk_time = t\<rparr>))))
              (ret polled)))"

text \<open>The fresh prices and the instruments that must be polled, in the order of the request.\<close>

fun split_fresh ::
    "cache \<Rightarrow> dt \<Rightarrow> nat \<Rightarrow> instrument_id list \<Rightarrow> (instrument_id \<times> decimal) list \<times> instrument_id list" where
  "split_fresh c t max_age [] = ([], [])"
| "split_fresh c t max_age (i # is) =
     (let (res, to_poll) = split_fresh c t max_age is
      in case map_of c i of
           Some e \<Rightarrow> if is_fresh c i t max_age then (AList.update i (ca_price e) res, to_poll)
                      else (res, i # to_poll)
         | None \<Rightarrow> (res, i # to_poll))"

definition merge_prices ::
    "(instrument_id \<times> decimal) list \<Rightarrow> (instrument_id \<times> decimal) list \<Rightarrow> (instrument_id \<times> decimal) list" where
  "merge_prices a b = fold (\<lambda>(i, p) r. AList.update i p r) b a"

definition get_ltps ::
    "('b, 's) md_setup \<Rightarrow> instrument_id list \<Rightarrow> ('b, 's, (instrument_id \<times> decimal) list) mdprog" where
  "get_ltps S is =
     bnd now (\<lambda>t.
     bnd (get_md (\<lambda>m. split_fresh (md_cache m) t (mc_freshness (ms_config S)) is)) (\<lambda>(res, to_poll).
     if to_poll = [] then ret res
     else bnd (poll S to_poll False) (\<lambda>polled. ret (merge_prices res polled))))"

definition get_ltp :: "('b, 's) md_setup \<Rightarrow> instrument_id \<Rightarrow> ('b, 's, decimal) mdprog" where
  "get_ltp S i =
     bnd (get_ltps S [i]) (\<lambda>res.
     case map_of res i of
       Some p \<Rightarrow> ret p
     | None \<Rightarrow> throw (MarketDataUnavailableError ''no live or polled price available''))"

definition poll_active :: "('b, 's) md_setup \<Rightarrow> ('b, 's, nat) mdprog" where
  "poll_active S =
     bnd (get_md (\<lambda>m. active (md_counts m))) (\<lambda>is.
     if is = [] then ret 0 else bnd (poll S is True) (\<lambda>polled. ret (length polled)))"

definition is_stale :: "('b, 's) md_setup \<Rightarrow> instrument_id \<Rightarrow> ('b, 's, bool) mdprog" where
  "is_stale S i =
     bnd now (\<lambda>t. get_md (\<lambda>m. \<not> is_fresh (md_cache m) i t (mc_freshness (ms_config S))))"

subsection \<open>Stream handlers\<close>

definition resubscribe_all :: "('b, 's) md_setup \<Rightarrow> ('b, 's, unit) mdprog" where
  "resubscribe_all S =
     bnd (get_md (\<lambda>m. active (md_counts m))) (\<lambda>is. do_if (is \<noteq> []) (safe_stream_subscribe S is))"

definition md_on_tick :: "('b, 's) md_setup \<Rightarrow> tick \<Rightarrow> ('b, 's, unit) mdprog" where
  "md_on_tick S tick =
     (if \<not> is_plausible tick then ret ()
      else bnd now (\<lambda>t.
           sq (set_md (\<lambda>m. m\<lparr>md_cache := cache_update (tk_instrument tick) (tk_price tick) t (md_cache m)\<rparr>))
              (broadcast (ms_consumers S) tick)))"

definition md_on_connect :: "('b, 's) md_setup \<Rightarrow> ('b, 's, unit) mdprog" where
  "md_on_connect S = resubscribe_all S"

definition md_on_reconnect :: "('b, 's) md_setup \<Rightarrow> ('b, 's, unit) mdprog" where
  "md_on_reconnect S = resubscribe_all S"

definition md_start :: "('b, 's) md_setup \<Rightarrow> ('b, 's, unit) mdprog" where
  "md_start S = stream_op (sm_start (ms_stream S))"

definition md_stop :: "('b, 's) md_setup \<Rightarrow> ('b, 's, unit) mdprog" where
  "md_stop S = stream_op (sm_stop (ms_stream S))"

section \<open>The gateway of the monitor, and the broker beside it\<close>

definition market_gateway :: "('b, 's) md_setup \<Rightarrow> ('b, 's) md gateway" where
  "market_gateway S =
     \<lparr>mg_connected = md_connected S, mg_ltps = get_ltps S, mg_subscribe = md_subscribe S,
      mg_unsubscribe = md_unsubscribe S\<rparr>"

definition with_market :: "'b broker \<Rightarrow> ('b, 's) md broker" where
  "with_market B =
     \<lparr>bk_place = \<lambda>req. lift_md (bk_place B req),
      bk_get = \<lambda>oid. lift_md (bk_get B oid),
      bk_find_tag = \<lambda>tag. lift_md (bk_find_tag B tag),
      bk_orders = lift_md (bk_orders B),
      bk_positions = lift_md (bk_positions B),
      bk_margins = lift_md (bk_margins B),
      bk_health = lift_md (bk_health B),
      bk_ltp = \<lambda>is. lift_md (bk_ltp B is),
      bk_contract = \<lambda>u x st ot ex. lift_md (bk_contract B u x st ot ex),
      bk_authenticated = \<lambda>s. bk_authenticated B (md_broker s)\<rparr>"

section \<open>The polling-only stream\<close>

definition polling_stream :: "unit tick_stream" where
  "polling_stream =
     \<lparr>sm_start = (\<lambda>s. (s, Inr ())), sm_stop = (\<lambda>s. (s, Inr ())), sm_connected = (\<lambda>s. False),
      sm_subscribe = (\<lambda>is s. (s, Inr ())), sm_unsubscribe = (\<lambda>is s. (s, Inr ()))\<rparr>"

end
