(* ===== verification/Py_Value.thy ===== *)
theory Py_Value
  imports Broker_Data Calendar
begin

text \<open>
  The dynamic values of a decoded broker response, and what the mapping code does with them:
  truthiness, \<open>dict.get\<close>, \<open>int(...)\<close>, \<open>str(...)\<close> and \<open>Decimal(str(...))\<close>. A float is represented by the
  decimal number its \<open>str\<close> denotes, which is what the code converts; converting a decimal of up to
  15 significant digits to a float and back gives the same number. A datetime is its wall clock in
  microseconds with the offset from UTC, absent when it is naive. NaN and infinities, digit
  underscores and non-ASCII digits do not occur in the broker's responses and are left out.
\<close>

section \<open>Numbers in text\<close>

definition is_digit :: "char \<Rightarrow> bool" where
  "is_digit c \<longleftrightarrow> 48 \<le> (of_char c :: nat) \<and> (of_char c :: nat) \<le> 57"

definition is_blank :: "char \<Rightarrow> bool" where
  "is_blank c \<longleftrightarrow> (of_char c :: nat) \<in> {9, 10, 11, 12, 13, 32}"

definition strip :: "string \<Rightarrow> string" where
  "strip s = rev (dropWhile is_blank (rev (dropWhile is_blank s)))"

definition digits_value :: "string \<Rightarrow> nat" where
  "digits_value s = foldl (\<lambda>n c. 10 * n + (of_char c - 48)) 0 s"

definition split_sign :: "string \<Rightarrow> int \<times> string" where
  "split_sign s =
     (case s of
        [] \<Rightarrow> (1, [])
      | c # cs \<Rightarrow> if c = CHR ''-'' then (-1, cs) else if c = CHR ''+'' then (1, cs) else (1, s))"

definition parse_int :: "string \<Rightarrow> int option" where
  "parse_int s =
     (case split_sign (strip s) of
        (sg, ds) \<Rightarrow> if ds \<noteq> [] \<and> list_all is_digit ds then Some (sg * int (digits_value ds)) else None)"

text \<open>The numeric strings of \<open>Decimal\<close>: a sign, digits with one optional point, an exponent.\<close>

definition parse_exponent :: "string \<Rightarrow> int option" where
  "parse_exponent s =
     (case s of
        [] \<Rightarrow> Some 0
      | c # cs \<Rightarrow>
          if c = CHR ''e'' \<or> c = CHR ''E''
          then (case split_sign cs of
                  (sg, ds) \<Rightarrow> if ds \<noteq> [] \<and> list_all is_digit ds then Some (sg * int (digits_value ds)) else None)
          else None)"

definition scale10 :: "int \<Rightarrow> decimal" where
  "scale10 e = (if 0 \<le> e then 10 ^ nat e else 1 / 10 ^ nat (- e))"

definition parse_decimal :: "string \<Rightarrow> decimal option" where
  "parse_decimal s =
     (case split_sign (strip s) of
        (sg, body) \<Rightarrow>
          (let whole = takeWhile is_digit body; rest = dropWhile is_digit body;
               frac = (case rest of [] \<Rightarrow> [] | c # cs \<Rightarrow> if c = CHR ''.'' then takeWhile is_digit cs else []);
               tail = (case rest of [] \<Rightarrow> [] | c # cs \<Rightarrow> if c = CHR ''.'' then dropWhile is_digit cs else rest)
           in if whole = [] \<and> frac = [] then None
              else (case parse_exponent tail of
                      None \<Rightarrow> None
                    | Some e \<Rightarrow>
                        Some (of_int (sg * int (digits_value (whole @ frac))) * scale10 (e - int (length frac))))))"

text \<open>\<open>str.upper\<close> on the ASCII letters.\<close>

definition upper_char :: "char \<Rightarrow> char" where
  "upper_char c =
     (let n = (of_char c :: nat) in if 97 \<le> n \<and> n \<le> 122 then char_of (n - 32) else c)"

definition upper :: "string \<Rightarrow> string" where
  "upper s = map upper_char s"

definition lower_char :: "char \<Rightarrow> char" where
  "lower_char c =
     (let n = (of_char c :: nat) in if 65 \<le> n \<and> n \<le> 90 then char_of (n + 32) else c)"

definition lower :: "string \<Rightarrow> string" where
  "lower s = map lower_char s"

section \<open>Values\<close>

datatype pyval =
    PNone
  | PBool bool
  | PInt int
  | PFloat decimal
  | PStr string
  | PDate date
  | PDatetime int "int option"
  | PList "pyval list"
  | PDict "(string \<times> pyval) list"

type_synonym pydict = "(string \<times> pyval) list"

fun truthy :: "pyval \<Rightarrow> bool" where
  "truthy PNone = False"
| "truthy (PBool b) = b"
| "truthy (PInt n) = (n \<noteq> 0)"
| "truthy (PFloat x) = (x \<noteq> 0)"
| "truthy (PStr s) = (s \<noteq> [])"
| "truthy (PDate d) = True"
| "truthy (PDatetime t z) = True"
| "truthy (PList xs) = (xs \<noteq> [])"
| "truthy (PDict xs) = (xs \<noteq> [])"

definition py_or :: "pyval \<Rightarrow> pyval \<Rightarrow> pyval" where
  "py_or a b = (if truthy a then a else b)"

definition dget :: "pydict \<Rightarrow> string \<Rightarrow> pyval" where
  "dget d k = (case map_of d k of None \<Rightarrow> PNone | Some v \<Rightarrow> v)"

definition dget_or :: "pydict \<Rightarrow> string \<Rightarrow> pyval \<Rightarrow> pyval" where
  "dget_or d k v = (case map_of d k of None \<Rightarrow> v | Some u \<Rightarrow> u)"

definition ditem :: "pydict \<Rightarrow> string \<Rightarrow> exn + pyval" where
  "ditem d k = (case map_of d k of None \<Rightarrow> Inl KeyError | Some v \<Rightarrow> Inr v)"

text \<open>\<open>int(...)\<close>: a float is cut off towards zero, a string must hold an integer.\<close>

definition truncate_dec :: "decimal \<Rightarrow> int" where
  "truncate_dec x = (if 0 \<le> x then \<lfloor>x\<rfloor> else - \<lfloor>- x\<rfloor>)"

fun py_int :: "pyval \<Rightarrow> exn + int" where
  "py_int (PBool b) = Inr (if b then 1 else 0)"
| "py_int (PInt n) = Inr n"
| "py_int (PFloat x) = Inr (truncate_dec x)"
| "py_int (PStr s) = (case parse_int s of None \<Rightarrow> Inl ValueError | Some n \<Rightarrow> Inr n)"
| "py_int v = Inl TypeError"

definition int_text :: "int \<Rightarrow> string" where
  "int_text n = (if n < 0 then CHR ''-'' # nat_digits (nat (- n)) else nat_digits (nat n))"

text \<open>
  \<open>str(...)\<close>. The rendering of floats, datetimes and containers is an argument: the code stores such a
  text only as the id of an order, which the broker gives as a string.
\<close>

fun py_str :: "(pyval \<Rightarrow> string) \<Rightarrow> pyval \<Rightarrow> string" where
  "py_str rend PNone = ''None''"
| "py_str rend (PBool b) = (if b then ''True'' else ''False'')"
| "py_str rend (PInt n) = int_text n"
| "py_str rend (PStr s) = s"
| "py_str rend (PDate d) = isoformat d"
| "py_str rend v = rend v"

text \<open>\<open>Decimal(str(v))\<close>: the texts of dates, datetimes, containers and booleans are no numbers.\<close>

fun decimal_of :: "pyval \<Rightarrow> decimal option" where
  "decimal_of (PInt n) = Some (of_int n)"
| "decimal_of (PFloat x) = Some x"
| "decimal_of (PStr s) = parse_decimal s"
| "decimal_of v = None"

text \<open>The types the data objects ask for: a string field takes a string, nothing else.\<close>

fun str_field :: "pyval \<Rightarrow> exn + string" where
  "str_field (PStr s) = Inr s"
| "str_field v = Inl ValueError"

definition opt_str_field :: "pyval \<Rightarrow> exn + string option" where
  "opt_str_field v = (if v = PNone then Inr None else map_sum id Some (str_field v))"

text \<open>A date field takes a date, or a datetime at midnight.\<close>

definition date_field :: "pyval \<Rightarrow> exn + date option" where
  "date_field v =
     (case v of
        PDate d \<Rightarrow> Inr (Some d)
      | PDatetime t z \<Rightarrow> if t mod day_micros = 0 then Inr (Some (t div day_micros)) else Inl ValueError
      | _ \<Rightarrow> Inr None)"

fun hashable :: "pyval \<Rightarrow> bool" where
  "hashable (PList xs) = False"
| "hashable (PDict xs) = False"
| "hashable v = True"

section \<open>Texts and numbers\<close>

lemma digits_value_snoc: "digits_value (s @ [c]) = 10 * digits_value s + (of_char c - 48)"
  by (simp add: digits_value_def)

lemma digits_value_nat_digits [simp]: "digits_value (nat_digits n) = n"
proof (induction n rule: nat_digits.induct)
  case (1 n)
  then show ?case
    by (cases "n < 10") (simp_all add: nat_digits_less nat_digits_ge digits_value_snoc, simp add: digits_value_def)
qed

lemma nat_digits_all: "list_all is_digit (nat_digits n)"
  by (auto simp: list_all_iff is_digit_def dest!: nat_digits_chars)

lemma strip_id: "s \<noteq> [] \<Longrightarrow> \<not> is_blank (hd s) \<Longrightarrow> \<not> is_blank (last s) \<Longrightarrow> strip s = s"
  by (simp add: strip_def dropWhile_eq_self_iff [THEN iffD2] hd_rev)

lemma digit_not_blank: "is_digit c \<Longrightarrow> \<not> is_blank c"
  by (auto simp: is_digit_def is_blank_def)

lemma digit_not_sign: "is_digit c \<Longrightarrow> c \<noteq> CHR ''-'' \<and> c \<noteq> CHR ''+''"
  by (auto simp: is_digit_def)

text \<open>An integer written by \<open>str\<close> is read back by \<open>int\<close>.\<close>

lemma parse_int_text [simp]: "parse_int (int_text n) = Some n"
proof -
  have ds: "nat_digits m \<noteq> []" "is_digit (hd (nat_digits m))" "is_digit (last (nat_digits m))" for m
    using nat_digits_all [of m] nat_digits_nonempty [of m] by (auto simp: list_all_iff)
  show ?thesis
  proof (cases "n < 0")
    case True
    have "\<not> is_blank (CHR ''-'')" by (simp add: is_blank_def)
    then have "strip (CHR ''-'' # nat_digits (nat (- n))) = CHR ''-'' # nat_digits (nat (- n))"
      using ds by (intro strip_id) (auto simp: digit_not_blank)
    then show ?thesis using True ds nat_digits_all
      by (simp add: int_text_def parse_int_def split_sign_def)
  next
    case False
    obtain c cs where c: "nat_digits (nat n) = c # cs" using ds(1) by (cases "nat_digits (nat n)") auto
    have "strip (nat_digits (nat n)) = nat_digits (nat n)"
      using ds by (intro strip_id) (auto simp: digit_not_blank)
    then have "split_sign (strip (nat_digits (nat n))) = (1, nat_digits (nat n))"
      using ds(2) [of "nat n"] digit_not_sign by (auto simp: c split_sign_def)
    then show ?thesis using False ds nat_digits_all by (simp add: int_text_def parse_int_def)
  qed
qed

end
