(* ===== verification/Kite_Mapper.thy ===== *)
theory Kite_Mapper
  imports Py_Value
begin

text \<open>
  \<open>brokers/kite/mapper.py\<close>: every conversion between the platform's data and the payloads of Kite
  Connect, and the translation of the client's exceptions. The string constants are attributes of
  the class \<open>KiteConnect\<close> of the package kiteconnect and are an argument (\<open>kite_names\<close>); an
  exception of the client is the list of the named classes it is an instance of, with its message.
\<close>

section \<open>Names\<close>

record kite_names =
  kn_nfo :: string
  kn_bfo :: string
  kn_nse :: string
  kn_bse :: string
  kn_buy :: string
  kn_sell :: string
  kn_mis :: string
  kn_nrml :: string
  kn_market :: string
  kn_limit :: string
  kn_regular :: string

definition names_distinct :: "kite_names \<Rightarrow> bool" where
  "names_distinct N \<longleftrightarrow>
     distinct [kn_nfo N, kn_bfo N, kn_nse N, kn_bse N] \<and> kn_buy N \<noteq> kn_sell N \<and>
     kn_mis N \<noteq> kn_nrml N \<and> kn_market N \<noteq> kn_limit N"

definition documented_names :: kite_names where
  "documented_names =
     \<lparr>kn_nfo = ''NFO'', kn_bfo = ''BFO'', kn_nse = ''NSE'', kn_bse = ''BSE'', kn_buy = ''BUY'',
      kn_sell = ''SELL'', kn_mis = ''MIS'', kn_nrml = ''NRML'', kn_market = ''MARKET'',
      kn_limit = ''LIMIT'', kn_regular = ''regular''\<rparr>"

fun to_kite_exchange :: "kite_names \<Rightarrow> exchange \<Rightarrow> string" where
  "to_kite_exchange N NFO = kn_nfo N"
| "to_kite_exchange N BFO = kn_bfo N"
| "to_kite_exchange N NSE = kn_nse N"
| "to_kite_exchange N BSE = kn_bse N"

fun to_kite_transaction_type :: "kite_names \<Rightarrow> transaction_type \<Rightarrow> string" where
  "to_kite_transaction_type N BUY = kn_buy N"
| "to_kite_transaction_type N SELL = kn_sell N"

fun to_kite_product :: "kite_names \<Rightarrow> product_type \<Rightarrow> string" where
  "to_kite_product N INTRADAY = kn_mis N"
| "to_kite_product N NORMAL = kn_nrml N"

fun to_kite_order_type :: "kite_names \<Rightarrow> order_type \<Rightarrow> string" where
  "to_kite_order_type N MARKET = kn_market N"
| "to_kite_order_type N LIMIT = kn_limit N"

text \<open>The inverse tables are built in this order; a later entry would replace an equal key.\<close>

definition exchange_from_kite :: "kite_names \<Rightarrow> (string \<times> exchange) list" where
  "exchange_from_kite N = rev (map (\<lambda>x. (to_kite_exchange N x, x)) [NFO, BFO, NSE, BSE])"

definition transaction_from_kite :: "kite_names \<Rightarrow> (string \<times> transaction_type) list" where
  "transaction_from_kite N = rev (map (\<lambda>x. (to_kite_transaction_type N x, x)) [BUY, SELL])"

definition product_from_kite :: "kite_names \<Rightarrow> (string \<times> product_type) list" where
  "product_from_kite N = rev (map (\<lambda>x. (to_kite_product N x, x)) [INTRADAY, NORMAL])"

text \<open>\<open>table.get(value, default)\<close> with a value of any type; a list or dict is not hashable.\<close>

definition table_get :: "(string \<times> 'a) list \<Rightarrow> pyval \<Rightarrow> 'a \<Rightarrow> exn + 'a" where
  "table_get tab v dflt =
     (if \<not> hashable v then Inl TypeError
      else Inr (case v of PStr s \<Rightarrow> (case map_of tab s of None \<Rightarrow> dflt | Some x \<Rightarrow> x) | _ \<Rightarrow> dflt))"

definition from_kite_exchange :: "kite_names \<Rightarrow> pyval \<Rightarrow> exn + exchange" where
  "from_kite_exchange N v =
     (if \<not> hashable v then Inl TypeError
      else case v of
             PStr s \<Rightarrow> (case map_of (exchange_from_kite N) s of
                          None \<Rightarrow> Inl (KiteMappingError ''unmappable Kite exchange'')
                        | Some x \<Rightarrow> Inr x)
           | _ \<Rightarrow> Inl (KiteMappingError ''unmappable Kite exchange''))"

definition status_from_kite :: "(string \<times> order_status) list" where
  "status_from_kite =
     [(''COMPLETE'', COMPLETE), (''REJECTED'', REJECTED), (''CANCELLED'', OS_CANCELLED), (''OPEN'', OS_OPEN)]"

definition status_of_text :: "string \<Rightarrow> order_status" where
  "status_of_text s = (case map_of status_from_kite (upper s) of None \<Rightarrow> OS_PENDING | Some st \<Rightarrow> st)"

definition from_kite_status :: "pyval \<Rightarrow> exn + order_status" where
  "from_kite_status v =
     (case py_or v (PStr []) of PStr s \<Rightarrow> Inr (status_of_text s) | _ \<Rightarrow> Inl AttributeError)"

definition from_kite_product :: "kite_names \<Rightarrow> pyval \<Rightarrow> exn + product_type" where
  "from_kite_product N v = table_get (product_from_kite N) v NORMAL"

definition from_kite_order_type :: "kite_names \<Rightarrow> pyval \<Rightarrow> order_type" where
  "from_kite_order_type N v = (if v = PStr (kn_market N) then MARKET else LIMIT)"

definition from_kite_option_type :: "pyval \<Rightarrow> option_type option" where
  "from_kite_option_type v =
     (if v = PStr ''CE'' then Some CE else if v = PStr ''PE'' then Some PE else None)"

section \<open>Values\<close>

text \<open>The name of the function in the code is \<open>_decimal\<close>.\<close>

definition kite_decimal :: "pyval \<Rightarrow> exn + decimal option" where
  "kite_decimal v =
     (if v = PNone \<or> v = PStr [] then Inr None
      else case decimal_of v of
             None \<Rightarrow> Inl (KiteMappingError ''cannot convert to Decimal'')
           | Some x \<Rightarrow> Inr (Some x))"

definition decimal_or_zero :: "pyval \<Rightarrow> exn + decimal" where
  "decimal_or_zero v = map_sum id (\<lambda>r. case r of None \<Rightarrow> 0 | Some x \<Rightarrow> x) (kite_decimal v)"

definition price_or_none :: "pyval \<Rightarrow> exn + decimal option" where
  "price_or_none v =
     map_sum id (\<lambda>r. case r of None \<Rightarrow> None | Some x \<Rightarrow> if x \<noteq> 0 then Some x else None) (kite_decimal v)"

fun localize :: "pyval \<Rightarrow> dt option" where
  "localize (PDatetime t None) = Some (t - ist_offset)"
| "localize (PDatetime t (Some off)) = Some (t - off)"
| "localize v = None"

section \<open>Requests\<close>

definition opt_entry :: "string \<Rightarrow> pyval option \<Rightarrow> pydict" where
  "opt_entry k v = (case v of None \<Rightarrow> [] | Some x \<Rightarrow> [(k, x)])"

definition place_order_kwargs :: "kite_names \<Rightarrow> place_request \<Rightarrow> pydict" where
  "place_order_kwargs N r =
     [(''variety'', PStr (kn_regular N)),
      (''exchange'', PStr (to_kite_exchange N (pr_exchange r))),
      (''tradingsymbol'', PStr (pr_symbol r)),
      (''transaction_type'', PStr (to_kite_transaction_type N (pr_side r))),
      (''quantity'', PInt (pr_quantity r)),
      (''product'', PStr (to_kite_product N (pr_product r))),
      (''order_type'', PStr (to_kite_order_type N (pr_order_type r))),
      (''tag'', PStr (pr_tag r))] @
     opt_entry ''price'' (map_option PFloat (pr_price r)) @
     opt_entry ''trigger_price'' (map_option PFloat (pr_trigger r))"

definition modify_order_kwargs :: "kite_names \<Rightarrow> modify_request \<Rightarrow> pydict" where
  "modify_order_kwargs N r =
     [(''variety'', PStr (kn_regular N)), (''order_id'', PStr (mr_order_id r))] @
     opt_entry ''quantity'' (map_option PInt (mr_quantity r)) @
     opt_entry ''price'' (map_option PFloat (mr_price r)) @
     opt_entry ''trigger_price'' (map_option PFloat (mr_trigger r)) @
     opt_entry ''order_type'' (map_option (\<lambda>x. PStr (to_kite_order_type N x)) (mr_order_type r))"

definition quote_key :: "kite_names \<Rightarrow> instrument_id \<Rightarrow> string" where
  "quote_key N i = to_kite_exchange N (ii_exchange i) @ '':'' @ ii_symbol i"

section \<open>Responses\<close>

definition sbind :: "exn + 'a \<Rightarrow> ('a \<Rightarrow> exn + 'b) \<Rightarrow> exn + 'b" where
  "sbind r f = (case r of Inl e \<Rightarrow> Inl e | Inr x \<Rightarrow> f x)"

text \<open>\<open>except (KeyError, TypeError, ValueError)\<close>.\<close>

definition or_mapping_error :: "exn + 'a \<Rightarrow> exn + 'a" where
  "or_mapping_error r =
     (case r of
        Inl e \<Rightarrow> if e \<in> {KeyError, TypeError, ValueError}
                 then Inl (KiteMappingError ''cannot map Kite dict'') else Inl e
      | Inr x \<Rightarrow> Inr x)"

definition kite_to_broker_order :: "(pyval \<Rightarrow> string) \<Rightarrow> kite_names \<Rightarrow> pydict \<Rightarrow> exn + broker_order" where
  "kite_to_broker_order rend N data = or_mapping_error (
     sbind (py_int (py_or (dget data ''filled_quantity'') (PInt 0))) (\<lambda>filled.
     sbind (py_int (py_or (dget data ''quantity'') (PInt 0))) (\<lambda>quantity.
     sbind (ditem data ''order_id'') (\<lambda>oid.
     sbind (from_kite_status (dget_or data ''status'' (PStr []))) (\<lambda>status.
     sbind (sbind (ditem data ''exchange'') (from_kite_exchange N)) (\<lambda>exch.
     sbind (ditem data ''tradingsymbol'') (\<lambda>symbol.
     sbind (table_get (transaction_from_kite N) (dget_or data ''transaction_type'' (PStr [])) BUY) (\<lambda>side.
     sbind (from_kite_product N (dget_or data ''product'' (PStr []))) (\<lambda>product.
     sbind (price_or_none (dget data ''average_price'')) (\<lambda>avg.
     sbind (price_or_none (dget data ''trigger_price'')) (\<lambda>trigger.
     sbind (opt_str_field (py_or (dget data ''tag'') PNone)) (\<lambda>tag.
     sbind (str_field symbol) (\<lambda>sym.
     sbind (opt_str_field (py_or (dget data ''status_message'') PNone)) (\<lambda>msg.
     mk_broker_order
       \<lparr>bo_id = py_str rend oid, bo_tag = tag, bo_status = status, bo_exchange = exch, bo_symbol = sym,
        bo_side = side, bo_product = product,
        bo_order_type = from_kite_order_type N (dget_or data ''order_type'' (PStr [])),
        bo_quantity = quantity, bo_filled = filled, bo_avg_price = avg, bo_trigger = trigger,
        bo_placed_at = localize (dget data ''order_timestamp''),
        bo_filled_at = (if filled > 0 then localize (dget data ''exchange_timestamp'') else None),
        bo_updated_at = localize (py_or (dget data ''exchange_update_timestamp'')
                                        (dget data ''exchange_timestamp'')),
        bo_message = msg\<rparr>))))))))))))))"

definition to_broker_position :: "kite_names \<Rightarrow> pydict \<Rightarrow> exn + broker_position" where
  "to_broker_position N data = or_mapping_error (
     sbind (sbind (ditem data ''exchange'') (from_kite_exchange N)) (\<lambda>exch.
     sbind (ditem data ''tradingsymbol'') (\<lambda>symbol.
     sbind (from_kite_product N (dget_or data ''product'' (PStr []))) (\<lambda>product.
     sbind (py_int (py_or (dget data ''quantity'') (PInt 0))) (\<lambda>quantity.
     sbind (decimal_or_zero (dget data ''average_price'')) (\<lambda>avg.
     sbind (decimal_or_zero (dget data ''last_price'')) (\<lambda>last_p.
     sbind (decimal_or_zero (dget data ''pnl'')) (\<lambda>pnl.
     sbind (str_field symbol) (\<lambda>sym.
     Inr \<lparr>bp_exchange = exch, bp_symbol = sym, bp_product = product, bp_quantity = quantity,
          bp_avg_price = avg, bp_last_price = last_p, bp_pnl = pnl\<rparr>)))))))))"

record broker_holding =
  bh_exchange :: exchange
  bh_symbol :: string
  bh_quantity :: int
  bh_avg_price :: decimal
  bh_last_price :: decimal

definition to_broker_holding :: "kite_names \<Rightarrow> pydict \<Rightarrow> exn + broker_holding" where
  "to_broker_holding N data = or_mapping_error (
     sbind (sbind (ditem data ''exchange'') (from_kite_exchange N)) (\<lambda>exch.
     sbind (ditem data ''tradingsymbol'') (\<lambda>symbol.
     sbind (py_int (py_or (dget data ''quantity'') (PInt 0))) (\<lambda>quantity.
     sbind (decimal_or_zero (dget data ''average_price'')) (\<lambda>avg.
     sbind (decimal_or_zero (dget data ''last_price'')) (\<lambda>last_p.
     sbind (str_field symbol) (\<lambda>sym.
     Inr \<lparr>bh_exchange = exch, bh_symbol = sym, bh_quantity = quantity, bh_avg_price = avg,
          bh_last_price = last_p\<rparr>)))))))"

text \<open>\<open>data.get(key, {}) or {}\<close>, on which \<open>.get\<close> is called next: only a dict has it.\<close>

definition sub_dict :: "pydict \<Rightarrow> string \<Rightarrow> exn + pydict" where
  "sub_dict data k =
     (case py_or (dget_or data k (PDict [])) (PDict []) of PDict d \<Rightarrow> Inr d | _ \<Rightarrow> Inl AttributeError)"

definition to_broker_margins :: "string \<Rightarrow> pydict \<Rightarrow> exn + broker_margins" where
  "to_broker_margins segment data = or_mapping_error (
     sbind (sub_dict data ''available'') (\<lambda>available.
     sbind (sub_dict data ''utilised'') (\<lambda>utilised.
     (let debits = dget utilised ''debits'';
          used = (if debits = PNone then dget data ''net'' else debits)
      in sbind (decimal_or_zero (py_or (dget available ''cash'') (dget available ''live_balance''))) (\<lambda>cash.
         sbind (decimal_or_zero used) (\<lambda>u.
         sbind (decimal_or_zero (dget available ''opening_balance'')) (\<lambda>opening.
         Inr \<lparr>bm_segment = segment, bm_available_cash = cash, bm_used_margin = u,
              bm_opening_balance = opening\<rparr>)))))))"

record broker_quote =
  bq_instrument :: instrument_id
  bq_last_price :: decimal
  bq_open :: decimal
  bq_high :: decimal
  bq_low :: decimal
  bq_close :: decimal
  bq_volume :: int
  bq_timestamp :: dt

definition to_broker_quote :: "dt \<Rightarrow> instrument_id \<Rightarrow> pydict \<Rightarrow> exn + broker_quote" where
  "to_broker_quote now i data = or_mapping_error (
     sbind (sub_dict data ''ohlc'') (\<lambda>ohlc.
     sbind (decimal_or_zero (dget data ''last_price'')) (\<lambda>last_p.
     sbind (decimal_or_zero (dget ohlc ''open'')) (\<lambda>op.
     sbind (decimal_or_zero (dget ohlc ''high'')) (\<lambda>hi.
     sbind (decimal_or_zero (dget ohlc ''low'')) (\<lambda>lo.
     sbind (decimal_or_zero (dget ohlc ''close'')) (\<lambda>cl.
     sbind (py_int (py_or (py_or (dget data ''volume'') (dget data ''volume_traded'')) (PInt 0))) (\<lambda>vol.
     Inr \<lparr>bq_instrument = i, bq_last_price = last_p, bq_open = op, bq_high = hi, bq_low = lo,
          bq_close = cl, bq_volume = vol,
          bq_timestamp = (case localize (dget data ''timestamp'') of None \<Rightarrow> now | Some t \<Rightarrow> t)\<rparr>))))))))"

definition to_broker_instrument :: "kite_names \<Rightarrow> pydict \<Rightarrow> exn + broker_instrument" where
  "to_broker_instrument N data = or_mapping_error (
     sbind (price_or_none (dget data ''strike'')) (\<lambda>strike.
     sbind (sbind (ditem data ''instrument_token'') py_int) (\<lambda>token.
     sbind (sbind (ditem data ''exchange'') (from_kite_exchange N)) (\<lambda>exch.
     sbind (ditem data ''tradingsymbol'') (\<lambda>symbol.
     sbind (py_int (py_or (dget data ''lot_size'') (PInt 1))) (\<lambda>lot.
     sbind (decimal_or_zero (dget data ''tick_size'')) (\<lambda>tick.
     sbind (str_field symbol) (\<lambda>sym.
     sbind (str_field (py_or (dget data ''name'') symbol)) (\<lambda>name.
     sbind (date_field (dget data ''expiry'')) (\<lambda>expiry.
     mk_broker_instrument
       \<lparr>bi_token = token, bi_exchange = exch, bi_symbol = sym, bi_name = name, bi_lot_size = lot,
        bi_tick_size = (if tick \<noteq> 0 then tick else 5/100), bi_expiry = expiry, bi_strike = strike,
        bi_option_type = from_kite_option_type (dget_or data ''instrument_type'' (PStr []))\<rparr>))))))))))"

section \<open>Exceptions\<close>

datatype ext_class =
    TokenException | PermissionException | InputException | OrderException | NetworkException
  | DataException | GeneralException
  | ConnectTimeout | ReadTimeout | ReqTimeout | ReqConnectionError

type_synonym ext_exc = "ext_class list \<times> string"

datatype raised = Ext "ext_class list" string | Own exn

definition isinstance :: "raised \<Rightarrow> ext_class \<Rightarrow> bool" where
  "isinstance e c = (case e of Ext cs msg \<Rightarrow> c \<in> set cs | Own x \<Rightarrow> False)"

text \<open>In the package requests a connect timeout is both a connection error and a timeout.\<close>

definition requests_classes :: "raised \<Rightarrow> bool" where
  "requests_classes e \<longleftrightarrow>
     (isinstance e ConnectTimeout \<longrightarrow> isinstance e ReqTimeout \<and> isinstance e ReqConnectionError) \<and>
     (isinstance e ReadTimeout \<longrightarrow> isinstance e ReqTimeout)"

definition translate_kite_exception :: "raised \<Rightarrow> bool \<Rightarrow> exn" where
  "translate_kite_exception e mutating =
     (if isinstance e TokenException then BrokerAuthenticationError ''Kite session invalid/expired''
      else if isinstance e PermissionException then BrokerAuthenticationError ''Kite permission denied''
      else if isinstance e InputException then InvalidOrderRequestError ''Kite rejected the request as invalid''
      else if isinstance e OrderException then OrderRejectedError ''Kite order error''
      else if isinstance e ConnectTimeout then BrokerConnectionError ''Kite connect timeout (request not sent)''
      else if isinstance e ReadTimeout then BrokerTimeoutError ''Kite read timeout (outcome unknown)''
      else if isinstance e ReqTimeout then BrokerTimeoutError ''Kite request timeout (outcome unknown)''
      else if isinstance e ReqConnectionError then BrokerConnectionError ''Kite connection error''
      else if isinstance e NetworkException then
        (if mutating then BrokerTimeoutError ''Kite network/OMS error, outcome unknown''
         else BrokerConnectionError ''Kite network/OMS error'')
      else if isinstance e DataException then KiteMappingError ''Kite returned malformed data''
      else if isinstance e GeneralException then BrokerErrorBase ''Kite general error''
      else case e of
             Own x \<Rightarrow> if is_broker_error x then x else BrokerErrorBase ''unexpected error from Kite client''
           | Ext cs msg \<Rightarrow> BrokerErrorBase ''unexpected error from Kite client'')"

fun contains :: "string \<Rightarrow> string \<Rightarrow> bool" where
  "contains pat s = (take (length pat) s = pat \<or> (case s of [] \<Rightarrow> False | c # cs \<Rightarrow> contains pat cs))"

definition raised_text :: "raised \<Rightarrow> string" where
  "raised_text e = (case e of Ext cs msg \<Rightarrow> msg | Own x \<Rightarrow> [])"

definition is_order_not_found :: "raised \<Rightarrow> bool" where
  "is_order_not_found e \<longleftrightarrow>
     (isinstance e InputException \<or> isinstance e GeneralException) \<and>
     (let message = lower (raised_text e)
      in contains ''order'' message \<and> (contains ''not found'' message \<or> contains ''invalid'' message))"

definition is_instrument_not_found :: "raised \<Rightarrow> bool" where
  "is_instrument_not_found e = isinstance e InputException"

end
