(* ===== verification/Kite_Session.thy ===== *)
theory Kite_Session
  imports Kite_Mapper Effects "HOL-Library.AList"
begin

text \<open>
  \<open>brokers/kite/kite_auth.py\<close> and \<open>brokers/kite/token_manager.py\<close>: the Kite session of a process
  and the daily token. The KiteConnect client is an argument: what it answers to the \<open>n\<close>-th call of
  the process, and how long it takes, is arbitrary. The calls made are logged, so that theorems can
  say what was sent. The token store is the protocol \<open>TokenStore\<close>, an argument over its own state.
\<close>

section \<open>The client\<close>

datatype kite_call =
    KSetToken string
  | KProfile
  | KGenerateSession string string
  | KPlace pydict
  | KModify pydict
  | KCancel string string
  | KOrders
  | KOrderHistory string
  | KPositions
  | KHoldings
  | KMargins
  | KQuote "string list"
  | KLtp "string list"
  | KInstruments string

type_synonym kite_client = "nat \<Rightarrow> kite_call \<Rightarrow> nat \<times> (ext_exc + pyval)"

record token_record =
  tr_token :: string
  tr_wall :: int
  tr_offset :: int

definition mk_token_record :: "string \<Rightarrow> int \<Rightarrow> int option \<Rightarrow> exn + token_record" where
  "mk_token_record token wall offset =
     (if token = [] then Inl ValueError
      else case offset of
             None \<Rightarrow> Inl ValueError
           | Some z \<Rightarrow> Inr \<lparr>tr_token = token, tr_wall = wall, tr_offset = z\<rparr>)"

record 'f token_store =
  ts_get :: "'f \<Rightarrow> string option"
  ts_set :: "string \<Rightarrow> 'f \<Rightarrow> 'f"
  ts_record :: "'f \<Rightarrow> token_record option"
  ts_save :: "token_record \<Rightarrow> 'f \<Rightarrow> 'f"

text \<open>
  The state of a process that uses Kite: the clock, the calls made so far, the store, the session
  flag, the instrument dumps with their dates and load times.
\<close>

type_synonym dump = "pydict list"

record 'f kite =
  kt_now :: int
  kt_log :: "kite_call list"
  kt_store :: 'f
  kt_active :: bool
  kt_cache :: "(string \<times> dump) list"
  kt_cache_date :: "(string \<times> date) list"
  kt_loaded_at :: "(string \<times> int) list"

type_synonym ('f, 'a) kite_act = "('f kite, 'a) act"

definition new_kite :: "'f \<Rightarrow> int \<Rightarrow> 'f kite" where
  "new_kite store t =
     \<lparr>kt_now = t, kt_log = [], kt_store = store, kt_active = False, kt_cache = [],
      kt_cache_date = [], kt_loaded_at = []\<rparr>"

definition client_call :: "kite_client \<Rightarrow> kite_call \<Rightarrow> ('f, raised + pyval) kite_act" where
  "client_call K c s =
     (case K (length (kt_log s)) c of
        (n, r) \<Rightarrow> (s\<lparr>kt_log := kt_log s @ [c], kt_now := kt_now s + int n\<rparr>,
         Inr (map_sum (\<lambda>(cs, msg). Ext cs msg) id r)))"

text \<open>Applying a token is local to the client and does not fail.\<close>

definition set_client_token :: "string \<Rightarrow> ('f, unit) kite_act" where
  "set_client_token token = modify (\<lambda>s. s\<lparr>kt_log := kt_log s @ [KSetToken token]\<rparr>)"

definition kite_sleep :: "nat \<Rightarrow> ('f, unit) kite_act" where
  "kite_sleep n = modify (\<lambda>s. s\<lparr>kt_now := kt_now s + int n\<rparr>)"

section \<open>The environment store\<close>

definition env_store :: "string \<Rightarrow> (string \<times> string) list token_store" where
  "env_store var =
     \<lparr>ts_get = (\<lambda>f. case map_of f var of None \<Rightarrow> None | Some v \<Rightarrow> if v = [] then None else Some v),
      ts_set = (\<lambda>token f. AList.update var token f),
      ts_record = (\<lambda>f. None), ts_save = (\<lambda>r f. AList.update var (tr_token r) f)\<rparr>"

section \<open>The session\<close>

definition activate :: "'f token_store \<Rightarrow> ('f, unit) kite_act" where
  "activate T =
     bnd (asks (\<lambda>s. ts_get T (kt_store s))) (\<lambda>token.
     if token = None \<or> token = Some []
     then sq (modify (\<lambda>s. s\<lparr>kt_active := False\<rparr>))
            (throw (BrokerAuthenticationError ''no Kite access token available''))
     else sq (set_client_token (the token)) (modify (\<lambda>s. s\<lparr>kt_active := True\<rparr>)))"

definition invalidate :: "('f, unit) kite_act" where
  "invalidate = modify (\<lambda>s. s\<lparr>kt_active := False\<rparr>)"

definition generate_session ::
    "kite_client \<Rightarrow> 'f token_store \<Rightarrow> string \<Rightarrow> string \<Rightarrow> ('f, string) kite_act" where
  "generate_session K T api_secret request_token =
     bnd (client_call K (KGenerateSession request_token api_secret)) (\<lambda>r.
     case r of
       Inl e \<Rightarrow> throw (translate_kite_exception e False)
     | Inr (PDict data) \<Rightarrow>
         (let token = dget data ''access_token''
          in if \<not> truthy token
             then throw (BrokerAuthenticationError ''Kite generate_session returned no access_token'')
             else case token of
                    PStr t \<Rightarrow>
                      sq (set_client_token t)
                      (sq (modify (\<lambda>s. s\<lparr>kt_store := ts_set T t (kt_store s), kt_active := True\<rparr>))
                      (ret t))
                  | _ \<Rightarrow> throw TypeError)
     | Inr _ \<Rightarrow> throw AttributeError)"

section \<open>The token manager\<close>

definition is_from_today :: "token_record \<Rightarrow> int \<Rightarrow> bool" where
  "is_from_today r now \<longleftrightarrow> tr_wall r div day_micros = ist_date now"

definition validate_token :: "kite_client \<Rightarrow> string \<Rightarrow> ('f, bool) kite_act" where
  "validate_token K token =
     sq (set_client_token token)
     (bnd (client_call K KProfile) (\<lambda>r. ret (case r of Inl e \<Rightarrow> False | Inr v \<Rightarrow> True)))"

definition check_existing :: "kite_client \<Rightarrow> 'f token_store \<Rightarrow> ('f, string option) kite_act" where
  "check_existing K T =
     bnd (asks (\<lambda>s. (ts_record T (kt_store s), ts_get T (kt_store s), kt_now s))) (\<lambda>(recd, bare, t).
     case recd of
       Some r \<Rightarrow>
         if is_from_today r t
         then bnd (validate_token K (tr_token r)) (\<lambda>ok. ret (if ok then Some (tr_token r) else None))
         else ret None
     | None \<Rightarrow>
         (case bare of
            None \<Rightarrow> ret None
          | Some token \<Rightarrow>
              if token = [] then ret None
              else bnd (validate_token K token) (\<lambda>ok. ret (if ok then Some token else None))))"

definition exchange_request_token ::
    "kite_client \<Rightarrow> 'f token_store \<Rightarrow> string \<Rightarrow> string \<Rightarrow> ('f, string) kite_act" where
  "exchange_request_token K T api_secret request_token =
     bnd (generate_session K T api_secret request_token) (\<lambda>token.
     bnd (asks kt_now) (\<lambda>t.
     bnd (lift_sum (mk_token_record token (t + ist_offset) (Some ist_offset))) (\<lambda>r.
     sq (modify (\<lambda>s. s\<lparr>kt_store := ts_save T r (kt_store s)\<rparr>)) (ret token))))"

text \<open>
  The login callback is given the login URL and answers with a request token, or raises; the URL is
  a constant of the client.
\<close>

definition ensure_valid_token ::
    "kite_client \<Rightarrow> 'f token_store \<Rightarrow> string \<Rightarrow> string \<Rightarrow> (string \<Rightarrow> exn + string) option \<Rightarrow> ('f, string) kite_act" where
  "ensure_valid_token K T api_secret login_url on_login =
     bnd (check_existing K T) (\<lambda>existing.
     case existing of
       Some token \<Rightarrow> ret token
     | None \<Rightarrow>
         (case on_login of
            None \<Rightarrow> throw (BrokerAuthenticationError ''no valid Kite access token is available'')
          | Some login \<Rightarrow>
              bnd (lift_sum (login login_url)) (\<lambda>request_token.
              bnd (exchange_request_token K T api_secret request_token) (\<lambda>token.
              bnd (validate_token K token) (\<lambda>ok.
              if ok then ret token
              else throw (BrokerAuthenticationError ''the newly generated Kite access token failed validation''))))))"

end
