(* ===== verification/Kite_Broker.thy ===== *)
theory Kite_Broker
  imports Kite_Session World
begin

text \<open>
  \<open>brokers/kite/kite_broker.py\<close>: the live broker. Reads go through \<open>read_call\<close>, the retry loop of
  \<open>_read\<close>; placing, modifying and cancelling are a single client call each. The instrument dump of an
  exchange is kept for one trading day. The fields \<open>raw_response\<close>, latencies, the diagnostics of a
  missed contract and log lines are left out; the order stream's callbacks are in the second part.
\<close>

record kite_config =
  kc_attempts :: nat
  kc_delay :: nat
  kc_batch :: nat

definition mk_kite_config :: "int \<Rightarrow> int \<Rightarrow> int \<Rightarrow> exn + kite_config" where
  "mk_kite_config attempts delay batch =
     (if 0 < attempts \<and> 0 \<le> delay \<and> 0 < batch
      then Inr \<lparr>kc_attempts = nat attempts, kc_delay = nat delay, kc_batch = nat batch\<rparr> else Inl ValueError)"

record kite_setup =
  kp_client :: kite_client
  kp_names :: kite_names
  kp_config :: kite_config
  kp_render :: "pyval \<Rightarrow> string"

section \<open>The retry loop\<close>

definition read_error :: "raised \<Rightarrow> exn" where
  "read_error e =
     (case e of Own x \<Rightarrow> if is_broker_error x then x else translate_kite_exception e False
      | Ext cs msg \<Rightarrow> translate_kite_exception e False)"

fun read_tries ::
    "nat \<Rightarrow> nat \<Rightarrow> int option \<Rightarrow> ('f, raised + 'a) kite_act \<Rightarrow> exn \<Rightarrow> ('f, 'a) kite_act" where
  "read_tries 0 delay deadline fn last_error = throw last_error"
| "read_tries (Suc n) delay deadline fn last_error =
     bnd fn (\<lambda>r.
     case r of
       Inr x \<Rightarrow> ret x
     | Inl e \<Rightarrow>
         (let err = read_error e
          in if \<not> is_retryable_broker_error err then throw err
             else if n = 0 then throw err
             else bnd (asks kt_now) (\<lambda>t.
                  if (case deadline of None \<Rightarrow> False | Some d \<Rightarrow> t + int delay > d) then throw err
                  else sq (kite_sleep delay) (read_tries n delay deadline fn err))))"

definition read_call ::
    "kite_setup \<Rightarrow> nat option \<Rightarrow> ('f, raised + 'a) kite_act \<Rightarrow> ('f, 'a) kite_act" where
  "read_call P timeout fn =
     bnd (asks kt_now) (\<lambda>t.
     read_tries (kc_attempts (kp_config P)) (kc_delay (kp_config P))
       (map_option (\<lambda>n. t + int n) timeout) fn AssertionError)"

text \<open>What is iterated over, and what \<open>.get\<close> and \<open>.items\<close> are called on.\<close>

fun as_list :: "pyval \<Rightarrow> exn + pyval list" where
  "as_list (PList xs) = Inr xs"
| "as_list (PDict d) = Inr (map (\<lambda>(k, v). PStr k) d)"
| "as_list v = Inl TypeError"

fun as_dict :: "pyval \<Rightarrow> exn + pydict" where
  "as_dict (PDict d) = Inr d"
| "as_dict v = Inl AttributeError"

fun map_sum_list :: "('a \<Rightarrow> exn + 'b) \<Rightarrow> 'a list \<Rightarrow> exn + 'b list" where
  "map_sum_list f [] = Inr []"
| "map_sum_list f (x # xs) = sbind (f x) (\<lambda>y. sbind (map_sum_list f xs) (\<lambda>ys. Inr (y # ys)))"

text \<open>The client's dump is a list of dicts; another row would be refused here, not at its first use.\<close>

definition rows_of :: "pyval \<Rightarrow> exn + pydict list" where
  "rows_of v = sbind (as_list v) (map_sum_list as_dict)"

section \<open>Lifecycle\<close>

definition kite_authenticate :: "kite_setup \<Rightarrow> 'f token_store \<Rightarrow> ('f, unit) kite_act" where
  "kite_authenticate P T =
     sq (activate T)
     (bnd (client_call (kp_client P) KProfile) (\<lambda>r.
      case r of
        Inr v \<Rightarrow> ret ()
      | Inl e \<Rightarrow> sq invalidate (throw (translate_kite_exception e False))))"

definition kite_health :: "kite_setup \<Rightarrow> nat option \<Rightarrow> ('f, health_status) kite_act" where
  "kite_health P timeout =
     bnd (catch_if is_broker_error
            (sq (read_call P timeout (client_call (kp_client P) KProfile)) (ret True)) (\<lambda>e. ret False)) (\<lambda>ok.
     bnd (asks kt_now) (\<lambda>t. ret \<lparr>hs_healthy = ok, hs_checked_at = t\<rparr>))"

section \<open>Orders\<close>

definition kite_place :: "kite_setup \<Rightarrow> place_request \<Rightarrow> ('f, string) kite_act" where
  "kite_place P req =
     bnd (client_call (kp_client P) (KPlace (place_order_kwargs (kp_names P) req))) (\<lambda>r.
     case r of
       Inl e \<Rightarrow> throw (translate_kite_exception e True)
     | Inr oid \<Rightarrow> ret (py_str (kp_render P) oid))"

definition kite_modify :: "kite_setup \<Rightarrow> modify_request \<Rightarrow> ('f, unit) kite_act" where
  "kite_modify P req =
     bnd (client_call (kp_client P) (KModify (modify_order_kwargs (kp_names P) req))) (\<lambda>r.
     case r of
       Inl e \<Rightarrow> if isinstance e OrderException
                then throw (OrderNotModifiableError ''Kite could not modify order'')
                else throw (translate_kite_exception e True)
     | Inr v \<Rightarrow> ret ())"

definition kite_cancel :: "kite_setup \<Rightarrow> string \<Rightarrow> ('f, unit) kite_act" where
  "kite_cancel P oid =
     bnd (client_call (kp_client P) (KCancel (kn_regular (kp_names P)) oid)) (\<lambda>r.
     case r of
       Inl e \<Rightarrow> if isinstance e OrderException
                then throw (OrderNotCancellableError ''Kite could not cancel order'')
                else throw (translate_kite_exception e True)
     | Inr v \<Rightarrow> ret ())"

definition fetch_history :: "kite_setup \<Rightarrow> string \<Rightarrow> ('f, raised + pyval) kite_act" where
  "fetch_history P oid =
     bnd (client_call (kp_client P) (KOrderHistory oid)) (\<lambda>r.
     ret (case r of
            Inl e \<Rightarrow> if is_order_not_found e then Inl (Own (OrderNotFoundError ''no Kite order'')) else Inl e
          | Inr v \<Rightarrow> Inr v))"

definition kite_get_order :: "kite_setup \<Rightarrow> nat option \<Rightarrow> string \<Rightarrow> ('f, broker_order) kite_act" where
  "kite_get_order P timeout oid =
     bnd (read_call P timeout (fetch_history P oid)) (\<lambda>history.
     if \<not> truthy history then throw (OrderNotFoundError ''no Kite order'')
     else lift_sum (sbind (as_list history) (\<lambda>rows.
            sbind (as_dict (last rows)) (kite_to_broker_order (kp_render P) (kp_names P)))))"

definition kite_orders :: "kite_setup \<Rightarrow> nat option \<Rightarrow> ('f, broker_order list) kite_act" where
  "kite_orders P timeout =
     bnd (read_call P timeout (client_call (kp_client P) KOrders)) (\<lambda>raw.
     lift_sum (sbind (as_list raw) (map_sum_list (\<lambda>v.
       sbind (as_dict v) (kite_to_broker_order (kp_render P) (kp_names P))))))"

text \<open>\<open>max\<close> keeps the first of equal orders; an order without a time sorts before every other.\<close>

definition placed_key :: "broker_order \<Rightarrow> dt option" where
  "placed_key = bo_placed_at"

fun later_key :: "dt option \<Rightarrow> dt option \<Rightarrow> bool" where
  "later_key (Some a) (Some b) = (a > b)"
| "later_key (Some a) None = True"
| "later_key None k = False"

definition latest_order :: "broker_order \<Rightarrow> broker_order list \<Rightarrow> broker_order" where
  "latest_order o1 os = foldl (\<lambda>best x. if later_key (placed_key x) (placed_key best) then x else best) o1 os"

definition kite_find_tag :: "kite_setup \<Rightarrow> nat option \<Rightarrow> string \<Rightarrow> ('f, broker_order option) kite_act" where
  "kite_find_tag P timeout tag =
     bnd (kite_orders P timeout) (\<lambda>orders.
     ret (case filter (\<lambda>x. bo_tag x = Some tag) orders of
            [] \<Rightarrow> None
          | o1 # os \<Rightarrow> Some (latest_order o1 os)))"

section \<open>Portfolio\<close>

definition kite_positions :: "kite_setup \<Rightarrow> nat option \<Rightarrow> ('f, broker_position list) kite_act" where
  "kite_positions P timeout =
     bnd (read_call P timeout (client_call (kp_client P) KPositions)) (\<lambda>raw.
     (let net = (case raw of PDict d \<Rightarrow> dget_or d ''net'' (PList []) | _ \<Rightarrow> PList [])
      in lift_sum (sbind (as_list net) (map_sum_list (\<lambda>v. sbind (as_dict v) (to_broker_position (kp_names P)))))))"

definition kite_holdings :: "kite_setup \<Rightarrow> nat option \<Rightarrow> ('f, broker_holding list) kite_act" where
  "kite_holdings P timeout =
     bnd (read_call P timeout (client_call (kp_client P) KHoldings)) (\<lambda>raw.
     lift_sum (sbind (as_list raw) (map_sum_list (\<lambda>v. sbind (as_dict v) (to_broker_holding (kp_names P))))))"

definition kite_margins :: "kite_setup \<Rightarrow> nat option \<Rightarrow> ('f, broker_margins) kite_act" where
  "kite_margins P timeout =
     bnd (read_call P timeout (client_call (kp_client P) KMargins)) (\<lambda>raw.
     (let block = (case raw of PDict d \<Rightarrow> dget_or d ''equity'' raw | _ \<Rightarrow> PDict [])
      in lift_sum (sbind (as_dict block) (to_broker_margins ''equity''))))"

section \<open>Market data\<close>

function chunks :: "nat \<Rightarrow> 'a list \<Rightarrow> 'a list list" where
  "chunks k xs = (if xs = [] \<or> k = 0 then [] else take k xs # chunks k (drop k xs))"
  by auto
termination by (relation "measure (\<lambda>(k, xs). length xs)") auto

declare chunks.simps [simp del]

text \<open>\<open>dict(zip(keys, chunk))\<close>: a later instrument replaces an earlier one with the same key.\<close>

definition key_to_instrument :: "kite_names \<Rightarrow> instrument_id list \<Rightarrow> (string \<times> instrument_id) list" where
  "key_to_instrument N chunk = rev (map (\<lambda>i. (quote_key N i, i)) chunk)"

fun quote_items ::
    "kite_names \<Rightarrow> dt \<Rightarrow> instrument_id list \<Rightarrow> pydict \<Rightarrow> (instrument_id \<times> broker_quote) list \<Rightarrow>
     exn + (instrument_id \<times> broker_quote) list" where
  "quote_items N t chunk [] acc = Inr acc"
| "quote_items N t chunk ((key, data) # items) acc =
     (case map_of (key_to_instrument N chunk) key of
        None \<Rightarrow> quote_items N t chunk items acc
      | Some i \<Rightarrow>
          sbind (as_dict data) (\<lambda>d.
          sbind (to_broker_quote t i d) (\<lambda>q.
          quote_items N t chunk items (AList.update i q acc))))"

fun quote_chunks ::
    "kite_setup \<Rightarrow> nat option \<Rightarrow> instrument_id list list \<Rightarrow> (instrument_id \<times> broker_quote) list \<Rightarrow>
     ('f, (instrument_id \<times> broker_quote) list) kite_act" where
  "quote_chunks P timeout [] acc = ret acc"
| "quote_chunks P timeout (chunk # cs) acc =
     bnd (read_call P timeout (client_call (kp_client P) (KQuote (map (quote_key (kp_names P)) chunk)))) (\<lambda>raw.
     bnd (asks kt_now) (\<lambda>t.
     bnd (lift_sum (sbind (as_dict raw) (\<lambda>d. quote_items (kp_names P) t chunk d acc))) (\<lambda>acc1.
     quote_chunks P timeout cs acc1)))"

definition kite_quote ::
    "kite_setup \<Rightarrow> nat option \<Rightarrow> instrument_id list \<Rightarrow> ('f, (instrument_id \<times> broker_quote) list) kite_act" where
  "kite_quote P timeout ids = quote_chunks P timeout (chunks (kc_batch (kp_config P)) ids) []"

fun ltp_items ::
    "kite_names \<Rightarrow> instrument_id list \<Rightarrow> pydict \<Rightarrow> (instrument_id \<times> decimal) list \<Rightarrow>
     exn + (instrument_id \<times> decimal) list" where
  "ltp_items N chunk [] acc = Inr acc"
| "ltp_items N chunk ((key, data) # items) acc =
     sbind (as_dict data) (\<lambda>d.
     sbind (kite_decimal (dget d ''last_price'')) (\<lambda>price.
     ltp_items N chunk items
       (case (map_of (key_to_instrument N chunk) key, price) of
          (Some i, Some p) \<Rightarrow> AList.update i p acc
        | _ \<Rightarrow> acc)))"

fun ltp_chunks ::
    "kite_setup \<Rightarrow> nat option \<Rightarrow> instrument_id list list \<Rightarrow> (instrument_id \<times> decimal) list \<Rightarrow>
     ('f, (instrument_id \<times> decimal) list) kite_act" where
  "ltp_chunks P timeout [] acc = ret acc"
| "ltp_chunks P timeout (chunk # cs) acc =
     bnd (read_call P timeout (client_call (kp_client P) (KLtp (map (quote_key (kp_names P)) chunk)))) (\<lambda>raw.
     bnd (lift_sum (sbind (as_dict raw) (\<lambda>d. ltp_items (kp_names P) chunk d acc))) (\<lambda>acc1.
     ltp_chunks P timeout cs acc1))"

definition kite_ltp ::
    "kite_setup \<Rightarrow> nat option \<Rightarrow> instrument_id list \<Rightarrow> ('f, (instrument_id \<times> decimal) list) kite_act" where
  "kite_ltp P timeout ids = ltp_chunks P timeout (chunks (kc_batch (kp_config P)) ids) []"

section \<open>Instruments\<close>

definition fetch_and_store :: "kite_setup \<Rightarrow> nat option \<Rightarrow> string \<Rightarrow> date \<Rightarrow> ('f, dump) kite_act" where
  "fetch_and_store P timeout ex td =
     bnd (read_call P timeout (client_call (kp_client P) (KInstruments ex))) (\<lambda>raw.
     bnd (lift_sum (rows_of raw)) (\<lambda>rows.
     sq (modify (\<lambda>s. s\<lparr>kt_cache := AList.update ex rows (kt_cache s),
                      kt_cache_date := AList.update ex td (kt_cache_date s),
                      kt_loaded_at := AList.update ex (kt_now s) (kt_loaded_at s)\<rparr>))
       (ret rows)))"

definition instrument_rows :: "kite_setup \<Rightarrow> nat option \<Rightarrow> exchange \<Rightarrow> ('f, dump) kite_act" where
  "instrument_rows P timeout exch =
     (let ex = to_kite_exchange (kp_names P) exch
      in bnd (asks (\<lambda>s. (ist_date (kt_now s), map_of (kt_cache s) ex, map_of (kt_cache_date s) ex))) (\<lambda>(td, cached, loaded).
         if cached \<noteq> None \<and> loaded = Some td then ret (the cached)
         else catch_if is_broker_error (fetch_and_store P timeout ex td)
                (\<lambda>e. case cached of Some rows \<Rightarrow> ret rows | None \<Rightarrow> throw e)))"

fun first_symbol :: "kite_names \<Rightarrow> string \<Rightarrow> dump \<Rightarrow> exn + broker_instrument" where
  "first_symbol N symbol [] = Inl (InstrumentNotFoundError ''no instrument in Kite dump'')"
| "first_symbol N symbol (row # rows) =
     (if dget row ''tradingsymbol'' = PStr symbol then to_broker_instrument N row
      else first_symbol N symbol rows)"

definition kite_instrument ::
    "kite_setup \<Rightarrow> nat option \<Rightarrow> exchange \<Rightarrow> string \<Rightarrow> ('f, broker_instrument) kite_act" where
  "kite_instrument P timeout exch symbol =
     bnd (instrument_rows P timeout exch) (\<lambda>rows. lift_sum (first_symbol (kp_names P) symbol rows))"

definition row_is :: "pydict \<Rightarrow> string \<Rightarrow> date \<Rightarrow> option_type \<Rightarrow> bool" where
  "row_is row underlying expiry opt \<longleftrightarrow>
     dget row ''name'' = PStr underlying \<and>
     dget row ''instrument_type'' = PStr (option_type_value opt) \<and>
     dget row ''expiry'' = PDate expiry"

fun first_contract ::
    "kite_names \<Rightarrow> string \<Rightarrow> date \<Rightarrow> decimal \<Rightarrow> option_type \<Rightarrow> dump \<Rightarrow> exn + broker_instrument" where
  "first_contract N underlying expiry strike opt [] = Inl (InstrumentNotFoundError ''no contract'')"
| "first_contract N underlying expiry strike opt (row # rows) =
     (if row_is row underlying expiry opt
      then sbind (price_or_none (dget row ''strike'')) (\<lambda>s.
           if s = Some strike then to_broker_instrument N row
           else first_contract N underlying expiry strike opt rows)
      else first_contract N underlying expiry strike opt rows)"

definition kite_contract ::
    "kite_setup \<Rightarrow> nat option \<Rightarrow> string \<Rightarrow> date \<Rightarrow> decimal \<Rightarrow> option_type \<Rightarrow> exchange \<Rightarrow>
     ('f, broker_instrument) kite_act" where
  "kite_contract P timeout underlying expiry strike opt exch =
     bnd (instrument_rows P timeout exch) (\<lambda>rows.
     lift_sum (first_contract (kp_names P) underlying expiry strike opt rows))"

text \<open>
  \<open>sorted\<close> on the set of expiries. The rows hold dates, or the empty string where there is none;
  the two cannot be compared, which is a \<open>TypeError\<close> once there is more than one value.
\<close>

definition listed_expiries :: "string \<Rightarrow> dump \<Rightarrow> pyval list" where
  "listed_expiries underlying rows =
     map (\<lambda>row. dget row ''expiry'')
       (filter (\<lambda>row. dget row ''name'' = PStr underlying \<and>
            (dget row ''instrument_type'' = PStr ''CE'' \<or> dget row ''instrument_type'' = PStr ''PE'') \<and>
            dget row ''expiry'' \<noteq> PNone) rows)"

fun date_of :: "pyval \<Rightarrow> date option" where
  "date_of (PDate d) = Some d"
| "date_of v = None"

definition sort_expiries :: "pyval list \<Rightarrow> exn + pyval list" where
  "sort_expiries vs =
     (let ds = List.map_filter date_of vs
      in if length ds = length vs then Inr (map PDate (sorted_list_of_set (set ds)))
         else if length (remdups vs) \<le> 1 then Inr (remdups vs) else Inl TypeError)"

definition kite_expiries ::
    "kite_setup \<Rightarrow> nat option \<Rightarrow> string \<Rightarrow> exchange \<Rightarrow> ('f, pyval list) kite_act" where
  "kite_expiries P timeout underlying exch =
     bnd (instrument_rows P timeout exch) (\<lambda>rows. lift_sum (sort_expiries (listed_expiries underlying rows)))"

definition refresh_instruments :: "kite_setup \<Rightarrow> nat option \<Rightarrow> exchange \<Rightarrow> ('f, nat) kite_act" where
  "refresh_instruments P timeout exch =
     bnd (asks (\<lambda>s. ist_date (kt_now s))) (\<lambda>td.
     bnd (fetch_and_store P timeout (to_kite_exchange (kp_names P) exch) td) (\<lambda>rows. ret (length rows)))"

section \<open>The broker\<close>

definition kite_call_op :: "('f, 'a) kite_act \<Rightarrow> ('f kite, 'a) broker_call" where
  "kite_call_op f t s = (case f (s\<lparr>kt_now := t\<rparr>) of (s1, r) \<Rightarrow> (s1, nat (kt_now s1 - t), [], r))"

definition kite_broker :: "kite_setup \<Rightarrow> nat option \<Rightarrow> 'f kite broker" where
  "kite_broker P timeout =
     \<lparr>bk_place = \<lambda>req. kite_call_op (kite_place P req),
      bk_get = \<lambda>oid. kite_call_op (kite_get_order P timeout oid),
      bk_find_tag = \<lambda>tag. kite_call_op (kite_find_tag P timeout tag),
      bk_orders = kite_call_op (kite_orders P timeout),
      bk_positions = kite_call_op (kite_positions P timeout),
      bk_margins = kite_call_op (kite_margins P timeout),
      bk_health = kite_call_op (kite_health P timeout),
      bk_ltp = \<lambda>ids. kite_call_op (kite_ltp P timeout ids),
      bk_contract = \<lambda>u x st ot ex. kite_call_op (kite_contract P timeout u x st ot ex),
      bk_authenticated = kt_active\<rparr>"

end
