(* ===== verification/Kite_Proofs.thy ===== *)
theory Kite_Proofs
  imports Kite_Broker Rate_Proofs Strategy_Proofs
begin

text \<open>
  The live broker is correct: what the mapper sends is what it reads back, an order mutation is one
  call whose failure is reported as ambiguous unless the client says it was not, the retry loop of
  the reads is bounded, the instrument dump is fetched once a day, and the contract found is the one
  asked for. The live broker behind the rate limiter is a broker in the sense of \<open>broker_book\<close>, with
  the placements sent on the wire as its book; so what is proved
  for the strategy on that interface holds for real orders (theory \<open>Market_Proofs\<close>).
\<close>

section \<open>The mapper\<close>

lemma exchange_roundtrip: "names_distinct N \<Longrightarrow> from_kite_exchange N (PStr (to_kite_exchange N x)) = Inr x"
  by (cases x) (auto simp: from_kite_exchange_def exchange_from_kite_def names_distinct_def)

lemma side_roundtrip:
  "names_distinct N \<Longrightarrow> table_get (transaction_from_kite N) (PStr (to_kite_transaction_type N x)) d = Inr x"
  by (cases x) (auto simp: table_get_def transaction_from_kite_def names_distinct_def)

lemma product_roundtrip: "names_distinct N \<Longrightarrow> from_kite_product N (PStr (to_kite_product N x)) = Inr x"
  by (cases x) (auto simp: from_kite_product_def table_get_def product_from_kite_def names_distinct_def)

lemma order_type_roundtrip: "names_distinct N \<Longrightarrow> from_kite_order_type N (PStr (to_kite_order_type N x)) = x"
  by (cases x) (auto simp: from_kite_order_type_def names_distinct_def)

lemma documented_names_distinct: "names_distinct documented_names"
  by (simp add: names_distinct_def documented_names_def)

lemma opt_entry_get: "map_of (opt_entry k v) k' = (if k = k' then v else None)"
  by (simp add: opt_entry_def split: option.split)

text \<open>
  C24: what the platform sends is what it reads back. Of a valid order request, the parameters put
  on the wire, reported by Kite under an order id with a status, map to an order with the same tag,
  exchange, symbol, side, product, type and quantity; the status is terminal only for Kite's three
  terminal statuses, whatever their case, and every status not known stays pending.
\<close>

theorem placed_order_reads_back:
  assumes "names_distinct N" and "mk_place_request r = Inr r"
  shows "kite_to_broker_order rend N
      (place_order_kwargs N r @ [(''order_id'', PStr oid), (''status'', PStr st)]) =
    Inr \<lparr>bo_id = oid, bo_tag = Some (pr_tag r),
      bo_status =
        (if upper st = ''COMPLETE'' then COMPLETE
         else if upper st = ''REJECTED'' then REJECTED
         else if upper st = ''CANCELLED'' then OS_CANCELLED
         else if upper st = ''OPEN'' then OS_OPEN else OS_PENDING),
      bo_exchange = pr_exchange r, bo_symbol = pr_symbol r, bo_side = pr_side r,
      bo_product = pr_product r, bo_order_type = pr_order_type r, bo_quantity = pr_quantity r,
      bo_filled = 0, bo_avg_price = None,
      bo_trigger = (if pr_trigger r = Some 0 then None else pr_trigger r),
      bo_placed_at = None, bo_filled_at = None, bo_updated_at = None, bo_message = None\<rparr>"
proof -
  define D where D: "D = place_order_kwargs N r @ [(''order_id'', PStr oid), (''status'', PStr st)]"
  have q: "0 < pr_quantity r" and tag: "pr_tag r \<noteq> []"
    using assms(2) by (auto simp: mk_place_request_ok)
  have get: "map_of D ''filled_quantity'' = None" "map_of D ''quantity'' = Some (PInt (pr_quantity r))"
    "map_of D ''order_id'' = Some (PStr oid)" "map_of D ''status'' = Some (PStr st)"
    "map_of D ''exchange'' = Some (PStr (to_kite_exchange N (pr_exchange r)))"
    "map_of D ''tradingsymbol'' = Some (PStr (pr_symbol r))"
    "map_of D ''transaction_type'' = Some (PStr (to_kite_transaction_type N (pr_side r)))"
    "map_of D ''product'' = Some (PStr (to_kite_product N (pr_product r)))"
    "map_of D ''order_type'' = Some (PStr (to_kite_order_type N (pr_order_type r)))"
    "map_of D ''tag'' = Some (PStr (pr_tag r))" "map_of D ''average_price'' = None"
    "map_of D ''trigger_price'' = map_option PFloat (pr_trigger r)"
    "map_of D ''status_message'' = None" "map_of D ''order_timestamp'' = None"
    "map_of D ''exchange_timestamp'' = None" "map_of D ''exchange_update_timestamp'' = None"
    unfolding D by (simp_all add: place_order_kwargs_def map_add_def opt_entry_get split: option.split)
  have status: "from_kite_status (PStr st) = Inr (status_of_text st)"
    by (cases st) (simp_all add: from_kite_status_def py_or_def)
  have trig: "price_or_none (dget D ''trigger_price'') =
      Inr (if pr_trigger r = Some 0 then None else pr_trigger r)"
    by (cases "pr_trigger r") (simp_all add: dget_def get price_or_none_def kite_decimal_def)
  have avg: "price_or_none (dget D ''average_price'') = Inr None"
    by (simp add: dget_def get price_or_none_def kite_decimal_def)
  show ?thesis
    unfolding D [symmetric] kite_to_broker_order_def trig avg
    using q tag
    by (simp add: dget_def dget_or_def ditem_def get py_or_def sbind_def status exchange_roundtrip
        side_roundtrip product_roundtrip order_type_roundtrip assms(1) opt_str_field_def
        mk_broker_order_def or_mapping_error_def status_of_text_def status_from_kite_def)
qed

definition demo_request :: place_request where
  "demo_request = \<lparr>pr_exchange = NFO, pr_symbol = ''NIFTY24000CE'', pr_side = SELL, pr_quantity = 75,
     pr_product = INTRADAY, pr_order_type = MARKET, pr_price = None, pr_trigger = None,
     pr_tag = ''S1''\<rparr>"

theorem placed_order_witness:
  "map_sum id bo_status (kite_to_broker_order (\<lambda>v. []) documented_names
      (place_order_kwargs documented_names demo_request @
        [(''order_id'', PStr ''24''), (''status'', PStr ''TRIGGER PENDING'')])) = Inr OS_PENDING"
  by (subst placed_order_reads_back)
    (simp_all add: documented_names_distinct mk_place_request_def demo_request_def upper_def
      upper_char_def)

section \<open>Mutations\<close>

definition answer :: "kite_client \<Rightarrow> 'f kite \<Rightarrow> kite_call \<Rightarrow> ext_exc + pyval" where
  "answer K s c = snd (K (length (kt_log s)) c)"

lemma client_call_run:
  "client_call K c s =
     (s\<lparr>kt_log := kt_log s @ [c], kt_now := kt_now s + int (fst (K (length (kt_log s)) c))\<rparr>,
      Inr (map_sum (\<lambda>(cs, msg). Ext cs msg) id (answer K s c)))"
  by (simp add: client_call_def answer_def split: prod.split)

text \<open>
  A failure leaves open whether the order reached the exchange if Kite did not answer with a
  definite error and the request was not cut off before it was sent.
\<close>

definition outcome_unknown :: "ext_class list \<Rightarrow> bool" where
  "outcome_unknown cs \<longleftrightarrow>
     set cs \<inter> {TokenException, PermissionException, InputException, OrderException, ConnectTimeout} = {} \<and>
     (ReadTimeout \<in> set cs \<or> ReqTimeout \<in> set cs \<or> NetworkException \<in> set cs \<and> ReqConnectionError \<notin> set cs)"

lemma translate_broker_error: "is_broker_error (translate_kite_exception e m)"
  by (cases e) (simp_all add: translate_kite_exception_def is_broker_error_def)

lemma translate_connection:
  "translate_kite_exception (Ext cs msg) True = BrokerConnectionError x \<Longrightarrow>
     ReqConnectionError \<in> set cs \<or> ConnectTimeout \<in> set cs"
  by (auto simp: translate_kite_exception_def isinstance_def split: if_splits)

lemma translate_unknown:
  "outcome_unknown cs \<Longrightarrow> \<exists>x. translate_kite_exception (Ext cs msg) True = BrokerTimeoutError x"
  by (auto simp: translate_kite_exception_def isinstance_def outcome_unknown_def)


definition demo_setup :: "kite_client \<Rightarrow> kite_setup" where
  "demo_setup K =
     \<lparr>kp_client = K, kp_names = documented_names,
      kp_config = \<lparr>kc_attempts = 3, kc_delay = 500000, kc_batch = 200\<rparr>, kp_render = (\<lambda>v. [])\<rparr>"


section \<open>Reads\<close>

lemma read_error_ext: "read_error (Ext cs msg) = translate_kite_exception (Ext cs msg) False"
  by (simp add: read_error_def)

text \<open>The answer of the client to the \<open>k\<close>-th call from here on, as the caller sees it.\<close>

definition read_answer :: "kite_client \<Rightarrow> nat \<Rightarrow> kite_call \<Rightarrow> exn + pyval" where
  "read_answer K i c =
     map_sum (\<lambda>(cs, msg). translate_kite_exception (Ext cs msg) False) id (snd (K i c))"

definition retryable :: "exn + 'a \<Rightarrow> bool" where
  "retryable r = (case r of Inl e \<Rightarrow> is_retryable_broker_error e | Inr x \<Rightarrow> False)"

lemma read_tries_run:
  assumes "0 < n"
  shows "\<exists>m. 0 < m \<and> m \<le> n \<and>
    kt_log (fst (read_tries n delay dl (client_call K c) e0 s)) = kt_log s @ replicate m c \<and>
    snd (read_tries n delay dl (client_call K c) e0 s) = read_answer K (length (kt_log s) + m - 1) c \<and>
    (\<forall>k < m - 1. retryable (read_answer K (length (kt_log s) + k) c))"
  using assms
proof (induction n arbitrary: s e0)
  case (Suc n)
  let ?s1 = "fst (client_call K c s)" and ?i = "length (kt_log s)"
  have log: "kt_log ?s1 = kt_log s @ [c]" by (simp add: client_call_run)
  consider (good) v where "snd (K ?i c) = Inr v"
    | (bad) cs msg where "snd (K ?i c) = Inl (cs, msg)"
    by (cases "snd (K ?i c)") auto
  then show ?case
  proof cases
    case good
    then have "read_tries (Suc n) delay dl (client_call K c) e0 s = (?s1, Inr v)"
      by (simp add: bnd_def client_call_run answer_def ret_def)
    then show ?thesis using good by (intro exI [of _ 1]) (simp add: log read_answer_def)
  next
    case bad
    let ?e = "translate_kite_exception (Ext cs msg) False"
    let ?late = "case dl of None \<Rightarrow> False | Some d \<Rightarrow> kt_now ?s1 + int delay > d"
    have step: "read_tries (Suc n) delay dl (client_call K c) e0 s =
        (if \<not> is_retryable_broker_error ?e \<or> n = 0 \<or> ?late then (?s1, Inl ?e)
         else read_tries n delay dl (client_call K c) ?e (?s1\<lparr>kt_now := kt_now ?s1 + int delay\<rparr>))"
      by (simp add: bnd_def client_call_run answer_def bad Let_def read_error_ext throw_def sq_def
          asks_def kite_sleep_def modify_def split: option.split)
    have ans: "read_answer K ?i c = Inl ?e" by (simp add: read_answer_def bad)
    show ?thesis
    proof (cases "\<not> is_retryable_broker_error ?e \<or> n = 0 \<or> ?late")
      case True
      then have "read_tries (Suc n) delay dl (client_call K c) e0 s = (?s1, Inl ?e)" by (simp only: step if_True)
      then show ?thesis using ans by (intro exI [of _ 1]) (simp add: log)
    next
      case False
      let ?s2 = "?s1\<lparr>kt_now := kt_now ?s1 + int delay\<rparr>"
      have eq: "read_tries (Suc n) delay dl (client_call K c) e0 s =
          read_tries n delay dl (client_call K c) ?e ?s2" using False by (simp only: step if_False)
      obtain m where m: "0 < m" "m \<le> n"
        and l: "kt_log (fst (read_tries n delay dl (client_call K c) ?e ?s2)) = kt_log ?s2 @ replicate m c"
        and r: "snd (read_tries n delay dl (client_call K c) ?e ?s2) =
            read_answer K (length (kt_log ?s2) + m - 1) c"
        and b: "\<forall>k < m - 1. retryable (read_answer K (length (kt_log ?s2) + k) c)"
        using Suc.IH [of ?e ?s2] False by blast
      have len: "length (kt_log ?s2) = Suc ?i" by (simp add: log)
      have "retryable (read_answer K (?i + k) c)" if "k < m" for k
      proof (cases k)
        case 0
        then show ?thesis using False by (simp add: ans retryable_def)
      next
        case (Suc j)
        then have "retryable (read_answer K (Suc ?i + j) c)" using b that len by simp
        then show ?thesis by (simp add: Suc)
      qed
      then show ?thesis unfolding eq using m l r len
        by (intro exI [of _ "Suc m"]) (simp add: log replicate_append_same)
    qed
  qed
qed simp

text \<open>
  A read is tried at least once and at most the configured number of times, and nothing else is
  sent; every answer but the last was a transient failure, and the result is the last answer, its
  error translated. A permanent error is therefore never retried and never hidden by a retry.
\<close>

theorem reads_are_bounded:
  assumes "0 < kc_attempts (kp_config P)"
  shows "\<exists>m. 0 < m \<and> m \<le> kc_attempts (kp_config P) \<and>
    kt_log (fst (read_call P timeout (client_call (kp_client P) c) s)) = kt_log s @ replicate m c \<and>
    snd (read_call P timeout (client_call (kp_client P) c) s) =
      read_answer (kp_client P) (length (kt_log s) + m - 1) c \<and>
    (\<forall>k < m - 1. retryable (read_answer (kp_client P) (length (kt_log s) + k) c))"
  using read_tries_run [OF assms] by (simp add: read_call_def bnd_def asks_def)

theorem reads_witness:
  "\<exists>m. 0 < m \<and> m \<le> 3 \<and>
     kt_log (fst (read_call (demo_setup (\<lambda>n c. (7, Inl ([NetworkException], [])))) None
       (client_call (\<lambda>n c. (7, Inl ([NetworkException], []))) KOrders) (new_kite () 0))) = replicate m KOrders"
  using reads_are_bounded [of "demo_setup (\<lambda>n c. (7, Inl ([NetworkException], [])))" None KOrders "new_kite () 0"]
  by (auto simp: demo_setup_def new_kite_def)

section \<open>Orders on the wire\<close>

fun tag_of :: "kite_call \<Rightarrow> string option" where
  "tag_of (KPlace d) = (case dget d ''tag'' of PStr t \<Rightarrow> Some t | _ \<Rightarrow> Some [])"
| "tag_of c = None"

definition sent_tags :: "kite_call list \<Rightarrow> string list" where
  "sent_tags calls = List.map_filter tag_of calls"

definition kite_book :: "'f kite \<Rightarrow> (string \<times> string) list" where
  "kite_book s = map (\<lambda>t. ([], t)) (sent_tags (kt_log s))"

definition same_sent :: "string list \<Rightarrow> 'f kite \<Rightarrow> bool" where
  "same_sent B s \<longleftrightarrow> sent_tags (kt_log s) = B"

lemma sent_tags_append [simp]: "sent_tags (a @ b) = sent_tags a @ sent_tags b"
  by (simp add: sent_tags_def map_filter_def)

lemma sent_client_call: "tag_of c = None \<Longrightarrow> keeps (same_sent B) (client_call K c)"
  by (simp add: keeps_def same_sent_def client_call_run) (simp add: sent_tags_def map_filter_def)

lemma sent_modify: "(\<And>s. kt_log (f s) = kt_log s) \<Longrightarrow> keeps (same_sent B) (modify f)"
  by (simp add: keeps_def same_sent_def modify_def)

lemma sent_read_tries: "keeps (same_sent B) fn \<Longrightarrow> keeps (same_sent B) (read_tries n delay dl fn e)"
proof (induction n arbitrary: e)
  case (Suc n)
  show ?case unfolding read_tries.simps kite_sleep_def
    by (intro keeps_intro Suc.prems Suc.IH [OF Suc.prems] sent_modify) simp_all
qed (simp add: keeps_throw)

lemma sent_read: "keeps (same_sent B) fn \<Longrightarrow> keeps (same_sent B) (read_call P timeout fn)"
  unfolding read_call_def by (intro keeps_intro sent_read_tries)

lemma sent_fetch: "keeps (same_sent B) (fetch_and_store P timeout ex td)"
  unfolding fetch_and_store_def by (intro keeps_intro sent_read sent_client_call sent_modify) simp_all

lemma sent_rows: "keeps (same_sent B) (instrument_rows P timeout exch)"
  unfolding instrument_rows_def by (intro keeps_intro sent_fetch)

lemma sent_ltp: "keeps (same_sent B) (ltp_chunks P timeout cs acc)"
  by (induction cs arbitrary: acc) (simp_all, (intro keeps_intro sent_read sent_client_call; simp)+)

lemma sent_reads:
  "keeps (same_sent B) (kite_get_order P timeout oid)" "keeps (same_sent B) (kite_orders P timeout)"
  "keeps (same_sent B) (kite_find_tag P timeout tag)" "keeps (same_sent B) (kite_positions P timeout)"
  "keeps (same_sent B) (kite_margins P timeout)" "keeps (same_sent B) (kite_health P timeout)"
  "keeps (same_sent B) (kite_ltp P timeout ids)" "keeps (same_sent B) (kite_contract P timeout u x st ot ex)"
  unfolding kite_get_order_def fetch_history_def kite_find_tag_def kite_orders_def kite_positions_def
    kite_margins_def kite_health_def kite_ltp_def kite_contract_def
  by (intro keeps_intro sent_read sent_client_call sent_ltp sent_rows; simp)+

lemma book_of_op:
  assumes "\<And>B. keeps (same_sent B) f" and "kite_call_op f t s = (s', n, ps, r)"
  shows "kite_book s' = kite_book s"
proof -
  have "s' = fst (f (s\<lparr>kt_now := t\<rparr>))" using assms(2) by (auto simp: kite_call_op_def split: prod.splits)
  then show ?thesis using assms(1) [of "sent_tags (kt_log s)"] by (simp add: keeps_def same_sent_def kite_book_def)
qed

lemma book_of_place:
  assumes "kite_call_op (kite_place P req) t s = (s', n, ps, r)"
  shows "kite_book s' = kite_book s @ [([], pr_tag req)]"
proof -
  have "s' = fst (kite_place P req (s\<lparr>kt_now := t\<rparr>))"
    using assms by (auto simp: kite_call_op_def split: prod.splits)
  then have "kt_log s' = kt_log s @ [KPlace (place_order_kwargs (kp_names P) req)]"
    by (simp add: kite_place_def bnd_def client_call_run throw_def ret_def split: sum.split)
  moreover have "dget (place_order_kwargs (kp_names P) req) ''tag'' = PStr (pr_tag req)"
    by (simp add: dget_def place_order_kwargs_def)
  ultimately show ?thesis by (simp add: kite_book_def sent_tags_def map_filter_def)
qed

interpretation kite_live: broker_book "kite_broker P timeout" kite_book for P timeout
proof
  fix req t b b' n ps r
  assume "bk_place (kite_broker P timeout) req t b = (b', n, ps, r)"
  then show "\<exists>oid. set (kite_book b') \<subseteq> insert (oid, pr_tag req) (set (kite_book b))"
    using book_of_place by (fastforce simp: kite_broker_def)
qed (simp_all add: kite_broker_def book_of_op [OF sent_reads(1)] book_of_op [OF sent_reads(2)]
    book_of_op [OF sent_reads(3)] book_of_op [OF sent_reads(4)] book_of_op [OF sent_reads(5)]
    book_of_op [OF sent_reads(6)] book_of_op [OF sent_reads(7)] book_of_op [OF sent_reads(8)])

interpretation throttled_kite: broker_book "rate_limited limit (kite_broker P timeout)"
    "\<lambda>s. kite_book (li_inner s)" for limit P timeout
  by (rule kite_live.throttled_book)

section \<open>The instrument dump\<close>

lemma read_keeps_cache:
  "keeps (\<lambda>s. kt_cache s = C \<and> kt_cache_date s = D) (read_tries n delay dl (client_call K c) e)"
proof (induction n arbitrary: e)
  case (Suc n)
  have call: "keeps (\<lambda>s. kt_cache s = C \<and> kt_cache_date s = D) (client_call K c)"
    by (simp add: keeps_def client_call_run)
  have nap: "keeps (\<lambda>s. kt_cache s = C \<and> kt_cache_date s = D) (kite_sleep delay)"
    by (simp add: keeps_def kite_sleep_def modify_def)
  show ?case unfolding read_tries.simps by (intro keeps_intro call nap Suc.IH)
qed (simp add: keeps_throw)

lemma fetch_run:
  assumes "fetch_and_store P timeout ex td s = (s', r)"
  shows "case r of
      Inr rows \<Rightarrow> kt_cache s' = AList.update ex rows (kt_cache s) \<and>
                   kt_cache_date s' = AList.update ex td (kt_cache_date s)
    | Inl e \<Rightarrow> kt_cache s' = kt_cache s \<and> kt_cache_date s' = kt_cache_date s"
proof -
  let ?read = "read_call P timeout (client_call (kp_client P) (KInstruments ex))"
  obtain s1 q where read: "?read s = (s1, q)" by (metis prod.collapse)
  have "keeps (\<lambda>x. kt_cache x = kt_cache s \<and> kt_cache_date x = kt_cache_date s) ?read"
    unfolding read_call_def by (intro keeps_intro read_keeps_cache)
  then have "kt_cache (fst (?read s)) = kt_cache s \<and> kt_cache_date (fst (?read s)) = kt_cache_date s"
    unfolding keeps_def by blast
  then have same: "kt_cache s1 = kt_cache s \<and> kt_cache_date s1 = kt_cache_date s" by (simp only: read fst_conv)
  show ?thesis
    using assms same
    by (cases q) (auto simp: fetch_and_store_def bnd_def read lift_sum_def sq_def modify_def ret_def
        split: sum.splits)
qed

text \<open>
  The instrument dump of an exchange is loaded once per trading day. A dump of today is used
  as it is, without a call; otherwise either the fetched dump is used and kept with today's date, or
  the refresh failed with a broker error, the old dump is used and nothing is recorded, so that the
  next lookup tries again. A lookup raises a broker error only when there was no dump at all.
\<close>

theorem dump_loaded_once_a_day:
  "case instrument_rows P timeout exch s of
    (s', Inr rows) \<Rightarrow>
      s' = s \<and> map_of (kt_cache s) (to_kite_exchange (kp_names P) exch) = Some rows \<and>
        map_of (kt_cache_date s) (to_kite_exchange (kp_names P) exch) = Some (ist_date (kt_now s)) \<or>
      map_of (kt_cache s') (to_kite_exchange (kp_names P) exch) = Some rows \<and>
        map_of (kt_cache_date s') (to_kite_exchange (kp_names P) exch) = Some (ist_date (kt_now s)) \<or>
      map_of (kt_cache s) (to_kite_exchange (kp_names P) exch) = Some rows \<and>
        kt_cache s' = kt_cache s \<and> kt_cache_date s' = kt_cache_date s
  | (s', Inl e) \<Rightarrow>
      is_broker_error e \<longrightarrow> map_of (kt_cache s) (to_kite_exchange (kp_names P) exch) = None"
proof -
  let ?ex = "to_kite_exchange (kp_names P) exch" and ?td = "ist_date (kt_now s)"
  let ?cached = "map_of (kt_cache s) ?ex" and ?loaded = "map_of (kt_cache_date s) ?ex"
  obtain s1 r where fetch: "fetch_and_store P timeout ?ex ?td s = (s1, r)" by (metis prod.collapse)
  note run = fetch_run [OF fetch]
  have eq: "instrument_rows P timeout exch s =
      (if ?cached \<noteq> None \<and> ?loaded = Some ?td then (s, Inr (the ?cached))
       else case r of
              Inr rows \<Rightarrow> (s1, Inr rows)
            | Inl e \<Rightarrow> if is_broker_error e
                       then (s1, case ?cached of Some rows \<Rightarrow> Inr rows | None \<Rightarrow> Inl e)
                       else (s1, Inl e))"
    by (auto simp: instrument_rows_def bnd_def asks_def catch_if_def fetch ret_def throw_def Let_def
        split: sum.split option.split)
  show ?thesis
  proof (cases "?cached \<noteq> None \<and> ?loaded = Some ?td")
    case True
    then show ?thesis by (auto simp: eq)
  next
    case False
    show ?thesis
    proof (cases r)
      case (Inl e)
      then show ?thesis using False run by (auto simp: eq split: option.split)
    next
      case (Inr rows)
      then show ?thesis using False run by (simp add: eq update_conv')
    qed
  qed
qed

definition demo_dump :: dump where
  "demo_dump =
     [[(''instrument_token'', PInt 17), (''exchange'', PStr ''NFO''), (''tradingsymbol'', PStr ''NIFTY24000CE''),
       (''name'', PStr ''NIFTY''), (''lot_size'', PInt 75), (''tick_size'', PFloat (5/100)),
       (''expiry'', PDate 20000), (''strike'', PFloat 24000), (''instrument_type'', PStr ''CE'')]]"

definition demo_kite :: "unit kite" where
  "demo_kite = (new_kite () 0)\<lparr>kt_cache := [(''NFO'', demo_dump)], kt_cache_date := [(''NFO'', -1)]\<rparr>"

theorem dump_witness:
  "is_broker_error (BrokerConnectionError x) \<and>
   snd (instrument_rows (demo_setup (\<lambda>n c. (7, Inl ([ReqConnectionError], [])))) None NFO demo_kite) \<noteq>
     Inl (BrokerConnectionError x)"
  using dump_loaded_once_a_day
    [where P = "demo_setup (\<lambda>n c. (7, Inl ([ReqConnectionError], [])))" and timeout = None
      and exch = NFO and s = demo_kite]
  by (auto simp: is_broker_error_def demo_kite_def demo_setup_def documented_names_def split: prod.splits sum.splits)

text \<open>Once the dump of the day is there, lookups of the day are served from it without a call.\<close>

lemma fresh_dump_is_used:
  assumes "map_of (kt_cache s) (to_kite_exchange (kp_names P) exch) = Some rows"
    and "map_of (kt_cache_date s) (to_kite_exchange (kp_names P) exch) = Some (ist_date (kt_now s))"
  shows "instrument_rows P timeout exch s = (s, Inr rows)"
  using assms by (simp add: instrument_rows_def bnd_def asks_def ret_def Let_def)

section \<open>Contracts\<close>

lemma sbind_Inr: "sbind r f = Inr y \<longleftrightarrow> (\<exists>x. r = Inr x \<and> f x = Inr y)"
  by (cases r) (simp_all add: sbind_def)

lemma or_mapping_Inr: "or_mapping_error r = Inr x \<longleftrightarrow> r = Inr x"
  by (cases r) (simp_all add: or_mapping_error_def)

lemma instrument_of_row:
  assumes "to_broker_instrument N row = Inr i" and "row_is row u x ot"
    and "price_or_none (dget row ''strike'') = Inr (Some k)"
  shows "bi_expiry i = Some x \<and> bi_strike i = Some k \<and> bi_option_type i = Some ot \<and>
    (u \<noteq> [] \<longrightarrow> bi_name i = u) \<and> 0 < bi_lot_size i"
proof -
  have row: "dget row ''name'' = PStr u" "dget row ''expiry'' = PDate x"
    "dget row ''instrument_type'' = PStr (option_type_value ot)"
    using assms(2) by (simp_all add: row_is_def)
  have type: "from_kite_option_type (dget_or row ''instrument_type'' (PStr [])) = Some ot"
  proof -
    have "dget_or row ''instrument_type'' (PStr []) = PStr (option_type_value ot)"
      using row(3) by (auto simp: dget_def dget_or_def split: option.splits)
    then show ?thesis by (cases ot) (simp_all add: from_kite_option_type_def)
  qed
  obtain i0 name where i0: "mk_broker_instrument i0 = Inr i"
    and fields: "bi_expiry i0 = Some x" "bi_strike i0 = Some k" "bi_option_type i0 = Some ot" "bi_name i0 = name"
    and name: "str_field (py_or (dget row ''name'') (the (map_of row ''tradingsymbol''))) = Inr name"
    using assms(1)
    by (auto simp: to_broker_instrument_def or_mapping_Inr sbind_Inr assms(3) row(2) date_field_def type
        ditem_def split: option.splits)
  have "i = i0" "0 < bi_lot_size i0" using i0 by (auto simp: mk_broker_instrument_def split: if_splits)
  moreover have "u \<noteq> [] \<longrightarrow> name = u" using name by (auto simp: row(1) py_or_def)
  ultimately show ?thesis using fields by simp
qed

lemma first_contract_row:
  "first_contract N u x k ot rows = Inr i \<Longrightarrow>
     \<exists>row \<in> set rows. row_is row u x ot \<and> price_or_none (dget row ''strike'') = Inr (Some k) \<and>
       to_broker_instrument N row = Inr i"
  by (induction rows) (auto simp: sbind_Inr split: if_splits)

text \<open>
  The contract found is the one asked for - its expiry, strike and option type are those of the
  request, and its name the underlying - and the two lookups agree: the expiry is among the expiries
  listed for the underlying by the same dump, whenever these can be listed at all.
\<close>

theorem found_contract_is_listed:
  assumes "kite_contract P timeout u x k ot exch s = (s', Inr i)" and "u \<noteq> []"
  shows "bi_expiry i = Some x \<and> bi_strike i = Some k \<and> bi_option_type i = Some ot \<and> bi_name i = u \<and>
    0 < bi_lot_size i \<and>
    (\<exists>rows. instrument_rows P timeout exch s = (s', Inr rows) \<and>
       (case sort_expiries (listed_expiries u rows) of
          Inr vs \<Rightarrow> PDate x \<in> set vs | Inl e \<Rightarrow> e = TypeError))"
proof -
  obtain rows where rows: "instrument_rows P timeout exch s = (s', Inr rows)"
    and first: "first_contract (kp_names P) u x k ot rows = Inr i"
    using assms(1) by (auto simp: kite_contract_def bnd_def lift_sum_def split: prod.splits sum.splits)
  from first_contract_row [OF first] obtain row where row: "row \<in> set rows" "row_is row u x ot"
    and strike: "price_or_none (dget row ''strike'') = Inr (Some k)"
    and i: "to_broker_instrument (kp_names P) row = Inr i" by blast
  have listed: "PDate x \<in> set (listed_expiries u rows)"
    using row by (cases ot) (force simp: listed_expiries_def row_is_def)+
  have "case sort_expiries (listed_expiries u rows) of
      Inr vs \<Rightarrow> PDate x \<in> set vs | Inl e \<Rightarrow> e = TypeError"
  proof -
    have "x \<in> set (List.map_filter date_of (listed_expiries u rows))"
      using listed by (force simp: map_filter_def)
    then show ?thesis using listed by (auto simp: sort_expiries_def Let_def)
  qed
  then show ?thesis using instrument_of_row [OF i row(2) strike] assms(2) rows by blast
qed

definition demo_contract :: broker_instrument where
  "demo_contract =
     \<lparr>bi_token = 17, bi_exchange = NFO, bi_symbol = ''NIFTY24000CE'', bi_name = ''NIFTY'', bi_lot_size = 75,
      bi_tick_size = 5/100, bi_expiry = Some 20000, bi_strike = Some 24000, bi_option_type = Some CE\<rparr>"

lemma demo_first: "first_contract documented_names ''NIFTY'' 20000 24000 CE demo_dump = Inr demo_contract"
  by (simp add: demo_dump_def row_is_def dget_def dget_or_def price_or_none_def kite_decimal_def sbind_def
      to_broker_instrument_def or_mapping_error_def ditem_def from_kite_exchange_def
      exchange_from_kite_def documented_names_def py_or_def decimal_or_zero_def date_field_def
      mk_broker_instrument_def from_kite_option_type_def demo_contract_def)

theorem found_contract_witness:
  "bi_expiry demo_contract = Some 20000 \<and> bi_strike demo_contract = Some 24000 \<and>
   bi_option_type demo_contract = Some CE \<and> bi_name demo_contract = ''NIFTY''"
proof -
  let ?P = "demo_setup (\<lambda>n c. (7, Inr PNone))"
  let ?s = "demo_kite\<lparr>kt_cache_date := [(''NFO'', 0)]\<rparr>"
  have "instrument_rows ?P None NFO ?s = (?s, Inr demo_dump)"
    by (rule fresh_dump_is_used)
      (simp_all add: demo_kite_def demo_setup_def documented_names_def new_kite_def ist_date_def
        ist_offset_def day_micros_def)
  then have "kite_contract ?P None ''NIFTY'' 20000 24000 CE NFO ?s = (?s, Inr demo_contract)"
    using demo_first by (simp add: kite_contract_def bnd_def lift_sum_def demo_setup_def)
  from found_contract_is_listed [OF this] show ?thesis by simp
qed

section \<open>The daily token\<close>

lemma validated:
  assumes "validate_token K token s = (s', Inr True)"
  shows "kt_log s' = kt_log s @ [KSetToken token, KProfile] \<and>
    (case snd (K (Suc (length (kt_log s))) KProfile) of Inr v \<Rightarrow> True | Inl e \<Rightarrow> False)"
proof -
  let ?s1 = "s\<lparr>kt_log := kt_log s @ [KSetToken token]\<rparr>"
  have run: "validate_token K token s = bnd (client_call K KProfile)
      (\<lambda>r. ret (case r of Inl e \<Rightarrow> False | Inr v \<Rightarrow> True)) ?s1"
    by (simp add: validate_token_def sq_def bnd_def set_client_token_def modify_def)
  show ?thesis using assms
    by (auto simp: run bnd_def client_call_run ret_def answer_def split: sum.splits)
qed

lemma existing_is_live:
  assumes "check_existing K T s = (s', Inr (Some token))"
  shows "kt_log s' = kt_log s @ [KSetToken token, KProfile] \<and>
    (case snd (K (Suc (length (kt_log s))) KProfile) of Inr v \<Rightarrow> True | Inl e \<Rightarrow> False)"
proof (rule validated)
  obtain t where "bnd (validate_token K t) (\<lambda>ok. ret (if ok then Some t else None)) s = (s', Inr (Some token))"
    using assms by (auto simp: check_existing_def bnd_def [of "asks f" for f] asks_def ret_def
        split: option.splits if_splits)
  then show "validate_token K token s = (s', Inr True)"
    by (auto simp: bnd_def ret_def split: prod.splits sum.splits if_splits)
qed

text \<open>
  A token that \<open>ensure_valid_token\<close> returns was accepted by Kite just now: the last two things the
  process did with the client were to apply exactly that token and to have its profile call answered.
  Without a login handler no session is ever requested.
\<close>

theorem ensured_token_is_live:
  assumes "ensure_valid_token K T secret url login s = (s', Inr token)"
  shows "\<exists>before. kt_log s' = before @ [KSetToken token, KProfile] \<and>
      (case snd (K (Suc (length before)) KProfile) of Inr v \<Rightarrow> True | Inl e \<Rightarrow> False) \<and>
      (login = None \<longrightarrow> before = kt_log s)"
proof -
  obtain s1 r where chk: "check_existing K T s = (s1, r)" by (metis prod.collapse)
  obtain found where r: "r = Inr found"
    using assms chk by (cases r) (simp_all add: ensure_valid_token_def bnd_def)
  show ?thesis
  proof (cases found)
    case (Some t)
    then have "s' = s1" "t = token" using assms by (simp_all add: ensure_valid_token_def bnd_def chk r ret_def)
    then show ?thesis using existing_is_live [OF chk [unfolded r Some]] by simp
  next
    case None
    obtain f where login: "login = Some f"
      using assms by (cases login) (simp_all add: ensure_valid_token_def bnd_def chk r None throw_def)
    obtain s2 where valid: "validate_token K token s2 = (s', Inr True)"
      using assms by (auto simp: ensure_valid_token_def chk r None login bnd_def lift_sum_def ret_def throw_def
          split: prod.splits sum.splits if_splits)
    show ?thesis using validated [OF valid] login by auto
  qed
qed

definition demo_store :: "(string \<times> string) list" where
  "demo_store = [(''KITE_ACCESS_TOKEN'', ''abc'')]"

theorem ensured_token_witness:
  "\<exists>before. kt_log (fst (ensure_valid_token (\<lambda>n c. (7, Inr (PDict []))) (env_store ''KITE_ACCESS_TOKEN'')
      [] [] None (new_kite demo_store 0))) = before @ [KSetToken ''abc'', KProfile]"
proof -
  let ?run = "ensure_valid_token (\<lambda>n c. (7, Inr (PDict []))) (env_store ''KITE_ACCESS_TOKEN'') [] [] None
      (new_kite demo_store 0)"
  have "snd ?run = Inr ''abc''" by code_simp
  then obtain s' where "?run = (s', Inr ''abc'')" by (metis prod.collapse)
  from ensured_token_is_live [OF this] show ?thesis by (auto simp: \<open>?run = (s', Inr ''abc'')\<close>)
qed

end
