(* ===== verification/Market_Proofs.thy ===== *)
theory Market_Proofs
  imports Market_Data Kite_Proofs
begin

text \<open>
  The market data layer is correct: reference counts are balanced, so one consumer leaving never
  silences another; a price handed out is fresh or was polled just now and asking for prices never
  raises; a sustained outage is escalated exactly once; and the service keeps every invariant of the
  strategy's world that does not depend on its own fields, which closes the composition of strategy,
  market data, rate limiter and live broker.
\<close>

section \<open>Reference counts\<close>

lemma ref_count_update: "ref_count (AList.update i n c) j = (if i = j then n else ref_count c j)"
  by (simp add: ref_count_def update_conv')

lemma ref_count_delete: "ref_count (AList.delete i c) j = (if i = j then 0 else ref_count c j)"
  by (simp add: ref_count_def delete_conv')

lemma sub_add_counts: "ref_count (fst (sub_add is (c, new))) j = ref_count c j + count_list is j"
  by (induction "is" "(c, new)" arbitrary: c new rule: sub_add.induct) (auto simp: Let_def ref_count_update)

lemma sub_add_new: "set (snd (sub_add is (c, new))) = set new \<union> {i \<in> set is. ref_count c i = 0}"
proof (induction "is" "(c, new)" arbitrary: c new rule: sub_add.induct)
  case (2 i "is" c new)
  then show ?case by (auto simp: Let_def ref_count_update)
qed simp

lemma sub_drop_counts: "ref_count (fst (sub_drop is (c, gone))) j = ref_count c j - count_list is j"
  by (induction "is" "(c, gone)" arbitrary: c gone rule: sub_drop.induct)
    (auto simp: Let_def ref_count_update ref_count_delete)

lemma sub_drop_gone:
  "set (snd (sub_drop is (c, gone))) = set gone \<union> {i. 0 < ref_count c i \<and> ref_count c i \<le> count_list is i}"
proof (induction "is" "(c, gone)" arbitrary: c gone rule: sub_drop.induct)
  case (2 i "is" c gone)
  note IH = "2.hyps"
  consider (zero) "ref_count c i = 0" | (one) "ref_count c i = 1" | (more) "1 < ref_count c i" by linarith
  then show ?case
  proof cases
    case zero
    then have "snd (sub_drop (i # is) (c, gone)) = snd (sub_drop is (c, gone))" by simp
    moreover have "{j. 0 < ref_count c j \<and> ref_count c j \<le> count_list (i # is) j} =
        {j. 0 < ref_count c j \<and> ref_count c j \<le> count_list is j}"
      using zero by (intro Collect_cong) auto
    ultimately show ?thesis using IH(1) [OF refl zero] by simp
  next
    case one
    let ?g = "if i \<notin> set gone then gone @ [i] else gone"
    have "snd (sub_drop (i # is) (c, gone)) = snd (sub_drop is (AList.delete i c, ?g))"
      using one by (simp add: Let_def)
    then have "set (snd (sub_drop (i # is) (c, gone))) = set ?g \<union>
        {j. 0 < ref_count (AList.delete i c) j \<and> ref_count (AList.delete i c) j \<le> count_list is j}"
      using IH(2) [OF refl _ one] one by simp
    also have "\<dots> = set gone \<union>
        insert i {j. 0 < ref_count (AList.delete i c) j \<and> ref_count (AList.delete i c) j \<le> count_list is j}"
      by auto
    also have "insert i {j. 0 < ref_count (AList.delete i c) j \<and> ref_count (AList.delete i c) j \<le> count_list is j} =
        {j. 0 < ref_count c j \<and> ref_count c j \<le> count_list (i # is) j}"
      using one by (auto simp: ref_count_delete)
    finally show ?thesis .
  next
    case more
    then have "snd (sub_drop (i # is) (c, gone)) = snd (sub_drop is (AList.update i (ref_count c i - 1) c, gone))"
      by (simp add: Let_def)
    moreover have "{j. 0 < ref_count (AList.update i (ref_count c i - 1) c) j \<and>
          ref_count (AList.update i (ref_count c i - 1) c) j \<le> count_list is j} =
        {j. 0 < ref_count c j \<and> ref_count c j \<le> count_list (i # is) j}"
      using more by (intro Collect_cong) (auto simp: ref_count_update)
    ultimately show ?thesis using IH(3) [OF refl] more by simp
  qed
qed auto

text \<open>
  Subscriptions are balanced between consumers. After one consumer subscribes to some
  instruments and any others subscribe to theirs, its unsubscribing returns every count to what the
  others hold, and stops at the socket exactly the instruments nobody else wants: an instrument
  another consumer subscribed to keeps streaming.
\<close>

theorem leaving_consumer_silences_nobody:
  "(let c1 = fst (sub_add mine (c, [])); c2 = fst (sub_add others (c1, []));
        (c3, gone) = sub_drop mine (c2, [])
    in (\<forall>i. ref_count c3 i = ref_count c i + count_list others i) \<and>
       set gone = {i. i \<in> set mine \<and> ref_count c i = 0 \<and> i \<notin> set others})"
proof -
  have cnt: "count_list xs x = 0 \<longleftrightarrow> x \<notin> set xs" for xs and x :: instrument_id
    by (rule count_list_0_iff)
  have pos: "0 < count_list xs x \<longleftrightarrow> x \<in> set xs" for xs and x :: instrument_id
    using cnt [of xs x] by auto
  show ?thesis
    unfolding Let_def case_prod_beta sub_drop_counts sub_add_counts sub_drop_gone
    by (auto simp: pos [symmetric])
qed

section \<open>Escalation\<close>

definition always_fails :: "('b, 's) md_setup \<Rightarrow> bool" where
  "always_fails S \<longleftrightarrow> (\<forall>is t b. \<exists>b' n e. bk_ltp (ms_broker S) is t b = (b', n, [], Inl e) \<and> is_broker_error e)"

lemma set_md_run: "set_md f w = (w\<lparr>w_bk := f (w_bk w)\<rparr>, Inr ())"
  by (simp add: set_md_def modify_def)

lemma note_failure_run:
  "note_failure S u w =
     (w\<lparr>w_bk := (w_bk w)\<lparr>md_failures := md_failures (w_bk w) + 1,
        md_alerts := md_alerts (w_bk w) @ [failure_severity (ms_config S) (md_failures (w_bk w) + 1) u]\<rparr>\<rparr>,
      Inr ())"
  by (simp add: note_failure_def set_md_run Let_def)

lemma failing_tries:
  assumes "always_fails S"
  shows "\<exists>w'. poll_tries S is n backoff w = (w', Inr None) \<and>
    md_failures (w_bk w') = md_failures (w_bk w) + 1 \<and>
    md_alerts (w_bk w') =
      md_alerts (w_bk w) @ [failure_severity (ms_config S) (md_failures (w_bk w) + 1) False]"
proof (induction n arbitrary: backoff w)
  case 0
  then show ?case by (simp add: sq_def bnd_def note_failure_run ret_def)
next
  case (Suc n)
  obtain b' m e where call: "bk_ltp (ms_broker S) is (w_now w) (md_broker (w_bk w)) = (b', m, [], Inl e)"
    and e: "is_broker_error e"
    using assms unfolding always_fails_def by blast
  let ?w1 = "w\<lparr>w_bk := (w_bk w)\<lparr>md_broker := b'\<rparr>, w_now := w_now w + int m\<rparr>"
  have step: "try_sum (bcall (lift_md (bk_ltp (ms_broker S) is))) w = (?w1, Inr (Inl e))"
    by (simp add: try_sum_def bcall_def lift_md_def call Let_def)
  show ?case
  proof (cases "is_nonretryable_broker_error e \<or> n = 0")
    case True
    then have "poll_tries S is (Suc n) backoff w = sq (note_failure S False) (ret None) ?w1"
      using e by (auto simp: bnd_def [of "try_sum m" for m] step)
    then show ?thesis by (simp add: sq_def bnd_def note_failure_run ret_def)
  next
    case False
    let ?w2 = "?w1\<lparr>w_now := w_now ?w1 + int (min backoff (mc_max_backoff (ms_config S)))\<rparr>"
    have "poll_tries S is (Suc n) backoff w = poll_tries S is n (backoff * 2) ?w2"
      using e False by (simp add: bnd_def step sq_def sleep_def modify_def)
    then show ?thesis using Suc.IH [of "backoff * 2" ?w2] by simp
  qed
qed

fun poll_cycles :: "('b, 's) md_setup \<Rightarrow> instrument_id list \<Rightarrow> nat \<Rightarrow> ('b, 's, unit) mdprog" where
  "poll_cycles S is 0 = ret ()"
| "poll_cycles S is (Suc n) = sq (poll_cycles S is n) (sq (poll S is True) (ret ()))"

lemma failing_poll:
  assumes "always_fails S"
  shows "\<exists>w'. poll S is b w = (w', Inr []) \<and> md_failures (w_bk w') = md_failures (w_bk w) + 1 \<and>
    md_alerts (w_bk w') =
      md_alerts (w_bk w) @ [failure_severity (ms_config S) (md_failures (w_bk w) + 1) False]"
  using failing_tries [OF assms, of "is" "mc_attempts (ms_config S)" "mc_backoff (ms_config S)" w]
  by (auto simp: poll_def resilient_poll_def bnd_def ret_def)

lemma failing_cycles:
  assumes "always_fails S" and "md_failures (w_bk w) = 0"
  shows "\<exists>w'. poll_cycles S is n w = (w', Inr ()) \<and> md_failures (w_bk w') = n \<and>
    md_alerts (w_bk w') = md_alerts (w_bk w) @ map (\<lambda>k. failure_severity (ms_config S) (k + 1) False) [0..<n]"
proof (induction n)
  case 0
  then show ?case using assms(2) by (simp add: ret_def)
next
  case (Suc n)
  then obtain w1 where w1: "poll_cycles S is n w = (w1, Inr ())" "md_failures (w_bk w1) = n"
    "md_alerts (w_bk w1) = md_alerts (w_bk w) @ map (\<lambda>k. failure_severity (ms_config S) (k + 1) False) [0..<n]"
    by blast
  obtain w2 where w2: "poll S is True w1 = (w2, Inr [])" "md_failures (w_bk w2) = md_failures (w_bk w1) + 1"
    "md_alerts (w_bk w2) =
      md_alerts (w_bk w1) @ [failure_severity (ms_config S) (md_failures (w_bk w1) + 1) False]"
    using failing_poll [OF assms(1)] by blast
  show ?case using w1 w2 by (simp add: sq_def bnd_def ret_def)
qed

lemma count_at: "length (filter (\<lambda>k. k + 1 = m) [0..<n]) = (if 0 < m \<and> m \<le> n then 1 else 0)"
  by (induction n) auto

text \<open>
  While the poller fails without interruption, the outage is escalated exactly once as an error,
  at the configured number of consecutive failed cycles, and exactly once as critical, at twice that
  number; every other failure stays quiet, and no cycle raises. So an outage is neither missed nor
  does it flood the log.
\<close>

theorem outage_escalated_once:
  assumes "always_fails S" and "md_failures (w_bk w) = 0" and "md_alerts (w_bk w) = []"
    and "1 \<le> mc_threshold (ms_config S)"
  shows "\<exists>w'. poll_cycles S is n w = (w', Inr ()) \<and> length (md_alerts (w_bk w')) = n \<and>
    length (filter (\<lambda>a. a = SV_ERROR) (md_alerts (w_bk w'))) =
      (if mc_threshold (ms_config S) \<le> n then 1 else 0) \<and>
    length (filter (\<lambda>a. a = SV_CRITICAL) (md_alerts (w_bk w'))) =
      (if mc_threshold (ms_config S) * 2 \<le> n then 1 else 0)"
proof -
  let ?t = "mc_threshold (ms_config S)"
  obtain w' where run: "poll_cycles S is n w = (w', Inr ())"
    and alerts: "md_alerts (w_bk w') = map (\<lambda>k. failure_severity (ms_config S) (k + 1) False) [0..<n]"
    using failing_cycles [OF assms(1,2)] assms(3) by force
  have err: "(failure_severity (ms_config S) (k + 1) False = SV_ERROR) = (k + 1 = ?t)" for k
    by (simp add: failure_severity_def)
  have crit: "(failure_severity (ms_config S) (k + 1) False = SV_CRITICAL) = (k + 1 = ?t * 2)" for k
    using assms(4) by (simp add: failure_severity_def)
  show ?thesis using run alerts assms(4)
    by (simp add: filter_map comp_def err crit count_at del: One_nat_def Suc_eq_plus1 add_Suc_right)
qed

section \<open>Prices\<close>

lemma split_fresh_spec:
  "split_fresh c t a is = (res, to_poll) \<Longrightarrow>
     (map_of res i = Some p \<longrightarrow> (\<exists>e. map_of c i = Some e \<and> ca_price e = p \<and> t - ca_at e \<le> int a)) \<and>
     (i \<in> set is \<longrightarrow> map_of res i = None \<longrightarrow> i \<in> set to_poll)"
proof (induction "is" arbitrary: res to_poll)
  case (Cons j "is")
  obtain res1 poll1 where rest: "split_fresh c t a is = (res1, poll1)" by (metis prod.collapse)
  show ?case using Cons.prems Cons.IH [OF rest]
    by (auto simp: rest Let_def is_fresh_def update_conv' split: option.splits if_splits)
qed simp

text \<open>What a poll answers is in the cache, recorded at the time it answers.\<close>

definition polled_now :: "(instrument_id \<times> decimal) list \<Rightarrow> dt \<Rightarrow> cache \<Rightarrow> bool" where
  "polled_now ps t c \<longleftrightarrow>
     (\<forall>i. i \<in> fst ` set ps \<longrightarrow> map_of c i = map_option (\<lambda>p. \<lparr>ca_price = p, ca_at = t\<rparr>) (map_of (rev ps) i))"

lemma for_each_step: "f x w = (w1, Inr ()) \<Longrightarrow> for_each (x # xs) f w = for_each xs f w1"
  by (simp add: sq_def bnd_def)

lemma store_prices:
  "\<exists>c. for_each ps (\<lambda>(i, p).
       sq (set_md (\<lambda>m. m\<lparr>md_cache := cache_update i p t (md_cache m)\<rparr>)) (do_if (False \<and> p > 0) (b i p))) w =
     (w\<lparr>w_bk := (w_bk w)\<lparr>md_cache := c\<rparr>\<rparr>, Inr ()) \<and>
     (\<forall>i. map_of c i =
       (case map_of (rev ps) i of Some p \<Rightarrow> Some \<lparr>ca_price = p, ca_at = t\<rparr> | None \<Rightarrow> map_of (md_cache (w_bk w)) i))"
proof (induction ps arbitrary: w)
  case Nil
  then show ?case by (intro exI [of _ "md_cache (w_bk w)"]) (simp add: ret_def)
next
  case (Cons x ps)
  obtain i p where x: "x = (i, p)" by (cases x)
  let ?w1 = "w\<lparr>w_bk := (w_bk w)\<lparr>md_cache := cache_update i p t (md_cache (w_bk w))\<rparr>\<rparr>"
  obtain c where c: "for_each ps (\<lambda>(i, p).
       sq (set_md (\<lambda>m. m\<lparr>md_cache := cache_update i p t (md_cache m)\<rparr>)) (do_if (False \<and> p > 0) (b i p))) ?w1 =
     (?w1\<lparr>w_bk := (w_bk ?w1)\<lparr>md_cache := c\<rparr>\<rparr>, Inr ())"
    and m: "\<And>j. map_of c j =
       (case map_of (rev ps) j of Some p \<Rightarrow> Some \<lparr>ca_price = p, ca_at = t\<rparr>
        | None \<Rightarrow> map_of (md_cache (w_bk ?w1)) j)"
    using Cons.IH [of ?w1] by blast
  show ?case
  proof (intro exI [of _ c] conjI allI)
    fix j
    show "map_of c j = (case map_of (rev (x # ps)) j of Some p \<Rightarrow> Some \<lparr>ca_price = p, ca_at = t\<rparr>
        | None \<Rightarrow> map_of (md_cache (w_bk w)) j)"
      by (auto simp: m x cache_update_def update_conv' map_add_def split: option.split)
  next
    let ?f = "\<lambda>(i, p). sq (set_md (\<lambda>m. m\<lparr>md_cache := cache_update i p t (md_cache m)\<rparr>)) (do_if (False \<and> p > 0) (b i p))"
    have "?f x w = (?w1, Inr ())" by (simp add: x sq_def bnd_def set_md_run do_if_def ret_def)
    then have "for_each (x # ps) ?f w = for_each ps ?f ?w1" by (rule for_each_step)
    with c show "for_each (x # ps) ?f w = (w\<lparr>w_bk := (w_bk w)\<lparr>md_cache := c\<rparr>\<rparr>, Inr ())" by simp
  qed
qed

lemma merge_lookup:
  "map_of (merge_prices a b) i = (case map_of (rev b) i of Some p \<Rightarrow> Some p | None \<Rightarrow> map_of a i)"
  by (induction b arbitrary: a)
    (auto simp: merge_prices_def update_conv' map_add_def split: option.split)

text \<open>The poller may fail in any way short of the death of the process.\<close>

definition poller_alive :: "('b, 's) md_setup \<Rightarrow> bool" where
  "poller_alive S \<longleftrightarrow>
     (\<forall>is t b. snd (snd (snd (bk_ltp (ms_broker S) is t b))) \<noteq> Inl ProcessCrash)"

lemma tries_return:
  "poller_alive S \<Longrightarrow>
     \<exists>w' r. poll_tries S is n backoff w = (w', Inr r) \<and> md_cache (w_bk w') = md_cache (w_bk w)"
proof (induction n arbitrary: backoff w)
  case 0
  then show ?case by (simp add: sq_def bnd_def note_failure_run ret_def)
next
  case (Suc n)
  obtain b' m ps q where call: "bk_ltp (ms_broker S) is (w_now w) (md_broker (w_bk w)) = (b', m, ps, q)"
    by (metis prod.collapse)
  have alive: "q \<noteq> Inl ProcessCrash" using Suc.prems unfolding poller_alive_def by (metis call snd_conv)
  define w1 where "w1 = fst (try_sum (bcall (lift_md (bk_ltp (ms_broker S) is))) w)"
  have step: "try_sum (bcall (lift_md (bk_ltp (ms_broker S) is))) w = (w1, Inr q)"
    and cache: "md_cache (w_bk w1) = md_cache (w_bk w)"
    by (simp_all add: w1_def try_sum_def bcall_def lift_md_def call Let_def)
  have done_f: "\<exists>w' r. sq (note_failure S u) (ret None) w1 = (w', Inr r) \<and>
      md_cache (w_bk w') = md_cache (w_bk w)" for u
    by (simp add: sq_def bnd_def note_failure_run ret_def cache)
  show ?case
  proof (cases q)
    case (Inl e)
    show ?thesis
    proof (cases "is_nonretryable_broker_error e \<or> \<not> is_broker_error e \<or> n = 0")
      case True
      have "poll_tries S is (Suc n) backoff w = sq (note_failure S False) (ret None) w1 \<or>
          poll_tries S is (Suc n) backoff w = sq (note_failure S True) (ret None) w1"
        using True alive by (auto simp: bnd_def [of "try_sum m" for m] step Inl is_exception_def)
      then show ?thesis using done_f by metis
    next
      case False
      have "poll_tries S is (Suc n) backoff w = poll_tries S is n (backoff * 2)
          (w1\<lparr>w_now := w_now w1 + int (min backoff (mc_max_backoff (ms_config S)))\<rparr>)"
        using False by (simp add: bnd_def step Inl sq_def sleep_def modify_def)
      then show ?thesis using Suc.IH [OF Suc.prems, of "backoff * 2"] cache by fastforce
    qed
  next
    case (Inr polled)
    then show ?thesis by (simp add: bnd_def step sq_def note_recovered_def set_md_run ret_def cache)
  qed
qed

text \<open>
  C25: asking for prices never raises, whatever the poller does, and never hands out a stale price:
  a price in the answer either was in the cache and no older than the freshness window when asked
  for, or has just been polled and is in the cache with the present time. So the exits that do not
  need a price keep running through an outage, and those that need one never act on an old one.
\<close>

theorem prices_are_fresh_or_polled:
  assumes "poller_alive S"
  shows "case get_ltps S is w of
    (w', Inl e) \<Rightarrow> False
  | (w', Inr res) \<Rightarrow>
      \<forall>i. case map_of res i of
            None \<Rightarrow> True
          | Some p \<Rightarrow>
              (\<exists>e. map_of (md_cache (w_bk w)) i = Some e \<and> ca_price e = p \<and>
                 w_now w - ca_at e \<le> int (mc_freshness (ms_config S))) \<or>
              map_of (md_cache (w_bk w')) i = Some \<lparr>ca_price = p, ca_at = w_now w'\<rparr>"
proof -
  let ?c = "md_cache (w_bk w)" and ?a = "mc_freshness (ms_config S)"
  obtain res to_poll where sp: "split_fresh ?c (w_now w) ?a is = (res, to_poll)" by (metis prod.collapse)
  have fresh: "map_of res i = Some p \<Longrightarrow> \<exists>e. map_of ?c i = Some e \<and> ca_price e = p \<and> w_now w - ca_at e \<le> int ?a"
    for i p using split_fresh_spec [OF sp] by blast
  have start: "get_ltps S is w =
      (if to_poll = [] then (w, Inr res) else bnd (poll S to_poll False) (\<lambda>polled. ret (merge_prices res polled)) w)"
    by (simp add: get_ltps_def bnd_def now_def asks_def get_md_def sp ret_def)
  show ?thesis
  proof (cases "to_poll = []")
    case True
    then show ?thesis using fresh by (simp add: start split: option.split)
  next
    case False
    obtain w1 r where tries: "resilient_poll S to_poll w = (w1, Inr r)" and cache: "md_cache (w_bk w1) = ?c"
      using tries_return [OF assms] unfolding resilient_poll_def by blast
    show ?thesis
    proof (cases "r = None \<or> r = Some []")
      case True
      then have "poll S to_poll False w = (w1, Inr [])"
        by (auto simp: poll_def bnd_def tries ret_def)
      then have "get_ltps S is w = (w1, Inr res)"
        using False by (simp add: start bnd_def ret_def merge_prices_def)
      then show ?thesis using fresh by (simp split: option.split)
    next
      case nonempty: False
      then obtain polled where r: "r = Some polled" "polled \<noteq> []" by auto
      let ?b = "\<lambda>i p. broadcast (ms_consumers S) \<lparr>tk_instrument = i, tk_price = p, tk_time = w_now w1\<rparr>"
      obtain c where store: "for_each polled (\<lambda>(i, p).
           sq (set_md (\<lambda>m. m\<lparr>md_cache := cache_update i p (w_now w1) (md_cache m)\<rparr>))
             (do_if (False \<and> p > 0) (?b i p))) w1 =
         (w1\<lparr>w_bk := (w_bk w1)\<lparr>md_cache := c\<rparr>\<rparr>, Inr ())"
        and c: "\<And>i. map_of c i =
           (case map_of (rev polled) i of Some p \<Rightarrow> Some \<lparr>ca_price = p, ca_at = w_now w1\<rparr>
            | None \<Rightarrow> map_of (md_cache (w_bk w1)) i)"
        using store_prices [of polled "w_now w1" ?b w1] by blast
      have "get_ltps S is w =
          (w1\<lparr>w_bk := (w_bk w1)\<lparr>md_cache := c\<rparr>\<rparr>, Inr (merge_prices res polled))"
        using False r store
        by (simp add: start poll_def bnd_def tries sq_def now_def asks_def ret_def)
      then show ?thesis using fresh by (auto simp: merge_lookup c split: option.splits)
    qed
  qed
qed

section \<open>The whole stack\<close>

lemma lift_md_outcome:
  "lift_md f t s = (s', n, ps, r) \<Longrightarrow> \<exists>b. f t (md_broker s) = (b, n, ps, r) \<and> md_broker s' = b"
  by (auto simp: lift_md_def split: prod.splits)

context broker_book
begin

lemma market_book: "broker_book (with_market B) (\<lambda>m. book (md_broker m))"
proof
  fix req t b b' n ps r
  assume "bk_place (with_market B) req t b = (b', n, ps, r)"
  then have "lift_md (bk_place B req) t b = (b', n, ps, r)" by (simp add: with_market_def)
  from lift_md_outcome [OF this]
  show "\<exists>oid. set (book (md_broker b')) \<subseteq> insert (oid, pr_tag req) (set (book (md_broker b)))"
    using place_book by blast
qed (simp_all add: with_market_def,
     (drule lift_md_outcome,
       auto dest: get_book tag_book orders_book positions_book margins_book health_book ltp_book
         contract_book)+)

end

interpretation full_stack: broker_book "with_market (rate_limited limit (kite_broker P timeout))"
    "\<lambda>m. kite_book (li_inner (md_broker m))" for limit P timeout
  by (rule throttled_kite.market_book)

text \<open>What does not look at the service's own fields is kept by the whole service.\<close>

definition market_free :: "(('b, 's) md world \<Rightarrow> bool) \<Rightarrow> bool" where
  "market_free W \<longleftrightarrow>
     (\<forall>w m. W w \<longrightarrow> md_broker m = md_broker (w_bk w) \<longrightarrow> W (w\<lparr>w_bk := m\<rparr>))"

lemma free_set_md: "market_free W \<Longrightarrow> (\<And>m. md_broker (f m) = md_broker m) \<Longrightarrow> keeps W (set_md f)"
  by (simp add: keeps_def set_md_run market_free_def)

lemma free_stream_op: "market_free W \<Longrightarrow> keeps W (stream_op f)"
  by (auto simp: keeps_def stream_op_def market_free_def split: prod.split)

lemma free_get_md: "keeps W (get_md f)"
  by (simp add: get_md_def keeps_asks)

definition poller_keeps :: "('b, 's) md_setup \<Rightarrow> (('b, 's) md world \<Rightarrow> bool) \<Rightarrow> bool" where
  "poller_keeps S W \<longleftrightarrow>
     (\<forall>is. keeps W (bcall (lift_md (bk_ltp (ms_broker S) is)))) \<and> (\<forall>n. keeps W (sleep n)) \<and> keeps W now \<and>
     (\<forall>f \<in> set (ms_consumers S). \<forall>tick. keeps W (f tick))"

lemma free_broadcast: "(\<forall>f \<in> set fs. \<forall>tick. keeps W (f tick)) \<Longrightarrow> keeps W (broadcast fs tick)"
proof -
  assume fs: "\<forall>f \<in> set fs. \<forall>tick. keeps W (f tick)"
  have "keeps W (for_each gs (\<lambda>f. catch_if is_exception (f tick) (\<lambda>_. ret ())))" if "set gs \<subseteq> set fs" for gs
    using that
  proof (induction gs)
    case (Cons g gs)
    then show ?case using fs by (auto intro!: keeps_sq keeps_catch_if keeps_ret)
  qed (simp add: keeps_ret)
  then show ?thesis by (simp add: broadcast_def)
qed

lemma free_poll:
  assumes "market_free W" "poller_keeps S W"
  shows "keeps W (poll S is b)"
proof -
  have fail: "keeps W (note_failure S u)" for u
    unfolding note_failure_def by (rule free_set_md [OF assms(1)]) (simp add: Let_def)
  have rec: "keeps W note_recovered" unfolding note_recovered_def by (rule free_set_md [OF assms(1)]) simp
  have tries: "keeps W (poll_tries S is n backoff)" for n backoff
  proof (induction n arbitrary: backoff)
    case (Suc n)
    show ?case unfolding poll_tries.simps
      using assms(2) by (intro keeps_intro keeps_try_sum fail rec Suc.IH) (simp_all add: poller_keeps_def)
  qed (simp, intro keeps_intro fail)
  have store: "keeps W (set_md (\<lambda>m. m\<lparr>md_cache := cache_update i p t (md_cache m)\<rparr>))" for i p t
    by (rule free_set_md [OF assms(1)]) simp
  have bc: "keeps W (broadcast (ms_consumers S) tick)" for tick
    using assms(2) by (intro free_broadcast) (simp add: poller_keeps_def)
  have "keeps W now" using assms(2) by (simp add: poller_keeps_def)
  then show ?thesis unfolding poll_def resilient_poll_def
    by (intro keeps_intro tries store bc)
qed

lemma market_gateway_keeps:
  assumes "market_free W" "poller_keeps S W"
  shows "gateway_keeps W (market_gateway S)"
proof -
  have sub: "keeps W (safe_stream_subscribe S is)" "keeps W (safe_stream_unsubscribe S is)" for "is"
    unfolding safe_stream_subscribe_def safe_stream_unsubscribe_def
    by (intro keeps_intro free_stream_op [OF assms(1)])+
  have sets: "keeps W (set_md (\<lambda>m. m\<lparr>md_counts := c\<rparr>))" "keeps W (set_md (\<lambda>m. m\<lparr>md_cache := g m\<rparr>))" for c g
    by (rule free_set_md [OF assms(1)], simp)+
  have "keeps W now" using assms(2) by (simp add: poller_keeps_def)
  then show ?thesis
    unfolding gateway_keeps_def market_gateway_def gateway.simps md_connected_def get_ltps_def
      md_subscribe_def md_unsubscribe_def
    by (intro conjI allI keeps_intro free_get_md free_poll [OF assms] sub sets)
qed

definition stack_announced :: "('f kite limited, 's) md world \<Rightarrow> bool" where
  "stack_announced w \<longleftrightarrow>
     (\<forall>tag \<in> set (sent_tags (kt_log (li_inner (md_broker (w_bk w))))). tag_started tag (w_db w))"

lemma stack_announced_first:
  "stack_announced = broker_book.intent_first (\<lambda>m. kite_book (li_inner (md_broker m)))"
  unfolding fun_eq_iff broker_book.intent_first_def [OF full_stack.broker_book_axioms]
  by (force simp: stack_announced_def kite_book_def)

lemma stack_market_free: "market_free stack_announced"
  by (simp add: market_free_def stack_announced_def)

lemma stack_poller_keeps:
  fixes S :: "('f kite limited, 's) md_setup"
  assumes "ms_broker S = rate_limited limit (kite_broker P timeout)"
    and "\<forall>f \<in> set (ms_consumers S). \<forall>tick. keeps stack_announced (f tick)"
  shows "poller_keeps S stack_announced"
proof -
  have "keeps stack_announced (bcall (bk_ltp (with_market (rate_limited limit (kite_broker P timeout))) is ::
      (('f kite limited, 's) md, (instrument_id \<times> decimal) list) broker_call))" for "is"
    unfolding stack_announced_first
    by (rule broker_book.keeps_quiet_call [OF full_stack.broker_book_axioms],
        rule broker_book.quiet_calls [OF full_stack.broker_book_axioms])
  then show ?thesis using assms(2)
    by (simp add: poller_keeps_def assms(1) with_market_def sleep_def now_def keeps_def modify_def asks_def
        stack_announced_def)
qed

text \<open>
  The whole live stack - strategy, monitor, market data service, rate limiter, Kite - never puts
  an order on the wire that the database does not know of. Over the whole life of an instance, any
  sequence of starts, triggers, ticks, heartbeats and stops, with the process dying anywhere, and
  whatever Kite and the tick stream answer, every order ever sent was announced by a durable intent
  marked started before. So after any crash the database names every order that may exist.
\<close>

theorem live_orders_announced:
  assumes "cx_broker cx = with_market (rate_limited limit (kite_broker P timeout))"
    and "ms_broker S = rate_limited limit (kite_broker P timeout)" and "ms_consumers S = []"
    and "ctx_keeps stack_announced cx" and "stack_announced (fst s)"
  shows "stack_announced (fst (run_life (strategy1 cx (market_gateway S)) es s))"
proof -
  have "gateway_keeps stack_announced (market_gateway S)"
    by (rule market_gateway_keeps [OF stack_market_free stack_poller_keeps [OF assms(2)]])
      (simp add: assms(3))
  then have d: "drives stack_announced cx (market_gateway S)"
    using broker_book.drives_book [OF full_stack.broker_book_axioms assms(1)] assms(4)
    unfolding stack_announced_first by blast
  show ?thesis by (rule life_keeps [OF d]) (use assms(5) in \<open>simp_all add: stack_announced_def\<close>)
qed

section \<open>Concrete runs\<close>

definition dead_kite :: kite_client where
  "dead_kite n c = (5, Inl ([ReadTimeout, ReqTimeout], []))"

definition demo_md_config :: md_config where
  "demo_md_config = \<lparr>mc_freshness = 5000000, mc_attempts = 3, mc_backoff = 500000,
     mc_max_backoff = 8000000, mc_threshold = 2\<rparr>"

definition live_setup :: "(unit kite limited, unit) md_setup" where
  "live_setup = \<lparr>ms_config = demo_md_config, ms_stream = polling_stream,
     ms_broker = rate_limited (Some 2000000) (kite_broker (demo_setup dead_kite) None), ms_consumers = []\<rparr>"

definition live_cx :: "(unit kite limited, unit) md ctx" where
  "live_cx =
     \<lparr>cx_id = demo_identity, cx_config = demo_config,
      cx_broker = with_market (rate_limited (Some 2000000) (kite_broker (demo_setup dead_kite) None)),
      cx_halted = ret False,
      cx_approve = (\<lambda>n. ret \<lparr>rd_approved = True, rd_reason = None\<rparr>),
      cx_spec = (\<lambda>i. Inr \<lparr>is_instrument = ''NIFTY'', is_exchange = NFO, is_strike_interval = 50,
        is_lot_size = 75, is_tick_size = 5/100, is_underlying = None\<rparr>),
      cx_expiry = (\<lambda>i d. ret 20000), cx_spot = (\<lambda>i. ret 24010), cx_history = (\<lambda>p. ret ())\<rparr>"

definition live_world :: "(unit kite limited, unit) md world" where
  "live_world =
     \<lparr>w_db = empty_db,
      w_bk = new_md \<lparr>li_inner = new_kite () 0,
        li_buckets = new_buckets [(ORDER_MUTATION, \<lparr>rl_max_calls = 1, rl_per = 1000000\<rparr>)],
        li_naps = []\<rparr> (),
      w_now = 1000, w_env = [], w_exit_lock = False\<rparr>"

theorem live_orders_witness:
  "stack_announced (fst (run_life (strategy1 live_cx (market_gateway live_setup)) demo_life
      (live_world, new_runner)))"
  by (rule live_orders_announced [where limit = "Some 2000000" and P = "demo_setup dead_kite" and timeout = None])
    (simp_all add: live_cx_def live_setup_def ctx_keeps_def keeps_ret
      stack_announced_def live_world_def new_md_def new_kite_def sent_tags_def map_filter_def)

text \<open>A poller that is down, in place of a broker.\<close>

definition down_setup :: "(unit, unit) md_setup" where
  "down_setup = \<lparr>ms_config = demo_md_config, ms_stream = polling_stream,
     ms_broker =
       \<lparr>bk_place = \<lambda>req t b. (b, 0, [], Inr []), bk_get = \<lambda>oid t b. (b, 0, [], Inl KeyError),
        bk_find_tag = \<lambda>tag t b. (b, 0, [], Inr None), bk_orders = \<lambda>t b. (b, 0, [], Inr []),
        bk_positions = \<lambda>t b. (b, 0, [], Inr []), bk_margins = \<lambda>t b. (b, 0, [], Inl KeyError),
        bk_health = \<lambda>t b. (b, 0, [], Inl KeyError),
        bk_ltp = \<lambda>is t b. (b, 9, [], Inl (BrokerConnectionError [])),
        bk_contract = \<lambda>u x st ot ex t b. (b, 0, [], Inl KeyError), bk_authenticated = \<lambda>b. True\<rparr>,
     ms_consumers = []\<rparr>"

definition down_world :: "(unit, unit) md world" where
  "down_world =
     \<lparr>w_db = empty_db,
      w_bk = (new_md () ())\<lparr>md_cache := [(\<lparr>ii_exchange = NFO, ii_symbol = ''X''\<rparr>, \<lparr>ca_price = 10, ca_at = 0\<rparr>)]\<rparr>,
      w_now = 60000000, w_env = [], w_exit_lock = False\<rparr>"

lemma down_fails: "always_fails down_setup"
  by (simp add: always_fails_def down_setup_def is_broker_error_def)

theorem outage_witness:
  "\<exists>w'. poll_cycles down_setup [\<lparr>ii_exchange = NFO, ii_symbol = ''X''\<rparr>] 9 down_world = (w', Inr ()) \<and>
     length (filter (\<lambda>a. a = SV_ERROR) (md_alerts (w_bk w'))) = 1"
  using outage_escalated_once [OF down_fails, where w = down_world and n = 9 and ?is = "[\<lparr>ii_exchange = NFO, ii_symbol = ''X''\<rparr>]"]
  by (auto simp: down_world_def new_md_def down_setup_def demo_md_config_def)

theorem prices_witness:
  "case get_ltps down_setup [\<lparr>ii_exchange = NFO, ii_symbol = ''X''\<rparr>] down_world of
     (w', Inl e) \<Rightarrow> False | (w', Inr res) \<Rightarrow> True"
  using prices_are_fresh_or_polled [where S = down_setup and w = down_world and ?is = "[\<lparr>ii_exchange = NFO, ii_symbol = ''X''\<rparr>]"]
  by (auto simp: poller_alive_def down_setup_def split: prod.splits sum.splits)

end
