(* ===== verification/Kite_Stream.thy ===== *)
theory Kite_Stream
  imports Market_Data Kite_Broker
begin

text \<open>
  The two sockets of the live broker: \<open>brokers/kite/market_ticker.py\<close>, the tick stream of the market
  data service, and \<open>brokers/kite/websocket.py\<close>, the push channel of order updates. The ticker of the
  package kiteconnect is an argument: what its \<open>n\<close>-th call answers is arbitrary. Which tokens the
  socket streams is observed in \<open>kk_live\<close>, which no code reads: a connected socket starts with none,
  a successful subscribe adds and a successful unsubscribe removes.
\<close>

section \<open>The tick stream\<close>

datatype ticker_call =
  TConnect | TClose | TSubscribe "int list" | TMode "int list" | TUnsubscribe "int list"

type_synonym ticker = "nat \<Rightarrow> ticker_call \<Rightarrow> exn + unit"

record kite_ticks =
  kk_ticker :: bool
  kk_connected :: bool
  kk_tokens :: "int list"
  kk_calls :: "ticker_call list"
  kk_live :: "int list"

record tick_setup =
  kx_ticker :: ticker
  kx_token_for :: "instrument_id \<Rightarrow> exn + int"
  kx_instrument_for :: "int \<Rightarrow> exn + instrument_id option"

type_synonym 'a tick_act = "(kite_ticks, 'a) act"

definition new_ticks :: kite_ticks where
  "new_ticks = \<lparr>kk_ticker = False, kk_connected = False, kk_tokens = [], kk_calls = [], kk_live = []\<rparr>"

fun socket_effect :: "ticker_call \<Rightarrow> int list \<Rightarrow> int list" where
  "socket_effect (TSubscribe ts) live = live @ filter (\<lambda>t. t \<notin> set live) ts"
| "socket_effect (TUnsubscribe ts) live = filter (\<lambda>t. t \<notin> set ts) live"
| "socket_effect c live = live"

definition ticker_op :: "tick_setup \<Rightarrow> ticker_call \<Rightarrow> unit tick_act" where
  "ticker_op X c s =
     (let r = kx_ticker X (length (kk_calls s)) c
      in (s\<lparr>kk_calls := kk_calls s @ [c],
            kk_live := (if kk_connected s \<and> r = Inr () then socket_effect c (kk_live s) else kk_live s)\<rparr>, r))"

fun resolve_tokens :: "tick_setup \<Rightarrow> instrument_id list \<Rightarrow> int list" where
  "resolve_tokens X [] = []"
| "resolve_tokens X (i # is) =
     (case kx_token_for X i of Inl e \<Rightarrow> resolve_tokens X is | Inr t \<Rightarrow> t # resolve_tokens X is)"

definition ticks_start :: "tick_setup \<Rightarrow> unit tick_act" where
  "ticks_start X =
     bnd (asks kk_ticker) (\<lambda>running.
     if running then ret ()
     else sq (modify (\<lambda>s. s\<lparr>kk_ticker := True\<rparr>)) (ticker_op X TConnect))"

definition ticks_stop :: "tick_setup \<Rightarrow> unit tick_act" where
  "ticks_stop X =
     bnd (asks kk_ticker) (\<lambda>running.
     sq (modify (\<lambda>s. s\<lparr>kk_ticker := False, kk_connected := False, kk_tokens := []\<rparr>))
        (do_if running (catch_if is_exception (ticker_op X TClose) (\<lambda>_. ret ()))))"

definition ticks_subscribe :: "tick_setup \<Rightarrow> instrument_id list \<Rightarrow> unit tick_act" where
  "ticks_subscribe X is =
     (let tokens = resolve_tokens X is
      in if tokens = [] then ret ()
         else bnd (asks kk_ticker) (\<lambda>running.
              sq (modify (\<lambda>s. s\<lparr>kk_tokens := kk_tokens s @ filter (\<lambda>t. t \<notin> set (kk_tokens s)) tokens\<rparr>))
                 (do_if running (sq (ticker_op X (TSubscribe tokens)) (ticker_op X (TMode tokens))))))"

definition ticks_unsubscribe :: "tick_setup \<Rightarrow> instrument_id list \<Rightarrow> unit tick_act" where
  "ticks_unsubscribe X is =
     (let tokens = resolve_tokens X is
      in if tokens = [] then ret ()
         else bnd (asks kk_ticker) (\<lambda>running.
              sq (modify (\<lambda>s. s\<lparr>kk_tokens := filter (\<lambda>t. t \<notin> set tokens) (kk_tokens s)\<rparr>))
                 (do_if running (ticker_op X (TUnsubscribe tokens)))))"

text \<open>
  The socket (re)connected: it streams nothing yet, and the handler re-applies every token. The
  service's own handler, which is called next, is \<open>md_on_connect\<close>.
\<close>

definition handle_connect :: "tick_setup \<Rightarrow> unit tick_act" where
  "handle_connect X =
     sq (modify (\<lambda>s. s\<lparr>kk_connected := True, kk_live := []\<rparr>))
     (bnd (asks (\<lambda>s. (kk_ticker s, kk_tokens s))) (\<lambda>(running, tokens).
      do_if (running \<and> tokens \<noteq> []) (sq (ticker_op X (TSubscribe tokens)) (ticker_op X (TMode tokens)))))"

definition handle_close :: "unit tick_act" where
  "handle_close = modify (\<lambda>s. s\<lparr>kk_connected := False, kk_live := []\<rparr>)"

definition to_tick :: "tick_setup \<Rightarrow> dt \<Rightarrow> pydict \<Rightarrow> exn + tick option" where
  "to_tick X t raw =
     (if dget raw ''instrument_token'' = PNone then Inr None
      else sbind (py_int (dget raw ''instrument_token'')) (\<lambda>token.
           sbind (kx_instrument_for X token) (\<lambda>ident.
           case ident of
             None \<Rightarrow> Inr None
           | Some i \<Rightarrow>
               (let p = dget raw ''last_price'';
                    ts = py_or (dget raw ''exchange_timestamp'') (dget raw ''last_trade_time'')
                in if p = PNone then Inr None
                   else case decimal_of p of
                          None \<Rightarrow> Inl ValueError
                        | Some x \<Rightarrow>
                            Inr (Some \<lparr>tk_instrument = i, tk_price = x,
                              tk_time = (case localize ts of None \<Rightarrow> t | Some u \<Rightarrow> u)\<rparr>)))))"

text \<open>The ticks of one message that reach the service, in order; a malformed one is dropped.\<close>

definition handle_ticks :: "tick_setup \<Rightarrow> dt \<Rightarrow> pydict list \<Rightarrow> tick list" where
  "handle_ticks X t raws =
     List.map_filter (\<lambda>raw. case to_tick X t raw of Inl e \<Rightarrow> None | Inr r \<Rightarrow> r) raws"

definition kite_tick_stream :: "tick_setup \<Rightarrow> kite_ticks tick_stream" where
  "kite_tick_stream X =
     \<lparr>sm_start = ticks_start X, sm_stop = ticks_stop X, sm_connected = kk_connected,
      sm_subscribe = ticks_subscribe X, sm_unsubscribe = ticks_unsubscribe X\<rparr>"

section \<open>Order updates\<close>

record 's order_stream =
  st_ticker :: bool
  st_connected :: bool
  st_callbacks :: "(broker_order \<Rightarrow> ('s, unit) act) list"

definition stream_connect :: "'s order_stream \<Rightarrow> 's order_stream" where
  "stream_connect s = s\<lparr>st_ticker := True\<rparr>"

definition stream_disconnect :: "'s order_stream \<Rightarrow> 's order_stream" where
  "stream_disconnect s = s\<lparr>st_ticker := False, st_connected := False\<rparr>"

definition stream_register ::
    "(broker_order \<Rightarrow> ('s, unit) act) \<Rightarrow> 's order_stream \<Rightarrow> 's order_stream" where
  "stream_register f s = s\<lparr>st_callbacks := st_callbacks s @ [f]\<rparr>"

definition stream_on_connect :: "'s order_stream \<Rightarrow> 's order_stream" where
  "stream_on_connect s = s\<lparr>st_connected := True\<rparr>"

definition stream_on_close :: "'s order_stream \<Rightarrow> 's order_stream" where
  "stream_on_close s = s\<lparr>st_connected := False\<rparr>"

definition dispatch_order :: "'s order_stream \<Rightarrow> broker_order \<Rightarrow> ('s, unit) act" where
  "dispatch_order st order =
     for_each (st_callbacks st) (\<lambda>f. catch_if is_exception (f order) (\<lambda>_. ret ()))"

definition stream_on_order_update ::
    "(pyval \<Rightarrow> string) \<Rightarrow> kite_names \<Rightarrow> 's order_stream \<Rightarrow> pydict \<Rightarrow> ('s, unit) act" where
  "stream_on_order_update rend N st data =
     (case kite_to_broker_order rend N data of
        Inl (KiteMappingError m) \<Rightarrow> ret ()
      | Inl e \<Rightarrow> throw e
      | Inr order \<Rightarrow> dispatch_order st order)"

section \<open>The socket follows the registered tokens\<close>

text \<open>A ticker whose calls succeed, and the events of a stream's life.\<close>

definition ticker_ok :: "tick_setup \<Rightarrow> bool" where
  "ticker_ok X \<longleftrightarrow> (\<forall>n c. kx_ticker X n c = Inr ())"

datatype stream_event =
    SvStart | SvStop | SvSubscribe "instrument_id list" | SvUnsubscribe "instrument_id list"
  | SvConnected | SvClosed

fun stream_step :: "tick_setup \<Rightarrow> stream_event \<Rightarrow> kite_ticks \<Rightarrow> kite_ticks" where
  "stream_step X SvStart s = fst (ticks_start X s)"
| "stream_step X SvStop s = fst (ticks_stop X s)"
| "stream_step X (SvSubscribe is) s = fst (ticks_subscribe X is s)"
| "stream_step X (SvUnsubscribe is) s = fst (ticks_unsubscribe X is s)"
| "stream_step X SvConnected s = (if kk_ticker s then fst (handle_connect X s) else s)"
| "stream_step X SvClosed s = fst (handle_close s)"

definition in_sync :: "kite_ticks \<Rightarrow> bool" where
  "in_sync s \<longleftrightarrow> (kk_connected s \<longrightarrow> kk_ticker s \<and> set (kk_live s) = set (kk_tokens s))"

lemma ticker_op_ok:
  "ticker_ok X \<Longrightarrow> ticker_op X c s =
     (s\<lparr>kk_calls := kk_calls s @ [c],
        kk_live := (if kk_connected s then socket_effect c (kk_live s) else kk_live s)\<rparr>, Inr ())"
  by (simp add: ticker_op_def ticker_ok_def Let_def)

lemma step_in_sync: "ticker_ok X \<Longrightarrow> in_sync s \<Longrightarrow> in_sync (stream_step X e s)"
  by (cases e)
    (auto simp: in_sync_def ticks_start_def ticks_stop_def ticks_subscribe_def ticks_unsubscribe_def
      handle_connect_def handle_close_def ticker_op_ok act_defs Let_def)


definition demo_ticks :: tick_setup where
  "demo_ticks = \<lparr>kx_ticker = (\<lambda>n c. Inr ()), kx_token_for = (\<lambda>i. Inr (int (length (ii_symbol i)))),
     kx_instrument_for = (\<lambda>t. Inr None)\<rparr>"


end
