(* ===== verification/Trade_History.thy ===== *)
theory Trade_History
  imports Entry_Sim "HOL-Library.AList"
begin

text \<open>
  \<open>services/trade_history_recorder.py\<close> and \<open>backfill_trade_history.py\<close>: the permanent record of a closed
  trade, built from the execution tables and inserted at most once, and the command that records
  every closed position that has none. Log lines and the printed report are left out.
\<close>

section \<open>Derived figures\<close>

definition quantize_even :: "nat \<Rightarrow> decimal \<Rightarrow> decimal" where
  "quantize_even n x = of_int (round_half_even (x * 10 ^ n)) / 10 ^ n"

definition day_name :: "date \<Rightarrow> string" where
  "day_name d =
     [''Monday'', ''Tuesday'', ''Wednesday'', ''Thursday'', ''Friday'', ''Saturday'', ''Sunday''] ! nat (weekday d)"

text \<open>\<open>int(total_seconds())\<close> cuts off towards zero.\<close>

definition holding_seconds :: "dt option \<Rightarrow> dt option \<Rightarrow> int option" where
  "holding_seconds entry exit =
     (case (entry, exit) of
        (Some a, Some b) \<Rightarrow> Some (if b \<ge> a then (b - a) div 1000000 else - ((a - b) div 1000000))
      | _ \<Rightarrow> None)"

definition profit_percent :: "position_row \<Rightarrow> decimal option" where
  "profit_percent p =
     (case (p_pnl p, p_entry_premium p, p_quantity p) of
        (Some pnl, Some entry, Some qty) \<Rightarrow>
          (let collected = entry * of_int qty
           in if collected = 0 then None else Some (quantize_even 4 (dec_div pnl collected * 100)))
      | _ \<Rightarrow> None)"

text \<open>The order ids of the completed orders of a purpose, by leg; a later order replaces an earlier one.\<close>

definition broker_order_ids :: "order_purpose \<Rightarrow> (nat \<times> trade_row) list \<Rightarrow> db \<Rightarrow> (option_type \<times> string) list" where
  "broker_order_ids purpose trades d =
     fold (\<lambda>(tid, tr) acc.
       fold (\<lambda>(oid, r) acc.
           case o_broker_id r of
             None \<Rightarrow> acc
           | Some b \<Rightarrow>
               if o_status r = COMPLETE \<and> b \<noteq> [] \<and> o_purpose r = purpose
               then AList.update (t_option tr) b acc else acc)
         (orders_for_trade tid d) acc) trades []"

definition infer_mode :: "(option_type \<times> string) list \<Rightarrow> string option" where
  "infer_mode ids =
     (if ids = [] then None
      else Some (if list_ex (\<lambda>(leg, oid). take 3 oid = ''SIM'') ids then ''PAPER'' else ''LIVE''))"

section \<open>The row\<close>

definition build_row :: "string option \<Rightarrow> nat \<Rightarrow> position_row \<Rightarrow> db \<Rightarrow> history_row" where
  "build_row mode pid p d =
     (let inst = t_get (d_instances d) (p_instance p);
          account = (case inst of None \<Rightarrow> None | Some i \<Rightarrow> t_get (d_accounts d) (si_account i));
          trades = list_trades_for_position pid d;
          leg = (\<lambda>opt. map_of (rev (map (\<lambda>(tid, t). (t_option t, t)) trades)) opt);
          entry_ids = broker_order_ids ENTRY trades d;
          exit_ids = broker_order_ids EXIT trades d;
          secs = holding_seconds (p_entry_done p) (p_exit_done p)
      in \<lparr>h_position = pid, h_instance = Some (p_instance p), h_account = map_option si_account inst,
          h_date = p_date p,
          h_strategy = (case inst of None \<Rightarrow> ''unknown'' | Some i \<Rightarrow> si_strategy i),
          h_instrument = (case inst of None \<Rightarrow> ''unknown'' | Some i \<Rightarrow> si_instrument i),
          h_account_name = map_option ac_name account,
          h_mode = (case mode of
                      Some m \<Rightarrow> if m = [] then infer_mode (entry_ids @ exit_ids) else Some m
                    | None \<Rightarrow> infer_mode (entry_ids @ exit_ids)),
          h_exchange = map_option si_exchange inst,
          h_strike = p_strike p, h_expiry = p_expiry p,
          h_call_symbol = map_option t_symbol (leg CE), h_put_symbol = map_option t_symbol (leg PE),
          h_entry_time = p_entry_done p, h_exit_time = p_exit_done p,
          h_entry_signal = p_entry_signal p, h_exit_signal = p_exit_signal p,
          h_holding_seconds = secs,
          h_holding_minutes = map_option (\<lambda>s. quantize_even 2 (dec_div (of_int s) 60)) secs,
          h_lots = p_lots p, h_lot_size = p_lot_size p, h_quantity = p_quantity p,
          h_entry_premium = p_entry_premium p, h_exit_premium = p_exit_premium p,
          h_target = p_target p, h_stoploss = p_stoploss p,
          h_target_pct = p_target_pct p, h_sl_pct = p_sl_pct p,
          h_call_entry = Option.bind (leg CE) t_entry_price, h_call_exit = Option.bind (leg CE) t_exit_price,
          h_put_entry = Option.bind (leg PE) t_entry_price, h_put_exit = Option.bind (leg PE) t_exit_price,
          h_spot = p_spot p, h_reason = p_exit_reason p, h_pnl = p_pnl p,
          h_pnl_share = pnl_per_share (p_pnl p) (p_lot_size p),
          h_profit_pct = profit_percent p,
          h_weekday = Some (day_name (p_date p)), h_month = Some (month_of (p_date p)),
          h_entry_ids = entry_ids, h_exit_ids = exit_ids\<rparr>)"

section \<open>Recording\<close>

definition record_body :: "string option \<Rightarrow> nat \<Rightarrow> bool tx" where
  "record_body mode pid =
     bnd (asks (history_by_position pid)) (\<lambda>recorded.
     if recorded \<noteq> None then ret False
     else bnd (get_row d_positions pid) (\<lambda>position.
          case position of
            None \<Rightarrow> ret False
          | Some p \<Rightarrow>
              if p_state p \<noteq> CLOSED then ret False
              else bnd (asks (build_row mode pid p)) (\<lambda>row.
                   bnd (history_add_if_absent row) (\<lambda>(hid, created). ret created))))"

definition record_closed_position :: "string option \<Rightarrow> nat \<Rightarrow> ('b, unit) prog" where
  "record_closed_position mode pid =
     catch_if is_exception (sq (unit_of_work (record_body mode pid)) (ret ())) (\<lambda>_. ret ())"

section \<open>The backfill command\<close>

definition history_exists :: "nat \<Rightarrow> ('b, bool) prog" where
  "history_exists pid = read_session (\<lambda>d. history_by_position pid d \<noteq> None)"

fun backfill_each :: "nat list \<Rightarrow> nat \<Rightarrow> ('b, nat) prog" where
  "backfill_each [] written = ret written"
| "backfill_each (pid # pids) written =
     bnd (history_exists pid) (\<lambda>before.
     sq (record_closed_position None pid)
     (bnd (if before then ret False else history_exists pid) (\<lambda>after.
      backfill_each pids (if \<not> before \<and> after then written + 1 else written))))"

definition backfill_run :: "bool \<Rightarrow> ('b, nat) prog" where
  "backfill_run dry_run =
     bnd (read_session (\<lambda>d. (list_closed_ids d, recorded_position_ids (list_closed_ids d) d))) (\<lambda>(closed_ids, already).
     (let missing = filter (\<lambda>pid. pid \<notin> set already) closed_ids
      in if dry_run then ret 0 else backfill_each missing 0))"

text \<open>The exit code of the command.\<close>

definition backfill_main :: "bool \<Rightarrow> ('b, int) prog" where
  "backfill_main dry_run = catch_if is_exception (sq (backfill_run dry_run) (ret 0)) (\<lambda>_. ret 1)"

section \<open>Every closed trade is in the history\<close>

lemma insert_history_ok:
  assumes "db_constraints d" and "history_by_position (h_position row) d = None"
  shows "db_constraints (d\<lparr>d_history := t_add (d_history d) row\<rparr>)"
proof -
  have "h_position row \<notin> h_position ` snd ` set (d_history d)"
    using assms(2) by (auto simp: history_by_position_def t_find_None)
  then have "unique_by (\<lambda>r. Some (h_position r)) (t_add (d_history d) row)"
    using assms(1)
    by (auto simp: db_constraints_def unique_by_def t_add_def map_filter_def image_image)
  then show ?thesis using assms(1) by (simp add: db_constraints_def)
qed

lemma build_row_position [simp]: "h_position (build_row mode pid p d) = pid"
  by (simp add: build_row_def Let_def)

lemma history_of_add:
  "history_by_position pid (d\<lparr>d_history := t_add (d_history d) row\<rparr>) =
     (case history_by_position pid d of
        Some x \<Rightarrow> Some x
      | None \<Rightarrow> if h_position row = pid then Some (t_next (d_history d), row) else None)"
proof -
  have "t_find P (xs @ [(i, r)]) = (case t_find P xs of Some x \<Rightarrow> Some x | None \<Rightarrow> if P r then Some (i, r) else None)"
    for P and xs :: "history_row table" and i r
    by (induction xs) (auto split: prod.splits)
  then show ?thesis by (simp add: history_by_position_def t_add_def)
qed

text \<open>One recording, with no other actor and no failure.\<close>

lemma record_run:
  assumes "w_env w = []" "db_constraints (w_db w)" "t_get (d_positions (w_db w)) pid = Some p" "p_state p = CLOSED"
  shows "record_closed_position mode pid w =
     (case history_by_position pid (w_db w) of
        Some x \<Rightarrow> w
      | None \<Rightarrow> w\<lparr>w_db := (w_db w)\<lparr>d_history := t_add (d_history (w_db w)) (build_row mode pid p (w_db w))\<rparr>\<rparr>,
      Inr ())"
proof (cases "history_by_position pid (w_db w)")
  case None
  have ok: "db_constraints ((w_db w)\<lparr>d_history := t_add (d_history (w_db w)) (build_row mode pid p (w_db w))\<rparr>)"
    using insert_history_ok [OF assms(2)] None by simp
  have "record_body mode pid (w_db w) =
      ((w_db w)\<lparr>d_history := t_add (d_history (w_db w)) (build_row mode pid p (w_db w))\<rparr>, Inr True)"
    using assms(3,4) None ok
    by (simp add: record_body_def bnd_def asks_def get_row_def history_add_if_absent_def get_or_create_def ret_def)
  then show ?thesis using None ok
    by (simp add: record_closed_position_def catch_if_def sq_def bnd_def unit_of_work_def assms(1)
        commit_def ret_def)
next
  case (Some x)
  then have "record_body mode pid (w_db w) = (w_db w, Inr False)"
    by (simp add: record_body_def bnd_def asks_def ret_def)
  then show ?thesis using Some assms(2)
    by (simp add: record_closed_position_def catch_if_def sq_def bnd_def unit_of_work_def assms(1)
        commit_def ret_def)
qed

text \<open>What the command keeps and extends: a new history row is built from the execution tables.\<close>

definition extends_history :: "db \<Rightarrow> db \<Rightarrow> bool" where
  "extends_history d d' \<longleftrightarrow>
     d' = d\<lparr>d_history := d_history d'\<rparr> \<and>
     (\<forall>pid x. history_by_position pid d = Some x \<longrightarrow> history_by_position pid d' = Some x) \<and>
     (\<forall>pid x. history_by_position pid d' = Some x \<longrightarrow> history_by_position pid d = None \<longrightarrow>
        (\<exists>p. t_get (d_positions d) pid = Some p \<and> snd x = build_row None pid p d))"

lemma extends_refl [simp]: "extends_history d d"
  by (simp add: extends_history_def)

lemma broker_order_ids_cong:
  "broker_order_ids q trades (d\<lparr>d_history := h\<rparr>) = broker_order_ids q trades d"
  by (simp add: broker_order_ids_def orders_for_trade_def)

lemma trades_cong:
  "list_trades_for_position pid (d\<lparr>d_history := h\<rparr>) = list_trades_for_position pid d"
  by (simp add: list_trades_for_position_def)

lemma build_row_cong:
  "build_row m pid p (d\<lparr>d_history := h\<rparr>) = build_row m pid p d"
  unfolding build_row_def Let_def broker_order_ids_cong trades_cong by (simp cong: option.case_cong)

lemma extends_trans:
  assumes a: "extends_history a b" and b: "extends_history b c"
  shows "extends_history a c"
proof -
  have eq: "b = a\<lparr>d_history := d_history b\<rparr>" "c = b\<lparr>d_history := d_history c\<rparr>"
    using a b by (simp_all add: extends_history_def)
  have "c = a\<lparr>d_history := d_history c\<rparr>" by (subst eq(2), subst eq(1)) simp
  moreover have "d_positions b = d_positions a" by (subst eq(1)) simp
  moreover have "build_row m pid p b = build_row m pid p a" for m pid p
    by (subst eq(1)) (rule build_row_cong)
  ultimately show ?thesis using a b unfolding extends_history_def
    by (metis not_None_eq)
qed

lemma backfill_each_run:
  assumes "w_env w = []" "db_constraints (w_db w)"
    and "\<And>pid. pid \<in> set pids \<Longrightarrow> \<exists>p. t_get (d_positions (w_db w)) pid = Some p \<and> p_state p = CLOSED"
  shows "\<exists>w' n. backfill_each pids k w = (w', Inr n) \<and> db_constraints (w_db w') \<and>
    extends_history (w_db w) (w_db w') \<and> (\<forall>pid \<in> set pids. history_by_position pid (w_db w') \<noteq> None)"
  using assms
proof (induction pids arbitrary: w k)
  case (Cons pid pids)
  obtain p where p: "t_get (d_positions (w_db w)) pid = Some p" "p_state p = CLOSED"
    using Cons.prems(3) by auto
  define w1 where "w1 = fst (record_closed_position None pid w)"
  note run = record_run [OF Cons.prems(1,2) p, of None]
  have w1: "record_closed_position None pid w = (w1, Inr ())" by (simp add: w1_def run)
  have facts: "w_env w1 = []" "db_constraints (w_db w1)" "extends_history (w_db w) (w_db w1)"
    "history_by_position pid (w_db w1) \<noteq> None" "d_positions (w_db w1) = d_positions (w_db w)"
    using Cons.prems(1,2) p insert_history_ok [OF Cons.prems(2)]
    by (auto simp: w1_def run extends_history_def history_of_add split: option.splits if_splits)
  have step: "\<exists>j. backfill_each (pid # pids) k w = backfill_each pids j w1"
    by (auto simp: bnd_def sq_def history_exists_def read_session_quiet Cons.prems(1) facts(1) w1 ret_def)
  obtain j where j: "backfill_each (pid # pids) k w = backfill_each pids j w1" using step by blast
  obtain w' n where rest: "backfill_each pids j w1 = (w', Inr n)" "db_constraints (w_db w')"
    "extends_history (w_db w1) (w_db w')" "\<forall>q \<in> set pids. history_by_position q (w_db w') \<noteq> None"
    using Cons.IH [OF facts(1,2), of j] Cons.prems(3) facts(5) by auto
  have "history_by_position pid (w_db w') \<noteq> None"
    using facts(4) rest(3) unfolding extends_history_def by fastforce
  then show ?case using j rest extends_trans [OF facts(3) rest(3)] by auto
qed (simp add: ret_def)

lemma unique_select:
  assumes "unique_by key t" "t_find (\<lambda>r. key r = Some k) t = Some x"
  shows "t_select (\<lambda>r. key r = Some k) t = [x]"
  using assms
proof (induction t)
  case (Cons y t)
  have none: "key (snd z) \<noteq> Some k" if "key (snd y) = Some k" "z \<in> set t" for z
    using unique_by_mem [OF Cons.prems(1), of "fst y" "snd y" "fst z" "snd z" k] that Cons.prems(1)
    by (force simp: unique_by_def List.map_filter_def)
  show ?case
  proof (cases "key (snd y) = Some k")
    case True
    then have "filter (\<lambda>(i, r). key r = Some k) t = []"
      using none by (auto simp: filter_empty_conv)
    then show ?thesis using True Cons.prems(2) by (cases y) (auto simp: t_select_def)
  next
    case False
    have "unique_by key t"
      using Cons.prems(1) by (auto simp: unique_by_def List.map_filter_simps split: option.splits)
    then show ?thesis using False Cons by (cases y) (simp add: t_select_def)
  qed
qed simp

lemma one_history_row:
  assumes "db_constraints d" "history_by_position pid d = Some x"
  shows "t_select (\<lambda>r. h_position r = pid) (d_history d) = [x]"
  using unique_select [of "\<lambda>r. Some (h_position r)" "d_history d" pid x] assms
  by (simp add: db_constraints_def history_by_position_def)

lemma listed_history:
  assumes "db_constraints d" "(i, r) \<in> set (d_history d)"
  shows "history_by_position (h_position r) d = Some (i, r)"
proof -
  obtain x where x: "history_by_position (h_position r) d = Some x"
    using assms(2) by (cases "history_by_position (h_position r) d")
      (auto simp: history_by_position_def t_find_None)
  have "(i, r) \<in> set (t_select (\<lambda>q. h_position q = h_position r) (d_history d))"
    using assms(2) by (simp add: t_select_mem)
  then show ?thesis using one_history_row [OF assms(1) x] x by simp
qed

lemma closed_ids_iff:
  assumes "t_wf (d_positions d)"
  shows "pid \<in> set (list_closed_ids d) \<longleftrightarrow> (\<exists>p. t_get (d_positions d) pid = Some p \<and> p_state p = CLOSED)"
proof -
  have "pid \<in> set (list_closed_ids d) \<longleftrightarrow> (\<exists>p. (pid, p) \<in> set (d_positions d) \<and> p_state p = CLOSED)"
    by (auto simp: list_closed_ids_def t_select_def image_iff intro: bexI)
  then show ?thesis using t_get_mem [OF assms] t_get_Some_mem by metis
qed

text \<open>
  C22: after a backfill run that no other actor disturbs, every closed position is in the trade
  history, exactly once, and a row the run wrote is the one the recorder builds from the execution
  tables; the rows that were there are untouched, and so is every execution table. The run does
  not fail.
\<close>

theorem backfill_completes_history:
  assumes "w_env w = []" and "db_constraints (w_db w)" and "t_wf (d_positions (w_db w))"
  shows "case backfill_run False w of
    (w', Inr n) \<Rightarrow>
      (\<forall>(pid, p) \<in> set (d_positions (w_db w)). p_state p = CLOSED \<longrightarrow>
         (\<exists>x. t_select (\<lambda>r. h_position r = pid) (d_history (w_db w')) = [x] \<and>
              (x \<in> set (d_history (w_db w)) \<or> snd x = build_row None pid p (w_db w)))) \<and>
      (\<forall>(i, r) \<in> set (d_history (w_db w)). history_by_position (h_position r) (w_db w') = Some (i, r)) \<and>
      w_db w' = (w_db w)\<lparr>d_history := d_history (w_db w')\<rparr>
  | (w', Inl e) \<Rightarrow> False"
proof -
  let ?d = "w_db w"
  let ?missing = "filter (\<lambda>pid. pid \<notin> set (recorded_position_ids (list_closed_ids ?d) ?d)) (list_closed_ids ?d)"
  have closed: "pid \<in> set (list_closed_ids ?d) \<longleftrightarrow> (\<exists>p. t_get (d_positions ?d) pid = Some p \<and> p_state p = CLOSED)" for pid
    by (rule closed_ids_iff [OF assms(3)])
  obtain w' n where run: "backfill_each ?missing 0 w = (w', Inr n)" "db_constraints (w_db w')"
    "extends_history ?d (w_db w')" "\<forall>pid \<in> set ?missing. history_by_position pid (w_db w') \<noteq> None"
    using backfill_each_run [OF assms(1,2), of ?missing 0] closed by auto
  have all: "backfill_run False w = (w', Inr n)"
    using run(1) by (simp add: backfill_run_def bnd_def read_session_quiet assms(1) Let_def)
  have kept: "history_by_position pid (w_db w') = Some x" if "history_by_position pid ?d = Some x" for pid x
    using run(3) that unfolding extends_history_def by blast
  have one: "\<exists>x. t_select (\<lambda>r. h_position r = pid) (d_history (w_db w')) = [x] \<and>
        (x \<in> set (d_history ?d) \<or> snd x = build_row None pid p ?d)"
    if p: "t_get (d_positions ?d) pid = Some p" "p_state p = CLOSED" for pid p
  proof (cases "history_by_position pid ?d")
    case None
    then have "pid \<in> set ?missing"
      using p closed by (auto simp: recorded_position_ids_def t_select_mem history_by_position_def t_find_None)
    then obtain x where x: "history_by_position pid (w_db w') = Some x" using run(4) by auto
    have "snd x = build_row None pid p ?d"
      using run(3) x None p(1) unfolding extends_history_def by (metis option.inject)
    then show ?thesis using one_history_row [OF run(2) x] by blast
  next
    case (Some x)
    then show ?thesis using one_history_row [OF run(2) kept [OF Some]]
      by (cases x) (auto simp: history_by_position_def dest: t_find_Some)
  qed
  have "\<forall>(pid, p) \<in> set (d_positions ?d). p_state p = CLOSED \<longrightarrow>
         (\<exists>x. t_select (\<lambda>r. h_position r = pid) (d_history (w_db w')) = [x] \<and>
              (x \<in> set (d_history ?d) \<or> snd x = build_row None pid p ?d))"
    using one [OF t_get_mem [OF assms(3)]] by blast
  moreover have "\<forall>(i, r) \<in> set (d_history ?d). history_by_position (h_position r) (w_db w') = Some (i, r)"
    using kept [OF listed_history [OF assms(2)]] by blast
  moreover have "w_db w' = ?d\<lparr>d_history := d_history (w_db w')\<rparr>"
    using run(3) unfolding extends_history_def by blast
  ultimately show ?thesis unfolding all prod.case sum.case by (intro conjI)
qed

theorem backfill_witness:
  "case backfill_run False (demo_world [demo_position\<lparr>p_state := CLOSED\<rparr>]) of
     (w', Inr n) \<Rightarrow> \<exists>i r. t_select (\<lambda>r. h_position r = 1) (d_history (w_db w')) = [(i, r)] \<and>
       r = build_row None 1 (demo_position\<lparr>p_state := CLOSED\<rparr>) (w_db (demo_world [demo_position\<lparr>p_state := CLOSED\<rparr>]))
   | (w', Inl e) \<Rightarrow> False"
proof -
  let ?w = "demo_world [demo_position\<lparr>p_state := CLOSED\<rparr>]"
  have world: "w_env ?w = []" "db_constraints (w_db ?w)" "t_wf (d_positions (w_db ?w))"
    "d_positions (w_db ?w) = [(1, demo_position\<lparr>p_state := CLOSED\<rparr>)]" "d_history (w_db ?w) = []"
    by (simp_all add: demo_world_def demo_position_def empty_db_def db_constraints_def rows_ok_def
        unique_by_def List.map_filter_simps t_wf_def position_ok_def)
  show ?thesis
    using backfill_completes_history [OF world(1-3)] unfolding world(4,5)
    by (auto split: prod.splits sum.splits)
qed

end
