(* ===== verification/Paper_Broker.thy ===== *)
theory Paper_Broker
  imports Kite_Proofs Rate_Proofs Sim_Broker
begin

text \<open>
  \<open>brokers/paper\_trading\_broker.py\<close> and \<open>services/paper\_trading\_seams.py\<close>: the broker of paper
  trading, real reads from Kite composed with simulated orders, and what is left of the simulation
  broker (quotes, holdings, the option chain of a test set-up). A fill reads its price from Kite:
  the price source of the simulation is the read-only broker with its own clock, so the time its
  reads take passes at the end of the simulated operation. Log lines and \<open>close\<close> are left out.
\<close>

section \<open>The rest of the simulation broker\<close>

definition sim_quote ::
    "'p sim_env \<Rightarrow> nat option \<Rightarrow> instrument_id list \<Rightarrow> ('p, (instrument_id \<times> broker_quote) list) sim_act" where
  "sim_quote E timeout ids = sq (simulate_read_call E timeout)
     (bnd (asks sb_clock) (\<lambda>t.
      bnd (map_act (\<lambda>i. bnd (read_price E i) (\<lambda>p. ret (i, p))) ids) (\<lambda>ps.
      ret (fold (\<lambda>(i, p). AList.update i
        \<lparr>bq_instrument = i, bq_last_price = p, bq_open = p, bq_high = p, bq_low = p, bq_close = p,
         bq_volume = 0, bq_timestamp = t\<rparr>) ps []))))"

definition sim_holdings ::
    "'p sim_env \<Rightarrow> broker_holding list \<Rightarrow> nat option \<Rightarrow> ('p, broker_holding list) sim_act" where
  "sim_holdings E holdings timeout = sq (simulate_read_call E timeout) (ret holdings)"

definition sim_get_instrument ::
    "'p sim_env \<Rightarrow> nat option \<Rightarrow> exchange \<Rightarrow> string \<Rightarrow> ('p, broker_instrument) sim_act" where
  "sim_get_instrument E timeout ex symbol = sq (simulate_read_call E timeout)
     (lift_sum (get_by_symbol (se_catalog E) ex symbol))"

definition month_names :: "string list" where
  "month_names = [''JAN'', ''FEB'', ''MAR'', ''APR'', ''MAY'', ''JUN'', ''JUL'', ''AUG'', ''SEP'', ''OCT'', ''NOV'', ''DEC'']"

definition chain_symbol :: "string \<Rightarrow> date \<Rightarrow> decimal \<Rightarrow> option_type \<Rightarrow> string" where
  "chain_symbol underlying expiry strike opt =
     underlying @ pad2 (year_of expiry mod 100) @ month_names ! nat (month_of expiry - 1) @ pad2 (day_of expiry)
       @ int_text (truncate_dec strike) @ option_type_value opt"

record chain_spec =
  ch_underlying :: string
  ch_exchange :: exchange
  ch_expiry :: date
  ch_atm :: decimal
  ch_interval :: decimal
  ch_lot_size :: int
  ch_tick :: decimal

definition chain_instrument :: "chain_spec \<Rightarrow> int \<Rightarrow> decimal \<Rightarrow> option_type \<Rightarrow> broker_instrument" where
  "chain_instrument C token strike opt =
     \<lparr>bi_token = token, bi_exchange = ch_exchange C,
      bi_symbol = chain_symbol (ch_underlying C) (ch_expiry C) strike opt, bi_name = ch_underlying C,
      bi_lot_size = ch_lot_size C, bi_tick_size = ch_tick C, bi_expiry = Some (ch_expiry C),
      bi_strike = Some strike, bi_option_type = Some opt\<rparr>"

fun build_chain :: "chain_spec \<Rightarrow> (int \<times> option_type) list \<Rightarrow> int \<Rightarrow> catalog \<Rightarrow> exn + catalog" where
  "build_chain C [] token c = Inr c"
| "build_chain C ((i, opt) # legs) token c =
     sbind (mk_broker_instrument (chain_instrument C token (ch_atm C + ch_interval C * of_int i) opt)) (\<lambda>inst.
     sbind (catalog_add_option (ch_underlying C) inst c) (\<lambda>c1.
     build_chain C legs (token + 1) c1))"

definition build_option_chain :: "chain_spec \<Rightarrow> int \<Rightarrow> int \<Rightarrow> exn + catalog" where
  "build_option_chain C each_side token =
     build_chain C (concat (map (\<lambda>i. [(i, CE), (i, PE)]) [- each_side .. each_side])) token
       \<lparr>ca_symbols = [], ca_options = []\<rparr>"

section \<open>The price source\<close>

record 'k feed =
  fd_kite :: 'k
  fd_now :: dt

definition kite_ltp_price :: "'k broker \<Rightarrow> instrument_id \<Rightarrow> 'k feed \<Rightarrow> 'k feed \<times> (exn + decimal)" where
  "kite_ltp_price B i f =
     (case bk_ltp B [i] (fd_now f) (fd_kite f) of
        (k, n, ps, r) \<Rightarrow>
          (f\<lparr>fd_kite := k, fd_now := fd_now f + int n\<rparr>,
           case r of
             Inl e \<Rightarrow> Inl e
           | Inr res \<Rightarrow> (case map_of res i of None \<Rightarrow> Inl KeyError | Some p \<Rightarrow> Inr p)))"

section \<open>The composed broker\<close>

text \<open>What paper trading uses of the read-only broker beyond \<open>broker\<close>.\<close>

record 'k paper_env =
  pe_kite :: "'k broker"
  pe_authenticate :: "('k, unit) broker_call"
  pe_quote :: "instrument_id list \<Rightarrow> ('k, (instrument_id \<times> broker_quote) list) broker_call"
  pe_instrument :: "exchange \<Rightarrow> string \<Rightarrow> ('k, broker_instrument) broker_call"
  pe_sim :: "'k feed sim_env"
  pe_holdings :: "broker_holding list"

record 'k paper =
  pp_sim :: "'k feed sim"
  pp_catalog :: catalog

definition paper_kite :: "'k paper \<Rightarrow> 'k" where
  "paper_kite s = fd_kite (sb_prices (pp_sim s))"

definition sim_side :: "'k paper_env \<Rightarrow> 'k paper \<Rightarrow> 'k feed sim_env" where
  "sim_side E s = (pe_sim E)\<lparr>se_catalog := pp_catalog s, se_price := kite_ltp_price (pe_kite E)\<rparr>"

definition paper_sim_op ::
    "'k paper_env \<Rightarrow> ('k feed sim_env \<Rightarrow> ('k feed, 'a) sim_act) \<Rightarrow> ('k paper, 'a) broker_call" where
  "paper_sim_op E f t s =
     (let s0 = pp_sim s
      in case f (sim_side E s) (s0\<lparr>sb_clock := t, sb_pushed := [], sb_prices := (sb_prices s0)\<lparr>fd_now := t\<rparr>\<rparr>) of
           (s1, r) \<Rightarrow>
             (s\<lparr>pp_sim := s1\<rparr>, nat (sb_clock s1 - t) + nat (fd_now (sb_prices s1) - t), sb_pushed s1, r))"

definition paper_kite_op :: "('k, 'a) broker_call \<Rightarrow> ('k paper, 'a) broker_call" where
  "paper_kite_op f t s =
     (case f t (paper_kite s) of
        (k, n, ps, r) \<Rightarrow>
          (s\<lparr>pp_sim := (pp_sim s)\<lparr>sb_prices := (sb_prices (pp_sim s))\<lparr>fd_kite := k\<rparr>\<rparr>\<rparr>, n, ps, r))"

definition paper_authenticate :: "'k paper_env \<Rightarrow> ('k paper, unit) broker_call" where
  "paper_authenticate E t s =
     (case paper_kite_op (pe_authenticate E) t s of
        (s1, n, ps, Inl e) \<Rightarrow> (s1, n, ps, Inl e)
      | (s1, n, ps, Inr u) \<Rightarrow>
          (case paper_sim_op E sim_authenticate (t + int n) s1 of
             (s2, m, qs, r) \<Rightarrow> (s2, n + m, ps @ qs, r)))"

definition paper_is_authenticated :: "'k paper_env \<Rightarrow> 'k paper \<Rightarrow> bool" where
  "paper_is_authenticated E s \<longleftrightarrow> bk_authenticated (pe_kite E) (paper_kite s) \<and> sb_authenticated (pp_sim s)"

definition paper_place :: "'k paper_env \<Rightarrow> nat option \<Rightarrow> place_request \<Rightarrow> ('k paper, string) broker_call" where
  "paper_place E timeout req = paper_sim_op E (\<lambda>V. sim_place V timeout req)"

definition paper_modify :: "'k paper_env \<Rightarrow> nat option \<Rightarrow> modify_request \<Rightarrow> ('k paper, unit) broker_call" where
  "paper_modify E timeout req = paper_sim_op E (\<lambda>V. sim_modify V timeout req)"

definition paper_cancel :: "'k paper_env \<Rightarrow> nat option \<Rightarrow> string \<Rightarrow> ('k paper, unit) broker_call" where
  "paper_cancel E timeout oid = paper_sim_op E (\<lambda>V. sim_cancel V timeout oid)"

definition paper_instrument ::
    "'k paper_env \<Rightarrow> exchange \<Rightarrow> string \<Rightarrow> ('k paper, broker_instrument) broker_call" where
  "paper_instrument E ex symbol t s =
     (case paper_kite_op (pe_instrument E ex symbol) t s of
        (s1, n, ps, Inl e) \<Rightarrow> (s1, n, ps, Inl e)
      | (s1, n, ps, Inr i) \<Rightarrow> (s1\<lparr>pp_catalog := catalog_add i (pp_catalog s1)\<rparr>, n, ps, Inr i))"

definition paper_contract ::
    "'k paper_env \<Rightarrow> string \<Rightarrow> date \<Rightarrow> decimal \<Rightarrow> option_type \<Rightarrow> exchange \<Rightarrow>
     ('k paper, broker_instrument) broker_call" where
  "paper_contract E u x st ot ex t s =
     (case paper_kite_op (bk_contract (pe_kite E) u x st ot ex) t s of
        (s1, n, ps, Inl e) \<Rightarrow> (s1, n, ps, Inl e)
      | (s1, n, ps, Inr i) \<Rightarrow>
          (case catalog_add_option u i (pp_catalog s1) of
             Inl e \<Rightarrow> (s1, n, ps, Inl e)
           | Inr c \<Rightarrow> (s1\<lparr>pp_catalog := c\<rparr>, n, ps, Inr i)))"

definition paper_broker :: "'k paper_env \<Rightarrow> nat option \<Rightarrow> 'k paper broker" where
  "paper_broker E timeout =
     \<lparr>bk_place = paper_place E timeout,
      bk_get = \<lambda>oid. paper_sim_op E (\<lambda>V. sim_get_order V timeout oid),
      bk_find_tag = \<lambda>tag. paper_sim_op E (\<lambda>V. sim_find_tag V timeout tag),
      bk_orders = paper_sim_op E (\<lambda>V. sim_get_orders V timeout),
      bk_positions = paper_sim_op E (\<lambda>V. sim_get_positions V timeout),
      bk_margins = paper_sim_op E (\<lambda>V. sim_get_margins V timeout),
      bk_health = paper_kite_op (bk_health (pe_kite E)),
      bk_ltp = \<lambda>ids. paper_kite_op (bk_ltp (pe_kite E) ids),
      bk_contract = paper_contract E,
      bk_authenticated = paper_is_authenticated E\<rparr>"

text \<open>The set-up of \<open>build\_paper\_trading\_broker\<close>: Kite behind the rate limiter, an empty catalog.\<close>

definition build_paper_broker ::
    "kite_setup \<Rightarrow> 'f token_store \<Rightarrow> nat option \<Rightarrow> 'f kite limited feed sim_env \<Rightarrow> 'f kite limited paper_env" where
  "build_paper_broker P T timeout V =
     \<lparr>pe_kite = rate_limited timeout (kite_broker P timeout),
      pe_authenticate = limited_authenticate timeout (kite_call_op (kite_authenticate P T)),
      pe_quote = limited_quote timeout (\<lambda>ids. kite_call_op (kite_quote P timeout ids)),
      pe_instrument = limited_instrument timeout (\<lambda>ex symbol. kite_call_op (kite_instrument P timeout ex symbol)),
      pe_sim = V, pe_holdings = []\<rparr>"

definition new_paper :: "'k \<Rightarrow> dt \<Rightarrow> 'k paper" where
  "new_paper k t =
     \<lparr>pp_sim =
        \<lparr>sb_authenticated = False, sb_ws = False, sb_orders = [], sb_by_tag = [], sb_positions = [],
         sb_draws = 0, sb_ids = 0, sb_prices = \<lparr>fd_kite = k, fd_now = t\<rparr>, sb_clock = t, sb_pushed = []\<rparr>,
      pp_catalog = \<lparr>ca_symbols = [], ca_options = []\<rparr>\<rparr>"

section \<open>Whatever the platform does with it\<close>

datatype paper_op =
    PAuthenticate
  | PHealth
  | PPlace place_request
  | PModify modify_request
  | PCancel string
  | PGet string
  | POrders
  | PFind string
  | PPositions
  | PHoldings
  | PMargins
  | PQuote "instrument_id list"
  | PLtp "instrument_id list"
  | PInstrument exchange string
  | PContract string date decimal option_type exchange
  | PConnect
  | PDisconnect

fun paper_step :: "'k paper_env \<Rightarrow> nat option \<Rightarrow> paper_op \<times> dt \<Rightarrow> 'k paper \<Rightarrow> 'k paper" where
  "paper_step E timeout (PAuthenticate, t) s = fst (paper_authenticate E t s)"
| "paper_step E timeout (PHealth, t) s = fst (paper_kite_op (bk_health (pe_kite E)) t s)"
| "paper_step E timeout (PPlace req, t) s = fst (paper_place E timeout req t s)"
| "paper_step E timeout (PModify req, t) s = fst (paper_modify E timeout req t s)"
| "paper_step E timeout (PCancel oid, t) s = fst (paper_cancel E timeout oid t s)"
| "paper_step E timeout (PGet oid, t) s = fst (paper_sim_op E (\<lambda>V. sim_get_order V timeout oid) t s)"
| "paper_step E timeout (POrders, t) s = fst (paper_sim_op E (\<lambda>V. sim_get_orders V timeout) t s)"
| "paper_step E timeout (PFind tag, t) s = fst (paper_sim_op E (\<lambda>V. sim_find_tag V timeout tag) t s)"
| "paper_step E timeout (PPositions, t) s = fst (paper_sim_op E (\<lambda>V. sim_get_positions V timeout) t s)"
| "paper_step E timeout (PHoldings, t) s =
     fst (paper_sim_op E (\<lambda>V. sim_holdings V (pe_holdings E) timeout) t s)"
| "paper_step E timeout (PMargins, t) s = fst (paper_sim_op E (\<lambda>V. sim_get_margins V timeout) t s)"
| "paper_step E timeout (PQuote ids, t) s = fst (paper_kite_op (pe_quote E ids) t s)"
| "paper_step E timeout (PLtp ids, t) s = fst (paper_kite_op (bk_ltp (pe_kite E) ids) t s)"
| "paper_step E timeout (PInstrument ex symbol, t) s = fst (paper_instrument E ex symbol t s)"
| "paper_step E timeout (PContract u x st ot ex, t) s = fst (paper_contract E u x st ot ex t s)"
| "paper_step E timeout (PConnect, t) s = fst (paper_sim_op E sim_connect_websocket t s)"
| "paper_step E timeout (PDisconnect, t) s = fst (paper_sim_op E (\<lambda>V. sim_disconnect_websocket) t s)"

end
