(* ===== verification/Paper_Proofs.thy ===== *)
theory Paper_Proofs
  imports Paper_Broker Market_Proofs Entry_Sim
begin

text \<open>
  Properties of paper trading: no operation sends Kite a call that places, changes or cancels an
  order, orders stay announced by intents as with the plain simulation, and a contract resolved
  through Kite stays known to the simulation.
\<close>

section \<open>What a simulated operation does to its price source\<close>

locale price_keeper =
  fixes E :: "'p sim_env" and J :: "'p \<Rightarrow> bool"
  assumes price_keeps: "J p \<Longrightarrow> J (fst (se_price E i p))"
begin

definition fed :: "'p sim \<Rightarrow> bool" where
  "fed s \<longleftrightarrow> J (sb_prices s)"

lemma fed_modify: "(\<And>s. sb_prices (f s) = sb_prices s) \<Longrightarrow> keeps fed (modify f)"
  by (simp add: keeps_def modify_def fed_def)

lemma fed_process: "fed s \<Longrightarrow> process_due_order E force o1 s = (o2, s2, r) \<Longrightarrow> fed s2"
  using price_keeps [of "sb_prices s"]
  by (auto simp: process_due_order_def apply_fill_def fed_def Let_def split: if_splits prod.splits sum.splits)
     (metis fst_conv)+

lemma fed_resolve_list: "fed s \<Longrightarrow> resolve_list E force os s = (os', s', r) \<Longrightarrow> fed s'"
proof (induction os arbitrary: s os' s' r)
  case (Cons x os)
  obtain k o1 where x: "x = (k, o1)" by (metis prod.exhaust)
  obtain o2 s2 u where p: "process_due_order E force o1 s = (o2, s2, u)" by (metis prod_cases3)
  obtain os2 s3 v where q: "resolve_list E force os s2 = (os2, s3, v)" by (metis prod_cases3)
  show ?case
    using Cons.prems Cons.IH [OF fed_process [OF Cons.prems(1) p] q] fed_process [OF Cons.prems(1) p]
    by (cases u; cases v) (auto simp: x p q)
qed simp

lemma fed_resolve: "keeps fed (resolve_due_orders E force)"
  by (auto simp: keeps_def resolve_due_orders_def dispatch_updates_def fed_def
      dest: fed_resolve_list [unfolded fed_def] split: prod.splits sum.splits)

lemma fed_drain: "keeps fed (drain E)"
proof -
  have "fed s \<Longrightarrow> fed (fst (drain E s))" for s
  proof (induction "work_left (sb_orders s)" arbitrary: s rule: less_induct)
    case less
    obtain s1 r where res: "resolve_due_orders E True s = (s1, r)" by (metis prod.exhaust)
    have "fed s1" using fed_resolve [of True] less.prems res by (metis fst_conv keeps_def)
    then show ?case
      using less.hyps [OF resolve_forced_less] res
      by (cases r) (auto simp: drain.simps [of E s])
  qed
  then show ?thesis by (simp add: keeps_def)
qed

lemma fed_pump: "keeps fed (pump E)"
  using fed_drain fed_resolve [of False] by (auto simp: keeps_def pump_def split: prod.split)

lemma fed_prims:
  "keeps fed (draw_below E p)" "keeps fed (sim_sleep n)" "keeps fed require_authenticated"
  "keeps fed (next_order_id E)" "keeps fed (build_sim_order E oid req outcome tm)" "keeps fed (read_price E i)"
  using price_keeps
  by (auto simp: keeps_def draw_below_def sim_sleep_def modify_def require_authenticated_def bnd_def
      asks_def ret_def throw_def next_order_id_def build_sim_order_def read_price_def fed_def Let_def
      split: prod.splits) (metis fst_conv)

lemma fed_gate: "keeps fed (ack_gate E timeout m n)" "keeps fed (simulate_read_call E timeout)"
  unfolding ack_gate_def simulate_read_call_def by (intro keeps_intro fed_prims)+

lemma fed_read: "keeps fed m \<Longrightarrow> keeps fed (sim_read E timeout m)"
  unfolding sim_read_def by (intro keeps_sq fed_gate fed_pump)

lemma fed_orders:
  "keeps fed (find_live oid e)" "keeps fed (put_order oid o1)" "keeps fed (dispatch_order o1)"
  by (auto simp: find_live_def put_order_def dispatch_order_def dispatch_updates_def keeps_def
      bnd_def asks_def modify_def ret_def throw_def lift_sum_def fed_def split: option.splits sum.splits)

lemma fed_ops:
  "keeps fed (sim_place E timeout req)" "keeps fed (sim_modify E timeout mreq)"
  "keeps fed (sim_cancel E timeout oid)" "keeps fed (sim_get_order E timeout oid)"
  "keeps fed (sim_get_orders E timeout)" "keeps fed (sim_find_tag E timeout tag)"
  "keeps fed (sim_get_positions E timeout)" "keeps fed (sim_get_margins E timeout)"
  "keeps fed (sim_holdings E hs timeout)" "keeps fed (sim_authenticate E)"
  "keeps fed (sim_connect_websocket E)" "keeps fed sim_disconnect_websocket"
  unfolding sim_place_def sim_modify_def sim_cancel_def sim_get_order_def sim_get_orders_def
    sim_find_tag_def sim_get_positions_def sim_get_margins_def sim_holdings_def sim_authenticate_def
    sim_connect_websocket_def sim_disconnect_websocket_def position_report_def decide_outcome_def
    case_prod_beta Let_def
  by (intro keeps_intro fed_prims fed_gate fed_read fed_orders fed_pump fed_modify; simp)+

end

section \<open>Calls that only read\<close>

fun mutating :: "kite_call \<Rightarrow> bool" where
  "mutating (KPlace d) = True"
| "mutating (KModify d) = True"
| "mutating (KCancel v oid) = True"
| "mutating c = False"

definition wire :: "'f kite \<Rightarrow> kite_call list" where
  "wire s = filter mutating (kt_log s)"

definition same_wire :: "kite_call list \<Rightarrow> 'f kite \<Rightarrow> bool" where
  "same_wire L s \<longleftrightarrow> wire s = L"

locale reads_only =
  fixes B :: "'k broker" and W :: "'k \<Rightarrow> kite_call list"
  assumes ltp_wire: "bk_ltp B ids t k = (k', n, ps, r1) \<Longrightarrow> W k' = W k"
    and health_wire: "bk_health B t k = (k', n, ps, r2) \<Longrightarrow> W k' = W k"
    and contract_wire: "bk_contract B u x st ot ex t k = (k', n, ps, r3) \<Longrightarrow> W k' = W k"
begin

lemma throttled_reads: "reads_only (rate_limited timeout B) (\<lambda>s. W (li_inner s))"
  by unfold_locales
    (simp_all add: rate_limited_def, (drule limited_call_inner, auto dest: ltp_wire health_wire contract_wire)+)

end

lemma wire_client_call: "\<not> mutating c \<Longrightarrow> keeps (same_wire L) (client_call K c)"
  by (simp add: keeps_def same_wire_def wire_def client_call_run)

lemma wire_modify: "(\<And>s. kt_log (f s) = kt_log s) \<Longrightarrow> keeps (same_wire L) (modify f)"
  by (simp add: keeps_def same_wire_def wire_def modify_def)

lemma wire_token: "keeps (same_wire L) (set_client_token token)"
  by (simp add: keeps_def same_wire_def wire_def set_client_token_def modify_def)

lemma wire_read_tries: "keeps (same_wire L) fn \<Longrightarrow> keeps (same_wire L) (read_tries n delay dl fn e)"
proof (induction n arbitrary: e)
  case (Suc n)
  show ?case unfolding read_tries.simps kite_sleep_def
    by (intro keeps_intro Suc.prems Suc.IH [OF Suc.prems] wire_modify) simp_all
qed (simp add: keeps_throw)

lemma wire_read: "keeps (same_wire L) fn \<Longrightarrow> keeps (same_wire L) (read_call P timeout fn)"
  unfolding read_call_def by (intro keeps_intro wire_read_tries)

lemma wire_rows: "keeps (same_wire L) (instrument_rows P timeout exch)"
  unfolding instrument_rows_def fetch_and_store_def
  by (intro keeps_intro wire_read wire_client_call wire_modify) simp_all

lemma wire_chunks:
  "keeps (same_wire L) (ltp_chunks P timeout cs acc)" "keeps (same_wire L) (quote_chunks P timeout cs qs)"
  by (induction cs arbitrary: acc qs)
    (simp_all, (intro keeps_intro wire_read wire_client_call; simp)+)

lemma wire_reads:
  "keeps (same_wire L) (kite_health P timeout)" "keeps (same_wire L) (kite_ltp P timeout ids)"
  "keeps (same_wire L) (kite_contract P timeout u x st ot ex)" "keeps (same_wire L) (kite_quote P timeout ids)"
  "keeps (same_wire L) (kite_instrument P timeout ex symbol)" "keeps (same_wire L) (kite_authenticate P T)"
  unfolding kite_health_def kite_ltp_def kite_contract_def kite_quote_def kite_instrument_def
    kite_authenticate_def activate_def invalidate_def
  by (intro keeps_intro wire_read wire_client_call wire_chunks wire_rows wire_modify wire_token; simp)+

lemma wire_op:
  assumes "kite_call_op f t s = (s', n, ps, r)" and "\<And>L. keeps (same_wire L) f"
  shows "wire s' = wire s"
proof -
  have "s' = fst (f (s\<lparr>kt_now := t\<rparr>))" using assms(1) by (auto simp: kite_call_op_def split: prod.splits)
  then show ?thesis using assms(2) [of "wire s"] by (simp add: keeps_def same_wire_def wire_def)
qed

interpretation kite_reads: reads_only "kite_broker P timeout" wire for P timeout
  by unfold_locales (auto simp: kite_broker_def dest: wire_op [OF _ wire_reads(2)] wire_op [OF _ wire_reads(1)]
    wire_op [OF _ wire_reads(3)])

section \<open>The composed broker\<close>

locale paper_reads = reads_only "pe_kite E" W for E :: "'k paper_env" and W +
  assumes authenticate_wire: "pe_authenticate E t k = (k', n, ps, r4) \<Longrightarrow> W k' = W k"
    and quote_wire: "pe_quote E ids t k = (k', n, ps, r5) \<Longrightarrow> W k' = W k"
    and instrument_wire: "pe_instrument E ex symbol t k = (k', n, ps, r6) \<Longrightarrow> W k' = W k"
begin

lemma kite_op_wire:
  assumes "\<And>k' n ps r. f t (paper_kite s) = (k', n, ps, r) \<Longrightarrow> W k' = W (paper_kite s)"
    and "paper_kite_op f t s = (s', n, ps, r)"
  shows "W (paper_kite s') = W (paper_kite s)"
  using assms by (auto simp: paper_kite_op_def paper_kite_def split: prod.splits)

lemma source_keeps: "price_keeper (sim_side E s) (\<lambda>p :: 'k feed. W (fd_kite p) = w)"
proof
  fix p :: "'k feed" and i assume p: "W (fd_kite p) = w"
  obtain k n ps r where "bk_ltp (pe_kite E) [i] (fd_now p) (fd_kite p) = (k, n, ps, r)"
    by (metis prod_cases4)
  then show "W (fd_kite (fst (se_price (sim_side E s) i p))) = w"
    using ltp_wire p by (simp add: sim_side_def kite_ltp_price_def)
qed

lemma sim_op_wire:
  assumes "keeps (\<lambda>s1. W (fd_kite (sb_prices s1)) = W (paper_kite s)) (f (sim_side E s))"
  shows "W (paper_kite (fst (paper_sim_op E f t s))) = W (paper_kite s)"
proof -
  let ?s0 = "(pp_sim s)\<lparr>sb_clock := t, sb_pushed := [], sb_prices := (sb_prices (pp_sim s))\<lparr>fd_now := t\<rparr>\<rparr>"
  obtain s1 r where op: "f (sim_side E s) ?s0 = (s1, r)" by (metis prod.exhaust)
  have "W (fd_kite (sb_prices ?s0)) = W (paper_kite s)" by (simp add: paper_kite_def)
  then have "W (fd_kite (sb_prices (fst (f (sim_side E s) ?s0)))) = W (paper_kite s)"
    using assms unfolding keeps_def by (elim allE impE) assumption+
  then have "W (fd_kite (sb_prices s1)) = W (paper_kite s)" by (simp add: op)
  then show ?thesis by (simp add: paper_sim_op_def op Let_def paper_kite_def)
qed

lemmas side_ops = price_keeper.fed_ops [OF source_keeps, unfolded price_keeper.fed_def [OF source_keeps]]

lemma kite_read_wire:
  assumes "\<And>k k' n ps r. f t k = (k', n, ps, r) \<Longrightarrow> W k' = W k"
  shows "W (paper_kite (fst (paper_kite_op f t s))) = W (paper_kite s)"
proof -
  obtain k n ps r where "f t (paper_kite s) = (k, n, ps, r)" by (metis prod_cases4)
  then show ?thesis using assms by (simp add: paper_kite_op_def) (simp add: paper_kite_def)
qed

lemma instrument_op_wire: "W (paper_kite (fst (paper_instrument E ex symbol t s))) = W (paper_kite s)"
  using kite_read_wire [of "pe_instrument E ex symbol" t s, OF instrument_wire]
  by (auto simp: paper_instrument_def paper_kite_def split: prod.split sum.split)

lemma contract_op_wire: "W (paper_kite (fst (paper_contract E u x st ot ex t s))) = W (paper_kite s)"
  using kite_read_wire [of "bk_contract (pe_kite E) u x st ot ex" t s, OF contract_wire]
  by (auto simp: paper_contract_def paper_kite_def split: prod.split sum.split)

lemma authenticate_op_wire: "W (paper_kite (fst (paper_authenticate E t s))) = W (paper_kite s)"
proof -
  obtain s1 n ps r where a: "paper_kite_op (pe_authenticate E) t s = (s1, n, ps, r)" by (metis prod_cases4)
  have "W (paper_kite s1) = W (paper_kite s)"
    using kite_read_wire [of "pe_authenticate E" t s, OF authenticate_wire] by (simp add: a)
  moreover have "W (paper_kite (fst (paper_sim_op E sim_authenticate (t + int n) s1))) = W (paper_kite s1)"
    by (rule sim_op_wire) (rule side_ops)
  ultimately show ?thesis by (auto simp: paper_authenticate_def a split: prod.split sum.split)
qed

lemma step_wire: "W (paper_kite (paper_step E timeout x s)) = W (paper_kite s)"
proof (cases x)
  case (Pair p t)
  show ?thesis unfolding Pair
    by (cases p) (simp_all add: paper_place_def paper_modify_def paper_cancel_def authenticate_op_wire
        instrument_op_wire contract_op_wire sim_op_wire side_ops kite_read_wire [OF health_wire]
        kite_read_wire [OF ltp_wire] kite_read_wire [OF quote_wire])
qed

lemma run_wire: "W (paper_kite (fold (paper_step E timeout) xs s)) = W (paper_kite s)"
  by (induction xs arbitrary: s) (simp_all add: step_wire)

end

interpretation limited_reads: reads_only "rate_limited limit (kite_broker P timeout)" "\<lambda>s. wire (li_inner s)"
    for limit P timeout
  by (rule kite_reads.throttled_reads)

lemma limited_wire:
  assumes "limited_call m limit (kite_call_op f) t s = (s', n, ps, r)" and "\<And>L. keeps (same_wire L) f"
  shows "wire (li_inner s') = wire (li_inner s)"
  using limited_call_inner [OF assms(1)] wire_op [OF _ assms(2)] by fastforce

interpretation built_paper: paper_reads "build_paper_broker P T timeout V" "\<lambda>s. wire (li_inner s)"
    for P T timeout V
  by unfold_locales
    (simp_all add: build_paper_broker_def limited_authenticate_def limited_quote_def limited_instrument_def,
     (erule limited_reads.ltp_wire limited_reads.health_wire limited_reads.contract_wire
        limited_wire [OF _ wire_reads(6)] limited_wire [OF _ wire_reads(4)] limited_wire [OF _ wire_reads(5)])+)

text \<open>
  C21: paper trading never trades. Whatever the platform does with the broker of paper mode -
  placing, changing and cancelling orders, reading the book, prices and contracts, logging in,
  opening and closing the order stream, in any order and at any times - and whatever Kite answers,
  no call that places, changes or cancels an order is ever made on the Kite client.
\<close>

theorem paper_never_trades:
  "filter mutating (kt_log (li_inner (paper_kite
     (fold (paper_step (build_paper_broker P T timeout V) limit) ops s)))) =
   filter mutating (kt_log (li_inner (paper_kite s)))"
  using built_paper.run_wire [of P T timeout V limit ops s] by (simp add: wire_def)

section \<open>The catalog\<close>

definition knows :: "exchange \<Rightarrow> string \<Rightarrow> catalog \<Rightarrow> bool" where
  "knows ex symbol c \<longleftrightarrow> map_of (ca_symbols c) (ex, symbol) \<noteq> None"

lemma knows_add: "knows ex symbol c \<Longrightarrow> knows ex symbol (catalog_add i c)"
  by (simp add: knows_def catalog_add_def update_conv')

lemma knows_add_option: "catalog_add_option u i c = Inr c' \<Longrightarrow>
    knows (bi_exchange i) (bi_symbol i) c' \<and> (knows ex symbol c \<longrightarrow> knows ex symbol c')"
  by (auto simp: catalog_add_option_def Let_def knows_def catalog_add_def update_conv' split: option.splits)

lemma sim_op_catalog [simp]: "pp_catalog (fst (paper_sim_op E f t s)) = pp_catalog s"
  by (simp add: paper_sim_op_def Let_def split: prod.split)

lemma kite_op_catalog [simp]: "pp_catalog (fst (paper_kite_op f t s)) = pp_catalog s"
  by (simp add: paper_kite_op_def split: prod.split)

lemma authenticate_catalog [simp]: "pp_catalog (fst (paper_authenticate E t s)) = pp_catalog s"
proof -
  obtain s1 n ps r where a: "paper_kite_op (pe_authenticate E) t s = (s1, n, ps, r)" by (metis prod_cases4)
  then have "pp_catalog s1 = pp_catalog s" using kite_op_catalog [of "pe_authenticate E" t s] by simp
  moreover obtain s2 m qs q where "paper_sim_op E sim_authenticate (t + int n) s1 = (s2, m, qs, q)" by (metis prod_cases4)
  moreover from this have "pp_catalog s2 = pp_catalog s1"
    using sim_op_catalog [of E sim_authenticate "t + int n" s1] by simp
  ultimately show ?thesis by (cases r) (simp_all add: paper_authenticate_def a)
qed

lemma step_knows: "knows ex symbol (pp_catalog s) \<Longrightarrow> knows ex symbol (pp_catalog (paper_step E timeout x s))"
proof (cases x)
  case (Pair p t)
  assume k: "knows ex symbol (pp_catalog s)"
  have kite: "pp_catalog s1 = pp_catalog s" if "paper_kite_op f t s = (s1, n, ps, r)" for f s1 n ps and r :: "exn + 'c"
    using kite_op_catalog [of f t s] that by simp
  show ?thesis unfolding Pair
  proof (cases p)
    case (PInstrument e sym)
    then show "knows ex symbol (pp_catalog (paper_step E timeout (p, t) s))"
      using k by (auto simp: paper_instrument_def knows_add split: prod.split sum.split dest!: kite)
  next
    case (PContract u xx st ot e)
    then show "knows ex symbol (pp_catalog (paper_step E timeout (p, t) s))"
      using k by (auto simp: paper_contract_def knows_add_option split: prod.split sum.split dest!: kite)
  qed (use k in \<open>simp_all add: paper_place_def paper_modify_def paper_cancel_def\<close>)
qed

lemma run_knows: "knows ex symbol (pp_catalog s) \<Longrightarrow> knows ex symbol (pp_catalog (fold (paper_step E timeout) xs s))"
  by (induction xs arbitrary: s) (simp_all add: step_knows)

lemma added_option_is_found:
  "catalog_add_option u i c = Inr c' \<Longrightarrow>
   find_option c' u (the (bi_expiry i)) (the (bi_strike i)) (the (bi_option_type i)) (bi_exchange i) = Inr i"
  by (clarsimp simp: catalog_add_option_def Let_def find_option_def split: option.split_asm)
     (drule sym, simp add: update_conv')

text \<open>
  C34: a contract the paper broker resolves through Kite is a contract its simulation can trade. The
  simulation's catalog finds the very contract by underlying, expiry, strike and option type, and
  knows its symbol then and after any later use of the broker, so an order or a margin for it is
  never refused as an unknown instrument.
\<close>

theorem resolved_contract_is_tradable:
  assumes "paper_contract E u x st ot ex t s = (s1, n, ps, Inr i)"
  shows "find_option (pp_catalog s1) u (the (bi_expiry i)) (the (bi_strike i)) (the (bi_option_type i))
           (bi_exchange i) = Inr i \<and>
    (\<exists>i'. get_by_symbol (pp_catalog (fold (paper_step E timeout) ops s1)) (bi_exchange i) (bi_symbol i) = Inr i')"
proof -
  obtain c where add: "catalog_add_option u i c = Inr (pp_catalog s1)"
    using assms by (auto simp: paper_contract_def split: prod.splits sum.splits)
  then have "find_option (pp_catalog s1) u (the (bi_expiry i)) (the (bi_strike i)) (the (bi_option_type i))
      (bi_exchange i) = Inr i"
    by (rule added_option_is_found)
  moreover have "knows (bi_exchange i) (bi_symbol i) (pp_catalog (fold (paper_step E timeout) ops s1))"
    using knows_add_option [OF add] by (intro run_knows) simp
  ultimately show ?thesis by (auto simp: knows_def get_by_symbol_def)
qed

text \<open>A read-only broker that lists one contract.\<close>

definition one_contract :: "unit paper_env" where
  "one_contract =
     \<lparr>pe_kite =
        \<lparr>bk_place = \<lambda>req t b. (b, 0, [], Inr []), bk_get = \<lambda>oid t b. (b, 0, [], Inl KeyError),
         bk_find_tag = \<lambda>tag t b. (b, 0, [], Inr None), bk_orders = \<lambda>t b. (b, 0, [], Inr []),
         bk_positions = \<lambda>t b. (b, 0, [], Inr []), bk_margins = \<lambda>t b. (b, 0, [], Inl KeyError),
         bk_health = \<lambda>t b. (b, 0, [], Inl KeyError),
         bk_ltp = \<lambda>ids t b. (b, 9, [], Inr (map (\<lambda>i. (i, 101)) ids)),
         bk_contract = \<lambda>u x st ot ex t b. (b, 3, [], Inr demo_contract), bk_authenticated = \<lambda>b. True\<rparr>,
      pe_authenticate = \<lambda>t b. (b, 0, [], Inr ()), pe_quote = \<lambda>ids t b. (b, 0, [], Inr []),
      pe_instrument = \<lambda>ex symbol t b. (b, 0, [], Inl KeyError),
      pe_sim =
        \<lparr>se_config = demo_sim_config, se_catalog = \<lparr>ca_symbols = [], ca_options = []\<rparr>, se_random = \<lambda>n. 1/2,
         se_randint = \<lambda>n a b. a, se_uuid = \<lambda>n. replicate n CHR ''a'', se_price = \<lambda>i p. (p, Inl KeyError)\<rparr>,
      pe_holdings = []\<rparr>"

theorem resolved_contract_witness:
  "\<exists>i'. get_by_symbol (pp_catalog (fst (paper_contract one_contract ''NIFTY'' 20000 24000 CE NFO 5 (new_paper () 0))))
     (bi_exchange demo_contract) (bi_symbol demo_contract) = Inr i'"
proof -
  obtain s1 where run: "paper_contract one_contract ''NIFTY'' 20000 24000 CE NFO 5 (new_paper () 0) =
      (s1, 3, [], Inr demo_contract)"
    by (simp add: paper_contract_def one_contract_def paper_kite_op_def catalog_add_option_def
        demo_contract_def Let_def)
  show ?thesis using resolved_contract_is_tradable [OF run, of None "[]"] by (simp add: run)
qed

section \<open>Orders and intents\<close>

lemma paper_op_book:
  assumes "\<And>bk. keeps (\<lambda>s1. sim_book s1 = bk) (f (sim_side E s))" and "paper_sim_op E f t s = (s', n, ps, r)"
  shows "sim_book (pp_sim s') = sim_book (pp_sim s)"
proof -
  let ?s0 = "(pp_sim s)\<lparr>sb_clock := t, sb_pushed := [], sb_prices := (sb_prices (pp_sim s))\<lparr>fd_now := t\<rparr>\<rparr>"
  obtain s1 q where op: "f (sim_side E s) ?s0 = (s1, q)" by (metis prod.exhaust)
  have "sim_book (fst (f (sim_side E s) ?s0)) = sim_book ?s0"
    using assms(1) [of "sim_book ?s0"] by (simp only: keeps_def)
  then show ?thesis using assms(2) by (auto simp: paper_sim_op_def Let_def op)
qed

lemma paper_kite_book: "paper_kite_op f t s = (s', n, ps, r) \<Longrightarrow> sim_book (pp_sim s') = sim_book (pp_sim s)"
  by (auto simp: paper_kite_op_def split: prod.splits)

interpretation paper_book: broker_book "paper_broker E timeout" "\<lambda>s. sim_book (pp_sim s)" for E timeout
proof
  fix req t n ps r and b b' :: "'a paper"
  let ?s0 = "(pp_sim b)\<lparr>sb_clock := t, sb_pushed := [], sb_prices := (sb_prices (pp_sim b))\<lparr>fd_now := t\<rparr>\<rparr>"
  assume "bk_place (paper_broker E timeout) req t b = (b', n, ps, r)"
  then have "pp_sim b' = fst (sim_place (sim_side E b) timeout req ?s0)"
    by (auto simp: paper_broker_def paper_place_def paper_sim_op_def Let_def split: prod.splits)
  then show "\<exists>oid. set (sim_book (pp_sim b')) \<subseteq> insert (oid, pr_tag req) (set (sim_book (pp_sim b)))"
    using sim_place_book [of "sim_side E b" timeout req ?s0] by simp
next
  fix u x st ot ex t n ps r9 and b b' :: "'a paper"
  assume "bk_contract (paper_broker E timeout) u x st ot ex t b = (b', n, ps, r9)"
  then show "sim_book (pp_sim b') = sim_book (pp_sim b)"
    by (auto simp: paper_broker_def paper_contract_def split: prod.splits sum.splits dest!: paper_kite_book)
qed (simp_all add: paper_broker_def,
     (erule paper_op_book [OF keeps_book_ops(1)] paper_op_book [OF keeps_book_ops(2)]
        paper_op_book [OF keeps_book_ops(3)] paper_op_book [OF keeps_book_ops(4)]
        paper_op_book [OF keeps_book_ops(5)] paper_kite_book)+)

interpretation paper_stack: broker_book "with_market (paper_broker E timeout)"
    "\<lambda>m. sim_book (pp_sim (md_broker m))" for E timeout
  by (rule paper_book.market_book)

end
