(* ===== verification/Collector_Window.thy ===== *)
theory Collector_Window
  imports Kite_Broker Strategy_Context
begin

text \<open>
  \<open>market\_data\_collector/instrument\_chain.py\<close> and \<open>atm\_window.py\<close>: the collector's read-only access
  to Kite and the window of option contracts around the money it keeps subscribed for an underlying.
  The client is an argument, as in theory \<open>Kite_Session\<close>, its exceptions among those of the model;
  the spot, expiry and chain sources of the window are arguments over a state of their own.
\<close>

section \<open>Reading Kite\<close>

type_synonym option_chain = "(decimal \<times> (string \<times> (string \<times> int)) list) list"

record market_reader =
  rd_calls :: "kite_call list"
  rd_dumps :: "(string \<times> dump) list"

type_synonym 'a reader_act = "(market_reader, 'a) act"

type_synonym reader_client = "nat \<Rightarrow> kite_call \<Rightarrow> exn + pyval"

definition reader_call :: "reader_client \<Rightarrow> kite_call \<Rightarrow> pyval reader_act" where
  "reader_call K c s = (s\<lparr>rd_calls := rd_calls s @ [c]\<rparr>, K (length (rd_calls s)) c)"

definition reader_dump :: "reader_client \<Rightarrow> string \<Rightarrow> dump reader_act" where
  "reader_dump K ex =
     bnd (asks (\<lambda>s. map_of (rd_dumps s) ex)) (\<lambda>cached.
     case cached of
       Some rows \<Rightarrow> ret rows
     | None \<Rightarrow>
         bnd (reader_call K (KInstruments ex)) (\<lambda>raw.
         bnd (lift_sum (rows_of raw)) (\<lambda>rows.
         sq (modify (\<lambda>s. s\<lparr>rd_dumps := AList.update ex rows (rd_dumps s)\<rparr>)) (ret rows))))"

definition to_decimal :: "pyval \<Rightarrow> exn + decimal" where
  "to_decimal v = (case decimal_of v of None \<Rightarrow> Inl ValueError | Some x \<Rightarrow> Inr x)"

definition spot_ltp :: "reader_client \<Rightarrow> instrument_configs \<Rightarrow> string \<Rightarrow> decimal reader_act" where
  "spot_ltp K cs underlying =
     bnd (lift_sum (spot_reference cs underlying)) (\<lambda>(ex, symbol).
     (let key = exchange_value ex @ '':'' @ symbol
      in bnd (reader_call K (KLtp [key])) (\<lambda>raw.
         lift_sum (sbind (as_dict raw) (\<lambda>data.
           (let entry = dget data key
            in if \<not> truthy entry then Inl LookupError
               else sbind (as_dict entry) (\<lambda>d.
                    if dget d ''last_price'' = PNone then Inl LookupError
                    else to_decimal (dget d ''last_price''))))))))"

definition chain_row :: "pydict \<Rightarrow> string \<Rightarrow> date \<Rightarrow> bool" where
  "chain_row row dump_name expiry \<longleftrightarrow>
     dget row ''name'' = PStr dump_name \<and>
     (dget row ''instrument_type'' = PStr ''CE'' \<or> dget row ''instrument_type'' = PStr ''PE'') \<and>
     dget row ''expiry'' = PDate expiry"

definition chain_put :: "decimal \<Rightarrow> string \<Rightarrow> string \<times> int \<Rightarrow> option_chain \<Rightarrow> option_chain" where
  "chain_put strike opt leg chain =
     AList.update strike
       (AList.update opt leg (case map_of chain strike of None \<Rightarrow> [] | Some legs \<Rightarrow> legs)) chain"

fun chain_of :: "string \<Rightarrow> date \<Rightarrow> dump \<Rightarrow> option_chain \<Rightarrow> exn + option_chain" where
  "chain_of dump_name expiry [] chain = Inr chain"
| "chain_of dump_name expiry (row # rows) chain =
     (if \<not> chain_row row dump_name expiry then chain_of dump_name expiry rows chain
      else
        (let token = dget row ''instrument_token'';
             symbol = dget row ''tradingsymbol'';
             strike = dget row ''strike''
         in if token = PNone \<or> \<not> truthy symbol \<or> strike = PNone then chain_of dump_name expiry rows chain
            else
              sbind (str_field symbol) (\<lambda>sym.
              sbind (py_int token) (\<lambda>tok.
              sbind (to_decimal strike) (\<lambda>k.
              sbind (str_field (dget row ''instrument_type'')) (\<lambda>opt.
              chain_of dump_name expiry rows (chain_put k opt (sym, tok) chain)))))))"

definition option_chain ::
    "reader_client \<Rightarrow> kite_names \<Rightarrow> instrument_configs \<Rightarrow> string \<Rightarrow> date \<Rightarrow> option_chain reader_act" where
  "option_chain K N cs underlying expiry =
     bnd (lift_sum (get_instrument_spec cs underlying)) (\<lambda>spec.
     bnd (reader_dump K (to_kite_exchange N (is_exchange spec))) (\<lambda>rows.
     lift_sum (chain_of (or_str (is_underlying spec) underlying) expiry rows [])))"

section \<open>The window\<close>

record instrument_ref =
  ir_token :: int
  ir_underlying :: string
  ir_exchange :: exchange
  ir_expiry :: date
  ir_strike :: decimal
  ir_option :: option_type
  ir_symbol :: string

record window_diff =
  wd_underlying :: string
  wd_atm :: decimal
  wd_subscribe :: "int list"
  wd_unsubscribe :: "int list"
  wd_new :: "instrument_ref list"

type_synonym refs = "(int \<times> instrument_ref) list"

record atm_windows =
  aw_current :: "(string \<times> refs) list"
  aw_atm :: "(string \<times> decimal) list"

record 'e window_setup =
  ws_spec :: "string \<Rightarrow> exn + instrument_spec"
  ws_expiry :: "string \<Rightarrow> date \<Rightarrow> ('e, date) act"
  ws_spot :: "string \<Rightarrow> ('e, decimal) act"
  ws_chain :: "string \<Rightarrow> date \<Rightarrow> ('e, option_chain) act"
  ws_each_side :: nat

definition no_windows :: atm_windows where
  "no_windows = \<lparr>aw_current = [], aw_atm = []\<rparr>"

definition current_atm :: "string \<Rightarrow> atm_windows \<Rightarrow> decimal option" where
  "current_atm underlying a = map_of (aw_atm a) underlying"

definition window_tokens :: "atm_windows \<Rightarrow> int list" where
  "window_tokens a = remdups (concat (map (map fst \<circ> snd) (aw_current a)))"

fun ref_in :: "(string \<times> refs) list \<Rightarrow> int \<Rightarrow> instrument_ref option" where
  "ref_in [] token = None"
| "ref_in ((u, legs) # ws) token =
     (case map_of legs token of Some r \<Rightarrow> Some r | None \<Rightarrow> ref_in ws token)"

definition instrument_ref_of :: "int \<Rightarrow> atm_windows \<Rightarrow> instrument_ref option" where
  "instrument_ref_of token a = ref_in (aw_current a) token"

definition window_of :: "string \<Rightarrow> atm_windows \<Rightarrow> refs" where
  "window_of underlying a = (case map_of (aw_current a) underlying of None \<Rightarrow> [] | Some legs \<Rightarrow> legs)"

definition add_leg ::
    "string \<Rightarrow> exchange \<Rightarrow> date \<Rightarrow> decimal \<Rightarrow> (string \<times> (string \<times> int)) list \<Rightarrow> option_type \<Rightarrow> refs \<Rightarrow> refs" where
  "add_leg underlying exch expiry strike legs opt target =
     (case map_of legs (option_type_value opt) of
        None \<Rightarrow> target
      | Some (symbol, token) \<Rightarrow>
          AList.update token
            \<lparr>ir_token = token, ir_underlying = underlying, ir_exchange = exch, ir_expiry = expiry,
             ir_strike = strike, ir_option = opt, ir_symbol = symbol\<rparr> target)"

definition add_strike ::
    "string \<Rightarrow> exchange \<Rightarrow> date \<Rightarrow> option_chain \<Rightarrow> decimal \<Rightarrow> refs \<Rightarrow> refs" where
  "add_strike underlying exch expiry chain strike target =
     (case map_of chain strike of
        None \<Rightarrow> target
      | Some legs \<Rightarrow>
          if legs = [] then target
          else add_leg underlying exch expiry strike legs PE
                 (add_leg underlying exch expiry strike legs CE target))"

definition target_window ::
    "instrument_spec \<Rightarrow> string \<Rightarrow> date \<Rightarrow> option_chain \<Rightarrow> decimal \<Rightarrow> nat \<Rightarrow> refs" where
  "target_window spec underlying expiry chain atm n =
     fold (\<lambda>k. add_strike underlying (is_exchange spec) expiry chain
                (atm + is_strike_interval spec * of_int k)) [- int n .. int n] []"

definition diff_windows :: "string \<Rightarrow> decimal \<Rightarrow> refs \<Rightarrow> refs \<Rightarrow> window_diff" where
  "diff_windows underlying atm current target =
     (let add = filter (\<lambda>t. t \<notin> fst ` set current) (map fst target)
      in \<lparr>wd_underlying = underlying, wd_atm = atm, wd_subscribe = add,
          wd_unsubscribe = filter (\<lambda>t. t \<notin> fst ` set target) (map fst current),
          wd_new = map (\<lambda>t. the (map_of target t)) add\<rparr>)"

definition on_sources :: "('e, 'a) act \<Rightarrow> ('e \<times> atm_windows, 'a) act" where
  "on_sources m s = (case m (fst s) of (e, r) \<Rightarrow> ((e, snd s), r))"

definition recompute :: "'e window_setup \<Rightarrow> string \<Rightarrow> date \<Rightarrow> ('e \<times> atm_windows, window_diff) act" where
  "recompute X underlying as_of =
     bnd (lift_sum (ws_spec X underlying)) (\<lambda>spec.
     bnd (on_sources (ws_spot X underlying)) (\<lambda>spot.
     bnd (lift_sum (compute_atm_strike spot (is_strike_interval spec))) (\<lambda>atm.
     bnd (on_sources (ws_expiry X underlying as_of)) (\<lambda>expiry.
     bnd (on_sources (ws_chain X underlying expiry)) (\<lambda>chain.
     (let target = target_window spec underlying expiry chain atm (ws_each_side X)
      in bnd (asks (\<lambda>s. window_of underlying (snd s))) (\<lambda>current.
         sq (modify (\<lambda>s. (fst s, (snd s)\<lparr>aw_current := AList.update underlying target (aw_current (snd s)),
                                        aw_atm := AList.update underlying atm (aw_atm (snd s))\<rparr>)))
            (ret (diff_windows underlying atm current target)))))))))"

definition reset_windows :: "atm_windows \<Rightarrow> atm_windows" where
  "reset_windows a = a\<lparr>aw_current := [], aw_atm := []\<rparr>"

section \<open>The window is the legs around the money\<close>

definition legs_at :: "option_chain \<Rightarrow> decimal \<Rightarrow> int set" where
  "legs_at chain strike =
     {token. \<exists>legs symbol opt. map_of chain strike = Some legs \<and>
        map_of legs (option_type_value opt) = Some (symbol, token)}"

lemma fst_update: "fst ` set (AList.update k v xs) = insert k (fst ` set xs)"
  using dom_update [of k v xs] by simp

lemma add_leg_tokens:
  "fst ` set (add_leg u ex x strike legs opt target) =
     fst ` set target \<union> {t. \<exists>symbol. map_of legs (option_type_value opt) = Some (symbol, t)}"
  by (auto simp: add_leg_def fst_update split: option.split)

lemma option_type_cases: "(\<exists>opt. P opt) \<longleftrightarrow> P CE \<or> P PE"
  by (metis option_type.exhaust)

lemma add_strike_tokens:
  "fst ` set (add_strike u ex x chain strike target) = fst ` set target \<union> legs_at chain strike"
  by (auto simp: add_strike_def add_leg_tokens legs_at_def option_type_cases split: option.split)

lemma fold_strikes_tokens:
  "fst ` set (fold (\<lambda>k. add_strike u ex x chain (f k)) ks target) = fst ` set target \<union> (\<Union>k \<in> set ks. legs_at chain (f k))"
  by (induction ks arbitrary: target) (auto simp: add_strike_tokens)

lemma target_tokens:
  "fst ` set (target_window spec u x chain atm n) =
     (\<Union>k \<in> {- int n .. int n}. legs_at chain (atm + is_strike_interval spec * of_int k))"
  by (simp add: target_window_def fold_strikes_tokens)

lemma distinct_update: "distinct (map fst xs) \<Longrightarrow> distinct (map fst (AList.update k v xs))"
  by (rule distinct_update)

lemma add_strike_distinct: "distinct (map fst target) \<Longrightarrow> distinct (map fst (add_strike u ex x chain strike target))"
  by (auto simp: add_strike_def add_leg_def intro!: AList.distinct_update split: option.split)

lemma target_distinct: "distinct (map fst (target_window spec u x chain atm n))"
proof -
  have "distinct (map fst target) \<Longrightarrow> distinct (map fst (fold (\<lambda>k. add_strike u ex x chain (f k)) ks target))"
    for target ex f and ks :: "int list"
    by (induction ks arbitrary: target) (simp_all add: add_strike_distinct)
  then show ?thesis by (simp add: target_window_def)
qed

definition refs_ok :: "refs \<Rightarrow> bool" where
  "refs_ok target \<longleftrightarrow> (\<forall>t r. map_of target t = Some r \<longrightarrow> ir_token r = t)"

lemma add_leg_ref: "refs_ok target \<Longrightarrow> refs_ok (add_leg u ex x strike legs opt target)"
  by (auto simp: refs_ok_def add_leg_def update_conv' split: option.splits)

lemma add_strike_ref: "refs_ok target \<Longrightarrow> refs_ok (add_strike u ex x chain strike target)"
  by (simp add: add_strike_def add_leg_ref split: option.split)

lemma fold_strikes_ref: "refs_ok target \<Longrightarrow> refs_ok (fold (\<lambda>k. add_strike u ex x chain (f k)) ks target)"
  by (induction ks arbitrary: target) (simp_all add: add_strike_ref)

lemma target_ref: "map_of (target_window spec u x chain atm n) t = Some r \<Longrightarrow> ir_token r = t"
  using fold_strikes_ref [of "[]"] unfolding target_window_def refs_ok_def by (metis map_of.simps(1) option.distinct(1))

lemmas run_defs = recompute_def on_sources_def bnd_def sq_def lift_sum_def asks_def modify_def ret_def Let_def

lemma recompute_run:
  assumes "recompute X u d s = (s', Inr diff)"
  shows "\<exists>spec atm expiry chain e1 e2. ws_spec X u = Inr spec \<and> ws_chain X u expiry e1 = (e2, Inr chain) \<and>
    diff = diff_windows u atm (window_of u (snd s)) (target_window spec u expiry chain atm (ws_each_side X)) \<and>
    snd s' = (snd s)\<lparr>aw_current := AList.update u (target_window spec u expiry chain atm (ws_each_side X)) (aw_current (snd s)),
      aw_atm := AList.update u atm (aw_atm (snd s))\<rparr>"
proof -
  obtain spec where a: "ws_spec X u = Inr spec"
    using assms by (cases "ws_spec X u") (simp_all add: run_defs)
  obtain e1 q1 where b: "ws_spot X u (fst s) = (e1, q1)" by (metis prod.exhaust)
  obtain spot where c: "q1 = Inr spot" using assms by (cases q1) (simp_all add: run_defs a b)
  obtain atm where e: "compute_atm_strike spot (is_strike_interval spec) = Inr atm"
    using assms by (cases "compute_atm_strike spot (is_strike_interval spec)") (simp_all add: run_defs a b c)
  obtain e2 q2 where f: "ws_expiry X u d e1 = (e2, q2)" by (metis prod.exhaust)
  obtain expiry where g: "q2 = Inr expiry" using assms by (cases q2) (simp_all add: run_defs a b c e f)
  obtain e3 q3 where h: "ws_chain X u expiry e2 = (e3, q3)" by (metis prod.exhaust)
  obtain chain where k: "q3 = Inr chain" using assms by (cases q3) (simp_all add: run_defs a b c e f g h)
  show ?thesis
    by (rule exI [of _ spec], rule exI [of _ atm], rule exI [of _ expiry], rule exI [of _ chain],
        rule exI [of _ e2], rule exI [of _ e3])
      (use assms in \<open>auto simp: run_defs a b c e f g h k\<close>)
qed

text \<open>
  Recomputing the window of an underlying changes the subscriptions by the least that is needed.
  Afterwards its tokens are exactly the call and put legs the chain lists at the strikes at most the
  configured number of intervals from the money, what it asks to subscribe is new, what it asks to
  unsubscribe has left the window, a token in both windows is touched by neither, each new instrument
  is described, and the windows of the other underlyings are as they were.
\<close>

theorem window_follows_the_money:
  assumes "recompute X u d s = (s', Inr diff)"
  shows "(\<exists>spec expiry chain e1 e2. ws_spec X u = Inr spec \<and> ws_chain X u expiry e1 = (e2, Inr chain) \<and>
      fst ` set (window_of u (snd s')) =
        (\<Union>k \<in> {- int (ws_each_side X) .. int (ws_each_side X)}.
           legs_at chain (wd_atm diff + is_strike_interval spec * of_int k))) \<and>
    set (wd_subscribe diff) = fst ` set (window_of u (snd s')) - fst ` set (window_of u (snd s)) \<and>
    set (wd_unsubscribe diff) = fst ` set (window_of u (snd s)) - fst ` set (window_of u (snd s')) \<and>
    distinct (wd_subscribe diff) \<and> map ir_token (wd_new diff) = wd_subscribe diff \<and>
    (\<forall>v. if v = u then True else window_of v (snd s') = window_of v (snd s))"
proof -
  obtain spec atm expiry chain e1 e2 where r: "ws_spec X u = Inr spec" "ws_chain X u expiry e1 = (e2, Inr chain)"
      "diff = diff_windows u atm (window_of u (snd s)) (target_window spec u expiry chain atm (ws_each_side X))"
      "snd s' = (snd s)\<lparr>aw_current := AList.update u (target_window spec u expiry chain atm (ws_each_side X)) (aw_current (snd s)),
           aw_atm := AList.update u atm (aw_atm (snd s))\<rparr>"
    using recompute_run [OF assms] by blast
  let ?t = "target_window spec u expiry chain atm (ws_each_side X)"
  have win: "window_of u (snd s') = ?t" "\<And>v. v \<noteq> u \<Longrightarrow> window_of v (snd s') = window_of v (snd s)"
    by (simp_all add: r(4) window_of_def update_conv')
  have atm: "wd_atm diff = atm" by (simp add: r(3) diff_windows_def Let_def)
  have "\<exists>spec expiry chain e1 e2. ws_spec X u = Inr spec \<and> ws_chain X u expiry e1 = (e2, Inr chain) \<and>
      fst ` set (window_of u (snd s')) =
        (\<Union>k \<in> {- int (ws_each_side X) .. int (ws_each_side X)}.
           legs_at chain (wd_atm diff + is_strike_interval spec * of_int k))"
    using r(1,2) target_tokens [of spec u expiry chain atm "ws_each_side X"] unfolding win(1) atm by blast
  moreover have refs: "ir_token (the (map_of ?t t)) = t" if "t \<in> fst ` set ?t" for t
    using that target_ref by (metis map_of_eq_None_iff not_None_eq option.sel)
  have "map ir_token (wd_new diff) = wd_subscribe diff"
    using refs by (auto simp: r(3) diff_windows_def Let_def intro!: map_idI)
  ultimately show ?thesis
    using target_distinct win(2) unfolding win(1) by (auto simp: r(3) diff_windows_def Let_def)
qed

definition one_strike :: "unit window_setup" where
  "one_strike =
     \<lparr>ws_spec = (\<lambda>u. Inr \<lparr>is_instrument = u, is_exchange = NFO, is_strike_interval = 50, is_lot_size = 75,
        is_tick_size = 5/100, is_underlying = None\<rparr>),
      ws_expiry = (\<lambda>u d. ret 20000), ws_spot = (\<lambda>u. ret 24010),
      ws_chain = (\<lambda>u d. ret [(24000, [(''CE'', (''A'', 7)), (''PE'', (''B'', 8))])]), ws_each_side = 1\<rparr>"

lemma demo_recompute:
  "\<exists>s' diff. recompute one_strike ''NIFTY'' 0 ((), no_windows) = (s', Inr diff)"
  by (simp add: run_defs one_strike_def compute_atm_strike_def)

theorem atm_window_witness:
  "case recompute one_strike ''NIFTY'' 0 ((), no_windows) of
     (s', Inr diff) \<Rightarrow> map ir_token (wd_new diff) = wd_subscribe diff \<and> distinct (wd_subscribe diff)
   | (s', Inl e) \<Rightarrow> False"
proof -
  obtain s' diff where run: "recompute one_strike ''NIFTY'' 0 ((), no_windows) = (s', Inr diff)"
    using demo_recompute by blast
  show ?thesis using window_follows_the_money [OF run] by (simp add: run)
qed

end
