(* ===== verification/Tick_Writer.thy ===== *)
theory Tick_Writer
  imports Effects "HOL-Library.Sublist"
begin

text \<open>
  \<open>market\_data\_collector/tick\_writer.py\<close>: the bounded queue between the socket thread and the
  database. The producer's \<open>enqueue\<close> and the writer thread's loop interleave freely: the thread's
  position in its loop is part of the state, and an event is one step of either. A write is one
  transaction, so a failed one leaves the table as it was. The two SQL dialects, log lines and the
  duration of the waits are left out.
\<close>

section \<open>Configuration and state\<close>

datatype overflow_policy = DROP_OLDEST | DROP_NEWEST

record writer_config =
  wc_batch :: nat
  wc_flush_interval :: nat
  wc_queue_max :: nat
  wc_policy :: overflow_policy
  wc_retry_base :: nat
  wc_retry_max :: nat

definition mk_writer_config :: "writer_config \<Rightarrow> exn + writer_config" where
  "mk_writer_config c =
     (if 0 < wc_batch c \<and> 0 < wc_flush_interval c \<and> 0 < wc_queue_max c \<and> 0 < wc_retry_base c \<and>
         0 < wc_retry_max c
      then Inr c else Inl ValueError)"

text \<open>
  Where the writer thread is: waiting for a flush, about to take a batch, writing one (with the
  attempts made and the next delay), or gone. The flag tells the final drain.
\<close>

datatype 't writer_at =
    WWait
  | WTake bool
  | WWrite bool "'t list" nat nat
  | WGone

record 't tick_writer =
  wr_queue :: "'t list"
  wr_flush :: bool
  wr_stop :: bool
  wr_at :: "'t writer_at"
  wr_table :: "'t list"
  wr_written :: nat
  wr_dropped :: nat
  wr_errors :: nat

definition new_writer :: "'t tick_writer" where
  "new_writer = \<lparr>wr_queue = [], wr_flush = False, wr_stop = False, wr_at = WGone, wr_table = [],
     wr_written = 0, wr_dropped = 0, wr_errors = 0\<rparr>"

section \<open>The socket thread\<close>

definition enqueue :: "writer_config \<Rightarrow> 't \<Rightarrow> 't tick_writer \<Rightarrow> 't tick_writer" where
  "enqueue c t w =
     (let append = (\<lambda>w. let q = wr_queue w @ [t]
                        in w\<lparr>wr_queue := q, wr_flush := wr_flush w \<or> length q \<ge> wc_batch c\<rparr>)
      in if length (wr_queue w) \<ge> wc_queue_max c then
           (case wc_policy c of
              DROP_OLDEST \<Rightarrow> append (w\<lparr>wr_queue := tl (wr_queue w), wr_dropped := wr_dropped w + 1\<rparr>)
            | DROP_NEWEST \<Rightarrow> w\<lparr>wr_dropped := wr_dropped w + 1\<rparr>)
         else append w)"

definition writer_start :: "'t tick_writer \<Rightarrow> 't tick_writer" where
  "writer_start w = (if wr_at w = WGone then w\<lparr>wr_stop := False, wr_at := WWait\<rparr> else w)"

definition writer_stop :: "'t tick_writer \<Rightarrow> 't tick_writer" where
  "writer_stop w = w\<lparr>wr_stop := True, wr_flush := True\<rparr>"

section \<open>The writer thread\<close>

definition take_batch :: "writer_config \<Rightarrow> 't tick_writer \<Rightarrow> 't list \<times> 't tick_writer" where
  "take_batch c w =
     (let n = min (wc_batch c) (length (wr_queue w))
      in (take n (wr_queue w), w\<lparr>wr_queue := drop n (wr_queue w)\<rparr>))"

text \<open>The top of the loop: another round, or the final drain once stopped.\<close>

definition next_round :: "'t tick_writer \<Rightarrow> 't tick_writer" where
  "next_round w = w\<lparr>wr_at := if wr_stop w then WTake True else WWait\<rparr>"

definition write_ok :: "bool \<Rightarrow> 't list \<Rightarrow> 't tick_writer \<Rightarrow> 't tick_writer" where
  "write_ok final batch w =
     w\<lparr>wr_table := wr_table w @ batch, wr_written := wr_written w + length batch, wr_at := WTake final\<rparr>"

definition write_failed ::
    "writer_config \<Rightarrow> bool \<Rightarrow> 't list \<Rightarrow> nat \<Rightarrow> nat \<Rightarrow> 't tick_writer \<Rightarrow> 't tick_writer" where
  "write_failed c final batch attempt delay w =
     (let w1 = w\<lparr>wr_errors := wr_errors w + 1\<rparr>
      in if wr_stop w \<and> attempt + 1 \<ge> 3
         then w1\<lparr>wr_dropped := wr_dropped w + length batch, wr_at := WTake final\<rparr>
         else w1\<lparr>wr_at := WWrite final batch (attempt + 1) (min (delay * 2) (wc_retry_max c))\<rparr>)"

fun writer_step :: "writer_config \<Rightarrow> bool \<Rightarrow> 't tick_writer \<Rightarrow> 't tick_writer" where
  "writer_step c db_ok w =
     (case wr_at w of
        WGone \<Rightarrow> w
      | WWait \<Rightarrow> w\<lparr>wr_flush := False, wr_at := WTake False\<rparr>
      | WTake final \<Rightarrow>
          (case take_batch c w of
             (batch, w1) \<Rightarrow>
               if batch = [] then (if final then w1\<lparr>wr_at := WGone\<rparr> else next_round w1)
               else w1\<lparr>wr_at := WWrite final batch 0 (wc_retry_base c)\<rparr>)
      | WWrite final batch attempt delay \<Rightarrow>
          if db_ok then write_ok final batch w else write_failed c final batch attempt delay w)"

declare writer_step.simps [simp del]

datatype 't writer_event = WvEnqueue 't | WvStart | WvStop | WvStep bool

fun writer_run :: "writer_config \<Rightarrow> 't writer_event \<Rightarrow> 't tick_writer \<Rightarrow> 't tick_writer" where
  "writer_run c (WvEnqueue t) w = enqueue c t w"
| "writer_run c WvStart w = writer_start w"
| "writer_run c WvStop w = writer_stop w"
| "writer_run c (WvStep ok) w = writer_step c ok w"

section \<open>Every tick is accounted for\<close>

fun in_hand :: "'t writer_at \<Rightarrow> 't list" where
  "in_hand (WWrite f batch a d) = batch"
| "in_hand p = []"

fun received :: "'t writer_event list \<Rightarrow> 't list" where
  "received [] = []"
| "received (WvEnqueue t # es) = t # received es"
| "received (e # es) = received es"

lemma received_append [simp]: "received (es @ fs) = received es @ received fs"
  by (induction es rule: received.induct) simp_all

definition accounted :: "writer_config \<Rightarrow> 't list \<Rightarrow> 't tick_writer \<Rightarrow> bool" where
  "accounted c ts w \<longleftrightarrow>
     subseq (wr_table w @ in_hand (wr_at w) @ wr_queue w) ts \<and>
     length ts = length (wr_table w) + length (in_hand (wr_at w)) + length (wr_queue w) + wr_dropped w \<and>
     wr_written w = length (wr_table w) \<and> length (wr_queue w) \<le> wc_queue_max c"

lemma subseq_drop_middle: "subseq (a @ b @ c) ts \<Longrightarrow> subseq (a @ c) ts"
  by (rule subseq_order.order_trans [rotated], assumption, intro list_emb_append_mono)
     (simp_all add: list_emb_append2)

lemma accounted_enqueue:
  assumes "accounted c ts w" "0 < wc_queue_max c"
  shows "accounted c (ts @ [t]) (enqueue c t w)"
proof -
  have more: "subseq (wr_table w @ in_hand (wr_at w) @ wr_queue w @ [t]) (ts @ [t])"
    using assms(1) by (simp add: accounted_def flip: append_assoc)
  have less: "subseq (wr_table w @ in_hand (wr_at w) @ wr_queue w) (ts @ [t])"
    using assms(1) by (simp add: accounted_def list_emb_prefix)
  have tail: "subseq (wr_table w @ in_hand (wr_at w) @ tl (wr_queue w) @ [t]) (ts @ [t])"
    using subseq_drop_middle [of "wr_table w @ in_hand (wr_at w)" "take 1 (wr_queue w)" "tl (wr_queue w) @ [t]"] more
    by (cases "wr_queue w") simp_all
  show ?thesis using assms more less tail
    by (auto simp: accounted_def enqueue_def Let_def split: overflow_policy.split)
qed

lemma accounted_step:
  assumes "accounted c ts w"
  shows "accounted c ts (writer_step c ok w)"
proof (cases "wr_at w")
  case (WWrite f batch a d)
  have "subseq (wr_table w @ wr_queue w) ts"
    using assms WWrite subseq_drop_middle [of "wr_table w" batch "wr_queue w" ts] by (simp add: accounted_def)
  then show ?thesis using assms WWrite
    by (simp add: accounted_def write_ok_def write_failed_def Let_def writer_step.simps)
next
  case (WTake f)
  then show ?thesis using assms
    by (auto simp: accounted_def take_batch_def next_round_def Let_def writer_step.simps)
qed (use assms in \<open>auto simp: accounted_def writer_step.simps\<close>)

lemma accounted_run:
  assumes "0 < wc_queue_max c" "accounted c ts w"
  shows "accounted c (ts @ received es) (fold (writer_run c) es w)"
  using assms(2)
proof (induction es arbitrary: ts w)
  case (Cons e es)
  show ?case
  proof (cases e)
    case (WvEnqueue t)
    show ?thesis using Cons.IH [OF accounted_enqueue [OF Cons.prems assms(1)], of t] by (simp add: WvEnqueue)
  next
    case (WvStep ok)
    show ?thesis using Cons.IH [OF accounted_step [OF Cons.prems], of ok] by (simp add: WvStep)
  next
    case WvStart
    have "accounted c ts (writer_start w)" using Cons.prems by (auto simp: accounted_def writer_start_def)
    then show ?thesis using Cons.IH by (simp add: WvStart)
  next
    case WvStop
    have "accounted c ts (writer_stop w)" using Cons.prems by (auto simp: accounted_def writer_stop_def)
    then show ?thesis using Cons.IH by (simp add: WvStop)
  qed
qed simp


definition demo_writer :: writer_config where
  "demo_writer = \<lparr>wc_batch = 2, wc_flush_interval = 1000000, wc_queue_max = 3, wc_policy = DROP_OLDEST,
     wc_retry_base = 500000, wc_retry_max = 10000000\<rparr>"


section \<open>Shutdown\<close>

fun steps_to_go :: "'t tick_writer \<Rightarrow> nat" where
  "steps_to_go w =
     4 * length (wr_queue w) +
     (case wr_at w of
        WGone \<Rightarrow> 0
      | WWait \<Rightarrow> 3
      | WTake f \<Rightarrow> if f then 1 else 2
      | WWrite f batch a d \<Rightarrow> (if f then 1 else 2) + max 1 (3 - a))"

lemma stop_stays: "wr_stop w \<Longrightarrow> wr_stop (writer_step c ok w)"
  by (simp add: writer_step.simps take_batch_def next_round_def write_ok_def write_failed_def Let_def
      split: writer_at.split)

lemma step_towards_end:
  assumes "0 < wc_batch c" "wr_stop w" "wr_at w \<noteq> WGone"
  shows "steps_to_go (writer_step c ok w) < steps_to_go w"
proof (cases "wr_at w")
  case (WTake f)
  show ?thesis
  proof (cases "wr_queue w")
    case Nil
    then show ?thesis using WTake assms(2)
      by (simp add: writer_step.simps take_batch_def next_round_def Let_def)
  next
    case (Cons t q)
    have n: "0 < min (wc_batch c) (length (wr_queue w))" "min (wc_batch c) (length (wr_queue w)) \<le> length (wr_queue w)"
      using assms(1) Cons by simp_all
    define m where "m = min (wc_batch c) (length (wr_queue w))"
    have "take m (wr_queue w) \<noteq> []" using n unfolding m_def by auto
    then have "writer_step c ok w =
        w\<lparr>wr_queue := drop m (wr_queue w), wr_at := WWrite f (take m (wr_queue w)) 0 (wc_retry_base c)\<rparr>"
      using WTake by (simp add: writer_step.simps take_batch_def Let_def flip: m_def)
    then show ?thesis using WTake n by (cases f) (simp_all flip: m_def)
  qed
next
  case (WWrite f batch a d)
  then show ?thesis using assms(2)
    by (cases ok) (auto simp: writer_step.simps write_ok_def write_failed_def Let_def)
qed (use assms(3) in \<open>simp_all add: writer_step.simps\<close>)

lemma gone_stays: "wr_at w = WGone \<Longrightarrow> writer_step c ok w = w"
  by (simp add: writer_step.simps)

lemma gone_stays_fold: "wr_at w = WGone \<Longrightarrow> fold (writer_step c) oks w = w"
  by (induction oks) (simp_all add: gone_stays)

text \<open>
  
  Stopping the collector cannot hang on a dead database: once a stop is requested and nothing
  more is queued, the writer thread ends after a number of steps fixed in advance by what is queued
  (a batch is given up at its third failure), whatever the database answers.
\<close>

theorem writer_always_stops:
  assumes "mk_writer_config c0 = Inr c" and "wr_stop w" and "length oks \<ge> steps_to_go w"
  shows "wr_at (fold (writer_step c) oks w) = WGone"
proof -
  have pos: "0 < wc_batch c" using assms(1) by (auto simp: mk_writer_config_def split: if_splits)
  show ?thesis using assms(2,3)
  proof (induction oks arbitrary: w)
    case Nil
    then show ?case by (auto split: writer_at.splits if_splits)
  next
    case (Cons ok oks)
    show ?case
    proof (cases "wr_at w = WGone")
      case True
      then show ?thesis using gone_stays_fold [OF True, of c "ok # oks"] by (simp del: fold.simps)
    next
      case False
      have "steps_to_go (writer_step c ok w) \<le> length oks"
        using step_towards_end [OF pos Cons.prems(1) False, of ok] Cons.prems(2) by (simp del: steps_to_go.simps)
      then show ?thesis using Cons.IH [OF stop_stays [OF Cons.prems(1)]] by (simp del: steps_to_go.simps)
    qed
  qed
qed

theorem writer_stops_witness:
  "wr_at (fold (writer_step demo_writer) (replicate 20 False)
     (new_writer\<lparr>wr_queue := [1, 2, 3 :: nat], wr_stop := True, wr_at := WWait\<rparr>)) = WGone"
proof -
  have ok: "mk_writer_config demo_writer = Inr demo_writer" by (simp add: mk_writer_config_def demo_writer_def)
  show ?thesis by (rule writer_always_stops [OF ok]) simp_all
qed

end
