(* ===== verification/Collector.thy ===== *)
theory Collector
  imports Collector_Window Tick_Writer Calendar
begin

text \<open>
  \<open>market\_data\_collector/full\_tick\_stream.py\<close>, \<open>db.py\<close>, \<open>config.py\<close> and \<open>collector\_service.py\<close>: the
  collector's own socket, the ticks it maps, and the controller that follows the session phases,
  rotates the windows and rebuilds a dead socket. One pass of the control loop is one action; what
  the ticker's thread does between passes is an event of its own. The ticker answers its \<open>n\<close>-th call
  as an argument says, and so does the database for the \<open>n\<close>-th upsert of the instrument table. Times
  of the monotonic clock are integers in microseconds. The status display and log lines are left out.
\<close>

section \<open>Ticks\<close>

record market_tick =
  mk_token :: int
  mk_time :: pyval
  mk_last :: "decimal option"
  mk_last_qty :: pyval
  mk_avg :: "decimal option"
  mk_volume :: pyval
  mk_oi :: pyval
  mk_oi_high :: pyval
  mk_oi_low :: pyval
  mk_open :: "decimal option"
  mk_high :: "decimal option"
  mk_low :: "decimal option"
  mk_close :: "decimal option"
  mk_buy_qty :: pyval
  mk_sell_qty :: pyval
  mk_depth :: pyval

definition opt_decimal :: "pyval \<Rightarrow> exn + decimal option" where
  "opt_decimal v = (if v = PNone then Inr None else sbind (to_decimal v) (\<lambda>x. Inr (Some x)))"

fun is_datetime :: "pyval \<Rightarrow> bool" where
  "is_datetime (PDatetime t z) = True"
| "is_datetime v = False"

definition to_market_tick :: "dt \<Rightarrow> pydict \<Rightarrow> exn + market_tick option" where
  "to_market_tick tm raw =
     (if dget raw ''instrument_token'' = PNone then Inr None
      else
        sbind (as_dict (py_or (dget raw ''ohlc'') (PDict []))) (\<lambda>ohlc.
        (let ts = py_or (dget raw ''exchange_timestamp'') (dget raw ''last_trade_time'')
         in sbind (py_int (dget raw ''instrument_token'')) (\<lambda>token.
            sbind (opt_decimal (dget raw ''last_price'')) (\<lambda>last_p.
            sbind (opt_decimal (dget raw ''average_traded_price'')) (\<lambda>avg.
            sbind (opt_decimal (dget ohlc ''open'')) (\<lambda>op.
            sbind (opt_decimal (dget ohlc ''high'')) (\<lambda>hi.
            sbind (opt_decimal (dget ohlc ''low'')) (\<lambda>lo.
            sbind (opt_decimal (dget ohlc ''close'')) (\<lambda>cl.
            Inr (Some
              \<lparr>mk_token = token, mk_time = (if is_datetime ts then ts else PDatetime tm (Some 0)),
               mk_last = last_p, mk_last_qty = dget raw ''last_traded_quantity'', mk_avg = avg,
               mk_volume = dget_or raw ''volume_traded'' (dget raw ''volume''), mk_oi = dget raw ''oi'',
               mk_oi_high = dget raw ''oi_day_high'', mk_oi_low = dget raw ''oi_day_low'',
               mk_open = op, mk_high = hi, mk_low = lo, mk_close = cl,
               mk_buy_qty = dget raw ''total_buy_quantity'', mk_sell_qty = dget raw ''total_sell_quantity'',
               mk_depth = dget raw ''depth''\<rparr>)))))))))))"

text \<open>The ticks of one message that are handed on; an unmappable one is dropped.\<close>

definition socket_ticks :: "dt \<Rightarrow> pydict list \<Rightarrow> market_tick list" where
  "socket_ticks tm raws =
     List.map_filter (\<lambda>raw. case to_market_tick tm raw of Inl e \<Rightarrow> None | Inr r \<Rightarrow> r) raws"

definition decimal_cell :: "decimal option \<Rightarrow> pyval" where
  "decimal_cell x = (case x of None \<Rightarrow> PNone | Some d \<Rightarrow> PFloat d)"

definition tick_columns :: "string list" where
  "tick_columns =
     [''time'', ''instrument_token'', ''last_price'', ''last_traded_qty'', ''avg_traded_price'', ''volume'',
      ''oi'', ''oi_day_high'', ''oi_day_low'', ''ohlc_open'', ''ohlc_high'', ''ohlc_low'', ''ohlc_close'',
      ''total_buy_qty'', ''total_sell_qty'', ''depth'']"

definition as_row :: "market_tick \<Rightarrow> pyval list" where
  "as_row t =
     [mk_time t, PInt (mk_token t), decimal_cell (mk_last t), mk_last_qty t, decimal_cell (mk_avg t),
      mk_volume t, mk_oi t, mk_oi_high t, mk_oi_low t, decimal_cell (mk_open t), decimal_cell (mk_high t),
      decimal_cell (mk_low t), decimal_cell (mk_close t), mk_buy_qty t, mk_sell_qty t, mk_depth t]"

section \<open>The socket\<close>

datatype sock_call =
  SkBuild | SkConnect | SkClose | SkSubscribe "int list" | SkMode "int list" | SkUnsubscribe "int list"

record socket =
  sk_ticker :: bool
  sk_connected :: bool
  sk_dead :: bool
  sk_tokens :: "int list"
  sk_calls :: "sock_call list"

type_synonym sock_driver = "nat \<Rightarrow> sock_call \<Rightarrow> exn + unit"

type_synonym 'a sock_act = "(socket, 'a) act"

definition new_socket :: socket where
  "new_socket = \<lparr>sk_ticker = False, sk_connected = False, sk_dead = False, sk_tokens = [], sk_calls = []\<rparr>"

definition sock_op :: "sock_driver \<Rightarrow> sock_call \<Rightarrow> unit sock_act" where
  "sock_op D c s = (s\<lparr>sk_calls := sk_calls s @ [c]\<rparr>, D (length (sk_calls s)) c)"

definition sock_spawn :: "sock_driver \<Rightarrow> unit sock_act" where
  "sock_spawn D =
     sq (modify (\<lambda>s. s\<lparr>sk_dead := False\<rparr>))
     (sq (sock_op D SkBuild)
     (sq (modify (\<lambda>s. s\<lparr>sk_ticker := True\<rparr>)) (sock_op D SkConnect)))"

definition sock_start :: "sock_driver \<Rightarrow> unit sock_act" where
  "sock_start D = bnd (asks sk_ticker) (\<lambda>running. if running then ret () else sock_spawn D)"

definition sock_close :: "sock_driver \<Rightarrow> bool \<Rightarrow> unit sock_act" where
  "sock_close D old = do_if old (catch_if is_exception (sock_op D SkClose) (\<lambda>_. ret ()))"

definition sock_restart :: "sock_driver \<Rightarrow> unit sock_act" where
  "sock_restart D =
     bnd (asks sk_ticker) (\<lambda>old.
     sq (modify (\<lambda>s. s\<lparr>sk_ticker := False, sk_connected := False\<rparr>))
     (sq (sock_close D old) (sock_spawn D)))"

definition sock_stop :: "sock_driver \<Rightarrow> unit sock_act" where
  "sock_stop D =
     bnd (asks sk_ticker) (\<lambda>old.
     sq (modify (\<lambda>s. s\<lparr>sk_ticker := False, sk_connected := False, sk_tokens := [], sk_dead := False\<rparr>))
        (sock_close D old))"

definition sock_subscribe :: "sock_driver \<Rightarrow> int list \<Rightarrow> unit sock_act" where
  "sock_subscribe D tokens =
     (if tokens = [] then ret ()
      else
        sq (modify (\<lambda>s. s\<lparr>sk_tokens := sk_tokens s @ filter (\<lambda>t. t \<notin> set (sk_tokens s)) tokens\<rparr>))
        (bnd (asks (\<lambda>s. sk_ticker s \<and> sk_connected s)) (\<lambda>live.
         do_if live (sq (sock_op D (SkSubscribe tokens)) (sock_op D (SkMode tokens))))))"

definition sock_unsubscribe :: "sock_driver \<Rightarrow> int list \<Rightarrow> unit sock_act" where
  "sock_unsubscribe D tokens =
     (if tokens = [] then ret ()
      else
        sq (modify (\<lambda>s. s\<lparr>sk_tokens := filter (\<lambda>t. t \<notin> set tokens) (sk_tokens s)\<rparr>))
        (bnd (asks (\<lambda>s. sk_ticker s \<and> sk_connected s)) (\<lambda>live.
         do_if live (sock_op D (SkUnsubscribe tokens)))))"

definition sock_on_connect :: "sock_driver \<Rightarrow> unit sock_act" where
  "sock_on_connect D =
     sq (modify (\<lambda>s. s\<lparr>sk_connected := True, sk_dead := False\<rparr>))
     (bnd (asks (\<lambda>s. (sk_ticker s, sk_tokens s))) (\<lambda>(running, tokens).
      do_if (running \<and> tokens \<noteq> []) (sq (sock_op D (SkSubscribe tokens)) (sock_op D (SkMode tokens)))))"

definition sock_on_noreconnect :: "socket \<Rightarrow> socket" where
  "sock_on_noreconnect s = s\<lparr>sk_connected := False, sk_dead := True\<rparr>"

definition sock_on_close :: "socket \<Rightarrow> socket" where
  "sock_on_close s = s\<lparr>sk_connected := False\<rparr>"

section \<open>The service\<close>

record reconnect_config =
  rc_grace :: int
  rc_backoff :: int
  rc_hb_warning :: int
  rc_hb_critical :: int

definition mk_reconnect_config :: "reconnect_config \<Rightarrow> exn + reconnect_config" where
  "mk_reconnect_config c =
     (if \<not> (0 < rc_grace c \<and> 0 < rc_backoff c \<and> 0 < rc_hb_warning c \<and> 0 < rc_hb_critical c) then Inl ValueError
      else if rc_hb_critical c < rc_hb_warning c then Inl ValueError else Inr c)"

record collector_config =
  kc_underlyings :: "string list"
  kc_each_side :: nat
  kc_interval :: int
  kc_writer :: writer_config
  kc_reconnect :: reconnect_config

fun upper_unique :: "string list \<Rightarrow> string list \<Rightarrow> string list" where
  "upper_unique seen [] = seen"
| "upper_unique seen (v # vs) =
     upper_unique (if upper v \<in> set seen then seen else seen @ [upper v]) vs"

definition mk_collector_config :: "collector_config \<Rightarrow> exn + collector_config" where
  "mk_collector_config c =
     (if kc_underlyings c = [] \<or> kc_each_side c = 0 \<or> \<not> 0 < kc_interval c then Inl ValueError
      else sbind (mk_writer_config (kc_writer c)) (\<lambda>_.
           sbind (mk_reconnect_config (kc_reconnect c)) (\<lambda>_.
           Inr (c\<lparr>kc_underlyings := upper_unique [] (kc_underlyings c)\<rparr>))))"

definition instruments_per_underlying :: "collector_config \<Rightarrow> nat" where
  "instruments_per_underlying c = (2 * kc_each_side c + 1) * 2"

record 'e collector_setup =
  cs_config :: collector_config
  cs_driver :: sock_driver
  cs_window :: "'e window_setup"
  cs_upsert_ok :: "nat \<Rightarrow> bool"
  cs_hours :: market_hours
  cs_trading :: "date \<Rightarrow> bool"

record 'e collector =
  cl_sources :: 'e
  cl_atm :: atm_windows
  cl_sock :: socket
  cl_writer :: "market_tick tick_writer"
  cl_phase :: "phase option"
  cl_last_recompute :: int
  cl_disconnected :: "int option"
  cl_connected :: "int option"
  cl_last_restart :: int
  cl_heartbeat :: nat
  cl_restarts :: nat
  cl_received :: nat
  cl_last_tick :: int
  cl_instruments :: "(int \<times> instrument_ref \<times> dt) list"
  cl_upserts :: nat

type_synonym ('e, 'a) coll_act = "('e collector, 'a) act"

definition new_collector :: "'e \<Rightarrow> 'e collector" where
  "new_collector e =
     \<lparr>cl_sources = e, cl_atm = no_windows, cl_sock = new_socket, cl_writer = writer_start new_writer,
      cl_phase = None, cl_last_recompute = 0, cl_disconnected = None, cl_connected = None,
      cl_last_restart = 0, cl_heartbeat = 0, cl_restarts = 0, cl_received = 0, cl_last_tick = 0,
      cl_instruments = [], cl_upserts = 0\<rparr>"

definition on_sock :: "'a sock_act \<Rightarrow> ('e, 'a) coll_act" where
  "on_sock m s = (case m (cl_sock s) of (k, r) \<Rightarrow> (s\<lparr>cl_sock := k\<rparr>, r))"

definition on_window :: "('e \<times> atm_windows, 'a) act \<Rightarrow> ('e, 'a) coll_act" where
  "on_window m s = (case m (cl_sources s, cl_atm s) of (p, r) \<Rightarrow> (s\<lparr>cl_sources := fst p, cl_atm := snd p\<rparr>, r))"

definition forget_windows :: "('e, unit) coll_act" where
  "forget_windows = modify (\<lambda>s. s\<lparr>cl_atm := reset_windows (cl_atm s)\<rparr>)"

definition on_phase :: "'e collector_setup \<Rightarrow> phase \<Rightarrow> ('e, unit) coll_act" where
  "on_phase X ph =
     bnd (asks cl_phase) (\<lambda>prev.
     if prev = Some ph then ret ()
     else sq (modify (\<lambda>s. s\<lparr>cl_phase := Some ph\<rparr>))
       (if ph = CONNECT then sq forget_windows (on_sock (sock_start (cs_driver X)))
        else if ph = COLLECT then modify (\<lambda>s. s\<lparr>cl_last_recompute := 0\<rparr>)
        else if ph = PH_CLOSED \<or> ph = PRE_OPEN then sq (on_sock (sock_stop (cs_driver X))) forget_windows
        else ret ()))"

subsection \<open>The watchdog\<close>

definition restart_stream :: "'e collector_setup \<Rightarrow> int \<Rightarrow> ('e, unit) coll_act" where
  "restart_stream X mt =
     sq (on_sock (sock_restart (cs_driver X)))
        (modify (\<lambda>s. s\<lparr>cl_restarts := cl_restarts s + 1, cl_last_restart := mt, cl_disconnected := None,
                       cl_connected := None, cl_heartbeat := 0, cl_last_recompute := 0\<rparr>))"

definition idle_for :: "int \<Rightarrow> 'e collector \<Rightarrow> int" where
  "idle_for mt s =
     (let baseline = (if cl_last_tick s \<le> 0
                      then (case cl_connected s of Some c \<Rightarrow> c | None \<Rightarrow> mt) else cl_last_tick s)
      in mt - baseline)"

definition heartbeat_stalled :: "reconnect_config \<Rightarrow> int \<Rightarrow> ('e, bool) coll_act" where
  "heartbeat_stalled c mt =
     bnd (asks (idle_for mt)) (\<lambda>idle.
     if idle \<ge> rc_hb_critical c then
       sq (modify (\<lambda>s. if cl_heartbeat s < 2 then s\<lparr>cl_heartbeat := 2\<rparr> else s)) (ret True)
     else if idle \<ge> rc_hb_warning c then
       sq (modify (\<lambda>s. if cl_heartbeat s < 1 then s\<lparr>cl_heartbeat := 1\<rparr> else s)) (ret False)
     else sq (modify (\<lambda>s. s\<lparr>cl_heartbeat := 0\<rparr>)) (ret False))"

definition watch_connected :: "'e collector_setup \<Rightarrow> phase \<Rightarrow> int \<Rightarrow> ('e, unit) coll_act" where
  "watch_connected X ph mt =
     sq (modify (\<lambda>s. if cl_connected s = None then s\<lparr>cl_connected := Some mt, cl_heartbeat := 0\<rparr> else s))
     (sq (modify (\<lambda>s. s\<lparr>cl_disconnected := None\<rparr>))
     (if ph = COLLECT then
        bnd (heartbeat_stalled (kc_reconnect (cs_config X)) mt) (\<lambda>stalled.
        do_if stalled (restart_stream X mt))
      else ret ()))"

definition watch_unhealthy :: "'e collector_setup \<Rightarrow> bool \<Rightarrow> int \<Rightarrow> ('e, unit) coll_act" where
  "watch_unhealthy X dead mt =
     (let c = kc_reconnect (cs_config X)
      in sq (modify (\<lambda>s. s\<lparr>cl_connected := None\<rparr>))
         (sq (modify (\<lambda>s. if cl_disconnected s = None then s\<lparr>cl_disconnected := Some mt\<rparr> else s))
         (bnd (asks (\<lambda>s. (mt - the (cl_disconnected s), cl_last_restart s))) (\<lambda>(down_for, last_restart).
          if \<not> (dead \<or> down_for \<ge> rc_grace c) then ret ()
          else if mt - last_restart < rc_backoff c then ret ()
          else restart_stream X mt))))"

definition watchdog :: "'e collector_setup \<Rightarrow> phase \<Rightarrow> int \<Rightarrow> ('e, unit) coll_act" where
  "watchdog X ph mt =
     (if ph \<notin> {CONNECT, COLLECT, PH_FREEZE}
      then modify (\<lambda>s. s\<lparr>cl_disconnected := None, cl_connected := None, cl_heartbeat := 0\<rparr>)
      else
        bnd (asks (\<lambda>s. (sk_dead (cl_sock s), sk_connected (cl_sock s)))) (\<lambda>(dead, connected).
        if connected \<and> \<not> dead then watch_connected X ph mt else watch_unhealthy X dead mt))"

subsection \<open>Rotating the windows\<close>

definition upsert_instruments :: "'e collector_setup \<Rightarrow> instrument_ref list \<Rightarrow> dt \<Rightarrow> ('e, unit) coll_act" where
  "upsert_instruments X refs tm s =
     (let s1 = s\<lparr>cl_upserts := cl_upserts s + 1\<rparr>;
          new = filter (\<lambda>r. ir_token r \<notin> fst ` set (cl_instruments s)) refs
      in if cs_upsert_ok X (cl_upserts s)
         then (s1\<lparr>cl_instruments := cl_instruments s @ map (\<lambda>r. (ir_token r, r, tm)) new\<rparr>, Inr ())
         else (s1, Inl DatabaseError))"

definition apply_diff :: "'e collector_setup \<Rightarrow> dt \<Rightarrow> window_diff \<Rightarrow> ('e, unit) coll_act" where
  "apply_diff X tm diff =
     sq (do_if (wd_new diff \<noteq> []) (upsert_instruments X (wd_new diff) tm))
     (sq (do_if (wd_unsubscribe diff \<noteq> []) (on_sock (sock_unsubscribe (cs_driver X) (wd_unsubscribe diff))))
         (do_if (wd_subscribe diff \<noteq> []) (on_sock (sock_subscribe (cs_driver X) (wd_subscribe diff)))))"

definition recompute_one :: "'e collector_setup \<Rightarrow> dt \<Rightarrow> string \<Rightarrow> ('e, unit) coll_act" where
  "recompute_one X tm underlying =
     bnd (catch_if is_exception
            (bnd (on_window (recompute (cs_window X) underlying (ist_date tm))) (\<lambda>diff. ret (Some diff)))
            (\<lambda>_. ret None)) (\<lambda>r.
     case r of None \<Rightarrow> ret () | Some diff \<Rightarrow> apply_diff X tm diff)"

definition recompute_all :: "'e collector_setup \<Rightarrow> dt \<Rightarrow> ('e, unit) coll_act" where
  "recompute_all X tm = for_each (kc_underlyings (cs_config X)) (recompute_one X tm)"

text \<open>One pass of the loop; an exception ends the pass, not the loop.\<close>

definition control_pass :: "'e collector_setup \<Rightarrow> dt \<Rightarrow> int \<Rightarrow> ('e, unit) coll_act" where
  "control_pass X tm mt =
     (let ph = session_phase (cs_hours X) (cs_trading X) tm
      in catch_if is_exception
           (sq (on_phase X ph)
           (sq (watchdog X ph mt)
           (bnd (asks cl_last_recompute) (\<lambda>last_run.
            do_if (ph = COLLECT \<and> mt - last_run \<ge> kc_interval (cs_config X))
              (sq (recompute_all X tm) (modify (\<lambda>s. s\<lparr>cl_last_recompute := mt\<rparr>)))))))
           (\<lambda>_. ret ()))"

text \<open>The tick handler \<open>start\_collector.py\<close> installs: a counter and the queue, nothing else.\<close>

definition on_market_data :: "'e collector_setup \<Rightarrow> int \<Rightarrow> market_tick \<Rightarrow> 'e collector \<Rightarrow> 'e collector" where
  "on_market_data X mt tick s =
     s\<lparr>cl_received := cl_received s + 1, cl_last_tick := mt,
       cl_writer := enqueue (kc_writer (cs_config X)) tick (cl_writer s)\<rparr>"

definition collector_stop :: "'e collector_setup \<Rightarrow> ('e, unit) coll_act" where
  "collector_stop X =
     sq (on_sock (sock_stop (cs_driver X))) (modify (\<lambda>s. s\<lparr>cl_writer := writer_stop (cl_writer s)\<rparr>))"

end
