(* ===== verification/Collector_Proofs.thy ===== *)
theory Collector_Proofs
  imports Collector
begin

text \<open>
  Properties of the collector: when its watchdog rebuilds the socket, and that the socket keeps every
  contract of every window registered.
\<close>

section \<open>A driver that answers\<close>

definition driver_ok :: "sock_driver \<Rightarrow> bool" where
  "driver_ok D \<longleftrightarrow> (\<forall>n c. D n c = Inr ())"

lemma sock_op_ok: "driver_ok D \<Longrightarrow> sock_op D c s = (s\<lparr>sk_calls := sk_calls s @ [c]\<rparr>, Inr ())"
  by (simp add: sock_op_def driver_ok_def)

lemmas sock_defs = sock_start_def sock_spawn_def sock_restart_def sock_close_def sock_stop_def
  sock_subscribe_def sock_unsubscribe_def sock_on_connect_def act_defs

lemma sock_runs:
  assumes "driver_ok D"
  shows "\<exists>s'. sock_restart D s = (s', Inr ()) \<and> sk_tokens s' = sk_tokens s \<and> sk_ticker s'"
    and "\<exists>s'. sock_stop D s = (s', Inr ()) \<and> sk_tokens s' = []"
    and "\<exists>s'. sock_start D s = (s', Inr ()) \<and> sk_tokens s' = sk_tokens s"
    and "\<exists>s'. sock_subscribe D ts s = (s', Inr ()) \<and> set (sk_tokens s') = set (sk_tokens s) \<union> set ts"
    and "\<exists>s'. sock_unsubscribe D ts s = (s', Inr ()) \<and> set (sk_tokens s') = set (sk_tokens s) - set ts"
    and "\<exists>s'. sock_on_connect D s = (s', Inr ()) \<and> sk_tokens s' = sk_tokens s"
  by (auto simp: sock_defs sock_op_ok [OF assms])

section \<open>The watchdog\<close>

lemma watchdog_tokens:
  fixes X :: "'a collector_setup"
  assumes "driver_ok (cs_driver X)"
  shows "sk_tokens (cl_sock (fst (watchdog X ph mt s))) = sk_tokens (cl_sock s)"
proof -
  have md: "keeps (\<lambda>s. sk_tokens (cl_sock s) = a) (modify f)"
    if "\<And>s. cl_sock (f s) = cl_sock s" for a and f :: "'a collector \<Rightarrow> 'a collector"
    using that by (simp add: keeps_def modify_def)
  have "sk_tokens (fst (sock_restart (cs_driver X) k)) = sk_tokens k" for k
    using sock_runs(1) [OF assms, of k] by auto
  then have "keeps (\<lambda>s. sk_tokens (cl_sock s) = a) (on_sock (sock_restart (cs_driver X)))" for a
    by (simp add: keeps_def on_sock_def split_beta)
  then have "keeps (\<lambda>s. sk_tokens (cl_sock s) = a) (watchdog X ph mt)" for a
    unfolding watchdog_def watch_connected_def watch_unhealthy_def heartbeat_stalled_def restart_stream_def Let_def
    by (intro keeps_intro md; simp)
  then show ?thesis by (simp add: keeps_def)
qed

text \<open>
  
  Inside a session the watchdog rebuilds the socket exactly when it should, and a rebuild keeps
  every registered token. A connected socket is rebuilt while collecting once no tick came for the
  critical time, counted from the last tick the process ever received; a socket that is down is
  rebuilt when the ticker has given up, or the grace period since the first pass that saw it down is
  over, and the last rebuild is at least the backoff ago. Outside a session nothing is rebuilt.
\<close>

theorem watchdog_rebuilds_exactly:
  assumes "driver_ok (cs_driver X)"
  shows "case watchdog X ph mt s of (s', r) \<Rightarrow>
    r = Inr () \<and> sk_tokens (cl_sock s') = sk_tokens (cl_sock s) \<and>
    (cl_restarts s' = cl_restarts s + 1 \<and> cl_last_restart s' = mt \<and> sk_ticker (cl_sock s') \<longleftrightarrow>
       ph \<in> {CONNECT, COLLECT, PH_FREEZE} \<and>
       (let c = kc_reconnect (cs_config X)
        in if sk_connected (cl_sock s) \<and> \<not> sk_dead (cl_sock s)
           then ph = COLLECT \<and>
             mt - (if 0 < cl_last_tick s then cl_last_tick s
                   else case cl_connected s of None \<Rightarrow> mt | Some t \<Rightarrow> t) \<ge> rc_hb_critical c
           else (sk_dead (cl_sock s) \<or>
                 mt - (case cl_disconnected s of None \<Rightarrow> mt | Some t \<Rightarrow> t) \<ge> rc_grace c) \<and>
                mt - cl_last_restart s \<ge> rc_backoff c))"
proof -
  obtain k where re: "sock_restart (cs_driver X) (cl_sock s) = (k, Inr ())" "sk_tokens k = sk_tokens (cl_sock s)" "sk_ticker k"
    using sock_runs(1) [OF assms] by blast
  show ?thesis
  proof (cases "ph \<in> {CONNECT, COLLECT, PH_FREEZE}")
    case False
    then show ?thesis by (simp add: watchdog_def modify_def)
  next
    case True
    show ?thesis
    proof (cases "sk_connected (cl_sock s) \<and> \<not> sk_dead (cl_sock s)")
      case up: True
      then show ?thesis using True
        by (auto simp: watchdog_def watch_connected_def heartbeat_stalled_def idle_for_def restart_stream_def
            on_sock_def act_defs Let_def re split: option.splits)
    next
      case False
      then show ?thesis using True
        by (auto simp: watchdog_def watch_unhealthy_def restart_stream_def on_sock_def act_defs Let_def re
            split: option.splits)
    qed
  qed
qed

definition demo_window :: "nat window_setup" where
  "demo_window =
     \<lparr>ws_spec = (\<lambda>u. if u = ''NIFTY''
        then Inr \<lparr>is_instrument = u, is_exchange = NFO, is_strike_interval = 50, is_lot_size = 75,
               is_tick_size = 5/100, is_underlying = None\<rparr> else Inl ValueError),
      ws_expiry = (\<lambda>u d. ret 20000), ws_spot = (\<lambda>u. asks (\<lambda>n. if n = 0 then 24010 else 24060)),
      ws_chain = (\<lambda>u d. if u = ''NIFTY''
        then bnd (asks (\<lambda>n. [(24000, [(''CE'', (''A'', 7)), (''PE'', (''B'', 8))]), (24050, [(''CE'', (''C'', 9))])]))
               (\<lambda>chain. sq (modify (\<lambda>n. n + 1)) (ret chain))
        else throw LookupError),
      ws_each_side = 0\<rparr>"

definition demo_collector :: "nat collector_setup" where
  "demo_collector =
     \<lparr>cs_config = \<lparr>kc_underlyings = [''NIFTY''], kc_each_side = 1, kc_interval = 60000000,
        kc_writer = \<lparr>wc_batch = 2, wc_flush_interval = 1, wc_queue_max = 2, wc_policy = DROP_OLDEST,
          wc_retry_base = 1, wc_retry_max = 1\<rparr>,
        kc_reconnect = \<lparr>rc_grace = 30000000, rc_backoff = 60000000, rc_hb_warning = 5000000,
          rc_hb_critical = 15000000\<rparr>\<rparr>,
      cs_driver = (\<lambda>n c. Inr ()), cs_window = demo_window, cs_upsert_ok = (\<lambda>n. True),
      cs_hours = demo_hours, cs_trading = weekday_trading_day\<rparr>"

definition gave_up :: "nat collector" where
  "gave_up = (new_collector 0)\<lparr>cl_sock := sock_on_noreconnect (new_socket\<lparr>sk_ticker := True, sk_tokens := [7]\<rparr>)\<rparr>"

theorem watchdog_witness:
  "case watchdog demo_collector COLLECT 90000000 gave_up of
     (s', r) \<Rightarrow> cl_restarts s' = 1 \<and> sk_tokens (cl_sock s') = [7]"
proof -
  have "driver_ok (cs_driver demo_collector)" by (simp add: driver_ok_def demo_collector_def)
  from watchdog_rebuilds_exactly [OF this, where ph = COLLECT and mt = 90000000 and s = gave_up] show ?thesis
    by (simp add: gave_up_def demo_collector_def sock_on_noreconnect_def new_collector_def split_beta)
qed

section \<open>Every contract of every window is registered\<close>

definition registered :: "'e collector \<Rightarrow> bool" where
  "registered s \<longleftrightarrow> (\<forall>u. fst ` set (window_of u (cl_atm s)) \<subseteq> set (sk_tokens (cl_sock s)))"

definition owned :: "(int \<Rightarrow> string) \<Rightarrow> 'e collector \<Rightarrow> bool" where
  "owned owner s \<longleftrightarrow> (\<forall>u. \<forall>t \<in> fst ` set (window_of u (cl_atm s)). owner t = u)"

definition tracked :: "(int \<Rightarrow> string) \<Rightarrow> 'e collector \<Rightarrow> bool" where
  "tracked owner s \<longleftrightarrow> registered s \<and> owned owner s"

text \<open>Instrument tokens are unique: a chain of an underlying lists tokens of that underlying only.\<close>

definition tokens_unique :: "(int \<Rightarrow> string) \<Rightarrow> 'e window_setup \<Rightarrow> bool" where
  "tokens_unique owner X \<longleftrightarrow>
     (\<forall>u d e e' chain strike. ws_chain X u d e = (e', Inr chain) \<longrightarrow> (\<forall>t \<in> legs_at chain strike. owner t = u))"

lemma window_of_reset [simp]: "window_of u (reset_windows a) = []"
  by (simp add: window_of_def reset_windows_def)

lemma tracked_cong:
  "cl_atm s' = cl_atm s \<Longrightarrow> sk_tokens (cl_sock s') = sk_tokens (cl_sock s) \<Longrightarrow> tracked owner s' = tracked owner s"
  by (simp add: tracked_def registered_def owned_def)

lemma tracked_modify:
  "(\<And>s. cl_atm (f s) = cl_atm s) \<Longrightarrow> (\<And>s. sk_tokens (cl_sock (f s)) = sk_tokens (cl_sock s)) \<Longrightarrow>
   keeps (tracked owner) (modify f)"
  by (rule keeps_modify) (simp add: tracked_def registered_def owned_def)

lemma failed_sources:
  "hoare (\<lambda>s. snd s = a) (on_sources m) (\<lambda>_ s. snd s = a) (\<lambda>_ s. snd s = a)"
  "hoare (\<lambda>s. snd s = a) (lift_sum r) (\<lambda>_ s. snd s = a) (\<lambda>_ s. snd s = a)"
  "hoare (\<lambda>s. snd s = a) (asks f) (\<lambda>_ s. snd s = a) (\<lambda>_ s. snd s = a)"
  "hoare (\<lambda>s. snd s = a) (sq (modify g) (ret x)) (\<lambda>_ _. True) (\<lambda>_ s. snd s = a)"
  by (auto simp: hoare_def on_sources_def act_defs split: prod.splits sum.splits)

lemma recompute_failed: "recompute X u d s = (s', Inl e) \<Longrightarrow> snd s' = snd s"
proof -
  have "hoare (\<lambda>q. snd q = snd s) (recompute X u d) (\<lambda>_ _. True) (\<lambda>_ q. snd q = snd s)"
    unfolding recompute_def Let_def by (rule hoare_bnd failed_sources)+
  then show "recompute X u d s = (s', Inl e) \<Longrightarrow> snd s' = snd s" by (auto dest: hoareD2)
qed

lemma keeps_tracked_phase:
  fixes X :: "'a collector_setup"
  assumes "driver_ok (cs_driver X)"
  shows "keeps (tracked owner) (on_phase X ph :: ('a, unit) coll_act)"
  unfolding keeps_def
proof (intro allI impI)
  fix s :: "'a collector" assume t: "tracked owner s"
  obtain q where st: "sock_stop (cs_driver X) (cl_sock s) = (q, Inr ())" "sk_tokens q = []"
    using sock_runs(2) [OF assms] by blast
  obtain k where sp: "sock_start (cs_driver X) (cl_sock s) = (k, Inr ())" "sk_tokens k = sk_tokens (cl_sock s)"
    using sock_runs(3) [OF assms] by blast
  show "tracked owner (fst (on_phase X ph s))"
    using t by (auto simp: on_phase_def forget_windows_def on_sock_def act_defs st sp tracked_def registered_def
        owned_def)
qed

lemma keeps_tracked_watchdog:
  fixes X :: "'a collector_setup"
  assumes "driver_ok (cs_driver X)"
  shows "keeps (tracked owner) (watchdog X ph mt)"
proof -
  have md: "keeps (\<lambda>s. cl_atm s = a) (modify f)" if "\<And>s. cl_atm (f s) = cl_atm s" for a and f :: "'a collector \<Rightarrow> 'a collector"
    using that by (simp add: keeps_def modify_def)
  have so: "keeps (\<lambda>s. cl_atm s = a) (on_sock m)" for a and m :: "unit sock_act"
    by (simp add: keeps_def on_sock_def split: prod.split)
  have "keeps (\<lambda>s. cl_atm s = a) (watchdog X ph mt)" for a
    unfolding watchdog_def watch_connected_def watch_unhealthy_def heartbeat_stalled_def restart_stream_def Let_def
    by (intro keeps_intro md so; simp)
  then have atm: "cl_atm (fst (watchdog X ph mt s)) = cl_atm s" for s by (simp add: keeps_def)
  have "sk_tokens (cl_sock (fst (watchdog X ph mt s))) = sk_tokens (cl_sock s)" for s
    by (rule watchdog_tokens [OF assms])
  then show ?thesis using atm tracked_cong by (metis keeps_def)
qed

lemma apply_diff_run:
  assumes "driver_ok (cs_driver X)" "\<And>n. cs_upsert_ok X n"
  shows "\<exists>s'. apply_diff X tm diff s = (s', Inr ()) \<and> cl_atm s' = cl_atm s \<and>
    set (sk_tokens (cl_sock s')) =
      set (sk_tokens (cl_sock s)) - set (wd_unsubscribe diff) \<union> set (wd_subscribe diff)"
proof -
  obtain s1 where s1: "do_if (wd_new diff \<noteq> []) (upsert_instruments X (wd_new diff) tm) s = (s1, Inr ())"
      "cl_atm s1 = cl_atm s" "cl_sock s1 = cl_sock s"
    by (cases "wd_new diff = []") (auto simp: do_if_def upsert_instruments_def assms(2) Let_def ret_def)
  obtain k1 where k1: "sock_unsubscribe (cs_driver X) (wd_unsubscribe diff) (cl_sock s1) = (k1, Inr ())"
      "set (sk_tokens k1) = set (sk_tokens (cl_sock s1)) - set (wd_unsubscribe diff)"
    using sock_runs(5) [OF assms(1)] by blast
  have un: "do_if (wd_unsubscribe diff \<noteq> []) (on_sock (sock_unsubscribe (cs_driver X) (wd_unsubscribe diff))) s1 =
      (s1\<lparr>cl_sock := k1\<rparr>, Inr ())"
    using k1(1) by (cases "wd_unsubscribe diff = []") (auto simp: do_if_def on_sock_def sock_unsubscribe_def ret_def)
  obtain k2 where k2: "sock_subscribe (cs_driver X) (wd_subscribe diff) k1 = (k2, Inr ())"
      "set (sk_tokens k2) = set (sk_tokens k1) \<union> set (wd_subscribe diff)"
    using sock_runs(4) [OF assms(1)] by blast
  have su: "do_if (wd_subscribe diff \<noteq> []) (on_sock (sock_subscribe (cs_driver X) (wd_subscribe diff))) (s1\<lparr>cl_sock := k1\<rparr>) =
      (s1\<lparr>cl_sock := k2\<rparr>, Inr ())"
    using k2(1) by (cases "wd_subscribe diff = []") (auto simp: do_if_def on_sock_def sock_subscribe_def ret_def)
  have "apply_diff X tm diff s = (s1\<lparr>cl_sock := k2\<rparr>, Inr ())"
    by (simp add: apply_diff_def sq_def bnd_def s1(1) un su)
  then show ?thesis using s1(2,3) k1(2) k2(2) by simp
qed

lemma keeps_tracked_recompute:
  fixes X :: "'a collector_setup"
  assumes D: "driver_ok (cs_driver X)" and U: "\<And>n. cs_upsert_ok X n" and T: "tokens_unique owner (cs_window X)"
  shows "keeps (tracked owner) (recompute_one X tm u)"
  unfolding keeps_def
proof (intro allI impI)
  fix s :: "'a collector" assume t: "tracked owner s"
  obtain p q where run: "recompute (cs_window X) u (ist_date tm) (cl_sources s, cl_atm s) = (p, q)"
    by (metis prod.exhaust)
  show "tracked owner (fst (recompute_one X tm u s))"
  proof (cases q)
    case (Inl e)
    then have "snd p = cl_atm s" using recompute_failed [of "cs_window X" u "ist_date tm" "(cl_sources s, cl_atm s)" p e] run by simp
    then show ?thesis using t
      by (cases "is_exception e")
        (simp_all add: recompute_one_def on_window_def catch_if_def bnd_def ret_def run Inl tracked_def registered_def owned_def)
  next
    case (Inr diff)
    obtain spec atm expiry chain e1 e2 where r: "ws_chain (cs_window X) u expiry e1 = (e2, Inr chain)"
        "diff = diff_windows u atm (window_of u (cl_atm s)) (target_window spec u expiry chain atm (ws_each_side (cs_window X)))"
        "snd p = (cl_atm s)\<lparr>aw_current := AList.update u (target_window spec u expiry chain atm (ws_each_side (cs_window X))) (aw_current (cl_atm s)),
           aw_atm := AList.update u atm (aw_atm (cl_atm s))\<rparr>"
      using recompute_run [OF run [unfolded Inr]] by auto
    let ?t = "target_window spec u expiry chain atm (ws_each_side (cs_window X))"
    have win: "window_of v (snd p) = (if v = u then ?t else window_of v (cl_atm s))" for v
      by (simp add: r(3) window_of_def update_conv')
    have own: "owner tok = u" if "tok \<in> fst ` set ?t" for tok
      using that T r(1) unfolding target_tokens tokens_unique_def by blast
    let ?s1 = "s\<lparr>cl_sources := fst p, cl_atm := snd p\<rparr>"
    obtain s' where s': "apply_diff X tm diff ?s1 = (s', Inr ())" "cl_atm s' = snd p"
        "set (sk_tokens (cl_sock s')) = set (sk_tokens (cl_sock s)) - set (wd_unsubscribe diff) \<union> set (wd_subscribe diff)"
      using apply_diff_run [OF D U, of tm diff ?s1] by auto
    have fin: "recompute_one X tm u s = (s', Inr ())"
      using s'(1) by (simp add: recompute_one_def on_window_def catch_if_def bnd_def ret_def run Inr)
    have old: "fst ` set (window_of v (cl_atm s)) \<subseteq> set (sk_tokens (cl_sock s))"
      "\<And>tok. tok \<in> fst ` set (window_of v (cl_atm s)) \<Longrightarrow> owner tok = v" for v
      using t by (auto simp: tracked_def registered_def owned_def)
    have d: "set (wd_unsubscribe diff) = fst ` set (window_of u (cl_atm s)) - fst ` set ?t"
      "set (wd_subscribe diff) = fst ` set ?t - fst ` set (window_of u (cl_atm s))"
      by (auto simp: r(2) diff_windows_def Let_def)
    have "fst ` set (window_of v (snd p)) \<subseteq> set (sk_tokens (cl_sock s'))" for v
    proof (cases "v = u")
      case True
      then show ?thesis using old(1) [of u] unfolding win s'(3) d by auto
    next
      case False
      then have "tok \<notin> set (wd_unsubscribe diff)" if "tok \<in> fst ` set (window_of v (cl_atm s))" for tok
        using that old(2) [of tok v] old(2) [of tok u] unfolding d by auto
      then show ?thesis using False old(1) [of v] unfolding win s'(3) by auto
    qed
    moreover have "owner tok = v" if "tok \<in> fst ` set (window_of v (snd p))" for v tok
      using that own old(2) unfolding win by (auto split: if_splits)
    ultimately show ?thesis unfolding tracked_def registered_def owned_def fin fst_conv s'(2) by blast
  qed
qed

lemma keeps_tracked_pass:
  assumes "driver_ok (cs_driver X)" "\<And>n. cs_upsert_ok X n" "tokens_unique owner (cs_window X)"
  shows "keeps (tracked owner) (control_pass X tm mt)"
  unfolding control_pass_def recompute_all_def
  by (intro keeps_intro keeps_tracked_phase keeps_tracked_watchdog keeps_tracked_recompute assms)
    (rule tracked_modify; simp)

datatype coll_event =
    CvPass dt int | CvConnected | CvClosed | CvGaveUp | CvTick int market_tick

fun coll_step :: "'e collector_setup \<Rightarrow> coll_event \<Rightarrow> 'e collector \<Rightarrow> 'e collector" where
  "coll_step X (CvPass tm mt) s = fst (control_pass X tm mt s)"
| "coll_step X CvConnected s = fst (on_sock (sock_on_connect (cs_driver X)) s)"
| "coll_step X CvClosed s = s\<lparr>cl_sock := sock_on_close (cl_sock s)\<rparr>"
| "coll_step X CvGaveUp s = s\<lparr>cl_sock := sock_on_noreconnect (cl_sock s)\<rparr>"
| "coll_step X (CvTick mt tick) s = on_market_data X mt tick s"

lemma tracked_step:
  fixes X :: "'a collector_setup"
  assumes "driver_ok (cs_driver X)" "\<And>n. cs_upsert_ok X n" "tokens_unique owner (cs_window X)" "tracked owner s"
  shows "tracked owner (coll_step X e s)"
proof (cases e)
  case (CvPass tm mt)
  then show ?thesis using keeps_tracked_pass [OF assms(1-3)] assms(4) by (simp add: keeps_def)
next
  case CvConnected
  obtain k where "sock_on_connect (cs_driver X) (cl_sock s) = (k, Inr ())" "sk_tokens k = sk_tokens (cl_sock s)"
    using sock_runs(6) [OF assms(1)] by blast
  then show ?thesis using assms(4) CvConnected by (simp add: on_sock_def tracked_def registered_def owned_def)
qed (use assms(4) in \<open>simp_all add: tracked_def registered_def owned_def sock_on_close_def sock_on_noreconnect_def
  on_market_data_def\<close>)


lemma demo_tokens_unique: "tokens_unique (\<lambda>_. ''NIFTY'') (cs_window demo_collector)"
  by (auto simp: tokens_unique_def demo_collector_def demo_window_def bnd_def throw_def split: if_splits)

text \<open>Two days on which the window moves with the spot price, a lost socket between them.\<close>

definition two_days :: "coll_event list" where
  "two_days =
     [CvPass (20086 * day_micros) 0, CvPass (20086 * day_micros + hms 4 0 0) 100000000, CvConnected, CvClosed,
      CvConnected, CvPass (20086 * day_micros + hms 5 0 0) 3700000000]"


end
