(* ===== verification/Instance_Factory.thy ===== *)
theory Instance_Factory
  imports Runner Risk_Core Trade_History Kite_Mapper
begin

text \<open>
  \<open>strategy\_engine/parameter\_loader.py\<close> and \<open>instance\_factory.py\<close>: how a runnable instance is put
  together from its configuration file, its durable identity and the services of the platform. The
  files are an argument: what \<open>yaml.safe\_load\<close> makes of the file at a path, or nothing where there
  is no file; so is the schema that turns a mapping into a validated model (pydantic). The context
  is built from the components the platform injects: the risk core, the configured instruments, the
  expiry validated against the broker's list, the spot price through the broker, and the history
  recorder. Paths use the POSIX separator; log lines are left out.
\<close>

section \<open>Configuration files (parameter\_loader.py)\<close>

type_synonym config_files = "string \<Rightarrow> pyval option"

definition strategy_config_path :: "string \<Rightarrow> string \<Rightarrow> string \<Rightarrow> string" where
  "strategy_config_path dir strategy instrument =
     dir @ ''/strategies/'' @ strategy @ ''/'' @ lower instrument @ ''.yaml''"

definition loader_load :: "config_files \<Rightarrow> string \<Rightarrow> (pydict \<Rightarrow> exn + 'm) \<Rightarrow> exn + 'm" where
  "loader_load files path schema =
     (case files path of
        None \<Rightarrow> Inl FileNotFoundError
      | Some raw \<Rightarrow>
          (case (if raw = PNone then PDict [] else raw) of
             PDict d \<Rightarrow> schema d
           | _ \<Rightarrow> Inl ValueError))"

definition load_strategy_config ::
    "config_files \<Rightarrow> string \<Rightarrow> string \<Rightarrow> string \<Rightarrow> (pydict \<Rightarrow> exn + 'm) \<Rightarrow> exn + 'm" where
  "load_strategy_config files dir strategy instrument schema =
     loader_load files (strategy_config_path dir strategy instrument) schema"

section \<open>The factory\<close>

text \<open>
  A strategy class, known by the number the registry maps its id to: the schema it declares for its
  configuration and its constructor.
\<close>

record 'b strategy_class =
  sk_schema :: "pydict \<Rightarrow> exn + strategy_config"
  sk_new :: "'b ctx \<Rightarrow> 'b gateway \<Rightarrow> 'b hooks"

record 'b factory =
  fa_broker :: "'b broker"
  fa_gateway :: "'b gateway"
  fa_risk :: risk_config
  fa_instruments :: instrument_configs
  fa_holidays :: holidays
  fa_listed :: "string \<Rightarrow> exchange \<Rightarrow> ('b, date list option) broker_call"
  fa_mode :: string
  fa_registry :: registry
  fa_class :: "nat \<Rightarrow> 'b strategy_class"
  fa_files :: config_files
  fa_dir :: string

text \<open>\<open>ValidatingExpiryService.get\_current\_weekly\_expiry\<close> over the broker's own list of expiries.\<close>

definition factory_expiry :: "'b factory \<Rightarrow> string \<Rightarrow> date \<Rightarrow> ('b, date) prog" where
  "factory_expiry F instrument as_of =
     bnd (lift_sum (get_current_weekly_expiry (fa_instruments F) (fa_holidays F) instrument as_of)) (\<lambda>computed.
     bnd (lift_sum (get_instrument_spec (fa_instruments F) instrument)) (\<lambda>spec.
     (let underlying = (case is_underlying spec of
            None \<Rightarrow> instrument | Some u \<Rightarrow> if u = [] then instrument else u)
      in bnd (bcall (fa_listed F underlying (is_exchange spec))) (\<lambda>listed.
         case listed of
           None \<Rightarrow> ret computed
         | Some ds \<Rightarrow> if computed \<in> set ds then ret computed else throw LookupError))))"

definition build_context :: "'b factory \<Rightarrow> identity \<Rightarrow> strategy_config \<Rightarrow> 'b ctx" where
  "build_context F who config =
     \<lparr>cx_id = who, cx_config = config, cx_broker = fa_broker F,
      cx_halted = is_halted who,
      cx_approve = approve_entry \<lparr>rr_config = fa_risk F, rr_broker = fa_broker F\<rparr> who,
      cx_spec = get_instrument_spec (fa_instruments F),
      cx_expiry = factory_expiry F,
      cx_spot = broker_spot_ltp (fa_broker F) (spot_reference (fa_instruments F)),
      cx_history = record_closed_position (Some (fa_mode F))\<rparr>"

definition ensure_instance_row :: "string \<Rightarrow> string \<Rightarrow> nat \<Rightarrow> exchange \<Rightarrow> ('b, nat) prog" where
  "ensure_instance_row strategy instrument account exch =
     unit_of_work (bnd (instance_get_or_create strategy instrument account exch) (\<lambda>(iid, created). ret iid))"

definition build_runner :: "'b factory \<Rightarrow> string \<Rightarrow> string \<Rightarrow> nat \<Rightarrow> exchange \<Rightarrow> ('b, 'b hooks) prog" where
  "build_runner F strategy instrument account exch =
     bnd (lift_sum (case registry_get strategy (fa_registry F) of Inl e \<Rightarrow> Inl KeyError | Inr c \<Rightarrow> Inr c)) (\<lambda>cls.
     bnd (lift_sum (load_strategy_config (fa_files F) (fa_dir F) strategy instrument
            (sk_schema (fa_class F cls)))) (\<lambda>config.
     bnd (ensure_instance_row strategy instrument account exch) (\<lambda>iid.
     (let who = \<lparr>id_instance = iid, id_strategy = strategy, id_instrument = instrument,
            id_account = account, id_exchange = exch\<rparr>
      in ret (sk_new (fa_class F cls) (build_context F who config) (fa_gateway F))))))"

text \<open>\<open>StrategyIdentity.\_\_str\_\_\<close>, the key of an instance everywhere.\<close>

definition identity_str :: "identity \<Rightarrow> string" where
  "identity_str who =
     id_strategy who @ ''/'' @ id_instrument who @ ''@acct'' @ nat_digits (id_account who) @
     ''#inst'' @ nat_digits (id_instance who)"

text \<open>Strategy-1 as the registry has it.\<close>

definition strategy1_class :: "(pydict \<Rightarrow> exn + strategy_config) \<Rightarrow> 'b strategy_class" where
  "strategy1_class parse =
     \<lparr>sk_schema = (\<lambda>d. sbind (parse d) mk_strategy_config), sk_new = strategy1\<rparr>"

end
