(* ===== verification/Container.thy ===== *)
theory Container
  imports Instance_Factory Scheduler Reconciliation Rate_Limiter Kite_Broker Market_Data
begin

text \<open>
  \<open>dependency\_container.py\<close>, \<open>app.py\<close>, \<open>start\_live.py\<close>, \<open>start\_paper.py\<close>, \<open>instance\_admin.py\<close> and
  \<open>database/migration\_guard.py\<close>: the configuration the platform refuses to start without, the
  order in which it comes up and goes down, and the gates in front of it. The state is the world, the
  scheduled runners, the keys under monitoring and of the tick consumers, and the container's own
  fields. The monitoring heartbeat and the tick consumers hold the runners the scheduler holds, so
  here they hold their keys. The environment variables, the files and the schema revisions are
  arguments; constructing objects of SQLAlchemy and the log lines are left out.
\<close>

section \<open>Configuration\<close>

record instance_spec =
  sp_strategy :: string
  sp_instrument :: string
  sp_account :: string

record app_config =
  ap_environment :: string
  ap_log_level :: string
  ap_instances :: "instance_spec list"
  ap_report_dir :: "string option"

definition mk_app_config :: "app_config \<Rightarrow> exn + app_config" where
  "mk_app_config c = (if ap_instances c = [] then Inl ValueError else Inr c)"

record simulation_settings =
  sx_synchronous :: bool
  sx_initial_cash :: decimal
  sx_connection_failure :: decimal
  sx_rejection :: decimal
  sx_partial_fill :: decimal
  sx_ack_latency :: int
  sx_fill_latency :: int

definition mk_simulation_settings :: "simulation_settings \<Rightarrow> exn + simulation_settings" where
  "mk_simulation_settings c =
     (if list_all (\<lambda>p. 0 \<le> p \<and> p \<le> 1) [sx_connection_failure c, sx_rejection c, sx_partial_fill c] \<and>
         0 \<le> sx_ack_latency c \<and> 0 \<le> sx_fill_latency c
      then Inr c else Inl ValueError)"

record kite_settings =
  ks_api_key_env :: string
  ks_api_secret_env :: string
  ks_token_env :: string
  ks_attempts :: int
  ks_delay :: int
  ks_batch :: int
  ks_timeout :: int

definition mk_kite_settings :: "kite_settings \<Rightarrow> exn + kite_settings" where
  "mk_kite_settings c =
     (if 0 < ks_attempts c \<and> 0 \<le> ks_delay c \<and> 0 < ks_batch c \<and> 0 < ks_timeout c
      then Inr c else Inl ValueError)"

definition all_rate_categories :: "rate_category list" where
  "all_rate_categories =
     [ORDER_MUTATION, ORDER_READ, PORTFOLIO_READ, MARKET_DATA, INSTRUMENT_LOOKUP, GENERAL]"

record brokers_config =
  bc_active :: broker_name
  bc_limits :: "(rate_category \<times> int \<times> int) list"
  bc_simulation :: simulation_settings
  bc_kite :: kite_settings

definition mk_brokers_config :: "brokers_config \<Rightarrow> exn + brokers_config" where
  "mk_brokers_config c =
     (if \<not> list_all (\<lambda>(cat, calls, per). 0 < calls \<and> 0 < per) (bc_limits c) then Inl ValueError
      else sbind (mk_simulation_settings (bc_simulation c)) (\<lambda>_.
           sbind (mk_kite_settings (bc_kite c)) (\<lambda>_.
           if filter (\<lambda>cat. cat \<notin> fst ` set (bc_limits c)) all_rate_categories \<noteq> [] then Inl ValueError
           else Inr c)))"

text \<open>The rules \<open>\_build\_broker\<close> hands to the rate limiter.\<close>

fun limiter_rules :: "(rate_category \<times> int \<times> int) list \<Rightarrow> exn + (rate_category \<times> rate_rule) list" where
  "limiter_rules [] = Inr []"
| "limiter_rules ((cat, calls, per) # rules) =
     sbind (mk_rate_rule calls per) (\<lambda>r. sbind (limiter_rules rules) (\<lambda>rs. Inr ((cat, r) # rs)))"

record account_spec =
  as_name :: string
  as_broker :: broker_name
  as_client_id :: "string option"
  as_display :: string

definition mk_accounts_config :: "account_spec list \<Rightarrow> exn + account_spec list" where
  "mk_accounts_config cs =
     (if cs = [] then Inl ValueError
      else if \<not> distinct (map as_name cs) then Inl ValueError else Inr cs)"

definition check_account_references :: "account_spec list \<Rightarrow> app_config \<Rightarrow> exn + unit" where
  "check_account_references accounts app =
     (if list_all (\<lambda>s. sp_account s \<in> as_name ` set accounts) (ap_instances app) then Inr () else Inl ValueError)"

definition configure_logging :: "app_config \<Rightarrow> exn + unit" where
  "configure_logging app =
     (if ap_log_level app \<in> set [''CRITICAL'', ''FATAL'', ''ERROR'', ''WARN'', ''WARNING'', ''INFO'', ''DEBUG'', ''NOTSET'']
      then Inr () else Inl ValueError)"

text \<open>What the container reads and checks before it builds anything.\<close>

record loaded_config =
  ld_app :: app_config
  ld_brokers :: brokers_config
  ld_accounts :: "account_spec list"
  ld_risk :: risk_config

record schemas =
  sm_app :: "pydict \<Rightarrow> exn + app_config"
  sm_brokers :: "pydict \<Rightarrow> exn + brokers_config"
  sm_accounts :: "pydict \<Rightarrow> exn + account_spec list"
  sm_risk :: "pydict \<Rightarrow> exn + risk_config"
  sm_market_data :: "pydict \<Rightarrow> exn + unit"

definition load_config :: "config_files \<Rightarrow> string \<Rightarrow> schemas \<Rightarrow> exn + loaded_config" where
  "load_config files dir S =
     sbind (loader_load files (dir @ ''/app.yaml'') (\<lambda>d. sbind (sm_app S d) mk_app_config)) (\<lambda>app.
     sbind (loader_load files (dir @ ''/brokers.yaml'') (\<lambda>d. sbind (sm_brokers S d) mk_brokers_config)) (\<lambda>brokers.
     sbind (loader_load files (dir @ ''/accounts.yaml'') (\<lambda>d. sbind (sm_accounts S d) mk_accounts_config)) (\<lambda>accounts.
     sbind (loader_load files (dir @ ''/risk.yaml'') (\<lambda>d. sbind (sm_risk S d) mk_risk_config)) (\<lambda>risk.
     sbind (loader_load files (dir @ ''/market_data.yaml'') (sm_market_data S)) (\<lambda>_.
     sbind (check_account_references accounts app) (\<lambda>_.
     sbind (configure_logging app) (\<lambda>_.
     Inr \<lparr>ld_app = app, ld_brokers = brokers, ld_accounts = accounts, ld_risk = risk\<rparr>)))))))"

text \<open>The credentials \<open>\_build\_kite\_broker\<close> insists on.\<close>

definition require_env :: "(string \<Rightarrow> string option) \<Rightarrow> string \<Rightarrow> exn + string" where
  "require_env env name =
     (case env name of
        None \<Rightarrow> Inl (BrokerAuthenticationError ''required environment variable is not set'')
      | Some v \<Rightarrow> if v = [] then Inl (BrokerAuthenticationError ''required environment variable is not set'')
                  else Inr v)"

definition kite_credentials ::
    "(string \<Rightarrow> string option) \<Rightarrow> bool \<Rightarrow> kite_settings \<Rightarrow> exn + string \<times> string" where
  "kite_credentials env has_token_store c =
     (if \<not> has_token_store then Inl (BrokerAuthenticationError ''no AccessTokenStore was injected'')
      else sbind (require_env env (ks_api_key_env c)) (\<lambda>key.
           sbind (require_env env (ks_api_secret_env c)) (\<lambda>secret. Inr (key, secret))))"

section \<open>The platform\<close>

record 'b container_setup =
  su_config :: loaded_config
  su_factory :: "'b factory"
  su_authenticate :: "('b, unit) broker_call"
  su_connect :: "('b, unit) broker_call"
  su_close :: "('b, unit) broker_call"
  su_reconciler :: "recon_hooks option"
  su_market_start :: "('b, unit) prog"
  su_market_stop :: "('b, unit) prog"
  su_trading :: "date \<Rightarrow> bool"

record 'b container =
  cn_world :: "'b world"
  cn_platform :: "'b platform"
  cn_monitored :: "string list"
  cn_consumers :: "string list"
  cn_accounts :: "(string \<times> nat) list"
  cn_runners :: "string list"
  cn_scheduling :: bool
  cn_monitoring :: bool
  cn_started :: bool

type_synonym ('b, 'a) cprog = "('b container, 'a) act"

definition new_container :: "'b world \<Rightarrow> 'b container" where
  "new_container w =
     \<lparr>cn_world = w, cn_platform = [], cn_monitored = [], cn_consumers = [], cn_accounts = [],
      cn_runners = [], cn_scheduling = False, cn_monitoring = False, cn_started = False\<rparr>"

definition on_world :: "('b, 'a) prog \<Rightarrow> ('b, 'a) cprog" where
  "on_world m s = (case m (cn_world s) of (w, r) \<Rightarrow> (s\<lparr>cn_world := w\<rparr>, r))"

definition on_platform :: "('b, 'a) pprog \<Rightarrow> ('b, 'a) cprog" where
  "on_platform m s =
     (case m (cn_world s, cn_platform s) of ((w, p), r) \<Rightarrow> (s\<lparr>cn_world := w, cn_platform := p\<rparr>, r))"

subsection \<open>Starting\<close>

definition ensure_account :: "account_spec \<Rightarrow> (string \<times> nat) tx" where
  "ensure_account spec =
     bnd (account_get_or_create (as_broker spec) (as_client_id spec) (as_display spec)) (\<lambda>(aid, created).
     ret (as_name spec, aid))"

definition ensure_accounts :: "account_spec list \<Rightarrow> ('b, (string \<times> nat) list) prog" where
  "ensure_accounts specs = unit_of_work (map_act ensure_account specs)"

definition build_instance :: "'b factory \<Rightarrow> (string \<times> nat) list \<Rightarrow> instance_spec \<Rightarrow> ('b, 'b hooks) prog" where
  "build_instance F ids spec =
     bnd (lift_sum (case map_of (rev ids) (sp_account spec) of None \<Rightarrow> Inl KeyError | Some a \<Rightarrow> Inr a)) (\<lambda>account.
     bnd (lift_sum (get_instrument_spec (fa_instruments F) (sp_instrument spec))) (\<lambda>ins.
     build_runner F (sp_strategy spec) (sp_instrument spec) account (is_exchange ins)))"

definition register_instance :: "'b container_setup \<Rightarrow> 'b hooks \<Rightarrow> ('b, unit) cprog" where
  "register_instance X h =
     (let key = identity_str (hk_identity h)
      in sq (on_platform (platform_register (su_trading X) key h new_runner))
            (modify (\<lambda>s. s\<lparr>cn_monitored := (if key \<in> set (cn_monitored s) then cn_monitored s else cn_monitored s @ [key]),
                           cn_consumers := cn_consumers s @ [key]\<rparr>)))"

definition check_broker :: "'b container_setup \<Rightarrow> ('b, unit) prog" where
  "check_broker X =
     sq (bcall (su_authenticate X))
     (bnd (bcall (bk_health (fa_broker (su_factory X)))) (\<lambda>h.
      if \<not> hs_healthy h then throw (BrokerConnectionError ''broker connectivity check failed at startup'')
      else ret ()))"

definition container_start :: "'b container_setup \<Rightarrow> ('b, unit) cprog" where
  "container_start X =
     bnd (asks cn_started) (\<lambda>started.
     if started then ret ()
     else
       sq (on_world (check_broker X))
       (bnd (on_world (ensure_accounts (ld_accounts (su_config X)))) (\<lambda>ids.
        sq (modify (\<lambda>s. s\<lparr>cn_accounts := ids\<rparr>))
       (bnd (on_world (map_act (build_instance (su_factory X) ids) (ap_instances (ld_app (su_config X))))) (\<lambda>runners.
        sq (modify (\<lambda>s. s\<lparr>cn_runners := map (\<lambda>h. identity_str (hk_identity h)) runners\<rparr>))
       (bnd (on_world (reconcile (fa_broker (su_factory X)) (su_reconciler X))) (\<lambda>report.
        sq (on_world (catch_if is_broker_error (bcall (su_connect X)) (\<lambda>_. ret ())))
       (sq (on_world (su_market_start X))
       (sq (for_each runners (register_instance X))
           (modify (\<lambda>s. s\<lparr>cn_scheduling := True, cn_monitoring := True, cn_started := True\<rparr>)))))))))))"

subsection \<open>Stopping\<close>

text \<open>
  The registration of a consumer is never undone, but a runner that was stopped ignores every tick,
  so its key is dropped with it.
\<close>

definition stop_scheduler :: "('b, unit) cprog" where
  "stop_scheduler =
     sq (on_platform scheduler_stop) (modify (\<lambda>s. s\<lparr>cn_scheduling := False, cn_consumers := []\<rparr>))"

definition isolated :: "('b, unit) cprog \<Rightarrow> ('b, unit) cprog" where
  "isolated step = catch_if is_exception step (\<lambda>_. ret ())"

definition container_stop :: "'b container_setup \<Rightarrow> ('b, unit) cprog" where
  "container_stop X =
     bnd (asks cn_started) (\<lambda>started.
     if \<not> started then ret ()
     else
       sq (isolated (modify (\<lambda>s. s\<lparr>cn_monitoring := False, cn_monitored := []\<rparr>)))
       (sq (isolated stop_scheduler)
       (sq (isolated (on_world (su_market_stop X)))
       (sq (isolated (on_world (bcall (su_close X))))
           (modify (\<lambda>s. s\<lparr>cn_started := False\<rparr>))))))"

subsection \<open>Running\<close>

definition dispatch_key :: "('b hooks \<Rightarrow> ('b, unit) rprog) \<Rightarrow> string \<Rightarrow> ('b, unit) pprog" where
  "dispatch_key dispatch key s =
     (case map_of (snd s) key of
        None \<Rightarrow> (s, Inr ())
      | Some sch \<Rightarrow>
          (case dispatch (sd_hooks sch) (fst s, sd_runner sch) of
             ((w, r1), res) \<Rightarrow>
               ((w, AList.update key (sch\<lparr>sd_runner := r1\<rparr>) (snd s)),
                if res = Inl ProcessCrash then Inl ProcessCrash else Inr ())))"

datatype container_event =
    CeStart
  | CePass
  | CeHeartbeat
  | CeTick tick
  | CeStop

fun container_do :: "'b container_setup \<Rightarrow> container_event \<Rightarrow> ('b, unit) cprog" where
  "container_do X CeStart = container_start X"
| "container_do X CePass =
     bnd (asks cn_scheduling) (\<lambda>on. do_if on (on_platform (bnd (scheduler_tick (su_trading X)) (\<lambda>_. ret ()))))"
| "container_do X CeHeartbeat =
     bnd (asks (\<lambda>s. if cn_monitoring s then cn_monitored s else [])) (\<lambda>keys.
     on_platform (for_each keys (dispatch_key dispatch_monitor_cycle)))"
| "container_do X (CeTick tk) =
     bnd (asks cn_consumers) (\<lambda>keys.
     on_platform (for_each keys (dispatch_key (\<lambda>h. dispatch_tick h tk))))"
| "container_do X CeStop = container_stop X"

text \<open>When the process dies, the next one starts from a new container on what is durable.\<close>

definition container_step :: "'b container_setup \<Rightarrow> container_event \<Rightarrow> 'b container \<Rightarrow> 'b container" where
  "container_step X e s =
     (case container_do X e s of
        (s', r) \<Rightarrow>
          if r = Inl ProcessCrash then new_container ((cn_world s')\<lparr>w_exit_lock := False\<rparr>) else s')"

definition container_run :: "'b container_setup \<Rightarrow> container_event list \<Rightarrow> 'b container \<Rightarrow> 'b container" where
  "container_run X es s = fold (container_step X) es s"

section \<open>The live platform\<close>

text \<open>
  What \<open>\_\_init\_\_\<close> builds when the Kite broker is selected, on the seams of \<open>start\_live.py\<close>: the Kite
  broker behind the rate limiter, the market data service over it, the factory on top, and no
  position reconciler. Opening the order stream and closing the broker touch the network only and
  are arguments.
\<close>

definition listed_dates :: "pyval list \<Rightarrow> date list" where
  "listed_dates vs = List.map_filter (\<lambda>v. case v of PDate d \<Rightarrow> Some d | _ \<Rightarrow> None) vs"

record ('f, 's) live_parts =
  lv_config :: loaded_config
  lv_kite :: kite_setup
  lv_tokens :: "'f token_store"
  lv_timeout :: "nat option"
  lv_limit :: "nat option"
  lv_market :: md_config
  lv_stream :: "'s tick_stream"
  lv_instruments :: instrument_configs
  lv_holidays :: holidays
  lv_registry :: registry
  lv_class :: "nat \<Rightarrow> ('f kite limited, 's) md strategy_class"
  lv_files :: config_files
  lv_dir :: string
  lv_connect :: "('f kite limited, unit) broker_call"
  lv_close :: "('f kite limited, unit) broker_call"
  lv_trading :: "date \<Rightarrow> bool"

definition live_broker :: "('f, 's) live_parts \<Rightarrow> 'f kite limited broker" where
  "live_broker L = rate_limited (lv_limit L) (kite_broker (lv_kite L) (lv_timeout L))"

definition live_market :: "('f, 's) live_parts \<Rightarrow> ('f kite limited, 's) md_setup" where
  "live_market L =
     \<lparr>ms_config = lv_market L, ms_stream = lv_stream L, ms_broker = live_broker L, ms_consumers = []\<rparr>"

definition live_factory :: "('f, 's) live_parts \<Rightarrow> ('f kite limited, 's) md factory" where
  "live_factory L =
     \<lparr>fa_broker = with_market (live_broker L), fa_gateway = market_gateway (live_market L),
      fa_risk = ld_risk (lv_config L), fa_instruments = lv_instruments L, fa_holidays = lv_holidays L,
      fa_listed = (\<lambda>u ex. lift_md (limited_expiries (lv_limit L)
        (\<lambda>u ex. kite_call_op (bnd (kite_expiries (lv_kite L) (lv_timeout L) u ex) (\<lambda>vs. ret (Some (listed_dates vs)))))
        u ex)),
      fa_mode = ''LIVE'', fa_registry = lv_registry L, fa_class = lv_class L, fa_files = lv_files L,
      fa_dir = lv_dir L\<rparr>"

definition live_container :: "('f, 's) live_parts \<Rightarrow> ('f kite limited, 's) md container_setup" where
  "live_container L =
     \<lparr>su_config = lv_config L, su_factory = live_factory L,
      su_authenticate = lift_md (limited_authenticate (lv_limit L) (kite_call_op (kite_authenticate (lv_kite L) (lv_tokens L)))),
      su_connect = lift_md (lv_connect L), su_close = lift_md (lv_close L), su_reconciler = None,
      su_market_start = md_start (live_market L), su_market_stop = md_stop (live_market L),
      su_trading = lv_trading L\<rparr>"

section \<open>The process (app.py)\<close>

text \<open>\<open>waiting\<close> is all that happens until a shutdown is requested.\<close>

definition app_start :: "'b container_setup \<Rightarrow> broker_name option \<Rightarrow> ('b, unit) cprog" where
  "app_start X expected =
     (if (case expected of None \<Rightarrow> False | Some b \<Rightarrow> bc_active (ld_brokers (su_config X)) \<noteq> b)
      then throw RuntimeError
      else catch_if is_exception (container_start X) (\<lambda>e. sq (container_stop X) (throw e)))"

definition app_run :: "'b container_setup \<Rightarrow> broker_name option \<Rightarrow> ('b, unit) cprog \<Rightarrow> ('b, unit) cprog" where
  "app_run X expected waiting =
     sq (app_start X expected) (finally_act waiting (container_stop X))"

section \<open>The schema guard (migration\_guard.py)\<close>

definition auto_migrate_flag :: "(string \<Rightarrow> string option) \<Rightarrow> bool" where
  "auto_migrate_flag env =
     (lower (strip (case env ''DB_AUTO_MIGRATE'' of None \<Rightarrow> [] | Some v \<Rightarrow> v))
        \<in> set [''1'', ''true'', ''yes'', ''on''])"

text \<open>
  The state is the set of revisions the database is stamped with; what Alembic's \<open>upgrade\<close> makes of
  it is an argument.
\<close>

definition verify_database_is_current ::
    "bool \<Rightarrow> string set \<Rightarrow> (string set \<Rightarrow> string set \<times> (exn + unit)) \<Rightarrow> (string set, unit) act" where
  "verify_database_is_current auto_migrate heads upgrade =
     bnd (asks id) (\<lambda>current.
     if current = heads then ret ()
     else if auto_migrate then
       sq upgrade (bnd (asks id) (\<lambda>current1. if current1 \<noteq> heads then throw RuntimeError else ret ()))
     else throw RuntimeError)"

section \<open>The entry points (start\_live.py, start\_paper.py)\<close>

definition check_live_confirmed :: "(string \<Rightarrow> string option) \<Rightarrow> exn + unit" where
  "check_live_confirmed env =
     (if env ''I_UNDERSTAND_THIS_TRADES_REAL_MONEY'' = Some ''yes'' then Inr () else Inl RuntimeError)"

record 'b entry_setup =
  en_env :: "string \<Rightarrow> string option"
  en_heads :: "string set"
  en_upgrade :: "string set \<Rightarrow> string set \<times> (exn + unit)"
  en_container :: "exn + 'b container_setup"
  en_waiting :: "('b, unit) cprog"

type_synonym 'b machine = "string set \<times> 'b container"

definition on_schema :: "(string set, 'a) act \<Rightarrow> ('b machine, 'a) act" where
  "on_schema m s = (case m (fst s) of (x, r) \<Rightarrow> ((x, snd s), r))"

definition on_container :: "('b, 'a) cprog \<Rightarrow> ('b machine, 'a) act" where
  "on_container m s = (case m (snd s) of (x, r) \<Rightarrow> ((fst s, x), r))"

definition guard_database_schema :: "'b entry_setup \<Rightarrow> ('b machine, unit) act" where
  "guard_database_schema E =
     on_schema (verify_database_is_current (auto_migrate_flag (en_env E)) (en_heads E) (en_upgrade E))"

definition run_application :: "'b entry_setup \<Rightarrow> broker_name \<Rightarrow> 'b container_setup \<Rightarrow> ('b machine, nat) act" where
  "run_application E expected X =
     catch_if is_exception (sq (on_container (app_run X (Some expected) (en_waiting E))) (ret 0)) (\<lambda>_. ret 1)"

definition live_main :: "'b entry_setup \<Rightarrow> ('b machine, nat) act" where
  "live_main E =
     bnd (catch_if is_exception
            (sq (lift_sum (check_live_confirmed (en_env E)))
            (sq (guard_database_schema E)
            (bnd (lift_sum (en_container E)) (\<lambda>X. ret (Some X))))) (\<lambda>_. ret None)) (\<lambda>c.
     case c of None \<Rightarrow> ret 1 | Some X \<Rightarrow> run_application E KITE X)"

definition paper_main :: "'b entry_setup \<Rightarrow> ('b machine, nat) act" where
  "paper_main E =
     bnd (catch_if is_exception
            (sq (guard_database_schema E) (bnd (lift_sum (en_container E)) (\<lambda>X. ret (Some X))))
            (\<lambda>_. ret None)) (\<lambda>c.
     case c of None \<Rightarrow> ret 1 | Some X \<Rightarrow> run_application E SIMULATION X)"

section \<open>The operator's command (instance\_admin.py)\<close>

datatype admin_command =
    AdList
  | AdUnfreeze nat string string

fun instance_status_value :: "instance_status \<Rightarrow> string" where
  "instance_status_value IS_ACTIVE = ''ACTIVE''"
| "instance_status_value IS_FROZEN = ''FROZEN''"
| "instance_status_value IS_DISABLED = ''DISABLED''"

definition instance_line :: "nat \<times> instance_row \<Rightarrow> string" where
  "instance_line x =
     ''  id='' @ nat_digits (fst x) @ '' '' @ si_strategy (snd x) @ ''/'' @ si_instrument (snd x) @
     ''@account='' @ nat_digits (si_account (snd x)) @ '' status='' @ instance_status_value (si_status (snd x))"

definition unfreeze_body :: "nat \<Rightarrow> string \<Rightarrow> string \<Rightarrow> (string list \<times> nat) tx" where
  "unfreeze_body iid reason who =
     bnd (get_row d_instances iid) (\<lambda>row.
     case row of
       None \<Rightarrow> ret ([''error: no StrategyInstance with id='' @ nat_digits iid], 1)
     | Some r \<Rightarrow>
         (let name = ''instance '' @ nat_digits iid @ '' ('' @ si_strategy r @ ''/'' @ si_instrument r @ '') ''
          in if si_status r \<noteq> IS_FROZEN
             then ret ([name @ ''is '' @ instance_status_value (si_status r) @ '', not FROZEN -- no change.''], 0)
             else sq (set_status iid IS_ACTIVE)
                    (ret ([name @ ''reset FROZEN -> ACTIVE by '' @ who @ '': '' @ reason], 0))))"

fun admin_run :: "admin_command \<Rightarrow> ('b, string list \<times> nat) prog" where
  "admin_run AdList =
     bnd (read_session (\<lambda>d. sort_key fst (list_active_instances d @ list_frozen d))) (\<lambda>rows.
     if rows = [] then ret ([''No ACTIVE or FROZEN strategy instances found.''], 0)
     else ret (map instance_line rows, 0))"
| "admin_run (AdUnfreeze iid reason who) = unit_of_work (unfreeze_body iid reason who)"

definition admin_main :: "admin_command \<Rightarrow> ('b, string list \<times> nat) prog" where
  "admin_main c = catch_if is_exception (admin_run c) (\<lambda>_. ret ([''error''], 1))"

end
