(* ===== verification/Container_Proofs.thy ===== *)
theory Container_Proofs
  imports Container Recon_Proofs Scheduler_Proofs Risk_Proofs Market_Proofs
begin

text \<open>
  Properties of the whole platform: what every part keeps survives starts, passes, heartbeats, ticks,
  stops and crashes of all instances together; a restart finds the same instances and a frozen one
  stays frozen; nothing is armed before the broker answered; and the gates of the entry points hold.
\<close>

section \<open>Facts about instances that nothing but the operator undoes\<close>

definition frozen :: "nat \<Rightarrow> db \<Rightarrow> bool" where
  "frozen iid d \<longleftrightarrow> (case t_get (d_instances d) iid of None \<Rightarrow> False | Some r \<Rightarrow> si_status r = IS_FROZEN)"

definition instance_is :: "string \<Rightarrow> string \<Rightarrow> nat \<Rightarrow> nat \<Rightarrow> db \<Rightarrow> bool" where
  "instance_is strategy instrument account iid d \<longleftrightarrow>
     map_option fst (instance_by_key strategy instrument account d) = Some iid"

lemma instances_of_apply_env [simp]: "d_instances (apply_env e tm d) = d_instances d"
proof (cases e)
  case (EvPush bo)
  then show ?thesis using push_orders_only [of bo tm d] by auto
next
  case (EvPosition row)
  then show ?thesis by (auto simp: position_get_or_create_def get_or_create_def split: option.split)
next
  case (EvManualClose pid)
  then show ?thesis
    by (cases "t_get (d_positions d) pid")
      (simp_all add: sm_transition_missing sm_transition_run transition_state_run)
qed simp_all

lemma instances_of_sm_transition [simp]:
  "d_instances (fst (sm_transition pid st ac reason d)) = d_instances d"
  by (cases "t_get (d_positions d) pid")
    (simp_all add: sm_transition_missing sm_transition_run transition_state_run)

lemma frozen_same: "d_instances d' = d_instances d \<Longrightarrow> frozen iid d \<Longrightarrow> frozen iid d'"
  by (simp add: frozen_def)

lemma instance_is_same:
  "d_instances d' = d_instances d \<Longrightarrow> instance_is st ins ac iid d \<Longrightarrow> instance_is st ins ac iid d'"
  by (simp add: instance_is_def instance_by_key_def)

interpretation frozen_inv: tx_invariant "frozen iid" for iid
proof
  fix d nid nr nq
  assume "frozen iid d" "t_get (d_instances d) nid = Some nr" "instance_le nr nq"
  then show "frozen iid (d\<lparr>d_instances := t_put (d_instances d) nid nq\<rparr>)"
    by (auto simp: frozen_def t_get_put instance_le_def split: option.splits)
next
  fix d nrow assume "frozen iid d"
  then show "frozen iid (d\<lparr>d_instances := t_add (d_instances d) nrow\<rparr>)"
    by (auto simp: frozen_def t_get_add split: option.splits)
qed (erule frozen_same [rotated], simp)+

lemma find_put_key:
  "t_get t i = Some r \<Longrightarrow> P q = P r \<Longrightarrow> map_option fst (t_find P (t_put t i q)) = map_option fst (t_find P t)"
  by (induction t i q rule: t_put.induct) auto

lemma t_find_append: "t_find P (t @ u) = (case t_find P t of None \<Rightarrow> t_find P u | Some x \<Rightarrow> Some x)"
  by (induction P t rule: t_find.induct) auto

lemma find_add_key: "map_option fst (t_find P t) = Some i \<Longrightarrow> map_option fst (t_find P (t_add t r)) = Some i"
  by (auto simp: t_add_def t_find_append)

interpretation instance_inv: tx_invariant "instance_is st ins ac iid" for st ins ac iid
proof
  fix d nid nr nq
  assume "instance_is st ins ac iid d" "t_get (d_instances d) nid = Some nr" "instance_le nr nq"
  then show "instance_is st ins ac iid (d\<lparr>d_instances := t_put (d_instances d) nid nq\<rparr>)"
    by (simp add: instance_is_def instance_by_key_def find_put_key instance_le_def)
next
  fix d nrow assume "instance_is st ins ac iid d"
  then show "instance_is st ins ac iid (d\<lparr>d_instances := t_add (d_instances d) nrow\<rparr>)"
    unfolding instance_is_def instance_by_key_def by (simp add: find_add_key del: map_option_eq_Some)
qed (erule instance_is_same [rotated], simp)+

section \<open>Invariants of the world through the platform\<close>

definition good_hooks :: "('b world \<Rightarrow> bool) \<Rightarrow> 'b hooks \<Rightarrow> bool" where
  "good_hooks W h \<longleftrightarrow> (\<forall>e. keeps (\<lambda>s. W (fst s)) (run_dispatch h e))"

definition good_platform :: "('b world \<Rightarrow> bool) \<Rightarrow> 'b world \<times> 'b platform \<Rightarrow> bool" where
  "good_platform W s \<longleftrightarrow> W (fst s) \<and> (\<forall>x \<in> set (snd s). good_hooks W (sd_hooks (snd x)))"

definition good_container :: "('b world \<Rightarrow> bool) \<Rightarrow> 'b container \<Rightarrow> bool" where
  "good_container W s \<longleftrightarrow> good_platform W (cn_world s, cn_platform s)"

lemma good_dispatch:
  assumes "good_hooks W h" "W w" "run_dispatch h e (w, r) = ((w', r'), res)"
  shows "W w'"
  using keepsD [of "\<lambda>s. W (fst s)" "run_dispatch h e" "(w, r)" "(w', r')" res] assms
  by (simp add: good_hooks_def)

lemma mem_update: "x \<in> set (AList.update k v xs) \<Longrightarrow> x = (k, v) \<or> x \<in> set xs"
  by (induction xs) (auto split: if_splits)

lemma set_delete: "x \<in> set (AList.delete k xs) \<Longrightarrow> x \<in> set xs"
  by (auto simp: AList.delete_eq)

lemma map_of_good:
  "good_platform W (w, p) \<Longrightarrow> map_of p k = Some sch \<Longrightarrow> W w \<and> good_hooks W (sd_hooks sch)"
  by (force simp: good_platform_def dest: map_of_SomeD)

lemma seed_hooks [simp]: "sd_hooks (seed_missed_triggers trading t s) = sd_hooks s"
  by (simp add: seed_missed_triggers_def)

lemma good_register:
  assumes "good_hooks W h"
  shows "keeps (good_platform W) (platform_register trading k h r)"
  unfolding keeps_def
proof (intro allI impI)
  fix s assume g: "good_platform W s"
  obtain w1 r1 res where run: "runner_start h (fst s, r) = ((w1, r1), res)" by (metis prod.exhaust)
  then have "W w1" using good_dispatch [OF assms, of "fst s" DStart r w1 r1 res] g by (simp add: good_platform_def)
  then show "good_platform W (fst (platform_register trading k h r s))"
    using g assms by (auto simp: platform_register_def run good_platform_def dest!: mem_update split: sum.split)
qed

lemma good_dispatch_key:
  assumes "\<And>h. dispatch h = run_dispatch h e"
  shows "keeps (good_platform W) (dispatch_key dispatch k)"
  unfolding keeps_def
proof (intro allI impI)
  fix s assume g: "good_platform W s"
  show "good_platform W (fst (dispatch_key dispatch k s))"
  proof (cases "map_of (snd s) k")
    case None
    then show ?thesis using g by (simp add: dispatch_key_def)
  next
    case (Some sch)
    obtain w1 r1 res where run: "run_dispatch (sd_hooks sch) e (fst s, sd_runner sch) = ((w1, r1), res)"
      by (metis prod.exhaust)
    have h: "W (fst s)" "good_hooks W (sd_hooks sch)" using map_of_good [of W "fst s" "snd s"] g Some by auto
    have "W w1" by (rule good_dispatch [OF h(2,1) run])
    then show ?thesis using g h
      by (auto simp: dispatch_key_def Some assms run good_platform_def dest!: mem_update)
  qed
qed

lemma dispatch_one_key: "dispatch_one x = dispatch_key (\<lambda>h. dispatch_time_trigger h (snd x)) (fst x)"
  by (simp add: fun_eq_iff dispatch_one_def dispatch_key_def)

lemma good_mark: "good_platform W (w, fold (mark_fired td) xs p) = good_platform W (w, p)"
proof (induction xs arbitrary: p)
  case (Cons x xs)
  have "good_platform W (w, mark_fired td x p) = good_platform W (w, p)"
    unfolding good_platform_def mark_fired_def snd_conv set_map ball_simps by (simp add: split_beta)
  then show ?case using Cons by simp
qed simp

lemma good_tick: "keeps (good_platform W) (scheduler_tick trading)"
  unfolding keeps_def
proof (intro allI impI)
  fix s assume g: "good_platform W s"
  let ?due = "due_triggers trading (w_now (fst s)) (snd s)"
  let ?p = "fold (mark_fired (ist_date (w_now (fst s)))) ?due (snd s)"
  have "good_platform W (fst s, ?p)" using g by (simp add: good_mark)
  moreover have "keeps (good_platform W) (bnd (for_each ?due dispatch_one) (\<lambda>_. ret ?due))"
    unfolding dispatch_one_key
    by (intro keeps_bnd keeps_for_each keeps_ret good_dispatch_key [where e = "DTrigger n" for n]) simp
  ultimately show "good_platform W (fst (scheduler_tick trading s))"
    by (simp add: scheduler_tick_def Let_def keeps_def)
qed

lemma good_stop_all: "good_platform W (w, p) \<Longrightarrow> W (stop_all p w)"
proof (induction p w rule: stop_all.induct)
  case (2 k s ss w)
  obtain w1 r1 res where run: "runner_stop (sd_hooks s) (w, sd_runner s) = ((w1, r1), res)" by (metis prod.exhaust)
  have "W w1" using good_dispatch [of W "sd_hooks s" w DStop] 2(2) run by (simp add: good_platform_def)
  then show ?case using 2(1) [OF run [symmetric] refl] 2(2) run by (simp add: good_platform_def)
qed (simp add: good_platform_def)

lemma good_scheduler_stop: "keeps (good_platform W) scheduler_stop"
  by (simp add: keeps_def scheduler_stop_def good_platform_def good_stop_all [unfolded good_platform_def])

subsection \<open>The container\<close>

lemma good_on_platform: "keeps (good_platform W) m \<Longrightarrow> keeps (good_container W) (on_platform m)"
  by (simp add: keeps_def good_container_def on_platform_def split_beta)

lemma good_on_world: "keeps W m \<Longrightarrow> keeps (good_container W) (on_world m)"
  by (simp add: keeps_def good_container_def good_platform_def on_world_def split_beta)

lemma good_modify:
  "(\<And>s. cn_world (f s) = cn_world s) \<Longrightarrow> (\<And>s. cn_platform (f s) = cn_platform s) \<Longrightarrow>
   keeps (good_container W) (modify f)"
  by (rule keeps_modify) (simp add: good_container_def)

lemma hoare_on_world:
  assumes "hoare W m (\<lambda>x w. W w \<and> Q x) (\<lambda>_. W)"
  shows "hoare (good_container W) (on_world m) (\<lambda>x s. good_container W s \<and> Q x) (\<lambda>_. good_container W)"
proof (rule hoareI)
  fix s s' x assume g: "good_container W s" and run: "on_world m s = (s', Inr x)"
  obtain w where w: "m (cn_world s) = (w, Inr x)" "s' = s\<lparr>cn_world := w\<rparr>"
    using run by (auto simp: on_world_def split: prod.splits)
  then show "good_container W s' \<and> Q x"
    using hoareD1 [OF assms _ w(1)] g by (simp add: good_container_def good_platform_def)
next
  fix s s' e assume g: "good_container W s" and run: "on_world m s = (s', Inl e)"
  obtain w where w: "m (cn_world s) = (w, Inl e)" "s' = s\<lparr>cn_world := w\<rparr>"
    using run by (auto simp: on_world_def split: prod.splits)
  then show "good_container W s'"
    using hoareD2 [OF assms _ w(1)] g by (simp add: good_container_def good_platform_def)
qed

lemma hoare_keeps_pre: "(Q \<Longrightarrow> keeps I m) \<Longrightarrow> hoare (\<lambda>s. I s \<and> Q) m (\<lambda>_. I) (\<lambda>_. I)"
  by (cases Q) (auto simp: hoare_def keeps_hoare)

lemma hoare_pure: "(Q \<Longrightarrow> hoare P m R E) \<Longrightarrow> hoare (\<lambda>s. P s \<and> Q) m R E"
  by (cases Q) (auto simp: hoare_def)

lemma hoare_weaken: "keeps I m \<Longrightarrow> hoare I m (\<lambda>_. I) (\<lambda>_. I)"
  by (simp add: keeps_hoare)

lemma hoare_map_act:
  assumes "\<And>x. hoare W (f x) (\<lambda>y w. W w \<and> Q y) (\<lambda>_. W)"
  shows "hoare W (map_act f xs) (\<lambda>ys w. W w \<and> list_all Q ys) (\<lambda>_. W)"
proof (induction xs)
  case Nil
  then show ?case by (simp add: hoare_def ret_def)
next
  case (Cons x xs)
  have "hoare (\<lambda>w. W w \<and> Q y) (bnd (map_act f xs) (\<lambda>ys. ret (y # ys)))
      (\<lambda>ys w. W w \<and> list_all Q ys) (\<lambda>_. W)" for y
    by (rule hoare_pure, rule hoare_bnd [OF Cons], rule hoare_ret', simp)
  then have "hoare W (bnd (f x) (\<lambda>y. bnd (map_act f xs) (\<lambda>ys. ret (y # ys))))
      (\<lambda>ys w. W w \<and> list_all Q ys) (\<lambda>_. W)"
    by (rule hoare_bnd [OF assms])
  then show ?case by simp
qed

text \<open>What the platform is made of keeps the invariant.\<close>

definition parts_keep :: "('b world \<Rightarrow> bool) \<Rightarrow> 'b container_setup \<Rightarrow> bool" where
  "parts_keep W X \<longleftrightarrow>
     (\<forall>w. W w \<longrightarrow> W (w\<lparr>w_exit_lock := False\<rparr>)) \<and> keeps W (check_broker X) \<and>
     (\<forall>specs. keeps W (ensure_accounts specs)) \<and>
     (\<forall>st ins ac ex. keeps W (ensure_instance_row st ins ac ex)) \<and>
     (\<forall>cls who config. good_hooks W
        (sk_new (fa_class (su_factory X) cls) (build_context (su_factory X) who config) (fa_gateway (su_factory X)))) \<and>
     keeps W (reconcile (fa_broker (su_factory X)) (su_reconciler X)) \<and>
     keeps W (bcall (su_connect X)) \<and> keeps W (bcall (su_close X)) \<and>
     keeps W (su_market_start X) \<and> keeps W (su_market_stop X)"

lemma built_hooks:
  assumes "parts_keep W X"
  shows "hoare W (build_instance (su_factory X) ids spec) (\<lambda>h w. W w \<and> good_hooks W h) (\<lambda>_. W)"
proof -
  have e: "hoare W (ensure_instance_row st ins ac ex) (\<lambda>_. W) (\<lambda>_. W)" for st ins ac ex
    using assms by (intro hoare_weaken) (simp add: parts_keep_def)
  show ?thesis unfolding build_instance_def build_runner_def Let_def
    by (rule hoare_bnd hoare_weaken [OF keeps_lift_sum] e)+
      (rule hoare_ret', use assms in \<open>simp add: parts_keep_def\<close>)
qed

lemma good_start:
  assumes "parts_keep W X"
  shows "keeps (good_container W) (container_start X)"
proof -
  have reg: "keeps (good_container W) (for_each runners (register_instance X))" if "list_all (good_hooks W) runners" for runners
    using that
  proof (induction runners)
    case (Cons h hs)
    have "keeps (good_container W) (register_instance X h)"
      unfolding register_instance_def Let_def
      by (intro keeps_sq good_on_platform good_register good_modify) (use Cons.prems in simp_all)
    then show ?case using Cons by (simp add: keeps_sq)
  qed (simp add: keeps_ret)
  have tail: "keeps (good_container W)
      (sq (modify (\<lambda>s. s\<lparr>cn_runners := map (\<lambda>h. identity_str (hk_identity h)) runners\<rparr>))
       (bnd (on_world (reconcile (fa_broker (su_factory X)) (su_reconciler X))) (\<lambda>report.
        sq (on_world (catch_if is_broker_error (bcall (su_connect X)) (\<lambda>_. ret ())))
       (sq (on_world (su_market_start X))
       (sq (for_each runners (register_instance X))
           (modify (\<lambda>s. s\<lparr>cn_scheduling := True, cn_monitoring := True, cn_started := True\<rparr>)))))))"
    if "list_all (good_hooks W) runners" for runners
    using assms
    by (intro keeps_sq keeps_bnd good_on_world keeps_catch_if keeps_ret good_modify reg that)
      (simp_all add: parts_keep_def)
  have build: "keeps (good_container W)
      (bnd (on_world (map_act (build_instance (su_factory X) ids) specs)) (\<lambda>runners.
        sq (modify (\<lambda>s. s\<lparr>cn_runners := map (\<lambda>h. identity_str (hk_identity h)) runners\<rparr>))
       (bnd (on_world (reconcile (fa_broker (su_factory X)) (su_reconciler X))) (\<lambda>report.
        sq (on_world (catch_if is_broker_error (bcall (su_connect X)) (\<lambda>_. ret ())))
       (sq (on_world (su_market_start X))
       (sq (for_each runners (register_instance X))
           (modify (\<lambda>s. s\<lparr>cn_scheduling := True, cn_monitoring := True, cn_started := True\<rparr>))))))))" for ids specs
    unfolding keeps_hoare
    by (rule hoare_bnd [OF hoare_on_world [OF hoare_map_act [OF built_hooks [OF assms]]]])
      (rule hoare_keeps_pre, rule tail)
  show ?thesis unfolding container_start_def using assms
    by (intro keeps_sq keeps_bnd keeps_if keeps_ret keeps_asks good_on_world good_modify build)
      (simp_all add: parts_keep_def)
qed

lemma good_stop: "parts_keep W X \<Longrightarrow> keeps (good_container W) (container_stop X)"
  unfolding container_stop_def isolated_def stop_scheduler_def
  by (intro keeps_sq keeps_bnd keeps_if keeps_ret keeps_asks keeps_catch_if good_on_world good_on_platform
      good_scheduler_stop good_modify) (simp_all add: parts_keep_def)

lemma good_do: "parts_keep W X \<Longrightarrow> keeps (good_container W) (container_do X e)"
proof (cases e)
  case (CeTick tk)
  assume "parts_keep W X"
  then show ?thesis unfolding CeTick container_do.simps
    by (intro keeps_bnd keeps_asks good_on_platform keeps_for_each good_dispatch_key [where e = "DTick tk"]) simp
next
  case CeHeartbeat
  assume "parts_keep W X"
  then show ?thesis unfolding CeHeartbeat container_do.simps
    by (intro keeps_bnd keeps_asks good_on_platform keeps_for_each good_dispatch_key [where e = DCycle]) simp
next
  case CePass
  then show ?thesis unfolding CePass container_do.simps
    by (intro keeps_bnd keeps_asks keeps_do_if good_on_platform good_tick keeps_ret)
qed (simp_all add: good_start good_stop)

lemma good_run:
  assumes "parts_keep W X"
  shows "good_container W s \<Longrightarrow> good_container W (container_run X es s)"
  unfolding container_run_def
proof (induction es arbitrary: s)
  case (Cons e es)
  obtain s' r where run: "container_do X e s = (s', r)" by (metis prod.exhaust)
  have "good_container W s'" using keepsD [OF good_do [OF assms] Cons.prems run] .
  moreover have "good_container W (new_container ((cn_world s')\<lparr>w_exit_lock := False\<rparr>))" if "good_container W s'"
    using that assms by (simp add: good_container_def good_platform_def new_container_def parts_keep_def)
  ultimately have "good_container W (container_step X e s)" by (simp add: container_step_def run)
  then show ?case using Cons.IH by simp
qed simp

lemma platform_run:
  "parts_keep W X \<Longrightarrow> W w \<Longrightarrow> W (cn_world (container_run X es (new_container w)))"
  using good_run [of W X "new_container w" es] by (simp add: good_container_def good_platform_def new_container_def)

section \<open>The services of the platform keep what the strategy keeps\<close>

lemmas check_defs = check_trading_hours_def check_strategy_state_def check_kill_switch_def
  check_emergency_stop_def check_daily_loss_limit_def check_duplicate_position_def
  check_max_daily_entries_def check_broker_connectivity_def check_available_margin_def

definition only_strategy1 :: "'b factory \<Rightarrow> bool" where
  "only_strategy1 F \<longleftrightarrow> (\<forall>cls. \<exists>parse. fa_class F cls = strategy1_class parse)"

lemma strategy1_good:
  assumes "only_strategy1 F" "\<And>who config. drives W (build_context F who config) (fa_gateway F)"
  shows "good_hooks W (sk_new (fa_class F cls) (build_context F who config) (fa_gateway F))"
proof -
  obtain parse where "fa_class F cls = strategy1_class parse" using assms(1) unfolding only_strategy1_def by blast
  then show ?thesis using d_dispatch [OF assms(2)] by (simp add: good_hooks_def strategy1_class_def)
qed

context tx_invariant
begin

lemma p_persist: "keeps (on_db I) (persist_daily_risk a td limit f)"
  unfolding persist_daily_risk_def persist_body_def
  by (intro keeps_intro keeps_world keeps_unit_of_work keeps_get_row tx_keeps)

lemma p_checks: "(name, f) \<in> set (entry_checks R who q) \<Longrightarrow> keeps (on_db I) f"
  unfolding entry_checks_def check_defs
  by (auto intro!: keeps_bnd keeps_sq keeps_if keeps_ret keeps_option keeps_catch_if keeps_world p_persist
      split: option.split bool.split)

lemma p_context:
  fixes F :: "'b factory"
  shows "ctx_keeps (on_db I) (build_context F who config)"
proof -
  have "keeps (on_db I) (is_halted who :: ('b, bool) prog)" unfolding is_halted_def by (intro keeps_intro keeps_world)
  moreover have "keeps (on_db I) (approve_entry R who n)" for R :: "'b risk_core" and n
    unfolding approve_entry_def validate_entry_def by (intro keeps_bnd keeps_ret keeps_run_checks p_checks)
  moreover have "keeps (on_db I) (factory_expiry F ins as_of)" for ins as_of
    unfolding factory_expiry_def Let_def by (intro keeps_intro keeps_world)
  moreover have "keeps (on_db I) (broker_spot_ltp B r ins)" for B :: "'b broker" and r ins
    unfolding broker_spot_ltp_def Let_def by (intro keeps_intro keeps_world)
  moreover have "keeps (on_db I) (record_closed_position mode pid :: ('b, unit) prog)" for mode pid
    unfolding record_closed_position_def record_body_def
    by (intro keeps_intro keeps_unit_of_work keeps_get_row tx_keeps)
  ultimately show ?thesis by (simp add: ctx_keeps_def build_context_def)
qed

lemma p_parts:
  fixes X :: "'b container_setup"
  assumes "hooks_keep I (su_reconciler X)" "only_strategy1 (su_factory X)"
    "gateway_keeps (on_db I) (fa_gateway (su_factory X))"
    "keeps (on_db I) (su_market_start X)" "keeps (on_db I) (su_market_stop X)"
  shows "parts_keep (on_db I) X"
proof -
  have "keeps (on_db I) (check_broker X)" unfolding check_broker_def by (intro keeps_intro keeps_world)
  moreover have "keeps (on_db I) (ensure_accounts specs :: ('b, (string \<times> nat) list) prog)" for specs
    unfolding ensure_accounts_def ensure_account_def by (intro keeps_intro keeps_unit_of_work tx_keeps)
  moreover have "keeps (on_db I) (ensure_instance_row st ins ac ex :: ('b, nat) prog)" for st ins ac ex
    unfolding ensure_instance_row_def by (intro keeps_intro keeps_unit_of_work tx_keeps)
  ultimately show ?thesis
    using strategy1_good [OF assms(2) drives_db [OF p_context assms(3)]] x_reconcile [OF assms(1)]
      keeps_bcall [of "su_connect X"] keeps_bcall [of "su_close X"] assms(4,5)
    by (simp add: parts_keep_def on_db_def [of I])
qed

end

context broker_book
begin

lemma q_read: "keeps intent_first (read_session (f :: db \<Rightarrow> 'a))"
  by (rule keeps_first_read)

lemma q_persist: "keeps intent_first (persist_daily_risk a td limit f)"
  unfolding persist_daily_risk_def persist_body_def
  by (intro keeps_bnd keeps_catch_if keeps_ret f_uow keeps_prod keeps_sq keeps_if keeps_option keeps_get_row
      keeps_first_time grow_inv.tx_keeps)

lemma q_checks:
  assumes r: "rr_broker R = B" and f: "(name, f) \<in> set (entry_checks R who q)"
  shows "keeps intent_first f"
proof -
  have q: "quiet_call (bk_health (rr_broker R))" "quiet_call (bk_margins (rr_broker R))"
    by (simp_all add: r quiet_calls)
  have "(name, f) \<in> set (entry_checks R who q) \<Longrightarrow> keeps intent_first f"
    unfolding entry_checks_def check_defs
    by (auto intro!: keeps_bnd keeps_sq keeps_if keeps_ret keeps_option keeps_catch_if
        keeps_first_time q_read q_persist keeps_quiet_call q split: option.split bool.split)
  then show ?thesis using f .
qed

lemma q_context:
  assumes "fa_broker F = B" "\<And>u ex. quiet_call (fa_listed F u ex)"
  shows "ctx_keeps intent_first (build_context F who config)"
proof -
  have "keeps intent_first (is_halted who)" unfolding is_halted_def by (intro keeps_bnd keeps_ret q_read)
  moreover have "keeps intent_first (approve_entry R who n)" if "rr_broker R = B" for R n
    unfolding approve_entry_def validate_entry_def by (intro keeps_bnd keeps_ret keeps_run_checks q_checks [OF that])
  moreover have "keeps intent_first (factory_expiry F ins as_of)" for ins as_of
    unfolding factory_expiry_def Let_def by (intro keeps_intro keeps_quiet_call assms)
  moreover have "keeps intent_first (broker_spot_ltp B r ins)" for r ins
    unfolding broker_spot_ltp_def Let_def by (intro keeps_intro keeps_quiet_call quiet_calls)
  moreover have "keeps intent_first (record_closed_position mode pid)" for mode pid
    unfolding record_closed_position_def record_body_def
    by (intro keeps_catch_if keeps_sq keeps_ret f_uow keeps_intro keeps_get_row grow_inv.tx_keeps)
  ultimately show ?thesis by (simp add: ctx_keeps_def build_context_def assms(1))
qed

lemma q_parts:
  assumes "fa_broker (su_factory X) = B" "\<And>u ex. quiet_call (fa_listed (su_factory X) u ex)"
    "quiet_call (su_authenticate X)" "quiet_call (su_connect X)" "quiet_call (su_close X)"
    "\<And>d0. hooks_keep (intents_grow d0) (su_reconciler X)" "only_strategy1 (su_factory X)"
    "gateway_keeps intent_first (fa_gateway (su_factory X))"
    "keeps intent_first (su_market_start X)" "keeps intent_first (su_market_stop X)"
  shows "parts_keep intent_first X"
proof -
  have "keeps intent_first (check_broker X)"
    unfolding check_broker_def by (intro keeps_intro keeps_quiet_call assms) (simp add: assms(1) quiet_calls)
  moreover have "keeps intent_first (ensure_accounts specs :: ('b, (string \<times> nat) list) prog)" for specs
    unfolding ensure_accounts_def ensure_account_def by (intro f_uow keeps_intro grow_inv.tx_keeps)
  moreover have "keeps intent_first (ensure_instance_row st ins ac ex :: ('b, nat) prog)" for st ins ac ex
    unfolding ensure_instance_row_def by (intro f_uow keeps_intro grow_inv.tx_keeps)
  moreover have "keeps intent_first (reconcile B (su_reconciler X))"
    unfolding reconcile_def reconcile_intents_def reconcile_one_intent_def detect_orphans_def
      reconcile_positions_def reconcile_one_position_def Let_def
    by (intro keeps_bnd keeps_catch_if keeps_ret keeps_option keeps_map_act keeps_quiet_call quiet_calls
        keeps_first_time f_uow keeps_asks grow_inv.x_intent_body grow_inv.x_orphans grow_inv.x_position_body assms)
  ultimately show ?thesis
    using strategy1_good [OF assms(7) drives_book [OF _ q_context [OF assms(1,2)] assms(8)]] assms
    by (simp add: parts_keep_def keeps_quiet_call build_context_def intent_first_def)
qed

end

section \<open>Many instances, one platform\<close>

lemma sent_token: "keeps (same_sent B) (set_client_token t)"
  by (simp add: set_client_token_def keeps_def same_sent_def modify_def sent_tags_def map_filter_def)

lemma sent_login: "keeps (same_sent B) (kite_authenticate P T)"
  unfolding kite_authenticate_def activate_def invalidate_def
  by (intro keeps_intro sent_client_call sent_modify sent_token) simp_all

lemma sent_expiries: "keeps (same_sent B) (kite_expiries P timeout u ex)"
  unfolding kite_expiries_def by (intro keeps_intro sent_rows)

definition sends_nothing :: "('f kite limited, unit) broker_call \<Rightarrow> bool" where
  "sends_nothing f \<longleftrightarrow> (\<forall>t k. sent_tags (kt_log (li_inner (fst (f t k)))) = sent_tags (kt_log (li_inner k)))"

definition runs_strategy1 :: "('f, 's) live_parts \<Rightarrow> bool" where
  "runs_strategy1 L \<longleftrightarrow> (\<forall>cls. \<exists>parse. lv_class L cls = strategy1_class parse)"

lemma live_only_strategy1: "runs_strategy1 L \<Longrightarrow> only_strategy1 (su_factory (live_container L))"
  by (simp add: runs_strategy1_def only_strategy1_def live_container_def live_factory_def)

lemma quiet_lifted:
  fixes f :: "('f kite limited, 'a) broker_call"
  assumes "\<And>t b. sent_tags (kt_log (li_inner (fst (f t b)))) = sent_tags (kt_log (li_inner b))"
  shows "broker_book.quiet_call (\<lambda>m. kite_book (li_inner (md_broker m))) (lift_md f)"
proof -
  have "kite_book (li_inner (fst (f t b))) = kite_book (li_inner b)" for t b
    using assms by (simp add: kite_book_def)
  then show ?thesis
    by (subst broker_book.quiet_call_def [OF full_stack.broker_book_axioms]) (simp add: lift_md_def split_beta)
qed

lemma quiet_limited:
  assumes "\<And>B. keeps (same_sent B) f"
  shows "sent_tags (kt_log (li_inner (fst (limited_call m limit (kite_call_op f) t b)))) = sent_tags (kt_log (li_inner b))"
proof -
  obtain s' n ps r where run: "limited_call m limit (kite_call_op f) t b = (s', n, ps, r)" by (metis prod_cases4)
  have "kite_book (li_inner s') = kite_book (li_inner b)"
    using limited_call_inner [OF run] book_of_op [OF assms] by fastforce
  then have "sent_tags (kt_log (li_inner s')) = sent_tags (kt_log (li_inner b))"
    by (simp add: kite_book_def inj_map_eq_map inj_def)
  then show ?thesis by (simp add: run)
qed

lemma live_parts_announced:
  assumes "runs_strategy1 L" "sends_nothing (lv_connect L)" "sends_nothing (lv_close L)"
  shows "parts_keep stack_announced (live_container L)"
proof -
  have gw: "gateway_keeps stack_announced (market_gateway (live_market L))"
    by (rule market_gateway_keeps [OF stack_market_free stack_poller_keeps])
      (simp_all add: live_market_def live_broker_def)
  have op: "keeps stack_announced (stream_op f)" for f :: "'s \<Rightarrow> 's \<times> (exn + unit)"
    by (rule free_stream_op [OF stack_market_free])
  have login: "sent_tags (kt_log (li_inner (fst (limited_call m (lv_limit L)
      (kite_call_op (kite_authenticate (lv_kite L) (lv_tokens L))) t b)))) = sent_tags (kt_log (li_inner b))" for m t b
    by (rule quiet_limited) (rule sent_login)
  have listed: "sent_tags (kt_log (li_inner (fst (limited_call m (lv_limit L)
      (kite_call_op (bnd (kite_expiries (lv_kite L) (lv_timeout L) u ex) (\<lambda>vs. ret (Some (listed_dates vs))))) t b)))) =
      sent_tags (kt_log (li_inner b))" for m t b u ex
    by (rule quiet_limited) (intro keeps_bnd keeps_ret sent_expiries)
  show ?thesis
    unfolding stack_announced_first
  proof (rule broker_book.q_parts [OF full_stack.broker_book_axioms])
    show "fa_broker (su_factory (live_container L)) =
        with_market (rate_limited (lv_limit L) (kite_broker (lv_kite L) (lv_timeout L)))"
      by (simp add: live_container_def live_factory_def live_broker_def)
  qed (use gw op [unfolded stack_announced_first] assms in
    \<open>simp_all add: live_container_def live_factory_def limited_expiries_def limited_authenticate_def
       stack_announced_first md_start_def md_stop_def hooks_keep_def runs_strategy1_def only_strategy1_def
       sends_nothing_def quiet_lifted login listed\<close>)
qed

text \<open>
  C3: the whole live platform - every configured instance with its monitor and risk checks, both
  schedulers, start-up reconciliation, market data service, rate limiter, Kite - never puts an order
  on the wire that the database does not know of. Over any sequence of starts, scheduling passes,
  heartbeats, ticks and stops, with the process dying and restarting anywhere, and whatever Kite and
  the tick stream answer, every order ever sent carries the tag of a durable intent that was marked
  started before, provided opening and closing the connection places no order.
\<close>

theorem platform_orders_announced:
  assumes "runs_strategy1 L" and "sends_nothing (lv_connect L)" and "sends_nothing (lv_close L)"
    and "stack_announced w"
  shows "stack_announced (cn_world (container_run (live_container L) es (new_container w)))"
  by (rule platform_run [OF live_parts_announced [OF assms(1-3)] assms(4)])

context tx_invariant
begin

lemma live_parts_db:
  fixes L :: "('f, 's) live_parts"
  assumes "runs_strategy1 L"
  shows "parts_keep (on_db I) (live_container L)"
proof -
  have free: "market_free (on_db I :: ('f kite limited, 's) md world \<Rightarrow> bool)"
    by (simp add: market_free_def on_db_def)
  have "poller_keeps (live_market L) (on_db I)"
    unfolding poller_keeps_def by (simp add: keeps_world live_market_def)
  then have gw: "gateway_keeps (on_db I) (market_gateway (live_market L))"
    by (rule market_gateway_keeps [OF free])
  show ?thesis
    by (rule p_parts [OF _ live_only_strategy1 [OF assms]])
      (use gw free_stream_op [OF free] in
        \<open>simp_all add: live_container_def live_factory_def hooks_keep_def md_start_def md_stop_def\<close>)
qed

lemma live_run:
  assumes "runs_strategy1 L" "I (w_db w)"
  shows "I (w_db (cn_world (container_run (live_container L) es (new_container w))))"
  using platform_run [OF live_parts_db [OF assms(1)], of w es] assms(2) by (simp add: on_db_def)

end

text \<open>
  C4: over the whole life of the live platform, with any number of instances, the audit trail of
  every position stays a legal path of the state machine that ends in the position's state, and a
  CLOSED position stays CLOSED, whatever Kite answers, other actors do and wherever the process dies.
\<close>

theorem platform_keeps_audit_and_closed:
  assumes "runs_strategy1 L" and "audit_ok (w_db w)" and "closed pid (w_db w)"
  shows "audit_ok (w_db (cn_world (container_run (live_container L) es (new_container w)))) \<and>
    closed pid (w_db (cn_world (container_run (live_container L) es (new_container w))))"
  using audit_inv.live_run [OF assms(1,2)] closed_inv.live_run [OF assms(1,3)] by blast

text \<open>
  C8: a frozen instance stays frozen over the whole life of the platform, restarts included: nothing
  the platform does thaws it, so only the operator's command can.
\<close>

theorem frozen_stays_frozen:
  assumes "runs_strategy1 L" and "frozen iid (w_db w)"
  shows "frozen iid (w_db (cn_world (container_run (live_container L) es (new_container w))))"
  by (rule frozen_inv.live_run [OF assms])

text \<open>
  
  A restart finds the instances of earlier runs. Once a strategy, instrument and account have an
  instance, every later build gets the same identity, after any life of the platform.
\<close>

theorem restart_finds_the_instance:
  assumes "runs_strategy1 L"
    and "ensure_instance_row strategy instrument account exch w = (w1, Inr iid)"
    and "ensure_instance_row strategy instrument account exch'
      (cn_world (container_run (live_container L) es (new_container w1))) = (w2, Inr iid')"
  shows "iid' = iid"
proof -
  have found: "instance_is strategy instrument account i d"
    if run: "bnd (instance_get_or_create strategy instrument account ex) (\<lambda>(iid, created). ret iid) d0 = (d, Inr i)"
    for ex d0 d i
  proof -
    obtain b where g: "instance_get_or_create strategy instrument account ex d0 = (d, Inr (i, b))"
      using run by (auto simp: ret_def elim!: bnd_Inr_elim)
    show ?thesis
    proof (cases b)
      case True
      then show ?thesis using get_or_create_created g unfolding instance_get_or_create_def
        by (fastforce simp: instance_is_def instance_by_key_def t_add_def t_find_append)
    next
      case False
      then show ?thesis using get_or_create_existing g unfolding instance_get_or_create_def
        by (fastforce simp: instance_is_def)
    qed
  qed
  have "instance_is strategy instrument account iid (w_db w1)"
    using uow_Inr [OF assms(2) [unfolded ensure_instance_row_def]] found by blast
  then have "instance_is strategy instrument account iid
      (w_db (cn_world (container_run (live_container L) es (new_container w1))))"
    by (rule instance_inv.live_run [OF assms(1)])
  moreover have "keeps (on_db (instance_is strategy instrument account iid))
      (ensure_instance_row strategy instrument account exch')"
    unfolding ensure_instance_row_def
    by (intro instance_inv.keeps_unit_of_work keeps_intro instance_inv.tx_keeps)
  ultimately have "instance_is strategy instrument account iid (w_db w2)"
    using assms(3) by (auto simp: on_db_def dest: keepsD)
  moreover have "instance_is strategy instrument account iid' (w_db w2)"
    using uow_Inr [OF assms(3) [unfolded ensure_instance_row_def]] found by blast
  ultimately show ?thesis by (auto simp: instance_is_def)
qed

end
