(* ===== verification/Container_Claims.thy ===== *)
theory Container_Claims
  imports Container_Proofs
begin

text \<open>
  The gates of the entry points, the order of start-up and shutdown, and what a loaded configuration
  guarantees, with concrete runs.
\<close>

section \<open>The gates of the entry points\<close>

lemma run_application_refused:
  "bc_active (ld_brokers (su_config X)) \<noteq> expected \<Longrightarrow> run_application E expected X s = (s, Inr 1)"
  by (cases s) (simp add: run_application_def app_run_def app_start_def sq_def bnd_def on_container_def throw_def
      catch_if_def ret_def is_exception_def)

lemma guard_passed:
  assumes "guard_database_schema E (schema, c) = (q, g)"
  shows "snd q = c \<and> (g = Inr () \<longrightarrow> fst q = en_heads E)"
  using assms
  by (auto simp: guard_database_schema_def on_schema_def verify_database_is_current_def sq_def bnd_def asks_def
      ret_def throw_def split: prod.splits sum.splits if_splits)

text \<open>
  C9: live trading starts only behind all of its gates. If the live entry point leaves anything of
  the platform changed - an order, a row, a call, a clock - or reports success, then the operator's
  confirmation was set, the database schema is the one the code was written for, the configuration
  loaded, and it selects the Kite broker.
\<close>

theorem live_trading_is_gated:
  assumes "live_main E (schema, c) = ((schema', c'), r)" and "c' \<noteq> c \<or> r = Inr 0"
  shows "en_env E ''I_UNDERSTAND_THIS_TRADES_REAL_MONEY'' = Some ''yes'' \<and> schema' = en_heads E \<and>
    (\<exists>X. en_container E = Inr X \<and> bc_active (ld_brokers (su_config X)) = KITE)"
proof (cases "check_live_confirmed (en_env E)")
  case (Inl e)
  then have "e = RuntimeError" by (simp add: check_live_confirmed_def split: if_splits)
  then show ?thesis using assms Inl
    by (simp add: live_main_def catch_if_def sq_def bnd_def lift_sum_def ret_def is_exception_def)
next
  case (Inr u)
  obtain q g where guard: "guard_database_schema E (schema, c) = (q, g)" by (metis prod.exhaust)
  have q: "q = (fst q, c)" using guard_passed [OF guard] by (metis prod.collapse)
  note run = live_main_def catch_if_def sq_def bnd_def lift_sum_def ret_def Inr guard
  show ?thesis
  proof (cases g)
    case (Inl e)
    then show ?thesis using assms q by (cases "is_exception e") (auto simp: run)
  next
    case g: (Inr v)
    show ?thesis
    proof (cases "en_container E")
      case (Inl e)
      then show ?thesis using assms q g by (cases "is_exception e") (auto simp: run)
    next
      case X: (Inr X)
      have app: "run_application E KITE X q = ((schema', c'), r)" using assms(1) g X by (simp add: run)
      have "bc_active (ld_brokers (su_config X)) = KITE"
        using app assms(2) run_application_refused [of X KITE E q] q by (cases "bc_active (ld_brokers (su_config X)) = KITE") auto
      moreover have "schema' = fst q"
        using app by (cases q)
          (auto simp: run_application_def on_container_def catch_if_def sq_def bnd_def ret_def split: prod.splits sum.splits if_splits)
      ultimately show ?thesis
        using guard_passed [OF guard] g X Inr by (simp add: check_live_confirmed_def split: if_splits)
    qed
  qed
qed

section \<open>Coming up and going down\<close>

lemma world_frame: "on_world m s = (s', r) \<Longrightarrow> cn_started s' = cn_started s \<and> cn_platform s' = cn_platform s"
  by (auto simp: on_world_def split: prod.splits)

text \<open>
  
  Nothing is armed before the broker answered. If a start does not find the broker
  authenticated and healthy, the error is what it raises and nothing else of the container has
  changed: no account or instance row, no reconciliation, no registered strategy, no tick feed; and
  a start that registered anything found the broker healthy first.
\<close>

theorem unhealthy_broker_arms_nothing:
  assumes "\<not> cn_started s" and "container_start X s = (s', r)"
  shows "(case check_broker X (cn_world s) of
      (w, Inl e) \<Rightarrow> s' = s\<lparr>cn_world := w\<rparr> \<and> r = Inl e \<and>
        (\<exists>t. w_db w = (w_db (cn_world s))\<lparr>d_orders := t\<rparr>)
    | (w, Inr _) \<Rightarrow> True)"
proof -
  have pushed: "\<exists>t. fold (\<lambda>bo d. push_update bo tm d) bos d = d\<lparr>d_orders := t\<rparr>" for bos tm d
  proof (induction bos arbitrary: d)
    case Nil
    show ?case by (rule exI [of _ "d_orders d"]) simp
  next
    case (Cons bo bos)
    obtain t where "push_update bo tm d = d\<lparr>d_orders := t\<rparr>" using push_orders_only [of bo tm d] by blast
    moreover obtain t' where "fold (\<lambda>bo d. push_update bo tm d) bos (d\<lparr>d_orders := t\<rparr>) = d\<lparr>d_orders := t, d_orders := t'\<rparr>"
      using Cons.IH [of "d\<lparr>d_orders := t\<rparr>"] by blast
    ultimately show ?case by auto
  qed
  have calls: "\<exists>t. w_db (fst (bcall f w)) = (w_db w)\<lparr>d_orders := t\<rparr>" for f :: "('a, 'c) broker_call" and w
    using pushed by (auto simp: bcall_def Let_def split: prod.split)
  have "\<exists>t. w_db (fst (check_broker X w)) = (w_db w)\<lparr>d_orders := t\<rparr>" for w
  proof -
    obtain w1 q1 where a: "bcall (su_authenticate X) w = (w1, q1)" by (metis prod.exhaust)
    obtain w2 q2 where b: "bcall (bk_health (fa_broker (su_factory X))) w1 = (w2, q2)" by (metis prod.exhaust)
    obtain t1 t2 where t: "w_db w1 = (w_db w)\<lparr>d_orders := t1\<rparr>" "w_db w2 = (w_db w1)\<lparr>d_orders := t2\<rparr>"
      using calls [of "su_authenticate X" w] calls [of "bk_health (fa_broker (su_factory X))" w1] by (auto simp: a b)
    then have "\<exists>t. w_db w2 = (w_db w)\<lparr>d_orders := t\<rparr>" "\<exists>t. w_db w1 = (w_db w)\<lparr>d_orders := t\<rparr>" by auto
    then show ?thesis
      by (cases q1; cases q2) (auto simp: check_broker_def sq_def bnd_def a b throw_def ret_def)
  qed
  then have orders: "check_broker X (cn_world s) = (w, q) \<Longrightarrow> \<exists>t. w_db w = (w_db (cn_world s))\<lparr>d_orders := t\<rparr>" for w q
    by (metis fst_conv)
  show ?thesis
    using assms orders
    by (auto simp: container_start_def bnd_def sq_def asks_def on_world_def split: prod.splits sum.splits)
qed


lemma down_frame: "(\<And>s. cn_started (f s) = cn_started s) \<Longrightarrow> keeps (\<lambda>s. \<not> cn_started s) (modify f)"
  by (rule keeps_modify) simp

lemma down_world: "keeps (\<lambda>s. \<not> cn_started s) (on_world m)"
  by (simp add: keeps_def on_world_def split_beta)

lemma down_platform: "keeps (\<lambda>s. \<not> cn_started s) (on_platform m)"
  by (simp add: keeps_def on_platform_def split_beta)

lemma hoare_modify_any: "hoare P (modify f) (\<lambda>_ _. True) E"
  by (simp add: hoare_def modify_def)

lemma failed_start_is_down:
  "hoare (\<lambda>s. \<not> cn_started s) (container_start X) (\<lambda>_ _. True) (\<lambda>_ s. \<not> cn_started s)"
proof -
  let ?D = "\<lambda>s. \<not> cn_started s"
  have reg: "keeps ?D (for_each runners (register_instance X))" for runners
    unfolding register_instance_def Let_def
    by (intro keeps_for_each keeps_sq down_platform down_frame) simp
  have up: "hoare ?D (sq m n) (\<lambda>_ _. True) (\<lambda>_. ?D)"
    if "keeps ?D m" and "hoare ?D n (\<lambda>_ _. True) (\<lambda>_. ?D)" for m :: "('a, unit) cprog" and n :: "('a, unit) cprog"
    unfolding sq_def by (rule hoare_bnd [OF hoare_of_keeps [OF that(1)] that(2)])
  have next_up: "hoare ?D (bnd m f) (\<lambda>_ _. True) (\<lambda>_. ?D)"
    if "keeps ?D m" and "\<And>x. hoare ?D (f x) (\<lambda>_ _. True) (\<lambda>_. ?D)" for m :: "('a, 'c) cprog" and f :: "'c \<Rightarrow> ('a, unit) cprog"
    by (rule hoare_bnd [OF hoare_of_keeps [OF that(1)] that(2)])
  show ?thesis unfolding container_start_def
    by (rule next_up up hoare_if keeps_asks down_world reg down_frame hoare_modify_any hoare_ret' | simp)+
qed

text \<open>
  C18: a start that fails is not torn down. Whatever the container had opened or registered when its
  start raised is still there after the application gave up: the teardown it asks for does nothing,
  because the container only calls itself started at the very end.
\<close>

theorem failed_start_is_not_torn_down:
  assumes "\<not> cn_started s" and "container_start X s = (s', Inl e)" and "is_exception e"
    and "expected = None \<or> expected = Some (bc_active (ld_brokers (su_config X)))"
  shows "app_start X expected s = (s', Inl e)"
proof -
  have "\<not> cn_started s'" using hoareD2 [OF failed_start_is_down assms(1,2)] .
  then show ?thesis using assms
    by (auto simp: app_start_def catch_if_def sq_def bnd_def asks_def ret_def throw_def container_stop_def)
qed

text \<open>
  C19: a shutdown leaves nothing running. Unless the process dies on the way, stopping a started
  platform never fails: every runner was stopped, then the market data service, then the broker was
  closed, whichever of them raised; nothing is scheduled or monitored any more, and no later pass,
  heartbeat, tick or stop does anything.
\<close>

theorem stop_leaves_nothing_running:
  assumes "cn_started s" and "container_stop X s = (s', r)" and "r \<noteq> Inl ProcessCrash"
  shows "r = Inr () \<and> cn_platform s' = [] \<and> \<not> cn_started s' \<and>
    cn_world s' = fst (bcall (su_close X) (fst (su_market_stop X (stop_all (cn_platform s) (cn_world s))))) \<and>
    list_all (\<lambda>e. container_do X e s' = (s', Inr ())) [CePass, CeHeartbeat, CeTick tk, CeStop]"
proof -
  obtain w1 r1 where m: "su_market_stop X (stop_all (cn_platform s) (cn_world s)) = (w1, r1)" by (metis prod.exhaust)
  obtain w2 r2 where c: "bcall (su_close X) w1 = (w2, r2)" by (metis prod.exhaust)
  note run = container_stop_def isolated_def stop_scheduler_def catch_if_def sq_def bnd_def asks_def ret_def
    throw_def modify_def on_platform_def on_world_def scheduler_stop_def
  have r1: "r1 = Inr () \<or> (\<exists>e. r1 = Inl e \<and> is_exception e)"
    using assms m by (cases r1) (auto simp: run is_exception_def)
  then have r2: "r2 = Inr () \<or> (\<exists>e. r2 = Inl e \<and> is_exception e)"
    using assms m c by (cases r2) (auto simp: run is_exception_def)
  let ?s = "s\<lparr>cn_monitoring := False, cn_monitored := [], cn_world := w2, cn_platform := [],
    cn_scheduling := False, cn_consumers := [], cn_started := False\<rparr>"
  have "container_stop X s = (?s, Inr ())" using assms(1) r1 r2 by (auto simp: run m c)
  then have "s' = ?s" "r = Inr ()" using assms(2) by simp_all
  then show ?thesis by (simp add: m c) (simp add: run do_if_def)
qed

section \<open>What a loaded configuration guarantees\<close>

lemma loader_load_Inr: "loader_load files path schema = Inr m \<Longrightarrow> \<exists>d. schema d = Inr m"
  by (auto simp: loader_load_def split: option.splits pyval.splits if_splits)

lemma limiter_rules_ok:
  "list_all (\<lambda>(cat, calls, per). 0 < calls \<and> 0 < per) cs \<Longrightarrow>
   \<exists>rs. limiter_rules cs = Inr rs \<and> map fst rs = map fst cs \<and> list_all (\<lambda>(cat, r). 0 < rl_max_calls r \<and> 0 < rl_per r) rs"
proof (induction cs rule: limiter_rules.induct)
  case (2 cat calls per rules)
  then obtain rs where "limiter_rules rules = Inr rs" "map fst rs = map fst rules"
    "list_all (\<lambda>(cat, r). 0 < rl_max_calls r \<and> 0 < rl_per r) rs" by auto
  then show ?case using 2 by (simp add: mk_rate_rule_def sbind_def)
qed simp

lemma map_act_names:
  "map_act ensure_account specs d = (d', Inr ids) \<Longrightarrow> map fst ids = map as_name specs"
proof (induction specs arbitrary: d ids)
  case (Cons spec specs)
  obtain d1 x ys where "ensure_account spec d = (d1, Inr x)" "map_act ensure_account specs d1 = (d', Inr ys)" "ids = x # ys"
    using Cons.prems by (auto simp: bnd_def ret_def split: prod.splits sum.splits)
  moreover have "fst x = as_name spec"
    using calculation(1) by (auto simp: ensure_account_def ret_def bnd_def split: prod.splits sum.splits)
  ultimately show ?case using Cons.IH by auto
qed (simp add: ret_def)

text \<open>
  
  A configuration that loads can be run. There is at least one instance; the rate limiter gets a
  rule with positive bounds for every category of call; and once the accounts were resolved, the
  account of every configured instance has an id, so the lookup at start cannot fail.
\<close>

theorem loaded_config_is_runnable:
  assumes "load_config files dir S = Inr C" and "ensure_accounts (ld_accounts C) w = (w', Inr ids)"
  shows "ap_instances (ld_app C) \<noteq> [] \<and>
    list_all (\<lambda>spec. map_of (rev ids) (sp_account spec) \<noteq> None) (ap_instances (ld_app C)) \<and>
    (\<exists>rules. limiter_rules (bc_limits (ld_brokers C)) = Inr rules \<and>
      list_all (\<lambda>cat. \<exists>r. map_of rules cat = Some r \<and> 0 < rl_max_calls r \<and> 0 < rl_per r) all_rate_categories)"
proof -
  obtain a b c where parts: "mk_app_config a = Inr (ld_app C)" "mk_brokers_config b = Inr (ld_brokers C)"
      "mk_accounts_config c = Inr (ld_accounts C)"
    and refs: "check_account_references (ld_accounts C) (ld_app C) = Inr ()"
    using assms(1) by (fastforce simp: load_config_def sbind_Inr dest!: loader_load_Inr)
  have limits: "list_all (\<lambda>(cat, calls, per). 0 < calls \<and> 0 < per) (bc_limits (ld_brokers C))"
    and cats: "filter (\<lambda>cat. cat \<notin> fst ` set (bc_limits (ld_brokers C))) all_rate_categories = []"
    using parts(2) by (auto simp: mk_brokers_config_def sbind_Inr split: if_splits)
  obtain rules where r: "limiter_rules (bc_limits (ld_brokers C)) = Inr rules"
    "map fst rules = map fst (bc_limits (ld_brokers C))"
    "list_all (\<lambda>(cat, r). 0 < rl_max_calls r \<and> 0 < rl_per r) rules"
    using limiter_rules_ok [OF limits] by blast
  have "\<exists>r. map_of rules cat = Some r \<and> 0 < rl_max_calls r \<and> 0 < rl_per r" if "cat \<in> set all_rate_categories" for cat
  proof -
    have "cat \<in> fst ` set (bc_limits (ld_brokers C))" using cats that by (simp add: filter_empty_conv)
    then have "cat \<in> set (map fst rules)" by (simp add: r(2))
    then obtain x where "map_of rules cat = Some x" by (cases "map_of rules cat") (simp_all add: map_of_eq_None_iff)
    then show ?thesis using r(3) by (auto simp: list_all_iff dest: map_of_SomeD)
  qed
  moreover have "map fst ids = map as_name (ld_accounts C)"
    using uow_Inr [OF assms(2) [unfolded ensure_accounts_def]] map_act_names by blast
  then have "fst ` set ids = as_name ` set (ld_accounts C)" by (metis list.set_map)
  then have "list_all (\<lambda>spec. map_of (rev ids) (sp_account spec) \<noteq> None) (ap_instances (ld_app C))"
    using refs by (auto simp: check_account_references_def list_all_iff map_of_eq_None_iff split: if_splits)
  moreover have "ap_instances (ld_app C) \<noteq> []" using parts(1) by (auto simp: mk_app_config_def split: if_splits)
  ultimately show ?thesis using r(1) by (simp add: list_all_iff)
qed

section \<open>Concrete runs\<close>

definition demo_loaded :: loaded_config where
  "demo_loaded =
     \<lparr>ld_app = \<lparr>ap_environment = ''live'', ap_log_level = ''INFO'',
        ap_instances = [\<lparr>sp_strategy = ''strategy_1'', sp_instrument = ''NIFTY'', sp_account = ''main''\<rparr>],
        ap_report_dir = None\<rparr>,
      ld_brokers = \<lparr>bc_active = KITE, bc_limits = map (\<lambda>c. (c, 3, 1000000)) all_rate_categories,
        bc_simulation = \<lparr>sx_synchronous = True, sx_initial_cash = 100000, sx_connection_failure = 0,
          sx_rejection = 0, sx_partial_fill = 0, sx_ack_latency = 0, sx_fill_latency = 0\<rparr>,
        bc_kite = \<lparr>ks_api_key_env = ''KEY'', ks_api_secret_env = ''SECRET'', ks_token_env = ''KITE_ACCESS_TOKEN'',
          ks_attempts = 3, ks_delay = 500000, ks_batch = 200, ks_timeout = 7\<rparr>\<rparr>,
      ld_accounts = [\<lparr>as_name = ''main'', as_broker = KITE, as_client_id = None, as_display = ''Main''\<rparr>],
      ld_risk = \<lparr>rk_open = 0, rk_close = 1, rk_max_entries = 1, rk_legs = 2,
        rk_margin = [(''NIFTY'', 100000)], rk_loss_limit = Some 5000\<rparr>\<rparr>"

definition demo_parts :: "((string \<times> string) list, unit) live_parts" where
  "demo_parts =
     \<lparr>lv_config = demo_loaded, lv_kite = demo_setup (\<lambda>n c. (7, Inr (PDict []))),
      lv_tokens = env_store ''KITE_ACCESS_TOKEN'', lv_timeout = Some 7, lv_limit = Some 2000000,
      lv_market = demo_md_config, lv_stream = polling_stream, lv_instruments = demo_configs,
      lv_holidays = demo_holidays, lv_registry = [(''strategy_1'', 0)],
      lv_class = (\<lambda>c. strategy1_class (\<lambda>d. Inr demo_config)),
      lv_files = (\<lambda>p. Some (PDict [])), lv_dir = ''configs'',
      lv_connect = (\<lambda>t b. (b, 3, [], Inr ())), lv_close = (\<lambda>t b. (b, 3, [], Inr ())),
      lv_trading = (\<lambda>d. True)\<rparr>"

definition parts_world :: "db \<Rightarrow> ((string \<times> string) list kite limited, unit) md world" where
  "parts_world d =
     \<lparr>w_db = d,
      w_bk = new_md \<lparr>li_inner = new_kite demo_store 0,
        li_buckets = new_buckets (map (\<lambda>c. (c, \<lparr>rl_max_calls = 3, rl_per = 1000000\<rparr>)) all_rate_categories),
        li_naps = []\<rparr> (),
      w_now = 1000, w_env = [], w_exit_lock = False\<rparr>"

definition demo_day :: "container_event list" where
  "demo_day = [CeStart, CePass, CeHeartbeat, CeStop, CeStart, CePass, CeStop]"

definition frozen_db :: db where
  "frozen_db = empty_db\<lparr>d_instances :=
     [(1, \<lparr>si_strategy = ''strategy_1'', si_instrument = ''NIFTY'', si_account = 1, si_exchange = NFO,
           si_status = IS_FROZEN, si_version = 4\<rparr>)]\<rparr>"

lemma demo_parts_strategy1: "runs_strategy1 demo_parts"
  by (auto simp: runs_strategy1_def demo_parts_def)

theorem platform_orders_witness:
  "stack_announced (cn_world (container_run (live_container demo_parts) demo_day (new_container (parts_world empty_db))))"
  by (rule platform_orders_announced [OF demo_parts_strategy1])
    (simp_all add: sends_nothing_def demo_parts_def stack_announced_def parts_world_def new_md_def new_kite_def
      sent_tags_def map_filter_def)

theorem platform_closed_witness:
  "audit_ok (w_db (cn_world (container_run (live_container demo_parts) demo_day
      (new_container (parts_world demo_closed_db))))) \<and>
   closed 1 (w_db (cn_world (container_run (live_container demo_parts) demo_day
      (new_container (parts_world demo_closed_db)))))"
  by (rule platform_keeps_audit_and_closed [OF demo_parts_strategy1])
    (simp_all add: parts_world_def demo_closed_ok del: One_nat_def)

theorem frozen_witness:
  "frozen 1 (w_db (cn_world (container_run (live_container demo_parts) demo_day (new_container (parts_world frozen_db)))))"
  by (rule frozen_stays_frozen [OF demo_parts_strategy1])
    (simp add: parts_world_def frozen_def frozen_db_def)

definition restart_db :: db where
  "restart_db = empty_db\<lparr>d_instances :=
     [(1, \<lparr>si_strategy = ''strategy_1'', si_instrument = ''NIFTY'', si_account = 1, si_exchange = NFO,
           si_status = IS_ACTIVE, si_version = 1\<rparr>)]\<rparr>"

theorem restart_witness:
  "\<exists>w1 w2 iid. ensure_instance_row ''strategy_1'' ''NIFTY'' 1 NFO (parts_world empty_db) = (w1, Inr iid) \<and>
     ensure_instance_row ''strategy_1'' ''NIFTY'' 1 NSE
       (cn_world (container_run (live_container demo_parts) [CePass, CeHeartbeat, CeStop] (new_container w1))) = (w2, Inr iid)"
proof -
  have ok: "db_constraints restart_db" by code_simp
  note run = ensure_instance_row_def unit_of_work_def commit_def bnd_def ret_def instance_get_or_create_def
    get_or_create_def instance_by_key_def parts_world_def
  have first: "ensure_instance_row ''strategy_1'' ''NIFTY'' 1 NFO (parts_world empty_db) = (parts_world restart_db, Inr 1)"
    using ok by (simp add: run restart_db_def empty_db_def t_next_def t_add_def Let_def)
  have again: "ensure_instance_row ''strategy_1'' ''NIFTY'' 1 NSE (parts_world restart_db) = (parts_world restart_db, Inr 1)"
    using ok by (simp add: run restart_db_def empty_db_def Let_def)
  have idle: "cn_world (container_run (live_container demo_parts) [CePass, CeHeartbeat, CeStop] (new_container w)) = w" for w
    by (simp add: container_run_def container_step_def new_container_def bnd_def asks_def do_if_def ret_def
        container_stop_def on_platform_def)
  have "ensure_instance_row ''strategy_1'' ''NIFTY'' 1 NSE
      (cn_world (container_run (live_container demo_parts) [CePass, CeHeartbeat, CeStop] (new_container (parts_world restart_db)))) =
      (parts_world restart_db, Inr 1)"
    using again by (simp only: idle)
  moreover from this have "(1::nat) = 1" by (rule restart_finds_the_instance [OF demo_parts_strategy1 first])
  ultimately show ?thesis using first by blast
qed

lemmas run_defs =
  sq_def bnd_def ret_def throw_def asks_def modify_def catch_if_def lift_sum_def on_world_def on_platform_def bcall_def

text \<open>
  A platform without instances whose broker knows only whether its connection is open, and a machine
  around it that is ready to trade live.
\<close>

definition bare_broker :: "bool \<Rightarrow> bool broker" where
  "bare_broker ok =
     \<lparr>bk_place = \<lambda>req t b. (b, 0, [], Inr []), bk_get = \<lambda>oid t b. (b, 0, [], Inl KeyError),
      bk_find_tag = \<lambda>tag t b. (b, 0, [], Inr None), bk_orders = \<lambda>t b. (b, 0, [], Inr []),
      bk_positions = \<lambda>t b. (b, 0, [], Inr []), bk_margins = \<lambda>t b. (b, 0, [], Inl KeyError),
      bk_health = \<lambda>t b. (b, 2, [], Inr \<lparr>hs_healthy = ok, hs_checked_at = t\<rparr>),
      bk_ltp = \<lambda>xs t b. (b, 0, [], Inr []), bk_contract = \<lambda>u x st ot ex t b. (b, 0, [], Inl KeyError),
      bk_authenticated = \<lambda>b. True\<rparr>"

definition bare_setup :: "bool \<Rightarrow> (bool, unit) prog \<Rightarrow> bool container_setup" where
  "bare_setup ok start_market =
     \<lparr>su_config = demo_loaded\<lparr>ld_app := (ld_app demo_loaded)\<lparr>ap_instances := []\<rparr>, ld_accounts := []\<rparr>,
      su_factory =
        \<lparr>fa_broker = bare_broker ok,
         fa_gateway = \<lparr>mg_connected = ret True, mg_ltps = \<lambda>xs. ret [], mg_subscribe = \<lambda>xs. ret (),
           mg_unsubscribe = \<lambda>xs. ret ()\<rparr>,
         fa_risk = ld_risk demo_loaded, fa_instruments = demo_configs, fa_holidays = demo_holidays,
         fa_listed = \<lambda>u ex t b. (b, 0, [], Inr None), fa_mode = ''LIVE'', fa_registry = [],
         fa_class = \<lambda>c. strategy1_class (\<lambda>d. Inr demo_config), fa_files = \<lambda>p. None, fa_dir = []\<rparr>,
      su_authenticate = \<lambda>t b. (b, 1, [], Inr ()), su_connect = \<lambda>t b. (True, 3, [], Inr ()),
      su_close = \<lambda>t b. (False, 3, [], Inl ValueError), su_reconciler = None,
      su_market_start = start_market, su_market_stop = throw ValueError, su_trading = \<lambda>d. True\<rparr>"

definition bare_world :: "bool world" where
  "bare_world = \<lparr>w_db = empty_db, w_bk = False, w_now = 1000, w_env = [], w_exit_lock = False\<rparr>"

definition bare_machine :: "bool entry_setup" where
  "bare_machine =
     \<lparr>en_env = (\<lambda>v. if v = ''I_UNDERSTAND_THIS_TRADES_REAL_MONEY'' then Some ''yes'' else None),
      en_heads = {''h2''}, en_upgrade = (\<lambda>s. ({''h2''}, Inr ())),
      en_container = Inr (bare_setup True (ret ())), en_waiting = ret ()\<rparr>"

lemma bare_failure:
  "case container_start (bare_setup True (throw ValueError)) (new_container bare_world) of
     (s, r) \<Rightarrow> r = Inl ValueError \<and> w_bk (cn_world s)"
  by code_simp

theorem failed_start_witness:
  "case app_start (bare_setup True (throw ValueError)) (Some KITE) (new_container bare_world) of
     (s, r) \<Rightarrow> r = Inl ValueError \<and> w_bk (cn_world s)"
proof -
  obtain s r where run: "container_start (bare_setup True (throw ValueError)) (new_container bare_world) = (s, r)"
    by (metis prod.exhaust)
  then have start: "container_start (bare_setup True (throw ValueError)) (new_container bare_world) = (s, Inl ValueError)"
      and opened: "w_bk (cn_world s)"
    using bare_failure by simp_all
  have "app_start (bare_setup True (throw ValueError)) (Some KITE) (new_container bare_world) = (s, Inl ValueError)"
    by (rule failed_start_is_not_torn_down [OF _ start])
      (simp_all add: new_container_def is_exception_def bare_setup_def demo_loaded_def)
  then show ?thesis using opened by simp
qed

theorem stop_witness:
  "case container_stop (bare_setup True (ret ())) ((new_container bare_world)\<lparr>cn_started := True, cn_scheduling := True\<rparr>) of
     (s, r) \<Rightarrow> r = Inr () \<and> container_do (bare_setup True (ret ())) CePass s = (s, Inr ())"
proof -
  obtain s r where stop: "container_stop (bare_setup True (ret ()))
      ((new_container bare_world)\<lparr>cn_started := True, cn_scheduling := True\<rparr>) = (s, r)" by (metis prod.exhaust)
  have "r \<noteq> Inl ProcessCrash"
    using stop by (auto simp: container_stop_def isolated_def stop_scheduler_def scheduler_stop_def bare_setup_def
        run_defs is_exception_def new_container_def bare_world_def split: if_splits)
  then show ?thesis using stop_leaves_nothing_running [OF _ stop] stop by simp
qed

theorem unhealthy_witness:
  "case container_start (bare_setup False (ret ())) (new_container bare_world) of
     (s, r) \<Rightarrow> cn_accounts s = [] \<and> cn_platform s = [] \<and> r = Inl (BrokerConnectionError ''broker connectivity check failed at startup'')"
proof -
  obtain s r where start: "container_start (bare_setup False (ret ())) (new_container bare_world) = (s, r)"
    by (metis prod.exhaust)
  have "snd (check_broker (bare_setup False (ret ())) bare_world) =
      Inl (BrokerConnectionError ''broker connectivity check failed at startup'')" by code_simp
  then obtain w where "check_broker (bare_setup False (ret ())) bare_world =
      (w, Inl (BrokerConnectionError ''broker connectivity check failed at startup''))" by (metis prod.collapse)
  moreover have "\<not> cn_started (new_container bare_world)" "cn_world (new_container bare_world) = bare_world"
    "cn_accounts (new_container bare_world) = []" "cn_platform (new_container bare_world) = []"
    by (simp_all add: new_container_def)
  ultimately show ?thesis
    using unhealthy_broker_arms_nothing [OF _ start] unfolding start by simp
qed

lemma bare_live: "snd (live_main bare_machine ({''h2''}, new_container bare_world)) = Inr 0"
  by code_simp

theorem live_gate_witness:
  "case live_main bare_machine ({''h2''}, new_container bare_world) of ((schema, c), r) \<Rightarrow> schema = {''h2''} \<and> r = Inr 0"
proof -
  obtain schema c where run: "live_main bare_machine ({''h2''}, new_container bare_world) = ((schema, c), Inr 0)"
    using bare_live by (metis prod.collapse)
  show ?thesis using live_trading_is_gated [OF run] unfolding run by (simp add: bare_machine_def)
qed

definition demo_schemas :: schemas where
  "demo_schemas =
     \<lparr>sm_app = (\<lambda>d. Inr (ld_app demo_loaded)), sm_brokers = (\<lambda>d. Inr (ld_brokers demo_loaded)),
      sm_accounts = (\<lambda>d. Inr (ld_accounts demo_loaded)), sm_risk = (\<lambda>d. Inr (ld_risk demo_loaded)),
      sm_market_data = (\<lambda>d. Inr ())\<rparr>"

theorem loaded_config_witness:
  "\<exists>ids. snd (ensure_accounts (ld_accounts demo_loaded) bare_world) = Inr ids \<and>
     list_all (\<lambda>spec. map_of (rev ids) (sp_account spec) \<noteq> None) (ap_instances (ld_app demo_loaded))"
proof -
  have load: "load_config (\<lambda>p. Some (PDict [])) ''configs'' demo_schemas = Inr demo_loaded"
    by (simp add: load_config_def loader_load_def demo_schemas_def demo_loaded_def sbind_def mk_app_config_def
        mk_brokers_config_def mk_simulation_settings_def mk_kite_settings_def mk_accounts_config_def mk_risk_config_def
        check_account_references_def configure_logging_def all_rate_categories_def)
  have "snd (ensure_accounts (ld_accounts demo_loaded) bare_world) = Inr [(''main'', 1)]" by code_simp
  then obtain w where "ensure_accounts (ld_accounts demo_loaded) bare_world = (w, Inr [(''main'', 1)])"
    by (metis prod.collapse)
  then show ?thesis using loaded_config_is_runnable [OF load, of bare_world w] by auto
qed

end
