(* ===== verification/Trade_Report.thy ===== *)
theory Trade_Report
  imports World Calendar Py_Value
begin

text \<open>
  \<open>reporting/trade\_report.py\<close>: the workbook of a trading day, rebuilt from the database each time a
  position closes. A workbook is the list of its rows of cells; the files of the output directory
  are a map from paths to workbooks, and what saving does to them is an argument. Amounts are sums
  of at most four decimals, so addition needs no rounding; the conversion to a binary float, the
  number formats and log lines are left out. The query orders by the time of the exit, where a
  database puts the rows without one last, and then by id.
\<close>

section \<open>Rendering\<close>

definition format_instrument :: "exchange \<Rightarrow> string \<Rightarrow> date \<Rightarrow> decimal \<Rightarrow> option_type \<Rightarrow> string" where
  "format_instrument exch underlying expiry strike ot =
     exchange_value exch @ '':'' @ underlying @ yymmdd expiry @ int_text (truncate_dec strike) @ option_type_value ot"

definition format_time_ist :: "dt \<Rightarrow> string" where
  "format_time_ist t =
     (let s = ist_time t div 1000000
      in pad2 (s div 3600) @ '':'' @ pad2 (s div 60 mod 60) @ '':'' @ pad2 (s mod 60))"

definition ddmmyyyy :: "date \<Rightarrow> string" where
  "ddmmyyyy n =
     pad2 (day_of n) @ ''-'' @ pad2 (month_of n) @ ''-'' @ pad2 (year_of n div 100) @ pad2 (year_of n mod 100)"

text \<open>\<open>quantize(Decimal("0.01"))\<close> in the default context.\<close>

definition cents_even :: "decimal \<Rightarrow> decimal" where
  "cents_even x = of_int (round_half_even (x * 100)) / 100"

section \<open>The rows\<close>

record leg_row =
  lr_instrument :: string
  lr_date :: date
  lr_entry_time :: dt
  lr_entry_price :: decimal
  lr_exit_time :: dt
  lr_exit_price :: decimal
  lr_reason :: string
  lr_pnl :: decimal
  lr_profit :: decimal
  lr_loss :: decimal
  lr_net :: decimal
  lr_share :: "decimal option"

fun leg_order :: "option_type \<Rightarrow> nat" where
  "leg_order CE = 0"
| "leg_order PE = 1"

definition opening_cumulative :: "db \<Rightarrow> date \<Rightarrow> decimal \<times> decimal" where
  "opening_cumulative d day =
     fold (\<lambda>(pid, p) (profit, loss).
         case p_pnl p of
           None \<Rightarrow> (profit, loss)
         | Some x \<Rightarrow> if 0 < x then (profit + x, loss) else if x < 0 then (profit, loss + - x) else (profit, loss))
       (t_select (\<lambda>p. p_state p = CLOSED \<and> p_date p < day) (d_positions d)) (0, 0)"

definition exit_order :: "(nat \<times> position_row) list \<Rightarrow> (nat \<times> position_row) list" where
  "exit_order xs =
     (let ys = sort_key fst xs
      in sort_key (\<lambda>x. case p_exit_done (snd x) of None \<Rightarrow> 0 | Some t \<Rightarrow> t)
           (filter (\<lambda>x. p_exit_done (snd x) \<noteq> None) ys) @
         filter (\<lambda>x. p_exit_done (snd x) = None) ys)"

definition day_positions :: "db \<Rightarrow> date \<Rightarrow> (nat \<times> position_row) list" where
  "day_positions d day =
     exit_order (t_select (\<lambda>p. p_date p = day \<and> p_state p = CLOSED) (d_positions d))"

definition leg_row_of ::
    "instance_row \<Rightarrow> date \<Rightarrow> position_row \<Rightarrow> decimal \<Rightarrow> decimal \<Rightarrow> decimal \<Rightarrow> trade_row \<Rightarrow> leg_row option" where
  "leg_row_of ins expiry p pnl profit loss leg =
     (case (t_entry_price leg, t_exit_price leg, t_entry_time leg, t_exit_time leg) of
        (Some ep, Some xp, Some et, Some xt) \<Rightarrow>
          Some \<lparr>lr_instrument =
                  format_instrument (t_exchange leg) (si_instrument ins) expiry (t_strike leg) (t_option leg),
                lr_date = p_date p, lr_entry_time = et, lr_entry_price = ep, lr_exit_time = xt, lr_exit_price = xp,
                lr_reason = (case p_exit_reason p of None \<Rightarrow> [] | Some r \<Rightarrow> exit_reason_value r),
                lr_pnl = pnl, lr_profit = profit, lr_loss = loss, lr_net = profit - loss,
                lr_share = pnl_per_share (Some pnl) (p_lot_size p)\<rparr>
      | _ \<Rightarrow> None)"

definition position_legs :: "db \<Rightarrow> nat \<Rightarrow> trade_row list" where
  "position_legs d pid = sort_key (\<lambda>leg. leg_order (t_option leg)) (map snd (list_trades_for_position pid d))"

definition report_step ::
    "db \<Rightarrow> nat \<times> position_row \<Rightarrow> leg_row list \<times> decimal \<times> decimal \<Rightarrow> leg_row list \<times> decimal \<times> decimal" where
  "report_step d x acc =
     (case x of (pid, p) \<Rightarrow> case acc of (rows, profit, loss) \<Rightarrow>
        (case (t_get (d_instances d) (p_instance p), p_expiry p) of
           (Some ins, Some expiry) \<Rightarrow>
             (let pnl = (case p_pnl p of None \<Rightarrow> 0 | Some v \<Rightarrow> v);
                  profit1 = (if 0 < pnl then profit + pnl else profit);
                  loss1 = (if pnl < 0 then loss + - pnl else loss)
              in (rows @ List.map_filter (leg_row_of ins expiry p pnl profit1 loss1) (position_legs d pid),
                  profit1, loss1))
         | _ \<Rightarrow> (rows, profit, loss)))"

definition collect_rows :: "date \<Rightarrow> db \<Rightarrow> leg_row list" where
  "collect_rows day d =
     fst (fold (report_step d) (day_positions d day) ([], fst (opening_cumulative d day), snd (opening_cumulative d day)))"

section \<open>The workbook\<close>

datatype cell = CText string | CInt nat | CNum decimal | CBlank

type_synonym workbook = "cell list list"
type_synonym report_files = "string \<Rightarrow> workbook option"

text \<open>The rupee sign in UTF-8.\<close>

definition in_rupees :: "string \<Rightarrow> string" where
  "in_rupees what = what @ '' ('' @ [char_of (226 :: nat), char_of (130 :: nat), char_of (185 :: nat)] @ '')''"

definition report_columns :: "string list" where
  "report_columns =
     [''S.no'', ''Date'', ''Instrument'', ''Entry Time'', ''Entry Price'', ''Exit Time'', ''Exit Price'',
      ''Exit Reason'', in_rupees ''P&L'', in_rupees ''Total Profit'', in_rupees ''Total Loss'',
      in_rupees ''Net P&L'', in_rupees ''P&L Per Share'']"

definition row_cells :: "nat \<Rightarrow> leg_row \<Rightarrow> cell list" where
  "row_cells serial r =
     [CInt serial, CText (ddmmyyyy (lr_date r)), CText (lr_instrument r), CText (format_time_ist (lr_entry_time r)),
      CNum (cents_even (lr_entry_price r)), CText (format_time_ist (lr_exit_time r)),
      CNum (cents_even (lr_exit_price r)), CText (lr_reason r), CNum (cents_even (lr_pnl r)),
      CNum (cents_even (lr_profit r)), CNum (cents_even (lr_loss r)), CNum (cents_even (lr_net r)),
      (case lr_share r of None \<Rightarrow> CBlank | Some x \<Rightarrow> CNum x)]"

definition workbook_of :: "leg_row list \<Rightarrow> workbook" where
  "workbook_of rows = map CText report_columns # map (\<lambda>(n, r). row_cells n r) (enumerate 1 rows)"

record exporter =
  ex_dir :: string
  ex_save :: "string \<Rightarrow> workbook \<Rightarrow> report_files \<Rightarrow> report_files \<times> (exn + unit)"

definition report_path :: "exporter \<Rightarrow> date \<Rightarrow> string" where
  "report_path X day = ex_dir X @ ''/trades_'' @ ddmmyyyy day @ ''.xlsx''"

type_synonym ('b, 'a) xprog = "('b world \<times> report_files, 'a) act"

definition in_world :: "('b, 'a) prog \<Rightarrow> ('b, 'a) xprog" where
  "in_world m s = (case m (fst s) of (w, r) \<Rightarrow> ((w, snd s), r))"

definition write_workbook :: "exporter \<Rightarrow> date \<Rightarrow> leg_row list \<Rightarrow> ('b, string) xprog" where
  "write_workbook X day rows s =
     (case ex_save X (report_path X day) (workbook_of rows) (snd s) of
        (files, r) \<Rightarrow> ((fst s, files), case r of Inl e \<Rightarrow> Inl e | Inr u \<Rightarrow> Inr (report_path X day)))"

definition export_day :: "exporter \<Rightarrow> date \<Rightarrow> ('b, string) xprog" where
  "export_day X day = bnd (in_world (read_session (collect_rows day))) (write_workbook X day)"

definition trade_date_for :: "nat \<Rightarrow> db \<Rightarrow> date option" where
  "trade_date_for pid d = map_option p_date (t_get (d_positions d) pid)"

definition export_closed_position :: "exporter \<Rightarrow> nat \<Rightarrow> ('b, unit) xprog" where
  "export_closed_position X pid =
     catch_if is_exception
       (bnd (in_world (read_session (trade_date_for pid))) (\<lambda>found.
        case found of
          None \<Rightarrow> ret ()
        | Some day \<Rightarrow> bnd (export_day X day) (\<lambda>path. ret ())))
       (\<lambda>_. ret ())"

end
