(* ===== verification/Report_Proofs.thy ===== *)
theory Report_Proofs
  imports Trade_Report "HOL-Library.Multiset"
begin

text \<open>
  The trade report is right: its running totals are the sums over every trade closed so far, they
  carry over to the next day, and exporting can neither fail the exit that triggered it nor change
  anything but the day's own file.
\<close>

section \<open>Running totals\<close>

definition pnl_of :: "nat \<times> position_row \<Rightarrow> decimal" where
  "pnl_of x = (case p_pnl (snd x) of None \<Rightarrow> 0 | Some v \<Rightarrow> v)"

definition gains :: "decimal list \<Rightarrow> decimal" where
  "gains xs = sum_list (map (max 0) xs)"

definition losses :: "decimal list \<Rightarrow> decimal" where
  "losses xs = sum_list (map (\<lambda>x. max 0 (- x)) xs)"

definition earlier_pnls :: "db \<Rightarrow> date \<Rightarrow> decimal list" where
  "earlier_pnls d day = map pnl_of (t_select (\<lambda>p. p_state p = CLOSED \<and> p_date p < day) (d_positions d))"

definition reportable :: "db \<Rightarrow> nat \<times> position_row \<Rightarrow> bool" where
  "reportable d x \<longleftrightarrow> t_get (d_instances d) (p_instance (snd x)) \<noteq> None \<and> p_expiry (snd x) \<noteq> None"

lemma gains_append [simp]: "gains (xs @ ys) = gains xs + gains ys" and gains_Nil [simp]: "gains [] = 0"
  by (simp_all add: gains_def)

lemma losses_append [simp]: "losses (xs @ ys) = losses xs + losses ys" and losses_Nil [simp]: "losses [] = 0"
  by (simp_all add: losses_def)

lemma gains_one [simp]: "gains [x] = (if 0 < x then x else 0)"
  by (simp add: gains_def max_def)

lemma losses_one [simp]: "losses [x] = (if x < 0 then - x else 0)"
  by (simp add: losses_def max_def)

lemma net_is_sum: "gains xs - losses xs = sum_list xs"
  by (induction xs) (auto simp: gains_def losses_def max_def)

lemma opening_is_sum: "opening_cumulative d day = (gains (earlier_pnls d day), losses (earlier_pnls d day))"
proof -
  have "fold (\<lambda>(pid, p) (profit, loss).
         case p_pnl p of
           None \<Rightarrow> (profit, loss)
         | Some x \<Rightarrow> if 0 < x then (profit + x, loss) else if x < 0 then (profit, loss + - x) else (profit, loss))
       xs (a, b) = (a + gains (map pnl_of xs), b + losses (map pnl_of xs))" for xs a b
  proof (induction xs arbitrary: a b)
    case (Cons x xs)
    have one: "gains (v # vs) = gains [v] + gains vs" "losses (v # vs) = losses [v] + losses vs" for v vs
      by (simp_all add: gains_def losses_def)
    show ?case using Cons.IH
      by (cases x) (auto simp: pnl_of_def one [of "case_option _ _ _"] one [of 0] split: option.split)
  qed simp
  from this [of "t_select (\<lambda>p. p_state p = CLOSED \<and> p_date p < day) (d_positions d)" 0 0]
  show ?thesis unfolding opening_cumulative_def earlier_pnls_def by simp
qed

text \<open>
  The rows of one trade when the trades closed so far, itself included, made these amounts; and the
  report of a day written down directly.
\<close>

definition trade_rows :: "db \<Rightarrow> decimal list \<Rightarrow> nat \<times> position_row \<Rightarrow> leg_row list" where
  "trade_rows d so_far x =
     List.map_filter
       (\<lambda>leg. map_option (\<lambda>r. r\<lparr>lr_profit := gains so_far, lr_loss := losses so_far, lr_net := sum_list so_far\<rparr>)
          (leg_row_of (the (t_get (d_instances d) (p_instance (snd x)))) (the (p_expiry (snd x))) (snd x)
             (pnl_of x) 0 0 leg))
       (position_legs d (fst x))"

definition report_of :: "db \<Rightarrow> date \<Rightarrow> leg_row list" where
  "report_of d day =
     (let trades = filter (reportable d) (day_positions d day)
      in concat (map (\<lambda>k. trade_rows d (earlier_pnls d day @ map pnl_of (take (Suc k) trades)) (trades ! k))
           [0..<length trades]))"

lemma leg_row_totals:
  "leg_row_of ins ex p pnl (gains xs) (losses xs) leg =
     map_option (\<lambda>r. r\<lparr>lr_profit := gains xs, lr_loss := losses xs, lr_net := sum_list xs\<rparr>)
       (leg_row_of ins ex p pnl 0 0 leg)"
  by (auto simp: leg_row_of_def net_is_sum split: option.split)

lemma report_step_run:
  "report_step d x (rows, gains xs, losses xs) =
     (if reportable d x
      then (rows @ trade_rows d (xs @ [pnl_of x]) x, gains (xs @ [pnl_of x]), losses (xs @ [pnl_of x]))
      else (rows, gains xs, losses xs))"
proof (cases "reportable d x")
  case True
  obtain pid p where x: "x = (pid, p)" by (metis prod.exhaust)
  obtain ins ex where some: "t_get (d_instances d) (p_instance p) = Some ins" "p_expiry p = Some ex"
    using True by (auto simp: reportable_def x)
  have v: "(case p_pnl p of None \<Rightarrow> 0 | Some v \<Rightarrow> v) = pnl_of x" by (simp add: pnl_of_def x)
  have up: "(if 0 < pnl_of x then gains xs + pnl_of x else gains xs) = gains (xs @ [pnl_of x])"
    "(if pnl_of x < 0 then losses xs + - pnl_of x else losses xs) = losses (xs @ [pnl_of x])"
    by simp_all
  have "report_step d x (rows, gains xs, losses xs) =
      (rows @ List.map_filter (leg_row_of ins ex p (pnl_of x) (gains (xs @ [pnl_of x])) (losses (xs @ [pnl_of x])))
         (position_legs d pid), gains (xs @ [pnl_of x]), losses (xs @ [pnl_of x]))"
    unfolding report_step_def x prod.case some option.case v [unfolded x] Let_def up [unfolded x] ..
  then show ?thesis
    using True unfolding leg_row_totals trade_rows_def by (simp add: x some)
next
  case False
  then show ?thesis by (cases x) (auto simp: report_step_def reportable_def split: option.split)
qed

lemma report_fold:
  "fold (report_step d) ps (rows, gains xs, losses xs) =
     (let trades = filter (reportable d) ps
      in (rows @ concat (map (\<lambda>k. trade_rows d (xs @ map pnl_of (take (Suc k) trades)) (trades ! k)) [0..<length trades]),
          gains (xs @ map pnl_of trades), losses (xs @ map pnl_of trades)))"
proof (induction ps arbitrary: rows xs)
  case (Cons x ps)
  show ?case
  proof (cases "reportable d x")
    case True
    have "[0..<Suc n] = 0 # map Suc [0..<n]" for n by (simp add: upt_conv_Cons map_Suc_upt)
    then show ?thesis
      using Cons.IH [of "rows @ trade_rows d (xs @ [pnl_of x]) x" "xs @ [pnl_of x]"] True
      by (simp add: report_step_run Let_def comp_def del: upt_Suc)
  next
    case False
    then show ?thesis using Cons.IH by (simp add: report_step_run)
  qed
qed simp

text \<open>
  C36: the report adds up. The rows built by the running totals are exactly the rows that show, for
  every completed trade of the day in the order of its exit, the profits, the losses and the net
  result summed directly over all trades closed on earlier days and on this day up to that trade.
\<close>

theorem report_totals_are_sums: "collect_rows day d = report_of d day"
  using report_fold [of d "day_positions d day" "[]" "earlier_pnls d day"]
  by (simp add: collect_rows_def report_of_def opening_is_sum Let_def)

lemma exit_order_mset: "mset (exit_order xs) = mset xs"
proof -
  have "mset (filter P ys) + mset (filter (\<lambda>x. \<not> P x) ys) = mset ys" for P and ys :: "(nat \<times> position_row) list"
    by (induction ys) auto
  from this [of "\<lambda>x. p_exit_done (snd x) \<noteq> None" "sort_key fst xs"]
  show ?thesis by (simp add: exit_order_def Let_def)
qed

lemma sums_mset: "mset xs = mset ys \<Longrightarrow> gains xs = gains ys \<and> losses xs = losses ys"
proof -
  have "sum_list (map f zs) = sum_mset (image_mset f (mset zs))" for f :: "decimal \<Rightarrow> decimal" and zs
    by (metis mset_map sum_mset_sum_list)
  moreover assume "mset xs = mset ys"
  ultimately show ?thesis by (simp add: gains_def losses_def)
qed

lemma sums_partition:
  assumes "\<And>x. x \<in> set xs \<Longrightarrow> R x \<longleftrightarrow> P x \<or> Q x" and "\<And>x. x \<in> set xs \<Longrightarrow> \<not> (P x \<and> Q x)"
  shows "gains (map f (filter R xs)) = gains (map f (filter P xs)) + gains (map f (filter Q xs)) \<and>
    losses (map f (filter R xs)) = losses (map f (filter P xs)) + losses (map f (filter Q xs))"
  using assms
proof (induction xs)
  case (Cons x xs)
  have one: "gains (f x # ys) = gains [f x] + gains ys" "losses (f x # ys) = losses [f x] + losses ys" for ys
    by (simp_all add: gains_def losses_def)
  have "R x \<longleftrightarrow> P x \<or> Q x" "\<not> (P x \<and> Q x)" using Cons.prems by simp_all
  then show ?case using Cons by (auto simp: one [of "map f _"] simp del: gains_one losses_one)
qed simp

text \<open>
  The totals carry over. If every trade closed on a day could be reported and no other day with
  a closed trade lies in between, a later day opens with exactly the totals the day ended with.
\<close>

theorem report_totals_carry_over:
  assumes "day < later" and "list_all (reportable d) (day_positions d day)"
    and "list_all (\<lambda>(pid, p). p_state p = CLOSED \<longrightarrow> p_date p \<le> day \<or> later \<le> p_date p) (d_positions d)"
  shows "opening_cumulative d later =
    snd (fold (report_step d) (day_positions d day)
      ([], fst (opening_cumulative d day), snd (opening_cumulative d day)))"
proof -
  have all: "filter (reportable d) (day_positions d day) = day_positions d day"
    using assms(2) by (simp add: list_all_iff)
  have split: "gains (earlier_pnls d later) =
      gains (earlier_pnls d day) + gains (map pnl_of (t_select (\<lambda>p. p_date p = day \<and> p_state p = CLOSED) (d_positions d))) \<and>
    losses (earlier_pnls d later) =
      losses (earlier_pnls d day) + losses (map pnl_of (t_select (\<lambda>p. p_date p = day \<and> p_state p = CLOSED) (d_positions d)))"
    unfolding earlier_pnls_def t_select_def
    by (rule sums_partition) (use assms(1,3) in \<open>force simp: list_all_iff\<close>)+
  have "mset (map pnl_of (day_positions d day)) =
      mset (map pnl_of (t_select (\<lambda>p. p_date p = day \<and> p_state p = CLOSED) (d_positions d)))"
    by (simp add: day_positions_def exit_order_mset)
  note same = sums_mset [OF this]
  have "snd (fold (report_step d) (day_positions d day) ([], gains (earlier_pnls d day), losses (earlier_pnls d day))) =
      (gains (earlier_pnls d day @ map pnl_of (day_positions d day)),
       losses (earlier_pnls d day @ map pnl_of (day_positions d day)))"
    by (simp add: report_fold all Let_def)
  then show ?thesis unfolding opening_is_sum fst_conv snd_conv using split same by simp
qed

section \<open>Exporting\<close>

lemma find_month_start:
  "m \<le> 12 \<Longrightarrow> days_before_month y m \<le> k \<Longrightarrow> days_before_month y (find_month y m k) \<le> k"
proof (induction y m k rule: find_month.induct)
  case (1 y m k)
  then show ?case by (subst find_month.simps) auto
qed

lemma day_of_range: "1 \<le> day_of n \<and> day_of n \<le> 31"
proof -
  have "days_before_month (year_of n) (month_of n) \<le> n - days_before_year (year_of n)"
    unfolding month_of_def using year_of_bounds [of n]
    by (intro find_month_start) (simp_all add: days_before_month_numeral)
  moreover have "n < days_from_civil (year_of n) (month_of n) 1 + days_in_month (year_of n) (month_of n)"
    using before_next_month [of n] next_month_start_step month_of_range [of n] by simp
  moreover have "days_in_month (year_of n) (month_of n) \<le> 31" by (simp add: days_in_month_def)
  ultimately show ?thesis by (simp add: day_of_def days_from_civil_def)
qed

lemma path_names_day:
  assumes "report_path X a = report_path X b" "0 \<le> year_of a" "year_of a < 10000" "0 \<le> year_of b" "year_of b < 10000"
  shows "a = b"
proof -
  have parts: "pad2 (day_of a) = pad2 (day_of b)" "pad2 (month_of a) = pad2 (month_of b)"
    "pad2 (year_of a div 100) = pad2 (year_of b div 100)" "pad2 (year_of a mod 100) = pad2 (year_of b mod 100)"
    using assms(1) by (simp_all add: report_path_def ddmmyyyy_def pad2_def)
  have "day_of a = day_of b" "month_of a = month_of b"
    using parts(1,2) day_of_range [of a] day_of_range [of b] month_of_range [of a] month_of_range [of b]
    by (auto intro: pad2_inj)
  moreover have "year_of a div 100 = year_of b div 100" "year_of a mod 100 = year_of b mod 100"
    using parts(3,4) assms(2-5) by (auto intro: pad2_inj)
  then have "year_of a = year_of b" by (metis div_mult_mod_eq)
  ultimately show ?thesis by (simp add: day_of_def)
qed

text \<open>A report that is saved without failure, with no other actor.\<close>

text \<open>
  Exporting rewrites one file. When saving works and nobody interferes, exporting a day leaves
  everything but its own file as it was, the file is the report of the day's closed trades, and
  exporting again changes nothing; no other day of the first ten thousand years has the same file.
\<close>

theorem export_rewrites_one_file:
  assumes "\<And>p b f. ex_save X p b f = (f(p \<mapsto> b), Inr ())" and "w_env w = []"
  shows "export_day X day (w, files) =
      ((w, files(report_path X day \<mapsto> workbook_of (report_of (w_db w) day))), Inr (report_path X day)) \<and>
    fst (export_day X day (fst (export_day X day (w, files)))) = fst (export_day X day (w, files)) \<and>
    inj_on (report_path X) {d. 0 \<le> year_of d \<and> year_of d < 10000}"
proof -
  have run: "export_day X day (w, f) =
      ((w, f(report_path X day \<mapsto> workbook_of (report_of (w_db w) day))), Inr (report_path X day))" for f
    by (simp add: export_day_def bnd_def in_world_def read_session_def assms write_workbook_def report_totals_are_sums)
  then show ?thesis by (auto intro: inj_onI path_names_day)
qed

text \<open>What a read leaves of the world, whoever acts meanwhile.\<close>

definition only_others_acted :: "'b world \<Rightarrow> 'b world \<Rightarrow> bool" where
  "only_others_acted w w' \<longleftrightarrow>
     (\<exists>n. w' = w\<lparr>w_env := drop n (w_env w), w_db := fold (\<lambda>e. apply_env e (w_now w)) (take n (w_env w)) (w_db w)\<rparr>)"

lemma others_refl: "only_others_acted w w"
  by (rule exI [of "\<lambda>n. w = w\<lparr>w_env := drop n (w_env w), w_db := fold (\<lambda>e. apply_env e (w_now w)) (take n (w_env w)) (w_db w)\<rparr>" 0,
        folded only_others_acted_def]) simp

lemma others_trans:
  assumes "only_others_acted a b" "only_others_acted b c" shows "only_others_acted a c"
proof -
  obtain m n where b: "b = a\<lparr>w_env := drop m (w_env a), w_db := fold (\<lambda>e. apply_env e (w_now a)) (take m (w_env a)) (w_db a)\<rparr>"
    and c: "c = b\<lparr>w_env := drop n (w_env b), w_db := fold (\<lambda>e. apply_env e (w_now b)) (take n (w_env b)) (w_db b)\<rparr>"
    using assms by (auto simp: only_others_acted_def)
  have "take (m + n) (w_env a) = take m (w_env a) @ take n (drop m (w_env a))" by (rule take_add)
  then show ?thesis unfolding only_others_acted_def
    by (intro exI [of _ "m + n"]) (simp add: c b ac_simps)
qed

lemma read_others:
  "only_others_acted w (fst (read_session f w)) \<and>
   (\<forall>e. snd (read_session f w) = Inl e \<longrightarrow> e = ProcessCrash \<and> EvCrash \<in> set (w_env w) \<or> e = DatabaseError)"
proof (cases "w_env w")
  case Nil
  then show ?thesis by (simp add: read_session_def others_refl)
next
  case (Cons e es)
  have "only_others_acted w (w\<lparr>w_env := es, w_db := apply_env e (w_now w) (w_db w)\<rparr>)"
    unfolding only_others_acted_def by (intro exI [of _ 1]) (simp add: Cons)
  then show ?thesis by (auto simp: read_session_def Cons Let_def)
qed

text \<open>
  C37: the report cannot disturb the exit. Whatever saving a file raises short of the death of the
  process, exporting a closed position never raises: it ends normally unless the process dies while it
  reads, the broker is not called, and the database is changed by nothing but the other actors.
\<close>

theorem report_never_disturbs:
  assumes "\<And>p b f. snd (ex_save X p b f) \<noteq> Inl ProcessCrash"
  shows "case export_closed_position X pid (w, files) of
    ((w', files'), r) \<Rightarrow> only_others_acted w w' \<and> (r = Inr () \<or> r = Inl ProcessCrash \<and> EvCrash \<in> set (w_env w))"
proof -
  obtain w1 r1 where one: "read_session (trade_date_for pid) w = (w1, r1)" by (metis prod.exhaust)
  have w1: "only_others_acted w w1" and e1: "r1 = Inl e \<Longrightarrow> e = ProcessCrash \<and> EvCrash \<in> set (w_env w) \<or> e = DatabaseError" for e
    using read_others [of w "trade_date_for pid"] by (simp_all add: one)
  note run = export_closed_position_def export_day_def catch_if_def bnd_def in_world_def ret_def one
  show ?thesis
  proof (cases r1)
    case (Inl e)
    then show ?thesis using w1 e1 by (auto simp: run is_exception_def)
  next
    case (Inr found)
    show ?thesis
    proof (cases found)
      case None
      then show ?thesis using w1 Inr by (simp add: run)
    next
      case (Some day)
      obtain w2 r2 where two: "read_session (collect_rows day) w1 = (w2, r2)" by (metis prod.exhaust)
      have w2: "only_others_acted w1 w2"
        and e2: "r2 = Inl e \<Longrightarrow> e = ProcessCrash \<and> EvCrash \<in> set (w_env w1) \<or> e = DatabaseError" for e
        using read_others [of w1 "collect_rows day"] by (simp_all add: two)
      have env: "set (w_env w1) \<subseteq> set (w_env w)"
        using w1 by (auto simp: only_others_acted_def dest: in_set_dropD)
      show ?thesis
      proof (cases r2)
        case (Inl e)
        then show ?thesis using others_trans [OF w1 w2] e2 env Inr Some by (auto simp: run two is_exception_def)
      next
        case rows: (Inr rows)
        obtain f r3 where save: "ex_save X (report_path X day) (workbook_of rows) files = (f, r3)" by (metis prod.exhaust)
        have "r3 \<noteq> Inl ProcessCrash" using assms [of "report_path X day" "workbook_of rows" files] by (simp add: save)
        then show ?thesis using others_trans [OF w1 w2] rows Inr Some
          by (auto simp: run two write_workbook_def save is_exception_def split: sum.split)
      qed
    qed
  qed
qed

section \<open>Concrete reports\<close>

definition report_db :: db where
  "report_db = empty_db\<lparr>
     d_instances := [(1, \<lparr>si_strategy = ''strategy_1'', si_instrument = ''NIFTY'', si_account = 1, si_exchange = NFO,
       si_status = IS_ACTIVE, si_version = 1\<rparr>)],
     d_positions := [(1, \<lparr>p_instance = 1, p_date = 20000, p_state = CLOSED, p_expiry = Some 20001, p_strike = Some 24200,
       p_interval = Some 50, p_lots = Some 1, p_lot_size = Some 75, p_quantity = Some 75, p_spot = None,
       p_target_pct = None, p_sl_pct = None, p_entry_premium = Some 200, p_target = None, p_stoploss = None,
       p_exit_premium = Some 180, p_exit_reason = Some TARGET, p_pnl = Some 1500, p_entry_signal = None,
       p_entry_done = None, p_exit_signal = None, p_exit_done = Some 9, p_error = None, p_recon = False, p_version = 1\<rparr>)]\<rparr>"

definition map_exporter :: exporter where
  "map_exporter = \<lparr>ex_dir = ''reports'', ex_save = (\<lambda>p b f. (f(p \<mapsto> b), Inr ()))\<rparr>"

definition report_world :: "env_event list \<Rightarrow> unit world" where
  "report_world es = \<lparr>w_db = report_db, w_bk = (), w_now = 1000, w_env = es, w_exit_lock = False\<rparr>"

theorem carry_over_witness:
  "snd (fold (report_step report_db) (day_positions report_db 20000)
      ([], fst (opening_cumulative report_db 20000), snd (opening_cumulative report_db 20000))) = (1500, 0)"
proof -
  have ok: "list_all (reportable report_db) (day_positions report_db 20000)"
    "list_all (\<lambda>(pid, p). p_state p = CLOSED \<longrightarrow> p_date p \<le> 20000 \<or> 20002 \<le> p_date p) (d_positions report_db)"
    "opening_cumulative report_db 20002 = (1500, 0)"
    by code_simp+
  show ?thesis using report_totals_carry_over [OF _ ok(1,2)] ok(3) by simp
qed

theorem export_witness:
  "export_day map_exporter 20000 (report_world [], Map.empty) =
     ((report_world [], [report_path map_exporter 20000 \<mapsto> workbook_of (report_of report_db 20000)]),
      Inr (report_path map_exporter 20000))"
  using export_rewrites_one_file [where X = map_exporter and w = "report_world []" and day = 20000 and files = Map.empty]
  by (simp add: map_exporter_def report_world_def)

theorem report_disturbs_witness:
  "case export_closed_position map_exporter 1 (report_world [EvDbFail], Map.empty) of ((w', files'), r) \<Rightarrow> r = Inr ()"
  using report_never_disturbs [where X = map_exporter and pid = 1 and w = "report_world [EvDbFail]" and files = Map.empty]
  by (auto simp: map_exporter_def report_world_def split: prod.splits)

end
