(* ===== verification/Monitor_Log.thy ===== *)
theory Monitor_Log
  imports Trade_Report Exit
begin

text \<open>
  \<open>logging/strategy\_logger.py\<close> and \<open>logging/alerting.py\<close>: the log of a monitored position, which is
  throttled, keeps the best and the worst result seen and reports changes of the connection, and the
  bounded history of alerts. The lines are kept as labels with their text; a time that Python prints
  with its zone is kept as it is, and separator lines are left out. What the clock, the connection
  and the spot price answer during a call is an argument of it.
\<close>

section \<open>Formatting\<close>

text \<open>\<open>f"\{value:.2f\}"\<close>.\<close>

definition fixed2 :: "decimal \<Rightarrow> string" where
  "fixed2 x =
     (let n = nat (round_half_even (\<bar>x\<bar> * 100))
      in (if x < 0 then ''-'' else []) @ nat_digits (n div 100) @ ''.'' @ pad2 (int (n mod 100)))"

definition fmt_money :: "decimal option \<Rightarrow> string" where
  "fmt_money v = (case v of None \<Rightarrow> ''n/a'' | Some x \<Rightarrow> (if 0 \<le> x then ''+'' else []) @ fixed2 x)"

definition fmt_pct :: "decimal option \<Rightarrow> string" where
  "fmt_pct v = (case v of None \<Rightarrow> ''n/a'' | Some x \<Rightarrow> (if 0 \<le> x then ''+'' else []) @ fixed2 x @ ''%'')"

definition fmt_price :: "decimal option \<Rightarrow> string" where
  "fmt_price v = (case v of None \<Rightarrow> ''n/a'' | Some x \<Rightarrow> fixed2 x)"

definition fmt_holding :: "int \<Rightarrow> string" where
  "fmt_holding micros =
     (let total = truncate_dec (of_int micros / 1000000)
      in int_text (total div 3600) @ ''h '' @ int_text (total mod 3600 div 60) @ ''m '' @ int_text (total mod 60) @ ''s'')"

fun reason_label :: "exit_reason \<Rightarrow> string" where
  "reason_label TIMEOUT = ''CUTOFF''"
| "reason_label TARGET = ''TARGET''"
| "reason_label STOPLOSS = ''STOPLOSS''"
| "reason_label ER_KILL_SWITCH = ''KILL_SWITCH''"
| "reason_label ER_MANUAL = ''MANUAL''"
| "reason_label ER_ERROR = ''ERROR''"

section \<open>The log of one position\<close>

datatype shown = Txt string | Stamp "dt option"

datatype log_entry =
    LgCycle dt "(string \<times> shown) list"
  | LgClosed "(string \<times> shown) list"
  | LgRestored
  | LgLost

record position_snapshot =
  ps_position :: nat
  ps_strike :: "decimal option"
  ps_expiry :: "date option"
  ps_quantity :: "int option"
  ps_call :: string
  ps_put :: string
  ps_entry_premium :: "decimal option"
  ps_entry_time :: "dt option"
  ps_lot_size :: "int option"
  ps_cycle :: nat
  ps_last_log :: "dt option"
  ps_connected :: "bool option"
  ps_high :: "decimal option"
  ps_low :: "decimal option"

record monitor_logger =
  ml_identity :: identity
  ml_interval :: int
  ml_snapshot :: "position_snapshot option"
  ml_out :: "log_entry list"

text \<open>What a call can ask: the clock, the connection (twice) and the spot price, if there is a provider.\<close>

record surroundings =
  sr_now :: "exn + dt"
  sr_connected :: "exn + bool"
  sr_connected2 :: "exn + bool"
  sr_spot :: "(exn + decimal) option"

definition safe_connected :: "exn + bool \<Rightarrow> bool" where
  "safe_connected r = (case r of Inl e \<Rightarrow> False | Inr b \<Rightarrow> b)"

definition safe_spot :: "(exn + decimal) option \<Rightarrow> decimal option" where
  "safe_spot r = (case r of None \<Rightarrow> None | Some (Inl e) \<Rightarrow> None | Some (Inr x) \<Rightarrow> Some x)"

definition snap_pnl :: "position_snapshot \<Rightarrow> decimal option \<Rightarrow> decimal option" where
  "snap_pnl s combined =
     (case (ps_entry_premium s, combined, ps_quantity s) of
        (Some entry, Some c, Some q) \<Rightarrow> Some ((entry - c) * of_int q)
      | _ \<Rightarrow> None)"

text \<open>A quantity of zero divides by zero.\<close>

definition snap_pnl_pct :: "position_snapshot \<Rightarrow> decimal option \<Rightarrow> exn + decimal option" where
  "snap_pnl_pct s pnl =
     (case (pnl, ps_entry_premium s, ps_quantity s) of
        (Some p, Some entry, Some q) \<Rightarrow>
          if entry = 0 then Inr None
          else if q = 0 then Inl ValueError
          else Inr (Some (dec_div p (entry * of_int q) * 100))
      | _ \<Rightarrow> Inr None)"

definition track_pnl :: "decimal option \<Rightarrow> position_snapshot \<Rightarrow> position_snapshot" where
  "track_pnl pnl s =
     (case pnl of
        None \<Rightarrow> s
      | Some x \<Rightarrow>
          s\<lparr>ps_high := (case ps_high s of None \<Rightarrow> Some x | Some h \<Rightarrow> Some (max h x)),
            ps_low := (case ps_low s of None \<Rightarrow> Some x | Some l \<Rightarrow> Some (min l x))\<rparr>)"

definition log_transition :: "bool \<Rightarrow> position_snapshot \<Rightarrow> position_snapshot \<times> log_entry list" where
  "log_transition up s =
     (case ps_connected s of
        None \<Rightarrow> (s\<lparr>ps_connected := Some up\<rparr>, [])
      | Some before \<Rightarrow>
          if up = before then (s, [])
          else (s\<lparr>ps_connected := Some up\<rparr>, [if up then LgRestored else LgLost]))"

record cycle_view =
  cv_premium :: "decimal option"
  cv_call :: "decimal option"
  cv_put :: "decimal option"
  cv_target :: "decimal option"
  cv_stoploss :: "decimal option"
  cv_last_tick :: "dt option"
  cv_source :: string

definition target_hit :: "cycle_view \<Rightarrow> bool" where
  "target_hit v = (case (cv_target v, cv_premium v) of (Some t, Some c) \<Rightarrow> c \<le> t | _ \<Rightarrow> False)"

definition stoploss_hit :: "cycle_view \<Rightarrow> bool" where
  "stoploss_hit v = (case (cv_stoploss v, cv_premium v) of (Some l, Some c) \<Rightarrow> l \<le> c | _ \<Rightarrow> False)"

definition opt_text :: "('a \<Rightarrow> string) \<Rightarrow> 'a option \<Rightarrow> string" where
  "opt_text f x = (case x of None \<Rightarrow> ''None'' | Some y \<Rightarrow> f y)"

definition who_text :: "identity \<Rightarrow> string" where
  "who_text who = id_strategy who @ ''/'' @ id_instrument who"

definition cycle_lines ::
    "identity \<Rightarrow> position_snapshot \<Rightarrow> dt \<Rightarrow> decimal option \<Rightarrow> bool \<Rightarrow> decimal option \<Rightarrow> decimal option \<Rightarrow> cycle_view \<Rightarrow>
     (string \<times> shown) list" where
  "cycle_lines who s t spot up pnl pct v =
     [(''Strategy'', Txt (who_text who)), (''Time'', Txt (format_time_ist t)),
      (''Cycle'', Txt (''#'' @ nat_digits (ps_cycle s))),
      (''Position ID'', Txt (nat_digits (ps_position s))), (''Strike'', Txt (fmt_price (ps_strike s))),
      (''Expiry'', Txt (opt_text isoformat (ps_expiry s))), (''Quantity'', Txt (opt_text int_text (ps_quantity s))),
      (''Underlying Spot'', Txt (fmt_price spot)),
      (''CALL Symbol'', Txt (ps_call s)), (''CALL LTP'', Txt (fmt_price (cv_call v))),
      (''PUT Symbol'', Txt (ps_put s)), (''PUT LTP'', Txt (fmt_price (cv_put v))),
      (''Combined Premium'', Txt (fmt_price (cv_premium v))), (''Entry Premium'', Txt (fmt_price (ps_entry_premium s))),
      (''Target Premium'', Txt (fmt_price (cv_target v))), (''Stoploss Premium'', Txt (fmt_price (cv_stoploss v))),
      (''Current P&L (Rs)'', Txt (fmt_money pnl)), (''Current P&L (%)'', Txt (fmt_pct pct)),
      (''Target Hit'', Txt (if target_hit v then ''YES'' else ''NO'')),
      (''Stoploss Hit'', Txt (if stoploss_hit v then ''YES'' else ''NO'')),
      (''Last Tick'', case cv_last_tick v of None \<Rightarrow> Txt ''never'' | Some t \<Rightarrow> Stamp (Some t)),
      (''WebSocket Status'', Txt (if up then ''CONNECTED'' else ''DISCONNECTED'')),
      (''Price Source'', Txt (cv_source v))]"

definition log_cycle_block ::
    "identity \<Rightarrow> position_snapshot \<Rightarrow> dt \<Rightarrow> surroundings \<Rightarrow> cycle_view \<Rightarrow> exn + log_entry" where
  "log_cycle_block who s t e v =
     (let pnl = snap_pnl s (cv_premium v)
      in case snap_pnl_pct s pnl of
           Inl x \<Rightarrow> Inl x
         | Inr pct \<Rightarrow>
             Inr (LgCycle t (cycle_lines who s t (safe_spot (sr_spot e)) (safe_connected (sr_connected2 e)) pnl pct v)))"

subsection \<open>The operations\<close>

definition log_attach :: "position_snapshot \<Rightarrow> surroundings \<Rightarrow> monitor_logger \<Rightarrow> monitor_logger" where
  "log_attach s e m =
     m\<lparr>ml_snapshot := Some (s\<lparr>ps_cycle := 0, ps_last_log := None,
         ps_connected := Some (safe_connected (sr_connected e)), ps_high := None, ps_low := None\<rparr>)\<rparr>"

text \<open>Whatever raises after the extremes were tracked ends the call without a block.\<close>

definition log_cycle :: "cycle_view \<Rightarrow> surroundings \<Rightarrow> monitor_logger \<Rightarrow> monitor_logger" where
  "log_cycle v e m =
     (case ml_snapshot m of
        None \<Rightarrow> m
      | Some s0 \<Rightarrow>
          (case log_transition (safe_connected (sr_connected e)) (s0\<lparr>ps_cycle := ps_cycle s0 + 1\<rparr>) of
             (s1, lines) \<Rightarrow>
               (let s2 = track_pnl (snap_pnl s1 (cv_premium v)) s1;
                    m2 = m\<lparr>ml_snapshot := Some s2, ml_out := ml_out m @ lines\<rparr>
                in case sr_now e of
                     Inl x \<Rightarrow> m2
                   | Inr t \<Rightarrow>
                       if (case ps_last_log s2 of None \<Rightarrow> False | Some before \<Rightarrow> t - before < ml_interval m) then m2
                       else
                         (let s3 = s2\<lparr>ps_last_log := Some t\<rparr>
                          in m2\<lparr>ml_snapshot := Some s3,
                               ml_out := ml_out m @ lines @
                                 (case log_cycle_block (ml_identity m) s3 t e v of Inl x \<Rightarrow> [] | Inr b \<Rightarrow> [b])\<rparr>))))"

definition closed_lines ::
    "identity \<Rightarrow> position_snapshot \<Rightarrow> exit_reason \<Rightarrow> decimal option \<Rightarrow> dt option \<Rightarrow> decimal option \<Rightarrow> (string \<times> shown) list" where
  "closed_lines who s reason premium exit_time realized =
     [(''Strategy'', Txt (who_text who)), (''Position ID'', Txt (nat_digits (ps_position s))),
      (''Reason'', Txt (reason_label reason)), (''Entry Time'', Stamp (ps_entry_time s)), (''Exit Time'', Stamp exit_time),
      (''Entry Premium'', Txt (fmt_price (ps_entry_premium s))), (''Exit Premium'', Txt (fmt_price premium)),
      (''Maximum Profit Seen (Rs)'', Txt (fmt_money (ps_high s))), (''Maximum Loss Seen (Rs)'', Txt (fmt_money (ps_low s))),
      (''Total P&L (Rs)'', Txt (fmt_money realized)),
      (''P&L Per Share (Rs)'', Txt (fmt_money (pnl_per_share realized (ps_lot_size s)))),
      (''Holding Time'',
        Txt (case (exit_time, ps_entry_time s) of (Some x, Some n) \<Rightarrow> fmt_holding (x - n) | _ \<Rightarrow> ''n/a''))]"

definition log_close ::
    "exit_reason \<Rightarrow> decimal option \<Rightarrow> dt option \<Rightarrow> decimal option \<Rightarrow> monitor_logger \<Rightarrow> monitor_logger" where
  "log_close reason premium exit_time realized m =
     (case ml_snapshot m of
        None \<Rightarrow> m
      | Some s0 \<Rightarrow>
          (let s = track_pnl (snap_pnl s0 premium) s0
           in m\<lparr>ml_snapshot := None,
                ml_out := ml_out m @ [LgClosed (closed_lines (ml_identity m) s reason premium exit_time realized)]\<rparr>))"

section \<open>Alerts (alerting.py)\<close>

record alert_event =
  av_level :: nat
  av_logger :: string
  av_message :: string
  av_at :: dt

text \<open>A level is its number. A \<open>deque\<close> of bounded length drops the oldest entries.\<close>

record alert_recorder =
  ar_max :: nat
  ar_history :: "alert_event list"

definition alert_dispatch :: "alert_event \<Rightarrow> alert_recorder \<Rightarrow> alert_recorder" where
  "alert_dispatch a d =
     (let h = ar_history d @ [a] in d\<lparr>ar_history := drop (length h - ar_max d) h\<rparr>)"

definition alert_count :: "alert_recorder \<Rightarrow> nat" where
  "alert_count d = length (ar_history d)"

text \<open>
  A record of the log passes the handler from its threshold on; the dispatcher logs each alert again
  as a warning, which passes the handler again.
\<close>

definition alert_level_warning :: nat where
  "alert_level_warning = 30"

definition alert_level_critical :: nat where
  "alert_level_critical = 50"

definition reemitted :: "alert_event \<Rightarrow> alert_event" where
  "reemitted a = a\<lparr>av_level := alert_level_warning, av_logger := ''algo.alerts''\<rparr>"

fun handle_records :: "nat \<Rightarrow> nat \<Rightarrow> alert_event list \<Rightarrow> alert_recorder \<Rightarrow> alert_recorder option" where
  "handle_records fuel threshold [] d = Some d"
| "handle_records 0 threshold (a # as) d = None"
| "handle_records (Suc fuel) threshold (a # as) d =
     (if av_level a < threshold then handle_records fuel threshold as d
      else handle_records fuel threshold (reemitted a # as) (alert_dispatch a d))"

end
