(* ===== verification/Log_Proofs.thy ===== *)
theory Log_Proofs
  imports Monitor_Log
begin

text \<open>
  What the log of a position shows is what happened: blocks are spaced, the extremes are those of the
  whole run, every change of the connection is reported once, the hits it displays are the ones the
  exit decision acts on; and the alert history holds the latest alerts, without recursion.
\<close>

section \<open>The log of a position\<close>

fun block_time :: "log_entry \<Rightarrow> dt list" where
  "block_time (LgCycle t ls) = [t]"
| "block_time x = []"

fun change_of :: "log_entry \<Rightarrow> bool list" where
  "change_of LgRestored = [True]"
| "change_of LgLost = [False]"
| "change_of x = []"

definition best :: "decimal list \<Rightarrow> decimal option" where
  "best xs = (if xs = [] then None else Some (Max (set xs)))"

definition worst :: "decimal list \<Rightarrow> decimal option" where
  "worst xs = (if xs = [] then None else Some (Min (set xs)))"

definition seen_pnls :: "position_snapshot \<Rightarrow> (cycle_view \<times> surroundings) list \<Rightarrow> decimal list" where
  "seen_pnls s calls = concat (map (\<lambda>(v, e). case snap_pnl s (cv_premium v) of None \<Rightarrow> [] | Some x \<Rightarrow> [x]) calls)"

lemma best_snoc: "best (xs @ [x]) = (case best xs of None \<Rightarrow> Some x | Some h \<Rightarrow> Some (max h x))"
  by (cases "xs = []") (auto simp: best_def max.commute)

lemma worst_snoc: "worst (xs @ [x]) = (case worst xs of None \<Rightarrow> Some x | Some h \<Rightarrow> Some (min h x))"
  by (cases "xs = []") (auto simp: worst_def min.commute)

text \<open>What holds of the logger of the position \<open>s\<close> after the calls.\<close>

definition logged ::
    "position_snapshot \<Rightarrow> bool \<Rightarrow> monitor_logger \<Rightarrow> (cycle_view \<times> surroundings) list \<Rightarrow> log_entry list \<Rightarrow> monitor_logger \<Rightarrow> bool" where
  "logged s up m calls lines M \<longleftrightarrow>
     (\<exists>snap. M = m\<lparr>ml_snapshot := Some snap, ml_out := ml_out m @ lines\<rparr> \<and>
        ps_entry_premium snap = ps_entry_premium s \<and> ps_quantity snap = ps_quantity s \<and>
        ps_cycle snap = length calls \<and>
        ps_high snap = best (seen_pnls s calls) \<and> ps_low snap = worst (seen_pnls s calls) \<and>
        sorted_wrt (\<lambda>a b. a + ml_interval m \<le> b) (concat (map block_time lines)) \<and>
        (\<forall>t \<in> set (concat (map block_time lines)). \<exists>u. ps_last_log snap = Some u \<and> t \<le> u) \<and>
        ps_connected snap = Some (last (up # map (\<lambda>(v, e). safe_connected (sr_connected e)) calls)) \<and>
        up # concat (map change_of lines) = remdups_adj (up # map (\<lambda>(v, e). safe_connected (sr_connected e)) calls))"

lemma pnl_cong:
  "ps_entry_premium a = ps_entry_premium b \<Longrightarrow> ps_quantity a = ps_quantity b \<Longrightarrow> snap_pnl a x = snap_pnl b x"
  by (simp add: snap_pnl_def)

lemma logged_step:
  assumes nonneg: "0 \<le> ml_interval m" and ok: "logged s up m calls lines M"
  shows "\<exists>more. logged s up m (calls @ [(v, e)]) (lines @ more) (log_cycle v e M)"
proof -
  obtain snap where M: "M = m\<lparr>ml_snapshot := Some snap, ml_out := ml_out m @ lines\<rparr>"
    and same: "ps_entry_premium snap = ps_entry_premium s" "ps_quantity snap = ps_quantity s"
    and n: "ps_cycle snap = length calls"
    and ext: "ps_high snap = best (seen_pnls s calls)" "ps_low snap = worst (seen_pnls s calls)"
    and sorted: "sorted_wrt (\<lambda>a b. a + ml_interval m \<le> b) (concat (map block_time lines))"
    and last: "\<And>t. t \<in> set (concat (map block_time lines)) \<Longrightarrow> \<exists>u. ps_last_log snap = Some u \<and> t \<le> u"
    and con: "ps_connected snap = Some (last (up # map (\<lambda>(v, e). safe_connected (sr_connected e)) calls))"
    and chg: "up # concat (map change_of lines) = remdups_adj (up # map (\<lambda>(v, e). safe_connected (sr_connected e)) calls)"
    using ok unfolding logged_def by blast
  define c where "c = safe_connected (sr_connected e)"
  define b where "b = last (up # map (\<lambda>(v, e). safe_connected (sr_connected e)) calls)"
  define change where "change = (if c = b then [] else [if c then LgRestored else LgLost])"
  define s1 where "s1 = snap\<lparr>ps_cycle := Suc (ps_cycle snap), ps_connected := Some c\<rparr>"
  define s2 where "s2 = track_pnl (snap_pnl s1 (cv_premium v)) s1"
  have tr: "log_transition c (snap\<lparr>ps_cycle := Suc (ps_cycle snap)\<rparr>) = (s1, change)"
    using con by (auto simp: log_transition_def s1_def change_def b_def)
  have pnl: "snap_pnl s1 (cv_premium v) = snap_pnl s (cv_premium v)"
    by (rule pnl_cong) (simp_all add: s1_def same)
  have s2: "ps_entry_premium s2 = ps_entry_premium s" "ps_quantity s2 = ps_quantity s"
    "ps_cycle s2 = length (calls @ [(v, e)])" "ps_last_log s2 = ps_last_log snap" "ps_connected s2 = Some c"
    by (simp_all add: s2_def s1_def track_pnl_def same n split: option.split)
  have ext2: "ps_high s2 = best (seen_pnls s (calls @ [(v, e)]))" "ps_low s2 = worst (seen_pnls s (calls @ [(v, e)]))"
    using ext unfolding s2_def pnl
    by (auto simp: track_pnl_def seen_pnls_def best_snoc worst_snoc s1_def split: option.split)
  have obs: "map (\<lambda>(v, e). safe_connected (sr_connected e)) (calls @ [(v, e)]) =
      map (\<lambda>(v, e). safe_connected (sr_connected e)) calls @ [c]"
    by (simp add: c_def)
  have adj: "remdups_adj (xs @ [c]) = remdups_adj xs @ (if c = last xs then [] else [c])" if "xs \<noteq> []" for xs
    using that remdups_adj_append_two [of "butlast xs" "last xs" c] by (cases xs rule: rev_cases) auto
  have chg2: "up # concat (map change_of (lines @ change @ bl)) =
      remdups_adj (up # map (\<lambda>(v, e). safe_connected (sr_connected e)) (calls @ [(v, e)]))"
    if "concat (map change_of bl) = []" for bl
  proof -
    let ?obs = "up # map (\<lambda>(v, e). safe_connected (sr_connected e)) calls"
    have one: "concat (map change_of change) = (if c = last ?obs then [] else [c])"
      by (simp add: change_def b_def)
    have "up # concat (map change_of (lines @ change @ bl)) = (up # concat (map change_of lines)) @ concat (map change_of change)"
      unfolding map_append concat_append that by simp
    also have "\<dots> = remdups_adj (?obs @ [c])" unfolding chg one by (rule adj [symmetric]) simp
    finally show ?thesis unfolding obs by simp
  qed
  have times: "concat (map block_time change) = []" by (simp add: change_def)
  have con2: "Some c = Some (last (up # map (\<lambda>(v, e). safe_connected (sr_connected e)) (calls @ [(v, e)])))"
    unfolding obs by simp
  have quiet: "logged s up m (calls @ [(v, e)]) (lines @ change)
      (m\<lparr>ml_snapshot := Some s2, ml_out := ml_out m @ lines @ change\<rparr>)"
    unfolding logged_def
  proof (intro exI [of _ s2] conjI)
    show "sorted_wrt (\<lambda>a b. a + ml_interval m \<le> b) (concat (map block_time (lines @ change)))"
      using sorted unfolding map_append concat_append times append_Nil2 .
    show "\<forall>u \<in> set (concat (map block_time (lines @ change))). \<exists>w. ps_last_log s2 = Some w \<and> u \<le> w"
      using last s2(4) unfolding map_append concat_append times append_Nil2 by simp
    show "up # concat (map change_of (lines @ change)) =
        remdups_adj (up # map (\<lambda>(v, e). safe_connected (sr_connected e)) (calls @ [(v, e)]))"
      using chg2 [of "[]"] by simp
  qed (use s2 ext2 con2 in simp_all)
  show ?thesis
  proof (cases "sr_now e")
    case (Inl x)
    then have "log_cycle v e M = m\<lparr>ml_snapshot := Some s2, ml_out := ml_out m @ lines @ change\<rparr>"
      by (simp add: log_cycle_def M c_def [symmetric] tr s2_def [symmetric] Let_def)
    then show ?thesis using quiet by auto
  next
    case (Inr t)
    show ?thesis
    proof (cases "case ps_last_log s2 of None \<Rightarrow> False | Some before \<Rightarrow> t - before < ml_interval m")
      case True
      then have "log_cycle v e M = m\<lparr>ml_snapshot := Some s2, ml_out := ml_out m @ lines @ change\<rparr>"
        by (simp add: log_cycle_def M c_def [symmetric] tr s2_def [symmetric] Let_def Inr cong: option.case_cong)
      then show ?thesis using quiet by auto
    next
      case False
      define s3 where "s3 = s2\<lparr>ps_last_log := Some t\<rparr>"
      define bl where "bl = (case log_cycle_block (ml_identity m) s3 t e v of Inl x \<Rightarrow> [] | Inr b \<Rightarrow> [b])"
      have bl: "bl = [] \<or> (\<exists>ls. bl = [LgCycle t ls])"
        by (auto simp: bl_def log_cycle_block_def Let_def split: sum.split)
      have later: "u + ml_interval m \<le> t" if "u \<in> set (concat (map block_time lines))" for u
        using last [OF that] False s2(4) by auto
      have "log_cycle v e M = m\<lparr>ml_snapshot := Some s3, ml_out := ml_out m @ lines @ change @ bl\<rparr>"
        using False by (simp add: log_cycle_def M c_def [symmetric] tr s2_def [symmetric] Let_def Inr s3_def bl_def cong: option.case_cong)
      moreover have "logged s up m (calls @ [(v, e)]) (lines @ change @ bl)
          (m\<lparr>ml_snapshot := Some s3, ml_out := ml_out m @ lines @ change @ bl\<rparr>)"
        unfolding logged_def
      proof (intro exI [of _ s3] conjI)
        show "sorted_wrt (\<lambda>a b. a + ml_interval m \<le> b) (concat (map block_time (lines @ change @ bl)))"
          using bl
        proof
          assume "bl = []"
          then show ?thesis using sorted unfolding map_append concat_append times by simp
        next
          assume "\<exists>ls. bl = [LgCycle t ls]"
          then have "concat (map block_time bl) = [t]" by auto
          then show ?thesis using sorted later unfolding map_append concat_append times append_Nil
            by (simp add: sorted_wrt_append del: set_concat)
        qed
        show "\<forall>u \<in> set (concat (map block_time (lines @ change @ bl))). \<exists>w. ps_last_log s3 = Some w \<and> u \<le> w"
          using bl later nonneg unfolding map_append concat_append times append_Nil by (fastforce simp: s3_def)
        show "up # concat (map change_of (lines @ change @ bl)) =
            remdups_adj (up # map (\<lambda>(v, e). safe_connected (sr_connected e)) (calls @ [(v, e)]))"
          using bl by (intro chg2) auto
      qed (use s2 ext2 con2 in \<open>simp_all add: s3_def\<close>)
      ultimately show ?thesis by auto
    qed
  qed
qed

text \<open>
  The log of a position is true to its run. After any calls, whatever the clock, the feed and the
  spot provider answered: two blocks are never closer than the configured interval, the best and the
  worst result are those over all cycles that had a price, logged or not, and the reported changes of
  the connection are exactly the changes between consecutive observations.
\<close>

theorem log_is_true_to_the_run:
  assumes "0 \<le> ml_interval m"
  shows "\<exists>lines. logged s (safe_connected (sr_connected e0)) m calls lines
    (fold (\<lambda>(v, e). log_cycle v e) calls (log_attach s e0 m))"
proof (induction calls rule: rev_induct)
  case Nil
  show ?case
    unfolding logged_def
    by (rule exI [of _ "[]"], rule exI [of _ "s\<lparr>ps_cycle := 0, ps_last_log := None,
          ps_connected := Some (safe_connected (sr_connected e0)), ps_high := None, ps_low := None\<rparr>"])
      (simp add: log_attach_def best_def worst_def seen_pnls_def)
next
  case (snoc x calls)
  obtain v e where x: "x = (v, e)" by (metis prod.exhaust)
  show ?case using snoc logged_step [OF assms] unfolding x by fastforce
qed

text \<open>
  The hits the log displays are the ones the exit acts on. Before the cutoff and without a kill
  switch, the exit decision is stop-loss exactly when the block shows the stop-loss as hit, and target
  exactly when it shows the target as hit and the stop-loss not.
\<close>

theorem displayed_hits_decide:
  assumes "time < cutoff"
  shows "(ed_reason (evaluate_exit time cutoff False (cv_premium v) (cv_target v) (cv_stoploss v)) = Some STOPLOSS \<longleftrightarrow>
      stoploss_hit v) \<and>
    (ed_reason (evaluate_exit time cutoff False (cv_premium v) (cv_target v) (cv_stoploss v)) = Some TARGET \<longleftrightarrow>
      target_hit v \<and> \<not> stoploss_hit v)"
  using assms by (auto simp: evaluate_exit_def stoploss_hit_def target_hit_def split: option.split)

section \<open>Alerts\<close>

definition latest :: "nat \<Rightarrow> 'a list \<Rightarrow> 'a list" where
  "latest n xs = drop (length xs - n) xs"

lemma latest_latest: "latest n (latest n xs @ ys) = latest n (xs @ ys)"
proof -
  have "latest n xs @ ys = drop (length xs - n) (xs @ ys)" by (simp add: latest_def)
  moreover have "length xs - n + (length xs - (length xs - n) + length ys - n) = length xs + length ys - n"
    "length xs - n + (length xs + length ys - (length xs - n) - n) = length xs + length ys - n"
    by simp_all
  ultimately show ?thesis unfolding latest_def by (simp only: drop_drop length_drop length_append add.commute)
qed

lemma dispatch_latest: "alert_dispatch a d = d\<lparr>ar_history := latest (ar_max d) (ar_history d @ [a])\<rparr>"
  by (simp add: alert_dispatch_def latest_def Let_def)

lemma handled:
  assumes "alert_level_warning < threshold"
  shows "handle_records (2 * length as) threshold as (d\<lparr>ar_history := latest (ar_max d) xs\<rparr>) =
    Some (d\<lparr>ar_history := latest (ar_max d) (xs @ filter (\<lambda>a. threshold \<le> av_level a) as)\<rparr>)"
proof (induction as arbitrary: xs)
  case (Cons a as)
  have more: "handle_records (Suc n) threshold as d = Some r" if "handle_records n threshold as d = Some r"
    for n and as :: "alert_event list" and d r
    using that by (induction n threshold as d rule: handle_records.induct) (auto split: if_splits)
  show ?case
  proof (cases "av_level a < threshold")
    case True
    then show ?thesis using more [OF Cons.IH] by simp
  next
    case False
    have "alert_dispatch a (d\<lparr>ar_history := latest (ar_max d) xs\<rparr>) = d\<lparr>ar_history := latest (ar_max d) (xs @ [a])\<rparr>"
      by (simp add: dispatch_latest latest_latest)
    then show ?thesis using False assms Cons.IH [of "xs @ [a]"] by (simp add: reemitted_def)
  qed
qed (simp add: latest_def)

text \<open>
  Alerts end and are bounded. With a threshold above warnings every record is handled in at most
  two steps and the history holds exactly the latest records at or above the threshold, as many as it
  may; with a threshold that admits warnings, the first alert would be handled for ever.
\<close>

theorem alerts_are_bounded:
  assumes "alert_level_warning < threshold"
  shows "handle_records (2 * length as) threshold as \<lparr>ar_max = n, ar_history = []\<rparr> =
      Some \<lparr>ar_max = n, ar_history = latest n (filter (\<lambda>a. threshold \<le> av_level a) as)\<rparr>"
  using handled [OF assms, of as "\<lparr>ar_max = n, ar_history = []\<rparr>" "[]"] by (simp add: latest_def)

lemma low_threshold_recurses:
  "threshold \<le> alert_level_warning \<Longrightarrow> threshold \<le> av_level a \<Longrightarrow> handle_records fuel threshold (a # as) d = None"
  by (induction fuel arbitrary: a d) (simp_all add: reemitted_def)

section \<open>Concrete logs\<close>

definition demo_logger :: monitor_logger where
  "demo_logger = \<lparr>ml_identity = \<lparr>id_instance = 1, id_strategy = ''strategy_1'', id_instrument = ''NIFTY'',
     id_account = 1, id_exchange = NFO\<rparr>, ml_interval = 3000000, ml_snapshot = None, ml_out = []\<rparr>"

definition demo_snapshot :: position_snapshot where
  "demo_snapshot = \<lparr>ps_position = 1, ps_strike = Some 24200, ps_expiry = Some 20001, ps_quantity = Some 75, ps_call = ''C'',
     ps_put = ''P'', ps_entry_premium = Some 200, ps_entry_time = None, ps_lot_size = Some 75, ps_cycle = 0,
     ps_last_log = None, ps_connected = None, ps_high = None, ps_low = None\<rparr>"

definition demo_view :: "decimal \<Rightarrow> cycle_view" where
  "demo_view c = \<lparr>cv_premium = Some c, cv_call = None, cv_put = None, cv_target = Some 180, cv_stoploss = Some 240,
     cv_last_tick = None, cv_source = ''ws''\<rparr>"

definition demo_round :: "int \<Rightarrow> bool \<Rightarrow> surroundings" where
  "demo_round t up = \<lparr>sr_now = Inr t, sr_connected = Inr up, sr_connected2 = Inr up, sr_spot = None\<rparr>"

theorem true_log_witness:
  "\<exists>lines. logged demo_snapshot True demo_logger
     [(demo_view 210, demo_round 0 True), (demo_view 190, demo_round 5 False)] lines
     (fold (\<lambda>(v, e). log_cycle v e) [(demo_view 210, demo_round 0 True), (demo_view 190, demo_round 5 False)]
        (log_attach demo_snapshot (demo_round 0 True) demo_logger))"
  using log_is_true_to_the_run [of demo_logger demo_snapshot "demo_round 0 True"
      "[(demo_view 210, demo_round 0 True), (demo_view 190, demo_round 5 False)]"]
  by (simp add: demo_logger_def demo_round_def safe_connected_def)

theorem displayed_hits_witness:
  "ed_reason (evaluate_exit 5 9 False (Some 170) (Some 180) (Some 240)) = Some TARGET"
  using displayed_hits_decide [of 5 9 "demo_view 170"]
  by (simp add: demo_view_def target_hit_def stoploss_hit_def)

theorem alerts_witness:
  "\<exists>h. handle_records 4 alert_level_critical
     [\<lparr>av_level = 50, av_logger = ''algo.a'', av_message = ''frozen'', av_at = 0\<rparr>,
      \<lparr>av_level = 20, av_logger = ''algo.b'', av_message = ''ok'', av_at = 1\<rparr>] \<lparr>ar_max = 256, ar_history = []\<rparr> =
     Some \<lparr>ar_max = 256, ar_history = [h]\<rparr>"
  using alerts_are_bounded [of alert_level_critical
     "[\<lparr>av_level = 50, av_logger = ''algo.a'', av_message = ''frozen'', av_at = 0\<rparr>,
      \<lparr>av_level = 20, av_logger = ''algo.b'', av_message = ''ok'', av_at = 1\<rparr>]" 256]
  by (simp add: alert_level_critical_def alert_level_warning_def latest_def numeral_eq_Suc)

end
