(* ===== verification/Token_Map.thy ===== *)
theory Token_Map
  imports Kite_Mapper Effects "HOL-Library.AList"
begin

text \<open>
  \<open>KiteInstrumentTokenMap\<close> of \<open>services/live\_seams.py\<close>: the instruments of an exchange are fetched
  once, on the first lookup, and kept in both directions. The client is built on the first fetch;
  what building it and each fetch answers is an argument.
\<close>

section \<open>The map\<close>

record token_map =
  tn_client :: bool
  tn_symbols :: "(exchange \<times> (string \<times> int) list) list"
  tn_tokens :: "(int \<times> instrument_id) list"
  tn_fetched :: "string list"

record token_source =
  tq_names :: kite_names
  tq_client :: "nat \<Rightarrow> exn + unit"
  tq_instruments :: "nat \<Rightarrow> string \<Rightarrow> exn + pydict list"

type_synonym 'a token_act = "(token_map, 'a) act"

definition new_token_map :: token_map where
  "new_token_map = \<lparr>tn_client = False, tn_symbols = [], tn_tokens = [], tn_fetched = []\<rparr>"

text \<open>
  The loop over the rows; a token that is no number ends it, with the tokens entered so far kept.
\<close>

fun load_rows ::
    "exchange \<Rightarrow> pydict list \<Rightarrow> (string \<times> int) list \<Rightarrow> (int \<times> instrument_id) list \<Rightarrow>
     (int \<times> instrument_id) list \<times> (exn + (string \<times> int) list)" where
  "load_rows ex [] symbols tokens = (tokens, Inr symbols)"
| "load_rows ex (row # rows) symbols tokens =
     (let raw = dget row ''instrument_token''; symbol = dget row ''tradingsymbol''
      in if raw = PNone \<or> \<not> truthy symbol then load_rows ex rows symbols tokens
         else
           (case py_int raw of
              Inl e \<Rightarrow> (tokens, Inl e)
            | Inr token \<Rightarrow>
                (case str_field symbol of
                   Inl e \<Rightarrow> (tokens, Inl e)
                 | Inr nm \<Rightarrow>
                     load_rows ex rows (AList.update nm token symbols)
                       (AList.update token \<lparr>ii_exchange = ex, ii_symbol = nm\<rparr> tokens))))"

definition lookup_client :: "token_source \<Rightarrow> unit token_act" where
  "lookup_client Q =
     bnd (asks tn_client) (\<lambda>built.
     if built then ret ()
     else bnd (asks (\<lambda>s. length (tn_fetched s))) (\<lambda>n.
          sq (lift_sum (tq_client Q n)) (modify (\<lambda>s. s\<lparr>tn_client := True\<rparr>))))"

definition fetch_instruments :: "token_source \<Rightarrow> string \<Rightarrow> pydict list token_act" where
  "fetch_instruments Q name s =
     (s\<lparr>tn_fetched := tn_fetched s @ [name]\<rparr>, tq_instruments Q (length (tn_fetched s)) name)"

definition ensure_loaded :: "token_source \<Rightarrow> exchange \<Rightarrow> (string \<times> int) list token_act" where
  "ensure_loaded Q ex =
     bnd (asks (\<lambda>s. map_of (tn_symbols s) ex)) (\<lambda>cached.
     case cached of
       Some symbols \<Rightarrow> ret symbols
     | None \<Rightarrow>
         sq (lookup_client Q)
         (bnd (fetch_instruments Q (to_kite_exchange (tq_names Q) ex)) (\<lambda>rows s.
          case load_rows ex rows [] (tn_tokens s) of
            (tokens, Inl e) \<Rightarrow> (s\<lparr>tn_tokens := tokens\<rparr>, Inl e)
          | (tokens, Inr symbols) \<Rightarrow>
              (s\<lparr>tn_tokens := tokens, tn_symbols := AList.update ex symbols (tn_symbols s)\<rparr>, Inr symbols))))"

definition token_for_instrument :: "token_source \<Rightarrow> instrument_id \<Rightarrow> int token_act" where
  "token_for_instrument Q i =
     bnd (ensure_loaded Q (ii_exchange i)) (\<lambda>symbols.
     case map_of symbols (ii_symbol i) of
       None \<Rightarrow> throw (InstrumentNotFoundError ''no Kite instrument_token found'')
     | Some token \<Rightarrow> ret token)"

definition instrument_for_token :: "int \<Rightarrow> token_map \<Rightarrow> instrument_id option" where
  "instrument_for_token token s = map_of (tn_tokens s) token"

section \<open>Round trip\<close>

text \<open>What Kite documents: a token stands for one instrument.\<close>

definition lists_instrument :: "exchange \<Rightarrow> pydict list \<Rightarrow> int \<Rightarrow> string \<Rightarrow> bool" where
  "lists_instrument ex rows token nm \<longleftrightarrow>
     list_ex (\<lambda>row. py_int (dget row ''instrument_token'') = Inr token \<and> str_field (dget row ''tradingsymbol'') = Inr nm) rows"

definition owned_by :: "token_source \<Rightarrow> (int \<Rightarrow> instrument_id) \<Rightarrow> bool" where
  "owned_by Q owner \<longleftrightarrow>
     (\<forall>n ex rows token nm.
        tq_instruments Q n (to_kite_exchange (tq_names Q) ex) = Inr rows \<longrightarrow> lists_instrument ex rows token nm \<longrightarrow>
        owner token = \<lparr>ii_exchange = ex, ii_symbol = nm\<rparr>)"

definition tokens_are_unique :: "token_source \<Rightarrow> bool" where
  "tokens_are_unique Q \<longleftrightarrow> (\<exists>owner. owned_by Q owner)"

definition token_map_ok :: "(int \<Rightarrow> instrument_id) \<Rightarrow> token_map \<Rightarrow> bool" where
  "token_map_ok owner s \<longleftrightarrow>
     (\<forall>token i. map_of (tn_tokens s) token = Some i \<longrightarrow> owner token = i) \<and>
     (\<forall>ex symbols nm token. map_of (tn_symbols s) ex = Some symbols \<longrightarrow> map_of symbols nm = Some token \<longrightarrow>
        map_of (tn_tokens s) token = Some \<lparr>ii_exchange = ex, ii_symbol = nm\<rparr>)"

lemma load_rows_spec:
  assumes "load_rows ex rows symbols tokens = (tokens', r)"
    and "\<And>token nm. lists_instrument ex rows token nm \<Longrightarrow> owner token = \<lparr>ii_exchange = ex, ii_symbol = nm\<rparr>"
    and "\<And>token i. map_of tokens token = Some i \<Longrightarrow> owner token = i"
    and "\<And>nm token. map_of symbols nm = Some token \<Longrightarrow> map_of tokens token = Some \<lparr>ii_exchange = ex, ii_symbol = nm\<rparr>"
  shows "(\<forall>token i. map_of tokens' token = Some i \<longrightarrow> owner token = i) \<and>
    (\<forall>token i. map_of tokens token = Some i \<longrightarrow> map_of tokens' token = Some i) \<and>
    (\<forall>out nm token. r = Inr out \<longrightarrow> map_of out nm = Some token \<longrightarrow>
       map_of tokens' token = Some \<lparr>ii_exchange = ex, ii_symbol = nm\<rparr>)"
  using assms
proof (induction ex rows symbols tokens rule: load_rows.induct)
  case (2 ex row rows symbols tokens)
  have rest: "owner token = \<lparr>ii_exchange = ex, ii_symbol = nm\<rparr>" if "lists_instrument ex rows token nm" for token nm
    using 2(4) that by (simp add: lists_instrument_def)
  show ?case
  proof (cases "dget row ''instrument_token'' = PNone \<or> \<not> truthy (dget row ''tradingsymbol'')")
    case True
    then show ?thesis using 2(1) [OF refl refl True _ rest 2(5,6)] 2(3) by (simp add: Let_def)
  next
    case False
    show ?thesis
    proof (cases "py_int (dget row ''instrument_token'')")
      case (Inl e)
      then show ?thesis using False 2(3,5) by (auto simp: Let_def)
    next
      case token: (Inr token)
      show ?thesis
      proof (cases "str_field (dget row ''tradingsymbol'')")
        case (Inl e)
        then show ?thesis using False token 2(3,5) by (auto simp: Let_def)
      next
        case nm: (Inr nm)
        have own: "owner token = \<lparr>ii_exchange = ex, ii_symbol = nm\<rparr>"
          using 2(4) by (simp add: lists_instrument_def token nm)
        have run: "load_rows ex rows (AList.update nm token symbols)
            (AList.update token \<lparr>ii_exchange = ex, ii_symbol = nm\<rparr> tokens) = (tokens', r)"
          using 2(3) False token nm by (auto simp: Let_def)
        have keep: "map_of (AList.update token \<lparr>ii_exchange = ex, ii_symbol = nm\<rparr> tokens) t = Some i"
          if "map_of tokens t = Some i" for t i
          using that 2(5) [OF that] own by (auto simp: update_conv')
        note step = 2(2) [OF refl refl False token nm run rest]
        have "(\<forall>token i. map_of tokens' token = Some i \<longrightarrow> owner token = i) \<and>
          (\<forall>t i. map_of (AList.update token \<lparr>ii_exchange = ex, ii_symbol = nm\<rparr> tokens) t = Some i \<longrightarrow> map_of tokens' t = Some i) \<and>
          (\<forall>out nm token. r = Inr out \<longrightarrow> map_of out nm = Some token \<longrightarrow>
             map_of tokens' token = Some \<lparr>ii_exchange = ex, ii_symbol = nm\<rparr>)"
          by (rule step) (use 2(5,6) own keep in \<open>auto simp: update_conv' split: if_splits\<close>)
        then show ?thesis using keep by blast
      qed
    qed
  qed
qed auto

lemma ensure_loaded_ok:
  assumes unique: "owned_by Q owner" and ok: "token_map_ok owner s" and run: "ensure_loaded Q ex s = (s', r)"
  shows "token_map_ok owner s' \<and>
    (\<forall>token i. instrument_for_token token s = Some i \<longrightarrow> instrument_for_token token s' = Some i) \<and>
    (\<forall>symbols. r = Inr symbols \<longrightarrow> map_of (tn_symbols s') ex = Some symbols)"
proof (cases "map_of (tn_symbols s) ex")
  case (Some symbols)
  then have "s' = s" "r = Inr symbols" using run by (simp_all add: ensure_loaded_def bnd_def asks_def ret_def)
  then show ?thesis using ok Some by simp
next
  case None
  obtain s1 r1 where c: "lookup_client Q s = (s1, r1)" by (metis prod.exhaust)
  have same: "tn_tokens s1 = tn_tokens s" "tn_symbols s1 = tn_symbols s"
    using c by (auto simp: lookup_client_def bnd_def asks_def ret_def sq_def lift_sum_def modify_def throw_def
        split: if_splits sum.splits prod.splits)
  show ?thesis
  proof (cases r1)
    case (Inl e)
    then show ?thesis using ok run None same
      by (auto simp: ensure_loaded_def bnd_def sq_def asks_def c token_map_ok_def instrument_for_token_def)
  next
    case (Inr u)
    let ?s2 = "s1\<lparr>tn_fetched := tn_fetched s1 @ [to_kite_exchange (tq_names Q) ex]\<rparr>"
    show ?thesis
    proof (cases "tq_instruments Q (length (tn_fetched s1)) (to_kite_exchange (tq_names Q) ex)")
      case (Inl e)
      then show ?thesis using ok run None same Inr
        by (auto simp: ensure_loaded_def bnd_def sq_def asks_def c token_map_ok_def instrument_for_token_def
            fetch_instruments_def)
    next
      case rows: (Inr rows)
      obtain tokens res where l: "load_rows ex rows [] (tn_tokens s) = (tokens, res)" by (metis prod.exhaust)
      have loaded: "(\<forall>token i. map_of tokens token = Some i \<longrightarrow> owner token = i) \<and>
          (\<forall>token i. map_of (tn_tokens s) token = Some i \<longrightarrow> map_of tokens token = Some i) \<and>
          (\<forall>out nm token. res = Inr out \<longrightarrow> map_of out nm = Some token \<longrightarrow>
             map_of tokens token = Some \<lparr>ii_exchange = ex, ii_symbol = nm\<rparr>)"
        by (rule load_rows_spec [OF l]) (use unique rows ok in \<open>auto simp: token_map_ok_def owned_by_def\<close>)
      have final: "(s', r) = (case res of
          Inl e \<Rightarrow> (?s2\<lparr>tn_tokens := tokens\<rparr>, Inl e)
        | Inr symbols \<Rightarrow> (?s2\<lparr>tn_tokens := tokens, tn_symbols := AList.update ex symbols (tn_symbols s)\<rparr>, Inr symbols))"
        using run None same Inr rows l
        by (simp add: ensure_loaded_def bnd_def sq_def asks_def c fetch_instruments_def split: sum.splits)
      show ?thesis using final loaded ok None same
        by (cases res) (auto simp: token_map_ok_def instrument_for_token_def update_conv' split: if_splits)
    qed
  qed
qed

text \<open>
  C40: tokens and instruments translate back and forth. If every token stands for one instrument, then
  the token found for an instrument is translated back to exactly that instrument, then and after any
  later lookups, whether they are answered from the cache, by a fetch or not at all.
\<close>

theorem token_reads_back:
  assumes "tokens_are_unique Q"
    and "token_for_instrument Q i (fold (\<lambda>j s. fst (token_for_instrument Q j s)) before new_token_map) = (s', Inr token)"
  shows "instrument_for_token token (fold (\<lambda>j s. fst (token_for_instrument Q j s)) after s') = Some i"
proof -
  obtain owner where unique: "owned_by Q owner"
    using assms(1) unfolding tokens_are_unique_def by blast
  have lookup: "\<exists>r1. ensure_loaded Q (ii_exchange j) s = (fst (token_for_instrument Q j s), r1) \<and>
      (snd (token_for_instrument Q j s) = Inr t \<longrightarrow> (\<exists>symbols. r1 = Inr symbols \<and> map_of symbols (ii_symbol j) = Some t))" for j s t
    by (auto simp: token_for_instrument_def bnd_def ret_def throw_def split: prod.splits sum.splits option.splits)
  have step: "token_map_ok owner s \<Longrightarrow> token_map_ok owner (fst (token_for_instrument Q j s)) \<and>
      (\<forall>t k. instrument_for_token t s = Some k \<longrightarrow> instrument_for_token t (fst (token_for_instrument Q j s)) = Some k)" for j s
  proof -
    assume ok: "token_map_ok owner s"
    obtain r1 where "ensure_loaded Q (ii_exchange j) s = (fst (token_for_instrument Q j s), r1)" using lookup by blast
    from ensure_loaded_ok [OF unique ok this] show ?thesis by blast
  qed
  have walk: "token_map_ok owner s \<Longrightarrow> token_map_ok owner (fold (\<lambda>j s. fst (token_for_instrument Q j s)) js s) \<and>
      (\<forall>t k. instrument_for_token t s = Some k \<longrightarrow>
         instrument_for_token t (fold (\<lambda>j s. fst (token_for_instrument Q j s)) js s) = Some k)" for js s
    by (induction js arbitrary: s) (use step in auto)
  have "token_map_ok owner new_token_map" by (simp add: token_map_ok_def new_token_map_def)
  then have ok: "token_map_ok owner (fold (\<lambda>j s. fst (token_for_instrument Q j s)) before new_token_map)"
    using walk by blast
  obtain symbols where e: "ensure_loaded Q (ii_exchange i)
      (fold (\<lambda>j s. fst (token_for_instrument Q j s)) before new_token_map) = (s', Inr symbols)"
      "map_of symbols (ii_symbol i) = Some token"
    using lookup assms(2) by (metis fst_conv snd_conv)
  have "token_map_ok owner s'" "map_of (tn_symbols s') (ii_exchange i) = Some symbols"
    using ensure_loaded_ok [OF unique ok e(1)] by auto
  then have "instrument_for_token token s' = Some i"
    using e(2) by (simp add: token_map_ok_def instrument_for_token_def)
  then show ?thesis using walk \<open>token_map_ok owner s'\<close> by blast
qed

definition demo_source :: token_source where
  "demo_source =
     \<lparr>tq_names = documented_names, tq_client = (\<lambda>n. Inr ()),
      tq_instruments = (\<lambda>n ex. if ex = ''NFO'' then
        Inr [[(''instrument_token'', PInt 7), (''tradingsymbol'', PStr ''A'')],
             [(''instrument_token'', PInt 8), (''tradingsymbol'', PStr ''B'')]] else Inr [])\<rparr>"

theorem token_witness:
  "\<exists>s. token_for_instrument demo_source \<lparr>ii_exchange = NFO, ii_symbol = ''B''\<rparr> new_token_map = (s, Inr 8) \<and>
     instrument_for_token 8 s = Some \<lparr>ii_exchange = NFO, ii_symbol = ''B''\<rparr>"
proof -
  have "tokens_are_unique demo_source"
    unfolding tokens_are_unique_def owned_by_def
  proof (intro exI [of _ "\<lambda>t. \<lparr>ii_exchange = NFO, ii_symbol = if t = 7 then ''A'' else ''B''\<rparr>"] allI impI)
    fix n ex rows token nm
    assume "tq_instruments demo_source n (to_kite_exchange (tq_names demo_source) ex) = Inr rows"
      "lists_instrument ex rows token nm"
    then show "\<lparr>ii_exchange = NFO, ii_symbol = if token = 7 then ''A'' else ''B''\<rparr> = \<lparr>ii_exchange = ex, ii_symbol = nm\<rparr>"
      by (cases ex) (auto simp: demo_source_def documented_names_def lists_instrument_def dget_def)
  qed
  moreover have "snd (token_for_instrument demo_source \<lparr>ii_exchange = NFO, ii_symbol = ''B''\<rparr> new_token_map) = Inr 8"
    by code_simp
  then obtain s where "token_for_instrument demo_source \<lparr>ii_exchange = NFO, ii_symbol = ''B''\<rparr> new_token_map = (s, Inr 8)"
    by (metis prod.collapse)
  ultimately show ?thesis using token_reads_back [where before = "[]" and after = "[]"] by fastforce
qed

end
