(* ===== verification/Schema.thy ===== *)
theory Schema
  imports Prelude
begin

text \<open>
  The database schema, declared twice in the code: by the migration scripts of
  \<open>database/migrations/versions\<close>, which Alembic runs against the database, and by the model classes
  of \<open>database/models\<close>, which SQLAlchemy turns into tables under the naming convention of
  \<open>base.py\<close>. Scripts and classes are data here, and what a database makes of a schema operation is
  \<open>apply\_op\<close>: it refuses what PostgreSQL refuses (a table, column or index that is already there or
  missing, a reference to a missing column, a table that another one references, two constraints of a
  table with the same name), and also dropping a column that an index or a constraint uses. The text
  of a condition is kept as it is.
\<close>

section \<open>Tables and operations\<close>

datatype sql_type =
    SqlBigInt | SqlInt | SqlBool | SqlDate | SqlTimestamp | SqlText | SqlJson
  | SqlVarChar nat
  | SqlNumeric nat nat
  | SqlEnum string "string list" nat

record sql_column =
  co_name :: string
  co_type :: sql_type
  co_null :: bool
  co_now :: bool

datatype sql_constraint =
    PrimaryKey (constraint_name: string) "string list"
  | UniqueKey (constraint_name: string) "string list"
  | ForeignKey (constraint_name: string) string string string string
  | Check (constraint_name: string) string

record sql_table =
  tb_name :: string
  tb_columns :: "sql_column list"
  tb_constraints :: "sql_constraint list"

record sql_index =
  in_name :: string
  in_table :: string
  in_columns :: "string list"
  in_unique :: bool
  in_where :: "string option"

record schema =
  sc_tables :: "sql_table list"
  sc_indexes :: "sql_index list"

datatype schema_op =
    CreateTable sql_table
  | DropTable string
  | CreateIndex sql_index
  | DropIndex string string
  | AddColumn string sql_column
  | DropColumn string string

definition req :: "string \<Rightarrow> sql_type \<Rightarrow> sql_column" where
  "req n t = \<lparr>co_name = n, co_type = t, co_null = False, co_now = False\<rparr>"

definition opt :: "string \<Rightarrow> sql_type \<Rightarrow> sql_column" where
  "opt n t = \<lparr>co_name = n, co_type = t, co_null = True, co_now = False\<rparr>"

text \<open>A timestamp the server fills in.\<close>

definition stamp :: "string \<Rightarrow> sql_column" where
  "stamp n = \<lparr>co_name = n, co_type = SqlTimestamp, co_null = False, co_now = True\<rparr>"

definition table :: "string \<Rightarrow> sql_column list \<Rightarrow> sql_constraint list \<Rightarrow> sql_table" where
  "table n cols cons = \<lparr>tb_name = n, tb_columns = cols, tb_constraints = cons\<rparr>"

definition index :: "string \<Rightarrow> string \<Rightarrow> string list \<Rightarrow> bool \<Rightarrow> string option \<Rightarrow> sql_index" where
  "index n t cols u w = \<lparr>in_name = n, in_table = t, in_columns = cols, in_unique = u, in_where = w\<rparr>"

definition empty_schema :: schema where
  "empty_schema = \<lparr>sc_tables = [], sc_indexes = []\<rparr>"

definition find_table :: "string \<Rightarrow> schema \<Rightarrow> sql_table option" where
  "find_table n s = List.find (\<lambda>t. tb_name t = n) (sc_tables s)"

definition column_names :: "sql_table \<Rightarrow> string list" where
  "column_names t = map co_name (tb_columns t)"

fun key_columns :: "sql_constraint \<Rightarrow> string list" where
  "key_columns (PrimaryKey n cols) = cols"
| "key_columns (UniqueKey n cols) = cols"
| "key_columns (ForeignKey n col t c act) = [col]"
| "key_columns (Check n txt) = []"

text \<open>An enumeration is a text column with a check of its own.\<close>

definition enum_checks :: "sql_table \<Rightarrow> string list" where
  "enum_checks t =
     List.map_filter (\<lambda>c. case co_type c of
         SqlEnum n ms len \<Rightarrow> Some (''ck_'' @ tb_name t @ ''_'' @ n) | _ \<Rightarrow> None) (tb_columns t)"

fun reference_ok :: "schema \<Rightarrow> sql_constraint \<Rightarrow> bool" where
  "reference_ok s (ForeignKey n col rt rc act) =
     (case find_table rt s of
        None \<Rightarrow> False
      | Some t \<Rightarrow> list_ex (\<lambda>k. case k of PrimaryKey m cols \<Rightarrow> cols = [rc] | UniqueKey m cols \<Rightarrow> cols = [rc] | _ \<Rightarrow> False)
          (tb_constraints t))"
| "reference_ok s k = True"

definition table_ok :: "schema \<Rightarrow> sql_table \<Rightarrow> bool" where
  "table_ok s t \<longleftrightarrow>
     distinct (column_names t) \<and>
     distinct (map constraint_name (tb_constraints t) @ enum_checks t) \<and>
     list_all (\<lambda>k. list_all (\<lambda>c. c \<in> set (column_names t)) (key_columns k)) (tb_constraints t) \<and>
     list_all (reference_ok (s\<lparr>sc_tables := sc_tables s @ [t]\<rparr>)) (tb_constraints t)"

definition references :: "string \<Rightarrow> sql_table \<Rightarrow> bool" where
  "references n t \<longleftrightarrow>
     list_ex (\<lambda>k. case k of ForeignKey m col rt rc act \<Rightarrow> rt = n | _ \<Rightarrow> False) (tb_constraints t)"

definition change_table :: "string \<Rightarrow> (sql_table \<Rightarrow> sql_table) \<Rightarrow> schema \<Rightarrow> schema" where
  "change_table n f s = s\<lparr>sc_tables := map (\<lambda>t. if tb_name t = n then f t else t) (sc_tables s)\<rparr>"

fun apply_op :: "schema_op \<Rightarrow> schema \<Rightarrow> schema option" where
  "apply_op (CreateTable t) s =
     (if find_table (tb_name t) s \<noteq> None \<or> \<not> table_ok s t then None
      else Some (s\<lparr>sc_tables := sc_tables s @ [t]\<rparr>))"
| "apply_op (DropTable n) s =
     (if find_table n s = None \<or> list_ex (\<lambda>t. tb_name t \<noteq> n \<and> references n t) (sc_tables s) then None
      else Some \<lparr>sc_tables = filter (\<lambda>t. tb_name t \<noteq> n) (sc_tables s),
                 sc_indexes = filter (\<lambda>i. in_table i \<noteq> n) (sc_indexes s)\<rparr>)"
| "apply_op (CreateIndex i) s =
     (case find_table (in_table i) s of
        None \<Rightarrow> None
      | Some t \<Rightarrow>
          if list_ex (\<lambda>j. in_name j = in_name i) (sc_indexes s) \<or>
             \<not> list_all (\<lambda>c. c \<in> set (column_names t)) (in_columns i) then None
          else Some (s\<lparr>sc_indexes := sc_indexes s @ [i]\<rparr>))"
| "apply_op (DropIndex n t) s =
     (if list_ex (\<lambda>i. in_name i = n \<and> in_table i = t) (sc_indexes s)
      then Some (s\<lparr>sc_indexes := filter (\<lambda>i. in_name i \<noteq> n) (sc_indexes s)\<rparr>) else None)"
| "apply_op (AddColumn n c) s =
     (case find_table n s of
        None \<Rightarrow> None
      | Some t \<Rightarrow>
          if co_name c \<in> set (column_names t) then None
          else Some (change_table n (\<lambda>t. t\<lparr>tb_columns := tb_columns t @ [c]\<rparr>) s))"
| "apply_op (DropColumn n c) s =
     (case find_table n s of
        None \<Rightarrow> None
      | Some t \<Rightarrow>
          if c \<notin> set (column_names t) \<or> list_ex (\<lambda>k. c \<in> set (key_columns k)) (tb_constraints t) \<or>
             list_ex (\<lambda>i. in_table i = n \<and> c \<in> set (in_columns i)) (sc_indexes s) then None
          else Some (change_table n (\<lambda>t. t\<lparr>tb_columns := filter (\<lambda>x. co_name x \<noteq> c) (tb_columns t)\<rparr>) s))"

fun run_ops :: "schema_op list \<Rightarrow> schema \<Rightarrow> schema option" where
  "run_ops [] s = Some s"
| "run_ops (x # xs) s = (case apply_op x s of None \<Rightarrow> None | Some s' \<Rightarrow> run_ops xs s')"

section \<open>The migration scripts\<close>

definition initial_schema_upgrade :: "schema_op list" where
  "initial_schema_upgrade =
    [CreateTable (table ''accounts''
      [req ''id'' SqlBigInt,
       req ''broker'' (SqlEnum ''brokername_enum'' [''KITE'', ''SIMULATION''] 32),
       opt ''broker_client_id'' (SqlVarChar 64),
       req ''display_name'' (SqlVarChar 128),
       req ''is_active'' SqlBool,
       stamp ''created_at'',
       stamp ''updated_at'']
      [PrimaryKey ''pk_accounts'' [''id''],
       UniqueKey ''uq_accounts_broker_client'' [''broker'', ''broker_client_id'']]),
     CreateTable (table ''daily_risk_state''
      [req ''id'' SqlBigInt,
       req ''account_id'' SqlBigInt,
       opt ''instrument'' (SqlVarChar 32),
       req ''trade_date'' SqlDate,
       req ''realized_pnl'' (SqlNumeric 18 4),
       req ''unrealized_pnl'' (SqlNumeric 18 4),
       req ''loss_limit'' (SqlNumeric 18 4),
       req ''breached'' SqlBool,
       opt ''breached_at'' SqlTimestamp,
       req ''version'' SqlBigInt,
       stamp ''created_at'',
       stamp ''updated_at'']
      [ForeignKey ''fk_daily_risk_state_account_id_accounts'' ''account_id'' ''accounts'' ''id'' ''RESTRICT'',
       PrimaryKey ''pk_daily_risk_state'' [''id'']]),
     CreateIndex (index ''ix_daily_risk_state_trade_date'' ''daily_risk_state'' [''trade_date''] False None),
     CreateIndex (index ''uq_daily_risk_state_instrument_row'' ''daily_risk_state'' [''account_id'', ''instrument'', ''trade_date''] True (Some ''instrument IS NOT NULL'')),
     CreateIndex (index ''uq_daily_risk_state_portfolio_row'' ''daily_risk_state'' [''account_id'', ''trade_date''] True (Some ''instrument IS NULL'')),
     CreateTable (table ''strategy_instances''
      [req ''id'' SqlBigInt,
       req ''strategy_id'' (SqlVarChar 64),
       req ''instrument'' (SqlVarChar 32),
       req ''account_id'' SqlBigInt,
       req ''exchange'' (SqlEnum ''exchange_enum'' [''NFO'', ''BFO''] 32),
       req ''status'' (SqlEnum ''instancestatus_enum'' [''ACTIVE'', ''FROZEN'', ''DISABLED''] 32),
       req ''version'' SqlBigInt,
       stamp ''created_at'',
       stamp ''updated_at'']
      [ForeignKey ''fk_strategy_instances_account_id_accounts'' ''account_id'' ''accounts'' ''id'' ''RESTRICT'',
       PrimaryKey ''pk_strategy_instances'' [''id''],
       UniqueKey ''uq_strategy_instances_strategy_instrument_account'' [''strategy_id'', ''instrument'', ''account_id'']]),
     CreateIndex (index ''ix_strategy_instances_frozen'' ''strategy_instances'' [''status''] False (Some (''status = '' @ [CHR 0x27] @ ''FROZEN'' @ [CHR 0x27]))),
     CreateTable (table ''positions''
      [req ''id'' SqlBigInt,
       req ''strategy_instance_id'' SqlBigInt,
       req ''trade_date'' SqlDate,
       req ''state'' (SqlEnum ''positionstate_enum'' [''IDLE'', ''ENTRY_PENDING'', ''OPEN'', ''EXIT_PENDING'', ''CLOSED'', ''ERROR''] 32),
       opt ''expiry_date'' SqlDate,
       opt ''strike'' (SqlNumeric 12 2),
       opt ''strike_interval'' (SqlNumeric 12 2),
       opt ''lots'' SqlInt,
       opt ''lot_size'' SqlInt,
       opt ''quantity'' SqlInt,
       opt ''entry_spot_ltp'' (SqlNumeric 18 4),
       opt ''target_pct'' (SqlNumeric 6 4),
       opt ''sl_pct'' (SqlNumeric 6 4),
       opt ''combined_entry_premium'' (SqlNumeric 18 4),
       opt ''target_premium'' (SqlNumeric 18 4),
       opt ''stoploss_premium'' (SqlNumeric 18 4),
       opt ''combined_exit_premium'' (SqlNumeric 18 4),
       opt ''exit_reason'' (SqlEnum ''exitreason_enum'' [''TARGET'', ''STOPLOSS'', ''TIMEOUT'', ''KILL_SWITCH'', ''MANUAL'', ''ERROR''] 32),
       opt ''realized_pnl'' (SqlNumeric 18 4),
       opt ''entry_signal_time'' SqlTimestamp,
       opt ''entry_completed_at'' SqlTimestamp,
       opt ''exit_signal_time'' SqlTimestamp,
       opt ''exit_completed_at'' SqlTimestamp,
       opt ''error_message'' SqlText,
       req ''needs_reconciliation'' SqlBool,
       req ''version'' SqlBigInt,
       stamp ''created_at'',
       stamp ''updated_at'']
      [Check ''ck_positions_exit_after_entry'' ''exit_completed_at IS NULL OR entry_completed_at IS NULL OR exit_completed_at >= entry_completed_at'',
       Check ''ck_positions_lot_size_positive'' ''lot_size IS NULL OR lot_size > 0'',
       Check ''ck_positions_quantity_matches_lots_times_lot_size'' ''lots IS NULL OR lot_size IS NULL OR quantity IS NULL OR quantity = lots * lot_size'',
       Check ''ck_positions_lots_positive'' ''lots IS NULL OR lots > 0'',
       Check ''ck_positions_quantity_positive'' ''quantity IS NULL OR quantity > 0'',
       Check ''ck_positions_sl_pct_in_range'' ''sl_pct IS NULL OR (sl_pct > 0 AND sl_pct < 1)'',
       Check ''ck_positions_target_pct_in_range'' ''target_pct IS NULL OR (target_pct > 0 AND target_pct < 1)'',
       ForeignKey ''fk_positions_strategy_instance_id_strategy_instances'' ''strategy_instance_id'' ''strategy_instances'' ''id'' ''RESTRICT'',
       PrimaryKey ''pk_positions'' [''id''],
       UniqueKey ''uq_positions_instance_trade_date'' [''strategy_instance_id'', ''trade_date'']]),
     CreateIndex (index ''ix_positions_active_states'' ''positions'' [''state''] False (Some (''state IN ('' @ [CHR 0x27] @ ''ENTRY_PENDING'' @ [CHR 0x27] @ '', '' @ [CHR 0x27] @ ''OPEN'' @ [CHR 0x27] @ '', '' @ [CHR 0x27] @ ''EXIT_PENDING'' @ [CHR 0x27] @ '', '' @ [CHR 0x27] @ ''ERROR'' @ [CHR 0x27] @ '')''))),
     CreateIndex (index ''ix_positions_trade_date'' ''positions'' [''trade_date''] False None),
     CreateTable (table ''risk_control_flags''
      [req ''id'' SqlBigInt,
       req ''flag_type'' (SqlEnum ''riskflagtype_enum'' [''KILL_SWITCH'', ''EMERGENCY_EXIT'', ''FREEZE''] 32),
       req ''scope'' (SqlEnum ''riskflagscope_enum'' [''GLOBAL'', ''ACCOUNT'', ''STRATEGY_INSTANCE''] 32),
       opt ''account_id'' SqlBigInt,
       opt ''strategy_instance_id'' SqlBigInt,
       req ''active'' SqlBool,
       opt ''reason'' SqlText,
       opt ''activated_by'' (SqlVarChar 128),
       req ''activated_at'' SqlTimestamp,
       opt ''cleared_at'' SqlTimestamp,
       opt ''cleared_by'' (SqlVarChar 128),
       req ''version'' SqlBigInt,
       stamp ''created_at'',
       stamp ''updated_at'']
      [Check ''ck_risk_control_flags_scope_matches_populated_fk'' (''(scope = '' @ [CHR 0x27] @ ''GLOBAL'' @ [CHR 0x27] @ '' AND account_id IS NULL AND strategy_instance_id IS NULL) OR (scope = '' @ [CHR 0x27] @ ''ACCOUNT'' @ [CHR 0x27] @ '' AND account_id IS NOT NULL AND strategy_instance_id IS NULL) OR (scope = '' @ [CHR 0x27] @ ''STRATEGY_INSTANCE'' @ [CHR 0x27] @ '' AND strategy_instance_id IS NOT NULL)''),
       ForeignKey ''fk_risk_control_flags_account_id_accounts'' ''account_id'' ''accounts'' ''id'' ''RESTRICT'',
       ForeignKey ''fk_risk_control_flags_strategy_instance_id_strategy_instances'' ''strategy_instance_id'' ''strategy_instances'' ''id'' ''RESTRICT'',
       PrimaryKey ''pk_risk_control_flags'' [''id'']]),
     CreateIndex (index ''ix_risk_control_flags_account_id'' ''risk_control_flags'' [''account_id''] False None),
     CreateIndex (index ''ix_risk_control_flags_active'' ''risk_control_flags'' [''active''] False (Some ''active = true'')),
     CreateIndex (index ''ix_risk_control_flags_strategy_instance_id'' ''risk_control_flags'' [''strategy_instance_id''] False None),
     CreateTable (table ''position_state_transitions''
      [req ''id'' SqlBigInt,
       req ''position_id'' SqlBigInt,
       opt ''from_state'' (SqlEnum ''positionstate_from_enum'' [''IDLE'', ''ENTRY_PENDING'', ''OPEN'', ''EXIT_PENDING'', ''CLOSED'', ''ERROR''] 32),
       req ''to_state'' (SqlEnum ''positionstate_to_enum'' [''IDLE'', ''ENTRY_PENDING'', ''OPEN'', ''EXIT_PENDING'', ''CLOSED'', ''ERROR''] 32),
       opt ''reason'' SqlText,
       req ''actor'' (SqlEnum ''statetransitionactor_enum'' [''STRATEGY'', ''RISK_MANAGER'', ''KILL_SWITCH'', ''RECOVERY'', ''MANUAL''] 32),
       stamp ''created_at'']
      [ForeignKey ''fk_position_state_transitions_position_id_positions'' ''position_id'' ''positions'' ''id'' ''RESTRICT'',
       PrimaryKey ''pk_position_state_transitions'' [''id'']]),
     CreateIndex (index ''ix_position_state_transitions_position_created'' ''position_state_transitions'' [''position_id'', ''created_at''] False None),
     CreateTable (table ''trades''
      [req ''id'' SqlBigInt,
       req ''position_id'' SqlBigInt,
       req ''option_type'' (SqlEnum ''optiontype_enum'' [''CE'', ''PE''] 32),
       req ''trading_symbol'' (SqlVarChar 64),
       req ''exchange'' (SqlEnum ''exchange_enum'' [''NFO'', ''BFO''] 32),
       req ''strike'' (SqlNumeric 12 2),
       req ''quantity'' SqlInt,
       opt ''entry_price'' (SqlNumeric 18 4),
       opt ''exit_price'' (SqlNumeric 18 4),
       opt ''entry_time'' SqlTimestamp,
       opt ''exit_time'' SqlTimestamp,
       opt ''realized_pnl'' (SqlNumeric 18 4),
       req ''status'' (SqlEnum ''tradelegstatus_enum'' [''PENDING'', ''OPEN'', ''CLOSED'', ''UNWOUND'', ''ERROR''] 32),
       req ''version'' SqlBigInt,
       stamp ''created_at'',
       stamp ''updated_at'']
      [Check ''ck_trades_entry_price_non_negative'' ''entry_price IS NULL OR entry_price >= 0'',
       Check ''ck_trades_exit_price_non_negative'' ''exit_price IS NULL OR exit_price >= 0'',
       Check ''ck_trades_exit_after_entry'' ''exit_time IS NULL OR entry_time IS NULL OR exit_time >= entry_time'',
       Check ''ck_trades_quantity_positive'' ''quantity > 0'',
       ForeignKey ''fk_trades_position_id_positions'' ''position_id'' ''positions'' ''id'' ''RESTRICT'',
       PrimaryKey ''pk_trades'' [''id''],
       UniqueKey ''uq_trades_position_type_strike'' [''position_id'', ''option_type'', ''strike'']]),
     CreateIndex (index ''ix_trades_open_status'' ''trades'' [''status''] False (Some (''status = '' @ [CHR 0x27] @ ''OPEN'' @ [CHR 0x27]))),
     CreateIndex (index ''ix_trades_position_id'' ''trades'' [''position_id''] False None),
     CreateTable (table ''order_intents''
      [req ''id'' SqlBigInt,
       req ''trade_id'' SqlBigInt,
       req ''purpose'' (SqlEnum ''orderpurpose_enum'' [''ENTRY'', ''EXIT''] 32),
       req ''transaction_type'' (SqlEnum ''transactiontype_enum'' [''BUY'', ''SELL''] 32),
       req ''quantity'' SqlInt,
       req ''idempotency_key'' (SqlVarChar 128),
       req ''broker_tag'' (SqlVarChar 20),
       req ''status'' (SqlEnum ''intentstatus_enum'' [''PENDING'', ''SUBMITTED_UNCONFIRMED'', ''PLACED'', ''CONFIRMED'', ''FAILED'', ''CANCELLED''] 32),
       opt ''broker_call_started_at'' SqlTimestamp,
       req ''version'' SqlBigInt,
       stamp ''created_at'',
       stamp ''updated_at'']
      [Check ''ck_order_intents_quantity_positive'' ''quantity > 0'',
       ForeignKey ''fk_order_intents_trade_id_trades'' ''trade_id'' ''trades'' ''id'' ''RESTRICT'',
       PrimaryKey ''pk_order_intents'' [''id''],
       UniqueKey ''uq_order_intents_broker_tag'' [''broker_tag''],
       UniqueKey ''uq_order_intents_idempotency_key'' [''idempotency_key'']]),
     CreateIndex (index ''ix_order_intents_in_doubt'' ''order_intents'' [''status''] False (Some (''status IN ('' @ [CHR 0x27] @ ''PENDING'' @ [CHR 0x27] @ '', '' @ [CHR 0x27] @ ''SUBMITTED_UNCONFIRMED'' @ [CHR 0x27] @ '', '' @ [CHR 0x27] @ ''PLACED'' @ [CHR 0x27] @ '')''))),
     CreateIndex (index ''ix_order_intents_trade_id'' ''order_intents'' [''trade_id''] False None),
     CreateTable (table ''orders''
      [req ''id'' SqlBigInt,
       req ''trade_id'' SqlBigInt,
       opt ''intent_id'' SqlBigInt,
       req ''purpose'' (SqlEnum ''orderpurpose_enum'' [''ENTRY'', ''EXIT''] 32),
       req ''transaction_type'' (SqlEnum ''transactiontype_enum'' [''BUY'', ''SELL''] 32),
       req ''order_type'' (SqlEnum ''ordertype_enum'' [''MARKET'', ''LIMIT''] 32),
       req ''quantity'' SqlInt,
       req ''filled_quantity'' SqlInt,
       opt ''average_price'' (SqlNumeric 18 4),
       req ''status'' (SqlEnum ''orderstatus_enum'' [''PENDING'', ''OPEN'', ''COMPLETE'', ''REJECTED'', ''CANCELLED'', ''ERROR''] 32),
       opt ''broker_order_id'' (SqlVarChar 64),
       opt ''broker_tag'' (SqlVarChar 20),
       opt ''placed_at'' SqlTimestamp,
       opt ''filled_at'' SqlTimestamp,
       opt ''error_message'' SqlText,
       opt ''raw_response'' SqlJson,
       req ''retry_count'' SqlInt,
       req ''version'' SqlBigInt,
       stamp ''created_at'',
       stamp ''updated_at'']
      [Check ''ck_orders_filled_quantity_within_bounds'' ''filled_quantity >= 0 AND filled_quantity <= quantity'',
       Check ''ck_orders_quantity_positive'' ''quantity > 0'',
       Check ''ck_orders_retry_count_non_negative'' ''retry_count >= 0'',
       ForeignKey ''fk_orders_intent_id_order_intents'' ''intent_id'' ''order_intents'' ''id'' ''RESTRICT'',
       ForeignKey ''fk_orders_trade_id_trades'' ''trade_id'' ''trades'' ''id'' ''RESTRICT'',
       PrimaryKey ''pk_orders'' [''id''],
       UniqueKey ''uq_orders_broker_order_id'' [''broker_order_id'']]),
     CreateIndex (index ''ix_orders_in_flight'' ''orders'' [''status''] False (Some (''status IN ('' @ [CHR 0x27] @ ''PENDING'' @ [CHR 0x27] @ '', '' @ [CHR 0x27] @ ''OPEN'' @ [CHR 0x27] @ '')''))),
     CreateIndex (index ''ix_orders_trade_id'' ''orders'' [''trade_id''] False None),
     CreateTable (table ''reconciliation_breaks''
      [req ''id'' SqlBigInt,
       opt ''position_id'' SqlBigInt,
       opt ''order_id'' SqlBigInt,
       opt ''intent_id'' SqlBigInt,
       req ''break_type'' (SqlEnum ''reconciliationbreaktype_enum'' [''ORPHAN_FILL'', ''BROKER_FLAT_DB_OPEN'', ''AMBIGUOUS_ACK'', ''PARTIAL_ENTRY'', ''QUANTITY_MISMATCH'', ''OTHER''] 32),
       req ''detected_at'' SqlTimestamp,
       opt ''broker_snapshot'' SqlJson,
       req ''resolution'' (SqlEnum ''reconciliationresolution_enum'' [''PENDING'', ''AUTO_REPAIRED'', ''MANUAL''] 32),
       opt ''resolution_notes'' SqlText,
       opt ''resolved_at'' SqlTimestamp,
       opt ''resolved_by'' (SqlVarChar 128),
       req ''version'' SqlBigInt,
       stamp ''created_at'',
       stamp ''updated_at'']
      [ForeignKey ''fk_reconciliation_breaks_intent_id_order_intents'' ''intent_id'' ''order_intents'' ''id'' ''RESTRICT'',
       ForeignKey ''fk_reconciliation_breaks_order_id_orders'' ''order_id'' ''orders'' ''id'' ''RESTRICT'',
       ForeignKey ''fk_reconciliation_breaks_position_id_positions'' ''position_id'' ''positions'' ''id'' ''RESTRICT'',
       PrimaryKey ''pk_reconciliation_breaks'' [''id'']]),
     CreateIndex (index ''ix_reconciliation_breaks_pending'' ''reconciliation_breaks'' [''resolution''] False (Some (''resolution = '' @ [CHR 0x27] @ ''PENDING'' @ [CHR 0x27]))),
     CreateIndex (index ''ix_reconciliation_breaks_position_id'' ''reconciliation_breaks'' [''position_id''] False None)]"

definition initial_schema_downgrade :: "schema_op list" where
  "initial_schema_downgrade =
    [DropIndex ''ix_reconciliation_breaks_position_id'' ''reconciliation_breaks'',
     DropIndex ''ix_reconciliation_breaks_pending'' ''reconciliation_breaks'',
     DropTable ''reconciliation_breaks'',
     DropIndex ''ix_orders_trade_id'' ''orders'',
     DropIndex ''ix_orders_in_flight'' ''orders'',
     DropTable ''orders'',
     DropIndex ''ix_order_intents_trade_id'' ''order_intents'',
     DropIndex ''ix_order_intents_in_doubt'' ''order_intents'',
     DropTable ''order_intents'',
     DropIndex ''ix_trades_position_id'' ''trades'',
     DropIndex ''ix_trades_open_status'' ''trades'',
     DropTable ''trades'',
     DropIndex ''ix_position_state_transitions_position_created'' ''position_state_transitions'',
     DropTable ''position_state_transitions'',
     DropIndex ''ix_risk_control_flags_strategy_instance_id'' ''risk_control_flags'',
     DropIndex ''ix_risk_control_flags_active'' ''risk_control_flags'',
     DropIndex ''ix_risk_control_flags_account_id'' ''risk_control_flags'',
     DropTable ''risk_control_flags'',
     DropIndex ''ix_positions_trade_date'' ''positions'',
     DropIndex ''ix_positions_active_states'' ''positions'',
     DropTable ''positions'',
     DropIndex ''ix_strategy_instances_frozen'' ''strategy_instances'',
     DropTable ''strategy_instances'',
     DropIndex ''uq_daily_risk_state_portfolio_row'' ''daily_risk_state'',
     DropIndex ''uq_daily_risk_state_instrument_row'' ''daily_risk_state'',
     DropIndex ''ix_daily_risk_state_trade_date'' ''daily_risk_state'',
     DropTable ''daily_risk_state'',
     DropTable ''accounts'']"

definition add_trade_history_upgrade :: "schema_op list" where
  "add_trade_history_upgrade =
    [CreateTable (table ''trade_history''
      [req ''id'' SqlBigInt,
       req ''position_id'' SqlBigInt,
       opt ''strategy_instance_id'' SqlBigInt,
       opt ''account_id'' SqlBigInt,
       req ''trade_date'' SqlDate,
       req ''strategy_id'' (SqlVarChar 64),
       req ''instrument'' (SqlVarChar 32),
       opt ''account_name'' (SqlVarChar 128),
       opt ''mode'' (SqlVarChar 16),
       opt ''exchange'' (SqlEnum ''exchange_enum'' [''NFO'', ''BFO'', ''NSE'', ''BSE''] 32),
       opt ''strike'' (SqlNumeric 12 2),
       opt ''expiry_date'' SqlDate,
       opt ''call_symbol'' (SqlVarChar 64),
       opt ''put_symbol'' (SqlVarChar 64),
       opt ''entry_time'' SqlTimestamp,
       opt ''exit_time'' SqlTimestamp,
       opt ''entry_signal_time'' SqlTimestamp,
       opt ''exit_signal_time'' SqlTimestamp,
       opt ''holding_seconds'' SqlInt,
       opt ''holding_minutes'' (SqlNumeric 12 2),
       opt ''lots'' SqlInt,
       opt ''lot_size'' SqlInt,
       opt ''quantity'' SqlInt,
       opt ''combined_entry_premium'' (SqlNumeric 18 4),
       opt ''combined_exit_premium'' (SqlNumeric 18 4),
       opt ''target_premium'' (SqlNumeric 18 4),
       opt ''stoploss_premium'' (SqlNumeric 18 4),
       opt ''target_pct'' (SqlNumeric 6 4),
       opt ''sl_pct'' (SqlNumeric 6 4),
       opt ''call_entry_price'' (SqlNumeric 18 4),
       opt ''call_exit_price'' (SqlNumeric 18 4),
       opt ''put_entry_price'' (SqlNumeric 18 4),
       opt ''put_exit_price'' (SqlNumeric 18 4),
       opt ''entry_spot_ltp'' (SqlNumeric 18 4),
       opt ''exit_spot_ltp'' (SqlNumeric 18 4),
       opt ''exit_reason'' (SqlEnum ''exitreason_enum'' [''TARGET'', ''STOPLOSS'', ''TIMEOUT'', ''KILL_SWITCH'', ''MANUAL'', ''ERROR''] 32),
       opt ''realized_pnl'' (SqlNumeric 18 4),
       opt ''profit_percent'' (SqlNumeric 10 4),
       opt ''max_profit_seen'' (SqlNumeric 18 4),
       opt ''max_loss_seen'' (SqlNumeric 18 4),
       opt ''day_of_week'' (SqlVarChar 9),
       opt ''month'' SqlInt,
       opt ''broker_order_ids'' SqlJson,
       opt ''extra'' SqlJson,
       stamp ''created_at'',
       stamp ''updated_at'']
      [ForeignKey ''fk_trade_history_position_id_positions'' ''position_id'' ''positions'' ''id'' ''RESTRICT'',
       PrimaryKey ''pk_trade_history'' [''id''],
       UniqueKey ''uq_trade_history_position_id'' [''position_id'']]),
     CreateIndex (index ''ix_trade_history_exit_reason'' ''trade_history'' [''exit_reason''] False None),
     CreateIndex (index ''ix_trade_history_expiry_date'' ''trade_history'' [''expiry_date''] False None),
     CreateIndex (index ''ix_trade_history_instrument'' ''trade_history'' [''instrument''] False None),
     CreateIndex (index ''ix_trade_history_strategy_id'' ''trade_history'' [''strategy_id''] False None),
     CreateIndex (index ''ix_trade_history_strategy_instrument_date'' ''trade_history'' [''strategy_id'', ''instrument'', ''trade_date''] False None),
     CreateIndex (index ''ix_trade_history_trade_date'' ''trade_history'' [''trade_date''] False None)]"

definition add_trade_history_downgrade :: "schema_op list" where
  "add_trade_history_downgrade =
    [DropIndex ''ix_trade_history_trade_date'' ''trade_history'',
     DropIndex ''ix_trade_history_strategy_instrument_date'' ''trade_history'',
     DropIndex ''ix_trade_history_strategy_id'' ''trade_history'',
     DropIndex ''ix_trade_history_instrument'' ''trade_history'',
     DropIndex ''ix_trade_history_expiry_date'' ''trade_history'',
     DropIndex ''ix_trade_history_exit_reason'' ''trade_history'',
     DropTable ''trade_history'']"

definition add_pnl_per_share_upgrade :: "schema_op list" where
  "add_pnl_per_share_upgrade =
    [AddColumn ''trade_history'' (opt ''pnl_per_share'' (SqlNumeric 18 4))]"

definition add_pnl_per_share_downgrade :: "schema_op list" where
  "add_pnl_per_share_downgrade =
    [DropColumn ''trade_history'' ''pnl_per_share'']"

subsection \<open>Revisions\<close>

record revision =
  rv_id :: string
  rv_down :: "string option"
  rv_up :: "schema_op list"
  rv_undo :: "schema_op list"

definition initial_schema :: revision where
  "initial_schema =
     \<lparr>rv_id = ''3634d974da39'', rv_down = None, rv_up = initial_schema_upgrade, rv_undo = initial_schema_downgrade\<rparr>"

definition add_trade_history :: revision where
  "add_trade_history =
     \<lparr>rv_id = ''c45ec4abd494'', rv_down = Some ''3634d974da39'', rv_up = add_trade_history_upgrade,
      rv_undo = add_trade_history_downgrade\<rparr>"

definition add_pnl_per_share :: revision where
  "add_pnl_per_share =
     \<lparr>rv_id = ''a1f2c3d4e5f6'', rv_down = Some ''c45ec4abd494'', rv_up = add_pnl_per_share_upgrade,
      rv_undo = add_pnl_per_share_downgrade\<rparr>"

text \<open>The scripts in the order of their file names, which says nothing about the order they run in.\<close>

definition revisions :: "revision list" where
  "revisions = [initial_schema, add_pnl_per_share, add_trade_history]"

definition revision_heads :: "revision list \<Rightarrow> string list" where
  "revision_heads rs =
     filter (\<lambda>n. \<not> list_ex (\<lambda>r. rv_down r = Some n) rs) (map rv_id rs)"

text \<open>What Alembic documents for \<open>upgrade head\<close>: every script after the ones it revises.\<close>

fun upgrade_path :: "nat \<Rightarrow> string option \<Rightarrow> revision list \<Rightarrow> revision list" where
  "upgrade_path 0 current rs = []"
| "upgrade_path (Suc fuel) current rs =
     (case List.find (\<lambda>r. rv_down r = current) rs of
        None \<Rightarrow> []
      | Some r \<Rightarrow> r # upgrade_path fuel (Some (rv_id r)) rs)"

definition upgrade_head :: "revision list \<Rightarrow> string option \<Rightarrow> schema \<Rightarrow> schema option" where
  "upgrade_head rs current = run_ops (concat (map rv_up (upgrade_path (length rs) current rs)))"

section \<open>The models\<close>

record orm_column =
  om_column :: sql_column
  om_key :: bool
  om_unique :: bool
  om_reference :: "(string \<times> string \<times> string) option"

datatype orm_arg =
    ArgUnique string "string list"
  | ArgCheck string string
  | ArgIndex string "string list" bool "string option"

record orm_model =
  om_table :: string
  om_columns :: "orm_column list"
  om_args :: "orm_arg list"

definition plain :: "sql_column \<Rightarrow> orm_column" where
  "plain c = \<lparr>om_column = c, om_key = False, om_unique = False, om_reference = None\<rparr>"

definition pkey :: "string \<Rightarrow> sql_type \<Rightarrow> orm_column" where
  "pkey n t = (plain (req n t))\<lparr>om_key := True\<rparr>"

definition must :: "string \<Rightarrow> sql_type \<Rightarrow> orm_column" where
  "must n t = plain (req n t)"

definition may :: "string \<Rightarrow> sql_type \<Rightarrow> orm_column" where
  "may n t = plain (opt n t)"

definition uniq :: "string \<Rightarrow> sql_type \<Rightarrow> orm_column" where
  "uniq n t = (plain (req n t))\<lparr>om_unique := True\<rparr>"

definition now_col :: "string \<Rightarrow> orm_column" where
  "now_col n = plain (stamp n)"

text \<open>
  A reference takes the type of the column it refers to, which is the numeric key of another model in
  every case.
\<close>

definition fkey :: "string \<Rightarrow> string \<Rightarrow> string \<Rightarrow> string \<Rightarrow> bool \<Rightarrow> bool \<Rightarrow> orm_column" where
  "fkey n t c act null unique =
     (plain (if null then opt n SqlBigInt else req n SqlBigInt))\<lparr>om_unique := unique, om_reference := Some (t, c, act)\<rparr>"

definition enum_column :: "string \<Rightarrow> string list \<Rightarrow> sql_type" where
  "enum_column n members = SqlEnum n members 32"

text \<open>The mixin adds its two columns after the ones of the class.\<close>

definition timestamp_mixin :: "orm_column list" where
  "timestamp_mixin = [now_col ''created_at'', now_col ''updated_at'']"

definition model :: "string \<Rightarrow> bool \<Rightarrow> orm_column list \<Rightarrow> orm_arg list \<Rightarrow> orm_model" where
  "model t stamped cols args =
     \<lparr>om_table = t, om_columns = cols @ (if stamped then timestamp_mixin else []), om_args = args\<rparr>"

text \<open>The naming convention of \<open>base.py\<close>; a check is named in its class and the others are complete.\<close>

fun arg_constraint :: "string \<Rightarrow> orm_arg \<Rightarrow> sql_constraint option" where
  "arg_constraint t (ArgUnique n cols) = Some (UniqueKey n cols)"
| "arg_constraint t (ArgCheck n txt) = Some (Check (''ck_'' @ t @ ''_'' @ n) txt)"
| "arg_constraint t (ArgIndex n cols u w) = None"

fun arg_index :: "string \<Rightarrow> orm_arg \<Rightarrow> sql_index option" where
  "arg_index t (ArgIndex n cols u w) = Some (index n t cols u w)"
| "arg_index t x = None"

definition column_constraints :: "string \<Rightarrow> orm_column \<Rightarrow> sql_constraint list" where
  "column_constraints t c =
     (let n = co_name (om_column c)
      in (if om_unique c then [UniqueKey (''uq_'' @ t @ ''_'' @ n) [n]] else []) @
         (case om_reference c of
            None \<Rightarrow> []
          | Some (rt, rc, act) \<Rightarrow> [ForeignKey (''fk_'' @ t @ ''_'' @ n @ ''_'' @ rt) n rt rc act]))"

definition orm_table :: "orm_model \<Rightarrow> sql_table" where
  "orm_table m =
     table (om_table m) (map om_column (om_columns m))
       (PrimaryKey (''pk_'' @ om_table m) (map (\<lambda>c. co_name (om_column c)) (filter om_key (om_columns m))) #
        concat (map (column_constraints (om_table m)) (om_columns m)) @
        List.map_filter (arg_constraint (om_table m)) (om_args m))"

definition orm_schema :: "orm_model list \<Rightarrow> schema" where
  "orm_schema ms =
     \<lparr>sc_tables = map orm_table ms,
      sc_indexes = concat (map (\<lambda>m. List.map_filter (arg_index (om_table m)) (om_args m)) ms)\<rparr>"

subsection \<open>The members of the enumerations\<close>

definition members_BrokerName :: "string list" where
  "members_BrokerName = [''KITE'', ''SIMULATION'']"

definition members_Exchange :: "string list" where
  "members_Exchange = [''NFO'', ''BFO'', ''NSE'', ''BSE'']"

definition members_OptionType :: "string list" where
  "members_OptionType = [''CE'', ''PE'']"

definition members_InstanceStatus :: "string list" where
  "members_InstanceStatus = [''ACTIVE'', ''FROZEN'', ''DISABLED'']"

definition members_PositionState :: "string list" where
  "members_PositionState = [''IDLE'', ''ENTRY_PENDING'', ''OPEN'', ''EXIT_PENDING'', ''CLOSED'', ''ERROR'']"

definition members_ExitReason :: "string list" where
  "members_ExitReason = [''TARGET'', ''STOPLOSS'', ''TIMEOUT'', ''KILL_SWITCH'', ''MANUAL'', ''ERROR'']"

definition members_TradeLegStatus :: "string list" where
  "members_TradeLegStatus = [''PENDING'', ''OPEN'', ''CLOSED'', ''UNWOUND'', ''ERROR'']"

definition members_OrderPurpose :: "string list" where
  "members_OrderPurpose = [''ENTRY'', ''EXIT'']"

definition members_TransactionType :: "string list" where
  "members_TransactionType = [''BUY'', ''SELL'']"

definition members_OrderType :: "string list" where
  "members_OrderType = [''MARKET'', ''LIMIT'']"

definition members_OrderStatus :: "string list" where
  "members_OrderStatus = [''PENDING'', ''OPEN'', ''COMPLETE'', ''REJECTED'', ''CANCELLED'', ''ERROR'']"

definition members_IntentStatus :: "string list" where
  "members_IntentStatus = [''PENDING'', ''SUBMITTED_UNCONFIRMED'', ''PLACED'', ''CONFIRMED'', ''FAILED'', ''CANCELLED'']"

definition members_StateTransitionActor :: "string list" where
  "members_StateTransitionActor = [''STRATEGY'', ''RISK_MANAGER'', ''KILL_SWITCH'', ''RECOVERY'', ''MANUAL'']"

definition members_RiskFlagType :: "string list" where
  "members_RiskFlagType = [''KILL_SWITCH'', ''EMERGENCY_EXIT'', ''FREEZE'']"

definition members_RiskFlagScope :: "string list" where
  "members_RiskFlagScope = [''GLOBAL'', ''ACCOUNT'', ''STRATEGY_INSTANCE'']"

definition members_ReconciliationBreakType :: "string list" where
  "members_ReconciliationBreakType = [''ORPHAN_FILL'', ''BROKER_FLAT_DB_OPEN'', ''AMBIGUOUS_ACK'', ''PARTIAL_ENTRY'', ''QUANTITY_MISMATCH'', ''OTHER'']"

definition members_ReconciliationResolution :: "string list" where
  "members_ReconciliationResolution = [''PENDING'', ''AUTO_REPAIRED'', ''MANUAL'']"

subsection \<open>The classes\<close>

definition model_account :: orm_model where
  "model_account = model ''accounts'' True
     [pkey ''id'' SqlBigInt,
      must ''broker'' (enum_column ''brokername_enum'' members_BrokerName),
      may ''broker_client_id'' (SqlVarChar 64),
      must ''display_name'' (SqlVarChar 128),
      must ''is_active'' SqlBool]
     [ArgUnique ''uq_accounts_broker_client'' [''broker'', ''broker_client_id'']]"

definition model_strategy_instance :: orm_model where
  "model_strategy_instance = model ''strategy_instances'' True
     [pkey ''id'' SqlBigInt,
      must ''strategy_id'' (SqlVarChar 64),
      must ''instrument'' (SqlVarChar 32),
      fkey ''account_id'' ''accounts'' ''id'' ''RESTRICT'' False False,
      must ''exchange'' (enum_column ''exchange_enum'' members_Exchange),
      must ''status'' (enum_column ''instancestatus_enum'' members_InstanceStatus),
      must ''version'' SqlBigInt]
     [ArgUnique ''uq_strategy_instances_strategy_instrument_account'' [''strategy_id'', ''instrument'', ''account_id''],
      ArgIndex ''ix_strategy_instances_frozen'' [''status''] False (Some (''status = '' @ [CHR 0x27] @ ''FROZEN'' @ [CHR 0x27]))]"

definition model_position :: orm_model where
  "model_position = model ''positions'' True
     [pkey ''id'' SqlBigInt,
      fkey ''strategy_instance_id'' ''strategy_instances'' ''id'' ''RESTRICT'' False False,
      must ''trade_date'' SqlDate,
      must ''state'' (enum_column ''positionstate_enum'' members_PositionState),
      may ''expiry_date'' SqlDate,
      may ''strike'' (SqlNumeric 12 2),
      may ''strike_interval'' (SqlNumeric 12 2),
      may ''lots'' SqlInt,
      may ''lot_size'' SqlInt,
      may ''quantity'' SqlInt,
      may ''entry_spot_ltp'' (SqlNumeric 18 4),
      may ''target_pct'' (SqlNumeric 6 4),
      may ''sl_pct'' (SqlNumeric 6 4),
      may ''combined_entry_premium'' (SqlNumeric 18 4),
      may ''target_premium'' (SqlNumeric 18 4),
      may ''stoploss_premium'' (SqlNumeric 18 4),
      may ''combined_exit_premium'' (SqlNumeric 18 4),
      may ''exit_reason'' (enum_column ''exitreason_enum'' members_ExitReason),
      may ''realized_pnl'' (SqlNumeric 18 4),
      may ''entry_signal_time'' SqlTimestamp,
      may ''entry_completed_at'' SqlTimestamp,
      may ''exit_signal_time'' SqlTimestamp,
      may ''exit_completed_at'' SqlTimestamp,
      may ''error_message'' SqlText,
      must ''needs_reconciliation'' SqlBool,
      must ''version'' SqlBigInt]
     [ArgUnique ''uq_positions_instance_trade_date'' [''strategy_instance_id'', ''trade_date''],
      ArgCheck ''lots_positive'' ''lots IS NULL OR lots > 0'',
      ArgCheck ''lot_size_positive'' ''lot_size IS NULL OR lot_size > 0'',
      ArgCheck ''quantity_positive'' ''quantity IS NULL OR quantity > 0'',
      ArgCheck ''quantity_matches_lots_times_lot_size'' ''lots IS NULL OR lot_size IS NULL OR quantity IS NULL OR quantity = lots * lot_size'',
      ArgCheck ''target_pct_in_range'' ''target_pct IS NULL OR (target_pct > 0 AND target_pct < 1)'',
      ArgCheck ''sl_pct_in_range'' ''sl_pct IS NULL OR (sl_pct > 0 AND sl_pct < 1)'',
      ArgCheck ''exit_after_entry'' ''exit_completed_at IS NULL OR entry_completed_at IS NULL OR exit_completed_at >= entry_completed_at'',
      ArgIndex ''ix_positions_active_states'' [''state''] False (Some (''state IN ('' @ [CHR 0x27] @ ''ENTRY_PENDING'' @ [CHR 0x27] @ '', '' @ [CHR 0x27] @ ''OPEN'' @ [CHR 0x27] @ '', '' @ [CHR 0x27] @ ''EXIT_PENDING'' @ [CHR 0x27] @ '', '' @ [CHR 0x27] @ ''ERROR'' @ [CHR 0x27] @ '')'')),
      ArgIndex ''ix_positions_trade_date'' [''trade_date''] False None]"

definition model_trade :: orm_model where
  "model_trade = model ''trades'' True
     [pkey ''id'' SqlBigInt,
      fkey ''position_id'' ''positions'' ''id'' ''RESTRICT'' False False,
      must ''option_type'' (enum_column ''optiontype_enum'' members_OptionType),
      must ''trading_symbol'' (SqlVarChar 64),
      must ''exchange'' (enum_column ''exchange_enum'' members_Exchange),
      must ''strike'' (SqlNumeric 12 2),
      must ''quantity'' SqlInt,
      may ''entry_price'' (SqlNumeric 18 4),
      may ''exit_price'' (SqlNumeric 18 4),
      may ''entry_time'' SqlTimestamp,
      may ''exit_time'' SqlTimestamp,
      may ''realized_pnl'' (SqlNumeric 18 4),
      must ''status'' (enum_column ''tradelegstatus_enum'' members_TradeLegStatus),
      must ''version'' SqlBigInt]
     [ArgUnique ''uq_trades_position_type_strike'' [''position_id'', ''option_type'', ''strike''],
      ArgCheck ''quantity_positive'' ''quantity > 0'',
      ArgCheck ''exit_after_entry'' ''exit_time IS NULL OR entry_time IS NULL OR exit_time >= entry_time'',
      ArgCheck ''entry_price_non_negative'' ''entry_price IS NULL OR entry_price >= 0'',
      ArgCheck ''exit_price_non_negative'' ''exit_price IS NULL OR exit_price >= 0'',
      ArgIndex ''ix_trades_open_status'' [''status''] False (Some (''status = '' @ [CHR 0x27] @ ''OPEN'' @ [CHR 0x27])),
      ArgIndex ''ix_trades_position_id'' [''position_id''] False None]"

definition model_order :: orm_model where
  "model_order = model ''orders'' True
     [pkey ''id'' SqlBigInt,
      fkey ''trade_id'' ''trades'' ''id'' ''RESTRICT'' False False,
      fkey ''intent_id'' ''order_intents'' ''id'' ''RESTRICT'' True False,
      must ''purpose'' (enum_column ''orderpurpose_enum'' members_OrderPurpose),
      must ''transaction_type'' (enum_column ''transactiontype_enum'' members_TransactionType),
      must ''order_type'' (enum_column ''ordertype_enum'' members_OrderType),
      must ''quantity'' SqlInt,
      must ''filled_quantity'' SqlInt,
      may ''average_price'' (SqlNumeric 18 4),
      must ''status'' (enum_column ''orderstatus_enum'' members_OrderStatus),
      may ''broker_order_id'' (SqlVarChar 64),
      may ''broker_tag'' (SqlVarChar 20),
      may ''placed_at'' SqlTimestamp,
      may ''filled_at'' SqlTimestamp,
      may ''error_message'' SqlText,
      may ''raw_response'' SqlJson,
      must ''retry_count'' SqlInt,
      must ''version'' SqlBigInt]
     [ArgUnique ''uq_orders_broker_order_id'' [''broker_order_id''],
      ArgCheck ''quantity_positive'' ''quantity > 0'',
      ArgCheck ''filled_quantity_within_bounds'' ''filled_quantity >= 0 AND filled_quantity <= quantity'',
      ArgCheck ''retry_count_non_negative'' ''retry_count >= 0'',
      ArgIndex ''ix_orders_in_flight'' [''status''] False (Some (''status IN ('' @ [CHR 0x27] @ ''PENDING'' @ [CHR 0x27] @ '', '' @ [CHR 0x27] @ ''OPEN'' @ [CHR 0x27] @ '')'')),
      ArgIndex ''ix_orders_trade_id'' [''trade_id''] False None]"

definition model_order_intent :: orm_model where
  "model_order_intent = model ''order_intents'' True
     [pkey ''id'' SqlBigInt,
      fkey ''trade_id'' ''trades'' ''id'' ''RESTRICT'' False False,
      must ''purpose'' (enum_column ''orderpurpose_enum'' members_OrderPurpose),
      must ''transaction_type'' (enum_column ''transactiontype_enum'' members_TransactionType),
      must ''quantity'' SqlInt,
      uniq ''idempotency_key'' (SqlVarChar 128),
      uniq ''broker_tag'' (SqlVarChar 20),
      must ''status'' (enum_column ''intentstatus_enum'' members_IntentStatus),
      may ''broker_call_started_at'' SqlTimestamp,
      must ''version'' SqlBigInt]
     [ArgCheck ''quantity_positive'' ''quantity > 0'',
      ArgIndex ''ix_order_intents_in_doubt'' [''status''] False (Some (''status IN ('' @ [CHR 0x27] @ ''PENDING'' @ [CHR 0x27] @ '', '' @ [CHR 0x27] @ ''SUBMITTED_UNCONFIRMED'' @ [CHR 0x27] @ '', '' @ [CHR 0x27] @ ''PLACED'' @ [CHR 0x27] @ '')'')),
      ArgIndex ''ix_order_intents_trade_id'' [''trade_id''] False None]"

definition model_position_state_transition :: orm_model where
  "model_position_state_transition = model ''position_state_transitions'' False
     [pkey ''id'' SqlBigInt,
      fkey ''position_id'' ''positions'' ''id'' ''RESTRICT'' False False,
      may ''from_state'' (enum_column ''positionstate_from_enum'' members_PositionState),
      must ''to_state'' (enum_column ''positionstate_to_enum'' members_PositionState),
      may ''reason'' SqlText,
      must ''actor'' (enum_column ''statetransitionactor_enum'' members_StateTransitionActor),
      now_col ''created_at'']
     [ArgIndex ''ix_position_state_transitions_position_created'' [''position_id'', ''created_at''] False None]"

definition model_daily_risk_state :: orm_model where
  "model_daily_risk_state = model ''daily_risk_state'' True
     [pkey ''id'' SqlBigInt,
      fkey ''account_id'' ''accounts'' ''id'' ''RESTRICT'' False False,
      may ''instrument'' (SqlVarChar 32),
      must ''trade_date'' SqlDate,
      must ''realized_pnl'' (SqlNumeric 18 4),
      must ''unrealized_pnl'' (SqlNumeric 18 4),
      must ''loss_limit'' (SqlNumeric 18 4),
      must ''breached'' SqlBool,
      may ''breached_at'' SqlTimestamp,
      must ''version'' SqlBigInt]
     [ArgIndex ''uq_daily_risk_state_portfolio_row'' [''account_id'', ''trade_date''] True (Some ''instrument IS NULL''),
      ArgIndex ''uq_daily_risk_state_instrument_row'' [''account_id'', ''instrument'', ''trade_date''] True (Some ''instrument IS NOT NULL''),
      ArgIndex ''ix_daily_risk_state_trade_date'' [''trade_date''] False None]"

definition model_risk_control_flag :: orm_model where
  "model_risk_control_flag = model ''risk_control_flags'' True
     [pkey ''id'' SqlBigInt,
      must ''flag_type'' (enum_column ''riskflagtype_enum'' members_RiskFlagType),
      must ''scope'' (enum_column ''riskflagscope_enum'' members_RiskFlagScope),
      fkey ''account_id'' ''accounts'' ''id'' ''RESTRICT'' True False,
      fkey ''strategy_instance_id'' ''strategy_instances'' ''id'' ''RESTRICT'' True False,
      must ''active'' SqlBool,
      may ''reason'' SqlText,
      may ''activated_by'' (SqlVarChar 128),
      must ''activated_at'' SqlTimestamp,
      may ''cleared_at'' SqlTimestamp,
      may ''cleared_by'' (SqlVarChar 128),
      must ''version'' SqlBigInt]
     [ArgCheck ''scope_matches_populated_fk'' (''(scope = '' @ [CHR 0x27] @ ''GLOBAL'' @ [CHR 0x27] @ '' AND account_id IS NULL AND strategy_instance_id IS NULL) OR (scope = '' @ [CHR 0x27] @ ''ACCOUNT'' @ [CHR 0x27] @ '' AND account_id IS NOT NULL AND strategy_instance_id IS NULL) OR (scope = '' @ [CHR 0x27] @ ''STRATEGY_INSTANCE'' @ [CHR 0x27] @ '' AND strategy_instance_id IS NOT NULL)''),
      ArgIndex ''ix_risk_control_flags_active'' [''active''] False (Some ''active = true''),
      ArgIndex ''ix_risk_control_flags_account_id'' [''account_id''] False None,
      ArgIndex ''ix_risk_control_flags_strategy_instance_id'' [''strategy_instance_id''] False None]"

definition model_reconciliation_break :: orm_model where
  "model_reconciliation_break = model ''reconciliation_breaks'' True
     [pkey ''id'' SqlBigInt,
      fkey ''position_id'' ''positions'' ''id'' ''RESTRICT'' True False,
      fkey ''order_id'' ''orders'' ''id'' ''RESTRICT'' True False,
      fkey ''intent_id'' ''order_intents'' ''id'' ''RESTRICT'' True False,
      must ''break_type'' (enum_column ''reconciliationbreaktype_enum'' members_ReconciliationBreakType),
      must ''detected_at'' SqlTimestamp,
      may ''broker_snapshot'' SqlJson,
      must ''resolution'' (enum_column ''reconciliationresolution_enum'' members_ReconciliationResolution),
      may ''resolution_notes'' SqlText,
      may ''resolved_at'' SqlTimestamp,
      may ''resolved_by'' (SqlVarChar 128),
      must ''version'' SqlBigInt]
     [ArgIndex ''ix_reconciliation_breaks_pending'' [''resolution''] False (Some (''resolution = '' @ [CHR 0x27] @ ''PENDING'' @ [CHR 0x27])),
      ArgIndex ''ix_reconciliation_breaks_position_id'' [''position_id''] False None]"

definition model_trade_history :: orm_model where
  "model_trade_history = model ''trade_history'' True
     [pkey ''id'' SqlBigInt,
      fkey ''position_id'' ''positions'' ''id'' ''RESTRICT'' False True,
      may ''strategy_instance_id'' SqlBigInt,
      may ''account_id'' SqlBigInt,
      must ''trade_date'' SqlDate,
      must ''strategy_id'' (SqlVarChar 64),
      must ''instrument'' (SqlVarChar 32),
      may ''account_name'' (SqlVarChar 128),
      may ''mode'' (SqlVarChar 16),
      may ''exchange'' (enum_column ''exchange_enum'' members_Exchange),
      may ''strike'' (SqlNumeric 12 2),
      may ''expiry_date'' SqlDate,
      may ''call_symbol'' (SqlVarChar 64),
      may ''put_symbol'' (SqlVarChar 64),
      may ''entry_time'' SqlTimestamp,
      may ''exit_time'' SqlTimestamp,
      may ''entry_signal_time'' SqlTimestamp,
      may ''exit_signal_time'' SqlTimestamp,
      may ''holding_seconds'' SqlInt,
      may ''holding_minutes'' (SqlNumeric 12 2),
      may ''lots'' SqlInt,
      may ''lot_size'' SqlInt,
      may ''quantity'' SqlInt,
      may ''combined_entry_premium'' (SqlNumeric 18 4),
      may ''combined_exit_premium'' (SqlNumeric 18 4),
      may ''target_premium'' (SqlNumeric 18 4),
      may ''stoploss_premium'' (SqlNumeric 18 4),
      may ''target_pct'' (SqlNumeric 6 4),
      may ''sl_pct'' (SqlNumeric 6 4),
      may ''call_entry_price'' (SqlNumeric 18 4),
      may ''call_exit_price'' (SqlNumeric 18 4),
      may ''put_entry_price'' (SqlNumeric 18 4),
      may ''put_exit_price'' (SqlNumeric 18 4),
      may ''entry_spot_ltp'' (SqlNumeric 18 4),
      may ''exit_spot_ltp'' (SqlNumeric 18 4),
      may ''exit_reason'' (enum_column ''exitreason_enum'' members_ExitReason),
      may ''realized_pnl'' (SqlNumeric 18 4),
      may ''pnl_per_share'' (SqlNumeric 18 4),
      may ''profit_percent'' (SqlNumeric 10 4),
      may ''max_profit_seen'' (SqlNumeric 18 4),
      may ''max_loss_seen'' (SqlNumeric 18 4),
      may ''day_of_week'' (SqlVarChar 9),
      may ''month'' SqlInt,
      may ''broker_order_ids'' SqlJson,
      may ''extra'' SqlJson]
     [ArgIndex ''ix_trade_history_trade_date'' [''trade_date''] False None,
      ArgIndex ''ix_trade_history_instrument'' [''instrument''] False None,
      ArgIndex ''ix_trade_history_strategy_id'' [''strategy_id''] False None,
      ArgIndex ''ix_trade_history_exit_reason'' [''exit_reason''] False None,
      ArgIndex ''ix_trade_history_expiry_date'' [''expiry_date''] False None,
      ArgIndex ''ix_trade_history_strategy_instrument_date'' [''strategy_id'', ''instrument'', ''trade_date''] False None]"

definition all_models :: "orm_model list" where
  "all_models =
     [model_account, model_strategy_instance, model_position, model_trade, model_order_intent, model_order,
      model_position_state_transition, model_daily_risk_state, model_risk_control_flag, model_reconciliation_break,
      model_trade_history]"

end
