(* ===== verification/Schema_Proofs.thy ===== *)
theory Schema_Proofs
  imports Schema
begin

text \<open>
  The migration scripts against the models: where the schema the scripts build differs from the one
  the model classes declare, and that every script can be undone.
\<close>

section \<open>Differences\<close>

datatype drift =
    TableDrift string
  | ColumnDrift string string "sql_column option" "sql_column option"
  | ConstraintDrift string string
  | IndexDrift string

text \<open>What is left of two lists once every entry is cancelled with the equal entry of that name.\<close>

fun pick :: "('a \<Rightarrow> bool) \<Rightarrow> 'a list \<Rightarrow> ('a \<times> 'a list) option" where
  "pick P [] = None"
| "pick P (y # ys) = (if P y then Some (y, ys) else map_option (\<lambda>(z, zs). (z, y # zs)) (pick P ys))"

fun unmatched :: "('a \<Rightarrow> string) \<Rightarrow> 'a list \<Rightarrow> 'a list \<Rightarrow> string list" where
  "unmatched name [] ys = map name ys"
| "unmatched name (x # xs) ys =
     (case pick (\<lambda>y. name y = name x) ys of
        None \<Rightarrow> name x # unmatched name xs ys
      | Some (y, zs) \<Rightarrow> if y = x then unmatched name xs zs else name x # unmatched name xs zs)"

definition column_of :: "string \<Rightarrow> sql_table \<Rightarrow> sql_column option" where
  "column_of n t = List.find (\<lambda>c. co_name c = n) (tb_columns t)"

definition table_drift :: "sql_table \<Rightarrow> sql_table \<Rightarrow> drift list" where
  "table_drift a b =
     map (\<lambda>n. ColumnDrift (tb_name a) n (column_of n a) (column_of n b))
       (unmatched co_name (tb_columns a) (tb_columns b)) @
     map (ConstraintDrift (tb_name a)) (unmatched constraint_name (tb_constraints a) (tb_constraints b))"

definition schema_drift :: "schema \<Rightarrow> schema \<Rightarrow> drift list" where
  "schema_drift s m =
     concat (map (\<lambda>a. case find_table (tb_name a) m of
         None \<Rightarrow> [TableDrift (tb_name a)] | Some b \<Rightarrow> table_drift a b) (sc_tables s)) @
     map TableDrift (filter (\<lambda>n. find_table n s = None) (map tb_name (sc_tables m))) @
     map IndexDrift (unmatched in_name (sc_indexes s) (sc_indexes m))"


section \<open>Well-formed schemas\<close>

text \<open>
  What every operation keeps: names are unique, every key and index uses columns of its table, and
  every reference leads to a table.
\<close>

fun key_ok :: "string set \<Rightarrow> string set \<Rightarrow> sql_constraint \<Rightarrow> bool" where
  "key_ok tables cols (ForeignKey n col rt rc act) = (col \<in> cols \<and> rt \<in> tables)"
| "key_ok tables cols k = (set (key_columns k) \<subseteq> cols)"

definition schema_ok :: "schema \<Rightarrow> bool" where
  "schema_ok s \<longleftrightarrow>
     distinct (map tb_name (sc_tables s)) \<and> distinct (map in_name (sc_indexes s)) \<and>
     (\<forall>t \<in> set (sc_tables s). distinct (column_names t) \<and>
        (\<forall>k \<in> set (tb_constraints t). key_ok (tb_name ` set (sc_tables s)) (set (column_names t)) k)) \<and>
     (\<forall>i \<in> set (sc_indexes s). \<exists>t \<in> set (sc_tables s). tb_name t = in_table i \<and> set (in_columns i) \<subseteq> set (column_names t))"

fun inverse_op :: "schema_op \<Rightarrow> schema_op" where
  "inverse_op (CreateTable t) = DropTable (tb_name t)"
| "inverse_op (CreateIndex i) = DropIndex (in_name i) (in_table i)"
| "inverse_op (AddColumn n c) = DropColumn n (co_name c)"
| "inverse_op x = x"

fun creates :: "schema_op \<Rightarrow> bool" where
  "creates (CreateTable t) = True"
| "creates (CreateIndex i) = True"
| "creates (AddColumn n c) = True"
| "creates x = False"

text \<open>What an operation that only adds makes of a schema, its conditions aside.\<close>

fun made :: "schema_op list \<Rightarrow> schema \<Rightarrow> schema" where
  "made [] s = s"
| "made (CreateTable t # xs) s = made xs (s\<lparr>sc_tables := sc_tables s @ [t]\<rparr>)"
| "made (CreateIndex i # xs) s = made xs (s\<lparr>sc_indexes := sc_indexes s @ [i]\<rparr>)"
| "made (AddColumn n c # xs) s = made xs (change_table n (\<lambda>t. t\<lparr>tb_columns := tb_columns t @ [c]\<rparr>) s)"
| "made (x # xs) s = made xs s"

fun creates_ok :: "schema_op list \<Rightarrow> schema \<Rightarrow> bool" where
  "creates_ok [] s = True"
| "creates_ok (x # xs) s = (creates x \<and> \<not> Option.is_none (apply_op x s) \<and> creates_ok xs (made [x] s))"

lemma apply_made: "creates x \<Longrightarrow> apply_op x s = Some s' \<Longrightarrow> s' = made [x] s"
  by (cases x) (auto split: if_splits option.splits)

lemma made_Cons: "made (x # xs) s = made xs (made [x] s)"
  by (cases x) auto

lemma run_creates: "creates_ok xs s \<Longrightarrow> run_ops xs s = Some (made xs s)"
proof (induction xs arbitrary: s)
  case (Cons x xs)
  then obtain s' where a: "apply_op x s = Some s'" by (auto simp: Option.is_none_def)
  with Cons.prems have "s' = made [x] s" using apply_made by auto
  then show ?case using Cons a made_Cons [of x xs] by simp
qed simp

lemma creates_ok_append: "creates_ok (xs @ ys) s = (creates_ok xs s \<and> creates_ok ys (made xs s))"
proof (induction xs arbitrary: s)
  case (Cons x xs)
  show ?case by (simp only: append_Cons creates_ok.simps Cons made_Cons [of x xs] conj_assoc)
qed simp

lemma made_append: "made (xs @ ys) s = made ys (made xs s)"
  by (induction xs s rule: made.induct) auto

lemma find_table_None: "find_table n s = None \<longleftrightarrow> n \<notin> tb_name ` set (sc_tables s)"
  by (auto simp: find_table_def find_None_iff)

lemma find_table_Some: "find_table n s = Some t \<Longrightarrow> t \<in> set (sc_tables s) \<and> tb_name t = n"
  by (auto simp: find_table_def find_Some_iff)

lemma key_ok_keys: "key_ok tables cols k \<Longrightarrow> set (key_columns k) \<subseteq> cols"
  by (cases k) auto

lemma key_ok_mono: "key_ok tables cols k \<Longrightarrow> tables \<subseteq> tables' \<Longrightarrow> cols \<subseteq> cols' \<Longrightarrow> key_ok tables' cols' k"
  by (cases k) auto

lemma reference_ok_table:
  "reference_ok s (ForeignKey n col rt rc act) \<Longrightarrow> rt \<in> tb_name ` set (sc_tables s)"
  using find_table_None [of rt s] by (auto split: option.splits)

lemma table_ok_keys:
  assumes t: "table_ok s t" and k: "k \<in> set (tb_constraints t)"
  shows "key_ok (insert (tb_name t) (tb_name ` set (sc_tables s))) (set (column_names t)) k"
proof -
  have cols: "set (key_columns k) \<subseteq> set (column_names t)" and ref: "reference_ok (s\<lparr>sc_tables := sc_tables s @ [t]\<rparr>) k"
    using t k by (auto simp: table_ok_def list_all_iff)
  show ?thesis
  proof (cases k)
    case (ForeignKey n col rt rc act)
    then show ?thesis using cols reference_ok_table ref by fastforce
  qed (use cols in auto)
qed

lemma references_iff:
  "references n t \<longleftrightarrow> (\<exists>m col rc act. ForeignKey m col n rc act \<in> set (tb_constraints t))"
proof
  assume "references n t"
  then obtain k where "k \<in> set (tb_constraints t)" "case k of ForeignKey m col rt rc act \<Rightarrow> rt = n | _ \<Rightarrow> False"
    by (auto simp: references_def list_ex_iff)
  then show "\<exists>m col rc act. ForeignKey m col n rc act \<in> set (tb_constraints t)" by - (cases k, auto)
qed (force simp: references_def list_ex_iff)

lemma references_names:
  assumes "schema_ok s" and "t \<in> set (sc_tables s)" and "references n t"
  shows "n \<in> tb_name ` set (sc_tables s)"
proof -
  obtain m col rc act where "ForeignKey m col n rc act \<in> set (tb_constraints t)"
    using assms(3) references_iff by blast
  then have "key_ok (tb_name ` set (sc_tables s)) (set (column_names t)) (ForeignKey m col n rc act)"
    using assms(1,2) unfolding schema_ok_def by blast
  then show ?thesis by simp
qed

lemma references_key:
  "\<not> references n t \<Longrightarrow> k \<in> set (tb_constraints t) \<Longrightarrow> key_ok tables cols k \<Longrightarrow> key_ok (tables - {n}) cols k"
  by (cases k) (auto simp: references_iff)

lemma names_change [simp]:
  "map tb_name (map (\<lambda>t. if tb_name t = n then f t else t) ts) = map tb_name ts" if "\<And>t. tb_name (f t) = tb_name t"
  using that by auto

lemma find_change:
  assumes "\<And>t. tb_name (f t) = tb_name t"
  shows "List.find (\<lambda>t. tb_name t = n) (map (\<lambda>t. if tb_name t = n then f t else t) ts) =
    map_option f (List.find (\<lambda>t. tb_name t = n) ts)"
  by (induction ts) (auto simp: assms)

lemma undo_op:
  assumes ok: "schema_ok s" and run: "apply_op x s = Some s'" and "creates x"
  shows "apply_op (inverse_op x) s' = Some s"
proof (cases x)
  case (CreateTable t)
  with run have s': "s' = s\<lparr>sc_tables := sc_tables s @ [t]\<rparr>" and new: "tb_name t \<notin> tb_name ` set (sc_tables s)"
    by (auto simp: find_table_None split: if_splits)
  have "\<not> list_ex (\<lambda>t'. tb_name t' \<noteq> tb_name t \<and> references (tb_name t) t') (sc_tables s')"
    using references_names [OF ok] new by (auto simp: s' list_ex_iff)
  moreover have "find_table (tb_name t) s' \<noteq> None" by (simp add: find_table_None s')
  moreover have "filter (\<lambda>t'. tb_name t' \<noteq> tb_name t) (sc_tables s') = sc_tables s"
    using new by (simp add: s' filter_id_conv) (metis image_eqI)
  moreover have "filter (\<lambda>i. in_table i \<noteq> tb_name t) (sc_indexes s') = sc_indexes s"
    using ok new by (simp add: s' filter_id_conv schema_ok_def) (metis image_eqI)
  ultimately show ?thesis by (simp add: CreateTable)
next
  case (CreateIndex i)
  with run have s': "s' = s\<lparr>sc_indexes := sc_indexes s @ [i]\<rparr>" and new: "in_name i \<notin> in_name ` set (sc_indexes s)"
    by (auto simp: list_ex_iff split: if_splits option.splits)
  have "filter (\<lambda>j. in_name j \<noteq> in_name i) (sc_indexes s) = sc_indexes s"
    using new by (simp add: filter_id_conv) (metis image_eqI)
  then show ?thesis by (simp add: CreateIndex s')
next
  case (AddColumn n c)
  with run obtain t where t: "find_table n s = Some t" and new: "co_name c \<notin> set (column_names t)"
    and s': "s' = change_table n (\<lambda>t. t\<lparr>tb_columns := tb_columns t @ [c]\<rparr>) s"
    by (auto split: if_splits option.splits)
  let ?t = "t\<lparr>tb_columns := tb_columns t @ [c]\<rparr>"
  have mem: "t \<in> set (sc_tables s)" "tb_name t = n" using find_table_Some [OF t] by auto
  have unique: "t' = t" if "t' \<in> set (sc_tables s)" "tb_name t' = n" for t'
    using ok that mem by (auto simp: schema_ok_def distinct_map inj_on_def)
  have "find_table n s' = Some ?t"
    unfolding find_table_def s' change_table_def
    by (simp add: find_change t [unfolded find_table_def])
  moreover have "\<not> list_ex (\<lambda>k. co_name c \<in> set (key_columns k)) (tb_constraints t)"
    using ok mem new key_ok_keys by (fastforce simp: schema_ok_def list_ex_iff)
  moreover have "\<not> list_ex (\<lambda>i. in_table i = n \<and> co_name c \<in> set (in_columns i)) (sc_indexes s')"
    using ok unique new by (force simp: schema_ok_def list_ex_iff s' change_table_def)
  moreover have "change_table n (\<lambda>t. t\<lparr>tb_columns := filter (\<lambda>x. co_name x \<noteq> co_name c) (tb_columns t)\<rparr>) s' = s"
  proof -
    have "filter (\<lambda>x. co_name x \<noteq> co_name c) (tb_columns t) = tb_columns t"
      using new by (simp add: filter_id_conv column_names_def) (metis image_eqI)
    then show ?thesis using unique by (auto simp: s' change_table_def intro!: schema.equality map_idI)
  qed
  ultimately show ?thesis by (simp add: AddColumn column_names_def)
qed (use assms in auto)

lemma columns_used:
  assumes ok: "schema_ok s" and t: "find_table n s = Some t"
  shows "distinct (column_names t)" and "k \<in> set (tb_constraints t) \<Longrightarrow> set (key_columns k) \<subseteq> set (column_names t)"
    and "i \<in> set (sc_indexes s) \<Longrightarrow> in_table i = n \<Longrightarrow> set (in_columns i) \<subseteq> set (column_names t)"
proof -
  have mem: "t \<in> set (sc_tables s)" "tb_name t = n" using find_table_Some [OF t] by auto
  have unique: "u = t" if "u \<in> set (sc_tables s)" "tb_name u = n" for u
    using ok that mem by (auto simp: schema_ok_def distinct_map inj_on_def)
  show "distinct (column_names t)" using ok mem by (simp add: schema_ok_def)
  show "set (key_columns k) \<subseteq> set (column_names t)" if "k \<in> set (tb_constraints t)"
    using ok mem that key_ok_keys unfolding schema_ok_def by blast
  show "set (in_columns i) \<subseteq> set (column_names t)" if "i \<in> set (sc_indexes s)" "in_table i = n"
    using ok that unique unfolding schema_ok_def by blast
qed

lemma change_ok:
  assumes ok: "schema_ok s" and t: "find_table n s = Some t"
    and same: "\<And>u. tb_name (f u) = tb_name u" "\<And>u. tb_constraints (f u) = tb_constraints u"
    and cols: "distinct (column_names (f t))"
      "\<And>k c. k \<in> set (tb_constraints t) \<Longrightarrow> c \<in> set (key_columns k) \<Longrightarrow> c \<in> set (column_names (f t))"
      "\<And>i c. i \<in> set (sc_indexes s) \<Longrightarrow> in_table i = n \<Longrightarrow> c \<in> set (in_columns i) \<Longrightarrow> c \<in> set (column_names (f t))"
  shows "schema_ok (change_table n f s)"
proof -
  have mem: "t \<in> set (sc_tables s)" "tb_name t = n" using find_table_Some [OF t] by auto
  have unique: "u = t" if "u \<in> set (sc_tables s)" "tb_name u = n" for u
    using ok that mem by (auto simp: schema_ok_def distinct_map inj_on_def)
  let ?g = "\<lambda>u. if tb_name u = n then f u else u"
  have tables: "sc_tables (change_table n f s) = map ?g (sc_tables s)" "sc_indexes (change_table n f s) = sc_indexes s"
    by (simp_all add: change_table_def)
  have names: "map tb_name (map ?g (sc_tables s)) = map tb_name (sc_tables s)" using same by simp
  then have sets: "tb_name ` set (map ?g (sc_tables s)) = tb_name ` set (sc_tables s)" by (metis set_map)
  have keys: "key_ok (tb_name ` set (sc_tables s)) (set (column_names (?g u))) k"
    if u: "u \<in> set (sc_tables s)" and k: "k \<in> set (tb_constraints (?g u))" for u k
  proof -
    have old: "key_ok (tb_name ` set (sc_tables s)) (set (column_names u)) k"
      using ok u k same by (auto simp: schema_ok_def split: if_splits)
    show ?thesis
    proof (cases "tb_name u = n")
      case True
      then have "set (key_columns k) \<subseteq> set (column_names (f t))" using cols(2) k same unique [OF u] by auto
      with old True unique [OF u] show ?thesis by (cases k) auto
    qed (use old in simp)
  qed
  show ?thesis unfolding schema_ok_def tables sets
  proof (intro conjI ballI)
    show "distinct (map tb_name (map ?g (sc_tables s)))" "distinct (map in_name (sc_indexes s))"
      using ok unfolding names by (simp_all add: schema_ok_def)
    show "distinct (column_names v)" if "v \<in> set (map ?g (sc_tables s))" for v
      using ok that cols(1) unique by (auto simp: schema_ok_def)
    show "key_ok (tb_name ` set (sc_tables s)) (set (column_names v)) k"
      if "v \<in> set (map ?g (sc_tables s))" "k \<in> set (tb_constraints v)" for v k
    proof -
      from that(1) obtain u where u: "u \<in> set (sc_tables s)" "v = ?g u" by auto
      show ?thesis using keys [OF u(1)] that(2) u(2) by blast
    qed
    show "\<exists>v \<in> set (map ?g (sc_tables s)). tb_name v = in_table i \<and> set (in_columns i) \<subseteq> set (column_names v)"
      if i: "i \<in> set (sc_indexes s)" for i
    proof -
      obtain u where u: "u \<in> set (sc_tables s)" "tb_name u = in_table i" "set (in_columns i) \<subseteq> set (column_names u)"
        using ok i by (auto simp: schema_ok_def)
      then have "tb_name (?g u) = in_table i \<and> set (in_columns i) \<subseteq> set (column_names (?g u))"
        using cols(3) [OF i] unique [OF u(1)] same by auto
      moreover have "?g u \<in> set (map ?g (sc_tables s))" using u(1) by simp
      ultimately show ?thesis by blast
    qed
  qed
qed

lemma keeps_ok:
  assumes ok: "schema_ok s" and run: "apply_op x s = Some s'"
  shows "schema_ok s'"
proof (cases x)
  case (CreateTable t)
  with run have s': "s' = s\<lparr>sc_tables := sc_tables s @ [t]\<rparr>" and new: "tb_name t \<notin> tb_name ` set (sc_tables s)"
    and t: "table_ok s t"
    by (auto simp: find_table_None split: if_splits)
  have old: "key_ok (tb_name ` set (sc_tables s')) (set (column_names u)) k"
    if "u \<in> set (sc_tables s)" "k \<in> set (tb_constraints u)" for u k
    using ok that by (auto simp: schema_ok_def s' intro: key_ok_mono)
  show ?thesis using ok new t old table_ok_keys [OF t]
    by (auto simp: schema_ok_def s' table_ok_def)
next
  case (DropTable n)
  with run have s': "s' = \<lparr>sc_tables = filter (\<lambda>t. tb_name t \<noteq> n) (sc_tables s),
      sc_indexes = filter (\<lambda>i. in_table i \<noteq> n) (sc_indexes s)\<rparr>"
    and free: "\<And>t. t \<in> set (sc_tables s) \<Longrightarrow> tb_name t \<noteq> n \<Longrightarrow> \<not> references n t"
    by (auto simp: list_ex_iff split: if_splits)
  have names: "tb_name ` set (sc_tables s') = tb_name ` set (sc_tables s) - {n}" by (auto simp: s')
  have keys: "key_ok (tb_name ` set (sc_tables s')) (set (column_names u)) k"
    if "u \<in> set (sc_tables s')" "k \<in> set (tb_constraints u)" for u k
    unfolding names using ok that free by (intro references_key) (auto simp: s' schema_ok_def)
  show ?thesis unfolding schema_ok_def
  proof (intro conjI ballI)
    show "distinct (map tb_name (sc_tables s'))" "distinct (map in_name (sc_indexes s'))"
      using ok by (auto simp: s' schema_ok_def distinct_map_filter)
    show "distinct (column_names t)" if "t \<in> set (sc_tables s')" for t
      using ok that by (auto simp: s' schema_ok_def)
    show "\<exists>t \<in> set (sc_tables s'). tb_name t = in_table i \<and> set (in_columns i) \<subseteq> set (column_names t)"
      if "i \<in> set (sc_indexes s')" for i
      using ok that by (fastforce simp: s' schema_ok_def)
  qed (use keys in auto)
next
  case (CreateIndex i)
  with run obtain t where t: "find_table (in_table i) s = Some t"
    and s': "s' = s\<lparr>sc_indexes := sc_indexes s @ [i]\<rparr>" and new: "\<forall>j \<in> set (sc_indexes s). in_name j \<noteq> in_name i"
    and cols: "\<forall>c \<in> set (in_columns i). c \<in> set (column_names t)"
    by (auto simp: list_ex_iff list_all_iff split: if_splits option.splits)
  show ?thesis using ok new cols find_table_Some [OF t] by (auto simp: schema_ok_def s')
next
  case (DropIndex n t)
  with run have s': "s' = s\<lparr>sc_indexes := filter (\<lambda>i. in_name i \<noteq> n) (sc_indexes s)\<rparr>"
    by (auto split: if_splits)
  show ?thesis using ok by (auto simp: schema_ok_def s' distinct_map_filter)
next
  case (AddColumn n c)
  with run obtain t where t: "find_table n s = Some t" and new: "co_name c \<notin> set (column_names t)"
    and s': "s' = change_table n (\<lambda>t. t\<lparr>tb_columns := tb_columns t @ [c]\<rparr>) s"
    by (auto split: if_splits option.splits)
  show ?thesis unfolding s'
    by (rule change_ok [OF ok t]) (use new columns_used [OF ok t] in \<open>fastforce simp: column_names_def\<close>)+
next
  case (DropColumn n c)
  with run obtain t where t: "find_table n s = Some t"
    and free: "\<And>k. k \<in> set (tb_constraints t) \<Longrightarrow> c \<notin> set (key_columns k)"
      "\<And>i. i \<in> set (sc_indexes s) \<Longrightarrow> in_table i = n \<Longrightarrow> c \<notin> set (in_columns i)"
    and s': "s' = change_table n (\<lambda>t. t\<lparr>tb_columns := filter (\<lambda>x. co_name x \<noteq> c) (tb_columns t)\<rparr>) s"
    by (auto simp: list_ex_iff split: if_splits option.splits)
  show ?thesis unfolding s'
    by (rule change_ok [OF ok t])
      (use free columns_used [OF ok t] in \<open>fastforce simp: column_names_def distinct_map_filter\<close>)+
qed

section \<open>Up and down\<close>

lemma run_ops_append: "run_ops (xs @ ys) s = (case run_ops xs s of None \<Rightarrow> None | Some s' \<Rightarrow> run_ops ys s')"
  by (induction xs arbitrary: s) (auto split: option.splits)

lemma run_keeps_ok: "schema_ok s \<Longrightarrow> run_ops xs s = Some s' \<Longrightarrow> schema_ok s'"
  by (induction xs arbitrary: s) (auto split: option.splits dest: keeps_ok)

lemma run_undo:
  "schema_ok s \<Longrightarrow> list_all creates xs \<Longrightarrow> run_ops xs s = Some s' \<Longrightarrow> run_ops (rev (map inverse_op xs)) s' = Some s"
proof (induction xs arbitrary: s)
  case (Cons x xs)
  then obtain s1 where s1: "apply_op x s = Some s1" "run_ops xs s1 = Some s'" by (auto split: option.splits)
  have "run_ops (rev (map inverse_op xs)) s' = Some s1"
    using Cons.IH [OF keeps_ok [OF Cons.prems(1) s1(1)]] Cons.prems(2) s1(2) by simp
  then show ?case using undo_op [OF Cons.prems(1) s1(1)] Cons.prems(2) by (simp add: run_ops_append)
qed simp

lemma scripts_reversed:
  "r \<in> set revisions \<Longrightarrow> list_all creates (rv_up r) \<and> rv_undo r = rev (map inverse_op (rv_up r))"
  by (auto simp: revisions_def initial_schema_def add_trade_history_def add_pnl_per_share_def
      initial_schema_upgrade_def initial_schema_downgrade_def add_trade_history_upgrade_def
      add_trade_history_downgrade_def add_pnl_per_share_upgrade_def add_pnl_per_share_downgrade_def
      table_def index_def opt_def)

text \<open>
  C39: every migration can be undone. Whatever well-formed schema the upgrade of a script turns into
  another one, the result is well-formed and its downgrade restores exactly the schema before.
\<close>

theorem downgrade_restores:
  assumes "schema_ok s" and "r \<in> set revisions" and "run_ops (rv_up r) s = Some s'"
  shows "schema_ok s' \<and> run_ops (rv_undo r) s' = Some s"
  using run_keeps_ok [OF assms(1,3)] run_undo [OF assms(1) _ assms(3)] scripts_reversed [OF assms(2)] by simp

definition migrated :: schema where
  "migrated = made (initial_schema_upgrade @ add_trade_history_upgrade @ add_pnl_per_share_upgrade) empty_schema"

lemma path_order: "upgrade_path (length revisions) None revisions = [initial_schema, add_trade_history, add_pnl_per_share]"
  by (simp add: revisions_def initial_schema_def add_trade_history_def add_pnl_per_share_def numeral_eq_Suc)

lemma first_ops_run: "creates_ok (take 8 initial_schema_upgrade) empty_schema"
  by code_simp

lemma next_ops_run: "creates_ok (take 6 (drop 8 initial_schema_upgrade)) (made (take 8 initial_schema_upgrade) empty_schema)"
  by code_simp

lemma more_ops_run:
  "creates_ok (take 7 (drop 14 initial_schema_upgrade))
     (made (take 6 (drop 8 initial_schema_upgrade)) (made (take 8 initial_schema_upgrade) empty_schema))"
  by code_simp

lemma last_ops_run:
  "creates_ok (drop 21 initial_schema_upgrade)
     (made (take 7 (drop 14 initial_schema_upgrade))
       (made (take 6 (drop 8 initial_schema_upgrade)) (made (take 8 initial_schema_upgrade) empty_schema)))"
  by code_simp

lemma cut_upgrade:
  "initial_schema_upgrade = take 8 initial_schema_upgrade @ take 6 (drop 8 initial_schema_upgrade) @
     take 7 (drop 14 initial_schema_upgrade) @ drop 21 initial_schema_upgrade"
  using append_take_drop_id [of 8 initial_schema_upgrade] append_take_drop_id [of 6 "drop 8 initial_schema_upgrade"]
    append_take_drop_id [of 7 "drop 14 initial_schema_upgrade"]
  by simp

lemma history_table_runs: "creates_ok (take 1 add_trade_history_upgrade) (made initial_schema_upgrade empty_schema)"
  by code_simp

lemma history_indexes_run:
  "creates_ok (drop 1 add_trade_history_upgrade)
     (made (take 1 add_trade_history_upgrade) (made initial_schema_upgrade empty_schema))"
  by code_simp

lemma history_runs: "creates_ok add_trade_history_upgrade (made initial_schema_upgrade empty_schema)"
  using history_table_runs history_indexes_run creates_ok_append [of "take 1 add_trade_history_upgrade" "drop 1 add_trade_history_upgrade"]
  by (simp only: append_take_drop_id)

lemma share_runs: "creates_ok add_pnl_per_share_upgrade (made add_trade_history_upgrade (made initial_schema_upgrade empty_schema))"
  by code_simp

lemma upgrade_migrated: "upgrade_head revisions None empty_schema = Some migrated"
proof -
  have "creates_ok initial_schema_upgrade empty_schema"
    by (subst cut_upgrade, unfold creates_ok_append)
      (intro conjI first_ops_run next_ops_run more_ops_run last_ops_run)
  then have "creates_ok (initial_schema_upgrade @ add_trade_history_upgrade @ add_pnl_per_share_upgrade) empty_schema"
    unfolding creates_ok_append using history_runs share_runs by blast
  moreover have "concat (map rv_up (upgrade_path (length revisions) None revisions)) =
      initial_schema_upgrade @ add_trade_history_upgrade @ add_pnl_per_share_upgrade"
    by (simp only: path_order) (simp add: initial_schema_def add_trade_history_def add_pnl_per_share_def)
  ultimately show ?thesis unfolding upgrade_head_def migrated_def using run_creates by simp
qed

definition models_drift :: "sql_table \<Rightarrow> drift list" where
  "models_drift a = (case find_table (tb_name a) (orm_schema all_models) of
     None \<Rightarrow> [TableDrift (tb_name a)] | Some b \<Rightarrow> table_drift a b)"

definition exchange_drift :: "string \<Rightarrow> drift" where
  "exchange_drift t =
     ColumnDrift t ''exchange'' (Some (req ''exchange'' (SqlEnum ''exchange_enum'' [''NFO'', ''BFO''] 32)))
       (Some (req ''exchange'' (enum_column ''exchange_enum'' members_Exchange)))"

lemma drift_1: "concat (map models_drift (take 3 (sc_tables migrated))) = [exchange_drift ''strategy_instances'']"
  by code_simp

lemma drift_2: "concat (map models_drift (take 3 (drop 3 (sc_tables migrated)))) = []"
  by code_simp

lemma drift_3: "concat (map models_drift (take 4 (drop 6 (sc_tables migrated)))) = [exchange_drift ''trades'']"
  by code_simp

lemma drift_4: "concat (map models_drift (drop 10 (sc_tables migrated))) = []"
  by code_simp

lemma drift_5: "filter (\<lambda>n. find_table n migrated = None) (map tb_name (sc_tables (orm_schema all_models))) = []"
  by code_simp

lemma drift_6: "unmatched in_name (sc_indexes migrated) (sc_indexes (orm_schema all_models)) = []"
  by code_simp

text \<open>
  C38: the migrations build the tables the models declare. The scripts form one chain with a single
  head, running it on an empty database succeeds, and the result has every table, column, type,
  default, key, check, reference and index of the models and nothing else, with one exception: the
  exchange columns of instances and trades, created before the cash exchanges were added, still admit
  the two derivative exchanges only.
\<close>

theorem migrations_match_models:
  "revision_heads revisions = [rv_id (last (upgrade_path (length revisions) None revisions))] \<and>
   map_option (\<lambda>s. schema_drift s (orm_schema all_models)) (upgrade_head revisions None empty_schema) =
     Some [exchange_drift ''strategy_instances'', exchange_drift ''trades'']"
proof
  show "revision_heads revisions = [rv_id (last (upgrade_path (length revisions) None revisions))]"
    unfolding path_order
    by (simp add: revision_heads_def revisions_def initial_schema_def add_trade_history_def add_pnl_per_share_def)
  have cut: "sc_tables migrated = take 3 (sc_tables migrated) @ take 3 (drop 3 (sc_tables migrated)) @
      take 4 (drop 6 (sc_tables migrated)) @ drop 10 (sc_tables migrated)"
    using append_take_drop_id [of 3 "sc_tables migrated"] append_take_drop_id [of 3 "drop 3 (sc_tables migrated)"]
      append_take_drop_id [of 4 "drop 6 (sc_tables migrated)"] by simp
  have "concat (map models_drift (sc_tables migrated)) = [exchange_drift ''strategy_instances'', exchange_drift ''trades'']"
    by (subst cut) (simp only: map_append concat_append drift_1 drift_2 drift_3 drift_4 append_Nil append_Nil2 append_Cons)
  then have drift: "schema_drift migrated (orm_schema all_models) = [exchange_drift ''strategy_instances'', exchange_drift ''trades'']"
    unfolding schema_drift_def drift_5 drift_6 models_drift_def by simp
  show "map_option (\<lambda>s. schema_drift s (orm_schema all_models)) (upgrade_head revisions None empty_schema) =
      Some [exchange_drift ''strategy_instances'', exchange_drift ''trades'']"
    unfolding upgrade_migrated using drift by simp
qed

theorem undo_witness:
  "schema_ok empty_schema \<and> run_ops (rv_undo initial_schema) (made initial_schema_upgrade empty_schema) = Some empty_schema"
proof -
  have ok: "schema_ok empty_schema" by (simp add: schema_ok_def empty_schema_def)
  have "creates_ok initial_schema_upgrade empty_schema"
    by (subst cut_upgrade, unfold creates_ok_append)
      (intro conjI first_ops_run next_ops_run more_ops_run last_ops_run)
  then have "run_ops (rv_up initial_schema) empty_schema = Some (made initial_schema_upgrade empty_schema)"
    using run_creates by (simp add: initial_schema_def)
  from downgrade_restores [OF ok _ this] ok show ?thesis by (simp add: revisions_def)
qed

end
