(* ===== verification/Spec2Isabelle.thy ===== *)
theory Spec2Isabelle
  imports Kill_Switch Monitor_Proofs Scheduler_Proofs Risk_Proofs Recon_Proofs Rate_Proofs Market_Proofs Kite_Stream Trade_History Paper_Proofs
    Collector_Proofs Container_Claims Report_Proofs Log_Proofs Token_Map Schema_Proofs
begin

text \<open>
  Verification of the option trading platform under \<open>src/src/algo\<close>.
\<close>

end
